(* ===== verification/Prelude.thy ===== *)
theory Prelude
  imports Main "HOL-Library.Word"
begin

text \<open>
  What every component shares: the integer types of the source, the outcome of a call (it
  returns, it ends in the endless loop of \<open>appError\<close>, or it reaches undefined
  behaviour), one-indexed to zero-indexed conversions on unsigned words, and contiguous
  memory operations (copy a run of cells to an offset).
\<close>

unbundle bit_operations_syntax

named_theorems layout_simps "lengths of the arrays of the lock database"
named_theorems frame_simps "what an operation leaves unchanged"

type_synonym u8 = "8 word"
type_synonym u16 = "16 word"
type_synonym u32 = "32 word"
type_synonym u64 = "64 word"
type_synonym i32 = "32 word"
type_synonym byte = "8 word"

section \<open>Outcomes of calls\<close>

text \<open>
  The error codes of \<open>include/AppTask.h\<close>, and any other CHIP error by its number.
\<close>

datatype app_error =
    APP_ERROR_EVENT_QUEUE_FAILED
  | APP_ERROR_CREATE_TASK_FAILED
  | APP_ERROR_UNHANDLED_EVENT
  | APP_ERROR_CREATE_TIMER_FAILED
  | APP_ERROR_START_TIMER_FAILED
  | APP_ERROR_STOP_TIMER_FAILED
  | APP_ERROR_ALLOCATION_FAILED
  | CHIP_ERROR_OTHER u32

datatype 'a outcome =
    Done 'a
  | Halted app_error
  | Undef

fun obind :: "'a outcome \<Rightarrow> ('a \<Rightarrow> 'b outcome) \<Rightarrow> 'b outcome" where
  "obind (Done x) f = f x"
| "obind (Halted e) f = Halted e"
| "obind Undef f = Undef"

lemma obind_Done_iff: "obind m f = Done y \<longleftrightarrow> (\<exists>x. m = Done x \<and> f x = Done y)"
  by (cases m) auto

lemma Done_obind_iff: "Done y = obind m f \<longleftrightarrow> (\<exists>x. m = Done x \<and> f x = Done y)"
  by (cases m) auto

lemma obind_Undef_iff: "obind m f = Undef \<longleftrightarrow> m = Undef \<or> (\<exists>x. m = Done x \<and> f x = Undef)"
  by (cases m) auto

lemma obind_assoc: "obind (obind m f) g = obind m (\<lambda>x. obind (f x) g)"
  by (cases m) auto

section \<open>One-indexed words\<close>

lemma unat_dec: "0 < w \<Longrightarrow> unat (w - 1) = unat (w :: 'a::len word) - 1"
  by (metis unat_minus_one word_gt_0)

lemma word_pos_unat: "0 < (w :: 'a::len word) \<longleftrightarrow> 0 < unat w"
  by (simp add: word_less_nat_alt)

lemma unat_inj_iff: "unat v = unat w \<longleftrightarrow> v = (w :: 'a::len word)"
  by (auto intro: unsigned_word_eqI)

lemma dec_inj: "0 < v \<Longrightarrow> 0 < w \<Longrightarrow> unat (v - 1) = unat (w - 1) \<Longrightarrow> v = (w :: 'a::len word)"
  by (metis diff_add_cancel unsigned_word_eqI)

lemma u16_zero_dec: "unat ((0 :: u16) - 1) = 65535"
  by (simp add: unsigned_minus_1_eq_mask mask_eq_exp_minus_1)

section \<open>Contiguous memory\<close>

text \<open>
  \<open>memcpy_at off src mem\<close> is \<open>mem\<close> with the cells from \<open>off\<close> on overwritten
  by \<open>src\<close>; \<open>mem_slice off n mem\<close> are the \<open>n\<close> cells from \<open>off\<close> on.
\<close>

definition memcpy_at :: "nat \<Rightarrow> 'a list \<Rightarrow> 'a list \<Rightarrow> 'a list" where
  "memcpy_at off src mem = take off mem @ src @ drop (off + length src) mem"

definition mem_slice :: "nat \<Rightarrow> nat \<Rightarrow> 'a list \<Rightarrow> 'a list" where
  "mem_slice off n mem = take n (drop off mem)"

lemma length_memcpy_at [simp]:
  "off + length src \<le> length mem \<Longrightarrow> length (memcpy_at off src mem) = length mem"
  by (simp add: memcpy_at_def)

lemma nth_memcpy_at:
  assumes "off + length src \<le> length mem" and "i < length mem"
  shows "memcpy_at off src mem ! i
    = (if off \<le> i \<and> i < off + length src then src ! (i - off) else mem ! i)"
  using assms by (auto simp: memcpy_at_def nth_append min_def)

lemma mem_slice_memcpy_same:
  assumes "off + length src \<le> length mem"
  shows "mem_slice off (length src) (memcpy_at off src mem) = src"
  using assms by (simp add: mem_slice_def memcpy_at_def)

lemma mem_slice_memcpy_disjoint:
  assumes "off + length src \<le> length mem"
    and "off' + n \<le> off \<or> off + length src \<le> off'"
  shows "mem_slice off' n (memcpy_at off src mem) = mem_slice off' n mem"
proof (rule nth_equalityI)
  show "length (mem_slice off' n (memcpy_at off src mem)) = length (mem_slice off' n mem)"
    using assms(1) by (simp add: mem_slice_def)
next
  fix i
  assume "i < length (mem_slice off' n (memcpy_at off src mem))"
  then have "i < n" and "off' + i < length mem"
    using assms(1) by (auto simp: mem_slice_def)
  then show "mem_slice off' n (memcpy_at off src mem) ! i = mem_slice off' n mem ! i"
    using assms by (auto simp: mem_slice_def nth_memcpy_at)
qed

text \<open>
  The element-by-element copy loop \<open>for (i = 0; i < n; ++i) dst[i] = src[i]\<close>: reading or
  writing outside the arrays is undefined.
\<close>

function copy_loop :: "nat \<Rightarrow> nat \<Rightarrow> 'a list \<Rightarrow> 'a list \<Rightarrow> 'a list outcome" where
  "copy_loop i n src dst =
     (if i < n
      then if i < length src \<and> i < length dst
           then copy_loop (Suc i) n src (dst[i := src ! i])
           else Undef
      else Done dst)"
  by pat_completeness auto
termination
  by (relation "measure (\<lambda>(i, n, src, dst). n - i)") auto

declare copy_loop.simps [simp del]

lemma copy_loop_from:
  assumes "i \<le> n" and "n \<le> length src" and "n \<le> length dst"
  shows "copy_loop i n src dst = Done (take i dst @ drop i (take n src) @ drop n dst)"
  using assms
proof (induction i n src dst rule: copy_loop.induct)
  case (1 i n src dst)
  show ?case
  proof (cases "i < n")
    case True
    then have "copy_loop i n src dst = copy_loop (Suc i) n src (dst[i := src ! i])"
      using "1.prems" by (simp add: copy_loop.simps [of i n src dst])
    also have "\<dots> = Done (take (Suc i) (dst[i := src ! i]) @ drop (Suc i) (take n src)
                       @ drop n (dst[i := src ! i]))"
      using True "1.prems" by (intro "1.IH") auto
    also have "take (Suc i) (dst[i := src ! i]) = take i dst @ [src ! i]"
      using True "1.prems" by (simp add: take_Suc_conv_app_nth)
    also have "drop n (dst[i := src ! i]) = drop n dst"
      using True by simp
    also have "(take i dst @ [src ! i]) @ drop (Suc i) (take n src) @ drop n dst
        = take i dst @ drop i (take n src) @ drop n dst"
      using True "1.prems" by (simp flip: Cons_nth_drop_Suc)
    finally show ?thesis .
  next
    case False
    with "1.prems" have "i = n" by simp
    with "1.prems" show ?thesis by (simp add: copy_loop.simps [of n n src dst])
  qed
qed

lemma copy_loop_0:
  "n \<le> length src \<Longrightarrow> n \<le> length dst \<Longrightarrow> copy_loop 0 n src dst = Done (memcpy_at 0 (take n src) dst)"
  by (simp add: copy_loop_from memcpy_at_def)

end
