(* ===== verification/SlotStore.thy ===== *)
theory SlotStore
  imports Prelude
begin

text \<open>
  The contract the lock's databases (users, credentials, the three kinds of schedules) have
  in common, as an interface: a table of slots that are written one at a time. A write is
  accepted or rejected from the key and the value alone; an accepted write changes what a
  read of its own slot returns and nothing else; a rejected one changes nothing. The
  clients' facts (histories of writes, last write wins, independent writes commute) are
  proved here once, and each database interprets the locale on its own operations.
\<close>

text \<open>A history of writes: a rejected write leaves the state as it is.\<close>

fun run_puts :: "('k \<Rightarrow> 'v \<Rightarrow> 's \<Rightarrow> 's option) \<Rightarrow> ('k \<times> 'v) list \<Rightarrow> 's \<Rightarrow> 's" where
  "run_puts put [] s = s"
| "run_puts put ((k, v) # ops) s =
     run_puts put ops (case put k v s of None \<Rightarrow> s | Some s' \<Rightarrow> s')"

text \<open>The specification of a history: a finite map that forgets the rejected writes.\<close>

fun spec_puts :: "('k \<Rightarrow> 'v \<Rightarrow> bool) \<Rightarrow> ('k \<Rightarrow> 'v \<Rightarrow> 'r) \<Rightarrow> ('k \<times> 'v) list \<Rightarrow> ('k \<rightharpoonup> 'r) \<Rightarrow> ('k \<rightharpoonup> 'r)" where
  "spec_puts acc img [] m = m"
| "spec_puts acc img ((k, v) # ops) m =
     spec_puts acc img ops (if acc k v then m(k \<mapsto> img k v) else m)"

lemma spec_puts_map_of:
  "spec_puts acc img ops m
    = m ++ map_of (rev (map (\<lambda>(k, v). (k, img k v)) (filter (\<lambda>(k, v). acc k v) ops)))"
  by (induction ops arbitrary: m) (auto simp: map_add_def fun_eq_iff split: option.splits)

lemma spec_puts_append:
  "spec_puts acc img (xs @ ys) m = spec_puts acc img ys (spec_puts acc img xs m)"
  by (induction xs arbitrary: m) auto

lemma spec_puts_untouched:
  "(\<And>v. (k, v) \<in> set ops \<Longrightarrow> \<not> acc k v) \<Longrightarrow> spec_puts acc img ops m k = m k"
proof (induction ops arbitrary: m)
  case Nil
  then show ?case by simp
next
  case (Cons op ops)
  then show ?case by (cases op) (auto simp: fun_upd_def)
qed

locale slot_store =
  fixes inv :: "'s \<Rightarrow> bool"
    and pre :: "'v \<Rightarrow> bool"
    and accept :: "'s \<Rightarrow> 'k \<Rightarrow> 'v \<Rightarrow> bool"
    and put :: "'k \<Rightarrow> 'v \<Rightarrow> 's \<Rightarrow> 's option"
    and view :: "'s \<Rightarrow> 'k \<rightharpoonup> 'r"
    and img :: "'k \<Rightarrow> 'v \<Rightarrow> 'r"
  assumes put_decides: "inv s \<Longrightarrow> pre v \<Longrightarrow> put k v s \<noteq> None \<longleftrightarrow> accept s k v"
    and put_inv: "inv s \<Longrightarrow> pre v \<Longrightarrow> put k v s = Some s' \<Longrightarrow> inv s'"
    and put_accept: "inv s \<Longrightarrow> pre v \<Longrightarrow> put k v s = Some s' \<Longrightarrow> accept s' = accept s"
    and view_put: "inv s \<Longrightarrow> pre v \<Longrightarrow> put k v s = Some s' \<Longrightarrow> view s' = (view s)(k \<mapsto> img k v)"
begin

lemma view_put_same: "inv s \<Longrightarrow> pre v \<Longrightarrow> put k v s = Some s' \<Longrightarrow> view s' k = Some (img k v)"
  by (simp add: view_put)

lemma view_put_other:
  "inv s \<Longrightarrow> pre v \<Longrightarrow> put k v s = Some s' \<Longrightarrow> k' \<noteq> k \<Longrightarrow> view s' k' = view s k'"
  by (simp add: view_put)

text \<open>One write simulates one step of the map.\<close>

lemma put_refines:
  assumes "inv s" and "pre v"
  shows "(case put k v s of None \<Rightarrow> view s | Some s' \<Rightarrow> view s')
    = (if accept s k v then (view s)(k \<mapsto> img k v) else view s)"
  using assms put_decides [of s v k] by (cases "put k v s") (auto simp: view_put)

lemma run_puts_inv_accept:
  assumes "inv s" and "\<forall>(k, v) \<in> set ops. pre v"
  shows "inv (run_puts put ops s) \<and> accept (run_puts put ops s) = accept s"
  using assms
proof (induction ops arbitrary: s)
  case Nil
  then show ?case by simp
next
  case (Cons op ops)
  obtain k v where op: "op = (k, v)" by (cases op)
  show ?case
  proof (cases "put k v s")
    case None
    with Cons op show ?thesis by auto
  next
    case (Some s')
    with Cons.prems op have "inv s'" and "accept s' = accept s"
      by (auto intro: put_inv put_accept)
    with Cons.IH [of s'] Cons.prems op Some show ?thesis by auto
  qed
qed

lemmas run_puts_inv = run_puts_inv_accept [THEN conjunct1]
lemmas run_puts_accept = run_puts_inv_accept [THEN conjunct2]

text \<open>A history of writes simulates the map's history.\<close>

lemma run_puts_refines:
  assumes "inv s" and "\<forall>(k, v) \<in> set ops. pre v"
  shows "view (run_puts put ops s) = spec_puts (accept s) img ops (view s)"
  using assms
proof (induction ops arbitrary: s)
  case Nil
  then show ?case by simp
next
  case (Cons op ops)
  obtain k v where op: "op = (k, v)" by (cases op)
  with Cons.prems have v: "pre v" by auto
  show ?case
  proof (cases "put k v s")
    case None
    with Cons op v show ?thesis using put_decides [of s v k] by auto
  next
    case (Some s')
    then have "accept s k v" using put_decides [of s v k] Cons.prems v by auto
    moreover have "inv s'" and "accept s' = accept s" and "view s' = (view s)(k \<mapsto> img k v)"
      using Some Cons.prems v by (auto intro: put_inv put_accept view_put)
    ultimately show ?thesis using Cons.IH [of s'] Cons.prems op Some by (simp del: fun_upd_apply)
  qed
qed

text \<open>Writes to different slots commute, as far as a reader can tell.\<close>

lemma puts_commute:
  assumes "inv s" and "pre v1" and "pre v2" and "k1 \<noteq> k2"
  shows "view (run_puts put [(k1, v1), (k2, v2)] s) = view (run_puts put [(k2, v2), (k1, v1)] s)"
proof -
  have "view (run_puts put [(k1, v1), (k2, v2)] s)
      = spec_puts (accept s) img [(k1, v1), (k2, v2)] (view s)"
    using assms by (intro run_puts_refines) auto
  also have "\<dots> = spec_puts (accept s) img [(k2, v2), (k1, v1)] (view s)"
    using assms(4) by (auto simp: fun_upd_twist)
  also have "\<dots> = view (run_puts put [(k2, v2), (k1, v1)] s)"
    using assms by (intro run_puts_refines [symmetric]) auto
  finally show ?thesis .
qed

text \<open>The last accepted write of a slot is what a read returns.\<close>

lemma last_write_wins:
  assumes "inv s" and "\<forall>(k, v) \<in> set (xs @ (k, v) # ys). pre v"
    and "accept s k v" and "\<And>v'. (k, v') \<in> set ys \<Longrightarrow> \<not> accept s k v'"
  shows "view (run_puts put (xs @ (k, v) # ys) s) k = Some (img k v)"
proof -
  have "view (run_puts put (xs @ (k, v) # ys) s) k
      = spec_puts (accept s) img (xs @ (k, v) # ys) (view s) k"
    using assms(1,2) by (simp add: run_puts_refines)
  also have "\<dots> = ((spec_puts (accept s) img xs (view s))(k \<mapsto> img k v)) k"
    using assms(3,4) by (simp add: spec_puts_append spec_puts_untouched)
  finally show ?thesis by simp
qed

end

end
