(* ===== verification/LockTypes.thy ===== *)
theory LockTypes
  imports Prelude
begin

text \<open>
  The data of \<open>include/LockManager.h\<close>: the compile-time limits, the initialisation
  parameters with their builder, the entries of the databases and the state of the class
  \<open>LockManager\<close>. An enumeration of the Matter SDK that is stored in an entry is the
  \<open>uint8_t\<close> it is stored as (the numbers of the enumerators the code names are constants of
  the environment); one that is only passed on is a datatype with the enumerators this
  program names and a constructor for the others.
\<close>

section \<open>Resource ranges\<close>

definition kMaxUsers :: u16 where "kMaxUsers = 10"
definition kMaxCredentialsPerUser :: u8 where "kMaxCredentialsPerUser = 10"
definition kMaxWeekdaySchedulesPerUser :: u8 where "kMaxWeekdaySchedulesPerUser = 10"
definition kMaxYeardaySchedulesPerUser :: u8 where "kMaxYeardaySchedulesPerUser = 10"
definition kMaxHolidaySchedules :: u8 where "kMaxHolidaySchedules = 10"
definition kMaxCredentialSize :: u8 where "kMaxCredentialSize = 20"
definition kNumCredentialTypes :: u8 where "kNumCredentialTypes = 6"

text \<open>The product is computed as an \<open>int\<close> and stored in a \<open>uint8_t\<close>.\<close>

definition kMaxCredentials :: u8 where
  "kMaxCredentials = of_nat (unat kMaxUsers * unat kMaxCredentialsPerUser)"

lemma limits [layout_simps]:
  "unat kMaxUsers = 10" "unat kMaxCredentialsPerUser = 10"
  "unat kMaxWeekdaySchedulesPerUser = 10" "unat kMaxYeardaySchedulesPerUser = 10"
  "unat kMaxHolidaySchedules = 10" "unat kMaxCredentialSize = 20"
  "unat kNumCredentialTypes = 6" "unat kMaxCredentials = 100"
  by (simp_all add: kMaxUsers_def kMaxCredentialsPerUser_def kMaxWeekdaySchedulesPerUser_def
      kMaxYeardaySchedulesPerUser_def kMaxHolidaySchedules_def kMaxCredentialSize_def
      kNumCredentialTypes_def kMaxCredentials_def)

section \<open>Initialisation parameters\<close>

record LockParam =
  numberOfUsers :: u16
  numberOfCredentialsPerUser :: u8
  numberOfWeekdaySchedulesPerUser :: u8
  numberOfYeardaySchedulesPerUser :: u8
  numberOfHolidaySchedules :: u8

definition LockParam_default :: LockParam where
  "LockParam_default = \<lparr>numberOfUsers = 0, numberOfCredentialsPerUser = 0,
     numberOfWeekdaySchedulesPerUser = 0, numberOfYeardaySchedulesPerUser = 0,
     numberOfHolidaySchedules = 0\<rparr>"

text \<open>\<open>ParamBuilder\<close>: a chain of setters on a default \<open>LockParam\<close>.\<close>

definition SetNumberOfUsers :: "u16 \<Rightarrow> LockParam \<Rightarrow> LockParam" where
  "SetNumberOfUsers n p = p\<lparr>numberOfUsers := n\<rparr>"

definition SetNumberOfCredentialsPerUser :: "u8 \<Rightarrow> LockParam \<Rightarrow> LockParam" where
  "SetNumberOfCredentialsPerUser n p = p\<lparr>numberOfCredentialsPerUser := n\<rparr>"

definition SetNumberOfWeekdaySchedulesPerUser :: "u8 \<Rightarrow> LockParam \<Rightarrow> LockParam" where
  "SetNumberOfWeekdaySchedulesPerUser n p = p\<lparr>numberOfWeekdaySchedulesPerUser := n\<rparr>"

definition SetNumberOfYeardaySchedulesPerUser :: "u8 \<Rightarrow> LockParam \<Rightarrow> LockParam" where
  "SetNumberOfYeardaySchedulesPerUser n p = p\<lparr>numberOfYeardaySchedulesPerUser := n\<rparr>"

definition SetNumberOfHolidaySchedules :: "u8 \<Rightarrow> LockParam \<Rightarrow> LockParam" where
  "SetNumberOfHolidaySchedules n p = p\<lparr>numberOfHolidaySchedules := n\<rparr>"

section \<open>Enumerations and entries\<close>

type_synonym EndpointId = u16
type_synonym FabricIndex = u8
type_synonym CredentialTypeEnum = u8
type_synonym UserTypeEnum = u8
type_synonym CredentialRuleEnum = u8
type_synonym OperatingModeEnum = u8
type_synonym DaysMaskMap = u8

text \<open>
  \<open>CredentialStruct\<close> of the Matter specification: the type and the index of a
  credential. The program only copies whole structs.
\<close>
type_synonym CredentialStruct = "CredentialTypeEnum \<times> u16"

type_synonym UserStatusEnum = u8
type_synonym DlCredentialStatus = u8
type_synonym DlScheduleStatus = u8
type_synonym DlAssetSource = u8

datatype DlStatus = DlStatus_kSuccess | DlStatus_kFailure | DlStatus_kNotFound
datatype OperationErrorEnum = OperationError_kInvalidCredential | OperationError_other u8
datatype OperationSourceEnum = OperationSource_kUnspecified | OperationSource_other u8
datatype AlarmCodeEnum = AlarmCode_kLockJammed | AlarmCode_other u8

datatype DlLockState =
  kNotFullyLocked | kLocked | kUnlocked | kUnlatched | kUnknownEnumValue

text \<open>
  A \<open>CharSpan\<close>, \<open>ByteSpan\<close> or \<open>Span\<close> into one of the manager's arrays: the null span,
  or a position and a number of cells. The position is a row of \<open>mUserNames\<close> or of
  \<open>mCredentials\<close>, or an offset into \<open>mCredentialData\<close>.
\<close>

datatype span = NullSpan | Span nat nat

fun span_size :: "span \<Rightarrow> nat" where
  "span_size NullSpan = 0"
| "span_size (Span p n) = n"

record EmberAfPluginDoorLockUserInfo =
  userName :: span
  credentials :: span
  userUniqueId :: u32
  userStatus :: UserStatusEnum
  userType :: UserTypeEnum
  credentialRule :: CredentialRuleEnum
  creationSource :: DlAssetSource
  createdBy :: FabricIndex
  modificationSource :: DlAssetSource
  lastModifiedBy :: FabricIndex

record EmberAfPluginDoorLockCredentialInfo =
  crd_status :: DlCredentialStatus
  crd_credentialType :: CredentialTypeEnum
  crd_credentialData :: span
  crd_creationSource :: DlAssetSource
  crd_createdBy :: FabricIndex
  crd_modificationSource :: DlAssetSource
  crd_lastModifiedBy :: FabricIndex

record EmberAfPluginDoorLockWeekDaySchedule =
  daysMask :: DaysMaskMap
  startHour :: u8
  startMinute :: u8
  endHour :: u8
  endMinute :: u8

record EmberAfPluginDoorLockYearDaySchedule =
  yd_localStartTime :: u32
  yd_localEndTime :: u32

record EmberAfPluginDoorLockHolidaySchedule =
  hd_localStartTime :: u32
  hd_localEndTime :: u32
  hd_operatingMode :: OperatingModeEnum

record WeekDaysScheduleInfo =
  wd_status :: DlScheduleStatus
  wd_schedule :: EmberAfPluginDoorLockWeekDaySchedule

record YearDayScheduleInfo =
  yd_status :: DlScheduleStatus
  yd_schedule :: EmberAfPluginDoorLockYearDaySchedule

record HolidayScheduleInfo =
  hd_status :: DlScheduleStatus
  hd_schedule :: EmberAfPluginDoorLockHolidaySchedule

section \<open>The state of the class\<close>

datatype Action_t = LOCK_ACTION | UNLOCK_ACTION | INVALID_ACTION

text \<open>
  An \<open>Action_t\<close> stored in a \<open>uint8_t\<close>: the enumerators are 0, 1 and 2.
\<close>

fun Action_code :: "Action_t \<Rightarrow> u8" where
  "Action_code LOCK_ACTION = 0"
| "Action_code UNLOCK_ACTION = 1"
| "Action_code INVALID_ACTION = 2"

datatype State_t =
    kState_LockInitiated
  | kState_LockCompleted
  | kState_UnlockInitiated
  | kState_UnlockCompleted

text \<open>The functions the callback pointers can hold: those \<open>AppTask\<close> registers.\<close>

datatype Callback_fn_initiated = CB_AppTask_ActionInitiated
datatype Callback_fn_completed = CB_AppTask_ActionCompleted

datatype ConfigKey =
    kConfigKey_LockUser
  | kConfigKey_Credential
  | kConfigKey_LockUserName
  | kConfigKey_CredentialData
  | kConfigKey_UserCredentials
  | kConfigKey_WeekDaySchedules
  | kConfigKey_YearDaySchedules
  | kConfigKey_HolidaySchedules

text \<open>
  The members of \<open>LockManager\<close>, and \<open>flash\<close>, the non-volatile store behind
  \<open>CYW955913Config\<close>. \<open>mCredentialData\<close> is one contiguous block, because the code
  copies into it without a bound.
\<close>

record LockManager =
  mEndpointId :: EndpointId
  mState :: State_t
  mActionInitiated_CB :: "Callback_fn_initiated option"
  mActionCompleted_CB :: "Callback_fn_completed option"
  mLockUsers :: "EmberAfPluginDoorLockUserInfo list"
  mLockCredentials :: "EmberAfPluginDoorLockCredentialInfo list list"
  mWeekdaySchedule :: "WeekDaysScheduleInfo list list"
  mYeardaySchedule :: "YearDayScheduleInfo list list"
  mHolidaySchedule :: "HolidayScheduleInfo list"
  mUserNames :: "byte list list"
  mCredentialData :: "byte list"
  mCredentials :: "CredentialStruct list list"
  LockParams :: LockParam
  flash :: "ConfigKey \<rightharpoonup> byte list"

text \<open>Offset of \<open>mCredentialData[type][index]\<close> in the block.\<close>

definition credential_offset :: "nat \<Rightarrow> nat \<Rightarrow> nat" where
  "credential_offset t i = (t * unat kMaxCredentials + i) * unat kMaxCredentialSize"

lemma credential_offset_eq [layout_simps]: "credential_offset t i = (t * 100 + i) * 20"
  by (simp add: credential_offset_def limits)

lemma credential_offset_bound:
  "t < 6 \<Longrightarrow> i < 100 \<Longrightarrow> credential_offset t i + 20 \<le> 12000"
  by (simp add: layout_simps)

lemma credential_offset_disjoint:
  assumes "i < 100" and "j < 100" and "(t, i) \<noteq> (u, j)"
  shows "credential_offset t i + 20 \<le> credential_offset u j
    \<or> credential_offset u j + 20 \<le> credential_offset t i"
proof -
  have "t * 100 + i \<noteq> u * 100 + j"
  proof
    assume eq: "t * 100 + i = u * 100 + j"
    then have "(t * 100 + i) div 100 = (u * 100 + j) div 100"
      and "(t * 100 + i) mod 100 = (u * 100 + j) mod 100" by simp_all
    with assms show False by simp
  qed
  then consider "t * 100 + i + 1 \<le> u * 100 + j" | "u * 100 + j + 1 \<le> t * 100 + i"
    by linarith
  then show ?thesis by cases (simp_all add: layout_simps)
qed

end
