(* ===== verification/Platform.thy ===== *)
theory Platform
  imports LockTypes
begin

text \<open>
  What the program takes from outside \<open>src/\<close>: build-time switches, constants and functions
  of the Matter SDK, the RTOS abstraction and the object representations the flash images
  are made of. They are fields of one record \<open>env\<close>, an argument of the definitions that
  use them; what the code relies on is stated as named predicates over that record. Also
  here: the event type of \<open>include/AppEvent.h\<close>, which travels through the RTOS queue.
\<close>

section \<open>Application events\<close>

text \<open>
  The enumerators of \<open>AppEventTypes\<close>. They are stored in a \<open>uint16_t Type\<close> and passed as
  an \<open>int32_t\<close> actor, so they are numbers of any width.
\<close>

definition kEventType_Button :: "'a::len word" where "kEventType_Button = 0"
definition kEventType_Timer :: "'a::len word" where "kEventType_Timer = 1"
definition kEventType_Lock :: "'a::len word" where "kEventType_Lock = 2"
definition kEventType_Install :: "'a::len word" where "kEventType_Install = 3"

lemmas event_type_defs = kEventType_Button_def kEventType_Timer_def kEventType_Lock_def
  kEventType_Install_def

text \<open>The handler pointers and the timer contexts (\<open>this\<close> pointers) the code stores.\<close>

datatype EventHandler =
    H_FunctionHandler
  | H_FunctionTimerEventHandler
  | H_LockActionEventHandler
  | H_ActuatorMovementTimerEventHandler

datatype context_ptr = Ctx_LockManager | Ctx_AppTask

text \<open>The anonymous union: the member that was written last.\<close>

datatype event_union =
    ButtonEvent (ButtonIdx: u8) (ButtonAction: u8)
  | TimerEvent (Context: context_ptr)
  | LockEvent (LockAction: u8) (Actor: i32)

record AppEvent =
  Type :: u16
  evt_union :: event_union
  Handler :: "EventHandler option"

section \<open>The environment\<close>

text \<open>A software timer of the RTOS: idle, or armed with its period in milliseconds.\<close>

type_synonym cy_timer = "u32 option"

datatype timer_name = LockTimer | FunctionTimer | ButtonTimer nat | WdtTimer | LvglTimer

record env =
  \<comment> \<open>build-time switches\<close>
  ENABLE_UI :: bool
  ENABLE_BUTTON_LOCK_UNLOCK :: bool
  CYW955913EVK_01 :: bool
  \<comment> \<open>constants and functions of the Matter SDK\<close>
  kProgrammingPIN :: CredentialTypeEnum
  kPin :: CredentialTypeEnum
  UserStatus_kAvailable :: UserStatusEnum
  CredentialStatus_kAvailable :: DlCredentialStatus
  ScheduleStatus_kAvailable :: DlScheduleStatus
  AssetSource_kMatterIM :: DlAssetSource
  DOOR_LOCK_MAX_USER_NAME_SIZE :: nat
  CopyString :: "byte list \<Rightarrow> byte list \<Rightarrow> byte list"
  RequirePIN_Get :: "EndpointId \<Rightarrow> bool option"
  \<comment> \<open>the RTOS: \<open>None\<close> is a result other than \<open>CY_RSLT_SUCCESS\<close>\<close>
  rtos_timer_init :: "timer_name \<Rightarrow> bool"
  rtos_timer_start :: "u32 \<Rightarrow> cy_timer \<Rightarrow> cy_timer option"
  rtos_timer_stop :: "cy_timer \<Rightarrow> cy_timer option"
  rtos_timer_is_running :: "cy_timer \<Rightarrow> bool"
  rtos_queue_put :: "nat \<Rightarrow> AppEvent list \<Rightarrow> AppEvent \<Rightarrow> AppEvent list option"
  \<comment> \<open>\<open>CYW955913Config\<close>: write a blob under a key; read one into a buffer\<close>
  WriteConfigValueBin :: "ConfigKey \<Rightarrow> byte list \<Rightarrow> (ConfigKey \<rightharpoonup> byte list) \<Rightarrow> (ConfigKey \<rightharpoonup> byte list)"
  ReadConfigValueBin :: "ConfigKey \<Rightarrow> byte list \<Rightarrow> (ConfigKey \<rightharpoonup> byte list) \<Rightarrow> byte list"
  \<comment> \<open>object representations: the bytes of a value, and the value of bytes\<close>
  rep_user :: "EmberAfPluginDoorLockUserInfo \<Rightarrow> byte list"
  val_user :: "byte list \<Rightarrow> EmberAfPluginDoorLockUserInfo"
  rep_credential :: "EmberAfPluginDoorLockCredentialInfo \<Rightarrow> byte list"
  val_credential :: "byte list \<Rightarrow> EmberAfPluginDoorLockCredentialInfo"
  rep_credstruct :: "CredentialStruct \<Rightarrow> byte list"
  val_credstruct :: "byte list \<Rightarrow> CredentialStruct"
  rep_weekday_info :: "WeekDaysScheduleInfo \<Rightarrow> byte list"
  val_weekday_info :: "byte list \<Rightarrow> WeekDaysScheduleInfo"
  rep_yearday_info :: "YearDayScheduleInfo \<Rightarrow> byte list"
  val_yearday_info :: "byte list \<Rightarrow> YearDayScheduleInfo"
  rep_holiday_info :: "HolidayScheduleInfo \<Rightarrow> byte list"
  val_holiday_info :: "byte list \<Rightarrow> HolidayScheduleInfo"
  sizeof_user :: nat
  sizeof_credential :: nat
  sizeof_credstruct :: nat
  sizeof_weekday :: nat
  sizeof_weekday_info :: nat
  sizeof_yearday :: nat
  sizeof_yearday_info :: nat
  sizeof_holiday :: nat
  sizeof_holiday_info :: nat

text \<open>The two credential types the code tells apart are different, and within the table.\<close>

definition credential_types_ok :: "env \<Rightarrow> bool" where
  "credential_types_ok E \<longleftrightarrow>
     kPin E \<noteq> kProgrammingPIN E \<and> unat (kPin E) < 6 \<and> unat (kProgrammingPIN E) < 6"

text \<open>
  \<open>chip::Platform::CopyString\<close> copies what fits in the destination less one cell and puts
  a terminating zero behind it; the cells after that are left open.
\<close>

definition copy_string_ok :: "env \<Rightarrow> bool" where
  "copy_string_ok E \<longleftrightarrow>
     (\<forall>dst src. length (CopyString E dst src) = length dst
       \<and> (dst \<noteq> [] \<longrightarrow>
            (let m = min (length dst - 1) (length src)
             in take m (CopyString E dst src) = take m src \<and> CopyString E dst src ! m = 0)))"

text \<open>Starting a timer arms it with the period given, stopping it disarms it.\<close>

definition timer_ok :: "env \<Rightarrow> bool" where
  "timer_ok E \<longleftrightarrow>
     (\<forall>ms t t'. rtos_timer_start E ms t = Some t' \<longrightarrow> t' = Some ms)
   \<and> (\<forall>t t'. rtos_timer_stop E t = Some t' \<longrightarrow> t' = None)
   \<and> (\<forall>t. rtos_timer_is_running E t \<longleftrightarrow> t \<noteq> None)"

text \<open>A queue of a given capacity: a put without waiting appends, or fails when it is full.\<close>

definition queue_ok :: "env \<Rightarrow> bool" where
  "queue_ok E \<longleftrightarrow>
     (\<forall>n q e. rtos_queue_put E n q e = (if length q < n then Some (q @ [e]) else None))"

text \<open>
  The non-volatile store keeps the last blob written under a key; a read fills the front of
  the buffer with it, and leaves the buffer alone when there is none or it does not fit.
\<close>

definition read_blob :: "byte list option \<Rightarrow> byte list \<Rightarrow> byte list" where
  "read_blob b buf = (case b of None \<Rightarrow> buf
     | Some bs \<Rightarrow> if length bs \<le> length buf then memcpy_at 0 bs buf else buf)"

definition flash_ok :: "env \<Rightarrow> bool" where
  "flash_ok E \<longleftrightarrow>
     (\<forall>k bs f. WriteConfigValueBin E k bs f = f(k \<mapsto> bs))
   \<and> (\<forall>k buf f. ReadConfigValueBin E k buf f = read_blob (f k) buf)"

text \<open>The object representation of an array: that of its elements, one after the other.\<close>

definition array_bytes :: "('a \<Rightarrow> byte list) \<Rightarrow> 'a list \<Rightarrow> byte list" where
  "array_bytes rep xs = concat (map rep xs)"

lemma timer_startD: "timer_ok E \<Longrightarrow> rtos_timer_start E ms t = Some t' \<Longrightarrow> t' = Some ms"
  by (simp add: timer_ok_def)

lemma timer_stopD: "timer_ok E \<Longrightarrow> rtos_timer_stop E t = Some t' \<Longrightarrow> t' = None"
  by (simp add: timer_ok_def)

lemma queue_putD:
  "queue_ok E \<Longrightarrow> rtos_queue_put E n q e = (if length q < n then Some (q @ [e]) else None)"
  by (simp add: queue_ok_def)

lemma length_CopyString [layout_simps]:
  "copy_string_ok E \<Longrightarrow> length (CopyString E dst src) = length dst"
  by (simp add: copy_string_ok_def)

text \<open>What a span of the source's own length reads back after the copy.\<close>

definition stored_name :: "nat \<Rightarrow> byte list \<Rightarrow> byte list" where
  "stored_name N nm = (if length nm < N then nm else take (N - 1) nm @ [0])"

lemma take_CopyString:
  assumes "copy_string_ok E" and "length dst = N" and "0 < N" and "length src \<le> N"
  shows "take (length src) (CopyString E dst src) = stored_name N src"
proof -
  let ?c = "CopyString E dst src"
  let ?m = "min (N - 1) (length src)"
  have len: "length ?c = N" and pre: "take ?m ?c = take ?m src" and zero: "?c ! ?m = 0"
    using assms by (auto simp: copy_string_ok_def Let_def)
  show ?thesis
  proof (cases "length src < N")
    case True
    then have "?m = length src" by simp
    with pre True show ?thesis by (simp add: stored_name_def)
  next
    case False
    with assms(4) have eq: "length src = N" by simp
    then have m: "?m = N - 1" by simp
    have "take N ?c = take (N - 1) ?c @ [?c ! (N - 1)]"
      using len assms(3) by (metis Suc_pred' lessI take_Suc_conv_app_nth)
    with pre zero m eq show ?thesis by (simp add: stored_name_def)
  qed
qed

section \<open>A concrete environment\<close>

text \<open>
  One environment that has all the properties above, for the witnesses: a board with the
  LED, no display, timers and queue that work, and the names' limit of the SDK. Its object
  representations are empty: the witnesses that need them replace them.
\<close>

definition copy_string_model :: "byte list \<Rightarrow> byte list \<Rightarrow> byte list" where
  "copy_string_model dst src =
     (let m = min (length dst - 1) (length src)
      in if dst = [] then [] else take m src @ [0] @ drop (Suc m) dst)"

definition demo_env :: env where
  "demo_env = \<lparr>ENABLE_UI = False, ENABLE_BUTTON_LOCK_UNLOCK = False, CYW955913EVK_01 = True,
     kProgrammingPIN = 0, kPin = 1,
     UserStatus_kAvailable = 0, CredentialStatus_kAvailable = 0, ScheduleStatus_kAvailable = 0,
     AssetSource_kMatterIM = 2, DOOR_LOCK_MAX_USER_NAME_SIZE = 10,
     CopyString = copy_string_model, RequirePIN_Get = (\<lambda>_. Some False),
     rtos_timer_init = (\<lambda>_. True), rtos_timer_start = (\<lambda>ms _. Some (Some ms)),
     rtos_timer_stop = (\<lambda>_. Some None), rtos_timer_is_running = (\<lambda>t. t \<noteq> None),
     rtos_queue_put = (\<lambda>n q e. if length q < n then Some (q @ [e]) else None),
     WriteConfigValueBin = (\<lambda>k bs f. f(k \<mapsto> bs)),
     ReadConfigValueBin = (\<lambda>k buf f. read_blob (f k) buf),
     rep_user = (\<lambda>_. []), val_user = (\<lambda>_. undefined), rep_credential = (\<lambda>_. []), val_credential = (\<lambda>_. undefined), rep_credstruct = (\<lambda>_. []), val_credstruct = (\<lambda>_. undefined),
     rep_weekday_info = (\<lambda>_. []), val_weekday_info = (\<lambda>_. undefined), rep_yearday_info = (\<lambda>_. []), val_yearday_info = (\<lambda>_. undefined), rep_holiday_info = (\<lambda>_. []), val_holiday_info = (\<lambda>_. undefined),
     sizeof_user = 0, sizeof_credential = 0, sizeof_credstruct = 0,
     sizeof_weekday = 0, sizeof_weekday_info = 0, sizeof_yearday = 0, sizeof_yearday_info = 0,
     sizeof_holiday = 0, sizeof_holiday_info = 0\<rparr>"

lemma demo_env_simps [simp]:
  "ENABLE_UI demo_env = False" "ENABLE_BUTTON_LOCK_UNLOCK demo_env = False"
  "CYW955913EVK_01 demo_env = True" "kProgrammingPIN demo_env = 0" "kPin demo_env = 1"
  "UserStatus_kAvailable demo_env = 0" "CredentialStatus_kAvailable demo_env = 0"
  "ScheduleStatus_kAvailable demo_env = 0" "AssetSource_kMatterIM demo_env = 2"
  "DOOR_LOCK_MAX_USER_NAME_SIZE demo_env = 10" "RequirePIN_Get demo_env ep = Some False"
  "rtos_timer_init demo_env tn = True" "rtos_timer_start demo_env ms t = Some (Some ms)"
  "rtos_timer_stop demo_env t = Some None" "rtos_timer_is_running demo_env t = (t \<noteq> None)"
  by (simp_all add: demo_env_def)

lemma demo_env_ok:
  "credential_types_ok demo_env" "copy_string_ok demo_env" "timer_ok demo_env" "queue_ok demo_env"
  "flash_ok demo_env"
  by (auto simp: credential_types_ok_def copy_string_ok_def timer_ok_def queue_ok_def
      flash_ok_def demo_env_def copy_string_model_def Let_def nth_append min_def)

end
