(* ===== verification/LockUsers.thy ===== *)
theory LockUsers
  imports SlotStore Platform
begin

text \<open>
  The user database: \<open>LockManager::GetUser\<close>, \<open>SetUser\<close> and \<open>IsValidUserIndex\<close>. An entry
  of \<open>mLockUsers\<close> points into row \<open>userIndex\<close> of \<open>mUserNames\<close> and \<open>mCredentials\<close>; the
  invariant says so, and the reader's view of a slot dereferences the pointers. The
  database interprets the slot store's contract.
\<close>

section \<open>Operations\<close>

definition IsValidUserIndex :: "u16 \<Rightarrow> bool" where
  "IsValidUserIndex userIndex \<longleftrightarrow> userIndex < kMaxUsers"

text \<open>
  \<open>GetUser\<close> fills the caller's struct: for a free slot only its status, otherwise all
  fields but for the credentials span, which is made from the row and the stored size.
\<close>

definition GetUser ::
  "env \<Rightarrow> EndpointId \<Rightarrow> u16 \<Rightarrow> EmberAfPluginDoorLockUserInfo \<Rightarrow> 'z LockManager_scheme
    \<Rightarrow> bool \<times> EmberAfPluginDoorLockUserInfo" where
  "GetUser E endpointId userIndex user s =
     (if \<not> userIndex > 0 then (False, user)
      else let userIndex = userIndex - 1 in
      if \<not> IsValidUserIndex userIndex then (False, user)
      else let userInDb = mLockUsers s ! unat userIndex;
               user = user\<lparr>userStatus := userStatus userInDb\<rparr> in
      if UserStatus_kAvailable E = userStatus user then (True, user)
      else (True, user\<lparr>
        userName := userName userInDb,
        credentials := Span (unat userIndex) (span_size (credentials userInDb)),
        userUniqueId := userUniqueId userInDb,
        userType := userType userInDb,
        credentialRule := credentialRule userInDb,
        creationSource := AssetSource_kMatterIM E,
        createdBy := createdBy userInDb,
        modificationSource := AssetSource_kMatterIM E,
        lastModifiedBy := lastModifiedBy userInDb\<rparr>))"

text \<open>The three blobs a change of a user is written back to.\<close>

definition SaveUsers :: "env \<Rightarrow> 'z LockManager_scheme \<Rightarrow> 'z LockManager_scheme" where
  "SaveUsers E s = s\<lparr>flash :=
     WriteConfigValueBin E kConfigKey_LockUserName (concat (mUserNames s))
     (WriteConfigValueBin E kConfigKey_UserCredentials
       (take (sizeof_credstruct E * unat (numberOfUsers (LockParams s)) * unat kMaxCredentials)
         (array_bytes (rep_credstruct E) (concat (mCredentials s))))
     (WriteConfigValueBin E kConfigKey_LockUser
       (take (sizeof_user E * unat (numberOfUsers (LockParams s)))
         (array_bytes (rep_user E) (mLockUsers s)))
       (flash s)))\<rparr>"

text \<open>
  \<open>creds\<close> is the memory the pointer \<open>credentials\<close> leads to; the loop reads
  \<open>totalCredentials\<close> cells of it.
\<close>

definition SetUser ::
  "env \<Rightarrow> EndpointId \<Rightarrow> u16 \<Rightarrow> FabricIndex \<Rightarrow> FabricIndex \<Rightarrow> byte list \<Rightarrow> u32
    \<Rightarrow> UserStatusEnum \<Rightarrow> UserTypeEnum \<Rightarrow> CredentialRuleEnum \<Rightarrow> CredentialStruct list \<Rightarrow> nat
    \<Rightarrow> 'z LockManager_scheme \<Rightarrow> (bool \<times> 'z LockManager_scheme) outcome" where
  "SetUser E endpointId userIndex creator modifier name uniqueId ustatus usertype rule creds
       totalCredentials s =
     (if \<not> userIndex > 0 then Done (False, s)
      else let userIndex = userIndex - 1 in
      if \<not> IsValidUserIndex userIndex then Done (False, s)
      else if length name > DOOR_LOCK_MAX_USER_NAME_SIZE E then Done (False, s)
      else if totalCredentials > unat (numberOfCredentialsPerUser (LockParams s)) then Done (False, s)
      else
        let u = unat userIndex;
            s = s\<lparr>mUserNames := (mUserNames s)[u := CopyString E (mUserNames s ! u) name]\<rparr>;
            s = s\<lparr>mLockUsers := (mLockUsers s)[u := (mLockUsers s ! u)\<lparr>
                  userName := Span u (length name),
                  userUniqueId := uniqueId,
                  userStatus := ustatus,
                  userType := usertype,
                  credentialRule := rule,
                  lastModifiedBy := modifier,
                  createdBy := creator\<rparr>]\<rparr>
        in obind (copy_loop 0 totalCredentials creds (mCredentials s ! u)) (\<lambda>row.
        let s = s\<lparr>mCredentials := (mCredentials s)[u := row]\<rparr>;
            s = s\<lparr>mLockUsers := (mLockUsers s)[u := (mLockUsers s ! u)\<lparr>
                  credentials := Span u totalCredentials\<rparr>]\<rparr>
        in Done (True, SaveUsers E s)))"

section \<open>Invariant\<close>

definition user_entry_ok :: "env \<Rightarrow> nat \<Rightarrow> EmberAfPluginDoorLockUserInfo \<Rightarrow> bool" where
  "user_entry_ok E u e \<longleftrightarrow>
     userStatus e = UserStatus_kAvailable E
     \<or> (\<exists>n m. userName e = Span u n \<and> n \<le> DOOR_LOCK_MAX_USER_NAME_SIZE E
            \<and> credentials e = Span u m \<and> m \<le> 10)"

definition users_inv :: "env \<Rightarrow> 'z LockManager_scheme \<Rightarrow> bool" where
  "users_inv E s \<longleftrightarrow>
     copy_string_ok E \<and> 0 < DOOR_LOCK_MAX_USER_NAME_SIZE E
   \<and> unat (numberOfCredentialsPerUser (LockParams s)) \<le> 10
   \<and> length (mLockUsers s) = 10
   \<and> length (mUserNames s) = 10
   \<and> (\<forall>r \<in> set (mUserNames s). length r = DOOR_LOCK_MAX_USER_NAME_SIZE E)
   \<and> length (mCredentials s) = 10
   \<and> (\<forall>r \<in> set (mCredentials s). length r = 100)
   \<and> (\<forall>u < 10. user_entry_ok E u (mLockUsers s ! u))"

section \<open>The reader's view\<close>

record user_entry =
  ue_name :: "byte list"
  ue_uniqueId :: u32
  ue_status :: UserStatusEnum
  ue_type :: UserTypeEnum
  ue_rule :: CredentialRuleEnum
  ue_credentials :: "CredentialStruct list"
  ue_creationSource :: DlAssetSource
  ue_createdBy :: FabricIndex
  ue_modificationSource :: DlAssetSource
  ue_lastModifiedBy :: FabricIndex

fun deref_name :: "'z LockManager_scheme \<Rightarrow> span \<Rightarrow> byte list" where
  "deref_name s NullSpan = []"
| "deref_name s (Span u n) = take n (mUserNames s ! u)"

fun deref_credentials :: "'z LockManager_scheme \<Rightarrow> span \<Rightarrow> CredentialStruct list" where
  "deref_credentials s NullSpan = []"
| "deref_credentials s (Span u n) = take n (mCredentials s ! u)"

text \<open>\<open>None\<close>: the index is refused; \<open>Some None\<close>: the slot is free.\<close>

definition view_user ::
  "env \<Rightarrow> EmberAfPluginDoorLockUserInfo \<Rightarrow> 'z LockManager_scheme \<Rightarrow> u16 \<rightharpoonup> user_entry option" where
  "view_user E blank s k =
     (case GetUser E 1 k blank s of (ok, u) \<Rightarrow>
        if \<not> ok then None
        else if userStatus u = UserStatus_kAvailable E then Some None
        else Some (Some \<lparr>ue_name = deref_name s (userName u), ue_uniqueId = userUniqueId u,
               ue_status = userStatus u, ue_type = userType u, ue_rule = credentialRule u,
               ue_credentials = deref_credentials s (credentials u),
               ue_creationSource = creationSource u, ue_createdBy = createdBy u,
               ue_modificationSource = modificationSource u,
               ue_lastModifiedBy = lastModifiedBy u\<rparr>))"

text \<open>The arguments of one \<open>SetUser\<close>.\<close>

record user_args =
  ua_creator :: FabricIndex
  ua_modifier :: FabricIndex
  ua_name :: "byte list"
  ua_uniqueId :: u32
  ua_status :: UserStatusEnum
  ua_type :: UserTypeEnum
  ua_rule :: CredentialRuleEnum
  ua_credentials :: "CredentialStruct list"
  ua_total :: nat

definition put_user ::
  "env \<Rightarrow> u16 \<Rightarrow> user_args \<Rightarrow> 'z LockManager_scheme \<Rightarrow> 'z LockManager_scheme option" where
  "put_user E k v s =
     (case SetUser E 1 k (ua_creator v) (ua_modifier v) (ua_name v) (ua_uniqueId v) (ua_status v)
             (ua_type v) (ua_rule v) (ua_credentials v) (ua_total v) s of
        Done (True, s') \<Rightarrow> Some s' | _ \<Rightarrow> None)"

text \<open>What the caller owes: the pointer leads to as many credentials as announced.\<close>

definition user_pre :: "user_args \<Rightarrow> bool" where
  "user_pre v \<longleftrightarrow> ua_total v \<le> length (ua_credentials v)"

definition user_index_ok :: "u16 \<Rightarrow> bool" where
  "user_index_ok k \<longleftrightarrow> 1 \<le> unat k \<and> unat k \<le> 10"

definition user_accept :: "env \<Rightarrow> 'z LockManager_scheme \<Rightarrow> u16 \<Rightarrow> user_args \<Rightarrow> bool" where
  "user_accept E s k v \<longleftrightarrow> user_index_ok k
     \<and> length (ua_name v) \<le> DOOR_LOCK_MAX_USER_NAME_SIZE E
     \<and> ua_total v \<le> unat (numberOfCredentialsPerUser (LockParams s))"

definition user_image :: "env \<Rightarrow> user_args \<Rightarrow> user_entry option" where
  "user_image E v = (if ua_status v = UserStatus_kAvailable E then None
     else Some \<lparr>ue_name = stored_name (DOOR_LOCK_MAX_USER_NAME_SIZE E) (ua_name v),
            ue_uniqueId = ua_uniqueId v, ue_status = ua_status v, ue_type = ua_type v,
            ue_rule = ua_rule v, ue_credentials = take (ua_total v) (ua_credentials v),
            ue_creationSource = AssetSource_kMatterIM E, ue_createdBy = ua_creator v,
            ue_modificationSource = AssetSource_kMatterIM E, ue_lastModifiedBy = ua_modifier v\<rparr>)"

section \<open>Lemmas\<close>

lemma user_index_cases:
  "(userIndex > 0 \<and> IsValidUserIndex (userIndex - 1)) = user_index_ok userIndex"
proof (cases "userIndex > 0")
  case True
  then show ?thesis
    by (auto simp: IsValidUserIndex_def user_index_ok_def word_less_nat_alt unat_dec limits)
next
  case False
  then show ?thesis by (simp add: user_index_ok_def word_less_nat_alt)
qed

lemma user_index_okD:
  "user_index_ok k \<Longrightarrow> k > 0 \<and> IsValidUserIndex (k - 1) \<and> unat (k - 1) = unat k - 1 \<and> unat (k - 1) < 10"
  using user_index_cases [of k] by (auto simp: unat_dec user_index_ok_def)

text \<open>An accepted write, with the state it leaves.\<close>

definition user_written ::
  "env \<Rightarrow> nat \<Rightarrow> user_args \<Rightarrow> 'z LockManager_scheme \<Rightarrow> 'z LockManager_scheme" where
  "user_written E u v s = s\<lparr>
     mUserNames := (mUserNames s)[u := CopyString E (mUserNames s ! u) (ua_name v)],
     mCredentials := (mCredentials s)[u := memcpy_at 0 (take (ua_total v) (ua_credentials v))
        (mCredentials s ! u)],
     mLockUsers := (mLockUsers s)[u := (mLockUsers s ! u)\<lparr>
        userName := Span u (length (ua_name v)), userUniqueId := ua_uniqueId v,
        userStatus := ua_status v, userType := ua_type v, credentialRule := ua_rule v,
        lastModifiedBy := ua_modifier v, createdBy := ua_creator v,
        credentials := Span u (ua_total v)\<rparr>]\<rparr>"

text \<open>The outcome of \<open>SetUser\<close>: refused without a change, or written and saved.\<close>

lemma SetUser_eq:
  assumes "users_inv E s" and "user_pre v"
  shows "SetUser E ep k (ua_creator v) (ua_modifier v) (ua_name v) (ua_uniqueId v) (ua_status v)
      (ua_type v) (ua_rule v) (ua_credentials v) (ua_total v) s
    = Done (if user_accept E s k v then (True, SaveUsers E (user_written E (unat k - 1) v s))
            else (False, s))"
proof (cases "user_accept E s k v")
  case True
  then have k: "k > 0" "IsValidUserIndex (k - 1)" "unat (k - 1) = unat k - 1" "unat k - 1 < 10"
    using user_index_okD [of k] by (auto simp: user_accept_def)
  let ?row = "mCredentials s ! (unat k - 1)"
  have "length ?row = 100" using assms(1) k by (simp add: users_inv_def)
  then have copy: "copy_loop 0 (ua_total v) (ua_credentials v) ?row
      = Done (memcpy_at 0 (take (ua_total v) (ua_credentials v)) ?row)"
    using True assms by (intro copy_loop_0) (auto simp: user_pre_def user_accept_def users_inv_def)
  show ?thesis
    using True k copy assms(1)
    by (simp add: SetUser_def Let_def user_accept_def users_inv_def user_written_def)
next
  case False
  then show ?thesis
    using user_index_cases [of k] by (auto simp: SetUser_def Let_def user_accept_def)
qed

lemma put_user_eq:
  assumes "users_inv E s" and "user_pre v"
  shows "put_user E k v s = (if user_accept E s k v
     then Some (SaveUsers E (user_written E (unat k - 1) v s)) else None)"
  by (simp add: put_user_def SetUser_eq [OF assms])

lemma SaveUsers_simps [simp]:
  "mLockUsers (SaveUsers E s) = mLockUsers s" "mUserNames (SaveUsers E s) = mUserNames s"
  "mCredentials (SaveUsers E s) = mCredentials s" "LockParams (SaveUsers E s) = LockParams s"
  "mState (SaveUsers E s) = mState s"
  "mLockCredentials (SaveUsers E s) = mLockCredentials s"
  "mCredentialData (SaveUsers E s) = mCredentialData s"
  by (simp_all add: SaveUsers_def)

lemma user_written_inv:
  assumes "users_inv E s" and "user_pre v" and "user_accept E s k v" and u: "u < 10"
  shows "users_inv E (SaveUsers E (user_written E u v s))"
proof -
  have "\<forall>r \<in> set ((mUserNames s)[u := CopyString E (mUserNames s ! u) (ua_name v)]).
      length r = DOOR_LOCK_MAX_USER_NAME_SIZE E"
    using assms(1) u by (auto simp: users_inv_def length_CopyString dest!: set_update_subset_insert [THEN subsetD])
  moreover have "\<forall>r \<in> set (mCredentials (user_written E u v s)). length r = 100"
    using assms u
    by (auto simp: users_inv_def user_written_def user_accept_def user_pre_def
        dest!: set_update_subset_insert [THEN subsetD])
  ultimately show ?thesis
    using assms u
    by (auto simp: users_inv_def user_written_def user_entry_ok_def user_accept_def nth_list_update)
qed

text \<open>The view of a slot depends on its own entry and rows only.\<close>

lemma view_user_eq:
  assumes "users_inv E s"
  shows "view_user E blank s k = (if user_index_ok k then
      let e = mLockUsers s ! (unat k - 1) in
      Some (if userStatus e = UserStatus_kAvailable E then None
        else Some \<lparr>ue_name = take (span_size (userName e)) (mUserNames s ! (unat k - 1)),
          ue_uniqueId = userUniqueId e, ue_status = userStatus e, ue_type = userType e,
          ue_rule = credentialRule e,
          ue_credentials = take (span_size (credentials e)) (mCredentials s ! (unat k - 1)),
          ue_creationSource = AssetSource_kMatterIM E, ue_createdBy = createdBy e,
          ue_modificationSource = AssetSource_kMatterIM E, ue_lastModifiedBy = lastModifiedBy e\<rparr>)
     else None)"
proof (cases "user_index_ok k")
  case True
  then have k: "k > 0" "IsValidUserIndex (k - 1)" "unat (k - 1) = unat k - 1" "unat k - 1 < 10"
    using user_index_okD [of k] by auto
  with assms have "user_entry_ok E (unat k - 1) (mLockUsers s ! (unat k - 1))"
    by (simp add: users_inv_def)
  with k True show ?thesis
    by (auto simp: view_user_def GetUser_def Let_def user_entry_ok_def)
next
  case False
  then show ?thesis
    using user_index_cases [of k] by (auto simp: view_user_def GetUser_def Let_def)
qed

lemma view_user_written:
  assumes inv: "users_inv E s" and pre: "user_pre v" and acc: "user_accept E s k v"
    and u: "u = unat k - 1"
  shows "view_user E blank (SaveUsers E (user_written E u v s))
    = (view_user E blank s)(k \<mapsto> user_image E v)"
proof
  fix k'
  let ?s' = "SaveUsers E (user_written E u v s)"
  have k: "user_index_ok k" "u < 10" "unat k = Suc u"
    using acc u user_index_okD [of k] by (auto simp: user_accept_def user_index_ok_def)
  have inv': "users_inv E ?s'" using inv pre acc k(2) by (rule user_written_inv)
  show "view_user E blank ?s' k' = ((view_user E blank s)(k \<mapsto> user_image E v)) k'"
  proof (cases "k' = k")
    case True
    have rows: "length (mUserNames s ! u) = DOOR_LOCK_MAX_USER_NAME_SIZE E"
      "length (mCredentials s ! u) = 100"
      using inv k by (auto simp: users_inv_def)
    then have "take (length (ua_name v)) (CopyString E (mUserNames s ! u) (ua_name v))
        = stored_name (DOOR_LOCK_MAX_USER_NAME_SIZE E) (ua_name v)"
      using inv acc by (intro take_CopyString) (auto simp: users_inv_def user_accept_def)
    with rows show ?thesis
      using True k inv pre unfolding view_user_eq [OF inv']
      by (simp add: Let_def user_image_def user_written_def users_inv_def
          user_pre_def memcpy_at_def)
  next
    case False
    show ?thesis
    proof (cases "user_index_ok k'")
      case True
      have "unat k' \<noteq> unat k" using False by (simp add: unat_inj_iff)
      then have "unat k' - 1 \<noteq> u" using True k by (auto simp: user_index_ok_def)
      with False True show ?thesis
        unfolding view_user_eq [OF inv'] view_user_eq [OF inv]
        by (simp add: user_written_def Let_def)
    next
      case F: False
      with False show ?thesis by (simp add: view_user_eq [OF inv'] view_user_eq [OF inv])
    qed
  qed
qed

interpretation users: slot_store "users_inv E" user_pre "user_accept E" "put_user E"
    "view_user E blank" "\<lambda>_. user_image E" for E blank
proof unfold_locales
  fix s :: "'z LockManager_scheme" and v k
  assume inv: "users_inv E s" and pre: "user_pre v"
  show "put_user E k v s \<noteq> None \<longleftrightarrow> user_accept E s k v"
    using inv pre by (simp add: put_user_eq)
  fix s' :: "'z LockManager_scheme"
  assume put: "put_user E k v s = Some s'"
  then have acc: "user_accept E s k v" and s': "s' = SaveUsers E (user_written E (unat k - 1) v s)"
    using inv pre by (auto simp: put_user_eq split: if_splits)
  show "users_inv E s'" unfolding s' using inv pre acc user_index_okD [of k]
    by (intro user_written_inv) (auto simp: user_accept_def)
  show "user_accept E s' = user_accept E s"
    by (simp add: s' user_accept_def user_written_def fun_eq_iff)
  show "view_user E blank s' = (view_user E blank s)(k \<mapsto> user_image E v)"
    unfolding s' using inv pre acc by (rule view_user_written) simp
qed

end
