(* ===== verification/LockCredentials.thy ===== *)
theory LockCredentials
  imports SlotStore Platform
begin

text \<open>
  The credential database: \<open>LockManager::GetCredential\<close>, \<open>SetCredential\<close> and the two
  validity checks. An entry of \<open>mLockCredentials[type][index]\<close> points to its twenty cells of
  \<open>mCredentialData\<close>; \<open>SetCredential\<close> copies the new data there without comparing its size
  with those twenty. The database interprets the slot store's contract for data that fits.
\<close>

section \<open>Operations\<close>

definition IsValidCredentialIndex :: "env \<Rightarrow> u16 \<Rightarrow> CredentialTypeEnum \<Rightarrow> bool" where
  "IsValidCredentialIndex E credentialIndex type =
     (if kProgrammingPIN E = type then 0 = credentialIndex
      else unat credentialIndex < unat kMaxCredentialsPerUser)"

definition IsValidCredentialType :: "CredentialTypeEnum \<Rightarrow> bool" where
  "IsValidCredentialType type \<longleftrightarrow> type < kNumCredentialTypes"

definition GetCredential ::
  "env \<Rightarrow> EndpointId \<Rightarrow> u16 \<Rightarrow> CredentialTypeEnum \<Rightarrow> EmberAfPluginDoorLockCredentialInfo
    \<Rightarrow> 'z LockManager_scheme \<Rightarrow> bool \<times> EmberAfPluginDoorLockCredentialInfo" where
  "GetCredential E endpointId credentialIndex credentialType credential s =
     (if \<not> IsValidCredentialType credentialType then (False, credential)
      else let credentialIndex =
        (if kProgrammingPIN E = credentialType then credentialIndex else credentialIndex - 1) in
      if \<not> IsValidCredentialIndex E credentialIndex credentialType then (False, credential)
      else let credentialInStorage =
                 mLockCredentials s ! unat credentialType ! unat credentialIndex;
               credential = credential\<lparr>crd_status := crd_status credentialInStorage\<rparr> in
      if CredentialStatus_kAvailable E = crd_status credential then (True, credential)
      else (True, credential\<lparr>
        crd_credentialType := crd_credentialType credentialInStorage,
        crd_credentialData := crd_credentialData credentialInStorage,
        crd_createdBy := crd_createdBy credentialInStorage,
        crd_lastModifiedBy := crd_lastModifiedBy credentialInStorage,
        crd_creationSource := AssetSource_kMatterIM E,
        crd_modificationSource := AssetSource_kMatterIM E\<rparr>))"

text \<open>The two blobs a change of a credential is written back to.\<close>

definition SaveCredentials :: "env \<Rightarrow> 'z LockManager_scheme \<Rightarrow> 'z LockManager_scheme" where
  "SaveCredentials E s = s\<lparr>flash :=
     WriteConfigValueBin E kConfigKey_CredentialData (mCredentialData s)
     (WriteConfigValueBin E kConfigKey_Credential
       (take (sizeof_credential E * unat kMaxCredentials * unat kNumCredentialTypes)
         (array_bytes (rep_credential E) (concat (mLockCredentials s))))
       (flash s))\<rparr>"

text \<open>
  The copy into \<open>mCredentialData[type][index]\<close> goes where the bytes go: past the twenty
  cells of the slot into the next ones, undefined only past the end of the array.
\<close>

definition SetCredential ::
  "env \<Rightarrow> EndpointId \<Rightarrow> u16 \<Rightarrow> FabricIndex \<Rightarrow> FabricIndex \<Rightarrow> DlCredentialStatus
    \<Rightarrow> CredentialTypeEnum \<Rightarrow> byte list \<Rightarrow> 'z LockManager_scheme
    \<Rightarrow> (bool \<times> 'z LockManager_scheme) outcome" where
  "SetCredential E endpointId credentialIndex creator modifier credentialStatus credentialType
       credentialData s =
     (if \<not> IsValidCredentialType credentialType then Done (False, s)
      else let credentialIndex =
        (if kProgrammingPIN E = credentialType then credentialIndex else credentialIndex - 1) in
      if \<not> IsValidCredentialIndex E credentialIndex credentialType then Done (False, s)
      else let t = unat credentialType; i = unat credentialIndex;
               off = credential_offset t i;
               s = s\<lparr>mLockCredentials := (mLockCredentials s)[t := (mLockCredentials s ! t)[i :=
                     (mLockCredentials s ! t ! i)\<lparr>
                       crd_status := credentialStatus,
                       crd_credentialType := credentialType,
                       crd_createdBy := creator,
                       crd_lastModifiedBy := modifier\<rparr>]]\<rparr> in
      if off + length credentialData > length (mCredentialData s) then Undef
      else let s = s\<lparr>mCredentialData := memcpy_at off credentialData (mCredentialData s)\<rparr>;
               s = s\<lparr>mLockCredentials := (mLockCredentials s)[t := (mLockCredentials s ! t)[i :=
                     (mLockCredentials s ! t ! i)\<lparr>
                       crd_credentialData := Span off (length credentialData)\<rparr>]]\<rparr>
      in Done (True, SaveCredentials E s))"

section \<open>Invariant\<close>

definition credential_entry_ok :: "env \<Rightarrow> nat \<Rightarrow> nat \<Rightarrow> EmberAfPluginDoorLockCredentialInfo \<Rightarrow> bool" where
  "credential_entry_ok E t i e \<longleftrightarrow>
     crd_status e = CredentialStatus_kAvailable E
     \<or> (\<exists>n. crd_credentialData e = Span (credential_offset t i) n \<and> n \<le> unat kMaxCredentialSize)"

definition credentials_shape :: "'z LockManager_scheme \<Rightarrow> bool" where
  "credentials_shape s \<longleftrightarrow>
     length (mLockCredentials s) = 6 \<and> (\<forall>r \<in> set (mLockCredentials s). length r = 100)
   \<and> length (mCredentialData s) = 12000"

definition credentials_inv :: "env \<Rightarrow> 'z LockManager_scheme \<Rightarrow> bool" where
  "credentials_inv E s \<longleftrightarrow> credentials_shape s
   \<and> (\<forall>t < 6. \<forall>i < 100. credential_entry_ok E t i (mLockCredentials s ! t ! i))"

section \<open>The reader's view\<close>

record credential_entry =
  ce_status :: DlCredentialStatus
  ce_type :: CredentialTypeEnum
  ce_data :: "byte list"
  ce_creationSource :: DlAssetSource
  ce_createdBy :: FabricIndex
  ce_modificationSource :: DlAssetSource
  ce_lastModifiedBy :: FabricIndex

fun deref_data :: "'z LockManager_scheme \<Rightarrow> span \<Rightarrow> byte list" where
  "deref_data s NullSpan = []"
| "deref_data s (Span off n) = mem_slice off n (mCredentialData s)"

type_synonym credential_key = "CredentialTypeEnum \<times> u16"

definition view_credential ::
  "env \<Rightarrow> EmberAfPluginDoorLockCredentialInfo \<Rightarrow> 'z LockManager_scheme
    \<Rightarrow> credential_key \<rightharpoonup> credential_entry option" where
  "view_credential E blank s k =
     (case GetCredential E 1 (snd k) (fst k) blank s of (ok, c) \<Rightarrow>
        if \<not> ok then None
        else if crd_status c = CredentialStatus_kAvailable E then Some None
        else Some (Some \<lparr>ce_status = crd_status c, ce_type = crd_credentialType c,
               ce_data = deref_data s (crd_credentialData c),
               ce_creationSource = crd_creationSource c, ce_createdBy = crd_createdBy c,
               ce_modificationSource = crd_modificationSource c,
               ce_lastModifiedBy = crd_lastModifiedBy c\<rparr>))"

record credential_args =
  ca_creator :: FabricIndex
  ca_modifier :: FabricIndex
  ca_status :: DlCredentialStatus
  ca_data :: "byte list"

definition put_credential ::
  "env \<Rightarrow> credential_key \<Rightarrow> credential_args \<Rightarrow> 'z LockManager_scheme \<Rightarrow> 'z LockManager_scheme option" where
  "put_credential E k v s =
     (case SetCredential E 1 (snd k) (ca_creator v) (ca_modifier v) (ca_status v) (fst k) (ca_data v) s of
        Done (True, s') \<Rightarrow> Some s' | _ \<Rightarrow> None)"

text \<open>What the caller owes: data that fits a slot.\<close>

definition credential_pre :: "credential_args \<Rightarrow> bool" where
  "credential_pre v \<longleftrightarrow> length (ca_data v) \<le> unat kMaxCredentialSize"

definition credential_key_ok :: "env \<Rightarrow> credential_key \<Rightarrow> bool" where
  "credential_key_ok E k \<longleftrightarrow> unat (fst k) < 6
     \<and> (if fst k = kProgrammingPIN E then snd k = 0 else 1 \<le> unat (snd k) \<and> unat (snd k) \<le> 10)"

definition credential_slot :: "env \<Rightarrow> credential_key \<Rightarrow> nat \<times> nat" where
  "credential_slot E k =
     (unat (fst k), if fst k = kProgrammingPIN E then 0 else unat (snd k) - 1)"

definition credential_image :: "env \<Rightarrow> credential_key \<Rightarrow> credential_args \<Rightarrow> credential_entry option" where
  "credential_image E k v = (if ca_status v = CredentialStatus_kAvailable E then None
     else Some \<lparr>ce_status = ca_status v, ce_type = fst k, ce_data = ca_data v,
            ce_creationSource = AssetSource_kMatterIM E, ce_createdBy = ca_creator v,
            ce_modificationSource = AssetSource_kMatterIM E, ce_lastModifiedBy = ca_modifier v\<rparr>)"

section \<open>Index lemmas\<close>

lemma IsValidCredentialType_iff: "IsValidCredentialType t \<longleftrightarrow> unat t < 6"
  by (simp add: IsValidCredentialType_def word_less_nat_alt limits)

text \<open>The unsigned decrement turns index 0 into 65535, which the bound refuses.\<close>

lemma dec_index_ok: "unat (i - 1) < 10 \<longleftrightarrow> 1 \<le> unat i \<and> unat i \<le> 10" for i :: u16
proof (cases "i = 0")
  case True
  then show ?thesis using u16_zero_dec by simp
next
  case False
  then have "0 < i" by (simp add: word_gt_0)
  then show ?thesis using unat_dec [of i] by (auto simp: word_pos_unat)
qed

lemma credential_key_ok_iff:
  "credential_key_ok E (t, i) \<longleftrightarrow> IsValidCredentialType t
     \<and> IsValidCredentialIndex E (if kProgrammingPIN E = t then i else i - 1) t"
  by (auto simp: credential_key_ok_def IsValidCredentialType_iff IsValidCredentialIndex_def
      limits dec_index_ok)

lemma credential_slot_index:
  assumes "credential_key_ok E (t, i)"
  shows "unat (if kProgrammingPIN E = t then i else i - 1) = snd (credential_slot E (t, i))"
    and "snd (credential_slot E (t, i)) < 10" and "fst (credential_slot E (t, i)) < 6"
proof -
  show "unat (if kProgrammingPIN E = t then i else i - 1) = snd (credential_slot E (t, i))"
  proof (cases "kProgrammingPIN E = t")
    case True
    with assms show ?thesis by (simp add: credential_key_ok_def credential_slot_def)
  next
    case False
    with assms have "0 < i" by (auto simp: credential_key_ok_def word_pos_unat)
    with False show ?thesis by (auto simp: credential_slot_def unat_dec)
  qed
  show "snd (credential_slot E (t, i)) < 10" and "fst (credential_slot E (t, i)) < 6"
    using assms by (auto simp: credential_key_ok_def credential_slot_def split: if_splits)
qed

lemma credential_slot_inj:
  assumes "credential_key_ok E k" and "credential_key_ok E k'"
    and "credential_slot E k = credential_slot E k'"
  shows "k = k'"
proof -
  obtain t i where k: "k = (t, i)" by (cases k)
  obtain t' i' where k': "k' = (t', i')" by (cases k')
  have t: "t = t'" using assms(3) k k' by (simp add: credential_slot_def unat_inj_iff)
  have "unat i = unat i'"
    using assms k k' t by (auto simp: credential_slot_def credential_key_ok_def split: if_splits)
  then show ?thesis using k k' t by (simp add: unat_inj_iff)
qed

section \<open>Writes\<close>

definition credential_written ::
  "nat \<Rightarrow> nat \<Rightarrow> CredentialTypeEnum \<Rightarrow> credential_args \<Rightarrow> 'z LockManager_scheme \<Rightarrow> 'z LockManager_scheme" where
  "credential_written t i type v s = s\<lparr>
     mCredentialData := memcpy_at (credential_offset t i) (ca_data v) (mCredentialData s),
     mLockCredentials := (mLockCredentials s)[t := (mLockCredentials s ! t)[i :=
       (mLockCredentials s ! t ! i)\<lparr>
          crd_status := ca_status v, crd_credentialType := type,
          crd_createdBy := ca_creator v, crd_lastModifiedBy := ca_modifier v,
          crd_credentialData := Span (credential_offset t i) (length (ca_data v))\<rparr>]]\<rparr>"

lemma SaveCredentials_simps [simp]:
  "mLockCredentials (SaveCredentials E s) = mLockCredentials s"
  "mCredentialData (SaveCredentials E s) = mCredentialData s"
  "mLockUsers (SaveCredentials E s) = mLockUsers s" "mState (SaveCredentials E s) = mState s"
  "LockParams (SaveCredentials E s) = LockParams s"
  by (simp_all add: SaveCredentials_def)

lemma credentials_shape_rows:
  "credentials_shape s \<Longrightarrow> t < 6 \<Longrightarrow> length (mLockCredentials s ! t) = 100"
  by (simp add: credentials_shape_def)

text \<open>
  The outcome of \<open>SetCredential\<close> without any assumption on the size of the data: a refused
  key changes nothing, an accepted one writes the entry and the bytes.
\<close>

lemma SetCredential_eq:
  assumes shape: "credentials_shape s"
    and fits: "credential_offset (unat t) (snd (credential_slot E (t, i))) + length (ca_data v) \<le> 12000"
  shows "SetCredential E ep i (ca_creator v) (ca_modifier v) (ca_status v) t (ca_data v) s
    = Done (if credential_key_ok E (t, i)
        then (True, SaveCredentials E
                (credential_written (unat t) (snd (credential_slot E (t, i))) t v s))
        else (False, s))"
proof (cases "credential_key_ok E (t, i)")
  case True
  note idx = credential_slot_index [OF True]
  have t: "unat t < 6" using True by (simp add: credential_key_ok_def)
  have valid: "IsValidCredentialType t"
    "IsValidCredentialIndex E (if kProgrammingPIN E = t then i else i - 1) t"
    using True by (auto simp: credential_key_ok_iff)
  have len: "length (mLockCredentials s) = 6" "length (mLockCredentials s ! unat t) = 100"
    "length (mCredentialData s) = 12000"
    using shape t by (auto simp: credentials_shape_def)
  from True valid idx t len fits show ?thesis
    unfolding SetCredential_def Let_def idx(1)
    by (simp add: credential_written_def)
next
  case False
  then show ?thesis
    by (auto simp: SetCredential_def Let_def credential_key_ok_iff)
qed

lemma credential_fits:
  assumes "credential_pre v" and "credential_key_ok E (t, i)"
  shows "credential_offset (unat t) (snd (credential_slot E (t, i))) + length (ca_data v) \<le> 12000"
proof -
  have "snd (credential_slot E (t, i)) < 100" and "unat t < 6"
    using credential_slot_index [OF assms(2)] assms(2) by (auto simp: credential_key_ok_def)
  then show ?thesis
    using credential_offset_bound [of "unat t" "snd (credential_slot E (t, i))"] assms(1)
    by (simp add: credential_pre_def limits)
qed

lemma put_credential_eq:
  assumes "credentials_shape s" and "credential_pre v"
  shows "put_credential E k v s = (if credential_key_ok E k
     then Some (SaveCredentials E (credential_written (fst (credential_slot E k))
        (snd (credential_slot E k)) (fst k) v s)) else None)"
proof -
  obtain t i where k: "k = (t, i)" by (cases k)
  show ?thesis
  proof (cases "credential_key_ok E k")
    case True
    then show ?thesis
      using SetCredential_eq [OF assms(1) credential_fits [OF assms(2)]] k
      by (simp add: put_credential_def credential_slot_def)
  next
    case False
    then show ?thesis
      using k by (auto simp: put_credential_def SetCredential_def Let_def credential_key_ok_iff)
  qed
qed

lemma credential_written_entry:
  assumes "credentials_shape s" and "t < 6" and "i < 100" and "t' < 6" and "i' < 100"
  shows "mLockCredentials (credential_written t i type v s) ! t' ! i'
    = (if t' = t \<and> i' = i then (mLockCredentials s ! t ! i)\<lparr>
          crd_status := ca_status v, crd_credentialType := type,
          crd_createdBy := ca_creator v, crd_lastModifiedBy := ca_modifier v,
          crd_credentialData := Span (credential_offset t i) (length (ca_data v))\<rparr>
       else mLockCredentials s ! t' ! i')"
  using assms by (auto simp: credential_written_def credentials_shape_def nth_list_update)

lemma credential_written_shape:
  assumes "credentials_shape s" and "t < 6" and "i < 100"
    and "credential_offset t i + length (ca_data v) \<le> 12000"
  shows "credentials_shape (credential_written t i type v s)"
  using assms
  by (auto simp: credentials_shape_def credential_written_def
      dest!: set_update_subset_insert [THEN subsetD])

lemma credential_written_inv:
  assumes inv: "credentials_inv E s" and pre: "credential_pre v" and ti: "t < 6" "i < 100"
  shows "credentials_inv E (SaveCredentials E (credential_written t i type v s))"
proof -
  have shape: "credentials_shape s" using inv by (simp add: credentials_inv_def)
  have "credential_offset t i + length (ca_data v) \<le> 12000"
    using credential_offset_bound [OF ti] pre by (simp add: credential_pre_def limits)
  then have "credentials_shape (credential_written t i type v s)"
    using shape ti by (intro credential_written_shape)
  moreover have "\<forall>t' < 6. \<forall>i' < 100. credential_entry_ok E t' i'
      (mLockCredentials (credential_written t i type v s) ! t' ! i')"
    using inv pre ti
    by (auto simp: credential_written_entry [OF shape] credentials_inv_def credential_entry_ok_def
        credential_pre_def)
  ultimately show ?thesis by (simp add: credentials_inv_def credentials_shape_def)
qed

section \<open>Reads\<close>

lemma view_credential_eq:
  "view_credential E blank s k = (if credential_key_ok E k then
      let e = mLockCredentials s ! fst (credential_slot E k) ! snd (credential_slot E k) in
      Some (if crd_status e = CredentialStatus_kAvailable E then None
        else Some \<lparr>ce_status = crd_status e, ce_type = crd_credentialType e,
          ce_data = deref_data s (crd_credentialData e),
          ce_creationSource = AssetSource_kMatterIM E, ce_createdBy = crd_createdBy e,
          ce_modificationSource = AssetSource_kMatterIM E,
          ce_lastModifiedBy = crd_lastModifiedBy e\<rparr>)
     else None)"
proof -
  obtain t i where k: "k = (t, i)" by (cases k)
  show ?thesis
  proof (cases "credential_key_ok E k")
    case True
    then have valid: "IsValidCredentialType t"
      "IsValidCredentialIndex E (if kProgrammingPIN E = t then i else i - 1) t"
      using k by (auto simp: credential_key_ok_iff)
    have idx: "unat (if kProgrammingPIN E = t then i else i - 1) = snd (credential_slot E k)"
      using credential_slot_index(1) [of E t i] True k by simp
    have "fst (credential_slot E k) = unat t" using k by (simp add: credential_slot_def)
    with True k valid show ?thesis
      unfolding view_credential_def GetCredential_def Let_def k fst_conv snd_conv idx [unfolded k]
      by (auto split: prod.splits)
  next
    case False
    then show ?thesis
      using k by (auto simp: view_credential_def GetCredential_def Let_def credential_key_ok_iff)
  qed
qed

lemma deref_data_save [simp]: "deref_data (SaveCredentials E s) sp = deref_data s sp"
  by (cases sp) simp_all

text \<open>
  A write through \<open>memcpy\<close> leaves the data of every other slot alone exactly because it
  fits its own slot.
\<close>

lemma deref_data_other:
  assumes inv: "credentials_inv E s" and pre: "credential_pre v"
    and ti: "t < 6" "i < 100" and uj: "u < 6" "j < 100" and ne: "(t, i) \<noteq> (u, j)"
    and occ: "crd_status (mLockCredentials s ! u ! j) \<noteq> CredentialStatus_kAvailable E"
  shows "deref_data (credential_written t i type v s) (crd_credentialData (mLockCredentials s ! u ! j))
    = deref_data s (crd_credentialData (mLockCredentials s ! u ! j))"
proof -
  from inv uj occ obtain n where sp:
    "crd_credentialData (mLockCredentials s ! u ! j) = Span (credential_offset u j) n" "n \<le> 20"
    by (auto simp: credentials_inv_def credential_entry_ok_def limits)
  have len: "length (mCredentialData s) = 12000"
    using inv by (simp add: credentials_inv_def credentials_shape_def)
  have v: "length (ca_data v) \<le> 20" using pre by (simp add: credential_pre_def limits)
  have "credential_offset t i + length (ca_data v) \<le> length (mCredentialData s)"
    using credential_offset_bound [OF ti] v len by simp
  moreover have "credential_offset u j + n \<le> credential_offset t i
      \<or> credential_offset t i + length (ca_data v) \<le> credential_offset u j"
    using credential_offset_disjoint [OF ti(2) uj(2) ne] sp(2) v by linarith
  ultimately show ?thesis
    using sp by (simp add: credential_written_def mem_slice_memcpy_disjoint)
qed

lemma view_credential_written:
  assumes inv: "credentials_inv E s" and pre: "credential_pre v" and key: "credential_key_ok E k"
    and slot: "credential_slot E k = (t, i)"
  shows "view_credential E blank (SaveCredentials E (credential_written t i (fst k) v s))
    = (view_credential E blank s)(k \<mapsto> credential_image E k v)"
proof
  fix k'
  let ?w = "credential_written t i (fst k) v s"
  have shape: "credentials_shape s" using inv by (simp add: credentials_inv_def)
  have ti: "t < 6" "i < 100"
    using credential_slot_index(2,3) [of E "fst k" "snd k"] key slot by auto
  show "view_credential E blank (SaveCredentials E ?w) k'
      = ((view_credential E blank s)(k \<mapsto> credential_image E k v)) k'"
  proof (cases "k' = k")
    case True
    have "credential_offset t i + length (ca_data v) \<le> length (mCredentialData s)"
      using credential_offset_bound [OF ti] pre shape
      by (simp add: credential_pre_def limits credentials_shape_def)
    then have "deref_data ?w (Span (credential_offset t i) (length (ca_data v))) = ca_data v"
      by (simp add: credential_written_def mem_slice_memcpy_same)
    with True key slot ti show ?thesis
      by (simp add: view_credential_eq Let_def credential_written_entry [OF shape]
          credential_image_def)
  next
    case False
    show ?thesis
    proof (cases "credential_key_ok E k'")
      case True
      obtain u j where slot': "credential_slot E k' = (u, j)" by (cases "credential_slot E k'")
      have uj: "u < 6" "j < 100"
        using credential_slot_index(2,3) [of E "fst k'" "snd k'"] True slot' by auto
      have ne: "(t, i) \<noteq> (u, j)"
        using credential_slot_inj [OF key True] False slot slot' by auto
      with False True slot' uj ti show ?thesis
        using deref_data_other [OF inv pre ti uj ne]
        by (auto simp: view_credential_eq Let_def credential_written_entry [OF shape])
    next
      case F: False
      with False show ?thesis by (simp add: view_credential_eq)
    qed
  qed
qed

interpretation credentials: slot_store "credentials_inv E" credential_pre
    "\<lambda>_ k _. credential_key_ok E k" "put_credential E" "view_credential E blank"
    "credential_image E" for E blank
proof unfold_locales
  fix s :: "'z LockManager_scheme" and v k
  assume inv: "credentials_inv E s" and pre: "credential_pre v"
  then have eq: "put_credential E k v s = (if credential_key_ok E k
     then Some (SaveCredentials E (credential_written (fst (credential_slot E k))
        (snd (credential_slot E k)) (fst k) v s)) else None)"
    by (intro put_credential_eq) (simp add: credentials_inv_def)
  show "put_credential E k v s \<noteq> None \<longleftrightarrow> credential_key_ok E k" by (simp add: eq)
  fix s' :: "'z LockManager_scheme"
  assume "put_credential E k v s = Some s'"
  then have key: "credential_key_ok E k"
    and s': "s' = SaveCredentials E (credential_written (fst (credential_slot E k))
        (snd (credential_slot E k)) (fst k) v s)"
    by (auto simp: eq split: if_splits)
  have "fst (credential_slot E k) < 6" "snd (credential_slot E k) < 100"
    using credential_slot_index(2,3) [of E "fst k" "snd k"] key by auto
  then show "credentials_inv E s'" unfolding s' using inv pre by (intro credential_written_inv)
  show "view_credential E blank s' = (view_credential E blank s)(k \<mapsto> credential_image E k v)"
    unfolding s' using inv pre key by (intro view_credential_written) auto
qed auto

section \<open>Data that does not fit\<close>

text \<open>
  Data longer than a slot reaches into the next one: the front of the neighbour's stored
  bytes is replaced by the tail of the new data.
\<close>

lemma memcpy_overflow:
  assumes "length d = 20 + x" and "x \<le> n" and "n \<le> 20" and "off + 40 \<le> length mem"
  shows "mem_slice (off + 20) n (memcpy_at off d mem)
    = drop 20 d @ drop x (mem_slice (off + 20) n mem)"
proof (rule nth_equalityI)
  show "length (mem_slice (off + 20) n (memcpy_at off d mem))
      = length (drop 20 d @ drop x (mem_slice (off + 20) n mem))"
    using assms by (simp add: mem_slice_def)
next
  fix j
  assume "j < length (mem_slice (off + 20) n (memcpy_at off d mem))"
  then have j: "j < n" using assms by (simp add: mem_slice_def)
  then show "mem_slice (off + 20) n (memcpy_at off d mem) ! j
      = (drop 20 d @ drop x (mem_slice (off + 20) n mem)) ! j"
    using assms
    by (auto simp: mem_slice_def nth_memcpy_at nth_append add.commute add.left_commute)
qed

end
