(* ===== verification/LockSchedules.thy ===== *)
theory LockSchedules
  imports LockUsers
begin

text \<open>
  The three schedule databases of \<open>LockManager\<close>: week-day and year-day schedules per user,
  holiday schedules for the whole lock, with their index checks. Each interprets the slot
  store's contract. A schedule is free, and then not found, when its status says so.
\<close>

section \<open>Index checks\<close>

definition IsValidWeekdayScheduleIndex :: "u8 \<Rightarrow> bool" where
  "IsValidWeekdayScheduleIndex scheduleIndex \<longleftrightarrow> scheduleIndex < kMaxWeekdaySchedulesPerUser"

definition IsValidYeardayScheduleIndex :: "u8 \<Rightarrow> bool" where
  "IsValidYeardayScheduleIndex scheduleIndex \<longleftrightarrow> scheduleIndex < kMaxYeardaySchedulesPerUser"

definition IsValidHolidayScheduleIndex :: "u8 \<Rightarrow> bool" where
  "IsValidHolidayScheduleIndex scheduleIndex \<longleftrightarrow> scheduleIndex < kMaxHolidaySchedules"

section \<open>Week-day schedules\<close>

definition GetWeekdaySchedule ::
  "env \<Rightarrow> EndpointId \<Rightarrow> u8 \<Rightarrow> u16 \<Rightarrow> EmberAfPluginDoorLockWeekDaySchedule
    \<Rightarrow> 'z LockManager_scheme \<Rightarrow> DlStatus \<times> EmberAfPluginDoorLockWeekDaySchedule" where
  "GetWeekdaySchedule E endpointId weekdayIndex userIndex sched s =
     (if \<not> weekdayIndex > 0 then (DlStatus_kFailure, sched)
      else if \<not> userIndex > 0 then (DlStatus_kFailure, sched)
      else let weekdayIndex = weekdayIndex - 1; userIndex = userIndex - 1 in
      if \<not> IsValidWeekdayScheduleIndex weekdayIndex then (DlStatus_kFailure, sched)
      else if \<not> IsValidUserIndex userIndex then (DlStatus_kFailure, sched)
      else let scheduleInStorage = mWeekdaySchedule s ! unat userIndex ! unat weekdayIndex in
      if ScheduleStatus_kAvailable E = wd_status scheduleInStorage then (DlStatus_kNotFound, sched)
      else (DlStatus_kSuccess, wd_schedule scheduleInStorage))"

text \<open>
  The blob is sized by the schedule struct, not by the array's element, which also holds
  the status.
\<close>

definition SaveWeekdaySchedules :: "env \<Rightarrow> 'z LockManager_scheme \<Rightarrow> 'z LockManager_scheme" where
  "SaveWeekdaySchedules E s = s\<lparr>flash :=
     WriteConfigValueBin E kConfigKey_WeekDaySchedules
       (take (sizeof_weekday E * unat (numberOfWeekdaySchedulesPerUser (LockParams s))
               * unat (numberOfUsers (LockParams s)))
         (array_bytes (rep_weekday_info E) (concat (mWeekdaySchedule s))))
       (flash s)\<rparr>"

definition SetWeekdaySchedule ::
  "env \<Rightarrow> EndpointId \<Rightarrow> u8 \<Rightarrow> u16 \<Rightarrow> DlScheduleStatus \<Rightarrow> DaysMaskMap \<Rightarrow> u8 \<Rightarrow> u8 \<Rightarrow> u8 \<Rightarrow> u8
    \<Rightarrow> 'z LockManager_scheme \<Rightarrow> DlStatus \<times> 'z LockManager_scheme" where
  "SetWeekdaySchedule E endpointId weekdayIndex userIndex status days sHour sMinute eHour eMinute s =
     (if \<not> weekdayIndex > 0 then (DlStatus_kFailure, s)
      else if \<not> userIndex > 0 then (DlStatus_kFailure, s)
      else let weekdayIndex = weekdayIndex - 1; userIndex = userIndex - 1 in
      if \<not> IsValidWeekdayScheduleIndex weekdayIndex then (DlStatus_kFailure, s)
      else if \<not> IsValidUserIndex userIndex then (DlStatus_kFailure, s)
      else let u = unat userIndex; d = unat weekdayIndex;
               info = mWeekdaySchedule s ! u ! d;
               info = info\<lparr>wd_schedule := (wd_schedule info)\<lparr>daysMask := days, startHour := sHour,
                        startMinute := sMinute, endHour := eHour, endMinute := eMinute\<rparr>\<rparr>;
               info = info\<lparr>wd_status := status\<rparr>;
               s = s\<lparr>mWeekdaySchedule := (mWeekdaySchedule s)[u := (mWeekdaySchedule s ! u)[d := info]]\<rparr>
      in (DlStatus_kSuccess, SaveWeekdaySchedules E s))"

section \<open>Year-day schedules\<close>

definition GetYeardaySchedule ::
  "env \<Rightarrow> EndpointId \<Rightarrow> u8 \<Rightarrow> u16 \<Rightarrow> EmberAfPluginDoorLockYearDaySchedule
    \<Rightarrow> 'z LockManager_scheme \<Rightarrow> DlStatus \<times> EmberAfPluginDoorLockYearDaySchedule" where
  "GetYeardaySchedule E endpointId yearDayIndex userIndex sched s =
     (if \<not> yearDayIndex > 0 then (DlStatus_kFailure, sched)
      else if \<not> userIndex > 0 then (DlStatus_kFailure, sched)
      else let yearDayIndex = yearDayIndex - 1; userIndex = userIndex - 1 in
      if \<not> IsValidYeardayScheduleIndex yearDayIndex then (DlStatus_kFailure, sched)
      else if \<not> IsValidUserIndex userIndex then (DlStatus_kFailure, sched)
      else let scheduleInStorage = mYeardaySchedule s ! unat userIndex ! unat yearDayIndex in
      if ScheduleStatus_kAvailable E = yd_status scheduleInStorage then (DlStatus_kNotFound, sched)
      else (DlStatus_kSuccess, yd_schedule scheduleInStorage))"

definition SaveYeardaySchedules :: "env \<Rightarrow> 'z LockManager_scheme \<Rightarrow> 'z LockManager_scheme" where
  "SaveYeardaySchedules E s = s\<lparr>flash :=
     WriteConfigValueBin E kConfigKey_YearDaySchedules
       (take (sizeof_yearday E * unat (numberOfYeardaySchedulesPerUser (LockParams s))
               * unat (numberOfUsers (LockParams s)))
         (array_bytes (rep_yearday_info E) (concat (mYeardaySchedule s))))
       (flash s)\<rparr>"

definition SetYeardaySchedule ::
  "env \<Rightarrow> EndpointId \<Rightarrow> u8 \<Rightarrow> u16 \<Rightarrow> DlScheduleStatus \<Rightarrow> u32 \<Rightarrow> u32
    \<Rightarrow> 'z LockManager_scheme \<Rightarrow> DlStatus \<times> 'z LockManager_scheme" where
  "SetYeardaySchedule E endpointId yearDayIndex userIndex status localStart localEnd s =
     (if \<not> yearDayIndex > 0 then (DlStatus_kFailure, s)
      else if \<not> userIndex > 0 then (DlStatus_kFailure, s)
      else let yearDayIndex = yearDayIndex - 1; userIndex = userIndex - 1 in
      if \<not> IsValidYeardayScheduleIndex yearDayIndex then (DlStatus_kFailure, s)
      else if \<not> IsValidUserIndex userIndex then (DlStatus_kFailure, s)
      else let u = unat userIndex; d = unat yearDayIndex;
               info = mYeardaySchedule s ! u ! d;
               info = info\<lparr>yd_schedule := (yd_schedule info)\<lparr>yd_localStartTime := localStart,
                        yd_localEndTime := localEnd\<rparr>\<rparr>;
               info = info\<lparr>yd_status := status\<rparr>;
               s = s\<lparr>mYeardaySchedule := (mYeardaySchedule s)[u := (mYeardaySchedule s ! u)[d := info]]\<rparr>
      in (DlStatus_kSuccess, SaveYeardaySchedules E s))"

section \<open>Holiday schedules\<close>

definition GetHolidaySchedule ::
  "env \<Rightarrow> EndpointId \<Rightarrow> u8 \<Rightarrow> EmberAfPluginDoorLockHolidaySchedule
    \<Rightarrow> 'z LockManager_scheme \<Rightarrow> DlStatus \<times> EmberAfPluginDoorLockHolidaySchedule" where
  "GetHolidaySchedule E endpointId holidayIndex sched s =
     (if \<not> holidayIndex > 0 then (DlStatus_kFailure, sched)
      else let holidayIndex = holidayIndex - 1 in
      if \<not> IsValidHolidayScheduleIndex holidayIndex then (DlStatus_kFailure, sched)
      else let scheduleInStorage = mHolidaySchedule s ! unat holidayIndex in
      if ScheduleStatus_kAvailable E = hd_status scheduleInStorage then (DlStatus_kNotFound, sched)
      else (DlStatus_kSuccess, hd_schedule scheduleInStorage))"

definition SaveHolidaySchedules :: "env \<Rightarrow> 'z LockManager_scheme \<Rightarrow> 'z LockManager_scheme" where
  "SaveHolidaySchedules E s = s\<lparr>flash :=
     WriteConfigValueBin E kConfigKey_HolidaySchedules
       (take (sizeof_holiday E * unat (numberOfHolidaySchedules (LockParams s)))
         (array_bytes (rep_holiday_info E) (mHolidaySchedule s)))
       (flash s)\<rparr>"

definition SetHolidaySchedule ::
  "env \<Rightarrow> EndpointId \<Rightarrow> u8 \<Rightarrow> DlScheduleStatus \<Rightarrow> u32 \<Rightarrow> u32 \<Rightarrow> OperatingModeEnum
    \<Rightarrow> 'z LockManager_scheme \<Rightarrow> DlStatus \<times> 'z LockManager_scheme" where
  "SetHolidaySchedule E endpointId holidayIndex status localStart localEnd mode s =
     (if \<not> holidayIndex > 0 then (DlStatus_kFailure, s)
      else let holidayIndex = holidayIndex - 1 in
      if \<not> IsValidHolidayScheduleIndex holidayIndex then (DlStatus_kFailure, s)
      else let d = unat holidayIndex;
               info = mHolidaySchedule s ! d;
               info = info\<lparr>hd_schedule := (hd_schedule info)\<lparr>hd_localStartTime := localStart,
                        hd_localEndTime := localEnd, hd_operatingMode := mode\<rparr>\<rparr>;
               info = info\<lparr>hd_status := status\<rparr>;
               s = s\<lparr>mHolidaySchedule := (mHolidaySchedule s)[d := info]\<rparr>
      in (DlStatus_kSuccess, SaveHolidaySchedules E s))"

section \<open>Invariant, views and writes\<close>

definition schedules_inv :: "'z LockManager_scheme \<Rightarrow> bool" where
  "schedules_inv s \<longleftrightarrow>
     length (mWeekdaySchedule s) = 10 \<and> (\<forall>r \<in> set (mWeekdaySchedule s). length r = 10)
   \<and> length (mYeardaySchedule s) = 10 \<and> (\<forall>r \<in> set (mYeardaySchedule s). length r = 10)
   \<and> length (mHolidaySchedule s) = 10"

text \<open>\<open>None\<close>: the indices are refused; \<open>Some None\<close>: no schedule is set.\<close>

fun view_status :: "DlStatus \<times> 'a \<Rightarrow> 'a option option" where
  "view_status (DlStatus_kFailure, x) = None"
| "view_status (DlStatus_kNotFound, x) = Some None"
| "view_status (DlStatus_kSuccess, x) = Some (Some x)"

fun put_status :: "DlStatus \<times> 's \<Rightarrow> 's option" where
  "put_status (DlStatus_kSuccess, s) = Some s"
| "put_status (_, s) = None"

type_synonym schedule_key = "u8 \<times> u16"

definition schedule_key_ok :: "schedule_key \<Rightarrow> bool" where
  "schedule_key_ok k \<longleftrightarrow> 1 \<le> unat (fst k) \<and> unat (fst k) \<le> 10 \<and> user_index_ok (snd k)"

definition view_weekday ::
  "env \<Rightarrow> EmberAfPluginDoorLockWeekDaySchedule \<Rightarrow> 'z LockManager_scheme
    \<Rightarrow> schedule_key \<rightharpoonup> EmberAfPluginDoorLockWeekDaySchedule option" where
  "view_weekday E blank s k = view_status (GetWeekdaySchedule E 1 (fst k) (snd k) blank s)"

definition view_yearday ::
  "env \<Rightarrow> EmberAfPluginDoorLockYearDaySchedule \<Rightarrow> 'z LockManager_scheme
    \<Rightarrow> schedule_key \<rightharpoonup> EmberAfPluginDoorLockYearDaySchedule option" where
  "view_yearday E blank s k = view_status (GetYeardaySchedule E 1 (fst k) (snd k) blank s)"

definition view_holiday ::
  "env \<Rightarrow> EmberAfPluginDoorLockHolidaySchedule \<Rightarrow> 'z LockManager_scheme
    \<Rightarrow> u8 \<rightharpoonup> EmberAfPluginDoorLockHolidaySchedule option" where
  "view_holiday E blank s k = view_status (GetHolidaySchedule E 1 k blank s)"

text \<open>The value of a write: the status and the schedule.\<close>

definition put_weekday ::
  "env \<Rightarrow> schedule_key \<Rightarrow> WeekDaysScheduleInfo \<Rightarrow> 'z LockManager_scheme \<Rightarrow> 'z LockManager_scheme option" where
  "put_weekday E k v s = put_status (SetWeekdaySchedule E 1 (fst k) (snd k) (wd_status v)
     (daysMask (wd_schedule v)) (startHour (wd_schedule v)) (startMinute (wd_schedule v))
     (endHour (wd_schedule v)) (endMinute (wd_schedule v)) s)"

definition put_yearday ::
  "env \<Rightarrow> schedule_key \<Rightarrow> YearDayScheduleInfo \<Rightarrow> 'z LockManager_scheme \<Rightarrow> 'z LockManager_scheme option" where
  "put_yearday E k v s = put_status (SetYeardaySchedule E 1 (fst k) (snd k) (yd_status v)
     (yd_localStartTime (yd_schedule v)) (yd_localEndTime (yd_schedule v)) s)"

definition put_holiday ::
  "env \<Rightarrow> u8 \<Rightarrow> HolidayScheduleInfo \<Rightarrow> 'z LockManager_scheme \<Rightarrow> 'z LockManager_scheme option" where
  "put_holiday E k v s = put_status (SetHolidaySchedule E 1 k (hd_status v)
     (hd_localStartTime (hd_schedule v)) (hd_localEndTime (hd_schedule v))
     (hd_operatingMode (hd_schedule v)) s)"

definition schedule_image :: "env \<Rightarrow> DlScheduleStatus \<Rightarrow> 'a \<Rightarrow> 'a option" where
  "schedule_image E status sched =
     (if status = ScheduleStatus_kAvailable E then None else Some sched)"

section \<open>Lemmas\<close>

lemma schedule_index_cases:
  "w > 0 \<and> unat (w - 1) < 10 \<longleftrightarrow> 1 \<le> unat w \<and> unat w \<le> 10" for w :: u8
proof (cases "w > 0")
  case True
  then show ?thesis by (auto simp: unat_dec word_pos_unat)
next
  case False
  then show ?thesis by (auto simp: word_pos_unat)
qed

lemma weekday_guard:
  "(w > 0 \<and> u > 0 \<and> IsValidWeekdayScheduleIndex (w - 1) \<and> IsValidUserIndex (u - 1))
    = schedule_key_ok (w, u)"
  using schedule_index_cases [of w] user_index_cases [of u]
  by (auto simp: schedule_key_ok_def IsValidWeekdayScheduleIndex_def word_less_nat_alt limits)

lemma yearday_guard:
  "(w > 0 \<and> u > 0 \<and> IsValidYeardayScheduleIndex (w - 1) \<and> IsValidUserIndex (u - 1))
    = schedule_key_ok (w, u)"
  using schedule_index_cases [of w] user_index_cases [of u]
  by (auto simp: schedule_key_ok_def IsValidYeardayScheduleIndex_def word_less_nat_alt limits)

definition holiday_key_ok :: "u8 \<Rightarrow> bool" where
  "holiday_key_ok k \<longleftrightarrow> 1 \<le> unat k \<and> unat k \<le> 10"

lemma holiday_guard: "(w > 0 \<and> IsValidHolidayScheduleIndex (w - 1)) = holiday_key_ok w"
  using schedule_index_cases [of w]
  by (auto simp: holiday_key_ok_def IsValidHolidayScheduleIndex_def word_less_nat_alt limits)

lemma schedule_slot:
  assumes "schedule_key_ok k"
  shows "unat (fst k - 1) = unat (fst k) - 1" "unat (snd k - 1) = unat (snd k) - 1"
    "unat (fst k) - 1 < 10" "unat (snd k) - 1 < 10"
  using assms by (auto simp: schedule_key_ok_def user_index_ok_def unat_dec word_pos_unat)

lemma schedule_slot_inj:
  assumes "schedule_key_ok k" and "schedule_key_ok k'"
    and "unat (fst k) - 1 = unat (fst k') - 1" and "unat (snd k) - 1 = unat (snd k') - 1"
  shows "k = k'"
proof (rule prod_eqI)
  have "unat (fst k) = unat (fst k')"
    using assms unfolding schedule_key_ok_def by linarith
  then show "fst k = fst k'" by (simp add: unat_inj_iff)
  have "unat (snd k) = unat (snd k')"
    using assms unfolding schedule_key_ok_def user_index_ok_def by linarith
  then show "snd k = snd k'" by (simp add: unat_inj_iff)
qed

lemma SaveSchedules_simps [simp]:
  "mWeekdaySchedule (SaveWeekdaySchedules E s) = mWeekdaySchedule s"
  "mYeardaySchedule (SaveWeekdaySchedules E s) = mYeardaySchedule s"
  "mHolidaySchedule (SaveWeekdaySchedules E s) = mHolidaySchedule s"
  "mWeekdaySchedule (SaveYeardaySchedules E s) = mWeekdaySchedule s"
  "mYeardaySchedule (SaveYeardaySchedules E s) = mYeardaySchedule s"
  "mHolidaySchedule (SaveYeardaySchedules E s) = mHolidaySchedule s"
  "mWeekdaySchedule (SaveHolidaySchedules E s) = mWeekdaySchedule s"
  "mYeardaySchedule (SaveHolidaySchedules E s) = mYeardaySchedule s"
  "mHolidaySchedule (SaveHolidaySchedules E s) = mHolidaySchedule s"
  by (simp_all add: SaveWeekdaySchedules_def SaveYeardaySchedules_def SaveHolidaySchedules_def)

text \<open>A cell of a table of ten rows of ten, before and after a write.\<close>

definition table_upd :: "nat \<Rightarrow> nat \<Rightarrow> 'a \<Rightarrow> 'a list list \<Rightarrow> 'a list list" where
  "table_upd u d x xss = xss[u := (xss ! u)[d := x]]"

lemma table_upd_nth:
  assumes "length xss = 10" and "\<forall>r \<in> set xss. length r = 10"
    and "u < 10" "d < 10" "u' < 10" "d' < 10"
  shows "table_upd u d x xss ! u' ! d' = (if u' = u \<and> d' = d then x else xss ! u' ! d')"
  using assms by (auto simp: table_upd_def nth_list_update)

lemma table_upd_shape:
  assumes "length xss = 10" and "\<forall>r \<in> set xss. length r = 10" and "u < 10"
  shows "length (table_upd u d x xss) = 10 \<and> (\<forall>r \<in> set (table_upd u d x xss). length r = 10)"
  using assms by (auto simp: table_upd_def dest!: set_update_subset_insert [THEN subsetD])

lemma table_upd_key:
  assumes "length xss = 10" and "\<forall>r \<in> set xss. length r = 10"
    and k: "schedule_key_ok k" and k': "schedule_key_ok k'"
  shows "table_upd (unat (snd k) - 1) (unat (fst k) - 1) x xss ! (unat (snd k') - 1) ! (unat (fst k') - 1)
    = (if k' = k then x else xss ! (unat (snd k') - 1) ! (unat (fst k') - 1))"
  using assms(1,2) schedule_slot [OF k] schedule_slot [OF k'] schedule_slot_inj [OF k' k]
  by (subst table_upd_nth) auto

lemma put_weekday_eq:
  "put_weekday E k v s = (if schedule_key_ok k then Some (SaveWeekdaySchedules E (s\<lparr>mWeekdaySchedule :=
       table_upd (unat (snd k) - 1) (unat (fst k) - 1) v (mWeekdaySchedule s)\<rparr>)) else None)"
proof (cases "schedule_key_ok k")
  case True
  have whole: "x\<lparr>wd_schedule := (wd_schedule x)\<lparr>daysMask := daysMask (wd_schedule v),
      startHour := startHour (wd_schedule v), startMinute := startMinute (wd_schedule v),
      endHour := endHour (wd_schedule v), endMinute := endMinute (wd_schedule v)\<rparr>,
      wd_status := wd_status v\<rparr> = v" for x by simp
  show ?thesis
    using True weekday_guard [of "fst k" "snd k"] schedule_slot [OF True]
    by (simp add: put_weekday_def SetWeekdaySchedule_def Let_def whole table_upd_def)
next
  case False
  then show ?thesis
    using weekday_guard [of "fst k" "snd k"]
    by (auto simp: put_weekday_def SetWeekdaySchedule_def Let_def)
qed

lemma view_weekday_eq:
  "view_weekday E blank s k = (if schedule_key_ok k then
      let e = mWeekdaySchedule s ! (unat (snd k) - 1) ! (unat (fst k) - 1)
      in Some (schedule_image E (wd_status e) (wd_schedule e)) else None)"
  using weekday_guard [of "fst k" "snd k"] schedule_slot [of k]
  by (auto simp: view_weekday_def GetWeekdaySchedule_def schedule_image_def Let_def)

interpretation weekday: slot_store schedules_inv "\<lambda>_. True" "\<lambda>_ k _. schedule_key_ok k"
    "put_weekday E" "view_weekday E blank"
    "\<lambda>_ v. schedule_image E (wd_status v) (wd_schedule v)" for E blank
proof unfold_locales
  fix s s' :: "'z LockManager_scheme" and v k
  show "put_weekday E k v s \<noteq> None \<longleftrightarrow> schedule_key_ok k" by (simp add: put_weekday_eq)
  assume inv: "schedules_inv s" and "put_weekday E k v s = Some s'"
  then have key: "schedule_key_ok k" and s': "s' = SaveWeekdaySchedules E (s\<lparr>mWeekdaySchedule :=
       table_upd (unat (snd k) - 1) (unat (fst k) - 1) v (mWeekdaySchedule s)\<rparr>)"
    by (auto simp: put_weekday_eq split: if_splits)
  note slot = schedule_slot [OF key]
  show "schedules_inv s'"
    using inv slot table_upd_shape [of "mWeekdaySchedule s"] by (auto simp: s' schedules_inv_def)
  show "view_weekday E blank s' = (view_weekday E blank s)(k \<mapsto>
      schedule_image E (wd_status v) (wd_schedule v))"
    using inv key table_upd_key [of "mWeekdaySchedule s" k, unfolded One_nat_def]
    by (auto simp: fun_eq_iff view_weekday_eq s' Let_def schedules_inv_def)
qed auto

lemma put_yearday_eq:
  "put_yearday E k v s = (if schedule_key_ok k then Some (SaveYeardaySchedules E (s\<lparr>mYeardaySchedule :=
       table_upd (unat (snd k) - 1) (unat (fst k) - 1) v (mYeardaySchedule s)\<rparr>)) else None)"
proof (cases "schedule_key_ok k")
  case True
  have whole: "x\<lparr>yd_schedule := (yd_schedule x)\<lparr>yd_localStartTime := yd_localStartTime (yd_schedule v),
      yd_localEndTime := yd_localEndTime (yd_schedule v)\<rparr>, yd_status := yd_status v\<rparr> = v" for x
    by simp
  show ?thesis
    using True yearday_guard [of "fst k" "snd k"] schedule_slot [OF True]
    by (simp add: put_yearday_def SetYeardaySchedule_def Let_def whole table_upd_def)
next
  case False
  then show ?thesis
    using yearday_guard [of "fst k" "snd k"]
    by (auto simp: put_yearday_def SetYeardaySchedule_def Let_def)
qed

lemma view_yearday_eq:
  "view_yearday E blank s k = (if schedule_key_ok k then
      let e = mYeardaySchedule s ! (unat (snd k) - 1) ! (unat (fst k) - 1)
      in Some (schedule_image E (yd_status e) (yd_schedule e)) else None)"
  using yearday_guard [of "fst k" "snd k"] schedule_slot [of k]
  by (auto simp: view_yearday_def GetYeardaySchedule_def schedule_image_def Let_def)

interpretation yearday: slot_store schedules_inv "\<lambda>_. True" "\<lambda>_ k _. schedule_key_ok k"
    "put_yearday E" "view_yearday E blank"
    "\<lambda>_ v. schedule_image E (yd_status v) (yd_schedule v)" for E blank
proof unfold_locales
  fix s s' :: "'z LockManager_scheme" and v k
  show "put_yearday E k v s \<noteq> None \<longleftrightarrow> schedule_key_ok k" by (simp add: put_yearday_eq)
  assume inv: "schedules_inv s" and "put_yearday E k v s = Some s'"
  then have key: "schedule_key_ok k" and s': "s' = SaveYeardaySchedules E (s\<lparr>mYeardaySchedule :=
       table_upd (unat (snd k) - 1) (unat (fst k) - 1) v (mYeardaySchedule s)\<rparr>)"
    by (auto simp: put_yearday_eq split: if_splits)
  note slot = schedule_slot [OF key]
  show "schedules_inv s'"
    using inv slot table_upd_shape [of "mYeardaySchedule s"] by (auto simp: s' schedules_inv_def)
  show "view_yearday E blank s' = (view_yearday E blank s)(k \<mapsto>
      schedule_image E (yd_status v) (yd_schedule v))"
    using inv key table_upd_key [of "mYeardaySchedule s" k, unfolded One_nat_def]
    by (auto simp: fun_eq_iff view_yearday_eq s' Let_def schedules_inv_def)
qed auto

lemma holiday_slot:
  assumes "holiday_key_ok k"
  shows "unat (k - 1) = unat k - 1" "unat k - 1 < 10"
  using assms by (auto simp: holiday_key_ok_def unat_dec word_pos_unat)

lemma holiday_slot_inj:
  assumes "holiday_key_ok k" and "holiday_key_ok k'" and "unat k - 1 = unat k' - 1"
  shows "k = k'"
proof -
  have "unat k = unat k'" using assms unfolding holiday_key_ok_def by linarith
  then show ?thesis by (simp add: unat_inj_iff)
qed

lemma put_holiday_eq:
  "put_holiday E k v s = (if holiday_key_ok k then Some (SaveHolidaySchedules E (s\<lparr>mHolidaySchedule :=
       (mHolidaySchedule s)[unat k - 1 := v]\<rparr>)) else None)"
proof (cases "holiday_key_ok k")
  case True
  have whole: "x\<lparr>hd_schedule := (hd_schedule x)\<lparr>hd_localStartTime := hd_localStartTime (hd_schedule v),
      hd_localEndTime := hd_localEndTime (hd_schedule v),
      hd_operatingMode := hd_operatingMode (hd_schedule v)\<rparr>, hd_status := hd_status v\<rparr> = v" for x
    by simp
  show ?thesis
    using True holiday_guard [of k] holiday_slot [OF True]
    by (simp add: put_holiday_def SetHolidaySchedule_def Let_def whole)
next
  case False
  then show ?thesis
    using holiday_guard [of k]
    by (auto simp: put_holiday_def SetHolidaySchedule_def Let_def)
qed

lemma view_holiday_eq:
  "view_holiday E blank s k = (if holiday_key_ok k then
      let e = mHolidaySchedule s ! (unat k - 1)
      in Some (schedule_image E (hd_status e) (hd_schedule e)) else None)"
  using holiday_guard [of k] holiday_slot [of k]
  by (auto simp: view_holiday_def GetHolidaySchedule_def schedule_image_def Let_def)

interpretation holiday: slot_store schedules_inv "\<lambda>_. True" "\<lambda>_ k _. holiday_key_ok k"
    "put_holiday E" "view_holiday E blank"
    "\<lambda>_ v. schedule_image E (hd_status v) (hd_schedule v)" for E blank
proof unfold_locales
  fix s s' :: "'z LockManager_scheme" and v k
  show "put_holiday E k v s \<noteq> None \<longleftrightarrow> holiday_key_ok k" by (simp add: put_holiday_eq)
  assume inv: "schedules_inv s" and "put_holiday E k v s = Some s'"
  then have key: "holiday_key_ok k" and s': "s' = SaveHolidaySchedules E (s\<lparr>mHolidaySchedule :=
       (mHolidaySchedule s)[unat k - 1 := v]\<rparr>)"
    by (auto simp: put_holiday_eq split: if_splits)
  show "schedules_inv s'" using inv by (auto simp: s' schedules_inv_def)
  show "view_holiday E blank s' = (view_holiday E blank s)(k \<mapsto>
      schedule_image E (hd_status v) (hd_schedule v))"
    using inv key holiday_slot [OF key] holiday_slot_inj [of _ k]
    by (auto simp: fun_eq_iff view_holiday_eq s' Let_def nth_list_update schedules_inv_def)
qed auto

end
