(* ===== verification/LedWidget.thy ===== *)
theory LedWidget
  imports Prelude
begin

text \<open>
  \<open>src/platform/LEDWidget.cpp\<close>: the state of one LED with its blink timing, and the pin
  writes and PWM calls it issues, oldest first. The pin is only written when the state
  changes; the monotonic clock is an argument of the operations that read it.
\<close>

section \<open>State and operations\<close>

datatype led_level = CYBSP_LED_STATE_ON | CYBSP_LED_STATE_OFF

datatype led_io =
    LedGpioInit int led_level
  | LedGpioWrite int led_level
  | LedPwmStart
  | LedPwmStop

definition LED_MAX_BRIGHTNESS :: u8 where "LED_MAX_BRIGHTNESS = 100"

record LEDWidget =
  mLastChangeTimeMS :: u64
  mBlinkOnTimeMS :: u32
  mBlinkOffTimeMS :: u32
  mLedNum :: int
  led_mState :: bool
  mbrightness :: u8

definition LEDWidget_default :: LEDWidget where
  "LEDWidget_default = \<lparr>mLastChangeTimeMS = 0, mBlinkOnTimeMS = 0, mBlinkOffTimeMS = 0,
     mLedNum = 0, led_mState = False, mbrightness = 0\<rparr>"

definition led_level_of :: "bool \<Rightarrow> led_level" where
  "led_level_of state = (if state then CYBSP_LED_STATE_ON else CYBSP_LED_STATE_OFF)"

definition Led_Init :: "int \<Rightarrow> LEDWidget \<Rightarrow> LEDWidget \<times> led_io list" where
  "Led_Init ledNum w =
     (w\<lparr>mLastChangeTimeMS := 0, mBlinkOnTimeMS := 0, mBlinkOffTimeMS := 0, mLedNum := ledNum,
        led_mState := False, mbrightness := LED_MAX_BRIGHTNESS\<rparr>,
      [LedGpioInit ledNum CYBSP_LED_STATE_OFF])"

definition Led_DoSet :: "bool \<Rightarrow> LEDWidget \<Rightarrow> LEDWidget \<times> led_io list" where
  "Led_DoSet state w =
     (w\<lparr>led_mState := state\<rparr>,
      if led_mState w \<noteq> state then [LedGpioWrite (mLedNum w) (led_level_of state)] else [])"

definition Led_Set :: "bool \<Rightarrow> LEDWidget \<Rightarrow> LEDWidget \<times> led_io list" where
  "Led_Set state w =
     Led_DoSet state (w\<lparr>mBlinkOffTimeMS := 0, mBlinkOnTimeMS := 0, mLastChangeTimeMS := 0\<rparr>)"

definition Led_Invert :: "LEDWidget \<Rightarrow> LEDWidget \<times> led_io list" where
  "Led_Invert w = Led_Set (\<not> led_mState w) w"

definition Led_Get :: "LEDWidget \<Rightarrow> bool" where
  "Led_Get w = led_mState w"

text \<open>The times are added as \<open>uint64_t\<close>, so the sum wraps around.\<close>

definition Led_Animate :: "u64 \<Rightarrow> LEDWidget \<Rightarrow> LEDWidget \<times> led_io list" where
  "Led_Animate nowMS w =
     (if mBlinkOnTimeMS w \<noteq> 0 \<and> mBlinkOffTimeMS w \<noteq> 0
      then let stateDurMS = (if led_mState w then ucast (mBlinkOnTimeMS w) else ucast (mBlinkOffTimeMS w));
               nextChangeTimeMS = mLastChangeTimeMS w + stateDurMS
           in if nextChangeTimeMS < nowMS
              then (case Led_DoSet (\<not> led_mState w) w of
                      (w', io) \<Rightarrow> (w'\<lparr>mLastChangeTimeMS := nowMS\<rparr>, io))
              else (w, [])
      else (w, []))"

definition Led_Blink :: "u64 \<Rightarrow> u32 \<Rightarrow> u32 \<Rightarrow> LEDWidget \<Rightarrow> LEDWidget \<times> led_io list" where
  "Led_Blink nowMS onTimeMS offTimeMS w =
     Led_Animate nowMS (w\<lparr>mBlinkOnTimeMS := onTimeMS, mBlinkOffTimeMS := offTimeMS\<rparr>)"

definition Led_Blink_rate :: "u64 \<Rightarrow> u32 \<Rightarrow> LEDWidget \<Rightarrow> LEDWidget \<times> led_io list" where
  "Led_Blink_rate nowMS changeRateMS w = Led_Blink nowMS changeRateMS changeRateMS w"

definition Led_PWM_start :: "LEDWidget \<Rightarrow> LEDWidget \<times> led_io list" where
  "Led_PWM_start w =
     (if \<not> led_mState w then (w\<lparr>led_mState := True\<rparr>, [LedPwmStart]) else (w, []))"

definition Led_PWM_stop :: "LEDWidget \<Rightarrow> LEDWidget \<times> led_io list" where
  "Led_PWM_stop w =
     (if led_mState w then (w\<lparr>led_mState := False\<rparr>, [LedPwmStop]) else (w, []))"

section \<open>The pin follows the state\<close>

text \<open>The level the pin has after a sequence of calls, if it was set at all.\<close>

fun pin_level :: "int \<Rightarrow> led_io list \<Rightarrow> led_level option \<Rightarrow> led_level option" where
  "pin_level n [] l = l"
| "pin_level n (LedGpioInit m l' # ios) l = pin_level n ios (if m = n then Some l' else l)"
| "pin_level n (LedGpioWrite m l' # ios) l = pin_level n ios (if m = n then Some l' else l)"
| "pin_level n (LedPwmStart # ios) l = pin_level n ios l"
| "pin_level n (LedPwmStop # ios) l = pin_level n ios l"

definition led_sync :: "LEDWidget \<Rightarrow> led_level option \<Rightarrow> bool" where
  "led_sync w l \<longleftrightarrow> l = Some (led_level_of (led_mState w))"

datatype led_op = LedSet bool | LedInvert | LedBlink u32 u32 | LedAnimate

fun led_exec :: "u64 \<Rightarrow> led_op \<Rightarrow> LEDWidget \<Rightarrow> LEDWidget \<times> led_io list" where
  "led_exec now (LedSet b) w = Led_Set b w"
| "led_exec now LedInvert w = Led_Invert w"
| "led_exec now (LedBlink on off) w = Led_Blink now on off w"
| "led_exec now LedAnimate w = Led_Animate now w"

fun led_run :: "(u64 \<times> led_op) list \<Rightarrow> LEDWidget \<Rightarrow> LEDWidget \<times> led_io list" where
  "led_run [] w = (w, [])"
| "led_run ((now, op) # ops) w =
     (case led_exec now op w of (w', io) \<Rightarrow> case led_run ops w' of (w'', io') \<Rightarrow> (w'', io @ io'))"

lemma pin_level_append: "pin_level n (xs @ ys) l = pin_level n ys (pin_level n xs l)"
  by (induction n xs l rule: pin_level.induct) auto

lemma DoSet_sync:
  "Led_DoSet b w = (w', io) \<Longrightarrow> led_sync w l \<Longrightarrow>
     led_sync w' (pin_level (mLedNum w) io l) \<and> mLedNum w' = mLedNum w"
  by (auto simp: Led_DoSet_def led_sync_def led_level_of_def split: if_splits)

lemma Animate_sync:
  "Led_Animate now w = (w', io) \<Longrightarrow> led_sync w l \<Longrightarrow>
     led_sync w' (pin_level (mLedNum w) io l) \<and> mLedNum w' = mLedNum w"
  by (auto simp: Led_Animate_def Led_DoSet_def led_sync_def led_level_of_def Let_def
      split: if_splits)

lemma led_exec_sync:
  assumes "led_exec now op w = (w', io)" and "led_sync w l"
  shows "led_sync w' (pin_level (mLedNum w) io l) \<and> mLedNum w' = mLedNum w"
proof (cases op)
  case (LedSet b)
  with assms show ?thesis
    using DoSet_sync [of b "w\<lparr>mBlinkOffTimeMS := 0, mBlinkOnTimeMS := 0, mLastChangeTimeMS := 0\<rparr>"]
    by (simp add: Led_Set_def led_sync_def)
next
  case LedInvert
  with assms show ?thesis
    using DoSet_sync [of _ "w\<lparr>mBlinkOffTimeMS := 0, mBlinkOnTimeMS := 0, mLastChangeTimeMS := 0\<rparr>"]
    by (simp add: Led_Invert_def Led_Set_def led_sync_def)
next
  case (LedBlink on off)
  with assms show ?thesis
    using Animate_sync [of now "w\<lparr>mBlinkOnTimeMS := on, mBlinkOffTimeMS := off\<rparr>"]
    by (simp add: Led_Blink_def led_sync_def)
next
  case LedAnimate
  with assms show ?thesis by (simp add: Animate_sync)
qed

text \<open>
  After initialisation the pin shows the state whatever sequence of operations follows.
\<close>

lemma led_run_sync:
  "led_run ops w = (w', io) \<Longrightarrow> led_sync w l \<Longrightarrow>
     led_sync w' (pin_level (mLedNum w) io l) \<and> mLedNum w' = mLedNum w"
proof (induction ops arbitrary: w l io)
  case Nil
  then show ?case by simp
next
  case (Cons o1 ops)
  obtain now op where o1: "o1 = (now, op)" by (cases o1)
  obtain w1 io1 where e: "led_exec now op w = (w1, io1)" by (cases "led_exec now op w")
  obtain io2 where r: "led_run ops w1 = (w', io2)" and io: "io = io1 @ io2"
    using Cons.prems(1) o1 e by (auto split: prod.splits)
  from led_exec_sync [OF e Cons.prems(2)]
  have sync: "led_sync w1 (pin_level (mLedNum w) io1 l)" and num: "mLedNum w1 = mLedNum w"
    by simp_all
  from Cons.IH [OF r sync] num show ?case by (simp add: io pin_level_append)
qed

section \<open>Blink timing\<close>

text \<open>
  When the last change is not in the future and the addition does not wrap, the LED toggles
  exactly when more than the phase's duration has passed.
\<close>

definition blink_duration :: "LEDWidget \<Rightarrow> nat" where
  "blink_duration w = unat (if led_mState w then mBlinkOnTimeMS w else mBlinkOffTimeMS w)"

lemma Animate_toggles:
  assumes "mBlinkOnTimeMS w \<noteq> 0" and "mBlinkOffTimeMS w \<noteq> 0"
    and "unat (mLastChangeTimeMS w) + blink_duration w < 2 ^ 64"
  shows "led_mState (fst (Led_Animate now w)) \<noteq> led_mState w
    \<longleftrightarrow> unat (mLastChangeTimeMS w) + blink_duration w < unat now"
proof -
  let ?d = "if led_mState w then ucast (mBlinkOnTimeMS w) else ucast (mBlinkOffTimeMS w) :: u64"
  have d: "unat ?d = blink_duration w"
    by (simp add: blink_duration_def unsigned_ucast_eq take_bit_nat_eq_self less_trans [OF unsigned_less])
  have "unat (mLastChangeTimeMS w + ?d) = unat (mLastChangeTimeMS w) + blink_duration w"
    using assms(3) d by (subst unat_word_ariths(1)) simp
  then have "mLastChangeTimeMS w + ?d < now
      \<longleftrightarrow> unat (mLastChangeTimeMS w) + blink_duration w < unat now"
    by (simp add: word_less_nat_alt)
  with assms(1,2) show ?thesis
    by (auto simp: Led_Animate_def Led_DoSet_def Let_def)
qed

text \<open>A toggle restarts the phase: the next one comes no sooner than its duration.\<close>

lemma Animate_last_change:
  "led_mState (fst (Led_Animate now w)) \<noteq> led_mState w \<Longrightarrow>
     mLastChangeTimeMS (fst (Led_Animate now w)) = now"
  by (auto simp: Led_Animate_def Led_DoSet_def Let_def split: if_splits)

end
