(* ===== verification/World.thy ===== *)
theory World
  imports LockUsers LockCredentials LockSchedules LedWidget
begin

text \<open>
  The state of the running program: the lock manager's members extended with the other
  globals (timers, the application event queue, the members of \<open>AppTask\<close>, the LED, the
  connectivity flags), the work scheduled on the Matter event loop, the monotonic clock, and
  the calls made to the outside, oldest first. Also here: the operations every component
  uses (posting an event, the LED, the display) and the callbacks \<open>AppTask\<close> registers with
  the lock manager.
\<close>

section \<open>State\<close>

datatype effect =
    Eff_SetLockState EndpointId DlLockState "OperationSourceEnum option"
  | Eff_SendLockAlarmEvent EndpointId AlarmCodeEnum
  | Eff_ScheduleFactoryReset
  | Eff_Led led_io
  | Eff_draw_lock_screen bool
  | Eff_start_lock_screen_animation
  | Eff_display_qrcode "byte list"
  | Eff_call string

datatype work_item = Work_UpdateCluster | Work_InitServer

datatype Function = kNoneSelected | kFactoryReset | kInvalid

record world = LockManager +
  sLockTimer :: cy_timer
  sFunctionTimer :: cy_timer
  buttonTimers :: "cy_timer list"
  sAppEventQueue :: "AppEvent list"
  mFunction :: Function
  mFunctionTimerActive :: bool
  mSyncClusterToButtonAction :: bool
  sLockLED :: LEDWidget
  sIsWiFiStationProvisioned :: bool
  sIsWiFiStationEnabled :: bool
  sIsWiFiStationConnected :: bool
  sHaveBLEConnections :: bool
  scheduled_work :: "work_item list"
  clock_ms :: u64
  effects :: "effect list"

definition APP_EVENT_QUEUE_SIZE :: nat where "APP_EVENT_QUEUE_SIZE = 10"

definition emit :: "effect \<Rightarrow> world \<Rightarrow> world" where
  "emit e w = w\<lparr>effects := effects w @ [e]\<rparr>"

text \<open>An operation of the lock LED, with its pin writes among the effects.\<close>

definition on_led :: "(LEDWidget \<Rightarrow> LEDWidget \<times> led_io list) \<Rightarrow> world \<Rightarrow> world" where
  "on_led f w = (case f (sLockLED w) of (led, io) \<Rightarrow>
     w\<lparr>sLockLED := led, effects := effects w @ map Eff_Led io\<rparr>)"

section \<open>AppTask: events and callbacks\<close>

text \<open>\<open>PostEvent\<close>: an event that does not fit in the queue is dropped with a log line.\<close>

definition PostEvent :: "env \<Rightarrow> AppEvent \<Rightarrow> world \<Rightarrow> world" where
  "PostEvent E event w =
     (case rtos_queue_put E APP_EVENT_QUEUE_SIZE (sAppEventQueue w) event of
        None \<Rightarrow> w
      | Some q \<Rightarrow> w\<lparr>sAppEventQueue := q\<rparr>)"

definition UpdateClusterState :: "world \<Rightarrow> world" where
  "UpdateClusterState w = w\<lparr>scheduled_work := scheduled_work w @ [Work_UpdateCluster]\<rparr>"

definition ActionInitiated :: "env \<Rightarrow> Action_t \<Rightarrow> i32 \<Rightarrow> world \<Rightarrow> world" where
  "ActionInitiated E aAction aActor w =
     (let w = (if aActor = kEventType_Button then w\<lparr>mSyncClusterToButtonAction := True\<rparr> else w)
      in if ENABLE_UI E then emit Eff_start_lock_screen_animation w
         else on_led (Led_Blink (clock_ms w) 50 50) w)"

definition ActionCompleted :: "env \<Rightarrow> Action_t \<Rightarrow> world \<Rightarrow> world" where
  "ActionCompleted E aAction w =
     (let w = (case aAction of
          LOCK_ACTION \<Rightarrow>
            if ENABLE_UI E then emit (Eff_draw_lock_screen True) w else on_led (Led_Set True) w
        | UNLOCK_ACTION \<Rightarrow>
            if ENABLE_UI E then emit (Eff_draw_lock_screen False) w else on_led (Led_Set False) w
        | INVALID_ACTION \<Rightarrow> w)
      in if mSyncClusterToButtonAction w
         then (UpdateClusterState w)\<lparr>mSyncClusterToButtonAction := False\<rparr>
         else w)"

text \<open>Calling through the registered function pointers.\<close>

fun call_initiated :: "env \<Rightarrow> Callback_fn_initiated \<Rightarrow> Action_t \<Rightarrow> i32 \<Rightarrow> world \<Rightarrow> world" where
  "call_initiated E CB_AppTask_ActionInitiated a actor w = ActionInitiated E a actor w"

fun call_completed :: "env \<Rightarrow> Callback_fn_completed \<Rightarrow> Action_t \<Rightarrow> world \<Rightarrow> world" where
  "call_completed E CB_AppTask_ActionCompleted a w = ActionCompleted E a w"

section \<open>What these operations leave alone\<close>

lemma emit_simps [simp]:
  "mState (emit e w) = mState w" "sLockTimer (emit e w) = sLockTimer w"
  "sFunctionTimer (emit e w) = sFunctionTimer w" "buttonTimers (emit e w) = buttonTimers w"
  "sAppEventQueue (emit e w) = sAppEventQueue w" "mFunction (emit e w) = mFunction w"
  "mFunctionTimerActive (emit e w) = mFunctionTimerActive w"
  "mSyncClusterToButtonAction (emit e w) = mSyncClusterToButtonAction w"
  "scheduled_work (emit e w) = scheduled_work w" "clock_ms (emit e w) = clock_ms w"
  "mActionInitiated_CB (emit e w) = mActionInitiated_CB w"
  "mActionCompleted_CB (emit e w) = mActionCompleted_CB w"
  "sLockLED (emit e w) = sLockLED w" "effects (emit e w) = effects w @ [e]"
  "mLockCredentials (emit e w) = mLockCredentials w"
  "mCredentialData (emit e w) = mCredentialData w"
  by (simp_all add: emit_def)

lemma on_led_simps [simp]:
  "mState (on_led f w) = mState w" "sLockTimer (on_led f w) = sLockTimer w"
  "sFunctionTimer (on_led f w) = sFunctionTimer w" "buttonTimers (on_led f w) = buttonTimers w"
  "sAppEventQueue (on_led f w) = sAppEventQueue w" "mFunction (on_led f w) = mFunction w"
  "mFunctionTimerActive (on_led f w) = mFunctionTimerActive w"
  "mSyncClusterToButtonAction (on_led f w) = mSyncClusterToButtonAction w"
  "scheduled_work (on_led f w) = scheduled_work w" "clock_ms (on_led f w) = clock_ms w"
  "mActionInitiated_CB (on_led f w) = mActionInitiated_CB w"
  "mActionCompleted_CB (on_led f w) = mActionCompleted_CB w"
  "sLockLED (on_led f w) = fst (f (sLockLED w))"
  "effects (on_led f w) = effects w @ map Eff_Led (snd (f (sLockLED w)))"
  by (simp_all add: on_led_def split: prod.splits)

lemma PostEvent_simps [simp]:
  "mState (PostEvent E e w) = mState w" "sLockTimer (PostEvent E e w) = sLockTimer w"
  "sFunctionTimer (PostEvent E e w) = sFunctionTimer w"
  "buttonTimers (PostEvent E e w) = buttonTimers w" "mFunction (PostEvent E e w) = mFunction w"
  "mFunctionTimerActive (PostEvent E e w) = mFunctionTimerActive w"
  "mSyncClusterToButtonAction (PostEvent E e w) = mSyncClusterToButtonAction w"
  "scheduled_work (PostEvent E e w) = scheduled_work w" "clock_ms (PostEvent E e w) = clock_ms w"
  "mActionInitiated_CB (PostEvent E e w) = mActionInitiated_CB w"
  "mActionCompleted_CB (PostEvent E e w) = mActionCompleted_CB w"
  "sLockLED (PostEvent E e w) = sLockLED w" "effects (PostEvent E e w) = effects w"
  by (simp_all add: PostEvent_def split: option.splits)

lemma PostEvent_queue:
  "queue_ok E \<Longrightarrow> sAppEventQueue (PostEvent E e w)
    = (if length (sAppEventQueue w) < APP_EVENT_QUEUE_SIZE then sAppEventQueue w @ [e]
       else sAppEventQueue w)"
  by (simp add: PostEvent_def queue_putD)

lemma ActionInitiated_simps [simp]:
  "mState (ActionInitiated E a x w) = mState w"
  "sLockTimer (ActionInitiated E a x w) = sLockTimer w"
  "sFunctionTimer (ActionInitiated E a x w) = sFunctionTimer w"
  "buttonTimers (ActionInitiated E a x w) = buttonTimers w"
  "sAppEventQueue (ActionInitiated E a x w) = sAppEventQueue w"
  "mFunction (ActionInitiated E a x w) = mFunction w"
  "mFunctionTimerActive (ActionInitiated E a x w) = mFunctionTimerActive w"
  "scheduled_work (ActionInitiated E a x w) = scheduled_work w"
  "clock_ms (ActionInitiated E a x w) = clock_ms w"
  "mActionInitiated_CB (ActionInitiated E a x w) = mActionInitiated_CB w"
  "mActionCompleted_CB (ActionInitiated E a x w) = mActionCompleted_CB w"
  "mSyncClusterToButtonAction (ActionInitiated E a x w)
    = (x = kEventType_Button \<or> mSyncClusterToButtonAction w)"
  by (simp_all add: ActionInitiated_def Let_def)

lemma ActionCompleted_simps [simp]:
  "mState (ActionCompleted E a w) = mState w"
  "sLockTimer (ActionCompleted E a w) = sLockTimer w"
  "sFunctionTimer (ActionCompleted E a w) = sFunctionTimer w"
  "buttonTimers (ActionCompleted E a w) = buttonTimers w"
  "sAppEventQueue (ActionCompleted E a w) = sAppEventQueue w"
  "mFunction (ActionCompleted E a w) = mFunction w"
  "mFunctionTimerActive (ActionCompleted E a w) = mFunctionTimerActive w"
  "clock_ms (ActionCompleted E a w) = clock_ms w"
  "mActionInitiated_CB (ActionCompleted E a w) = mActionInitiated_CB w"
  "mActionCompleted_CB (ActionCompleted E a w) = mActionCompleted_CB w"
  "mSyncClusterToButtonAction (ActionCompleted E a w) = False"
  "scheduled_work (ActionCompleted E a w)
    = scheduled_work w @ (if mSyncClusterToButtonAction w then [Work_UpdateCluster] else [])"
  by (simp_all add: ActionCompleted_def UpdateClusterState_def Let_def split: Action_t.splits)

end
