(* ===== verification/Actuator.thy ===== *)
theory Actuator
  imports World
begin

text \<open>
  The actuator state machine of \<open>src/LockManager.cpp\<close>: an action is initiated, a one-shot
  timer simulates the movement of the bolt, its expiry posts an event to the application
  task, and the event's handler completes the action.
\<close>

section \<open>Operations\<close>

definition ACTUATOR_MOVEMENT_PERIOS_MS :: u32 where "ACTUATOR_MOVEMENT_PERIOS_MS = 2000"

definition SetCallbacks ::
  "Callback_fn_initiated option \<Rightarrow> Callback_fn_completed option \<Rightarrow> world \<Rightarrow> world" where
  "SetCallbacks aActionInitiated_CB aActionCompleted_CB w =
     w\<lparr>mActionInitiated_CB := aActionInitiated_CB, mActionCompleted_CB := aActionCompleted_CB\<rparr>"

definition IsActionInProgress :: "world \<Rightarrow> bool" where
  "IsActionInProgress w \<longleftrightarrow> mState w = kState_LockInitiated \<or> mState w = kState_UnlockInitiated"

definition NextState :: "world \<Rightarrow> bool" where
  "NextState w \<longleftrightarrow> mState w = kState_UnlockCompleted"

definition LockManager_CancelTimer :: "env \<Rightarrow> world \<Rightarrow> world outcome" where
  "LockManager_CancelTimer E w =
     (case rtos_timer_stop E (sLockTimer w) of
        None \<Rightarrow> Halted APP_ERROR_STOP_TIMER_FAILED
      | Some t \<Rightarrow> Done (w\<lparr>sLockTimer := t\<rparr>))"

definition LockManager_StartTimer :: "env \<Rightarrow> u32 \<Rightarrow> world \<Rightarrow> world outcome" where
  "LockManager_StartTimer E aTimeoutMs w =
     obind (if rtos_timer_is_running E (sLockTimer w) then LockManager_CancelTimer E w else Done w)
       (\<lambda>w. case rtos_timer_start E aTimeoutMs (sLockTimer w) of
              None \<Rightarrow> Halted APP_ERROR_START_TIMER_FAILED
            | Some t \<Rightarrow> Done (w\<lparr>sLockTimer := t\<rparr>))"

text \<open>The state an action leads to, when it may start at all.\<close>

definition InitiateAction :: "env \<Rightarrow> i32 \<Rightarrow> Action_t \<Rightarrow> world \<Rightarrow> (bool \<times> world) outcome" where
  "InitiateAction E aActor aAction w =
     (let new_state =
        (if mState w = kState_LockCompleted \<and> aAction = UNLOCK_ACTION then Some kState_UnlockInitiated
         else if mState w = kState_UnlockCompleted \<and> aAction = LOCK_ACTION then Some kState_LockInitiated
         else None)
      in case new_state of
           None \<Rightarrow> Done (False, w)
         | Some st \<Rightarrow>
             obind (LockManager_StartTimer E ACTUATOR_MOVEMENT_PERIOS_MS w) (\<lambda>w.
             let w = w\<lparr>mState := st\<rparr>
             in Done (True, case mActionInitiated_CB w of
                              None \<Rightarrow> w
                            | Some cb \<Rightarrow> call_initiated E cb aAction aActor w)))"

text \<open>Runs in the timer task when \<open>sLockTimer\<close> expires.\<close>

definition LockManager_TimerEventHandler :: "env \<Rightarrow> context_ptr \<Rightarrow> world \<Rightarrow> world" where
  "LockManager_TimerEventHandler E arg w =
     PostEvent E \<lparr>Type = kEventType_Timer, evt_union = TimerEvent arg,
       Handler = Some H_ActuatorMovementTimerEventHandler\<rparr> w"

text \<open>
  The context is cast to a \<open>LockManager *\<close> unchecked: any other union member or pointer is
  undefined.
\<close>

definition ActuatorMovementTimerEventHandler :: "env \<Rightarrow> AppEvent \<Rightarrow> world \<Rightarrow> world outcome" where
  "ActuatorMovementTimerEventHandler E aEvent w =
     (case evt_union aEvent of
        TimerEvent Ctx_LockManager \<Rightarrow>
          (let (w, actionCompleted) =
             (if mState w = kState_LockInitiated
              then (w\<lparr>mState := kState_LockCompleted\<rparr>, LOCK_ACTION)
              else if mState w = kState_UnlockInitiated
              then (w\<lparr>mState := kState_UnlockCompleted\<rparr>, UNLOCK_ACTION)
              else (w, INVALID_ACTION))
           in Done (if actionCompleted \<noteq> INVALID_ACTION
                    then (case mActionCompleted_CB w of
                            None \<Rightarrow> w
                          | Some cb \<Rightarrow> call_completed E cb actionCompleted w)
                    else w))
      | _ \<Rightarrow> Undef)"

section \<open>The four-phase cycle\<close>

text \<open>The only changes of state an actuator makes.\<close>

fun phase_next :: "State_t \<Rightarrow> State_t" where
  "phase_next kState_LockCompleted = kState_UnlockInitiated"
| "phase_next kState_UnlockInitiated = kState_UnlockCompleted"
| "phase_next kState_UnlockCompleted = kState_LockInitiated"
| "phase_next kState_LockInitiated = kState_LockCompleted"

definition startable :: "State_t \<Rightarrow> Action_t \<Rightarrow> bool" where
  "startable st a \<longleftrightarrow> (st = kState_LockCompleted \<and> a = UNLOCK_ACTION)
     \<or> (st = kState_UnlockCompleted \<and> a = LOCK_ACTION)"

lemma startable_phase: "startable st a \<Longrightarrow> phase_next st \<in> {kState_LockInitiated, kState_UnlockInitiated}"
  by (auto simp: startable_def)

lemma call_initiated_simps [simp]:
  "mState (call_initiated E cb a x w) = mState w"
  "sLockTimer (call_initiated E cb a x w) = sLockTimer w"
  "sFunctionTimer (call_initiated E cb a x w) = sFunctionTimer w"
  "buttonTimers (call_initiated E cb a x w) = buttonTimers w"
  "sAppEventQueue (call_initiated E cb a x w) = sAppEventQueue w"
  "mFunction (call_initiated E cb a x w) = mFunction w"
  "mFunctionTimerActive (call_initiated E cb a x w) = mFunctionTimerActive w"
  "scheduled_work (call_initiated E cb a x w) = scheduled_work w"
  "mActionInitiated_CB (call_initiated E cb a x w) = mActionInitiated_CB w"
  "mActionCompleted_CB (call_initiated E cb a x w) = mActionCompleted_CB w"
  by (cases cb; simp)+

lemma call_completed_simps [simp]:
  "mState (call_completed E cb a w) = mState w"
  "sLockTimer (call_completed E cb a w) = sLockTimer w"
  "sFunctionTimer (call_completed E cb a w) = sFunctionTimer w"
  "buttonTimers (call_completed E cb a w) = buttonTimers w"
  "sAppEventQueue (call_completed E cb a w) = sAppEventQueue w"
  "mFunction (call_completed E cb a w) = mFunction w"
  "mFunctionTimerActive (call_completed E cb a w) = mFunctionTimerActive w"
  "mActionInitiated_CB (call_completed E cb a w) = mActionInitiated_CB w"
  "mActionCompleted_CB (call_completed E cb a w) = mActionCompleted_CB w"
  by (cases cb; simp)+

lemma LockManager_StartTimer_Done:
  assumes "timer_ok E" and "LockManager_StartTimer E ms w = Done w'"
  shows "w' = w\<lparr>sLockTimer := Some ms\<rparr>"
  using assms
  by (auto simp: LockManager_StartTimer_def LockManager_CancelTimer_def obind_Done_iff
      dest!: timer_startD split: option.splits if_splits)

lemma InitiateAction_rejected:
  "\<not> startable (mState w) a \<Longrightarrow> InitiateAction E x a w = Done (False, w)"
  by (auto simp: InitiateAction_def startable_def Let_def)

lemma InitiateAction_started:
  assumes "timer_ok E" and "startable (mState w) a" and "InitiateAction E x a w = Done (r, w')"
  shows "r \<and> w' = (case mActionInitiated_CB w of
      None \<Rightarrow> w\<lparr>sLockTimer := Some ACTUATOR_MOVEMENT_PERIOS_MS, mState := phase_next (mState w)\<rparr>
    | Some cb \<Rightarrow> call_initiated E cb a x
        (w\<lparr>sLockTimer := Some ACTUATOR_MOVEMENT_PERIOS_MS, mState := phase_next (mState w)\<rparr>))"
  using assms(2,3)
  by (auto simp: InitiateAction_def startable_def Let_def obind_Done_iff
      dest!: LockManager_StartTimer_Done [OF assms(1)] split: option.splits)

lemma InitiateAction_iff:
  assumes "timer_ok E" and "InitiateAction E x a w = Done (r, w')"
  shows "r \<longleftrightarrow> startable (mState w) a"
  using InitiateAction_rejected [of w a E x] InitiateAction_started [OF assms(1) _ assms(2)] assms(2)
  by fastforce

lemma actuator_event_Done:
  assumes "evt_union e = TimerEvent Ctx_LockManager"
  shows "ActuatorMovementTimerEventHandler E e w = Done
    (if IsActionInProgress w
     then (let w' = w\<lparr>mState := phase_next (mState w)\<rparr>;
               a = (if mState w = kState_LockInitiated then LOCK_ACTION else UNLOCK_ACTION)
           in case mActionCompleted_CB w of None \<Rightarrow> w' | Some cb \<Rightarrow> call_completed E cb a w')
     else w)"
  using assms
  by (cases "mState w")
     (auto simp: ActuatorMovementTimerEventHandler_def IsActionInProgress_def Let_def)

end
