(* ===== verification/LockAccess.thy ===== *)
theory LockAccess
  imports Actuator
begin

text \<open>
  Start-up of the lock manager and access by PIN: \<open>LockManager::Init\<close>, \<open>Lock\<close>, \<open>Unlock\<close>,
  \<open>setLockState\<close> and \<open>lockStateToString\<close>. The main lemma says which PIN codes open the lock
  in terms of the credential database's view.
\<close>

section \<open>Init\<close>

text \<open>
  \<open>None\<close> is \<open>CHIP_NO_ERROR\<close>. The parameters are stored before they are checked. Reading the
  value of a null \<open>Nullable\<close> state is undefined.
\<close>

definition LockManager_Init ::
  "env \<Rightarrow> DlLockState option \<Rightarrow> LockParam \<Rightarrow> world \<Rightarrow> (app_error option \<times> world) outcome" where
  "LockManager_Init E state lockParam w =
     (let w = w\<lparr>LockParams := lockParam\<rparr> in
      if numberOfUsers (LockParams w) > kMaxUsers
      then Done (Some APP_ERROR_ALLOCATION_FAILED, w)
      else if numberOfCredentialsPerUser (LockParams w) > kMaxCredentialsPerUser
      then Done (Some APP_ERROR_ALLOCATION_FAILED, w)
      else if numberOfWeekdaySchedulesPerUser (LockParams w) > kMaxWeekdaySchedulesPerUser
      then Done (Some APP_ERROR_ALLOCATION_FAILED, w)
      else if numberOfYeardaySchedulesPerUser (LockParams w) > kMaxYeardaySchedulesPerUser
      then Done (Some APP_ERROR_ALLOCATION_FAILED, w)
      else if numberOfHolidaySchedules (LockParams w) > kMaxHolidaySchedules
      then Done (Some APP_ERROR_ALLOCATION_FAILED, w)
      else if \<not> rtos_timer_init E LockTimer
      then Done (Some APP_ERROR_CREATE_TIMER_FAILED, w)
      else let w = w\<lparr>sLockTimer := None\<rparr> in
      (case state of
         None \<Rightarrow> Undef
       | Some st \<Rightarrow>
           Done (None, w\<lparr>mState := (if st = kUnlocked then kState_UnlockCompleted
                                     else kState_LockCompleted)\<rparr>)))"

definition params_ok :: "LockParam \<Rightarrow> bool" where
  "params_ok p \<longleftrightarrow> unat (numberOfUsers p) \<le> 10 \<and> unat (numberOfCredentialsPerUser p) \<le> 10
   \<and> unat (numberOfWeekdaySchedulesPerUser p) \<le> 10 \<and> unat (numberOfYeardaySchedulesPerUser p) \<le> 10
   \<and> unat (numberOfHolidaySchedules p) \<le> 10"

lemma LockManager_Init_eq:
  "LockManager_Init E state p w =
     (if \<not> params_ok p then Done (Some APP_ERROR_ALLOCATION_FAILED, w\<lparr>LockParams := p\<rparr>)
      else if \<not> rtos_timer_init E LockTimer
      then Done (Some APP_ERROR_CREATE_TIMER_FAILED, w\<lparr>LockParams := p\<rparr>)
      else case state of None \<Rightarrow> Undef
        | Some st \<Rightarrow> Done (None, w\<lparr>LockParams := p, sLockTimer := None,
            mState := (if st = kUnlocked then kState_UnlockCompleted else kState_LockCompleted)\<rparr>))"
  by (simp add: LockManager_Init_def Let_def params_ok_def word_less_nat_alt limits)

section \<open>Access by PIN\<close>

definition lockStateToString :: "DlLockState \<Rightarrow> string" where
  "lockStateToString lockState =
     (case lockState of
        kNotFullyLocked \<Rightarrow> ''Not Fully Locked''
      | kLocked \<Rightarrow> ''Locked''
      | kUnlocked \<Rightarrow> ''Unlocked''
      | kUnlatched \<Rightarrow> ''Unlatched''
      | kUnknownEnumValue \<Rightarrow> ''Unknown'')"

text \<open>The search loop: skip free entries, stop at the first whose data equals the PIN.\<close>

fun find_pin ::
  "env \<Rightarrow> 'z LockManager_scheme \<Rightarrow> byte list \<Rightarrow> EmberAfPluginDoorLockCredentialInfo list \<Rightarrow> bool" where
  "find_pin E s pin [] = False"
| "find_pin E s pin (c # cs) =
     (if crd_status c = CredentialStatus_kAvailable E then find_pin E s pin cs
      else if deref_data s (crd_credentialData c) = pin then True
      else find_pin E s pin cs)"

text \<open>
  \<open>err\<close> is the caller's variable; it is only written when a PIN was given and not found.
\<close>

definition setLockState ::
  "env \<Rightarrow> EndpointId \<Rightarrow> DlLockState \<Rightarrow> byte list option \<Rightarrow> OperationErrorEnum \<Rightarrow> world
    \<Rightarrow> bool \<times> OperationErrorEnum \<times> world" where
  "setLockState E endpointId lockState pin err w =
     (let requirePin = (case RequirePIN_Get E endpointId of None \<Rightarrow> True | Some b \<Rightarrow> b) in
      case pin of
        None \<Rightarrow>
          if \<not> requirePin then (True, err, emit (Eff_SetLockState endpointId lockState None) w)
          else (False, err, w)
      | Some p \<Rightarrow>
          if find_pin E w p (mLockCredentials w ! unat (kPin E))
          then (True, err, emit (Eff_SetLockState endpointId lockState None) w)
          else (False, OperationError_kInvalidCredential, w))"

definition LockManager_Lock ::
  "env \<Rightarrow> EndpointId \<Rightarrow> byte list option \<Rightarrow> OperationErrorEnum \<Rightarrow> world
    \<Rightarrow> bool \<times> OperationErrorEnum \<times> world" where
  "LockManager_Lock E endpointId pin err w = setLockState E endpointId kLocked pin err w"

definition LockManager_Unlock ::
  "env \<Rightarrow> EndpointId \<Rightarrow> byte list option \<Rightarrow> OperationErrorEnum \<Rightarrow> world
    \<Rightarrow> bool \<times> OperationErrorEnum \<times> world" where
  "LockManager_Unlock E endpointId pin err w = setLockState E endpointId kUnlocked pin err w"

section \<open>Which PIN codes are accepted\<close>

text \<open>
  The table has a hundred entries per type, but the credential API reaches the first ten
  (or one, for the programming PIN); the others stay free.
\<close>

definition upper_free :: "env \<Rightarrow> 'z LockManager_scheme \<Rightarrow> bool" where
  "upper_free E s \<longleftrightarrow> (\<forall>t < 6. \<forall>i < 100. 10 \<le> i \<longrightarrow>
     crd_status (mLockCredentials s ! t ! i) = CredentialStatus_kAvailable E)"

lemma find_pin_iff:
  "find_pin E s pin cs \<longleftrightarrow> (\<exists>c \<in> set cs. crd_status c \<noteq> CredentialStatus_kAvailable E
     \<and> deref_data s (crd_credentialData c) = pin)"
  by (induction cs) auto

definition pin_known :: "env \<Rightarrow> (credential_key \<rightharpoonup> credential_entry option) \<Rightarrow> byte list \<Rightarrow> bool" where
  "pin_known E m pin \<longleftrightarrow>
     (\<exists>i e. 1 \<le> unat i \<and> unat i \<le> 10 \<and> m (kPin E, i) = Some (Some e) \<and> ce_data e = pin)"

lemma pin_slot:
  assumes "credential_types_ok E" and "1 \<le> unat i" and "unat i \<le> 10"
  shows "credential_key_ok E (kPin E, i)"
    and "credential_slot E (kPin E, i) = (unat (kPin E), unat i - 1)"
  using assms by (auto simp: credential_types_ok_def credential_key_ok_def credential_slot_def)

lemma find_pin_view:
  assumes types: "credential_types_ok E" and shape: "credentials_shape s" and up: "upper_free E s"
  shows "find_pin E s pin (mLockCredentials s ! unat (kPin E))
    \<longleftrightarrow> pin_known E (view_credential E blank s) pin"
proof
  let ?row = "mLockCredentials s ! unat (kPin E)"
  have t: "unat (kPin E) < 6" using types by (simp add: credential_types_ok_def)
  have len: "length ?row = 100" using credentials_shape_rows [OF shape t] .
  assume "find_pin E s pin ?row"
  then obtain j where j: "j < 100" "crd_status (?row ! j) \<noteq> CredentialStatus_kAvailable E"
    "deref_data s (crd_credentialData (?row ! j)) = pin"
    using len by (auto simp: find_pin_iff in_set_conv_nth)
  then have "j < 10" using up t by (metis not_less upper_free_def)
  define i where "i = (of_nat (Suc j) :: u16)"
  have i: "unat i = Suc j" using \<open>j < 10\<close> by (simp add: i_def unsigned_of_nat take_bit_nat_eq_self del: of_nat_Suc)
  have ok: "1 \<le> unat i" "unat i \<le> 10" using i \<open>j < 10\<close> by auto
  from pin_slot [OF types ok] j i
  have "\<exists>e. view_credential E blank s (kPin E, i) = Some (Some e) \<and> ce_data e = pin"
    by (simp add: view_credential_eq Let_def)
  with ok show "pin_known E (view_credential E blank s) pin" by (auto simp: pin_known_def)
next
  let ?row = "mLockCredentials s ! unat (kPin E)"
  have t: "unat (kPin E) < 6" using types by (simp add: credential_types_ok_def)
  have len: "length ?row = 100" using credentials_shape_rows [OF shape t] .
  assume "pin_known E (view_credential E blank s) pin"
  then obtain i e where i: "1 \<le> unat i" "unat i \<le> 10"
    and e: "view_credential E blank s (kPin E, i) = Some (Some e)" "ce_data e = pin"
    by (auto simp: pin_known_def)
  from pin_slot [OF types i] e
  have "crd_status (?row ! (unat i - 1)) \<noteq> CredentialStatus_kAvailable E"
    and "deref_data s (crd_credentialData (?row ! (unat i - 1))) = pin"
    by (auto simp: view_credential_eq Let_def split: if_splits)
  moreover have "?row ! (unat i - 1) \<in> set ?row" using i len by auto
  ultimately show "find_pin E s pin ?row" by (auto simp: find_pin_iff)
qed

lemma put_credential_upper:
  assumes inv: "credentials_inv E s" and pre: "credential_pre v" and up: "upper_free E s"
    and put: "put_credential E k v s = Some s'"
  shows "upper_free E s'"
proof -
  have shape: "credentials_shape s" using inv by (simp add: credentials_inv_def)
  from put have key: "credential_key_ok E k"
    and s': "s' = SaveCredentials E (credential_written (fst (credential_slot E k))
        (snd (credential_slot E k)) (fst k) v s)"
    by (auto simp: put_credential_eq [OF shape pre] split: if_splits)
  have "fst (credential_slot E k) < 6" "snd (credential_slot E k) < 10"
    using credential_slot_index(2,3) [of E "fst k" "snd k"] key by auto
  with up show ?thesis
    by (auto simp: s' upper_free_def credential_written_entry [OF shape])
qed

lemma run_puts_upper:
  assumes "credentials_inv E s" and "upper_free E s" and "\<forall>(k, v) \<in> set ops. credential_pre v"
  shows "upper_free E (run_puts (put_credential E) ops s)"
  using assms
proof (induction ops arbitrary: s)
  case Nil
  then show ?case by simp
next
  case (Cons op ops)
  obtain k v where op: "op = (k, v)" by (cases op)
  show ?case
  proof (cases "put_credential E k v s")
    case None
    with Cons op show ?thesis by auto
  next
    case (Some s')
    with Cons.prems op have "credentials_inv E s'" and "upper_free E s'"
      by (auto intro: credentials.put_inv put_credential_upper)
    with Cons.IH [of s'] Cons.prems op Some show ?thesis by auto
  qed
qed

text \<open>
  From a table with no entry occupied: after any history of \<open>SetCredential\<close> calls, the
  accepted PIN codes are those the history's finite map holds.
\<close>

lemma find_pin_history:
  assumes types: "credential_types_ok E" and inv: "credentials_inv E s" and up: "upper_free E s"
    and ops: "\<forall>(k, v) \<in> set ops. credential_pre v"
  shows "find_pin E (run_puts (put_credential E) ops s) pin
      (mLockCredentials (run_puts (put_credential E) ops s) ! unat (kPin E))
    \<longleftrightarrow> pin_known E (spec_puts (\<lambda>k _. credential_key_ok E k) (credential_image E) ops
          (view_credential E blank s)) pin"
proof -
  let ?s = "run_puts (put_credential E) ops s"
  have "credentials_inv E ?s" using inv ops by (rule credentials.run_puts_inv)
  then have "credentials_shape ?s" by (simp add: credentials_inv_def)
  moreover have "upper_free E ?s" using inv up ops by (rule run_puts_upper)
  ultimately show ?thesis
    using find_pin_view [OF types, of ?s pin blank] credentials.run_puts_refines [OF inv ops]
    by simp
qed

end
