(* ===== verification/LockFlash.thy ===== *)
theory LockFlash
  imports LockAccess
begin

text \<open>
  Persistence: \<open>LockManager::ReadConfigValues\<close> refills the arrays from the blobs the setters
  write. Users, names and credentials come back whole. The schedule blobs are sized by the
  schedule structs while the arrays hold larger elements with a status, so only a front part
  of each table comes back; the lemmas say which.
\<close>

section \<open>Cutting bytes into elements\<close>

fun chunks :: "nat \<Rightarrow> nat \<Rightarrow> 'a list \<Rightarrow> 'a list list" where
  "chunks sz 0 bs = []"
| "chunks sz (Suc n) bs = take sz bs # chunks sz n (drop sz bs)"

text \<open>
  A blob is read into the first \<open>n\<close> bytes of an array whose bytes are \<open>bs\<close>.
\<close>

definition read_into ::
  "env \<Rightarrow> ConfigKey \<Rightarrow> nat \<Rightarrow> (ConfigKey \<rightharpoonup> byte list) \<Rightarrow> byte list \<Rightarrow> byte list" where
  "read_into E key n f bs = ReadConfigValueBin E key (take n bs) f @ drop n bs"

definition ReadConfigValues :: "env \<Rightarrow> 'z LockManager_scheme \<Rightarrow> bool \<times> 'z LockManager_scheme" where
  "ReadConfigValues E s =
     (let f = flash s; p = LockParams s;
          s = s\<lparr>mLockUsers := map (val_user E) (chunks (sizeof_user E) (length (mLockUsers s))
                (read_into E kConfigKey_LockUser (sizeof_user E * length (mLockUsers s)) f
                  (array_bytes (rep_user E) (mLockUsers s))))\<rparr>;
          s = s\<lparr>mLockCredentials := chunks (unat kMaxCredentials) (length (mLockCredentials s))
                (map (val_credential E) (chunks (sizeof_credential E)
                  (length (concat (mLockCredentials s)))
                  (read_into E kConfigKey_Credential
                    (sizeof_credential E * unat kMaxCredentials * unat kNumCredentialTypes) f
                    (array_bytes (rep_credential E) (concat (mLockCredentials s))))))\<rparr>;
          s = s\<lparr>mUserNames := chunks (DOOR_LOCK_MAX_USER_NAME_SIZE E) (length (mUserNames s))
                (read_into E kConfigKey_LockUserName (length (concat (mUserNames s))) f
                  (concat (mUserNames s)))\<rparr>;
          s = s\<lparr>mCredentialData := read_into E kConfigKey_CredentialData
                (length (mCredentialData s)) f (mCredentialData s)\<rparr>;
          s = s\<lparr>mCredentials := chunks (unat kMaxCredentials) (length (mCredentials s))
                (map (val_credstruct E) (chunks (sizeof_credstruct E)
                  (length (concat (mCredentials s)))
                  (read_into E kConfigKey_UserCredentials
                    (sizeof_credstruct E * unat (numberOfUsers p) * unat kMaxCredentials) f
                    (array_bytes (rep_credstruct E) (concat (mCredentials s))))))\<rparr>;
          s = s\<lparr>mWeekdaySchedule := chunks (unat kMaxWeekdaySchedulesPerUser)
                (length (mWeekdaySchedule s))
                (map (val_weekday_info E) (chunks (sizeof_weekday_info E)
                  (length (concat (mWeekdaySchedule s)))
                  (read_into E kConfigKey_WeekDaySchedules
                    (sizeof_weekday E * unat (numberOfWeekdaySchedulesPerUser p) * unat (numberOfUsers p)) f
                    (array_bytes (rep_weekday_info E) (concat (mWeekdaySchedule s))))))\<rparr>;
          s = s\<lparr>mYeardaySchedule := chunks (unat kMaxYeardaySchedulesPerUser)
                (length (mYeardaySchedule s))
                (map (val_yearday_info E) (chunks (sizeof_yearday_info E)
                  (length (concat (mYeardaySchedule s)))
                  (read_into E kConfigKey_YearDaySchedules
                    (sizeof_yearday E * unat (numberOfYeardaySchedulesPerUser p) * unat (numberOfUsers p)) f
                    (array_bytes (rep_yearday_info E) (concat (mYeardaySchedule s))))))\<rparr>;
          s = s\<lparr>mHolidaySchedule := map (val_holiday_info E) (chunks (sizeof_holiday_info E)
                (length (mHolidaySchedule s))
                (read_into E kConfigKey_HolidaySchedules
                  (sizeof_holiday E * unat (numberOfHolidaySchedules p)) f
                  (array_bytes (rep_holiday_info E) (mHolidaySchedule s))))\<rparr>
      in (True, s))"

section \<open>Representations\<close>

text \<open>
  The bytes of an object have its size and determine it, for objects the predicate admits.
\<close>

definition rep_ok :: "('a \<Rightarrow> byte list) \<Rightarrow> (byte list \<Rightarrow> 'a) \<Rightarrow> nat \<Rightarrow> ('a \<Rightarrow> bool) \<Rightarrow> bool" where
  "rep_ok rep val sz P \<longleftrightarrow> (\<forall>x. length (rep x) = sz) \<and> (\<forall>x. P x \<longrightarrow> val (rep x) = x)"

lemma length_array_bytes: "rep_ok rep val sz P \<Longrightarrow> length (array_bytes rep xs) = sz * length xs"
  by (induction xs) (auto simp: array_bytes_def rep_ok_def)

lemma length_chunks [simp]: "length (chunks sz n bs) = n"
  by (induction n arbitrary: bs) auto

lemma chunks_nth: "i < n \<Longrightarrow> chunks sz n bs ! i = take sz (drop (i * sz) bs)"
proof (induction n arbitrary: i bs)
  case 0
  then show ?case by simp
next
  case (Suc n)
  then show ?case by (cases i) (simp_all add: add.commute)
qed

lemma chunks_concat: "(\<forall>r \<in> set xss. length r = m) \<Longrightarrow> chunks m (length xss) (concat xss) = xss"
  by (induction xss) auto

lemma chunks_rows: "n * m \<le> length bs \<Longrightarrow> \<forall>r \<in> set (chunks m n bs). length r = m"
proof (induction n arbitrary: bs)
  case 0
  then show ?case by simp
next
  case (Suc n)
  then have "n * m \<le> length (drop m bs)" by simp
  from Suc.IH [OF this] Suc.prems show ?case by simp
qed

lemma array_bytes_chunk:
  assumes "rep_ok rep val sz P" and "i < length xs"
  shows "take sz (drop (i * sz) (array_bytes rep xs)) = rep (xs ! i)"
  using assms
proof (induction xs arbitrary: i)
  case Nil
  then show ?case by simp
next
  case (Cons x xs)
  then have len: "length (rep x) = sz" by (simp add: rep_ok_def)
  with Cons show ?case
    by (cases i) (simp_all add: array_bytes_def)
qed

text \<open>
  Element \<open>i\<close> of an array whose first \<open>n\<close> bytes were replaced by those of another array:
  the other array's when it lies in those bytes, its own when it lies behind them.
\<close>

lemma overlay_chunk_new:
  assumes "rep_ok rep val sz P" and "i < length new" and "Suc i * sz \<le> n"
    and "P (new ! i)"
  shows "val (take sz (drop (i * sz) (take n (array_bytes rep new) @ rest))) = new ! i"
proof -
  have len: "length (array_bytes rep new) = sz * length new"
    using assms(1) by (rule length_array_bytes)
  have "Suc i * sz \<le> length new * sz"
    using assms(2) by (intro mult_le_mono1) simp
  then have "sz + i * sz \<le> length (take n (array_bytes rep new))"
    using assms(3) len by (simp add: mult.commute)
  then have "take sz (drop (i * sz) (take n (array_bytes rep new) @ rest))
      = take sz (drop (i * sz) (take n (array_bytes rep new)))" by simp
  also have "\<dots> = take sz (drop (i * sz) (array_bytes rep new))"
    using assms(3) by (simp add: drop_take min_def)
  also have "\<dots> = rep (new ! i)" using assms(1,2) by (rule array_bytes_chunk)
  finally show ?thesis using assms(1,4) by (simp add: rep_ok_def)
qed

lemma overlay_chunk_old:
  assumes "rep_ok rep val sz P" and "i < length old" and "n \<le> i * sz"
    and "length front = n" and "P (old ! i)"
  shows "val (take sz (drop (i * sz) (front @ drop n (array_bytes rep old)))) = old ! i"
proof -
  have "drop (i * sz) (front @ drop n (array_bytes rep old)) = drop (i * sz) (array_bytes rep old)"
    using assms(3,4) by simp
  then show ?thesis
    using array_bytes_chunk [OF assms(1,2)] assms(1,5) by (simp add: rep_ok_def)
qed

text \<open>A blob of exactly \<open>n\<close> bytes replaces the first \<open>n\<close> bytes.\<close>

lemma read_into_blob:
  assumes "flash_ok E" and "f key = Some blob" and "length blob = n" and "n \<le> length bs"
  shows "read_into E key n f bs = blob @ drop n bs"
  using assms by (simp add: read_into_def flash_ok_def read_blob_def memcpy_at_def)

section \<open>Credentials survive a restart\<close>

definition credential_rep_ok :: "env \<Rightarrow> bool" where
  "credential_rep_ok E \<longleftrightarrow> rep_ok (rep_credential E) (val_credential E) (sizeof_credential E)
     (\<lambda>c. \<exists>off n. crd_credentialData c = NullSpan
        \<or> crd_credentialData c = Span off n \<and> off < 12000 \<and> n \<le> 20)"

text \<open>What the restart changes is the running state; the flash is what was left.\<close>

definition restart :: "env \<Rightarrow> 'z LockManager_scheme \<Rightarrow> 'z LockManager_scheme \<Rightarrow> 'z LockManager_scheme" where
  "restart E s0 s = snd (ReadConfigValues E (s0\<lparr>flash := flash s, LockParams := LockParams s\<rparr>))"

lemma length_concat_rows:
  "(\<forall>r \<in> set xss. length r = m) \<Longrightarrow> length (concat xss) = length xss * m"
  by (induction xss) auto

definition credential_spans_ok :: "'z LockManager_scheme \<Rightarrow> bool" where
  "credential_spans_ok s \<longleftrightarrow> (\<forall>c \<in> set (concat (mLockCredentials s)).
     \<exists>off n. crd_credentialData c = NullSpan
        \<or> crd_credentialData c = Span off n \<and> off < 12000 \<and> n \<le> 20)"

lemma restart_credentials:
  assumes E: "flash_ok E" "credential_rep_ok E"
    and s0: "credentials_shape s0" and s: "credentials_shape s" "credential_spans_ok s"
    and saved: "flash s = flash (SaveCredentials E s')"
      "mLockCredentials s' = mLockCredentials s" "mCredentialData s' = mCredentialData s"
  shows "mLockCredentials (restart E s0 s) = mLockCredentials s
    \<and> mCredentialData (restart E s0 s) = mCredentialData s"
proof -
  let ?new = "concat (mLockCredentials s)" and ?old = "concat (mLockCredentials s0)"
  let ?sz = "sizeof_credential E"
  note rep = E(2) [unfolded credential_rep_ok_def]
  have len: "length ?new = 600" "length ?old = 600"
    using s(1) s0 length_concat_rows [of "mLockCredentials s" 100]
      length_concat_rows [of "mLockCredentials s0" 100]
    by (simp_all add: credentials_shape_def)
  have bytes: "length (array_bytes (rep_credential E) ?new) = ?sz * 600"
    "length (array_bytes (rep_credential E) ?old) = ?sz * 600"
    using length_array_bytes [OF rep] len by simp_all
  have f: "flash s kConfigKey_Credential = Some (array_bytes (rep_credential E) ?new)"
    "flash s kConfigKey_CredentialData = Some (mCredentialData s)"
    using E(1) saved bytes by (simp_all add: SaveCredentials_def flash_ok_def limits)
  have r1: "read_into E kConfigKey_Credential (?sz * 100 * 6) (flash s)
      (array_bytes (rep_credential E) ?old) = array_bytes (rep_credential E) ?new"
    using read_into_blob [where f = "flash s", OF E(1) f(1)] bytes by simp
  have r2: "read_into E kConfigKey_CredentialData (length (mCredentialData s0)) (flash s)
      (mCredentialData s0) = mCredentialData s"
    using read_into_blob [where f = "flash s", OF E(1) f(2)] s(1) s0 by (simp add: credentials_shape_def)
  have elems: "map (val_credential E) (chunks ?sz 600 (array_bytes (rep_credential E) ?new)) = ?new"
  proof (rule nth_equalityI)
    show "length (map (val_credential E) (chunks ?sz 600 (array_bytes (rep_credential E) ?new)))
        = length ?new" by (simp add: len)
  next
    fix i
    assume "i < length (map (val_credential E) (chunks ?sz 600 (array_bytes (rep_credential E) ?new)))"
    then have i: "i < 600" "i < length ?new" by (simp_all add: len)
    have "\<exists>off n. crd_credentialData (?new ! i) = NullSpan
        \<or> crd_credentialData (?new ! i) = Span off n \<and> off < 12000 \<and> n \<le> 20"
      using s(2) nth_mem [OF i(2)] unfolding credential_spans_ok_def by blast
    then have "val_credential E (rep_credential E (?new ! i)) = ?new ! i"
      using rep unfolding rep_ok_def by blast
    with i show "map (val_credential E) (chunks ?sz 600 (array_bytes (rep_credential E) ?new)) ! i
        = ?new ! i"
      using array_bytes_chunk [OF rep i(2)] by (simp add: chunks_nth)
  qed
  have "chunks 100 (length (mLockCredentials s0)) ?new = mLockCredentials s"
    using chunks_concat [of "mLockCredentials s" 100] s(1) s0 by (simp add: credentials_shape_def)
  with r1 r2 elems len show ?thesis
    by (simp add: restart_def ReadConfigValues_def Let_def limits)
qed

lemma credential_written_spans:
  assumes "credentials_shape s" and "credential_spans_ok s" and "credential_pre v"
    and "t < 6" and "i < 100"
  shows "credential_spans_ok (credential_written t i type v s)"
proof -
  have len: "length (mLockCredentials s) = 6" "length (mLockCredentials s ! t) = 100"
    using assms by (auto simp: credentials_shape_def)
  then have row: "mLockCredentials s ! t \<in> set (mLockCredentials s)" using assms(4) by simp
  have "credential_offset t i < 12000 \<and> length (ca_data v) \<le> 20"
    using credential_offset_bound [OF assms(4,5)] assms(3) by (simp add: credential_pre_def limits)
  then show ?thesis
    using assms(2) row unfolding credential_spans_ok_def credential_written_def
    by (auto dest!: set_update_subset_insert [THEN subsetD])
qed

text \<open>The whole credential database, as a reader sees it, after a successful write and a restart.\<close>

lemma credentials_restart:
  assumes E: "flash_ok E" "credential_rep_ok E"
    and s: "credentials_inv E s" "credential_spans_ok s" and s0: "credentials_shape s0"
    and v: "credential_pre v" and put: "put_credential E k v s = Some s'"
  shows "view_credential E blank (restart E s0 s') = view_credential E blank s'"
    and "mLockCredentials (restart E s0 s') = mLockCredentials s'"
    and "mCredentialData (restart E s0 s') = mCredentialData s'"
proof -
  have shape: "credentials_shape s" using s(1) by (simp add: credentials_inv_def)
  from put have key: "credential_key_ok E k"
    and s': "s' = SaveCredentials E (credential_written (fst (credential_slot E k))
        (snd (credential_slot E k)) (fst k) v s)"
    by (auto simp: put_credential_eq [OF shape v] split: if_splits)
  let ?w = "credential_written (fst (credential_slot E k)) (snd (credential_slot E k)) (fst k) v s"
  have "fst (credential_slot E k) < 6" "snd (credential_slot E k) < 100"
    using credential_slot_index(2,3) [of E "fst k" "snd k"] key by auto
  then have "credential_spans_ok ?w" using shape s(2) v by (intro credential_written_spans)
  moreover have "credentials_shape ?w"
    using credentials.put_inv [OF s(1) v put]
    by (simp add: s' credentials_inv_def credentials_shape_def)
  ultimately have "mLockCredentials (restart E s0 s') = mLockCredentials s'
      \<and> mCredentialData (restart E s0 s') = mCredentialData s'"
    unfolding s' using E s0
    by (intro restart_credentials [where s' = ?w])
       (simp_all add: credential_spans_ok_def credentials_shape_def)
  then show "mLockCredentials (restart E s0 s') = mLockCredentials s'"
    and "mCredentialData (restart E s0 s') = mCredentialData s'" by simp_all
  then have "deref_data (restart E s0 s') sp = deref_data s' sp" for sp by (cases sp) simp_all
  with \<open>mLockCredentials (restart E s0 s') = mLockCredentials s'\<close>
  show "view_credential E blank (restart E s0 s') = view_credential E blank s'"
    by (simp add: view_credential_eq fun_eq_iff Let_def)
qed

section \<open>Arrays stored in part\<close>

lemma overlay_nth:
  assumes rep: "rep_ok rep val sz P" and new: "i < length new" and old: "i < length old"
    and P: "P (new ! i)" "P (old ! i)" and n: "n \<le> sz * length new"
  shows "Suc i * sz \<le> n \<Longrightarrow> i < m \<Longrightarrow>
      map val (chunks sz m (take n (array_bytes rep new) @ drop n (array_bytes rep old))) ! i = new ! i"
    and "n \<le> i * sz \<Longrightarrow> i < m \<Longrightarrow>
      map val (chunks sz m (take n (array_bytes rep new) @ drop n (array_bytes rep old))) ! i = old ! i"
proof -
  have "length (take n (array_bytes rep new)) = n"
    using length_array_bytes [OF rep] n by simp
  then show "n \<le> i * sz \<Longrightarrow> i < m \<Longrightarrow>
      map val (chunks sz m (take n (array_bytes rep new) @ drop n (array_bytes rep old))) ! i = old ! i"
    using overlay_chunk_old [OF rep old, where n = n and front = "take n (array_bytes rep new)"] P(2)
    by (simp add: chunks_nth del: length_take)
  show "Suc i * sz \<le> n \<Longrightarrow> i < m \<Longrightarrow>
      map val (chunks sz m (take n (array_bytes rep new) @ drop n (array_bytes rep old))) ! i = new ! i"
    using overlay_chunk_new [OF rep new, where n = n] P(1)
    by (simp add: chunks_nth del: drop_append take_append)
qed

text \<open>
  The position of entry \<open>d\<close> of row \<open>u\<close> among rows of \<open>m\<close>, and that entry after cutting
  the flat array into rows.
\<close>

lemma row_nth: "u < n \<Longrightarrow> d < m \<Longrightarrow> length xs = n * m \<Longrightarrow> chunks m n xs ! u ! d = xs ! (u * m + d)"
proof -
  assume u: "u < n" and d: "d < m" and len: "length xs = n * m"
  from u have "Suc u * m \<le> n * m" by (intro mult_le_mono1) simp
  with d len show ?thesis using u by (simp add: chunks_nth)
qed

lemma concat_nth: "(\<forall>r \<in> set xss. length r = m) \<Longrightarrow> u < length xss \<Longrightarrow> d < m \<Longrightarrow>
   concat xss ! (u * m + d) = xss ! u ! d"
  using row_nth [of u "length xss" d m "concat xss"] chunks_concat [of xss m]
    length_concat_rows [of xss m] by simp

text \<open>
  A table of ten rows of \<open>m\<close>, restored from the first \<open>n\<close> bytes of another one: entry by
  entry, the other's when it lies within those bytes, the memory's when it lies behind them.
\<close>

lemma restored_table:
  assumes rep: "rep_ok rep val sz (\<lambda>_. True)"
    and new: "length new = 10" "\<forall>r \<in> set new. length r = m"
    and old: "length old = 10" "\<forall>r \<in> set old. length r = m"
    and n: "n \<le> sz * M" and u: "u < 10" and d: "d < m"
    and table: "table = chunks m 10 (map val (chunks sz M
      (take n (array_bytes rep (concat new)) @ drop n (array_bytes rep (concat old)))))"
    and M: "M = 10 * m"
  shows "Suc (u * m + d) * sz \<le> n \<Longrightarrow> table ! u ! d = new ! u ! d"
    and "n \<le> (u * m + d) * sz \<Longrightarrow> table ! u ! d = old ! u ! d"
proof -
  have len: "length (concat new) = 10 * m" "length (concat old) = 10 * m"
    using length_concat_rows [of new m] length_concat_rows [of old m] new old by simp_all
  have "Suc u \<le> 10" using u by simp
  then have "Suc u * m \<le> 10 * m" by (rule mult_le_mono1)
  then have i: "u * m + d < 10 * m" using d unfolding mult_Suc by linarith
  note entry = overlay_nth [OF rep, of "u * m + d" "concat new" "concat old" n M]
  have at: "table ! u ! d = map val (chunks sz M
      (take n (array_bytes rep (concat new)) @ drop n (array_bytes rep (concat old)))) ! (u * m + d)"
    unfolding table by (rule row_nth [OF u d]) (simp add: M)
  show "Suc (u * m + d) * sz \<le> n \<Longrightarrow> table ! u ! d = new ! u ! d"
    using entry(1) len n i M concat_nth [of new m u d] new u d by (simp add: at)
  show "n \<le> (u * m + d) * sz \<Longrightarrow> table ! u ! d = old ! u ! d"
    using entry(2) len n i M concat_nth [of old m u d] old u d by (simp add: at)
qed

text \<open>The blob of a fresh save replaces exactly its own bytes.\<close>

lemma read_into_take:
  assumes "flash_ok E" and "f key = Some (take n new)" and "n \<le> length new" and "n \<le> length bs"
  shows "read_into E key n f bs = take n new @ drop n bs"
  using read_into_blob [where f = f, OF assms(1,2)] assms(3,4) by simp

section \<open>Users survive a restart\<close>

text \<open>
  The blobs of the users and of their credentials hold the first \<open>numberOfUsers\<close> entries
  and rows, the names are stored whole; behind the blob the arrays keep what the memory held.
\<close>

definition user_spans_ok :: "EmberAfPluginDoorLockUserInfo \<Rightarrow> bool" where
  "user_spans_ok e \<longleftrightarrow>
     (\<forall>sp \<in> {userName e, credentials e}. sp = NullSpan \<or> (\<exists>p n. sp = Span p n \<and> p < 10 \<and> n \<le> 200))"

definition user_rep_ok :: "env \<Rightarrow> bool" where
  "user_rep_ok E \<longleftrightarrow> rep_ok (rep_user E) (val_user E) (sizeof_user E) user_spans_ok
     \<and> rep_ok (rep_credstruct E) (val_credstruct E) (sizeof_credstruct E) (\<lambda>_. True)
     \<and> DOOR_LOCK_MAX_USER_NAME_SIZE E \<le> 200"

definition users_bytes :: "env \<Rightarrow> LockParam \<Rightarrow> nat" where
  "users_bytes E p = sizeof_user E * unat (numberOfUsers p)"

definition rows_bytes :: "env \<Rightarrow> LockParam \<Rightarrow> nat" where
  "rows_bytes E p = sizeof_credstruct E * unat (numberOfUsers p) * 100"

lemma restart_users_tables:
  assumes E: "flash_ok E" "user_rep_ok E" and p: "params_ok (LockParams s)"
    and s: "users_inv E s" and s0: "users_inv E s0"
  shows "mLockUsers (restart E s0 (SaveUsers E s)) = map (val_user E) (chunks (sizeof_user E) 10
      (take (users_bytes E (LockParams s)) (array_bytes (rep_user E) (mLockUsers s))
       @ drop (users_bytes E (LockParams s)) (array_bytes (rep_user E) (mLockUsers s0))))"
    and "mCredentials (restart E s0 (SaveUsers E s)) = chunks 100 10
      (map (val_credstruct E) (chunks (sizeof_credstruct E) 1000
        (take (rows_bytes E (LockParams s)) (array_bytes (rep_credstruct E) (concat (mCredentials s)))
         @ drop (rows_bytes E (LockParams s)) (array_bytes (rep_credstruct E) (concat (mCredentials s0))))))"
    and "mUserNames (restart E s0 (SaveUsers E s)) = mUserNames s"
proof -
  let ?f = "flash (SaveUsers E s)" and ?N = "DOOR_LOCK_MAX_USER_NAME_SIZE E"
  let ?un = "array_bytes (rep_user E) (mLockUsers s)" and ?uo = "array_bytes (rep_user E) (mLockUsers s0)"
  let ?cn = "array_bytes (rep_credstruct E) (concat (mCredentials s))"
    and ?co = "array_bytes (rep_credstruct E) (concat (mCredentials s0))"
  have ru: "rep_ok (rep_user E) (val_user E) (sizeof_user E) user_spans_ok"
    and rc: "rep_ok (rep_credstruct E) (val_credstruct E) (sizeof_credstruct E) (\<lambda>_. True)"
    using E(2) by (simp_all add: user_rep_ok_def)
  have num: "unat (numberOfUsers (LockParams s)) \<le> 10" using p by (simp add: params_ok_def)
  have lens: "length (mLockUsers s) = 10" "length (mLockUsers s0) = 10"
    "length (concat (mCredentials s)) = 1000" "length (concat (mCredentials s0)) = 1000"
    "length (concat (mUserNames s)) = 10 * ?N" "length (concat (mUserNames s0)) = 10 * ?N"
    using s s0 length_concat_rows [of "mCredentials s" 100] length_concat_rows [of "mCredentials s0" 100]
      length_concat_rows [of "mUserNames s" ?N] length_concat_rows [of "mUserNames s0" ?N]
    by (simp_all add: users_inv_def)
  have ub: "users_bytes E (LockParams s) \<le> sizeof_user E * 10"
    using num by (simp add: users_bytes_def)
  have rb: "rows_bytes E (LockParams s) \<le> sizeof_credstruct E * 1000"
    using num mult_le_mono [of "unat (numberOfUsers (LockParams s)) * 100" "10 * 100"
        "sizeof_credstruct E" "sizeof_credstruct E"] by (simp add: rows_bytes_def ac_simps)
  have f: "?f kConfigKey_LockUser = Some (take (users_bytes E (LockParams s)) ?un)"
    "?f kConfigKey_UserCredentials = Some (take (rows_bytes E (LockParams s)) ?cn)"
    "?f kConfigKey_LockUserName = Some (concat (mUserNames s))"
    using E(1) by (simp_all add: SaveUsers_def flash_ok_def users_bytes_def rows_bytes_def limits)
  have "ReadConfigValueBin E kConfigKey_LockUser bs ?f
      = take (users_bytes E (LockParams s)) ?un @ drop (users_bytes E (LockParams s)) bs"
    if "length bs = sizeof_user E * 10" for bs
    using f(1) E(1) that ub length_array_bytes [OF ru, of "mLockUsers s"] lens
    by (simp add: flash_ok_def read_blob_def memcpy_at_def min_def)
  then have r1: "read_into E kConfigKey_LockUser (sizeof_user E * 10) ?f ?uo
      = take (users_bytes E (LockParams s)) ?un @ drop (users_bytes E (LockParams s)) ?uo"
    using length_array_bytes [OF ru, of "mLockUsers s0"] lens by (simp add: read_into_def)
  have r2: "read_into E kConfigKey_UserCredentials (rows_bytes E (LockParams s)) ?f ?co
      = take (rows_bytes E (LockParams s)) ?cn @ drop (rows_bytes E (LockParams s)) ?co"
    using f(2) length_array_bytes [OF rc] lens rb
    by (intro read_into_take [OF E(1)]) simp_all
  have r3: "read_into E kConfigKey_LockUserName (10 * ?N) ?f (concat (mUserNames s0)) = concat (mUserNames s)"
    using read_into_blob [where f = ?f, OF E(1) f(3)] lens by simp
  have names: "chunks ?N 10 (concat (mUserNames s)) = mUserNames s"
    using chunks_concat [of "mUserNames s" ?N] s by (simp add: users_inv_def)
  show "mLockUsers (restart E s0 (SaveUsers E s)) = map (val_user E) (chunks (sizeof_user E) 10
      (take (users_bytes E (LockParams s)) ?un @ drop (users_bytes E (LockParams s)) ?uo))"
    using r1 lens by (simp add: restart_def ReadConfigValues_def Let_def)
  show "mCredentials (restart E s0 (SaveUsers E s)) = chunks 100 10
      (map (val_credstruct E) (chunks (sizeof_credstruct E) 1000
        (take (rows_bytes E (LockParams s)) ?cn @ drop (rows_bytes E (LockParams s)) ?co)))"
    using r2 lens s0 by (simp add: restart_def ReadConfigValues_def Let_def rows_bytes_def limits users_inv_def)
  show "mUserNames (restart E s0 (SaveUsers E s)) = mUserNames s"
    using r3 lens s0 names by (simp add: restart_def ReadConfigValues_def Let_def users_inv_def)
qed

text \<open>Entry by entry: what is restored for the users announced, and kept for the others.\<close>

lemma restart_users_entries:
  assumes E: "flash_ok E" "user_rep_ok E" and p: "params_ok (LockParams s)"
    and s: "users_inv E s" "\<forall>e \<in> set (mLockUsers s). user_spans_ok e"
    and s0: "users_inv E s0" "\<forall>e \<in> set (mLockUsers s0). user_spans_ok e" and u: "u < 10"
  shows "mLockUsers (restart E s0 (SaveUsers E s)) ! u
      = mLockUsers (if u < unat (numberOfUsers (LockParams s)) then s else s0) ! u"
    and "d < 100 \<Longrightarrow> mCredentials (restart E s0 (SaveUsers E s)) ! u ! d
      = mCredentials (if u < unat (numberOfUsers (LockParams s)) then s else s0) ! u ! d"
proof -
  let ?k = "unat (numberOfUsers (LockParams s))"
  have ru: "rep_ok (rep_user E) (val_user E) (sizeof_user E) user_spans_ok"
    and rc: "rep_ok (rep_credstruct E) (val_credstruct E) (sizeof_credstruct E) (\<lambda>_. True)"
    using E(2) by (simp_all add: user_rep_ok_def)
  have num: "?k \<le> 10" using p by (simp add: params_ok_def)
  have lens: "length (mLockUsers s) = 10" "length (mLockUsers s0) = 10"
    "length (mCredentials s) = 10" "\<forall>r \<in> set (mCredentials s). length r = 100"
    "length (mCredentials s0) = 10" "\<forall>r \<in> set (mCredentials s0). length r = 100"
    using s(1) s0(1) by (auto simp: users_inv_def)
  have spans: "user_spans_ok (mLockUsers s ! u)" "user_spans_ok (mLockUsers s0 ! u)"
    using s(2) s0(2) u lens by simp_all
  have ub: "users_bytes E (LockParams s) \<le> sizeof_user E * 10" using num by (simp add: users_bytes_def)
  have rb: "rows_bytes E (LockParams s) \<le> sizeof_credstruct E * 1000"
    using num mult_le_mono [of "?k * 100" "10 * 100" "sizeof_credstruct E" "sizeof_credstruct E"]
    by (simp add: rows_bytes_def ac_simps)
  note tables = restart_users_tables [OF E p s(1) s0(1)]
  note ent = overlay_nth [OF ru, of u "mLockUsers s" "mLockUsers s0" "users_bytes E (LockParams s)" 10]
  show "mLockUsers (restart E s0 (SaveUsers E s)) ! u = mLockUsers (if u < ?k then s else s0) ! u"
  proof (cases "u < ?k")
    case True
    then have "Suc u * sizeof_user E \<le> ?k * sizeof_user E" by (intro mult_le_mono1) simp
    then have "Suc u * sizeof_user E \<le> users_bytes E (LockParams s)"
      by (simp add: users_bytes_def mult.commute)
    with ent(1) True show ?thesis using lens u ub spans tables(1) by simp
  next
    case False
    then have "users_bytes E (LockParams s) \<le> u * sizeof_user E" by (simp add: users_bytes_def)
    with ent(2) False show ?thesis using lens u ub spans tables(1) by simp
  qed
  assume d: "d < 100"
  note row = restored_table [where m = 100, OF rc lens(3-6) rb u d tables(2)]
  show "mCredentials (restart E s0 (SaveUsers E s)) ! u ! d
      = mCredentials (if u < ?k then s else s0) ! u ! d"
  proof (cases "u < ?k")
    case True
    then have "Suc u * 100 \<le> ?k * 100" by (intro mult_le_mono1) simp
    then have "Suc (u * 100 + d) \<le> ?k * 100" using d by simp
    then have "Suc (u * 100 + d) * sizeof_credstruct E \<le> ?k * 100 * sizeof_credstruct E"
      by (rule mult_le_mono1)
    then have "Suc (u * 100 + d) * sizeof_credstruct E \<le> rows_bytes E (LockParams s)"
      by (simp add: rows_bytes_def ac_simps)
    with row(1) True show ?thesis by simp
  next
    case False
    then have "?k * 100 \<le> u * 100" by (intro mult_le_mono1) simp
    then have "?k * 100 \<le> u * 100 + d" by simp
    then have "?k * 100 * sizeof_credstruct E \<le> (u * 100 + d) * sizeof_credstruct E"
      by (rule mult_le_mono1)
    then have "rows_bytes E (LockParams s) \<le> (u * 100 + d) * sizeof_credstruct E"
      by (simp add: rows_bytes_def ac_simps)
    with row(2) False show ?thesis by simp
  qed
qed

lemma user_written_spans:
  assumes "users_inv E s" and "\<forall>e \<in> set (mLockUsers s). user_spans_ok e" and "user_accept E s k v"
    and "user_rep_ok E" and "u < 10"
  shows "\<forall>e \<in> set (mLockUsers (user_written E u v s)). user_spans_ok e"
proof -
  have "length (ua_name v) \<le> 200" "ua_total v \<le> 200"
    using assms by (auto simp: user_accept_def user_rep_ok_def users_inv_def)
  then show ?thesis
    using assms(2,5) unfolding user_written_def
    by (auto simp: user_spans_ok_def dest!: set_update_subset_insert [THEN subsetD])
qed

text \<open>
  After a successful write and a restart a reader sees, of every user up to
  \<open>numberOfUsers\<close>, what it saw before.
\<close>

lemma users_restart:
  assumes E: "flash_ok E" "user_rep_ok E" and p: "params_ok (LockParams s)"
    and s: "users_inv E s" "\<forall>e \<in> set (mLockUsers s). user_spans_ok e"
    and s0: "users_inv E s0" "\<forall>e \<in> set (mLockUsers s0). user_spans_ok e"
    and v: "user_pre v" and put: "put_user E k v s = Some s'"
    and k': "unat k' \<le> unat (numberOfUsers (LockParams s))"
  shows "view_user E blank (restart E s0 s') k' = view_user E blank s' k'"
proof -
  let ?w = "user_written E (unat k - 1) v s"
  from put have acc: "user_accept E s k v" and s': "s' = SaveUsers E ?w"
    using s(1) v by (auto simp: put_user_eq split: if_splits)
  have u: "unat k - 1 < 10" using acc user_index_okD [of k] by (auto simp: user_accept_def)
  have params: "LockParams ?w = LockParams s" by (simp add: user_written_def)
  have inv': "users_inv E s'" using users.put_inv [OF s(1) v put] .
  then have inv: "users_inv E ?w" by (simp add: s' users_inv_def)
  note entries = restart_users_entries [OF E p [folded params] inv
      user_written_spans [OF s acc E(2) u] s0, folded s', unfolded params]
  have names: "mUserNames (restart E s0 s') = mUserNames s'"
    using restart_users_tables(3) [OF E p [folded params] inv s0(1)] by (simp add: s')
  have len: "length (mLockUsers (restart E s0 s')) = 10"
    "length (mCredentials (restart E s0 s')) = 10"
    "\<forall>r \<in> set (mCredentials (restart E s0 s')). length r = 100"
    unfolding s' restart_users_tables(1,2) [OF E p [folded params] inv s0(1)]
    by (simp, simp) (rule chunks_rows, simp)
  have "LockParams (restart E s0 s') = LockParams s'"
    by (simp add: restart_def ReadConfigValues_def Let_def)
  moreover have "user_entry_ok E u (mLockUsers (restart E s0 s') ! u)" if "u < 10" for u
    using entries(1) [OF that] inv' s0(1) that by (simp add: s' users_inv_def)
  ultimately have rinv: "users_inv E (restart E s0 s')"
    using inv' len names by (simp add: users_inv_def)
  show ?thesis
  proof (cases "user_index_ok k'")
    case True
    let ?u = "unat k' - 1"
    have u': "?u < 10" "?u < unat (numberOfUsers (LockParams s))"
      using True k' by (auto simp: user_index_ok_def)
    have "mCredentials (restart E s0 s') ! ?u = mCredentials s' ! ?u"
    proof (rule nth_equalityI)
      show "length (mCredentials (restart E s0 s') ! ?u) = length (mCredentials s' ! ?u)"
        using len inv' u'(1) by (simp add: users_inv_def)
      fix d
      assume "d < length (mCredentials (restart E s0 s') ! ?u)"
      then show "mCredentials (restart E s0 s') ! ?u ! d = mCredentials s' ! ?u ! d"
        using entries(2) [OF u'(1)] u' len by (simp add: s')
    qed
    with entries(1) [OF u'(1)] u'(2) names True show ?thesis
      unfolding view_user_eq [OF rinv] view_user_eq [OF inv'] by (simp add: s' Let_def)
  next
    case False
    then show ?thesis by (simp add: view_user_eq [OF rinv] view_user_eq [OF inv'])
  qed
qed

section \<open>Which schedules survive a restart\<close>

text \<open>The bytes each schedule blob holds.\<close>

definition weekday_bytes :: "env \<Rightarrow> LockParam \<Rightarrow> nat" where
  "weekday_bytes E p = sizeof_weekday E * unat (numberOfWeekdaySchedulesPerUser p) * unat (numberOfUsers p)"

definition yearday_bytes :: "env \<Rightarrow> LockParam \<Rightarrow> nat" where
  "yearday_bytes E p = sizeof_yearday E * unat (numberOfYeardaySchedulesPerUser p) * unat (numberOfUsers p)"

definition holiday_bytes :: "env \<Rightarrow> LockParam \<Rightarrow> nat" where
  "holiday_bytes E p = sizeof_holiday E * unat (numberOfHolidaySchedules p)"

definition schedule_reps_ok :: "env \<Rightarrow> bool" where
  "schedule_reps_ok E \<longleftrightarrow>
     rep_ok (rep_weekday_info E) (val_weekday_info E) (sizeof_weekday_info E) (\<lambda>_. True)
   \<and> rep_ok (rep_yearday_info E) (val_yearday_info E) (sizeof_yearday_info E) (\<lambda>_. True)
   \<and> rep_ok (rep_holiday_info E) (val_holiday_info E) (sizeof_holiday_info E) (\<lambda>_. True)
   \<and> sizeof_weekday E \<le> sizeof_weekday_info E \<and> sizeof_yearday E \<le> sizeof_yearday_info E
   \<and> sizeof_holiday E \<le> sizeof_holiday_info E"

lemma schedule_bytes_le:
  assumes "schedule_reps_ok E" and "params_ok p"
  shows "weekday_bytes E p \<le> sizeof_weekday_info E * 100"
    and "yearday_bytes E p \<le> sizeof_yearday_info E * 100"
    and "holiday_bytes E p \<le> sizeof_holiday_info E * 10"
proof -
  have "sz * a * b \<le> sz' * 100" if "sz \<le> sz'" "a \<le> 10" "b \<le> 10" for sz sz' a b :: nat
    using mult_le_mono [OF mult_le_mono [OF that(1,2)] that(3)] by simp
  then show "weekday_bytes E p \<le> sizeof_weekday_info E * 100"
    and "yearday_bytes E p \<le> sizeof_yearday_info E * 100"
    using assms unfolding weekday_bytes_def yearday_bytes_def schedule_reps_ok_def params_ok_def
    by blast+
  show "holiday_bytes E p \<le> sizeof_holiday_info E * 10"
    using assms unfolding holiday_bytes_def schedule_reps_ok_def params_ok_def
    by (intro mult_le_mono) auto
qed

lemma restart_weekday_table:
  assumes E: "flash_ok E" "schedule_reps_ok E" and p: "params_ok (LockParams s)"
    and s: "schedules_inv s" and s0: "schedules_inv s0"
  shows "mWeekdaySchedule (restart E s0 (SaveWeekdaySchedules E s)) = chunks 10 10
    (map (val_weekday_info E) (chunks (sizeof_weekday_info E) 100
      (take (weekday_bytes E (LockParams s)) (array_bytes (rep_weekday_info E) (concat (mWeekdaySchedule s)))
       @ drop (weekday_bytes E (LockParams s))
          (array_bytes (rep_weekday_info E) (concat (mWeekdaySchedule s0))))))"
proof -
  let ?n = "weekday_bytes E (LockParams s)"
  let ?new = "array_bytes (rep_weekday_info E) (concat (mWeekdaySchedule s))"
  let ?old = "array_bytes (rep_weekday_info E) (concat (mWeekdaySchedule s0))"
  have rep: "rep_ok (rep_weekday_info E) (val_weekday_info E) (sizeof_weekday_info E) (\<lambda>_. True)"
    using E(2) by (simp add: schedule_reps_ok_def)
  have len: "length (concat (mWeekdaySchedule s0)) = 100" "length (concat (mWeekdaySchedule s)) = 100"
    using length_concat_rows [of "mWeekdaySchedule s" 10] s s0
      length_concat_rows [of "mWeekdaySchedule s0" 10] by (simp_all add: schedules_inv_def)
  have "?n \<le> length ?new" "?n \<le> length ?old"
    using schedule_bytes_le(1) [OF E(2) p] length_array_bytes [OF rep] len by simp_all
  moreover have "flash (SaveWeekdaySchedules E s) kConfigKey_WeekDaySchedules = Some (take ?n ?new)"
    using E(1) by (simp add: SaveWeekdaySchedules_def flash_ok_def weekday_bytes_def)
  ultimately have "read_into E kConfigKey_WeekDaySchedules ?n (flash (SaveWeekdaySchedules E s)) ?old
      = take ?n ?new @ drop ?n ?old" using E(1) by (intro read_into_take)
  moreover have "LockParams (SaveWeekdaySchedules E s) = LockParams s"
    by (simp add: SaveWeekdaySchedules_def)
  ultimately show ?thesis
    using len s0 by (simp add: restart_def ReadConfigValues_def Let_def limits schedules_inv_def
        weekday_bytes_def)
qed

lemma restart_yearday_table:
  assumes E: "flash_ok E" "schedule_reps_ok E" and p: "params_ok (LockParams s)"
    and s: "schedules_inv s" and s0: "schedules_inv s0"
  shows "mYeardaySchedule (restart E s0 (SaveYeardaySchedules E s)) = chunks 10 10
    (map (val_yearday_info E) (chunks (sizeof_yearday_info E) 100
      (take (yearday_bytes E (LockParams s)) (array_bytes (rep_yearday_info E) (concat (mYeardaySchedule s)))
       @ drop (yearday_bytes E (LockParams s))
          (array_bytes (rep_yearday_info E) (concat (mYeardaySchedule s0))))))"
proof -
  let ?n = "yearday_bytes E (LockParams s)"
  let ?new = "array_bytes (rep_yearday_info E) (concat (mYeardaySchedule s))"
  let ?old = "array_bytes (rep_yearday_info E) (concat (mYeardaySchedule s0))"
  have rep: "rep_ok (rep_yearday_info E) (val_yearday_info E) (sizeof_yearday_info E) (\<lambda>_. True)"
    using E(2) by (simp add: schedule_reps_ok_def)
  have len: "length (concat (mYeardaySchedule s0)) = 100" "length (concat (mYeardaySchedule s)) = 100"
    using length_concat_rows [of "mYeardaySchedule s" 10] s s0
      length_concat_rows [of "mYeardaySchedule s0" 10] by (simp_all add: schedules_inv_def)
  have "?n \<le> length ?new" "?n \<le> length ?old"
    using schedule_bytes_le(2) [OF E(2) p] length_array_bytes [OF rep] len by simp_all
  moreover have "flash (SaveYeardaySchedules E s) kConfigKey_YearDaySchedules = Some (take ?n ?new)"
    using E(1) by (simp add: SaveYeardaySchedules_def flash_ok_def yearday_bytes_def)
  ultimately have "read_into E kConfigKey_YearDaySchedules ?n (flash (SaveYeardaySchedules E s)) ?old
      = take ?n ?new @ drop ?n ?old" using E(1) by (intro read_into_take)
  moreover have "LockParams (SaveYeardaySchedules E s) = LockParams s"
    by (simp add: SaveYeardaySchedules_def)
  ultimately show ?thesis
    using len s0 by (simp add: restart_def ReadConfigValues_def Let_def limits schedules_inv_def
        yearday_bytes_def)
qed

lemma restart_holiday_table:
  assumes E: "flash_ok E" "schedule_reps_ok E" and p: "params_ok (LockParams s)"
    and s: "schedules_inv s" and s0: "schedules_inv s0"
  shows "mHolidaySchedule (restart E s0 (SaveHolidaySchedules E s)) =
    map (val_holiday_info E) (chunks (sizeof_holiday_info E) 10
      (take (holiday_bytes E (LockParams s)) (array_bytes (rep_holiday_info E) (mHolidaySchedule s))
       @ drop (holiday_bytes E (LockParams s))
          (array_bytes (rep_holiday_info E) (mHolidaySchedule s0))))"
proof -
  let ?n = "holiday_bytes E (LockParams s)"
  let ?new = "array_bytes (rep_holiday_info E) (mHolidaySchedule s)"
  let ?old = "array_bytes (rep_holiday_info E) (mHolidaySchedule s0)"
  have rep: "rep_ok (rep_holiday_info E) (val_holiday_info E) (sizeof_holiday_info E) (\<lambda>_. True)"
    using E(2) by (simp add: schedule_reps_ok_def)
  have len: "length (mHolidaySchedule s0) = 10" "length (mHolidaySchedule s) = 10"
    using s s0 by (simp_all add: schedules_inv_def)
  have "?n \<le> length ?new" "?n \<le> length ?old"
    using schedule_bytes_le(3) [OF E(2) p] length_array_bytes [OF rep] len by simp_all
  moreover have "flash (SaveHolidaySchedules E s) kConfigKey_HolidaySchedules = Some (take ?n ?new)"
    using E(1) by (simp add: SaveHolidaySchedules_def flash_ok_def holiday_bytes_def)
  ultimately have "read_into E kConfigKey_HolidaySchedules ?n (flash (SaveHolidaySchedules E s)) ?old
      = take ?n ?new @ drop ?n ?old" using E(1) by (intro read_into_take)
  moreover have "LockParams (SaveHolidaySchedules E s) = LockParams s"
    by (simp add: SaveHolidaySchedules_def)
  ultimately show ?thesis
    using len by (simp add: restart_def ReadConfigValues_def Let_def holiday_bytes_def)
qed

text \<open>The position of an entry in its flat table.\<close>

definition schedule_pos :: "schedule_key \<Rightarrow> nat" where
  "schedule_pos k = (unat (snd k) - 1) * 10 + (unat (fst k) - 1)"

lemma weekday_restart:
  assumes E: "flash_ok E" "schedule_reps_ok E" and p: "params_ok (LockParams s)"
    and s: "schedules_inv s" and s0: "schedules_inv s0"
    and put: "put_weekday E k v s = Some s'" and key: "schedule_key_ok k'"
  shows "Suc (schedule_pos k') * sizeof_weekday_info E \<le> weekday_bytes E (LockParams s) \<Longrightarrow>
      view_weekday E blank (restart E s0 s') k' = view_weekday E blank s' k'"
    and "weekday_bytes E (LockParams s) \<le> schedule_pos k' * sizeof_weekday_info E \<Longrightarrow>
      view_weekday E blank (restart E s0 s') k' = view_weekday E blank s0 k'"
proof -
  obtain t where t: "schedules_inv t" "LockParams t = LockParams s" "s' = SaveWeekdaySchedules E t"
  proof -
    let ?t = "s\<lparr>mWeekdaySchedule := table_upd (unat (snd k) - 1) (unat (fst k) - 1) v (mWeekdaySchedule s)\<rparr>"
    have "s' = SaveWeekdaySchedules E ?t" using put by (simp add: put_weekday_eq split: if_splits)
    moreover have "schedules_inv ?t"
      using weekday.put_inv [OF s _ put] calculation by (simp add: schedules_inv_def)
    ultimately show ?thesis by (intro that [of ?t]) simp_all
  qed
  have p': "params_ok (LockParams t)" using p t(2) by simp
  note table = restart_weekday_table [OF E p' t(1) s0]
  have rep: "rep_ok (rep_weekday_info E) (val_weekday_info E) (sizeof_weekday_info E) (\<lambda>_. True)"
    using E(2) by (simp add: schedule_reps_ok_def)
  have shapes: "length (mWeekdaySchedule t) = 10" "\<forall>r \<in> set (mWeekdaySchedule t). length r = 10"
    "length (mWeekdaySchedule s0) = 10" "\<forall>r \<in> set (mWeekdaySchedule s0). length r = 10"
    using t(1) s0 by (auto simp: schedules_inv_def)
  note entry = restored_table [where m = 10, OF rep shapes schedule_bytes_le(1) [OF E(2) p']
      schedule_slot(4,3) [OF key] table, simplified, folded schedule_pos_def [unfolded One_nat_def]]
  show "Suc (schedule_pos k') * sizeof_weekday_info E \<le> weekday_bytes E (LockParams s) \<Longrightarrow>
      view_weekday E blank (restart E s0 s') k' = view_weekday E blank s' k'"
    using entry(1) t(2,3) key by (simp add: view_weekday_eq)
  show "weekday_bytes E (LockParams s) \<le> schedule_pos k' * sizeof_weekday_info E \<Longrightarrow>
      view_weekday E blank (restart E s0 s') k' = view_weekday E blank s0 k'"
    using entry(2) t(2,3) key by (simp add: view_weekday_eq)
qed

lemma yearday_restart:
  assumes E: "flash_ok E" "schedule_reps_ok E" and p: "params_ok (LockParams s)"
    and s: "schedules_inv s" and s0: "schedules_inv s0"
    and put: "put_yearday E k v s = Some s'" and key: "schedule_key_ok k'"
  shows "Suc (schedule_pos k') * sizeof_yearday_info E \<le> yearday_bytes E (LockParams s) \<Longrightarrow>
      view_yearday E blank (restart E s0 s') k' = view_yearday E blank s' k'"
    and "yearday_bytes E (LockParams s) \<le> schedule_pos k' * sizeof_yearday_info E \<Longrightarrow>
      view_yearday E blank (restart E s0 s') k' = view_yearday E blank s0 k'"
proof -
  obtain t where t: "schedules_inv t" "LockParams t = LockParams s" "s' = SaveYeardaySchedules E t"
  proof -
    let ?t = "s\<lparr>mYeardaySchedule := table_upd (unat (snd k) - 1) (unat (fst k) - 1) v (mYeardaySchedule s)\<rparr>"
    have "s' = SaveYeardaySchedules E ?t" using put by (simp add: put_yearday_eq split: if_splits)
    moreover have "schedules_inv ?t"
      using yearday.put_inv [OF s _ put] calculation by (simp add: schedules_inv_def)
    ultimately show ?thesis by (intro that [of ?t]) simp_all
  qed
  have p': "params_ok (LockParams t)" using p t(2) by simp
  note table = restart_yearday_table [OF E p' t(1) s0]
  have rep: "rep_ok (rep_yearday_info E) (val_yearday_info E) (sizeof_yearday_info E) (\<lambda>_. True)"
    using E(2) by (simp add: schedule_reps_ok_def)
  have shapes: "length (mYeardaySchedule t) = 10" "\<forall>r \<in> set (mYeardaySchedule t). length r = 10"
    "length (mYeardaySchedule s0) = 10" "\<forall>r \<in> set (mYeardaySchedule s0). length r = 10"
    using t(1) s0 by (auto simp: schedules_inv_def)
  note entry = restored_table [where m = 10, OF rep shapes schedule_bytes_le(2) [OF E(2) p']
      schedule_slot(4,3) [OF key] table, simplified, folded schedule_pos_def [unfolded One_nat_def]]
  show "Suc (schedule_pos k') * sizeof_yearday_info E \<le> yearday_bytes E (LockParams s) \<Longrightarrow>
      view_yearday E blank (restart E s0 s') k' = view_yearday E blank s' k'"
    using entry(1) t(2,3) key by (simp add: view_yearday_eq)
  show "yearday_bytes E (LockParams s) \<le> schedule_pos k' * sizeof_yearday_info E \<Longrightarrow>
      view_yearday E blank (restart E s0 s') k' = view_yearday E blank s0 k'"
    using entry(2) t(2,3) key by (simp add: view_yearday_eq)
qed

lemma holiday_restart:
  assumes E: "flash_ok E" "schedule_reps_ok E" and p: "params_ok (LockParams s)"
    and s: "schedules_inv s" and s0: "schedules_inv s0"
    and put: "put_holiday E k v s = Some s'" and key: "holiday_key_ok k'"
  shows "unat k' * sizeof_holiday_info E \<le> holiday_bytes E (LockParams s) \<Longrightarrow>
      view_holiday E blank (restart E s0 s') k' = view_holiday E blank s' k'"
    and "holiday_bytes E (LockParams s) \<le> (unat k' - 1) * sizeof_holiday_info E \<Longrightarrow>
      view_holiday E blank (restart E s0 s') k' = view_holiday E blank s0 k'"
proof -
  obtain t where t: "schedules_inv t" "LockParams t = LockParams s" "s' = SaveHolidaySchedules E t"
  proof -
    let ?t = "s\<lparr>mHolidaySchedule := (mHolidaySchedule s)[unat k - 1 := v]\<rparr>"
    have "s' = SaveHolidaySchedules E ?t" using put by (simp add: put_holiday_eq split: if_splits)
    moreover have "schedules_inv ?t"
      using holiday.put_inv [OF s _ put] calculation by (simp add: schedules_inv_def)
    ultimately show ?thesis by (intro that [of ?t]) simp_all
  qed
  have p': "params_ok (LockParams t)" using p t(2) by simp
  note table = restart_holiday_table [OF E p' t(1) s0]
  have rep: "rep_ok (rep_holiday_info E) (val_holiday_info E) (sizeof_holiday_info E) (\<lambda>_. True)"
    using E(2) by (simp add: schedule_reps_ok_def)
  note entry = overlay_nth [OF rep, of "unat k' - 1" "mHolidaySchedule t" "mHolidaySchedule s0"
      "holiday_bytes E (LockParams t)" 10, unfolded One_nat_def]
  have pos: "Suc (unat k' - 1) = unat k'" using key by (simp add: holiday_key_ok_def)
  show "unat k' * sizeof_holiday_info E \<le> holiday_bytes E (LockParams s) \<Longrightarrow>
      view_holiday E blank (restart E s0 s') k' = view_holiday E blank s' k'"
    using entry(1) t s0 schedule_bytes_le(3) [OF E(2) p] holiday_slot(2) [OF key] key pos table
    by (simp add: view_holiday_eq schedules_inv_def)
  show "holiday_bytes E (LockParams s) \<le> (unat k' - 1) * sizeof_holiday_info E \<Longrightarrow>
      view_holiday E blank (restart E s0 s') k' = view_holiday E blank s0 k'"
    using entry(2) t s0 schedule_bytes_le(3) [OF E(2) p] holiday_slot(2) [OF key] key pos table
    by (simp add: view_holiday_eq schedules_inv_def)
qed

end
