(* ===== verification/AppTask.thy ===== *)
theory AppTask
  imports Actuator
begin

text \<open>
  The application task of \<open>src/AppTask.cpp\<close>: its timer, the handlers of the events in its
  queue, the dispatcher and one round of its main loop. The handlers run one at a time in the
  task; the timer callbacks, which run elsewhere, only post events.
\<close>

section \<open>Constants of \<open>include/AppConfig.h\<close>\<close>

definition FACTORY_RESET_CANCEL_WINDOW_TIMEOUT :: u32 where
  "FACTORY_RESET_CANCEL_WINDOW_TIMEOUT = 5000"

definition APP_FUNCTION_BUTTON_IDX :: "env \<Rightarrow> u8" where
  "APP_FUNCTION_BUTTON_IDX E = (if CYW955913EVK_01 E then 0 else 1)"

definition APP_BUTTON_PRESSED :: u8 where "APP_BUTTON_PRESSED = 0"
definition APP_BUTTON_RELEASED :: u8 where "APP_BUTTON_RELEASED = 1"
definition APP_BUTTON_LONG_PRESS :: u8 where "APP_BUTTON_LONG_PRESS = 2"
definition APP_BUTTON_MIN_ASSERT_TIME_MS :: u32 where "APP_BUTTON_MIN_ASSERT_TIME_MS = 500"

lemmas button_action_defs = APP_BUTTON_PRESSED_def APP_BUTTON_RELEASED_def APP_BUTTON_LONG_PRESS_def

section \<open>The function timer\<close>

definition AppTask_CancelTimer :: "env \<Rightarrow> world \<Rightarrow> world outcome" where
  "AppTask_CancelTimer E w =
     (case rtos_timer_stop E (sFunctionTimer w) of
        None \<Rightarrow> Halted APP_ERROR_STOP_TIMER_FAILED
      | Some t \<Rightarrow> Done (w\<lparr>sFunctionTimer := t, mFunctionTimerActive := False\<rparr>))"

definition AppTask_StartTimer :: "env \<Rightarrow> u32 \<Rightarrow> world \<Rightarrow> world outcome" where
  "AppTask_StartTimer E aTimeoutInMs w =
     obind (if rtos_timer_is_running E (sFunctionTimer w) then AppTask_CancelTimer E w else Done w)
       (\<lambda>w. case rtos_timer_start E aTimeoutInMs (sFunctionTimer w) of
              None \<Rightarrow> Halted APP_ERROR_START_TIMER_FAILED
            | Some t \<Rightarrow> Done (w\<lparr>sFunctionTimer := t, mFunctionTimerActive := True\<rparr>))"

section \<open>Posting events\<close>

definition AppTask_TimerEventHandler :: "env \<Rightarrow> context_ptr \<Rightarrow> world \<Rightarrow> world" where
  "AppTask_TimerEventHandler E arg w =
     PostEvent E \<lparr>Type = kEventType_Timer, evt_union = TimerEvent arg,
       Handler = Some H_FunctionTimerEventHandler\<rparr> w"

definition ButtonEventHandler :: "env \<Rightarrow> u8 \<Rightarrow> u8 \<Rightarrow> world \<Rightarrow> world" where
  "ButtonEventHandler E btnIdx btnAction w =
     (if btnIdx \<noteq> APP_FUNCTION_BUTTON_IDX E then w
      else let button_event = \<lparr>Type = kEventType_Button,
                 evt_union = ButtonEvent btnIdx btnAction, Handler = None\<rparr>
      in if btnIdx = APP_FUNCTION_BUTTON_IDX E
         then PostEvent E (button_event\<lparr>Handler := Some H_FunctionHandler\<rparr>) w
         else w)"

definition ActionRequest :: "env \<Rightarrow> i32 \<Rightarrow> Action_t \<Rightarrow> world \<Rightarrow> world" where
  "ActionRequest E aActor aAction w =
     PostEvent E \<lparr>Type = kEventType_Lock, evt_union = LockEvent (Action_code aAction) aActor,
       Handler = Some H_LockActionEventHandler\<rparr> w"

section \<open>Handlers\<close>

text \<open>
  The result of \<open>InitiateAction\<close> only decides a log line. The next action is the opposite of
  the state the lock is in.
\<close>

definition next_action :: "world \<Rightarrow> Action_t" where
  "next_action w = (if NextState w = True then LOCK_ACTION else UNLOCK_ACTION)"

definition initiate_and_log :: "env \<Rightarrow> i32 \<Rightarrow> Action_t \<Rightarrow> world \<Rightarrow> world outcome" where
  "initiate_and_log E actor action w =
     obind (InitiateAction E actor action w) (\<lambda>(started, w). Done w)"

text \<open>An \<open>Action_t\<close> from the byte stored in an event; no other byte is ever stored.\<close>

definition Action_of_code :: "u8 \<Rightarrow> Action_t outcome" where
  "Action_of_code c =
     (if c = 0 then Done LOCK_ACTION else if c = 1 then Done UNLOCK_ACTION
      else if c = 2 then Done INVALID_ACTION else Undef)"

definition LockActionEventHandler :: "env \<Rightarrow> AppEvent \<Rightarrow> world \<Rightarrow> world outcome" where
  "LockActionEventHandler E event w =
     (if Type event = kEventType_Lock then
        (case evt_union event of
           LockEvent code actor \<Rightarrow>
             obind (Action_of_code code) (\<lambda>action. initiate_and_log E actor action w)
         | _ \<Rightarrow> Undef)
      else if Type event = kEventType_Button then
        (case evt_union event of
           ButtonEvent idx action \<Rightarrow>
             if action = APP_BUTTON_LONG_PRESS
             then Done (emit (Eff_SendLockAlarmEvent 1 AlarmCode_kLockJammed) w)
             else initiate_and_log E kEventType_Button (next_action w) w
         | _ \<Rightarrow> Undef)
      else Done w)"

definition FunctionTimerEventHandler :: "AppEvent \<Rightarrow> world \<Rightarrow> world outcome" where
  "FunctionTimerEventHandler event w =
     (if Type event \<noteq> kEventType_Timer then Done w
      else if mFunctionTimerActive w \<and> mFunction w = kFactoryReset
      then Done (emit Eff_ScheduleFactoryReset (w\<lparr>mFunction := kNoneSelected\<rparr>))
      else Done w)"

definition FunctionHandler :: "env \<Rightarrow> AppEvent \<Rightarrow> world \<Rightarrow> world outcome" where
  "FunctionHandler E event w =
     (case evt_union event of
        ButtonEvent btnIdx action \<Rightarrow>
          if btnIdx \<noteq> APP_FUNCTION_BUTTON_IDX E then Done w
          else if action = APP_BUTTON_LONG_PRESS then
            (if \<not> mFunctionTimerActive w \<and> mFunction w = kNoneSelected then
               obind (AppTask_StartTimer E FACTORY_RESET_CANCEL_WINDOW_TIMEOUT w) (\<lambda>w.
               let w = w\<lparr>mFunction := kFactoryReset\<rparr> in
               Done (if ENABLE_UI E then w
                     else on_led (Led_Blink_rate (clock_ms w) 500) (on_led (Led_Set False) w)))
             else if mFunctionTimerActive w \<and> mFunction w = kFactoryReset then
               let w = (if ENABLE_UI E then w else on_led (Led_Set (\<not> NextState w)) w) in
               obind (AppTask_CancelTimer E w) (\<lambda>w.
               Done (w\<lparr>mFunction := kNoneSelected\<rparr>))
             else Done w)
          else if ENABLE_BUTTON_LOCK_UNLOCK E
          then initiate_and_log E kEventType_Button (next_action w) w
          else Done w
      | _ \<Rightarrow> Undef)"

text \<open>The touch screen's entry; only compiled with the display. 0 or -1.\<close>

definition start_lock_action :: "env \<Rightarrow> bool \<Rightarrow> world \<Rightarrow> (i32 \<times> world) outcome" where
  "start_lock_action E lock w =
     (let action = (if lock then LOCK_ACTION else UNLOCK_ACTION) in
      obind (InitiateAction E kEventType_Button action w) (\<lambda>(started, w).
      if \<not> started then Done (- 1, w) else Done (0, w)))"

definition UpdateCluster :: "world \<Rightarrow> world" where
  "UpdateCluster w =
     (let unlocked = NextState w;
          newState = (if unlocked then kUnlocked else kLocked);
          source = OperationSource_kUnspecified
      in emit (Eff_SetLockState 1 newState (Some source)) w)"

section \<open>The main loop\<close>

definition DispatchEvent :: "env \<Rightarrow> AppEvent \<Rightarrow> world \<Rightarrow> world outcome" where
  "DispatchEvent E event w =
     (case Handler event of
        None \<Rightarrow> Done w
      | Some H_FunctionHandler \<Rightarrow> FunctionHandler E event w
      | Some H_FunctionTimerEventHandler \<Rightarrow> FunctionTimerEventHandler event w
      | Some H_LockActionEventHandler \<Rightarrow> LockActionEventHandler E event w
      | Some H_ActuatorMovementTimerEventHandler \<Rightarrow> ActuatorMovementTimerEventHandler E event w)"

text \<open>
  What the connectivity manager answers, when the stack's lock is free: WiFi station
  enabled, connected, provisioned, and the number of BLE connections.
\<close>

record connectivity =
  wifi_enabled :: bool
  wifi_connected :: bool
  wifi_provisioned :: bool
  num_ble :: u16

definition collect_connectivity :: "connectivity option \<Rightarrow> world \<Rightarrow> world" where
  "collect_connectivity c w =
     (case c of
        None \<Rightarrow> w
      | Some c \<Rightarrow> w\<lparr>sIsWiFiStationEnabled := wifi_enabled c,
          sIsWiFiStationConnected := wifi_connected c,
          sIsWiFiStationProvisioned := wifi_provisioned c,
          sHaveBLEConnections := (num_ble c \<noteq> 0)\<rparr>)"

text \<open>
  One round: wait for an event without a time limit (so nothing happens while the queue is
  empty), dispatch it, read the connectivity, let the LED blink.
\<close>

definition AppTaskMain_round :: "env \<Rightarrow> connectivity option \<Rightarrow> world \<Rightarrow> world outcome option" where
  "AppTaskMain_round E c w =
     (case sAppEventQueue w of
        [] \<Rightarrow> None
      | event # q \<Rightarrow> Some (
          obind (DispatchEvent E event (w\<lparr>sAppEventQueue := q\<rparr>)) (\<lambda>w.
          let w = collect_connectivity c w
          in Done (if ENABLE_UI E then w else on_led (Led_Animate (clock_ms w)) w))))"

end
