(* ===== verification/Buttons.thy ===== *)
theory Buttons
  imports AppTask
begin

text \<open>
  \<open>src/ButtonHandler.cpp\<close>: the push button. Its interrupt starts the debounce timer of its
  index; when that timer expires, the level of the pin tells a long press from a short one.
\<close>

definition kButtonCount :: nat where "kButtonCount = 1"

text \<open>
  The timers are set up one by one, and the results are not looked at; a pin that could not be
  set up is only logged.
\<close>

definition ButtonHandler_GpioInit :: "world \<Rightarrow> world" where
  "ButtonHandler_GpioInit w =
     emit (Eff_call ''cyhal_gpio_enable_event'')
      (emit (Eff_call ''cyhal_gpio_register_callback'')
        (emit (Eff_call ''cyhal_gpio_init'') w))"

fun init_button_timers :: "env \<Rightarrow> nat \<Rightarrow> cy_timer list \<Rightarrow> cy_timer list" where
  "init_button_timers E 0 ts = ts"
| "init_button_timers E (Suc i) ts =
     (let ts = init_button_timers E i ts
      in if rtos_timer_init E (ButtonTimer i) then ts[i := None] else ts)"

definition ButtonHandler_Init :: "env \<Rightarrow> world \<Rightarrow> world" where
  "ButtonHandler_Init E w =
     (let w = ButtonHandler_GpioInit w
      in w\<lparr>buttonTimers := init_button_timers E kButtonCount (buttonTimers w)\<rparr>)"

text \<open>The interrupt of the button; an index outside the array of timers is undefined.\<close>

definition FuncButtonCallback :: "env \<Rightarrow> world \<Rightarrow> world outcome" where
  "FuncButtonCallback E w =
     (let i = unat (APP_FUNCTION_BUTTON_IDX E) in
      if \<not> i < length (buttonTimers w) then Undef
      else case rtos_timer_start E APP_BUTTON_MIN_ASSERT_TIME_MS (buttonTimers w ! i) of
             None \<Rightarrow> Done w
           | Some t \<Rightarrow> Done (w\<lparr>buttonTimers := (buttonTimers w)[i := t]\<rparr>))"

text \<open>
  Runs in the timer task when \<open>buttonTimers[arg]\<close> expires; \<open>level\<close> is what the pin reads
  (released is true, the button pulls it down). The identifier is cut to a byte.
\<close>

definition ButtonHandler_TimerCallback :: "env \<Rightarrow> u32 \<Rightarrow> bool \<Rightarrow> world \<Rightarrow> world" where
  "ButtonHandler_TimerCallback E arg level w =
     (let timerId = arg in
      if timerId \<noteq> 0 then ButtonEventHandler E (ucast timerId) APP_BUTTON_PRESSED w
      else let buttonevent = (if level then 1 else 0 :: u8) in
      if buttonevent = 0 then ButtonEventHandler E (ucast timerId) APP_BUTTON_LONG_PRESS w
      else ButtonEventHandler E (ucast timerId) APP_BUTTON_PRESSED w)"

end
