(* ===== verification/ZclCallbacks.thy ===== *)
theory ZclCallbacks
  imports LockAccess AppTask
begin

text \<open>
  \<open>src/ZclCallbacks.cpp\<close>: the entry points the Matter door lock server calls, in the Matter
  task. A remote lock or unlock command first checks the PIN and sets the attribute, then
  asks the actuator to move; the databases' entry points go straight to the lock manager.
\<close>

section \<open>Lock and unlock commands\<close>

definition emberAfPluginDoorLockOnDoorLockCommand ::
  "env \<Rightarrow> EndpointId \<Rightarrow> byte list option \<Rightarrow> OperationErrorEnum \<Rightarrow> world
    \<Rightarrow> (bool \<times> OperationErrorEnum \<times> world) outcome" where
  "emberAfPluginDoorLockOnDoorLockCommand E endpointId pinCode err w =
     (case LockManager_Lock E endpointId pinCode err w of (status, err, w) \<Rightarrow>
        if status = True
        then obind (InitiateAction E kEventType_Lock LOCK_ACTION w) (\<lambda>(started, w).
             Done (status, err, w))
        else Done (status, err, w))"

definition emberAfPluginDoorLockOnDoorUnlockCommand ::
  "env \<Rightarrow> EndpointId \<Rightarrow> byte list option \<Rightarrow> OperationErrorEnum \<Rightarrow> world
    \<Rightarrow> (bool \<times> OperationErrorEnum \<times> world) outcome" where
  "emberAfPluginDoorLockOnDoorUnlockCommand E endpointId pinCode err w =
     (case LockManager_Unlock E endpointId pinCode err w of (status, err, w) \<Rightarrow>
        if status = True
        then obind (InitiateAction E kEventType_Lock UNLOCK_ACTION w) (\<lambda>(started, w).
             Done (status, err, w))
        else Done (status, err, w))"

section \<open>Databases\<close>

definition emberAfPluginDoorLockGetCredential ::
  "env \<Rightarrow> EndpointId \<Rightarrow> u16 \<Rightarrow> CredentialTypeEnum \<Rightarrow> EmberAfPluginDoorLockCredentialInfo
    \<Rightarrow> world \<Rightarrow> bool \<times> EmberAfPluginDoorLockCredentialInfo" where
  "emberAfPluginDoorLockGetCredential E endpointId credentialIndex credentialType credential w =
     GetCredential E endpointId credentialIndex credentialType credential w"

definition emberAfPluginDoorLockSetCredential ::
  "env \<Rightarrow> EndpointId \<Rightarrow> u16 \<Rightarrow> FabricIndex \<Rightarrow> FabricIndex \<Rightarrow> DlCredentialStatus
    \<Rightarrow> CredentialTypeEnum \<Rightarrow> byte list \<Rightarrow> world \<Rightarrow> (bool \<times> world) outcome" where
  "emberAfPluginDoorLockSetCredential E endpointId credentialIndex creator modifier
       credentialStatus credentialType credentialData w =
     SetCredential E endpointId credentialIndex creator modifier credentialStatus credentialType
       credentialData w"

definition emberAfPluginDoorLockGetUser ::
  "env \<Rightarrow> EndpointId \<Rightarrow> u16 \<Rightarrow> EmberAfPluginDoorLockUserInfo \<Rightarrow> world
    \<Rightarrow> bool \<times> EmberAfPluginDoorLockUserInfo" where
  "emberAfPluginDoorLockGetUser E endpointId userIndex user w = GetUser E endpointId userIndex user w"

definition emberAfPluginDoorLockSetUser ::
  "env \<Rightarrow> EndpointId \<Rightarrow> u16 \<Rightarrow> FabricIndex \<Rightarrow> FabricIndex \<Rightarrow> byte list \<Rightarrow> u32
    \<Rightarrow> UserStatusEnum \<Rightarrow> UserTypeEnum \<Rightarrow> CredentialRuleEnum \<Rightarrow> CredentialStruct list \<Rightarrow> nat
    \<Rightarrow> world \<Rightarrow> (bool \<times> world) outcome" where
  "emberAfPluginDoorLockSetUser E endpointId userIndex creator modifier name uniqueId
       ustatus usertype rule creds totalCredentials w =
     SetUser E endpointId userIndex creator modifier name uniqueId ustatus usertype
       rule creds totalCredentials w"

definition emberAfPluginDoorLockGetSchedule_weekday ::
  "env \<Rightarrow> EndpointId \<Rightarrow> u8 \<Rightarrow> u16 \<Rightarrow> EmberAfPluginDoorLockWeekDaySchedule \<Rightarrow> world
    \<Rightarrow> DlStatus \<times> EmberAfPluginDoorLockWeekDaySchedule" where
  "emberAfPluginDoorLockGetSchedule_weekday E endpointId weekdayIndex userIndex schedule w =
     GetWeekdaySchedule E endpointId weekdayIndex userIndex schedule w"

definition emberAfPluginDoorLockGetSchedule_yearday ::
  "env \<Rightarrow> EndpointId \<Rightarrow> u8 \<Rightarrow> u16 \<Rightarrow> EmberAfPluginDoorLockYearDaySchedule \<Rightarrow> world
    \<Rightarrow> DlStatus \<times> EmberAfPluginDoorLockYearDaySchedule" where
  "emberAfPluginDoorLockGetSchedule_yearday E endpointId yearDayIndex userIndex schedule w =
     GetYeardaySchedule E endpointId yearDayIndex userIndex schedule w"

definition emberAfPluginDoorLockGetSchedule_holiday ::
  "env \<Rightarrow> EndpointId \<Rightarrow> u8 \<Rightarrow> EmberAfPluginDoorLockHolidaySchedule \<Rightarrow> world
    \<Rightarrow> DlStatus \<times> EmberAfPluginDoorLockHolidaySchedule" where
  "emberAfPluginDoorLockGetSchedule_holiday E endpointId holidayIndex schedule w =
     GetHolidaySchedule E endpointId holidayIndex schedule w"

definition emberAfPluginDoorLockSetSchedule_weekday ::
  "env \<Rightarrow> EndpointId \<Rightarrow> u8 \<Rightarrow> u16 \<Rightarrow> DlScheduleStatus \<Rightarrow> DaysMaskMap \<Rightarrow> u8 \<Rightarrow> u8 \<Rightarrow> u8 \<Rightarrow> u8
    \<Rightarrow> world \<Rightarrow> DlStatus \<times> world" where
  "emberAfPluginDoorLockSetSchedule_weekday E endpointId weekdayIndex userIndex status days
       sHour sMinute eHour eMinute w =
     SetWeekdaySchedule E endpointId weekdayIndex userIndex status days sHour sMinute
       eHour eMinute w"

definition emberAfPluginDoorLockSetSchedule_yearday ::
  "env \<Rightarrow> EndpointId \<Rightarrow> u8 \<Rightarrow> u16 \<Rightarrow> DlScheduleStatus \<Rightarrow> u32 \<Rightarrow> u32
    \<Rightarrow> world \<Rightarrow> DlStatus \<times> world" where
  "emberAfPluginDoorLockSetSchedule_yearday E endpointId yearDayIndex userIndex status
       localStartTime localEndTime w =
     SetYeardaySchedule E endpointId yearDayIndex userIndex status localStartTime localEndTime w"

definition emberAfPluginDoorLockSetSchedule_holiday ::
  "env \<Rightarrow> EndpointId \<Rightarrow> u8 \<Rightarrow> DlScheduleStatus \<Rightarrow> u32 \<Rightarrow> u32 \<Rightarrow> OperatingModeEnum
    \<Rightarrow> world \<Rightarrow> DlStatus \<times> world" where
  "emberAfPluginDoorLockSetSchedule_holiday E endpointId holidayIndex status localStartTime
       localEndTime operatingMode w =
     SetHolidaySchedule E endpointId holidayIndex status localStartTime localEndTime operatingMode w"

section \<open>What a lock command does to the actuator\<close>

lemma setLockState_simps [simp]:
  "setLockState E ep st pin err w = (b, err', w') \<Longrightarrow> mState w' = mState w"
  "setLockState E ep st pin err w = (b, err', w') \<Longrightarrow> sLockTimer w' = sLockTimer w"
  "setLockState E ep st pin err w = (b, err', w') \<Longrightarrow> sAppEventQueue w' = sAppEventQueue w"
  by (auto simp: setLockState_def Let_def split: option.splits if_splits)

end
