(* ===== verification/Startup.thy ===== *)
theory Startup
  imports LockFlash Buttons ZclCallbacks
begin

text \<open>
  Start-up: the memory the program starts with, \<open>AppTask::lockMgr_Init\<close>, \<open>InitServer\<close>,
  \<open>AppTask::Init\<close> and \<open>StartAppTask\<close>, and the callback for device events. What the Matter stack answers during start-up is an argument; calls of it whose
  results the code does not look at are recorded among the effects.
\<close>

section \<open>Static memory\<close>

definition user_zero :: EmberAfPluginDoorLockUserInfo where
  "user_zero = \<lparr>userName = NullSpan, credentials = NullSpan, userUniqueId = 0, userStatus = 0,
     userType = 0, credentialRule = 0, creationSource = 0, createdBy = 0, modificationSource = 0,
     lastModifiedBy = 0\<rparr>"

definition credential_zero :: EmberAfPluginDoorLockCredentialInfo where
  "credential_zero = \<lparr>crd_status = 0, crd_credentialType = 0, crd_credentialData = NullSpan,
     crd_creationSource = 0, crd_createdBy = 0, crd_modificationSource = 0, crd_lastModifiedBy = 0\<rparr>"

definition weekday_zero :: WeekDaysScheduleInfo where
  "weekday_zero = \<lparr>wd_status = 0, wd_schedule = \<lparr>daysMask = 0, startHour = 0, startMinute = 0,
     endHour = 0, endMinute = 0\<rparr>\<rparr>"

definition yearday_zero :: YearDayScheduleInfo where
  "yearday_zero = \<lparr>yd_status = 0, yd_schedule = \<lparr>yd_localStartTime = 0, yd_localEndTime = 0\<rparr>\<rparr>"

definition holiday_zero :: HolidayScheduleInfo where
  "holiday_zero = \<lparr>hd_status = 0, hd_schedule = \<lparr>hd_localStartTime = 0, hd_localEndTime = 0,
     hd_operatingMode = 0\<rparr>\<rparr>"

text \<open>
  The statics before \<open>main\<close>: zero, but for the initializers of \<open>LockParam\<close> and \<open>AppTask\<close>;
  \<open>f\<close> is what the non-volatile store holds.
\<close>

definition static_world :: "env \<Rightarrow> (ConfigKey \<rightharpoonup> byte list) \<Rightarrow> world" where
  "static_world E f = \<lparr>
     mEndpointId = 0, mState = kState_LockInitiated,
     mActionInitiated_CB = None, mActionCompleted_CB = None,
     mLockUsers = replicate 10 user_zero,
     mLockCredentials = replicate 6 (replicate 100 credential_zero),
     mWeekdaySchedule = replicate 10 (replicate 10 weekday_zero),
     mYeardaySchedule = replicate 10 (replicate 10 yearday_zero),
     mHolidaySchedule = replicate 10 holiday_zero,
     mUserNames = replicate 10 (replicate (DOOR_LOCK_MAX_USER_NAME_SIZE E) 0),
     mCredentialData = replicate 12000 0,
     mCredentials = replicate 10 (replicate 100 (0, 0)),
     LockParams = LockParam_default,
     flash = f,
     sLockTimer = None, sFunctionTimer = None, buttonTimers = replicate kButtonCount None,
     sAppEventQueue = [], mFunction = kNoneSelected, mFunctionTimerActive = False,
     mSyncClusterToButtonAction = False, sLockLED = LEDWidget_default,
     sIsWiFiStationProvisioned = False, sIsWiFiStationEnabled = False,
     sIsWiFiStationConnected = False, sHaveBLEConnections = False,
     scheduled_work = [], clock_ms = 0, effects = []\<rparr>"

section \<open>Initialising the lock\<close>

text \<open>What the Matter stack answers: \<open>None\<close> where a getter fails.\<close>

record boot =
  LockState_Get :: "DlLockState option"
  NumberOfCredentialsSupportedPerUser :: "u8 option"
  NumberOfUserSupported :: "u16 option"
  NumberOfWeekDaySchedulesPerUserSupported :: "u8 option"
  NumberOfYearDaySchedulesPerUserSupported :: "u8 option"
  NumberOfHolidaySchedulesSupported :: "u8 option"
  IsWiFiStationProvisioned :: bool
  GetQRCode :: "byte list option"
  LOCK_STATE_LED :: int
  ENABLE_DEVICE_ATTESTATION :: bool
  ENABLE_OTA_REQUESTOR :: bool
  boot_set_confirmed :: i32

definition value_or :: "'a option \<Rightarrow> 'a \<Rightarrow> 'a" where
  "value_or x d = (case x of None \<Rightarrow> d | Some v \<Rightarrow> v)"

definition boot_params :: "boot \<Rightarrow> LockParam" where
  "boot_params b =
     SetNumberOfHolidaySchedules (value_or (NumberOfHolidaySchedulesSupported b) 10)
     (SetNumberOfYeardaySchedulesPerUser (value_or (NumberOfYearDaySchedulesPerUserSupported b) 10)
     (SetNumberOfWeekdaySchedulesPerUser (value_or (NumberOfWeekDaySchedulesPerUserSupported b) 10)
     (SetNumberOfCredentialsPerUser (value_or (NumberOfCredentialsSupportedPerUser b) 5)
     (SetNumberOfUsers (value_or (NumberOfUserSupported b) 10) LockParam_default))))"

definition NetWorkCommissioningInstInit :: "world \<Rightarrow> world" where
  "NetWorkCommissioningInstInit w = emit (Eff_call ''sWiFiNetworkCommissioningInstance.Init'') w"

text \<open>
  The LED or the display shows the state at the end; \<open>state.Value()\<close> is defined there, since
  \<open>LockManager::Init\<close> has read it before.
\<close>

definition lockMgr_Init :: "env \<Rightarrow> boot \<Rightarrow> world \<Rightarrow> world outcome" where
  "lockMgr_Init E b w =
     (let w = NetWorkCommissioningInstInit w;
          state = LockState_Get b
      in obind (LockManager_Init E state (boot_params b) w) (\<lambda>(err, w).
      case err of Some e \<Rightarrow> Halted e | None \<Rightarrow>
      let w = ButtonHandler_Init E w in
      if \<not> rtos_timer_init E FunctionTimer then Halted APP_ERROR_CREATE_TIMER_FAILED
      else
      let w = w\<lparr>sFunctionTimer := None\<rparr>;
          w = SetCallbacks (Some CB_AppTask_ActionInitiated) (Some CB_AppTask_ActionCompleted) w;
          w = (if ENABLE_UI E then w
               else on_led (Led_Set (state \<noteq> Some kUnlocked)) (on_led (Led_Init (LOCK_STATE_LED b)) w));
          w = emit (Eff_call ''LogDeviceConfig'') w;
          w = snd (ReadConfigValues E w);
          w = emit (Eff_call ''PrintOnboardingCodes'') w
      in Done (if \<not> ENABLE_UI E then w
               else if IsWiFiStationProvisioned b
               then emit (Eff_draw_lock_screen (state \<noteq> Some kUnlocked)) w
               else case GetQRCode b of None \<Rightarrow> w | Some code \<Rightarrow> emit (Eff_display_qrcode code) w)))"

definition InitOTARequestor :: "world \<Rightarrow> world" where
  "InitOTARequestor w = fold (\<lambda>c. emit (Eff_call c))
     [''SetRequestorInstance'', ''StoreSoftwareVersion'', ''gRequestorStorage.Init'',
      ''gRequestorCore.Init'', ''SetOTADownloader'', ''SetImageProcessorDelegate'',
      ''gRequestorUser.Init''] w"

definition InitServer :: "env \<Rightarrow> boot \<Rightarrow> world \<Rightarrow> world outcome" where
  "InitServer E b w =
     (let w = fold (\<lambda>c. emit (Eff_call c))
        [''InitializeStaticResourcesBeforeServerInit'', ''CodegenDataModelProviderInstance'',
         ''Server.Init'', ''SetStorageDelegate'', ''SetDeviceInfoProvider'',
         ''mFactoryDataProvider.Init'', ''SetCommissionableDataProvider'',
         ''SetDeviceInstanceInfoProvider'',
         (if ENABLE_DEVICE_ATTESTATION b then ''SetDeviceAttestationCredentialsProvider(TrustM)''
          else ''SetDeviceAttestationCredentialsProvider(FactoryData)'')] w;
          w = (if ENABLE_OTA_REQUESTOR b then InitOTARequestor w else w)
      in lockMgr_Init E b w)"

text \<open>\<open>CHIP_ERROR_WELL_UNINITIALIZED\<close> has the number 0x0E in the CHIP error space.\<close>

definition AppTask_Init :: "u32 \<Rightarrow> boot \<Rightarrow> world \<Rightarrow> world outcome" where
  "AppTask_Init CHIP_ERROR_WELL_UNINITIALIZED b w =
     (if ENABLE_OTA_REQUESTOR b \<and> boot_set_confirmed b \<noteq> 0
      then Halted (CHIP_ERROR_OTHER CHIP_ERROR_WELL_UNINITIALIZED)
      else let w = emit (Eff_call ''AddEventHandler(DeviceEventCallback)'') w
      in Done (w\<lparr>scheduled_work := scheduled_work w @ [Work_InitServer]\<rparr>))"

text \<open>The results of creating the queue and the thread are arguments.\<close>

definition StartAppTask :: "bool \<Rightarrow> bool \<Rightarrow> world \<Rightarrow> (app_error option \<times> world) outcome" where
  "StartAppTask queue_init thread_create w =
     (if \<not> queue_init then Halted APP_ERROR_EVENT_QUEUE_FAILED
      else let w = w\<lparr>sAppEventQueue := []\<rparr>;
               w = emit (Eff_call ''cy_rtos_thread_create(AppTaskMain)'') w
      in Done (if thread_create then None else Some APP_ERROR_CREATE_TASK_FAILED, w))"

section \<open>Work on the Matter event loop\<close>

definition run_work :: "env \<Rightarrow> boot \<Rightarrow> work_item \<Rightarrow> world \<Rightarrow> world outcome" where
  "run_work E b item w =
     (case item of
        Work_UpdateCluster \<Rightarrow> Done (UpdateCluster w)
      | Work_InitServer \<Rightarrow> InitServer E b w)"

datatype connectivity_change =
  kConnectivity_NoChange | kConnectivity_Established | kConnectivity_Lost

datatype ChipDeviceEvent =
    kInternetConnectivityChange connectivity_change connectivity_change
  | kCommissioningComplete
  | DeviceEvent_other u16

text \<open>\<open>state\<close> is the attribute's value at that moment; reading a null one is undefined.\<close>

definition DeviceEventCallback ::
  "env \<Rightarrow> DlLockState option \<Rightarrow> ChipDeviceEvent \<Rightarrow> world \<Rightarrow> world outcome" where
  "DeviceEventCallback E state event w =
     (case event of
        kInternetConnectivityChange IPv4 IPv6 \<Rightarrow>
          Done (if IPv4 = kConnectivity_Established \<or> IPv6 = kConnectivity_Established
                then emit (Eff_call ''DnssdServer.StartServer'') w else w)
      | kCommissioningComplete \<Rightarrow>
          (if \<not> ENABLE_UI E then Done w
           else case state of
             None \<Rightarrow> Undef
           | Some st \<Rightarrow> if st = kUnlocked then Done (emit (Eff_draw_lock_screen False) w)
                        else Done (emit (Eff_draw_lock_screen True) w))
      | DeviceEvent_other n \<Rightarrow> Done w)"

end
