(* ===== verification/TransitionSystem.thy ===== *)
theory TransitionSystem
  imports Prelude
begin

text \<open>
  Labelled transition systems as an interface: an inductive invariant holds in every
  reachable state, and a system whose steps each match at most one step of an abstract one
  only reaches states whose abstraction the abstract one reaches. The running program
  interprets both locales.
\<close>

section \<open>Reachable states and runs\<close>

inductive reach :: "('s \<Rightarrow> bool) \<Rightarrow> ('s \<Rightarrow> 'a \<Rightarrow> 's \<Rightarrow> bool) \<Rightarrow> 's \<Rightarrow> bool"
  for init :: "'s \<Rightarrow> bool" and step :: "'s \<Rightarrow> 'a \<Rightarrow> 's \<Rightarrow> bool" where
  reach_init: "init s \<Longrightarrow> reach init step s"
| reach_step: "reach init step s \<Longrightarrow> step s a s' \<Longrightarrow> reach init step s'"

inductive run :: "('s \<Rightarrow> 'a \<Rightarrow> 's \<Rightarrow> bool) \<Rightarrow> 's \<Rightarrow> 'a list \<Rightarrow> 's \<Rightarrow> bool"
  for step :: "'s \<Rightarrow> 'a \<Rightarrow> 's \<Rightarrow> bool" where
  run_nil: "run step s [] s"
| run_cons: "step s a s' \<Longrightarrow> run step s' as s'' \<Longrightarrow> run step s (a # as) s''"

inductive_cases run_nilE: "run step s [] s'"
inductive_cases run_consE: "run step s (a # as) s''"

lemma run_append: "run step s as s' \<Longrightarrow> run step s' bs s'' \<Longrightarrow> run step s (as @ bs) s''"
  by (induction rule: run.induct) (auto intro: run.intros)

lemma run_reach: "run step s as s' \<Longrightarrow> reach init step s \<Longrightarrow> reach init step s'"
  by (induction rule: run.induct) (auto intro: reach_step)

section \<open>Invariants\<close>

locale invariant_system =
  fixes init :: "'s \<Rightarrow> bool" and step :: "'s \<Rightarrow> 'a \<Rightarrow> 's \<Rightarrow> bool" and inv :: "'s \<Rightarrow> bool"
  assumes init_inv: "init s \<Longrightarrow> inv s"
    and step_inv: "inv s \<Longrightarrow> step s a s' \<Longrightarrow> inv s'"
begin

lemma reach_inv: "reach init step s \<Longrightarrow> inv s"
  by (induction rule: reach.induct) (auto intro: init_inv step_inv)

lemma run_inv: "run step s as s' \<Longrightarrow> inv s \<Longrightarrow> inv s'"
  by (induction rule: run.induct) (auto intro: step_inv)

text \<open>A property that every step of the given kind keeps, under the invariant, is kept by a run.\<close>

lemma run_preserves:
  assumes "run step s as s'" and "inv s" and "P s" and "\<forall>a \<in> set as. ok a"
    and "\<And>s a s'. inv s \<Longrightarrow> P s \<Longrightarrow> ok a \<Longrightarrow> step s a s' \<Longrightarrow> P s'"
  shows "P s'"
  using assms(1-4)
  by (induction rule: run.induct) (auto intro: assms(5) step_inv)

end

section \<open>Simulation\<close>

locale simulation = invariant_system init step inv
  for init :: "'s \<Rightarrow> bool" and step :: "'s \<Rightarrow> 'a \<Rightarrow> 's \<Rightarrow> bool" and inv :: "'s \<Rightarrow> bool" +
  fixes ainit :: "'t \<Rightarrow> bool" and astep :: "'t \<Rightarrow> 'b \<Rightarrow> 't \<Rightarrow> bool" and abs :: "'s \<Rightarrow> 't"
  assumes sim_init: "init s \<Longrightarrow> ainit (abs s)"
    and sim_step: "inv s \<Longrightarrow> step s a s' \<Longrightarrow> abs s' = abs s \<or> (\<exists>b. astep (abs s) b (abs s'))"
begin

lemma reach_abs: "reach init step s \<Longrightarrow> reach ainit astep (abs s)"
proof (induction rule: reach.induct)
  case (reach_init s)
  then show ?case by (auto intro: reach.reach_init sim_init)
next
  case (reach_step s a s')
  then show ?case using sim_step [OF reach_inv [OF reach_step.hyps(1)] reach_step.hyps(2)]
    by (auto intro: reach.reach_step)
qed

end

end
