(* ===== verification/System.thy ===== *)
theory System
  imports Startup TransitionSystem
begin

text \<open>
  The running program as a transition system: what the application task, the timer task, the
  button interrupt, the display and the Matter task do, one call at a time, in any order. A
  timer may expire at any moment while it is armed; calls are atomic. The step relation has
  every call, undefined ones included; a run is made of steps that return, on calls of the door
  lock server that are as they should be (\<open>server_owes\<close>).
\<close>

section \<open>Steps\<close>

datatype act =
    A_dispatch "connectivity option"
  | A_lock_timer
  | A_function_timer
  | A_button_irq
  | A_button_timer nat bool
  | A_lock EndpointId "byte list option" OperationErrorEnum
  | A_unlock EndpointId "byte list option" OperationErrorEnum
  | A_touch bool
  | A_request i32 Action_t
  | A_work boot
  | A_device_event "DlLockState option" ChipDeviceEvent
  | A_set_user EndpointId u16 user_args
  | A_set_credential EndpointId credential_key credential_args
  | A_set_weekday EndpointId schedule_key WeekDaysScheduleInfo
  | A_set_yearday EndpointId schedule_key YearDayScheduleInfo
  | A_set_holiday EndpointId u8 HolidayScheduleInfo
  | A_tick u64

inductive step :: "env \<Rightarrow> world \<Rightarrow> act \<Rightarrow> world outcome \<Rightarrow> bool" for E :: env where
  dispatch: "AppTaskMain_round E c w = Some r \<Longrightarrow> step E w (A_dispatch c) r"
| lock_timer: "sLockTimer w = Some ms \<Longrightarrow>
    step E w A_lock_timer
      (Done (LockManager_TimerEventHandler E Ctx_LockManager (w\<lparr>sLockTimer := None\<rparr>)))"
| function_timer: "sFunctionTimer w = Some ms \<Longrightarrow>
    step E w A_function_timer
      (Done (AppTask_TimerEventHandler E Ctx_AppTask (w\<lparr>sFunctionTimer := None\<rparr>)))"
| button_irq: "step E w A_button_irq (FuncButtonCallback E w)"
| button_timer: "i < length (buttonTimers w) \<Longrightarrow> buttonTimers w ! i = Some ms \<Longrightarrow>
    step E w (A_button_timer i level) (Done (ButtonHandler_TimerCallback E (word_of_nat i) level
      (w\<lparr>buttonTimers := (buttonTimers w)[i := None]\<rparr>)))"
| lock_command: "step E w (A_lock ep pin err)
    (obind (emberAfPluginDoorLockOnDoorLockCommand E ep pin err w) (\<lambda>(b, err, w). Done w))"
| unlock_command: "step E w (A_unlock ep pin err)
    (obind (emberAfPluginDoorLockOnDoorUnlockCommand E ep pin err w) (\<lambda>(b, err, w). Done w))"
| touch: "ENABLE_UI E \<Longrightarrow>
    step E w (A_touch lock) (obind (start_lock_action E lock w) (\<lambda>(rc, w). Done w))"
| request: "step E w (A_request actor action) (Done (ActionRequest E actor action w))"
| work: "scheduled_work w = item # rest \<Longrightarrow>
    step E w (A_work b) (run_work E b item (w\<lparr>scheduled_work := rest\<rparr>))"
| device_event: "step E w (A_device_event state ev) (DeviceEventCallback E state ev w)"
| set_user: "step E w (A_set_user ep k v)
      (obind (emberAfPluginDoorLockSetUser E ep k (ua_creator v) (ua_modifier v) (ua_name v)
         (ua_uniqueId v) (ua_status v) (ua_type v) (ua_rule v) (ua_credentials v) (ua_total v) w)
       (\<lambda>(b, w). Done w))"
| set_credential: "step E w (A_set_credential ep k v)
      (obind (emberAfPluginDoorLockSetCredential E ep (snd k) (ca_creator v) (ca_modifier v)
         (ca_status v) (fst k) (ca_data v) w)
       (\<lambda>(b, w). Done w))"
| set_weekday: "step E w (A_set_weekday ep k v) (Done (snd
    (emberAfPluginDoorLockSetSchedule_weekday E ep (fst k) (snd k) (wd_status v)
      (daysMask (wd_schedule v)) (startHour (wd_schedule v)) (startMinute (wd_schedule v))
      (endHour (wd_schedule v)) (endMinute (wd_schedule v)) w)))"
| set_yearday: "step E w (A_set_yearday ep k v) (Done (snd
    (emberAfPluginDoorLockSetSchedule_yearday E ep (fst k) (snd k) (yd_status v)
      (yd_localStartTime (yd_schedule v)) (yd_localEndTime (yd_schedule v)) w)))"
| set_holiday: "step E w (A_set_holiday ep d v) (Done (snd
    (emberAfPluginDoorLockSetSchedule_holiday E ep d (hd_status v)
      (hd_localStartTime (hd_schedule v)) (hd_localEndTime (hd_schedule v))
      (hd_operatingMode (hd_schedule v)) w)))"
| tick: "step E w (A_tick n) (Done (w\<lparr>clock_ms := clock_ms w + n\<rparr>))"

inductive_cases dispatchE: "step E w (A_dispatch c) r"
inductive_cases lock_timerE: "step E w A_lock_timer r"
inductive_cases workE: "step E w (A_work b) r"
inductive_simps lock_command_iff: "step E w (A_lock ep pin err) r"
inductive_simps unlock_command_iff: "step E w (A_unlock ep pin err) r"
inductive_simps tick_iff: "step E w (A_tick n) r"

text \<open>
  What the door lock server owes in its calls for users and credentials, since the code does
  not check it: as many credentials as it announces, and data that fits a slot.
\<close>

fun server_owes :: "act \<Rightarrow> bool" where
  "server_owes (A_set_user ep k v) = user_pre v"
| "server_owes (A_set_credential ep k v) = credential_pre v"
| "server_owes a = True"

text \<open>A step that returns, on a call that is as it should be.\<close>

definition goes :: "env \<Rightarrow> world \<Rightarrow> act \<Rightarrow> world \<Rightarrow> bool" where
  "goes E w a w' \<longleftrightarrow> step E w a (Done w') \<and> server_owes a"

lemma goesD: "goes E w a w' \<Longrightarrow> step E w a (Done w')"
  by (simp add: goes_def)

lemma goesI: "step E w a (Done w') \<Longrightarrow> server_owes a \<Longrightarrow> goes E w a w'"
  by (simp add: goes_def)

text \<open>The program after a first start-up: the store was empty, and start-up returned.\<close>

definition booted :: "env \<Rightarrow> world \<Rightarrow> bool" where
  "booted E w \<longleftrightarrow> (\<exists>b. lockMgr_Init E b (static_world E Map.empty) = Done w)"

end
