(* ===== verification/SystemInv.thy ===== *)
theory SystemInv
  imports System
begin

text \<open>
  The invariant of the running program. The control state (actuator, timers, queue,
  function selection) and the databases are independent: each kind of step changes only its
  own half, so the databases' invariants and the control invariant are proved apart.
\<close>

section \<open>The two halves of the state\<close>

definition ctl where
  "ctl (w :: world) = (mState w, mActionInitiated_CB w, mActionCompleted_CB w, sLockTimer w,
     sFunctionTimer w, buttonTimers w, sAppEventQueue w, mFunction w, mFunctionTimerActive w,
     mSyncClusterToButtonAction w, sLockLED w, scheduled_work w, clock_ms w, effects w)"

definition db where
  "db (w :: world) = (mLockUsers w, mLockCredentials w, mWeekdaySchedule w, mYeardaySchedule w,
     mHolidaySchedule w, mUserNames w, mCredentialData w, mCredentials w, LockParams w, flash w)"

lemma ctl_fields:
  assumes "ctl w' = ctl w"
  shows "mState w' = mState w" "mActionInitiated_CB w' = mActionInitiated_CB w"
    "mActionCompleted_CB w' = mActionCompleted_CB w" "sLockTimer w' = sLockTimer w"
    "sFunctionTimer w' = sFunctionTimer w" "buttonTimers w' = buttonTimers w"
    "sAppEventQueue w' = sAppEventQueue w" "mFunction w' = mFunction w"
    "mFunctionTimerActive w' = mFunctionTimerActive w"
    "mSyncClusterToButtonAction w' = mSyncClusterToButtonAction w" "sLockLED w' = sLockLED w"
    "scheduled_work w' = scheduled_work w" "clock_ms w' = clock_ms w" "effects w' = effects w"
  using assms by (auto simp: ctl_def)

text \<open>An update of a database field leaves the control state alone, and the other way round.\<close>

lemma ctl_updates [frame_simps]:
  "ctl (w\<lparr>mLockUsers := a\<rparr>) = ctl w" "ctl (w\<lparr>mLockCredentials := b\<rparr>) = ctl w"
  "ctl (w\<lparr>mWeekdaySchedule := c\<rparr>) = ctl w" "ctl (w\<lparr>mYeardaySchedule := d\<rparr>) = ctl w"
  "ctl (w\<lparr>mHolidaySchedule := e\<rparr>) = ctl w" "ctl (w\<lparr>mUserNames := f\<rparr>) = ctl w"
  "ctl (w\<lparr>mCredentialData := g\<rparr>) = ctl w" "ctl (w\<lparr>mCredentials := h\<rparr>) = ctl w"
  "ctl (w\<lparr>flash := i\<rparr>) = ctl w"
  by (simp_all add: ctl_def)

lemma db_updates [frame_simps]:
  "db (w\<lparr>mState := a\<rparr>) = db w" "db (w\<lparr>sLockTimer := b\<rparr>) = db w"
  "db (w\<lparr>sFunctionTimer := c\<rparr>) = db w" "db (w\<lparr>buttonTimers := d\<rparr>) = db w"
  "db (w\<lparr>sAppEventQueue := e\<rparr>) = db w" "db (w\<lparr>mFunction := f\<rparr>) = db w"
  "db (w\<lparr>mFunctionTimerActive := g\<rparr>) = db w" "db (w\<lparr>mSyncClusterToButtonAction := h\<rparr>) = db w"
  "db (w\<lparr>sLockLED := i\<rparr>) = db w" "db (w\<lparr>scheduled_work := j\<rparr>) = db w"
  "db (w\<lparr>clock_ms := k\<rparr>) = db w" "db (w\<lparr>effects := l\<rparr>) = db w"
  "db (w\<lparr>sIsWiFiStationProvisioned := m\<rparr>) = db w" "db (w\<lparr>sIsWiFiStationEnabled := n\<rparr>) = db w"
  "db (w\<lparr>sIsWiFiStationConnected := p\<rparr>) = db w" "db (w\<lparr>sHaveBLEConnections := q\<rparr>) = db w"
  by (simp_all add: db_def)

lemma db_ops [frame_simps]:
  "db (emit x w) = db w" "db (on_led f w) = db w" "db (PostEvent E ev w) = db w"
  "db (UpdateClusterState w) = db w" "db (ActionInitiated E a y w) = db w"
  "db (ActionCompleted E a w) = db w" "db (call_initiated E cb1 a y w) = db w"
  "db (call_completed E cb2 a w) = db w" "db (UpdateCluster w) = db w"
  "db (collect_connectivity cn w) = db w"
proof -
  show e: "db (emit x w) = db w" for x w by (simp add: emit_def frame_simps)
  show l: "db (on_led f w) = db w" for f w by (simp add: on_led_def frame_simps split: prod.split)
  show "db (PostEvent E ev w) = db w" by (simp add: PostEvent_def frame_simps split: option.split)
  show u: "db (UpdateClusterState w) = db w" for w by (simp add: UpdateClusterState_def frame_simps)
  show i: "db (ActionInitiated E a y w) = db w"
    by (simp add: ActionInitiated_def Let_def frame_simps e l)
  show c: "db (ActionCompleted E a w) = db w"
    by (cases a) (simp_all add: ActionCompleted_def Let_def frame_simps e l u)
  show "db (call_initiated E cb1 a y w) = db w" by (cases cb1) (simp add: i)
  show "db (call_completed E cb2 a w) = db w" by (cases cb2) (simp add: c)
  show "db (UpdateCluster w) = db w" by (simp add: UpdateCluster_def Let_def e)
  show "db (collect_connectivity cn w) = db w"
    by (simp add: collect_connectivity_def frame_simps split: option.split)
qed

text \<open>The steps of the databases.\<close>

fun is_db :: "act \<Rightarrow> bool" where
  "is_db (A_set_user ep k v) = True"
| "is_db (A_set_credential ep k c) = True"
| "is_db (A_set_weekday ep k d) = True"
| "is_db (A_set_yearday ep k y) = True"
| "is_db (A_set_holiday ep d h) = True"
| "is_db _ = False"

lemma ctl_saves [frame_simps]:
  "ctl (SaveUsers E w) = ctl w" "ctl (SaveCredentials E w) = ctl w"
  "ctl (SaveWeekdaySchedules E w) = ctl w" "ctl (SaveYeardaySchedules E w) = ctl w"
  "ctl (SaveHolidaySchedules E w) = ctl w"
  by (simp_all add: SaveUsers_def SaveCredentials_def SaveWeekdaySchedules_def
      SaveYeardaySchedules_def SaveHolidaySchedules_def frame_simps)

lemma SetUser_ctl: "SetUser E ep k cr md nm uid st ty ru cs n w = Done (b, w') \<Longrightarrow> ctl w' = ctl w"
  by (auto simp: SetUser_def Let_def obind_Done_iff frame_simps split: if_splits)

lemma SetCredential_ctl: "SetCredential E ep i cr md st ty d w = Done (b, w') \<Longrightarrow> ctl w' = ctl w"
  by (auto simp: SetCredential_def Let_def frame_simps split: if_splits)

lemma SetSchedule_ctl:
  "ctl (snd (SetWeekdaySchedule E ep i k st dm sh sm eh em w)) = ctl w"
  "ctl (snd (SetYeardaySchedule E ep i k st a b w)) = ctl w"
  "ctl (snd (SetHolidaySchedule E ep i st a b md w)) = ctl w"
  by (simp_all add: SetWeekdaySchedule_def SetYeardaySchedule_def SetHolidaySchedule_def Let_def
      frame_simps)

lemma is_db_ctl:
  assumes "goes E w a w'" and "is_db a"
  shows "ctl w' = ctl w"
  using goesD [OF assms(1)] assms(2)
  by (cases rule: step.cases)
     (auto simp: Done_obind_iff emberAfPluginDoorLockSetUser_def
      emberAfPluginDoorLockSetCredential_def emberAfPluginDoorLockSetSchedule_weekday_def
      emberAfPluginDoorLockSetSchedule_yearday_def emberAfPluginDoorLockSetSchedule_holiday_def
      SetSchedule_ctl dest: SetUser_ctl SetCredential_ctl)

text \<open>Control steps keep the databases.\<close>

lemma timer_ops_db:
  "LockManager_StartTimer E ms w = Done w' \<Longrightarrow> db w' = db w"
  "AppTask_StartTimer E ms w = Done w' \<Longrightarrow> db w' = db w"
  "AppTask_CancelTimer E w = Done w' \<Longrightarrow> db w' = db w"
  by (auto simp: LockManager_StartTimer_def LockManager_CancelTimer_def AppTask_StartTimer_def
      AppTask_CancelTimer_def obind_Done_iff frame_simps split: option.splits if_splits)

lemma InitiateAction_db: "InitiateAction E x a w = Done (r, w') \<Longrightarrow> db w' = db w"
  by (auto simp: InitiateAction_def Let_def obind_Done_iff frame_simps dest!: timer_ops_db
      split: option.splits if_splits)

lemma initiate_and_log_db: "initiate_and_log E x a w = Done w' \<Longrightarrow> db w' = db w"
  by (auto simp: initiate_and_log_def obind_Done_iff dest: InitiateAction_db)

lemma handlers_db:
  "FunctionHandler E e w = Done w' \<Longrightarrow> db w' = db w"
  "FunctionTimerEventHandler e w = Done w' \<Longrightarrow> db w' = db w"
  "LockActionEventHandler E e w = Done w' \<Longrightarrow> db w' = db w"
  "ActuatorMovementTimerEventHandler E e w = Done w' \<Longrightarrow> db w' = db w"
  by (auto simp: FunctionHandler_def FunctionTimerEventHandler_def LockActionEventHandler_def
      ActuatorMovementTimerEventHandler_def Let_def obind_Done_iff frame_simps
      dest!: timer_ops_db initiate_and_log_db
      split: event_union.splits if_splits option.splits context_ptr.splits)

lemma DispatchEvent_db: "DispatchEvent E e w = Done w' \<Longrightarrow> db w' = db w"
  by (auto simp: DispatchEvent_def dest: handlers_db split: option.splits EventHandler.splits)

lemma setLockState_db: "setLockState E ep st pin err w = (b, err', w') \<Longrightarrow> db w' = db w"
  by (auto simp: setLockState_def Let_def frame_simps split: option.splits if_splits)

lemma commands_db:
  "emberAfPluginDoorLockOnDoorLockCommand E ep pin err w = Done (b, err', w') \<Longrightarrow> db w' = db w"
  "emberAfPluginDoorLockOnDoorUnlockCommand E ep pin err w = Done (b, err', w') \<Longrightarrow> db w' = db w"
  by (auto simp: emberAfPluginDoorLockOnDoorLockCommand_def LockManager_Lock_def LockManager_Unlock_def
      emberAfPluginDoorLockOnDoorUnlockCommand_def obind_Done_iff
      dest!: setLockState_db InitiateAction_db split: prod.splits if_splits)

lemma device_event_db: "DeviceEventCallback E st ev w = Done w' \<Longrightarrow> db w' = db w"
  by (auto simp: DeviceEventCallback_def frame_simps
      split: ChipDeviceEvent.splits if_splits option.splits)

lemma button_ops_db:
  "FuncButtonCallback E w = Done w' \<Longrightarrow> db w' = db w"
  "db (ButtonHandler_TimerCallback E i level w) = db w"
  by (auto simp: FuncButtonCallback_def ButtonHandler_TimerCallback_def ButtonEventHandler_def
      Let_def frame_simps split: if_splits option.splits)

lemma AppTaskMain_round_db: "AppTaskMain_round E c w = Some (Done w') \<Longrightarrow> db w' = db w"
  by (auto simp: AppTaskMain_round_def Let_def obind_Done_iff frame_simps
      dest!: DispatchEvent_db split: list.splits if_splits)

lemma start_lock_action_Done:
  assumes "start_lock_action E lock w = Done (rc, w')"
  shows "\<exists>r. rc = (if r then 0 else - 1)
     \<and> InitiateAction E kEventType_Button (if lock then LOCK_ACTION else UNLOCK_ACTION) w = Done (r, w')"
proof (cases "InitiateAction E kEventType_Button (if lock then LOCK_ACTION else UNLOCK_ACTION) w")
  case (Done p)
  then show ?thesis using assms
    by (cases p) (auto simp: start_lock_action_def Let_def split: if_split_asm)
qed (use assms in \<open>auto simp: start_lock_action_def Let_def\<close>)

lemma control_db:
  assumes "goes E w a w'" and "\<not> is_db a" and "Work_InitServer \<notin> set (scheduled_work w)"
  shows "db w' = db w"
  using goesD [OF assms(1)] assms(2,3)
  by (cases rule: step.cases)
     (auto simp: Done_obind_iff frame_simps LockManager_TimerEventHandler_def
      AppTask_TimerEventHandler_def ActionRequest_def button_ops_db run_work_def
      dest: AppTaskMain_round_db commands_db device_event_db button_ops_db(1) InitiateAction_db
      dest!: sym [of "Done _"] start_lock_action_Done
      split: work_item.splits if_splits)

section \<open>The control invariant\<close>

definition is_actuator_event :: "AppEvent \<Rightarrow> bool" where
  "is_actuator_event e \<longleftrightarrow> Handler e = Some H_ActuatorMovementTimerEventHandler"

text \<open>The events the program posts: each handler finds the union member it reads.\<close>

definition event_ok :: "env \<Rightarrow> AppEvent \<Rightarrow> bool" where
  "event_ok E e \<longleftrightarrow> (case Handler e of
       None \<Rightarrow> False
     | Some H_ActuatorMovementTimerEventHandler \<Rightarrow>
         Type e = kEventType_Timer \<and> evt_union e = TimerEvent Ctx_LockManager
     | Some H_FunctionTimerEventHandler \<Rightarrow>
         Type e = kEventType_Timer \<and> evt_union e = TimerEvent Ctx_AppTask
     | Some H_FunctionHandler \<Rightarrow> Type e = kEventType_Button
         \<and> (\<exists>act. evt_union e = ButtonEvent (APP_FUNCTION_BUTTON_IDX E) act)
     | Some H_LockActionEventHandler \<Rightarrow> Type e = kEventType_Lock
         \<and> (\<exists>a actor. evt_union e = LockEvent (Action_code a) actor))"

definition pending :: "world \<Rightarrow> nat" where
  "pending w = length (filter is_actuator_event (sAppEventQueue w))"

definition queue_inv :: "env \<Rightarrow> world \<Rightarrow> bool" where
  "queue_inv E w \<longleftrightarrow> length (sAppEventQueue w) \<le> APP_EVENT_QUEUE_SIZE
     \<and> (\<forall>e \<in> set (sAppEventQueue w). event_ok E e)"

text \<open>At rest nothing is armed or pending; in movement at most one of the two.\<close>

definition actuator_inv :: "world \<Rightarrow> bool" where
  "actuator_inv w \<longleftrightarrow> (if IsActionInProgress w
     then pending w \<le> 1 \<and> (sLockTimer w = None \<or> pending w = 0)
     else sLockTimer w = None \<and> pending w = 0)"

definition function_inv :: "world \<Rightarrow> bool" where
  "function_inv w \<longleftrightarrow> mFunction w \<noteq> kInvalid
     \<and> (mFunction w = kFactoryReset \<longrightarrow> mFunctionTimerActive w)
     \<and> (sFunctionTimer w \<noteq> None \<longrightarrow> mFunctionTimerActive w)"

definition wiring_inv :: "world \<Rightarrow> bool" where
  "wiring_inv w \<longleftrightarrow> mActionInitiated_CB w = Some CB_AppTask_ActionInitiated
     \<and> mActionCompleted_CB w = Some CB_AppTask_ActionCompleted
     \<and> length (buttonTimers w) = kButtonCount
     \<and> Work_InitServer \<notin> set (scheduled_work w)
     \<and> (mSyncClusterToButtonAction w \<longrightarrow> IsActionInProgress w)"

definition ctl_inv :: "env \<Rightarrow> world \<Rightarrow> bool" where
  "ctl_inv E w \<longleftrightarrow> queue_inv E w \<and> actuator_inv w \<and> function_inv w \<and> wiring_inv w"

lemmas ctl_inv_defs = ctl_inv_def queue_inv_def actuator_inv_def function_inv_def wiring_inv_def

lemma ctl_inv_ctl:
  assumes "ctl w' = ctl w"
  shows "ctl_inv E w' = ctl_inv E w"
  unfolding ctl_inv_defs IsActionInProgress_def pending_def
  by (simp add: ctl_fields [OF assms])

text \<open>Updates no clause mentions.\<close>

lemma ctl_inv_skip [simp]:
  "ctl_inv E (emit x w) = ctl_inv E w" "ctl_inv E (on_led f w) = ctl_inv E w"
  "ctl_inv E (collect_connectivity cn w) = ctl_inv E w"
  "ctl_inv E (w\<lparr>clock_ms := t\<rparr>) = ctl_inv E w"
  by (auto simp: ctl_inv_defs IsActionInProgress_def pending_def collect_connectivity_def
      split: option.splits)

lemma PostEvent_inv:
  assumes "queue_ok E" and "ctl_inv E w" and "event_ok E e"
    and "is_actuator_event e \<Longrightarrow> IsActionInProgress w \<and> sLockTimer w = None \<and> pending w = 0"
  shows "ctl_inv E (PostEvent E e w)"
  using assms
  by (auto simp: ctl_inv_defs PostEvent_queue IsActionInProgress_def pending_def)

lemma InitiateAction_inv:
  assumes E: "timer_ok E" and inv: "ctl_inv E w" and run: "InitiateAction E x a w = Done (r, w')"
  shows "ctl_inv E w'"
proof (cases "startable (mState w) a")
  case False
  then show ?thesis using InitiateAction_rejected [OF False, of E x] inv run by simp
next
  case True
  have w': "w' = ActionInitiated E a x (w\<lparr>sLockTimer := Some ACTUATOR_MOVEMENT_PERIOS_MS,
      mState := phase_next (mState w)\<rparr>)"
    using InitiateAction_started [OF E True run] inv by (simp add: ctl_inv_defs)
  show ?thesis unfolding w'
    using inv True by (auto simp: ctl_inv_defs IsActionInProgress_def pending_def startable_def)
qed

lemma initiate_and_log_inv:
  "timer_ok E \<Longrightarrow> ctl_inv E w \<Longrightarrow> initiate_and_log E x a w = Done w' \<Longrightarrow> ctl_inv E w'"
  by (auto simp: initiate_and_log_def obind_Done_iff dest: InitiateAction_inv)

lemma AppTask_CancelTimer_Done:
  assumes "timer_ok E" and "AppTask_CancelTimer E w = Done w'"
  shows "w' = w\<lparr>sFunctionTimer := None, mFunctionTimerActive := False\<rparr>"
  using assms timer_stopD [OF assms(1), of "sFunctionTimer w"]
  by (cases "rtos_timer_stop E (sFunctionTimer w)") (auto simp: AppTask_CancelTimer_def)

lemma AppTask_StartTimer_Done:
  assumes "timer_ok E" and "AppTask_StartTimer E ms w = Done w'"
  shows "w' = w\<lparr>sFunctionTimer := Some ms, mFunctionTimerActive := True\<rparr>"
proof -
  obtain v t where v: "(if rtos_timer_is_running E (sFunctionTimer w) then AppTask_CancelTimer E w
      else Done w) = Done v" and t: "rtos_timer_start E ms (sFunctionTimer v) = Some t"
    and w': "w' = v\<lparr>sFunctionTimer := t, mFunctionTimerActive := True\<rparr>"
    using assms(2) by (auto simp: AppTask_StartTimer_def obind_Done_iff split: option.splits)
  have "t = Some ms" using timer_startD [OF assms(1) t] .
  with v w' show ?thesis
    using AppTask_CancelTimer_Done [OF assms(1), of w v] by (auto split: if_split_asm)
qed

lemmas AppTask_timer_Done = AppTask_StartTimer_Done AppTask_CancelTimer_Done

text \<open>Selecting and clearing the factory reset.\<close>

lemma ctl_inv_function:
  assumes "ctl_inv E w"
  shows "ctl_inv E (w\<lparr>sFunctionTimer := Some ms, mFunctionTimerActive := True, mFunction := kFactoryReset\<rparr>)"
    and "ctl_inv E (w\<lparr>sFunctionTimer := None, mFunctionTimerActive := False, mFunction := kNoneSelected\<rparr>)"
    and "ctl_inv E (w\<lparr>sFunctionTimer := None\<rparr>)"
    and "ctl_inv E (w\<lparr>mFunction := kNoneSelected\<rparr>)"
  using assms by (auto simp: ctl_inv_defs IsActionInProgress_def pending_def)

lemma FunctionHandler_inv:
  assumes E: "timer_ok E" and inv: "ctl_inv E w" and run: "FunctionHandler E e w = Done w'"
  shows "ctl_inv E w'"
proof -
  from run obtain idx act where e: "evt_union e = ButtonEvent idx act"
    by (auto simp: FunctionHandler_def split: event_union.splits)
  have led: "ctl_inv E (if ENABLE_UI E then w else on_led f w)" for f using inv by simp
  show ?thesis
    using run inv ctl_inv_function [OF inv] ctl_inv_function(2) [OF led]
    by (auto simp: FunctionHandler_def e Let_def obind_Done_iff
        dest!: AppTask_timer_Done [OF E] initiate_and_log_inv [OF E inv] split: if_splits)
qed

lemma ActuatorEvent_inv:
  assumes inv: "ctl_inv E w" and idle: "sLockTimer w = None" "pending w = 0"
    and e: "evt_union e = TimerEvent Ctx_LockManager"
    and run: "ActuatorMovementTimerEventHandler E e w = Done w'"
  shows "ctl_inv E w'"
proof (cases "IsActionInProgress w")
  case True
  let ?w = "w\<lparr>mState := phase_next (mState w)\<rparr>"
  obtain a where w': "w' = ActionCompleted E a ?w"
    using run True inv by (auto simp: actuator_event_Done [OF e] Let_def ctl_inv_defs)
  show ?thesis unfolding w'
    using inv True idle by (auto simp: ctl_inv_defs IsActionInProgress_def pending_def)
next
  case False
  then show ?thesis using run inv by (simp add: actuator_event_Done [OF e])
qed

text \<open>Taking an event out of the queue; the actuator's event leaves nothing pending.\<close>

lemma dequeue_inv:
  assumes "ctl_inv E w" and "sAppEventQueue w = e # q" and "\<not> is_actuator_event e"
  shows "ctl_inv E (w\<lparr>sAppEventQueue := q\<rparr>)"
  using assms by (auto simp: ctl_inv_defs IsActionInProgress_def pending_def)

lemma dequeue_actuator:
  assumes "ctl_inv E w" and "sAppEventQueue w = e # q" and "is_actuator_event e"
  shows "IsActionInProgress w" and "sLockTimer w = None"
    and "pending (w\<lparr>sAppEventQueue := q\<rparr>) = 0"
    and "ctl_inv E (w\<lparr>sAppEventQueue := q\<rparr>)"
  using assms by (auto simp: ctl_inv_defs IsActionInProgress_def pending_def split: if_splits)

lemma head_event_cases:
  assumes "ctl_inv E w" and "sAppEventQueue w = e # q"
  shows "(Handler e = Some H_ActuatorMovementTimerEventHandler \<and> evt_union e = TimerEvent Ctx_LockManager)
    \<or> (Handler e = Some H_FunctionTimerEventHandler \<and> Type e = kEventType_Timer)
    \<or> (Handler e = Some H_FunctionHandler
        \<and> (\<exists>act. evt_union e = ButtonEvent (APP_FUNCTION_BUTTON_IDX E) act))
    \<or> (Handler e = Some H_LockActionEventHandler \<and> Type e = kEventType_Lock
        \<and> (\<exists>a actor. evt_union e = LockEvent (Action_code a) actor))"
  using assms
  by (auto simp: ctl_inv_def queue_inv_def event_ok_def split: option.splits EventHandler.splits)

lemma Action_of_code [simp]: "Action_of_code (Action_code a) = Done a"
  by (cases a) (simp_all add: Action_of_code_def)

lemma FunctionTimer_inv:
  assumes "ctl_inv E w" and "FunctionTimerEventHandler e w = Done w'"
  shows "ctl_inv E w'"
  using assms ctl_inv_function(4) [OF assms(1)]
  by (auto simp: FunctionTimerEventHandler_def split: if_split_asm)

lemma LockActionEvent_inv:
  assumes "timer_ok E" and "ctl_inv E w" and "LockActionEventHandler E e w = Done w'"
    and "evt_union e = LockEvent (Action_code a) actor" and "Type e = kEventType_Lock"
  shows "ctl_inv E w'"
  using assms initiate_and_log_inv [OF assms(1,2)] by (simp add: LockActionEventHandler_def)

lemma DispatchEvent_inv:
  assumes E: "timer_ok E" and inv: "ctl_inv E w" and q: "sAppEventQueue w = e # q"
    and run: "DispatchEvent E e (w\<lparr>sAppEventQueue := q\<rparr>) = Done w'"
  shows "ctl_inv E w'"
proof (cases "is_actuator_event e")
  case True
  have e: "evt_union e = TimerEvent Ctx_LockManager"
    using head_event_cases [OF inv q] True by (auto simp: is_actuator_event_def)
  have run': "ActuatorMovementTimerEventHandler E e (w\<lparr>sAppEventQueue := q\<rparr>) = Done w'"
    using run True by (simp add: DispatchEvent_def is_actuator_event_def)
  have idle: "sLockTimer (w\<lparr>sAppEventQueue := q\<rparr>) = None"
    using dequeue_actuator(2) [OF inv q True] by simp
  show ?thesis
    by (rule ActuatorEvent_inv [OF dequeue_actuator(4) [OF inv q True] idle
        dequeue_actuator(3) [OF inv q True] e run'])
next
  case False
  have inv': "ctl_inv E (w\<lparr>sAppEventQueue := q\<rparr>)" using inv q False by (rule dequeue_inv)
  from head_event_cases [OF inv q] False
  consider "Handler e = Some H_FunctionTimerEventHandler"
    | "Handler e = Some H_FunctionHandler"
    | a actor where "Handler e = Some H_LockActionEventHandler" "Type e = kEventType_Lock"
        "evt_union e = LockEvent (Action_code a) actor"
    by (auto simp: is_actuator_event_def)
  then show ?thesis
  proof cases
    case 1
    with run FunctionTimer_inv [OF inv'] show ?thesis by (simp add: DispatchEvent_def)
  next
    case 2
    with run FunctionHandler_inv [OF E inv'] show ?thesis by (simp add: DispatchEvent_def)
  next
    case 3
    with run LockActionEvent_inv [OF E inv' _ 3(3,2)] show ?thesis by (simp add: DispatchEvent_def)
  qed
qed

lemma AppTaskMain_round_inv:
  assumes "timer_ok E" and "ctl_inv E w" and "AppTaskMain_round E c w = Some (Done w')"
  shows "ctl_inv E w'"
  using assms DispatchEvent_inv [OF assms(1,2)]
  by (auto simp: AppTaskMain_round_def Let_def obind_Done_iff split: list.splits if_splits)

lemma setLockState_ctl_inv:
  "setLockState E ep st pin err w = (b, err', w') \<Longrightarrow> ctl_inv E w' = ctl_inv E w"
  by (auto simp: setLockState_def Let_def split: option.splits if_splits)

text \<open>Changes that only concern the buttons, the scheduled work and an expired function timer.\<close>

lemma ctl_inv_same:
  assumes inv: "ctl_inv E w" and q: "sAppEventQueue w' = sAppEventQueue w"
    and act: "mState w' = mState w" "sLockTimer w' = sLockTimer w"
    and fn: "mFunction w' = mFunction w" "mFunctionTimerActive w' = mFunctionTimerActive w"
      "sFunctionTimer w' = None \<or> sFunctionTimer w' = sFunctionTimer w"
    and cbs: "mActionInitiated_CB w' = mActionInitiated_CB w" "mActionCompleted_CB w' = mActionCompleted_CB w"
      "mSyncClusterToButtonAction w' = mSyncClusterToButtonAction w"
    and rest: "length (buttonTimers w') = length (buttonTimers w)"
      "set (scheduled_work w') \<subseteq> set (scheduled_work w)"
  shows "ctl_inv E w'"
proof -
  have prog: "IsActionInProgress w' = IsActionInProgress w" using act by (simp add: IsActionInProgress_def)
  have pend: "pending w' = pending w" using q by (simp add: pending_def)
  have "queue_inv E w'" using inv q by (simp add: ctl_inv_def queue_inv_def)
  moreover have "actuator_inv w'" using inv act prog pend
    by (auto simp: ctl_inv_def actuator_inv_def split: if_split_asm)
  moreover have "function_inv w'" using inv fn by (auto simp: ctl_inv_def function_inv_def)
  moreover have "wiring_inv w'" using inv cbs rest prog by (auto simp: ctl_inv_def wiring_inv_def)
  ultimately show ?thesis by (simp add: ctl_inv_def)
qed

lemma command_inv:
  assumes "timer_ok E" and "ctl_inv E w" and "setLockState E ep st pin err w = (b, err', v)"
    and "InitiateAction E x a v = Done (r, w')"
  shows "ctl_inv E w'"
  using InitiateAction_inv [OF assms(1) _ assms(4)] setLockState_ctl_inv [OF assms(3)] assms(2) by simp

lemma lock_command_Done:
  assumes "emberAfPluginDoorLockOnDoorLockCommand E ep pin err w = Done (b, err', w')"
  shows "\<exists>v. setLockState E ep kLocked pin err w = (b, err', v)
    \<and> (if b then (\<exists>r. InitiateAction E kEventType_Lock LOCK_ACTION v = Done (r, w')) else w' = v)"
  using assms
  by (auto simp: emberAfPluginDoorLockOnDoorLockCommand_def LockManager_Lock_def obind_Done_iff
      split: prod.splits if_splits)

lemma unlock_command_Done:
  assumes "emberAfPluginDoorLockOnDoorUnlockCommand E ep pin err w = Done (b, err', w')"
  shows "\<exists>v. setLockState E ep kUnlocked pin err w = (b, err', v)
    \<and> (if b then (\<exists>r. InitiateAction E kEventType_Lock UNLOCK_ACTION v = Done (r, w')) else w' = v)"
  using assms
  by (auto simp: emberAfPluginDoorLockOnDoorUnlockCommand_def LockManager_Unlock_def obind_Done_iff
      split: prod.splits if_splits)

lemma commands_inv:
  assumes "timer_ok E" and "ctl_inv E w"
  shows "emberAfPluginDoorLockOnDoorLockCommand E ep pin err w = Done (b, err', w') \<Longrightarrow> ctl_inv E w'"
    and "emberAfPluginDoorLockOnDoorUnlockCommand E ep pin err w = Done (b, err', w') \<Longrightarrow> ctl_inv E w'"
  using command_inv [OF assms] setLockState_ctl_inv assms(2)
  by (auto dest!: lock_command_Done unlock_command_Done split: if_split_asm)

lemma work_inv:
  assumes inv: "ctl_inv E w" and items: "scheduled_work w = item # rest"
    and run: "run_work E b item (w\<lparr>scheduled_work := rest\<rparr>) = Done w'"
  shows "ctl_inv E w'"
proof -
  have "item = Work_UpdateCluster"
    using inv items by (cases item) (simp_all add: ctl_inv_def wiring_inv_def)
  then have "w' = UpdateCluster (w\<lparr>scheduled_work := rest\<rparr>)" using run by (simp add: run_work_def)
  then show ?thesis
    by (intro ctl_inv_same [OF inv]) (auto simp: UpdateCluster_def Let_def items emit_def)
qed

lemma lock_timer_inv:
  assumes "queue_ok E" and inv: "ctl_inv E w" and armed: "sLockTimer w = Some ms"
  shows "ctl_inv E (LockManager_TimerEventHandler E Ctx_LockManager (w\<lparr>sLockTimer := None\<rparr>))"
proof -
  have prog: "IsActionInProgress w" "pending w = 0"
    using inv armed by (simp_all add: ctl_inv_def actuator_inv_def split: if_splits)
  then have "actuator_inv (w\<lparr>sLockTimer := None\<rparr>)"
    by (simp add: actuator_inv_def IsActionInProgress_def pending_def)
  with inv have "ctl_inv E (w\<lparr>sLockTimer := None\<rparr>)"
    by (simp add: ctl_inv_def queue_inv_def function_inv_def wiring_inv_def IsActionInProgress_def)
  then show ?thesis
    unfolding LockManager_TimerEventHandler_def
    by (rule PostEvent_inv [OF assms(1)])
       (use prog in \<open>simp_all add: event_ok_def IsActionInProgress_def pending_def\<close>)
qed

lemma posts_inv:
  assumes "queue_ok E" and inv: "ctl_inv E w"
  shows "ctl_inv E (AppTask_TimerEventHandler E Ctx_AppTask (w\<lparr>sFunctionTimer := None\<rparr>))"
    and "ctl_inv E (ButtonHandler_TimerCallback E i level (w\<lparr>buttonTimers := (buttonTimers w)[j := None]\<rparr>))"
    and "ctl_inv E (ActionRequest E actor action w)"
proof -
  have post: "ctl_inv E (PostEvent E e v)" if "ctl_inv E v" "event_ok E e" "\<not> is_actuator_event e" for e v
    using PostEvent_inv [OF assms(1) that(1,2)] that(3) by simp
  show "ctl_inv E (AppTask_TimerEventHandler E Ctx_AppTask (w\<lparr>sFunctionTimer := None\<rparr>))"
    unfolding AppTask_TimerEventHandler_def
    by (rule post [OF ctl_inv_function(3) [OF inv]]) (simp_all add: event_ok_def is_actuator_event_def)
  have "ctl_inv E (w\<lparr>buttonTimers := (buttonTimers w)[j := None]\<rparr>)"
    by (rule ctl_inv_same [OF inv]) simp_all
  then show "ctl_inv E (ButtonHandler_TimerCallback E i level (w\<lparr>buttonTimers := (buttonTimers w)[j := None]\<rparr>))"
    by (simp add: ButtonHandler_TimerCallback_def ButtonEventHandler_def Let_def post event_ok_def
        is_actuator_event_def)
  show "ctl_inv E (ActionRequest E actor action w)"
    unfolding ActionRequest_def
    by (rule post [OF inv]) (auto simp: event_ok_def is_actuator_event_def)
qed

lemma FuncButtonCallback_inv:
  assumes inv: "ctl_inv E w" and run: "FuncButtonCallback E w = Done w'"
  shows "ctl_inv E w'"
proof -
  let ?i = "unat (APP_FUNCTION_BUTTON_IDX E)"
  from run have i: "?i < length (buttonTimers w)" by (auto simp: FuncButtonCallback_def Let_def split: if_split_asm)
  show ?thesis
  proof (cases "rtos_timer_start E APP_BUTTON_MIN_ASSERT_TIME_MS (buttonTimers w ! ?i)")
    case None
    with run i inv show ?thesis by (simp add: FuncButtonCallback_def Let_def)
  next
    case (Some t)
    with run i have "w' = w\<lparr>buttonTimers := (buttonTimers w)[?i := t]\<rparr>"
      by (simp add: FuncButtonCallback_def Let_def)
    then show ?thesis by (simp add: ctl_inv_same [OF inv])
  qed
qed

lemma device_event_inv:
  "DeviceEventCallback E st ev w = Done w' \<Longrightarrow> ctl_inv E w' = ctl_inv E w"
  by (auto simp: DeviceEventCallback_def split: ChipDeviceEvent.splits if_splits option.splits)

theorem ctl_inv_step:
  assumes "timer_ok E" and "queue_ok E" and inv: "ctl_inv E w" and "goes E w a w'"
  shows "ctl_inv E w'"
proof (cases "is_db a")
  case True
  show ?thesis using ctl_inv_ctl [OF is_db_ctl [OF assms(4) True]] inv by simp
next
  case False
  from assms(4) have "step E w a (Done w')" by (simp add: goes_def)
  then show ?thesis
  proof (cases rule: step.cases)
    case (dispatch c)
    then show ?thesis using AppTaskMain_round_inv [OF assms(1) inv] by simp
  next
    case (lock_timer ms)
    then show ?thesis using lock_timer_inv [OF assms(2) inv] by simp
  next
    case (function_timer ms)
    then show ?thesis using posts_inv(1) [OF assms(2) inv] by simp
  next
    case button_irq
    then show ?thesis using FuncButtonCallback_inv [OF inv] by simp
  next
    case (button_timer i ms level)
    then show ?thesis using posts_inv(2) [OF assms(2) inv] by simp
  next
    case (lock_command ep pin err)
    then show ?thesis using commands_inv(1) [OF assms(1) inv] by (auto simp: Done_obind_iff)
  next
    case (unlock_command ep pin err)
    then show ?thesis using commands_inv(2) [OF assms(1) inv] by (auto simp: Done_obind_iff)
  next
    case (touch lock)
    then show ?thesis using InitiateAction_inv [OF assms(1) inv]
      by (auto simp: Done_obind_iff dest!: start_lock_action_Done)
  next
    case (request actor action)
    then show ?thesis using posts_inv(3) [OF assms(2) inv] by simp
  next
    case (work item rest b)
    then show ?thesis using work_inv [OF inv] by simp
  next
    case (device_event state ev)
    then show ?thesis using device_event_inv [of E state ev w w'] inv by simp
  next
    case (tick n)
    then show ?thesis using inv by simp
  qed (use False in simp_all)
qed

end
