(* ===== verification/SystemSafe.thy ===== *)
theory SystemSafe
  imports SystemInv
begin

text \<open>
  From start-up on: the invariants hold in every state the program reaches, and no call it
  makes is undefined. Also here: the interpretations of the transition systems' interface.
\<close>

section \<open>Start-up establishes the control invariant\<close>

lemma ReadConfigValues_ctl: "ctl (snd (ReadConfigValues E w)) = ctl w"
  by (simp add: ReadConfigValues_def Let_def frame_simps)

lemma length_init_button_timers [simp]: "length (init_button_timers E n ts) = length ts"
  by (induction n) (simp_all add: Let_def)

lemma read_tail_fields:
  assumes "w' = emit c (snd (ReadConfigValues E v)) \<or> (\<exists>x. w' = emit x (emit c (snd (ReadConfigValues E v))))"
  shows "mState w' = mState v" "mActionInitiated_CB w' = mActionInitiated_CB v"
    "mActionCompleted_CB w' = mActionCompleted_CB v" "sLockTimer w' = sLockTimer v"
    "sFunctionTimer w' = sFunctionTimer v" "buttonTimers w' = buttonTimers v"
    "sAppEventQueue w' = sAppEventQueue v" "mFunction w' = mFunction v"
    "mFunctionTimerActive w' = mFunctionTimerActive v"
    "mSyncClusterToButtonAction w' = mSyncClusterToButtonAction v" "sLockLED w' = sLockLED v"
    "scheduled_work w' = scheduled_work v"
  using assms ctl_fields [OF ReadConfigValues_ctl, of E v] by auto

text \<open>\<open>lockMgr_Init\<close> before it reads the store, when it returns.\<close>

definition init_before_read :: "env \<Rightarrow> boot \<Rightarrow> DlLockState \<Rightarrow> world \<Rightarrow> world" where
  "init_before_read E b st w =
     (let w = (NetWorkCommissioningInstInit w)\<lparr>LockParams := boot_params b, sLockTimer := None,
            mState := (if st = kUnlocked then kState_UnlockCompleted else kState_LockCompleted)\<rparr>;
          w = SetCallbacks (Some CB_AppTask_ActionInitiated) (Some CB_AppTask_ActionCompleted)
            ((ButtonHandler_Init E w)\<lparr>sFunctionTimer := None\<rparr>)
      in emit (Eff_call ''LogDeviceConfig'') (if ENABLE_UI E then w
           else on_led (Led_Set (st \<noteq> kUnlocked)) (on_led (Led_Init (LOCK_STATE_LED b)) w)))"

lemma lockMgr_Init_tail:
  assumes "lockMgr_Init E b w = Done w'"
  obtains st where "LockState_Get b = Some st" and "params_ok (boot_params b)"
    and "w' = emit (Eff_call ''PrintOnboardingCodes'') (snd (ReadConfigValues E (init_before_read E b st w)))
      \<or> (\<exists>x. w' = emit x (emit (Eff_call ''PrintOnboardingCodes'')
            (snd (ReadConfigValues E (init_before_read E b st w)))))"
proof -
  obtain st where st: "LockState_Get b = Some st" and p: "params_ok (boot_params b)"
    using assms
    by (auto simp: lockMgr_Init_def Let_def LockManager_Init_eq obind_Done_iff
        split: if_split_asm option.split_asm)
  show ?thesis
    by (rule that [OF st p]) (use assms st p in \<open>auto simp: lockMgr_Init_def init_before_read_def
        Let_def LockManager_Init_eq split: if_split_asm option.split_asm\<close>)
qed

text \<open>What \<open>lockMgr_Init\<close> does to the control state when it returns.\<close>

lemma lockMgr_Init_Done:
  assumes "lockMgr_Init E b w = Done w'"
  obtains st where "LockState_Get b = Some st" and "params_ok (boot_params b)"
    and "mState w' = (if st = kUnlocked then kState_UnlockCompleted else kState_LockCompleted)"
    and "mActionInitiated_CB w' = Some CB_AppTask_ActionInitiated"
    and "mActionCompleted_CB w' = Some CB_AppTask_ActionCompleted"
    and "sLockTimer w' = None" and "sFunctionTimer w' = None"
    and "length (buttonTimers w') = length (buttonTimers w)"
    and "sAppEventQueue w' = sAppEventQueue w" and "mFunction w' = mFunction w"
    and "mFunctionTimerActive w' = mFunctionTimerActive w"
    and "mSyncClusterToButtonAction w' = mSyncClusterToButtonAction w"
    and "scheduled_work w' = scheduled_work w"
    and "\<not> ENABLE_UI E \<Longrightarrow> sLockLED w' = fst (Led_Set (st \<noteq> kUnlocked) (fst (Led_Init (LOCK_STATE_LED b) (sLockLED w))))"
  using assms
proof (rule lockMgr_Init_tail)
  fix st
  assume st: "LockState_Get b = Some st" and p: "params_ok (boot_params b)"
    and tail: "w' = emit (Eff_call ''PrintOnboardingCodes'') (snd (ReadConfigValues E (init_before_read E b st w)))
      \<or> (\<exists>x. w' = emit x (emit (Eff_call ''PrintOnboardingCodes'')
            (snd (ReadConfigValues E (init_before_read E b st w)))))"
  show thesis
    by (rule that [OF st p])
       (simp_all add: read_tail_fields [OF tail] init_before_read_def SetCallbacks_def
          ButtonHandler_Init_def ButtonHandler_GpioInit_def NetWorkCommissioningInstInit_def Let_def)
qed

lemma booted_ctl_inv:
  assumes "booted E w"
  shows "ctl_inv E w"
proof -
  from assms obtain b where "lockMgr_Init E b (static_world E Map.empty) = Done w"
    by (auto simp: booted_def)
  then show ?thesis
    by (rule lockMgr_Init_Done)
       (auto simp: ctl_inv_defs static_world_def IsActionInProgress_def pending_def)
qed

section \<open>Start-up with an empty store establishes the databases' invariants\<close>

lemma array_roundtrip:
  assumes "rep_ok rep val sz P" and "\<forall>x \<in> set xs. P x"
  shows "map val (chunks sz (length xs) (array_bytes rep xs)) = xs"
  using assms
proof (induction xs)
  case Nil
  then show ?case by simp
next
  case (Cons x xs)
  then have "length (rep x) = sz" "val (rep x) = x" by (simp_all add: rep_ok_def)
  with Cons show ?case by (simp add: array_bytes_def)
qed

lemma read_into_none: "flash_ok E \<Longrightarrow> f key = None \<Longrightarrow> read_into E key n f bs = bs"
  by (simp add: read_into_def flash_ok_def read_blob_def)

lemma ReadConfigValues_empty:
  fixes s :: "'z LockManager_scheme"
  assumes E: "flash_ok E" "user_rep_ok E" "credential_rep_ok E" "schedule_reps_ok E"
    and "flash s = Map.empty"
    and users: "\<forall>e \<in> set (mLockUsers s). user_spans_ok e"
      "\<forall>r \<in> set (mUserNames s). length r = DOOR_LOCK_MAX_USER_NAME_SIZE E"
      "\<forall>r \<in> set (mCredentials s). length r = 100"
    and creds: "credential_spans_ok s" "\<forall>r \<in> set (mLockCredentials s). length r = 100"
    and scheds: "\<forall>r \<in> set (mWeekdaySchedule s). length r = 10"
      "\<forall>r \<in> set (mYeardaySchedule s). length r = 10"
  shows "snd (ReadConfigValues E s) = s"
proof -
  have none: "read_into E key n Map.empty bs = bs" for key n bs
    using read_into_none [OF E(1)] by simp
  note reps = E(2-4) [unfolded user_rep_ok_def credential_rep_ok_def schedule_reps_ok_def]
  have "map (val_user E) (chunks (sizeof_user E) (length (mLockUsers s))
      (array_bytes (rep_user E) (mLockUsers s))) = mLockUsers s"
    using reps users by (intro array_roundtrip) auto
  moreover have "map (val_credential E) (chunks (sizeof_credential E) (length (concat (mLockCredentials s)))
      (array_bytes (rep_credential E) (concat (mLockCredentials s)))) = concat (mLockCredentials s)"
    using reps creds(1) [unfolded credential_spans_ok_def] by (intro array_roundtrip) auto
  moreover have "map (val_credstruct E) (chunks (sizeof_credstruct E) (length (concat (mCredentials s)))
      (array_bytes (rep_credstruct E) (concat (mCredentials s)))) = concat (mCredentials s)"
    using reps by (intro array_roundtrip [where P = "\<lambda>_. True"]) auto
  moreover have "map (val_weekday_info E) (chunks (sizeof_weekday_info E) (length (concat (mWeekdaySchedule s)))
      (array_bytes (rep_weekday_info E) (concat (mWeekdaySchedule s)))) = concat (mWeekdaySchedule s)"
    using reps by (intro array_roundtrip [where P = "\<lambda>_. True"]) auto
  moreover have "map (val_yearday_info E) (chunks (sizeof_yearday_info E) (length (concat (mYeardaySchedule s)))
      (array_bytes (rep_yearday_info E) (concat (mYeardaySchedule s)))) = concat (mYeardaySchedule s)"
    using reps by (intro array_roundtrip [where P = "\<lambda>_. True"]) auto
  moreover have "map (val_holiday_info E) (chunks (sizeof_holiday_info E) (length (mHolidaySchedule s))
      (array_bytes (rep_holiday_info E) (mHolidaySchedule s))) = mHolidaySchedule s"
    using reps by (intro array_roundtrip [where P = "\<lambda>_. True"]) auto
  ultimately show ?thesis
    using assms(5) users creds scheds
    by (simp add: ReadConfigValues_def Let_def none chunks_concat limits)
qed

lemma db_fields:
  assumes "db w' = db w"
  shows "mLockUsers w' = mLockUsers w" "mLockCredentials w' = mLockCredentials w"
    "mWeekdaySchedule w' = mWeekdaySchedule w" "mYeardaySchedule w' = mYeardaySchedule w"
    "mHolidaySchedule w' = mHolidaySchedule w" "mUserNames w' = mUserNames w"
    "mCredentialData w' = mCredentialData w" "mCredentials w' = mCredentials w"
    "LockParams w' = LockParams w" "flash w' = flash w"
  using assms by (auto simp: db_def)

text \<open>What the databases rely on: the free statuses are zero, as the memory is.\<close>

definition db_env_ok :: "env \<Rightarrow> bool" where
  "db_env_ok E \<longleftrightarrow> copy_string_ok E \<and> 0 < DOOR_LOCK_MAX_USER_NAME_SIZE E
     \<and> UserStatus_kAvailable E = 0 \<and> CredentialStatus_kAvailable E = 0 \<and> ScheduleStatus_kAvailable E = 0
     \<and> flash_ok E \<and> user_rep_ok E \<and> credential_rep_ok E \<and> schedule_reps_ok E"

definition db_inv :: "env \<Rightarrow> world \<Rightarrow> bool" where
  "db_inv E w \<longleftrightarrow> params_ok (LockParams w)
     \<and> users_inv E w \<and> (\<forall>e \<in> set (mLockUsers w). user_spans_ok e)
     \<and> credentials_inv E w \<and> credential_spans_ok w \<and> upper_free E w \<and> schedules_inv w"

lemma db_inv_db:
  assumes "db w' = db w"
  shows "db_inv E w' = db_inv E w"
  unfolding db_inv_def users_inv_def credentials_inv_def credentials_shape_def
    credential_spans_ok_def upper_free_def schedules_inv_def
  by (simp only: db_fields [OF assms])

lemma init_before_read_db: "db (init_before_read E b st w) = db (w\<lparr>LockParams := boot_params b\<rparr>)"
proof -
  have cbs: "db (SetCallbacks i c v) = db v" for i c v by (simp add: SetCallbacks_def db_def)
  have btn: "db (ButtonHandler_Init E v) = db v" for v
    by (simp add: ButtonHandler_Init_def ButtonHandler_GpioInit_def Let_def frame_simps)
  have "db ((NetWorkCommissioningInstInit w)\<lparr>LockParams := boot_params b\<rparr>)
      = db (w\<lparr>LockParams := boot_params b\<rparr>)"
    by (simp add: NetWorkCommissioningInstInit_def db_def emit_def)
  then show ?thesis
    by (simp add: init_before_read_def Let_def frame_simps cbs btn)
qed

lemma static_db:
  "mLockUsers (static_world E f) = replicate 10 user_zero"
  "mLockCredentials (static_world E f) = replicate 6 (replicate 100 credential_zero)"
  "mWeekdaySchedule (static_world E f) = replicate 10 (replicate 10 weekday_zero)"
  "mYeardaySchedule (static_world E f) = replicate 10 (replicate 10 yearday_zero)"
  "mHolidaySchedule (static_world E f) = replicate 10 holiday_zero"
  "mUserNames (static_world E f) = replicate 10 (replicate (DOOR_LOCK_MAX_USER_NAME_SIZE E) 0)"
  "mCredentialData (static_world E f) = replicate 12000 0"
  "mCredentials (static_world E f) = replicate 10 (replicate 100 (0, 0))"
  "flash (static_world E f) = f"
  by (simp_all add: static_world_def)

lemma static_db_inv:
  assumes "db_env_ok E" and "params_ok p"
  shows "db_inv E ((static_world E f)\<lparr>LockParams := p\<rparr>)"
  using assms
  by (auto simp: db_inv_def static_db users_inv_def user_entry_ok_def user_zero_def
      db_env_ok_def credentials_inv_def credentials_shape_def credential_entry_ok_def
      credential_zero_def schedules_inv_def params_ok_def user_spans_ok_def
      credential_spans_ok_def upper_free_def)

lemma booted_db_inv:
  assumes E: "db_env_ok E" and boot: "booted E w"
  shows "db_inv E w"
proof -
  from boot obtain b where "lockMgr_Init E b (static_world E Map.empty) = Done w"
    by (auto simp: booted_def)
  then show ?thesis
  proof (rule lockMgr_Init_tail)
    fix st
    let ?v = "init_before_read E b st (static_world E Map.empty)"
    let ?z = "(static_world E Map.empty)\<lparr>LockParams := boot_params b\<rparr>"
    assume p: "params_ok (boot_params b)"
      and tail: "w = emit (Eff_call ''PrintOnboardingCodes'') (snd (ReadConfigValues E ?v))
        \<or> (\<exists>x. w = emit x (emit (Eff_call ''PrintOnboardingCodes'') (snd (ReadConfigValues E ?v))))"
    note v = db_fields [OF init_before_read_db [of E b st "static_world E Map.empty"]]
    have "snd (ReadConfigValues E ?v) = ?v"
      using E by (intro ReadConfigValues_empty)
        (auto simp: v db_env_ok_def static_db user_zero_def user_spans_ok_def
          credential_spans_ok_def credential_zero_def)
    then have "db w = db ?v" using tail by (auto simp: frame_simps)
    then have "db w = db ?z" by (simp add: init_before_read_db)
    then have "db_inv E w = db_inv E ?z" by (rule db_inv_db)
    moreover have "db_inv E ?z" using E p by (rule static_db_inv)
    ultimately show ?thesis by simp
  qed
qed

section \<open>The databases' steps\<close>

text \<open>A call of a setter leaves what the write left, or the state as it was.\<close>

lemma set_user_result:
  assumes "db_inv E w" and "user_pre v"
  shows "obind (emberAfPluginDoorLockSetUser E ep k (ua_creator v) (ua_modifier v) (ua_name v)
       (ua_uniqueId v) (ua_status v) (ua_type v) (ua_rule v) (ua_credentials v) (ua_total v) w)
       (\<lambda>(b, w). Done w)
    = Done (case put_user E k v w of None \<Rightarrow> w | Some w' \<Rightarrow> w')"
proof -
  have inv: "users_inv E w" using assms(1) by (simp add: db_inv_def)
  show ?thesis
    by (simp add: emberAfPluginDoorLockSetUser_def SetUser_eq [OF inv assms(2)]
        put_user_eq [OF inv assms(2)])
qed

lemma set_credential_result:
  assumes "db_inv E w" and "credential_pre v"
  shows "obind (emberAfPluginDoorLockSetCredential E ep (snd k) (ca_creator v) (ca_modifier v)
       (ca_status v) (fst k) (ca_data v) w) (\<lambda>(b, w). Done w)
    = Done (case put_credential E k v w of None \<Rightarrow> w | Some w' \<Rightarrow> w')"
proof -
  have shape: "credentials_shape w" using assms(1) by (simp add: db_inv_def credentials_inv_def)
  obtain t i where k: "k = (t, i)" by (cases k)
  show ?thesis
  proof (cases "credential_key_ok E (t, i)")
    case True
    show ?thesis
      using SetCredential_eq [OF shape credential_fits [OF assms(2) True]] True k
        put_credential_eq [OF shape assms(2), of E k]
      by (simp add: emberAfPluginDoorLockSetCredential_def credential_slot_def)
  next
    case False
    then show ?thesis
      using k put_credential_eq [OF shape assms(2), of E k]
      by (auto simp: emberAfPluginDoorLockSetCredential_def SetCredential_def Let_def
          credential_key_ok_iff)
  qed
qed

lemma set_schedule_results:
  "snd (emberAfPluginDoorLockSetSchedule_weekday E ep (fst k) (snd k) (wd_status d)
      (daysMask (wd_schedule d)) (startHour (wd_schedule d)) (startMinute (wd_schedule d))
      (endHour (wd_schedule d)) (endMinute (wd_schedule d)) w)
    = (case put_weekday E k d w of None \<Rightarrow> w | Some w' \<Rightarrow> w')"
  "snd (emberAfPluginDoorLockSetSchedule_yearday E ep (fst k) (snd k) (yd_status y)
      (yd_localStartTime (yd_schedule y)) (yd_localEndTime (yd_schedule y)) w)
    = (case put_yearday E k y w of None \<Rightarrow> w | Some w' \<Rightarrow> w')"
  "snd (emberAfPluginDoorLockSetSchedule_holiday E ep i (hd_status h)
      (hd_localStartTime (hd_schedule h)) (hd_localEndTime (hd_schedule h))
      (hd_operatingMode (hd_schedule h)) w)
    = (case put_holiday E i h w of None \<Rightarrow> w | Some w' \<Rightarrow> w')"
  by (simp_all add: emberAfPluginDoorLockSetSchedule_weekday_def put_weekday_def
      SetWeekdaySchedule_def emberAfPluginDoorLockSetSchedule_yearday_def put_yearday_def
      SetYeardaySchedule_def emberAfPluginDoorLockSetSchedule_holiday_def put_holiday_def
      SetHolidaySchedule_def Let_def)

text \<open>One write keeps the invariant of all the databases, because it leaves the others alone.\<close>

lemma put_user_db_inv:
  assumes E: "db_env_ok E" and inv: "db_inv E w" and v: "user_pre v" and put: "put_user E k v w = Some w'"
  shows "db_inv E w'"
proof -
  have u: "users_inv E w" using inv by (simp add: db_inv_def)
  from put have acc: "user_accept E w k v" and w': "w' = SaveUsers E (user_written E (unat k - 1) v w)"
    by (auto simp: put_user_eq [OF u v] split: if_splits)
  have "unat k - 1 < 10" using acc user_index_okD [of k] by (auto simp: user_accept_def)
  with user_written_spans [OF u _ acc] inv E
  have "\<forall>e \<in> set (mLockUsers w'). user_spans_ok e" by (simp add: w' db_inv_def db_env_ok_def)
  moreover have "users_inv E w'" using u v put by (rule users.put_inv)
  ultimately show ?thesis
    using inv
    by (simp add: w' db_inv_def user_written_def SaveUsers_def credentials_inv_def
        credentials_shape_def credential_spans_ok_def upper_free_def schedules_inv_def)
qed

lemma put_credential_db_inv:
  assumes inv: "db_inv E w" and v: "credential_pre v" and put: "put_credential E k v w = Some w'"
  shows "db_inv E w'"
proof -
  have c: "credentials_inv E w" "credential_spans_ok w" "upper_free E w"
    using inv by (simp_all add: db_inv_def)
  then have shape: "credentials_shape w" by (simp add: credentials_inv_def)
  from put have key: "credential_key_ok E k"
    and w': "w' = SaveCredentials E (credential_written (fst (credential_slot E k))
        (snd (credential_slot E k)) (fst k) v w)"
    by (auto simp: put_credential_eq [OF shape v] split: if_splits)
  have "fst (credential_slot E k) < 6" "snd (credential_slot E k) < 100"
    using credential_slot_index(2,3) [of E "fst k" "snd k"] key by auto
  then have "credential_spans_ok w'"
    using credential_written_spans [OF shape c(2) v] by (simp add: w' credential_spans_ok_def)
  moreover have "credentials_inv E w'" using c(1) v put by (rule credentials.put_inv)
  moreover have "upper_free E w'" using c(1) v c(3) put by (rule put_credential_upper)
  ultimately show ?thesis
    using inv
    by (simp add: db_inv_def w' credential_written_def SaveCredentials_def users_inv_def
        schedules_inv_def)
qed

lemma put_schedule_db_inv:
  assumes inv: "db_inv E w"
  shows "put_weekday E k d w = Some w' \<Longrightarrow> db_inv E w'"
    and "put_yearday E k y w = Some w' \<Longrightarrow> db_inv E w'"
    and "put_holiday E i h w = Some w' \<Longrightarrow> db_inv E w'"
proof -
  have s: "schedules_inv w" using inv by (simp add: db_inv_def)
  show "db_inv E w'" if put: "put_weekday E k d w = Some w'"
    using inv weekday.put_inv [OF s _ put] put
    by (auto simp: db_inv_def put_weekday_eq SaveWeekdaySchedules_def users_inv_def
        credentials_inv_def credentials_shape_def credential_spans_ok_def upper_free_def
        split: if_splits)
  show "db_inv E w'" if put: "put_yearday E k y w = Some w'"
    using inv yearday.put_inv [OF s _ put] put
    by (auto simp: db_inv_def put_yearday_eq SaveYeardaySchedules_def users_inv_def
        credentials_inv_def credentials_shape_def credential_spans_ok_def upper_free_def
        split: if_splits)
  show "db_inv E w'" if put: "put_holiday E i h w = Some w'"
    using inv holiday.put_inv [OF s _ put] put
    by (auto simp: db_inv_def put_holiday_eq SaveHolidaySchedules_def users_inv_def
        credentials_inv_def credentials_shape_def credential_spans_ok_def upper_free_def
        split: if_splits)
qed

section \<open>The system's invariant\<close>

definition platform_ok :: "env \<Rightarrow> bool" where
  "platform_ok E \<longleftrightarrow> timer_ok E \<and> queue_ok E \<and> db_env_ok E"

definition sys_inv :: "env \<Rightarrow> world \<Rightarrow> bool" where
  "sys_inv E w \<longleftrightarrow> ctl_inv E w \<and> db_inv E w"

lemma db_inv_step:
  assumes E: "db_env_ok E" and ctl: "ctl_inv E w" and inv: "db_inv E w" and go: "goes E w a w'"
  shows "db_inv E w'"
proof (cases "is_db a")
  case False
  have "Work_InitServer \<notin> set (scheduled_work w)" using ctl by (simp add: ctl_inv_def wiring_inv_def)
  then have "db w' = db w" using go False by (intro control_db)
  then show ?thesis using db_inv_db [of w' w] inv by simp
next
  case True
  from go have "step E w a (Done w')" and owes: "server_owes a" by (simp_all add: goes_def)
  then show ?thesis
  proof (cases rule: step.cases)
    case (set_user ep k v)
    then have "w' = (case put_user E k v w of None \<Rightarrow> w | Some w' \<Rightarrow> w')"
      using set_user_result [OF inv] owes by simp
    then show ?thesis using put_user_db_inv [OF E inv] owes set_user(1) inv by (auto split: option.splits)
  next
    case (set_credential ep k v)
    then have "w' = (case put_credential E k v w of None \<Rightarrow> w | Some w' \<Rightarrow> w')"
      using set_credential_result [OF inv] owes by simp
    then show ?thesis using put_credential_db_inv [OF inv] owes set_credential(1) inv
      by (auto split: option.splits)
  next
    case (set_weekday ep k v)
    then show ?thesis using put_schedule_db_inv(1) [OF inv] inv
      by (simp add: set_schedule_results split: option.splits)
  next
    case (set_yearday ep k v)
    then show ?thesis using put_schedule_db_inv(2) [OF inv] inv
      by (simp add: set_schedule_results split: option.splits)
  next
    case (set_holiday ep d v)
    then show ?thesis using put_schedule_db_inv(3) [OF inv] inv
      by (simp add: set_schedule_results split: option.splits)
  qed (use True in simp_all)
qed

lemma sys_inv_step:
  assumes "platform_ok E" and "sys_inv E w" and "goes E w a w'"
  shows "sys_inv E w'"
  using assms ctl_inv_step [of E w a w'] db_inv_step [of E w a w']
  by (simp add: platform_ok_def sys_inv_def)

lemma booted_sys_inv: "platform_ok E \<Longrightarrow> booted E w \<Longrightarrow> sys_inv E w"
  by (simp add: platform_ok_def sys_inv_def booted_ctl_inv booted_db_inv)

text \<open>The running program, for every environment that keeps its promises.\<close>

definition sys_init :: "env \<Rightarrow> world \<Rightarrow> bool" where
  "sys_init E w \<longleftrightarrow> platform_ok E \<and> booted E w"

definition sys_step :: "env \<Rightarrow> world \<Rightarrow> act \<Rightarrow> world \<Rightarrow> bool" where
  "sys_step E w a w' \<longleftrightarrow> platform_ok E \<and> goes E w a w'"

interpretation sys: invariant_system "sys_init E" "sys_step E" "sys_inv E" for E
  by unfold_locales (auto simp: sys_init_def sys_step_def intro: booted_sys_inv sys_inv_step)

section \<open>The actuator's abstract machine\<close>

text \<open>
  The bolt's cycle: at rest it may start to move, in movement it may arrive; and nothing
  else. The program's actuator simulates it.
\<close>

datatype bolt_act = Start | Arrive

inductive bolt_step :: "State_t \<Rightarrow> bolt_act \<Rightarrow> State_t \<Rightarrow> bool" where
  start_unlock: "bolt_step kState_LockCompleted Start kState_UnlockInitiated"
| start_lock: "bolt_step kState_UnlockCompleted Start kState_LockInitiated"
| arrive_locked: "bolt_step kState_LockInitiated Arrive kState_LockCompleted"
| arrive_unlocked: "bolt_step kState_UnlockInitiated Arrive kState_UnlockCompleted"

inductive_simps bolt_step_iff: "bolt_step s b s'"

lemma bolt_step_phase: "(\<exists>b. bolt_step s b s') \<longleftrightarrow> s' = phase_next s"
  by (cases s) (auto simp: bolt_step_iff)

definition at_rest :: "State_t \<Rightarrow> bool" where
  "at_rest s \<longleftrightarrow> s = kState_LockCompleted \<or> s = kState_UnlockCompleted"

text \<open>What one step does to the actuator's state.\<close>

lemma InitiateAction_phase:
  assumes "timer_ok E" and "InitiateAction E x a w = Done (r, w')"
  shows "mState w' = mState w \<or> mState w' = phase_next (mState w)"
  using InitiateAction_rejected [of w a E x] InitiateAction_started [OF assms(1) _ assms(2)] assms(2)
  by (cases "startable (mState w) a") (auto split: option.splits)

lemma initiate_and_log_phase:
  "timer_ok E \<Longrightarrow> initiate_and_log E x a w = Done w' \<Longrightarrow>
     mState w' = mState w \<or> mState w' = phase_next (mState w)"
  by (auto simp: initiate_and_log_def obind_Done_iff dest: InitiateAction_phase)

lemma FunctionHandler_phase:
  assumes E: "timer_ok E" and run: "FunctionHandler E e w = Done w'"
  shows "mState w' = mState w \<or> mState w' = phase_next (mState w)"
proof -
  from run obtain idx act where e: "evt_union e = ButtonEvent idx act"
    by (auto simp: FunctionHandler_def split: event_union.splits)
  show ?thesis
    using run
    by (auto simp: FunctionHandler_def e Let_def obind_Done_iff
        dest!: AppTask_timer_Done [OF E] initiate_and_log_phase [OF E] split: if_split_asm)
qed

lemma DispatchEvent_phase:
  assumes E: "timer_ok E" and inv: "ctl_inv E w" and q: "sAppEventQueue w = e # q"
    and run: "DispatchEvent E e (w\<lparr>sAppEventQueue := q\<rparr>) = Done w'"
  shows "mState w' = mState w \<or> mState w' = phase_next (mState w)"
proof -
  let ?v = "w\<lparr>sAppEventQueue := q\<rparr>"
  from head_event_cases [OF inv q]
  consider "Handler e = Some H_ActuatorMovementTimerEventHandler" "evt_union e = TimerEvent Ctx_LockManager"
    | "Handler e = Some H_FunctionTimerEventHandler"
    | "Handler e = Some H_FunctionHandler"
    | a actor where "Handler e = Some H_LockActionEventHandler" "Type e = kEventType_Lock"
        "evt_union e = LockEvent (Action_code a) actor"
    by blast
  then show ?thesis
  proof cases
    case 1
    have cbs: "mActionCompleted_CB w = Some CB_AppTask_ActionCompleted"
      using inv by (simp add: ctl_inv_def wiring_inv_def)
    show ?thesis using run cbs
      by (auto simp: DispatchEvent_def 1 actuator_event_Done [OF 1(2)] Let_def split: if_split_asm)
  next
    case 2
    with run show ?thesis
      by (auto simp: DispatchEvent_def FunctionTimerEventHandler_def split: if_split_asm)
  next
    case 3
    with run FunctionHandler_phase [OF E, of e ?v w'] show ?thesis by (simp add: DispatchEvent_def)
  next
    case (4 a actor)
    with run initiate_and_log_phase [OF E, of actor a ?v w'] show ?thesis
      by (simp add: DispatchEvent_def LockActionEventHandler_def)
  qed
qed

lemma AppTaskMain_round_phase:
  assumes "timer_ok E" and "ctl_inv E w" and "AppTaskMain_round E c w = Some (Done w')"
  shows "mState w' = mState w \<or> mState w' = phase_next (mState w)"
proof -
  from assms(3) obtain e q v where q: "sAppEventQueue w = e # q"
    and v: "DispatchEvent E e (w\<lparr>sAppEventQueue := q\<rparr>) = Done v" "mState w' = mState v"
    by (auto simp: AppTaskMain_round_def Let_def obind_Done_iff collect_connectivity_def
        split: list.splits if_split_asm option.split_asm)
  then show ?thesis using DispatchEvent_phase [OF assms(1,2) q v(1)] by simp
qed

lemma commands_phase:
  assumes E: "timer_ok E"
  shows "emberAfPluginDoorLockOnDoorLockCommand E ep pin err w = Done (b, err', w') \<Longrightarrow>
      mState w' = mState w \<or> mState w' = phase_next (mState w)"
    and "emberAfPluginDoorLockOnDoorUnlockCommand E ep pin err w = Done (b, err', w') \<Longrightarrow>
      mState w' = mState w \<or> mState w' = phase_next (mState w)"
  by (auto dest!: lock_command_Done unlock_command_Done setLockState_simps(1) InitiateAction_phase [OF E]
      split: if_split_asm)

lemma step_phase:
  assumes E: "timer_ok E" and inv: "ctl_inv E w" and go: "goes E w a w'"
  shows "mState w' = mState w \<or> mState w' = phase_next (mState w)"
proof (cases "is_db a")
  case True
  show ?thesis using ctl_fields(1) [OF is_db_ctl [OF go True]] by simp
next
  case False
  from go have "step E w a (Done w')" by (simp add: goes_def)
  then show ?thesis
  proof (cases rule: step.cases)
    case (dispatch c)
    then show ?thesis using AppTaskMain_round_phase [OF E inv] by simp
  next
    case (lock_command ep pin err)
    then show ?thesis by (auto simp: Done_obind_iff dest: commands_phase(1) [OF E])
  next
    case (unlock_command ep pin err)
    then show ?thesis by (auto simp: Done_obind_iff dest: commands_phase(2) [OF E])
  next
    case (touch lock)
    then show ?thesis
      by (auto simp: Done_obind_iff dest!: start_lock_action_Done InitiateAction_phase [OF E])
  next
    case (work item rest b)
    have "item = Work_UpdateCluster"
      using inv work by (cases item) (simp_all add: ctl_inv_def wiring_inv_def)
    then show ?thesis using work by (simp add: run_work_def UpdateCluster_def Let_def)
  next
    case button_irq
    then show ?thesis
      by (auto simp: FuncButtonCallback_def Let_def split: if_split_asm option.split_asm)
  next
    case (device_event state ev)
    then show ?thesis
      by (auto simp: DeviceEventCallback_def split: ChipDeviceEvent.splits if_splits option.splits)
  qed (use False in \<open>simp_all add: LockManager_TimerEventHandler_def AppTask_TimerEventHandler_def
       ButtonHandler_TimerCallback_def ButtonEventHandler_def ActionRequest_def Let_def\<close>)
qed

lemma booted_at_rest: "booted E w \<Longrightarrow> at_rest (mState w)"
  by (auto simp: booted_def at_rest_def elim!: lockMgr_Init_Done split: if_split_asm if_split)

interpretation bolt: simulation "sys_init E" "sys_step E" "sys_inv E" at_rest bolt_step mState for E
proof unfold_locales
  fix w a w'
  show "at_rest (mState w)" if "sys_init E w"
    using that booted_at_rest by (auto simp: sys_init_def)
  show "mState w' = mState w \<or> (\<exists>b. bolt_step (mState w) b (mState w'))"
    if "sys_inv E w" "sys_step E w a w'"
    using that step_phase [of E w a w']
    by (auto simp: sys_inv_def sys_step_def platform_ok_def bolt_step_phase)
qed

section \<open>No call is undefined\<close>

lemma InitiateAction_defined: "InitiateAction E x a w \<noteq> Undef"
  by (auto simp: InitiateAction_def LockManager_StartTimer_def LockManager_CancelTimer_def Let_def
      split: option.splits)

lemma initiate_and_log_defined: "initiate_and_log E x a w \<noteq> Undef"
  by (auto simp: initiate_and_log_def obind_Undef_iff InitiateAction_defined)

lemma AppTask_timer_defined: "AppTask_StartTimer E ms w \<noteq> Undef" "AppTask_CancelTimer E w \<noteq> Undef"
  by (auto simp: AppTask_StartTimer_def AppTask_CancelTimer_def split: option.splits)

lemma FunctionHandler_defined: "evt_union e = ButtonEvent idx act \<Longrightarrow> FunctionHandler E e w \<noteq> Undef"
  by (auto simp: FunctionHandler_def Let_def initiate_and_log_defined AppTask_timer_defined
      obind_Undef_iff split: if_split_asm)

lemma DispatchEvent_defined:
  assumes "ctl_inv E w" and "sAppEventQueue w = e # q"
  shows "DispatchEvent E e v \<noteq> Undef"
  using head_event_cases [OF assms]
  by (auto simp: DispatchEvent_def actuator_event_Done FunctionHandler_defined
      FunctionTimerEventHandler_def LockActionEventHandler_def initiate_and_log_defined split: if_split_asm)

lemma commands_defined:
  "emberAfPluginDoorLockOnDoorLockCommand E ep pin err w \<noteq> Undef"
  "emberAfPluginDoorLockOnDoorUnlockCommand E ep pin err w \<noteq> Undef"
  by (auto simp: emberAfPluginDoorLockOnDoorLockCommand_def LockManager_Lock_def LockManager_Unlock_def
      emberAfPluginDoorLockOnDoorUnlockCommand_def InitiateAction_defined obind_Undef_iff
      split: prod.splits if_split_asm)

text \<open>
  Only the event that commissioning is complete can be undefined: it reads the attribute
  without asking whether it is null.
\<close>

definition null_attribute_read :: "env \<Rightarrow> act \<Rightarrow> bool" where
  "null_attribute_read E a \<longleftrightarrow> ENABLE_UI E \<and> a = A_device_event None kCommissioningComplete"

lemma step_defined:
  assumes inv: "sys_inv E w" and evk: "CYW955913EVK_01 E" and owes: "server_owes a" and st: "step E w a r"
  shows "r = Undef \<longleftrightarrow> null_attribute_read E a"
  using st
proof (cases rule: step.cases)
  case (dispatch c)
  then show ?thesis using inv DispatchEvent_defined [of E w]
    by (auto simp: null_attribute_read_def AppTaskMain_round_def sys_inv_def Let_def obind_Undef_iff split: list.splits if_split_asm)
next
  case button_irq
  have "length (buttonTimers w) = 1"
    using inv by (simp add: sys_inv_def ctl_inv_def wiring_inv_def kButtonCount_def)
  then show ?thesis using evk button_irq
    by (auto simp: null_attribute_read_def FuncButtonCallback_def APP_FUNCTION_BUTTON_IDX_def Let_def split: option.splits)
next
  case (touch lock)
  then show ?thesis
    by (auto simp: null_attribute_read_def start_lock_action_def Let_def obind_Undef_iff InitiateAction_defined split: if_split_asm)
next
  case (work item rest b)
  have "item = Work_UpdateCluster"
    using inv work by (cases item) (simp_all add: sys_inv_def ctl_inv_def wiring_inv_def)
  then show ?thesis using work by (simp add: run_work_def null_attribute_read_def)
next
  case (device_event state ev)
  then show ?thesis
    by (auto simp: DeviceEventCallback_def null_attribute_read_def
        split: ChipDeviceEvent.splits option.splits)
next
  case (set_user ep k v)
  then show ?thesis using set_user_result [of E w v] inv owes
    by (simp add: sys_inv_def null_attribute_read_def)
next
  case (set_credential ep k v)
  then show ?thesis using set_credential_result [of E w v] inv owes
    by (simp add: sys_inv_def null_attribute_read_def)
qed (auto simp: obind_Undef_iff commands_defined null_attribute_read_def)

end
