(* ===== verification/SystemCore.thy ===== *)
theory SystemCore
  imports SystemSafe
begin

text \<open>
  The protocol of the running program at the level of the actuator, the factory reset and the
  LED: seven kinds of moves, and every step of the program is one of them. The properties of
  runs are proved over these moves.
\<close>

section \<open>Moves\<close>

definition resets :: "world \<Rightarrow> nat" where
  "resets w = length (filter (\<lambda>x. x = Eff_ScheduleFactoryReset) (effects w))"

definition steady :: "bool \<Rightarrow> LEDWidget \<Rightarrow> bool" where
  "steady b led \<longleftrightarrow> mBlinkOnTimeMS led = 0 \<and> mBlinkOffTimeMS led = 0 \<and> led_mState led = b"

definition same_act :: "world \<Rightarrow> world \<Rightarrow> bool" where
  "same_act w w' \<longleftrightarrow> mState w' = mState w \<and> sLockTimer w' = sLockTimer w \<and> pending w' = pending w"

definition same_fn :: "world \<Rightarrow> world \<Rightarrow> bool" where
  "same_fn w w' \<longleftrightarrow> mFunction w' = mFunction w \<and> mFunctionTimerActive w' = mFunctionTimerActive w
     \<and> resets w' = resets w"

definition keeps_led :: "world \<Rightarrow> world \<Rightarrow> bool" where
  "keeps_led w w' \<longleftrightarrow> (\<forall>b. steady b (sLockLED w) \<longrightarrow> steady b (sLockLED w'))"

definition shows_lock :: "env \<Rightarrow> world \<Rightarrow> bool" where
  "shows_lock E w \<longleftrightarrow> ENABLE_UI E \<or> steady (\<not> NextState w) (sLockLED w)"

inductive core_step :: "env \<Rightarrow> world \<Rightarrow> world \<Rightarrow> bool" for E :: env where
  same: "same_act w w' \<Longrightarrow> same_fn w w' \<Longrightarrow> keeps_led w w' \<Longrightarrow> core_step E w w'"
| start: "at_rest (mState w) \<Longrightarrow> mState w' = phase_next (mState w) \<Longrightarrow> same_fn w w' \<Longrightarrow> core_step E w w'"
| expire: "sLockTimer w \<noteq> None \<Longrightarrow> sLockTimer w' = None \<Longrightarrow> mState w' = mState w \<Longrightarrow>
    pending w' = Suc (pending w) \<or> pending w' = pending w \<Longrightarrow>
    same_fn w w' \<Longrightarrow> keeps_led w w' \<Longrightarrow> core_step E w w'"
| arrive: "IsActionInProgress w \<Longrightarrow> 0 < pending w \<Longrightarrow> mState w' = phase_next (mState w) \<Longrightarrow>
    same_fn w w' \<Longrightarrow> shows_lock E w' \<Longrightarrow> core_step E w w'"
| select: "\<not> mFunctionTimerActive w \<Longrightarrow> mFunction w = kNoneSelected \<Longrightarrow>
    mFunctionTimerActive w' \<Longrightarrow> mFunction w' = kFactoryReset \<Longrightarrow> resets w' = resets w \<Longrightarrow>
    same_act w w' \<Longrightarrow> core_step E w w'"
| cancel: "mFunctionTimerActive w \<Longrightarrow> mFunction w = kFactoryReset \<Longrightarrow>
    \<not> mFunctionTimerActive w' \<Longrightarrow> mFunction w' = kNoneSelected \<Longrightarrow> resets w' = resets w \<Longrightarrow>
    same_act w w' \<Longrightarrow> shows_lock E w' \<Longrightarrow> core_step E w w'"
| reset: "mFunctionTimerActive w \<Longrightarrow> mFunction w = kFactoryReset \<Longrightarrow>
    mFunctionTimerActive w' \<Longrightarrow> mFunction w' = kNoneSelected \<Longrightarrow> resets w' = Suc (resets w) \<Longrightarrow>
    same_act w w' \<Longrightarrow> keeps_led w w' \<Longrightarrow> core_step E w w'"

section \<open>The LED and the effects\<close>

lemma Led_steady:
  "steady b (fst (Led_Set b led))"
  "steady b led \<Longrightarrow> steady b (fst (Led_Animate t led))"
  by (simp_all add: steady_def Led_Set_def Led_DoSet_def Led_Animate_def)

lemma resets_simps [simp]:
  "resets (emit x w) = (if x = Eff_ScheduleFactoryReset then Suc (resets w) else resets w)"
  "resets (on_led f w) = resets w" "resets (PostEvent E e w) = resets w"
  by (simp_all add: resets_def)

lemma resets_updates [simp]:
  "resets (w\<lparr>mState := b\<rparr>) = resets w" "resets (w\<lparr>sLockTimer := c\<rparr>) = resets w"
  "resets (w\<lparr>sFunctionTimer := d\<rparr>) = resets w" "resets (w\<lparr>buttonTimers := e\<rparr>) = resets w"
  "resets (w\<lparr>sAppEventQueue := f\<rparr>) = resets w" "resets (w\<lparr>mFunction := g\<rparr>) = resets w"
  "resets (w\<lparr>mFunctionTimerActive := h\<rparr>) = resets w"
  "resets (w\<lparr>mSyncClusterToButtonAction := i\<rparr>) = resets w"
  "resets (w\<lparr>scheduled_work := j\<rparr>) = resets w" "resets (w\<lparr>clock_ms := k\<rparr>) = resets w"
  "resets (collect_connectivity cn w) = resets w"
  by (simp_all add: resets_def collect_connectivity_def split: option.split)

lemma resets_callbacks [simp]:
  "resets (ActionInitiated E a x w) = resets w" "resets (ActionCompleted E a w) = resets w"
  by (simp_all add: ActionInitiated_def ActionCompleted_def UpdateClusterState_def Let_def
      split: Action_t.split)

lemma collect_connectivity_simps [simp]:
  "mState (collect_connectivity cn w) = mState w" "sLockTimer (collect_connectivity cn w) = sLockTimer w"
  "sAppEventQueue (collect_connectivity cn w) = sAppEventQueue w"
  "mFunction (collect_connectivity cn w) = mFunction w"
  "mFunctionTimerActive (collect_connectivity cn w) = mFunctionTimerActive w"
  "sLockLED (collect_connectivity cn w) = sLockLED w"
  by (simp_all add: collect_connectivity_def split: option.split)

text \<open>What follows the dispatch of an event in a round of the main loop does not matter.\<close>

lemma core_step_trans:
  assumes "core_step E w v" and "same_act v w'" and "same_fn v w'" and "keeps_led v w'"
  shows "core_step E w w'"
  using assms(1)
proof (cases rule: core_step.cases)
  case same
  with assms(2-) show ?thesis
    by (intro core_step.same) (auto simp: same_act_def same_fn_def keeps_led_def)
next
  case start
  with assms(2-) show ?thesis by (intro core_step.start) (auto simp: same_act_def same_fn_def)
next
  case expire
  with assms(2-) show ?thesis
    by (intro core_step.expire) (auto simp: same_act_def same_fn_def keeps_led_def)
next
  case arrive
  with assms(2-) show ?thesis
    by (intro core_step.arrive)
       (auto simp: same_act_def same_fn_def keeps_led_def shows_lock_def NextState_def)
next
  case select
  with assms(2-) show ?thesis by (intro core_step.select) (auto simp: same_act_def same_fn_def)
next
  case cancel
  with assms(2-) show ?thesis
    by (intro core_step.cancel)
       (auto simp: same_act_def same_fn_def keeps_led_def shows_lock_def NextState_def)
next
  case reset
  with assms(2-) show ?thesis
    by (intro core_step.reset) (auto simp: same_act_def same_fn_def keeps_led_def)
qed

section \<open>Every step is a move\<close>

lemma InitiateAction_core:
  assumes E: "timer_ok E" and inv: "ctl_inv E w" and run: "InitiateAction E x a w = Done (r, w')"
  shows "core_step E w w'"
proof (cases "startable (mState w) a")
  case False
  then show ?thesis using InitiateAction_rejected [OF False, of E x] run
    by (auto intro!: core_step.same simp: same_act_def same_fn_def keeps_led_def)
next
  case True
  have w': "w' = ActionInitiated E a x (w\<lparr>sLockTimer := Some ACTUATOR_MOVEMENT_PERIOS_MS,
      mState := phase_next (mState w)\<rparr>)"
    using InitiateAction_started [OF E True run] inv by (simp add: ctl_inv_def wiring_inv_def)
  show ?thesis
    by (rule core_step.start) (use True in \<open>auto simp: w' same_fn_def startable_def at_rest_def\<close>)
qed

lemma initiate_and_log_core:
  "timer_ok E \<Longrightarrow> ctl_inv E w \<Longrightarrow> initiate_and_log E x a w = Done w' \<Longrightarrow> core_step E w w'"
  by (auto simp: initiate_and_log_def obind_Done_iff dest: InitiateAction_core)

lemma shows_lock_completed:
  assumes "IsActionInProgress w"
  shows "shows_lock E (ActionCompleted E (if mState w = kState_LockInitiated then LOCK_ACTION
      else UNLOCK_ACTION) (w\<lparr>mState := phase_next (mState w)\<rparr>))"
  using assms
  by (auto simp: shows_lock_def ActionCompleted_def UpdateClusterState_def Let_def NextState_def
      IsActionInProgress_def Led_steady)

lemma FunctionHandler_core:
  assumes E: "timer_ok E" and inv: "ctl_inv E w" and run: "FunctionHandler E e w = Done w'"
  shows "core_step E w w'"
proof -
  from run obtain idx act where e: "evt_union e = ButtonEvent idx act"
    by (auto simp: FunctionHandler_def split: event_union.splits)
  have stay: "core_step E w w"
    by (rule core_step.same) (simp_all add: same_act_def same_fn_def keeps_led_def)
  show ?thesis
  proof (cases "idx = APP_FUNCTION_BUTTON_IDX E \<and> act = APP_BUTTON_LONG_PRESS")
    case False
    then show ?thesis using run e stay initiate_and_log_core [OF E inv]
      by (auto simp: FunctionHandler_def split: if_split_asm)
  next
    case True
    consider (sel) "\<not> mFunctionTimerActive w" "mFunction w = kNoneSelected"
      | (can) "mFunctionTimerActive w" "mFunction w = kFactoryReset"
      | (none) "w' = w"
      using run True e by (auto simp: FunctionHandler_def split: if_split_asm)
    then show ?thesis
    proof cases
      case sel
      have "mFunctionTimerActive w' \<and> mFunction w' = kFactoryReset \<and> resets w' = resets w \<and> same_act w w'"
        using run True e sel
        by (auto simp: FunctionHandler_def Let_def obind_Done_iff same_act_def pending_def
            dest!: AppTask_timer_Done [OF E] split: if_split_asm)
      with sel show ?thesis by (intro core_step.select) auto
    next
      case can
      have "\<not> mFunctionTimerActive w' \<and> mFunction w' = kNoneSelected \<and> resets w' = resets w
          \<and> same_act w w' \<and> shows_lock E w'"
        using run True e can
        by (auto simp: FunctionHandler_def Let_def obind_Done_iff same_act_def pending_def
            shows_lock_def NextState_def Led_steady dest!: AppTask_timer_Done [OF E] split: if_split_asm)
      with can show ?thesis by (intro core_step.cancel) auto
    next
      case none
      with stay show ?thesis by simp
    qed
  qed
qed

lemma core_from:
  assumes "core_step E v w'" and "same_act v w" and "same_fn v w" and "sLockLED v = sLockLED w"
  shows "core_step E w w'"
proof -
  have eqs: "mState v = mState w" "sLockTimer v = sLockTimer w" "pending v = pending w"
    "mFunction v = mFunction w" "mFunctionTimerActive v = mFunctionTimerActive w" "resets v = resets w"
    using assms(2,3) by (simp_all add: same_act_def same_fn_def)
  note defs = same_act_def same_fn_def keeps_led_def IsActionInProgress_def
  from assms(1) show ?thesis
  proof (cases rule: core_step.cases)
    case same
    then show ?thesis using eqs assms(4) by (intro core_step.same) (auto simp: defs)
  next
    case start
    then show ?thesis using eqs by (intro core_step.start) (auto simp: defs)
  next
    case expire
    then show ?thesis using eqs assms(4) by (intro core_step.expire) (auto simp: defs)
  next
    case arrive
    then show ?thesis using eqs by (intro core_step.arrive) (auto simp: defs)
  next
    case select
    then show ?thesis using eqs by (intro core_step.select) (auto simp: defs)
  next
    case cancel
    then show ?thesis using eqs by (intro core_step.cancel) (auto simp: defs)
  next
    case reset
    then show ?thesis using eqs assms(4) by (intro core_step.reset) (auto simp: defs)
  qed
qed

lemma dispatch_core:
  assumes E: "timer_ok E" and inv: "ctl_inv E w" and q: "sAppEventQueue w = e # q"
    and run: "DispatchEvent E e (w\<lparr>sAppEventQueue := q\<rparr>) = Done w'"
  shows "core_step E w w'"
proof (cases "is_actuator_event e")
  case True
  note prog = dequeue_actuator(1) [OF inv q True]
  have ev: "evt_union e = TimerEvent Ctx_LockManager"
    using head_event_cases [OF inv q] True by (auto simp: is_actuator_event_def)
  have cbs: "mActionCompleted_CB w = Some CB_AppTask_ActionCompleted"
    using inv by (simp add: ctl_inv_def wiring_inv_def)
  let ?v = "w\<lparr>sAppEventQueue := q\<rparr>"
  have prog': "IsActionInProgress ?v" using prog by (simp add: IsActionInProgress_def)
  have "w' = ActionCompleted E (if mState ?v = kState_LockInitiated then LOCK_ACTION else UNLOCK_ACTION)
      (?v\<lparr>mState := phase_next (mState ?v)\<rparr>)"
    using run True cbs prog'
    by (simp add: DispatchEvent_def is_actuator_event_def actuator_event_Done [OF ev] Let_def)
  moreover have "0 < pending w" using q True by (simp add: pending_def)
  ultimately show ?thesis
    using prog shows_lock_completed [OF prog', of E]
    by (intro core_step.arrive) (simp_all add: same_fn_def)
next
  case False
  let ?v = "w\<lparr>sAppEventQueue := q\<rparr>"
  have inv': "ctl_inv E ?v" using inv q False by (rule dequeue_inv)
  from head_event_cases [OF inv q] False
  consider "Handler e = Some H_FunctionTimerEventHandler"
    | "Handler e = Some H_FunctionHandler"
    | a actor where "Handler e = Some H_LockActionEventHandler" "Type e = kEventType_Lock"
        "evt_union e = LockEvent (Action_code a) actor"
    by (auto simp: is_actuator_event_def)
  then have "core_step E ?v w'"
  proof cases
    case 1
    show ?thesis
    proof (cases "Type e = kEventType_Timer \<and> mFunctionTimerActive w \<and> mFunction w = kFactoryReset")
      case True
      then have w': "w' = emit Eff_ScheduleFactoryReset (?v\<lparr>mFunction := kNoneSelected\<rparr>)"
        using run 1 by (auto simp: DispatchEvent_def FunctionTimerEventHandler_def)
      show ?thesis
        by (rule core_step.reset) (use True in \<open>simp_all add: w' same_act_def keeps_led_def pending_def\<close>)
    next
      case False
      then have "w' = ?v"
        using run 1 by (auto simp: DispatchEvent_def FunctionTimerEventHandler_def split: if_split_asm)
      then show ?thesis
        by (intro core_step.same) (simp_all add: same_act_def same_fn_def keeps_led_def)
    qed
  next
    case 2
    with run FunctionHandler_core [OF E inv'] show ?thesis by (simp add: DispatchEvent_def)
  next
    case 3
    with run initiate_and_log_core [OF E inv'] show ?thesis
      by (simp add: DispatchEvent_def LockActionEventHandler_def)
  qed
  then show ?thesis
    by (rule core_from) (use False q in \<open>simp_all add: same_act_def same_fn_def pending_def\<close>)
qed

lemma AppTaskMain_round_core:
  assumes "timer_ok E" and "ctl_inv E w" and "AppTaskMain_round E c w = Some (Done w')"
  shows "core_step E w w'"
proof -
  from assms(3) obtain e q v where q: "sAppEventQueue w = e # q"
    and v: "DispatchEvent E e (w\<lparr>sAppEventQueue := q\<rparr>) = Done v"
    and w': "w' = (if ENABLE_UI E then collect_connectivity c v
        else on_led (Led_Animate (clock_ms (collect_connectivity c v))) (collect_connectivity c v))"
    by (auto simp: AppTaskMain_round_def Let_def obind_Done_iff split: list.splits if_split_asm)
  have "same_act v w'" "same_fn v w'"
    unfolding w' same_act_def same_fn_def pending_def by simp_all
  moreover have "keeps_led v w'"
    unfolding w' keeps_led_def by (simp add: Led_steady(2))
  ultimately show ?thesis by (rule core_step_trans [OF dispatch_core [OF assms(1,2) q v]])
qed

lemma command_core:
  assumes E: "timer_ok E" and inv: "ctl_inv E w" and set: "setLockState E ep st pin err w = (b, err', v)"
    and r: "if b then (\<exists>r. InitiateAction E x a v = Done (r, w')) else w' = v"
  shows "core_step E w w'"
proof -
  have v: "v = w \<or> (\<exists>y. v = emit (Eff_SetLockState ep st None) w)"
    using set by (auto simp: setLockState_def Let_def split: option.splits if_split_asm)
  have inv': "ctl_inv E v" using setLockState_ctl_inv [OF set] inv by simp
  have "core_step E v w'"
  proof (cases b)
    case True
    with r InitiateAction_core [OF E inv'] show ?thesis by auto
  next
    case False
    with r show ?thesis by (auto intro!: core_step.same simp: same_act_def same_fn_def keeps_led_def)
  qed
  then show ?thesis
    by (rule core_from) (use v in \<open>auto simp: same_act_def same_fn_def pending_def\<close>)
qed

theorem step_core:
  assumes "platform_ok E" and inv: "sys_inv E w" and go: "goes E w a w'"
  shows "core_step E w w'"
proof -
  have E: "timer_ok E" "queue_ok E" and ctl: "ctl_inv E w" and st: "step E w a (Done w')"
    using assms by (simp_all add: platform_ok_def sys_inv_def goes_def)
  have same: "core_step E w u" if "mState u = mState w" "sLockTimer u = sLockTimer w"
    "pending u = pending w" "mFunction u = mFunction w" "mFunctionTimerActive u = mFunctionTimerActive w"
    "resets u = resets w" "sLockLED u = sLockLED w" for u
    by (rule core_step.same) (use that in \<open>simp_all add: same_act_def same_fn_def keeps_led_def\<close>)
  have post: "core_step E w (PostEvent E e u)" if "\<not> is_actuator_event e"
    "mState u = mState w" "sLockTimer u = sLockTimer w" "sAppEventQueue u = sAppEventQueue w"
    "mFunction u = mFunction w" "mFunctionTimerActive u = mFunctionTimerActive w"
    "effects u = effects w" "sLockLED u = sLockLED w" for e u
    by (rule same) (use that in \<open>simp_all add: PostEvent_queue [OF E(2)] pending_def resets_def\<close>)
  show ?thesis
  proof (cases "is_db a")
    case True
    note f = ctl_fields [OF is_db_ctl [OF go True]]
    show ?thesis by (rule same) (simp_all add: f pending_def resets_def)
  next
    case False
    from st show ?thesis
    proof (cases rule: step.cases)
      case (dispatch c)
      then show ?thesis using AppTaskMain_round_core [OF E(1) ctl] by simp
    next
      case (lock_timer ms)
      let ?u = "w\<lparr>sLockTimer := None\<rparr>"
      have "pending w' = Suc (pending w) \<or> pending w' = pending w"
        using lock_timer by (simp add: LockManager_TimerEventHandler_def pending_def
            PostEvent_queue [OF E(2)] is_actuator_event_def)
      then show ?thesis
        by (intro core_step.expire)
           (use lock_timer in \<open>simp_all add: LockManager_TimerEventHandler_def same_fn_def keeps_led_def\<close>)
    next
      case (function_timer ms)
      then show ?thesis
        by (simp add: AppTask_TimerEventHandler_def post is_actuator_event_def)
    next
      case button_irq
      show ?thesis
        by (rule same) (use button_irq in \<open>auto simp: FuncButtonCallback_def Let_def pending_def
            split: if_split_asm option.split_asm\<close>)
    next
      case (button_timer i ms level)
      have "core_step E w (w\<lparr>buttonTimers := (buttonTimers w)[i := None]\<rparr>)"
        by (rule same) (simp_all add: pending_def)
      with button_timer show ?thesis
        by (simp add: ButtonHandler_TimerCallback_def ButtonEventHandler_def Let_def post
            is_actuator_event_def)
    next
      case (lock_command ep pin err)
      then show ?thesis
        by (auto simp: Done_obind_iff dest!: lock_command_Done intro: command_core [OF E(1) ctl])
    next
      case (unlock_command ep pin err)
      then show ?thesis
        by (auto simp: Done_obind_iff dest!: unlock_command_Done intro: command_core [OF E(1) ctl])
    next
      case (touch lock)
      then show ?thesis
        by (auto simp: Done_obind_iff dest!: start_lock_action_Done
            intro: InitiateAction_core [OF E(1) ctl])
    next
      case (request actor action)
      then show ?thesis by (simp add: ActionRequest_def post is_actuator_event_def)
    next
      case (work item rest b)
      have "item = Work_UpdateCluster"
        using ctl work by (cases item) (simp_all add: ctl_inv_def wiring_inv_def)
      then show ?thesis using work
        by (intro same) (simp_all add: run_work_def UpdateCluster_def Let_def pending_def)
    next
      case (device_event state ev)
      show ?thesis
        by (rule same) (use device_event in \<open>auto simp: DeviceEventCallback_def pending_def
            split: ChipDeviceEvent.splits if_splits option.splits\<close>)
    next
      case (tick n)
      show ?thesis by (rule same) (use tick in \<open>simp_all add: pending_def\<close>)
    qed (use False in simp_all)
  qed
qed

end
