(* ===== verification/SystemProps.thy ===== *)
theory SystemProps
  imports SystemCore
begin

text \<open>
  What holds along the program's runs: when the Matter attribute agrees with the bolt and
  when it does not, what leads to a factory reset, what a lost event does to the actuator,
  and what the LED shows.
\<close>

section \<open>The attribute and the bolt\<close>

text \<open>The value the door lock server holds for endpoint 1: the last one set.\<close>

fun attr_upd :: "effect \<Rightarrow> DlLockState option \<Rightarrow> DlLockState option" where
  "attr_upd (Eff_SetLockState ep st src) a = (if ep = 1 then Some st else a)"
| "attr_upd _ a = a"

definition lock_attr :: "DlLockState option \<Rightarrow> world \<Rightarrow> DlLockState option" where
  "lock_attr a0 w = fold attr_upd (effects w) a0"

text \<open>The state the bolt is in or moves to.\<close>

fun bolt_target :: "State_t \<Rightarrow> DlLockState" where
  "bolt_target kState_LockInitiated = kLocked"
| "bolt_target kState_LockCompleted = kLocked"
| "bolt_target kState_UnlockInitiated = kUnlocked"
| "bolt_target kState_UnlockCompleted = kUnlocked"

text \<open>The attribute agrees, or an update of it is on its way.\<close>

definition attr_ok :: "DlLockState option \<Rightarrow> world \<Rightarrow> bool" where
  "attr_ok a0 w \<longleftrightarrow> lock_attr a0 w = Some (bolt_target (mState w))
     \<or> mSyncClusterToButtonAction w \<or> Work_UpdateCluster \<in> set (scheduled_work w)"

text \<open>
  The races: a remote command against the movement that is going on, and an update of the
  attribute that runs while the bolt moves.
\<close>

definition racing :: "world \<Rightarrow> act \<Rightarrow> bool" where
  "racing w a \<longleftrightarrow> (case a of
       A_lock ep pin err \<Rightarrow> ep \<noteq> 1 \<or> mState w = kState_UnlockInitiated
     | A_unlock ep pin err \<Rightarrow> ep \<noteq> 1 \<or> mState w = kState_LockInitiated
     | A_work b \<Rightarrow> IsActionInProgress w
     | _ \<Rightarrow> False)"

lemma lock_attr_simps [simp]:
  "lock_attr a0 (emit x w) = attr_upd x (lock_attr a0 w)"
  "lock_attr a0 (on_led f w) = lock_attr a0 w"
  "lock_attr a0 (PostEvent E e w) = lock_attr a0 w"
proof -
  have "fold attr_upd (map Eff_Led xs) a = a" for xs a by (induction xs) auto
  then show "lock_attr a0 (on_led f w) = lock_attr a0 w" by (simp add: lock_attr_def)
qed (simp_all add: lock_attr_def)

lemma lock_attr_updates [simp]:
  "lock_attr a0 (w\<lparr>mState := b\<rparr>) = lock_attr a0 w"
  "lock_attr a0 (w\<lparr>sLockTimer := c\<rparr>) = lock_attr a0 w"
  "lock_attr a0 (w\<lparr>sFunctionTimer := d\<rparr>) = lock_attr a0 w"
  "lock_attr a0 (w\<lparr>buttonTimers := e\<rparr>) = lock_attr a0 w"
  "lock_attr a0 (w\<lparr>sAppEventQueue := f\<rparr>) = lock_attr a0 w"
  "lock_attr a0 (w\<lparr>mFunction := g\<rparr>) = lock_attr a0 w"
  "lock_attr a0 (w\<lparr>mFunctionTimerActive := h\<rparr>) = lock_attr a0 w"
  "lock_attr a0 (w\<lparr>mSyncClusterToButtonAction := i\<rparr>) = lock_attr a0 w"
  "lock_attr a0 (w\<lparr>scheduled_work := j\<rparr>) = lock_attr a0 w"
  "lock_attr a0 (w\<lparr>clock_ms := k\<rparr>) = lock_attr a0 w"
  "lock_attr a0 (w\<lparr>sIsWiFiStationEnabled := l\<rparr>) = lock_attr a0 w"
  "lock_attr a0 (w\<lparr>sIsWiFiStationConnected := m\<rparr>) = lock_attr a0 w"
  "lock_attr a0 (w\<lparr>sIsWiFiStationProvisioned := n\<rparr>) = lock_attr a0 w"
  "lock_attr a0 (w\<lparr>sHaveBLEConnections := p\<rparr>) = lock_attr a0 w"
  "lock_attr a0 (collect_connectivity c' w) = lock_attr a0 w"
  by (simp_all add: lock_attr_def collect_connectivity_def split: option.split)

lemma lock_attr_callbacks [simp]:
  "lock_attr a0 (ActionInitiated E a x w) = lock_attr a0 w"
  "lock_attr a0 (ActionCompleted E a w) = lock_attr a0 w"
  by (simp_all add: ActionInitiated_def ActionCompleted_def UpdateClusterState_def Let_def
      split: Action_t.split)

text \<open>\<open>ActionRequest\<close> has no caller in the program: no such event is in the queue.\<close>

definition no_requests :: "world \<Rightarrow> bool" where
  "no_requests w \<longleftrightarrow> (\<forall>e \<in> set (sAppEventQueue w). Handler e \<noteq> Some H_LockActionEventHandler)"

definition agree :: "DlLockState option \<Rightarrow> world \<Rightarrow> bool" where
  "agree a0 w \<longleftrightarrow> attr_ok a0 w \<and> no_requests w"

lemma agree_same:
  assumes "agree a0 w" and "mState w' = mState w" and "lock_attr a0 w' = lock_attr a0 w"
    and "mSyncClusterToButtonAction w' = mSyncClusterToButtonAction w"
    and "set (scheduled_work w) \<subseteq> set (scheduled_work w')" and "no_requests w'"
  shows "agree a0 w'"
  using assms by (auto simp: agree_def attr_ok_def)

lemma PostEvent_requests:
  "queue_ok E \<Longrightarrow> no_requests w \<Longrightarrow> Handler e \<noteq> Some H_LockActionEventHandler \<Longrightarrow> no_requests (PostEvent E e w)"
  by (simp add: no_requests_def PostEvent_queue)

text \<open>A movement started with the button will update the attribute when it is over.\<close>

lemma InitiateAction_button_agree:
  assumes E: "timer_ok E" and inv: "ctl_inv E w" and agr: "agree a0 w"
    and run: "InitiateAction E kEventType_Button a w = Done (r, w')"
  shows "agree a0 w'"
proof (cases "startable (mState w) a")
  case False
  then show ?thesis using InitiateAction_rejected [OF False, of E kEventType_Button] agr run by simp
next
  case True
  have "w' = ActionInitiated E a kEventType_Button
      (w\<lparr>sLockTimer := Some ACTUATOR_MOVEMENT_PERIOS_MS, mState := phase_next (mState w)\<rparr>)"
    using InitiateAction_started [OF E True run] inv by (simp add: ctl_inv_def wiring_inv_def)
  then show ?thesis using agr by (simp add: agree_def attr_ok_def no_requests_def)
qed

lemma initiate_and_log_agree:
  "timer_ok E \<Longrightarrow> ctl_inv E w \<Longrightarrow> agree a0 w \<Longrightarrow> initiate_and_log E kEventType_Button a w = Done w'
    \<Longrightarrow> agree a0 w'"
  by (auto simp: initiate_and_log_def obind_Done_iff dest: InitiateAction_button_agree)

text \<open>
  A remote command that is not against the movement: the attribute gets the command's state,
  and the bolt is there, or on its way, or starts.
\<close>

lemma command_agree:
  assumes E: "timer_ok E" and inv: "ctl_inv E w" and agr: "no_requests w"
    and attr: "lock_attr a0 w = Some st"
    and cmd: "(st, a) = (kLocked, LOCK_ACTION) \<and> mState w \<noteq> kState_UnlockInitiated
      \<or> (st, a) = (kUnlocked, UNLOCK_ACTION) \<and> mState w \<noteq> kState_LockInitiated"
    and run: "InitiateAction E kEventType_Lock a w = Done (r, w')"
  shows "agree a0 w'"
proof (cases "startable (mState w) a")
  case False
  then have "bolt_target (mState w) = st"
    using cmd by (cases "mState w") (auto simp: startable_def)
  then show ?thesis
    using InitiateAction_rejected [OF False, of E kEventType_Lock] agr attr run
    by (simp add: agree_def attr_ok_def)
next
  case True
  have w': "w' = ActionInitiated E a kEventType_Lock
      (w\<lparr>sLockTimer := Some ACTUATOR_MOVEMENT_PERIOS_MS, mState := phase_next (mState w)\<rparr>)"
    using InitiateAction_started [OF E True run] inv by (simp add: ctl_inv_def wiring_inv_def)
  have "bolt_target (phase_next (mState w)) = st"
    using True cmd by (auto simp: startable_def)
  with w' agr attr show ?thesis by (simp add: agree_def attr_ok_def no_requests_def)
qed

lemma setLockState_agree:
  assumes "setLockState E 1 st pin err w = (b, err', v)"
  shows "(if b then v = emit (Eff_SetLockState 1 st None) w else v = w)"
  using assms by (auto simp: setLockState_def Let_def split: option.splits if_splits)

lemma commands_agree:
  assumes E: "timer_ok E" and inv: "ctl_inv E w" and agr: "agree a0 w"
  shows "mState w \<noteq> kState_UnlockInitiated \<Longrightarrow>
      emberAfPluginDoorLockOnDoorLockCommand E 1 pin err w = Done (b, err', w') \<Longrightarrow> agree a0 w'"
    and "mState w \<noteq> kState_LockInitiated \<Longrightarrow>
      emberAfPluginDoorLockOnDoorUnlockCommand E 1 pin err w = Done (b, err', w') \<Longrightarrow> agree a0 w'"
proof -
  have emitted: "ctl_inv E (emit x w)" "no_requests (emit x w)" for x
    using inv agr by (simp_all add: agree_def no_requests_def)
  show "agree a0 w'" if st: "mState w \<noteq> kState_UnlockInitiated"
    and run: "emberAfPluginDoorLockOnDoorLockCommand E 1 pin err w = Done (b, err', w')"
  proof -
    from lock_command_Done [OF run] obtain v where v: "setLockState E 1 kLocked pin err w = (b, err', v)"
      and r: "if b then (\<exists>r. InitiateAction E kEventType_Lock LOCK_ACTION v = Done (r, w')) else w' = v"
      by blast
    show ?thesis
      using setLockState_agree [OF v] r agr st command_agree [OF E emitted, of a0 "Eff_SetLockState 1 kLocked None" kLocked LOCK_ACTION]
      by (auto split: if_split_asm)
  qed
  show "agree a0 w'" if st: "mState w \<noteq> kState_LockInitiated"
    and run: "emberAfPluginDoorLockOnDoorUnlockCommand E 1 pin err w = Done (b, err', w')"
  proof -
    from unlock_command_Done [OF run] obtain v where v: "setLockState E 1 kUnlocked pin err w = (b, err', v)"
      and r: "if b then (\<exists>r. InitiateAction E kEventType_Lock UNLOCK_ACTION v = Done (r, w')) else w' = v"
      by blast
    show ?thesis
      using setLockState_agree [OF v] r agr st command_agree [OF E emitted, of a0 "Eff_SetLockState 1 kUnlocked None" kUnlocked UNLOCK_ACTION]
      by (auto split: if_split_asm)
  qed
qed

lemma handlers_agree:
  assumes E: "timer_ok E" and inv: "ctl_inv E w" and agr: "agree a0 w"
    and q: "sAppEventQueue w = e # q" and run: "DispatchEvent E e (w\<lparr>sAppEventQueue := q\<rparr>) = Done w'"
  shows "agree a0 w'"
proof -
  let ?v = "w\<lparr>sAppEventQueue := q\<rparr>"
  have v: "agree a0 ?v"
    by (rule agree_same [OF agr]) (use agr q in \<open>simp_all add: agree_def no_requests_def\<close>)
  from head_event_cases [OF inv q] agr q
  consider "Handler e = Some H_ActuatorMovementTimerEventHandler" "evt_union e = TimerEvent Ctx_LockManager"
    | "Handler e = Some H_FunctionTimerEventHandler"
    | act where "Handler e = Some H_FunctionHandler"
        "evt_union e = ButtonEvent (APP_FUNCTION_BUTTON_IDX E) act"
    by (auto simp: agree_def no_requests_def)
  then show ?thesis
  proof cases
    case 1
    have cbs: "mActionCompleted_CB w = Some CB_AppTask_ActionCompleted"
      using inv by (simp add: ctl_inv_def wiring_inv_def)
    show ?thesis
    proof (cases "IsActionInProgress w")
      case False
      then show ?thesis using run 1 v by (simp add: DispatchEvent_def actuator_event_Done [OF 1(2)] IsActionInProgress_def)
    next
      case True
      then obtain a where w': "w' = ActionCompleted E a (?v\<lparr>mState := phase_next (mState w)\<rparr>)"
        using run cbs by (auto simp: DispatchEvent_def 1 actuator_event_Done [OF 1(2)] Let_def
            IsActionInProgress_def)
      have "bolt_target (phase_next (mState w)) = bolt_target (mState w)"
        using True by (auto simp: IsActionInProgress_def)
      with w' v show ?thesis by (auto simp: agree_def attr_ok_def no_requests_def)
    qed
  next
    case 2
    have same: "agree a0 (emit Eff_ScheduleFactoryReset (?v\<lparr>mFunction := kNoneSelected\<rparr>))"
      by (rule agree_same [OF v]) (use v in \<open>simp_all add: agree_def no_requests_def\<close>)
    show ?thesis using run 2 v same
      by (auto simp: DispatchEvent_def FunctionTimerEventHandler_def split: if_split_asm)
  next
    case (3 act)
    have ev: "\<not> is_actuator_event e" using 3 by (simp add: is_actuator_event_def)
    have inv': "ctl_inv E ?v" using inv q ev by (rule dequeue_inv)
    have same: "agree a0 u" if "mState u = mState ?v" "lock_attr a0 u = lock_attr a0 ?v"
      "mSyncClusterToButtonAction u = mSyncClusterToButtonAction ?v"
      "scheduled_work u = scheduled_work ?v" "sAppEventQueue u = sAppEventQueue ?v" for u
      by (rule agree_same [OF v]) (use v that in \<open>simp_all add: agree_def no_requests_def\<close>)
    have run': "FunctionHandler E e ?v = Done w'" using run 3 by (simp add: DispatchEvent_def)
    show ?thesis
    proof (cases "act = APP_BUTTON_LONG_PRESS")
      case True
      show ?thesis
        by (rule same) (use run' True 3 in \<open>auto simp: FunctionHandler_def Let_def obind_Done_iff
            dest!: AppTask_timer_Done [OF E] split: if_split_asm\<close>)
    next
      case False
      then show ?thesis
        using run' 3 v initiate_and_log_agree [OF E inv' v]
        by (auto simp: FunctionHandler_def split: if_split_asm)
    qed
  qed
qed

lemma AppTaskMain_round_agree:
  assumes "timer_ok E" and "ctl_inv E w" and agr: "agree a0 w" and "AppTaskMain_round E c w = Some (Done w')"
  shows "agree a0 w'"
proof -
  from assms(4) obtain e q v where q: "sAppEventQueue w = e # q"
    and v: "DispatchEvent E e (w\<lparr>sAppEventQueue := q\<rparr>) = Done v"
    and w': "w' = collect_connectivity c v \<or> (\<exists>f. w' = on_led f (collect_connectivity c v))"
    by (auto simp: AppTaskMain_round_def Let_def obind_Done_iff split: list.splits if_split_asm)
  have "agree a0 v" using handlers_agree [OF assms(1-3) q v] .
  then show ?thesis
    by (rule agree_same)
       (use w' \<open>agree a0 v\<close> in \<open>auto simp: agree_def no_requests_def collect_connectivity_def
          split: option.splits\<close>)
qed

lemma db_step_agree:
  assumes "goes E w a w'" and "is_db a" and "agree a0 w"
  shows "agree a0 w'"
proof -
  note f = ctl_fields [OF is_db_ctl [OF assms(1,2)]]
  show ?thesis
    by (rule agree_same [OF assms(3)])
       (use assms(3) in \<open>simp_all add: f lock_attr_def agree_def no_requests_def\<close>)
qed

text \<open>Every step outside the races keeps the agreement.\<close>

definition calm_step :: "env \<Rightarrow> world \<Rightarrow> act \<Rightarrow> world \<Rightarrow> bool" where
  "calm_step E w a w' \<longleftrightarrow> sys_step E w a w' \<and> \<not> racing w a \<and> (\<forall>x y. a \<noteq> A_request x y)"

lemma agree_step:
  assumes inv: "sys_inv E w" and agr: "agree a0 w" and st: "calm_step E w a w'"
  shows "agree a0 w'"
proof (cases "is_db a")
  case True
  then show ?thesis using db_step_agree [of E w a w' a0] st agr
    by (simp add: calm_step_def sys_step_def)
next
  case False
  have E: "timer_ok E" "queue_ok E" and ctl: "ctl_inv E w" and go: "step E w a (Done w')"
    and calm: "\<not> racing w a" "\<And>x y. a \<noteq> A_request x y"
    using st inv by (auto simp: calm_step_def sys_step_def platform_ok_def goes_def sys_inv_def)
  have post: "agree a0 (PostEvent E e u)"
    if "Handler e \<noteq> Some H_LockActionEventHandler" "mState u = mState w" "effects u = effects w"
      "mSyncClusterToButtonAction u = mSyncClusterToButtonAction w" "scheduled_work u = scheduled_work w"
      "sAppEventQueue u = sAppEventQueue w" for e u
  proof (rule agree_same [OF agr])
    show "no_requests (PostEvent E e u)"
      by (rule PostEvent_requests [OF E(2)]) (use agr that in \<open>simp_all add: agree_def no_requests_def\<close>)
  qed (use that in \<open>simp_all add: lock_attr_def\<close>)
  from go show ?thesis
  proof (cases rule: step.cases)
    case (dispatch c)
    then show ?thesis using AppTaskMain_round_agree [OF E(1) ctl agr] by simp
  next
    case (lock_command ep pin err)
    then show ?thesis using calm commands_agree(1) [OF E(1) ctl agr]
      by (auto simp: Done_obind_iff racing_def)
  next
    case (unlock_command ep pin err)
    then show ?thesis using calm commands_agree(2) [OF E(1) ctl agr]
      by (auto simp: Done_obind_iff racing_def)
  next
    case (touch lock)
    then show ?thesis using InitiateAction_button_agree [OF E(1) ctl agr]
      by (auto simp: Done_obind_iff dest!: start_lock_action_Done)
  next
    case (work item rest b)
    have "item = Work_UpdateCluster"
      using ctl work by (cases item) (simp_all add: ctl_inv_def wiring_inv_def)
    then have w': "w' = UpdateCluster (w\<lparr>scheduled_work := rest\<rparr>)" using work by (simp add: run_work_def)
    have rest: "\<not> IsActionInProgress w" using calm work by (simp add: racing_def)
    show ?thesis unfolding w'
      using rest agr
      by (cases "mState w") (auto simp: UpdateCluster_def Let_def NextState_def IsActionInProgress_def
          agree_def attr_ok_def no_requests_def)
  next
    case (device_event state ev)
    show ?thesis
      by (rule agree_same [OF agr])
         (use agr device_event in \<open>auto simp: DeviceEventCallback_def agree_def no_requests_def
           split: ChipDeviceEvent.splits if_splits option.splits\<close>)
  next
    case button_irq
    show ?thesis
      by (rule agree_same [OF agr])
         (use agr button_irq in \<open>auto simp: FuncButtonCallback_def Let_def agree_def no_requests_def
           split: if_split_asm option.split_asm\<close>)
  next
    case (tick n)
    show ?thesis
      by (rule agree_same [OF agr]) (use agr tick in \<open>simp_all add: agree_def no_requests_def\<close>)
  next
    case (button_timer i ms level)
    have "agree a0 (w\<lparr>buttonTimers := (buttonTimers w)[i := None]\<rparr>)"
      by (rule agree_same [OF agr]) (use agr in \<open>simp_all add: agree_def no_requests_def\<close>)
    with button_timer show ?thesis
      by (simp add: ButtonHandler_TimerCallback_def ButtonEventHandler_def Let_def post)
  qed (use False calm post in \<open>simp_all add: LockManager_TimerEventHandler_def AppTask_TimerEventHandler_def\<close>)
qed

text \<open>At rest, with no update left to run, the attribute shows where the bolt is.\<close>

lemma agree_at_rest:
  assumes "sys_inv E w" and "agree a0 w" and "at_rest (mState w)" and "scheduled_work w = []"
  shows "lock_attr a0 w = Some (bolt_target (mState w))"
  using assms
  by (auto simp: agree_def attr_ok_def sys_inv_def ctl_inv_def wiring_inv_def at_rest_def
      IsActionInProgress_def)

text \<open>The runs without races, as a transition system of their own.\<close>

definition calm_init :: "env \<Rightarrow> DlLockState option \<Rightarrow> world \<Rightarrow> bool" where
  "calm_init E a0 w \<longleftrightarrow> sys_init E w \<and> lock_attr a0 w = Some (bolt_target (mState w))"

lemma booted_queue: "booted E w \<Longrightarrow> sAppEventQueue w = []"
  by (auto simp: booted_def static_world_def elim!: lockMgr_Init_Done)

interpretation calm: invariant_system "calm_init E a0" "calm_step E" "\<lambda>w. sys_inv E w \<and> agree a0 w" for E a0
proof unfold_locales
  fix w a w'
  show "sys_inv E w \<and> agree a0 w" if "calm_init E a0 w"
    using that sys.init_inv [of E w] booted_queue [of E w]
    by (auto simp: calm_init_def sys_init_def agree_def attr_ok_def no_requests_def)
  show "sys_inv E w' \<and> agree a0 w'" if "sys_inv E w \<and> agree a0 w" "calm_step E w a w'"
    using that agree_step [of E w a0 a w'] sys.step_inv [of E w a w'] by (simp add: calm_step_def)
qed

section \<open>A lost timer event\<close>

text \<open>In movement with nothing left that could end it.\<close>

definition stuck :: "world \<Rightarrow> bool" where
  "stuck w \<longleftrightarrow> IsActionInProgress w \<and> sLockTimer w = None \<and> pending w = 0"

lemma core_stuck: "core_step E w w' \<Longrightarrow> stuck w \<Longrightarrow> stuck w' \<and> mState w' = mState w"
  by (erule core_step.cases) (auto simp: stuck_def same_act_def at_rest_def IsActionInProgress_def)

lemma stuck_entered:
  assumes "queue_ok E" and "ctl_inv E w" and "sLockTimer w = Some ms"
    and "length (sAppEventQueue w) = APP_EVENT_QUEUE_SIZE" and "goes E w A_lock_timer w'"
  shows "stuck w' \<and> mState w' = mState w"
proof -
  have w': "w' = LockManager_TimerEventHandler E Ctx_LockManager (w\<lparr>sLockTimer := None\<rparr>)"
    using assms(5) by (auto simp: goes_def elim: lock_timerE)
  have "IsActionInProgress w" "pending w = 0"
    using assms(2,3) by (auto simp: ctl_inv_def actuator_inv_def split: if_split_asm)
  then show ?thesis
    using assms(4) by (simp add: w' stuck_def LockManager_TimerEventHandler_def IsActionInProgress_def
        pending_def PostEvent_queue [OF assms(1)])
qed

lemma run_stuck:
  "run (sys_step E) w as w' \<Longrightarrow> sys_inv E w \<Longrightarrow> stuck w \<Longrightarrow> stuck w' \<and> mState w' = mState w"
proof (induction rule: run.induct)
  case (run_nil w)
  then show ?case by simp
next
  case (run_cons w a v as w')
  then show ?case
    using sys.step_inv [of E w a v] step_core [of E w a v] core_stuck [of E w v]
    by (simp add: sys_step_def)
qed

section \<open>What start-up writes to the outside\<close>

lemma read_effects [simp]: "effects (snd (ReadConfigValues E v)) = effects (v :: world)"
  using ReadConfigValues_ctl [of E v] by (simp add: ctl_def)

lemma start_updates [simp]:
  fixes v :: world
  shows "lock_attr a0 (v\<lparr>LockParams := p\<rparr>) = lock_attr a0 v"
    "lock_attr a0 (v\<lparr>mActionInitiated_CB := i\<rparr>) = lock_attr a0 v"
    "lock_attr a0 (v\<lparr>mActionCompleted_CB := c\<rparr>) = lock_attr a0 v"
    "lock_attr a0 (snd (ReadConfigValues E v)) = lock_attr a0 v"
    "resets (v\<lparr>LockParams := p\<rparr>) = resets v"
    "resets (v\<lparr>mActionInitiated_CB := i\<rparr>) = resets v"
    "resets (v\<lparr>mActionCompleted_CB := c\<rparr>) = resets v"
    "resets (snd (ReadConfigValues E v)) = resets v"
  by (simp_all add: lock_attr_def resets_def)

lemma lockMgr_Init_effects:
  assumes "lockMgr_Init E b w = Done w'"
  shows "lock_attr a0 w' = lock_attr a0 w \<and> resets w' = resets w"
  using assms
  by (auto simp: lockMgr_Init_def Let_def LockManager_Init_eq SetCallbacks_def ButtonHandler_Init_def
      ButtonHandler_GpioInit_def NetWorkCommissioningInstInit_def
      split: if_split_asm option.split_asm)

lemmas lockMgr_Init_attr = lockMgr_Init_effects [THEN conjunct1]
lemmas lockMgr_Init_resets = lockMgr_Init_effects [THEN conjunct2]

lemma static_effects: "effects (static_world E f) = []"
  by (simp add: static_world_def)

lemma static_resets: "resets (static_world E f) = 0"
  by (simp add: resets_def static_effects)

section \<open>The factory reset\<close>

definition long_press_dispatch :: "world \<Rightarrow> act \<Rightarrow> bool" where
  "long_press_dispatch w a \<longleftrightarrow> (case (a, sAppEventQueue w) of
       (A_dispatch c, e # q) \<Rightarrow> Handler e = Some H_FunctionHandler
         \<and> (case evt_union e of ButtonEvent i act \<Rightarrow> act = APP_BUTTON_LONG_PRESS | _ \<Rightarrow> False)
     | _ \<Rightarrow> False)"

lemma core_resets:
  assumes "core_step E w w'"
  shows "resets w' = resets w \<or> resets w' = Suc (resets w) \<and> mFunction w = kFactoryReset
    \<and> mFunctionTimerActive w \<and> mFunction w' = kNoneSelected"
  using assms by (cases rule: core_step.cases) (auto simp: same_fn_def)

lemma InitiateAction_fn:
  assumes E: "timer_ok E" and run: "InitiateAction E x a w = Done (r, w')"
  shows "mFunction w' = mFunction w"
proof (cases "startable (mState w) a")
  case False
  then show ?thesis using InitiateAction_rejected [OF False, of E x] run by simp
next
  case True
  then show ?thesis using InitiateAction_started [OF E True run] by (simp split: option.splits)
qed

lemma initiate_and_log_fn:
  "timer_ok E \<Longrightarrow> initiate_and_log E x a w = Done w' \<Longrightarrow> mFunction w' = mFunction w"
  by (auto simp: initiate_and_log_def obind_Done_iff dest: InitiateAction_fn)

text \<open>Selecting it takes a long press of the function button.\<close>

lemma FunctionHandler_select:
  assumes E: "timer_ok E" and run: "FunctionHandler E e w = Done w'"
    and short: "\<not> (case evt_union e of ButtonEvent i act \<Rightarrow> act = APP_BUTTON_LONG_PRESS | _ \<Rightarrow> False)"
    and inv: "ctl_inv E w"
  shows "mFunction w' = mFunction w"
proof -
  from run obtain idx act where e: "evt_union e = ButtonEvent idx act"
    by (auto simp: FunctionHandler_def split: event_union.splits)
  show ?thesis using run short e initiate_and_log_fn [OF E]
    by (auto simp: FunctionHandler_def split: if_split_asm)
qed

lemma core_select_only:
  assumes "core_step E w w'" and "mFunction w = kNoneSelected" and "mFunction w' \<noteq> kNoneSelected"
  shows "mFunction w' = kFactoryReset \<and> \<not> mFunctionTimerActive w"
  using assms by (cases rule: core_step.cases) (auto simp: same_fn_def)

lemma dispatch_select:
  assumes E: "timer_ok E" and inv: "ctl_inv E w" and none: "mFunction w = kNoneSelected"
    and short: "\<not> long_press_dispatch w (A_dispatch c)"
    and run: "AppTaskMain_round E c w = Some (Done w')"
  shows "mFunction w' = kNoneSelected"
proof -
  from run obtain e q v where q: "sAppEventQueue w = e # q"
    and v: "DispatchEvent E e (w\<lparr>sAppEventQueue := q\<rparr>) = Done v" and w': "mFunction w' = mFunction v"
    by (auto simp: AppTaskMain_round_def Let_def obind_Done_iff split: list.splits if_split_asm)
  let ?u = "w\<lparr>sAppEventQueue := q\<rparr>"
  show ?thesis
  proof (cases "Handler e = Some H_FunctionHandler")
    case True
    then have "\<not> is_actuator_event e" by (simp add: is_actuator_event_def)
    with inv q have inv': "ctl_inv E ?u" by (rule dequeue_inv)
    have "mFunction v = mFunction ?u"
      by (rule FunctionHandler_select [OF E _ _ inv'])
         (use v True short q in \<open>auto simp: DispatchEvent_def long_press_dispatch_def\<close>)
    with w' none show ?thesis by simp
  next
    case False
    have "core_step E w v" using dispatch_core [OF E inv q v] .
    show ?thesis
    proof (rule ccontr)
      assume "mFunction w' \<noteq> kNoneSelected"
      then have sel: "mFunction v = kFactoryReset"
        using core_select_only [OF \<open>core_step E w v\<close> none] w' by simp
      from head_event_cases [OF inv q] False
      consider "Handler e = Some H_ActuatorMovementTimerEventHandler" "evt_union e = TimerEvent Ctx_LockManager"
        | "Handler e = Some H_FunctionTimerEventHandler"
        | a actor where "Handler e = Some H_LockActionEventHandler" "Type e = kEventType_Lock"
            "evt_union e = LockEvent (Action_code a) actor"
        by blast
      then show False
      proof cases
        case 1
        have "mActionCompleted_CB w = Some CB_AppTask_ActionCompleted"
          using inv by (simp add: ctl_inv_def wiring_inv_def)
        then show False using v 1 sel none
          by (auto simp: DispatchEvent_def actuator_event_Done [OF 1(2)] Let_def split: if_split_asm)
      next
        case 2
        then show False using v sel none
          by (auto simp: DispatchEvent_def FunctionTimerEventHandler_def split: if_split_asm)
      next
        case (3 a actor)
        then have "initiate_and_log E actor a ?u = Done v"
          using v by (simp add: DispatchEvent_def LockActionEventHandler_def)
        then have "mFunction v = mFunction w" using initiate_and_log_fn [OF E] by fastforce
        with sel none show False by simp
      qed
    qed
  qed
qed

text \<open>No other step selects it.\<close>

lemma step_select:
  assumes P: "platform_ok E" and inv: "sys_inv E w" and go: "goes E w a w'"
    and none: "mFunction w = kNoneSelected" and short: "\<not> long_press_dispatch w a"
  shows "mFunction w' = kNoneSelected"
proof (cases "is_db a")
  case True
  show ?thesis using ctl_fields(8) [OF is_db_ctl [OF go True]] none by simp
next
  case False
  have E: "timer_ok E" and ctl: "ctl_inv E w" and st: "step E w a (Done w')"
    using assms by (simp_all add: platform_ok_def sys_inv_def goes_def)
  note init = InitiateAction_fn [OF E]
  have set: "mFunction v = mFunction w" if "setLockState E ep st pin err w = (b, err', v)" for ep st pin err b err' v
    using that by (auto simp: setLockState_def Let_def split: option.splits if_split_asm)
  from st show ?thesis
  proof (cases rule: step.cases)
    case (dispatch c)
    then show ?thesis using dispatch_select [OF E ctl none] short by simp
  next
    case (lock_command ep pin err)
    then show ?thesis using none
      by (auto simp: Done_obind_iff dest!: lock_command_Done init set split: if_split_asm)
  next
    case (unlock_command ep pin err)
    then show ?thesis using none
      by (auto simp: Done_obind_iff dest!: unlock_command_Done init set split: if_split_asm)
  next
    case (touch lock)
    then show ?thesis using none by (auto simp: Done_obind_iff dest!: start_lock_action_Done init)
  next
    case (work item rest b)
    have "item = Work_UpdateCluster"
      using ctl work by (cases item) (simp_all add: ctl_inv_def wiring_inv_def)
    then show ?thesis using work none by (simp add: run_work_def UpdateCluster_def Let_def)
  next
    case (device_event state ev)
    then show ?thesis using none
      by (auto simp: DeviceEventCallback_def split: ChipDeviceEvent.splits if_splits option.splits)
  next
    case button_irq
    then show ?thesis using none
      by (auto simp: FuncButtonCallback_def Let_def split: if_split_asm option.split_asm)
  qed (use False none in \<open>simp_all add: LockManager_TimerEventHandler_def AppTask_TimerEventHandler_def
        ButtonHandler_TimerCallback_def ButtonEventHandler_def ActionRequest_def Let_def\<close>)
qed

definition no_press_step :: "env \<Rightarrow> world \<Rightarrow> act \<Rightarrow> world \<Rightarrow> bool" where
  "no_press_step E w a w' \<longleftrightarrow> sys_step E w a w' \<and> \<not> long_press_dispatch w a"

lemma run_no_press:
  "run (no_press_step E) w as w' \<Longrightarrow> sys_inv E w \<Longrightarrow> mFunction w = kNoneSelected
    \<Longrightarrow> resets w' = resets w \<and> mFunction w' = kNoneSelected"
proof (induction rule: run.induct)
  case (run_nil w)
  then show ?case by simp
next
  case (run_cons w a v as w')
  then have "mFunction v = kNoneSelected" "sys_inv E v" "resets v = resets w"
    using sys.step_inv [of E w a v] step_select [of E w a v] step_core [of E w a v]
      core_resets [of E w v]
    by (auto simp: no_press_step_def sys_step_def)
  with run_cons.IH show ?case by simp
qed

text \<open>After the reset the timer's flag stays set, so nothing can be selected again.\<close>

definition reset_once :: "world \<Rightarrow> bool" where
  "reset_once w \<longleftrightarrow> resets w = 0
     \<or> resets w = 1 \<and> mFunctionTimerActive w \<and> mFunction w = kNoneSelected"

lemma core_reset_once: "core_step E w w' \<Longrightarrow> reset_once w \<Longrightarrow> reset_once w'"
  by (erule core_step.cases) (auto simp: reset_once_def same_fn_def)

lemma booted_resets: "booted E w \<Longrightarrow> resets w = 0"
  unfolding booted_def by (auto simp: lockMgr_Init_resets static_resets)

interpretation factory: invariant_system "sys_init E" "sys_step E" "\<lambda>w. sys_inv E w \<and> reset_once w" for E
proof unfold_locales
  fix w a w'
  show "sys_inv E w \<and> reset_once w" if "sys_init E w"
    using that sys.init_inv booted_resets by (auto simp: sys_init_def reset_once_def)
  show "sys_inv E w' \<and> reset_once w'" if "sys_inv E w \<and> reset_once w" "sys_step E w a w'"
    using that sys.step_inv [of E w a w'] step_core [of E w a w'] core_reset_once [of E w w']
    by (simp add: sys_step_def sys_inv_def)
qed

section \<open>The LED\<close>

definition led_inv :: "env \<Rightarrow> world \<Rightarrow> bool" where
  "led_inv E w \<longleftrightarrow> (at_rest (mState w) \<and> mFunction w \<noteq> kFactoryReset \<and> \<not> mFunctionTimerActive w
     \<longrightarrow> shows_lock E w)"

lemma core_led_inv:
  assumes "core_step E w w'" and "led_inv E w" and "ctl_inv E w"
  shows "led_inv E w'"
  using assms(1)
proof (cases rule: core_step.cases)
  case same
  then show ?thesis using assms(2)
    by (auto simp: led_inv_def shows_lock_def same_act_def same_fn_def keeps_led_def NextState_def)
next
  case start
  then have "\<not> at_rest (mState w')" by (auto simp: at_rest_def)
  then show ?thesis by (simp add: led_inv_def)
next
  case expire
  then have "\<not> at_rest (mState w')"
    using assms(3) by (auto simp: ctl_inv_def actuator_inv_def at_rest_def IsActionInProgress_def
        split: if_split_asm)
  then show ?thesis by (simp add: led_inv_def)
qed (auto simp: led_inv_def)

lemma booted_led_inv: "booted E w \<Longrightarrow> led_inv E w"
  by (auto simp: booted_def led_inv_def shows_lock_def NextState_def Led_steady
      elim!: lockMgr_Init_Done split: if_split_asm if_split)

interpretation led: invariant_system "sys_init E" "sys_step E" "\<lambda>w. sys_inv E w \<and> led_inv E w" for E
proof unfold_locales
  fix w a w'
  show "sys_inv E w \<and> led_inv E w" if "sys_init E w"
    using that sys.init_inv booted_led_inv by (auto simp: sys_init_def)
  show "sys_inv E w' \<and> led_inv E w'" if "sys_inv E w \<and> led_inv E w" "sys_step E w a w'"
    using that sys.step_inv [of E w a w'] step_core [of E w a w'] core_led_inv [of E w w']
    by (simp add: sys_step_def sys_inv_def)
qed

section \<open>A movement comes to its end\<close>

lemma goes_run: "platform_ok E \<Longrightarrow> run (goes E) w as w' \<Longrightarrow> run (sys_step E) w as w'"
  by (rotate_tac, induction rule: run.induct) (auto intro: run.intros simp: sys_step_def)

text \<open>With nothing else in the queue, the expiry of the timer and one round complete the action.\<close>

lemma movement_completes:
  assumes q: "queue_ok E" and inv: "ctl_inv E w" and armed: "sLockTimer w = Some ms"
    and empty: "sAppEventQueue w = []"
  obtains w' where "run (goes E) w [A_lock_timer, A_dispatch None] w'"
    and "mState w' = phase_next (mState w)" and "lock_attr a0 w' = lock_attr a0 w"
    and "scheduled_work w' = scheduled_work w
      @ (if mSyncClusterToButtonAction w then [Work_UpdateCluster] else [])"
    and "sAppEventQueue w' = []" and "\<not> mSyncClusterToButtonAction w'"
    and "ENABLE_UI E \<Longrightarrow> effects w' = effects w @ [Eff_draw_lock_screen (mState w = kState_LockInitiated)]"
proof -
  let ?e = "\<lparr>Type = kEventType_Timer, evt_union = TimerEvent Ctx_LockManager,
    Handler = Some H_ActuatorMovementTimerEventHandler\<rparr>"
  let ?w1 = "PostEvent E ?e (w\<lparr>sLockTimer := None\<rparr>)"
  let ?a = "if mState w = kState_LockInitiated then LOCK_ACTION else UNLOCK_ACTION"
  let ?v = "?w1\<lparr>sAppEventQueue := []\<rparr>"
  let ?w2 = "ActionCompleted E ?a (?v\<lparr>mState := phase_next (mState w)\<rparr>)"
  let ?w3 = "if ENABLE_UI E then ?w2 else on_led (Led_Animate (clock_ms ?w2)) ?w2"
  have prog: "IsActionInProgress w" and cb: "mActionCompleted_CB w = Some CB_AppTask_ActionCompleted"
    using inv armed by (auto simp: ctl_inv_def actuator_inv_def wiring_inv_def split: if_split_asm)
  have queue: "sAppEventQueue ?w1 = [?e]"
    using empty by (simp add: PostEvent_queue [OF q] APP_EVENT_QUEUE_SIZE_def)
  have "goes E w A_lock_timer ?w1"
    unfolding goes_def using step.lock_timer [of w ms E, OF armed]
    by (simp add: LockManager_TimerEventHandler_def)
  moreover have "DispatchEvent E ?e ?v = Done ?w2"
    using prog cb
    by (simp add: DispatchEvent_def actuator_event_Done Let_def IsActionInProgress_def)
  then have "AppTaskMain_round E None ?w1 = Some (Done ?w3)"
    using queue by (simp add: AppTaskMain_round_def collect_connectivity_def Let_def)
  then have "goes E ?w1 (A_dispatch None) ?w3" by (rule goesI [OF step.dispatch]) simp
  ultimately have "run (goes E) w [A_lock_timer, A_dispatch None] ?w3"
    by (rule run_cons [OF _ run_cons [OF _ run_nil]])
  then show ?thesis
  proof (rule that)
    show "sAppEventQueue ?w3 = []" by simp
    show "ENABLE_UI E \<Longrightarrow> effects ?w3 = effects w @ [Eff_draw_lock_screen (mState w = kState_LockInitiated)]"
      by (simp add: ActionCompleted_def Let_def UpdateClusterState_def PostEvent_def emit_def split: option.split)
  qed simp_all
qed

section \<open>The races\<close>

text \<open>A remote command against a remote movement: accepted, and then wrong.\<close>

lemma lock_command_goes:
  assumes pin: "RequirePIN_Get E 1 = Some False" and st: "\<not> startable (mState w) LOCK_ACTION"
  shows "goes E w (A_lock 1 None err) (emit (Eff_SetLockState 1 kLocked None) w)"
proof -
  let ?w1 = "emit (Eff_SetLockState 1 kLocked None) w"
  have "InitiateAction E kEventType_Lock LOCK_ACTION ?w1 = Done (False, ?w1)"
    using st by (intro InitiateAction_rejected) simp
  then have "emberAfPluginDoorLockOnDoorLockCommand E 1 None err w = Done (True, err, ?w1)"
    using pin by (simp add: emberAfPluginDoorLockOnDoorLockCommand_def LockManager_Lock_def
        setLockState_def)
  then show ?thesis
    using step.lock_command [of E w 1 None err] by (simp add: goes_def)
qed

lemma opposite_command_race:
  assumes q: "queue_ok E" and inv: "ctl_inv E w" and pin: "RequirePIN_Get E 1 = Some False"
    and moving: "mState w = kState_UnlockInitiated" "sLockTimer w = Some ms" "sAppEventQueue w = []"
    and remote: "\<not> mSyncClusterToButtonAction w" "scheduled_work w = []"
  shows "\<exists>w'. run (goes E) w [A_lock 1 None err, A_lock_timer, A_dispatch None] w'
    \<and> mState w' = kState_UnlockCompleted \<and> lock_attr a0 w' = Some kLocked
    \<and> scheduled_work w' = [] \<and> \<not> mSyncClusterToButtonAction w'"
proof -
  let ?w1 = "emit (Eff_SetLockState 1 kLocked None) w"
  have go: "goes E w (A_lock 1 None err) ?w1"
    using pin moving(1) by (intro lock_command_goes) (simp_all add: startable_def)
  have "ctl_inv E ?w1" "sLockTimer ?w1 = Some ms" "sAppEventQueue ?w1 = []"
    using inv moving by simp_all
  from movement_completes [OF q this, of a0] obtain w' where
    r: "run (goes E) ?w1 [A_lock_timer, A_dispatch None] w'"
    "mState w' = phase_next (mState w)" "lock_attr a0 w' = lock_attr a0 ?w1"
    "scheduled_work w' = []" "\<not> mSyncClusterToButtonAction w'"
    using remote by auto
  show ?thesis using r run_cons [OF go r(1)] moving(1) by auto
qed

text \<open>A remote unlock starts a movement.\<close>

definition unlock_started :: "env \<Rightarrow> world \<Rightarrow> world" where
  "unlock_started E w = ActionInitiated E UNLOCK_ACTION kEventType_Lock
     ((emit (Eff_SetLockState 1 kUnlocked None) w)\<lparr>sLockTimer := Some ACTUATOR_MOVEMENT_PERIOS_MS,
        mState := kState_UnlockInitiated\<rparr>)"

lemma unlock_command_goes:
  assumes E: "timer_ok E" and inv: "ctl_inv E w" and pin: "RequirePIN_Get E 1 = Some False"
    and start: "rtos_timer_start E ACTUATOR_MOVEMENT_PERIOS_MS None = Some t"
    and rest: "mState w = kState_LockCompleted"
  shows "goes E w (A_unlock 1 None err) (unlock_started E w) \<and> ctl_inv E (unlock_started E w)"
proof -
  let ?w1 = "emit (Eff_SetLockState 1 kUnlocked None) w"
  have idle: "sLockTimer w = None" and cb: "mActionInitiated_CB w = Some CB_AppTask_ActionInitiated"
    using inv rest by (auto simp: ctl_inv_def actuator_inv_def wiring_inv_def IsActionInProgress_def
        split: if_split_asm)
  have t: "t = Some ACTUATOR_MOVEMENT_PERIOS_MS" using timer_startD [OF E start] .
  have run0: "\<not> rtos_timer_is_running E None" using E by (simp add: timer_ok_def)
  have init: "InitiateAction E kEventType_Lock UNLOCK_ACTION ?w1 = Done (True, unlock_started E w)"
    using rest idle start run0 cb t
    by (simp add: InitiateAction_def LockManager_StartTimer_def Let_def unlock_started_def)
  have "ctl_inv E ?w1" using inv by simp
  then have "ctl_inv E (unlock_started E w)" by (rule InitiateAction_inv [OF E _ init])
  moreover have "emberAfPluginDoorLockOnDoorUnlockCommand E 1 None err w = Done (True, err, unlock_started E w)"
    using pin init by (simp add: emberAfPluginDoorLockOnDoorUnlockCommand_def LockManager_Unlock_def
        setLockState_def)
  ultimately show ?thesis
    using step.unlock_command [of E w 1 None err] by (simp add: goes_def)
qed

text \<open>
  An update of the attribute that was scheduled when the button had locked, and runs after a
  remote unlock has begun: it writes the old state.
\<close>

lemma stale_update_race:
  assumes E: "queue_ok E" "timer_ok E" and inv: "ctl_inv E w" and pin: "RequirePIN_Get E 1 = Some False"
    and start: "rtos_timer_start E ACTUATOR_MOVEMENT_PERIOS_MS None = Some t"
    and rest: "mState w = kState_LockCompleted" "sAppEventQueue w = []"
    and upd: "scheduled_work w = [Work_UpdateCluster]"
  shows "\<exists>w'. run (goes E) w [A_unlock 1 None err, A_work b, A_lock_timer, A_dispatch None] w'
    \<and> mState w' = kState_UnlockCompleted \<and> lock_attr a0 w' = Some kLocked
    \<and> scheduled_work w' = [] \<and> \<not> mSyncClusterToButtonAction w'"
proof -
  have nosync: "\<not> mSyncClusterToButtonAction w"
    using inv rest by (auto simp: ctl_inv_def wiring_inv_def IsActionInProgress_def)
  let ?w2 = "unlock_started E w"
  have go1: "goes E w (A_unlock 1 None err) ?w2" and inv2: "ctl_inv E ?w2"
    using unlock_command_goes [OF E(2) inv pin start rest(1)] by simp_all
  let ?w3 = "UpdateCluster (?w2\<lparr>scheduled_work := []\<rparr>)"
  have sched: "scheduled_work ?w2 = [Work_UpdateCluster]" using upd by (simp add: unlock_started_def)
  have go2: "goes E ?w2 (A_work b) ?w3"
    using step.work [OF sched, of E b] by (simp add: goes_def run_work_def)
  have inv3: "ctl_inv E ?w3"
    by (rule work_inv [OF inv2 sched, of b]) (simp add: run_work_def)
  have attr: "lock_attr a0 ?w3 = Some kLocked"
    by (simp add: UpdateCluster_def Let_def NextState_def unlock_started_def)
  have w3: "sLockTimer ?w3 = Some ACTUATOR_MOVEMENT_PERIOS_MS" "sAppEventQueue ?w3 = []"
    using rest by (simp_all add: UpdateCluster_def Let_def unlock_started_def)
  have f3: "mState ?w3 = kState_UnlockInitiated" "scheduled_work ?w3 = []"
    "\<not> mSyncClusterToButtonAction ?w3"
    using nosync by (simp_all add: UpdateCluster_def Let_def unlock_started_def event_type_defs)
  from movement_completes [OF E(1) inv3 w3, of a0] obtain w' where
    r: "run (goes E) ?w3 [A_lock_timer, A_dispatch None] w'"
    "mState w' = phase_next (mState ?w3)" "lock_attr a0 w' = lock_attr a0 ?w3"
    "scheduled_work w' = []" "\<not> mSyncClusterToButtonAction w'"
    using f3(2,3) by auto
  have "run (goes E) w [A_unlock 1 None err, A_work b, A_lock_timer, A_dispatch None] w'"
    using run_cons [OF go1 run_cons [OF go2 r(1)]] .
  then show ?thesis using r(2-) f3 attr by auto
qed

end
