(* ===== verification/FlashCodec.thy ===== *)
theory FlashCodec
  imports LockFlash
begin

text \<open>
  One concrete choice of the object representations, little-endian with the paddings a
  32-bit compiler leaves: it shows that the hypotheses of the persistence lemmas can hold,
  with the sizes the target has (5 and 6 bytes of a week-day schedule and its element, 8 and
  12 of a year-day one, 12 and 16 of a holiday).
\<close>

section \<open>Little-endian words\<close>

definition le32 :: "u32 \<Rightarrow> byte list" where
  "le32 w = [ucast w, ucast (drop_bit 8 w), ucast (drop_bit 16 w), ucast (drop_bit 24 w)]"

definition un32 :: "byte list \<Rightarrow> u32" where
  "un32 bs = ucast (bs ! 0) OR push_bit 8 (ucast (bs ! 1)) OR push_bit 16 (ucast (bs ! 2))
     OR push_bit 24 (ucast (bs ! 3))"

lemma length_le32 [simp]: "length (le32 w) = 4"
  by (simp add: le32_def)

lemma un32_le32 [simp]: "un32 (le32 w @ bs) = w"
proof (rule bit_word_eqI)
  fix n
  assume n: "n < LENGTH(32)"
  have "n < 8 \<or> (8 \<le> n \<and> n < 16) \<or> (16 \<le> n \<and> n < 24) \<or> (24 \<le> n \<and> n < 32)"
    using n by auto
  then show "bit (un32 (le32 w @ bs)) n = bit w n"
    by (auto simp: un32_def le32_def bit_or_iff bit_push_bit_iff bit_ucast_iff bit_drop_bit_eq)
qed

lemma un32_le32_last [simp]: "un32 (le32 w) = w"
  using un32_le32 [of w "[]"] by simp

lemma ucast_back [simp]:
  "ucast (ucast b :: u32) = (b :: u8)" "ucast (ucast i :: u32) = (i :: u16)"
  by (rule bit_word_eqI, simp add: bit_ucast_iff)+

section \<open>The structs\<close>

definition rep_span :: "span \<Rightarrow> byte list" where
  "rep_span sp = (case sp of NullSpan \<Rightarrow> le32 (- 1) @ le32 0
     | Span p n \<Rightarrow> le32 (word_of_nat p) @ le32 (word_of_nat n))"

definition val_span :: "byte list \<Rightarrow> span" where
  "val_span bs = (if un32 bs = - 1 then NullSpan else Span (unat (un32 bs)) (unat (un32 (drop 4 bs))))"

lemma length_rep_span [simp]: "length (rep_span sp) = 8"
  by (simp add: rep_span_def split: span.split)

lemma val_rep_span:
  assumes "sp = NullSpan \<or> (\<exists>p n. sp = Span p n \<and> p < 12000 \<and> n \<le> 200)"
  shows "val_span (rep_span sp @ bs) = sp"
proof (cases sp)
  case NullSpan
  then show ?thesis by (simp add: val_span_def rep_span_def)
next
  case (Span p n)
  with assms have bounds: "p < 12000" "n \<le> 200" by auto
  have p: "unat (word_of_nat p :: u32) = p" and n: "unat (word_of_nat n :: u32) = n"
    using bounds by (simp_all add: unsigned_of_nat take_bit_nat_eq_self)
  have "unat (- 1 :: u32) = 4294967295" by (simp add: unsigned_minus_1_eq_mask mask_eq_exp_minus_1)
  then have "(word_of_nat p :: u32) \<noteq> - 1" using p bounds(1) by auto
  with p n Span show ?thesis by (simp add: val_span_def rep_span_def)
qed

definition flash_codec :: "env \<Rightarrow> env" where
  "flash_codec E = E\<lparr>
     rep_user := (\<lambda>u. rep_span (userName u) @ rep_span (credentials u) @ le32 (userUniqueId u)
       @ [userStatus u, userType u, credentialRule u, creationSource u, createdBy u,
          modificationSource u, lastModifiedBy u, 0]),
     val_user := (\<lambda>b. \<lparr>userName = val_span b, credentials = val_span (drop 8 b),
       userUniqueId = un32 (drop 16 b), userStatus = b ! 20, userType = b ! 21,
       credentialRule = b ! 22, creationSource = b ! 23, createdBy = b ! 24,
       modificationSource = b ! 25, lastModifiedBy = b ! 26\<rparr>),
     rep_credential := (\<lambda>c. rep_span (crd_credentialData c)
       @ [crd_status c, crd_credentialType c, crd_creationSource c, crd_createdBy c,
          crd_modificationSource c, crd_lastModifiedBy c, 0, 0]),
     val_credential := (\<lambda>b. \<lparr>crd_status = b ! 8, crd_credentialType = b ! 9,
       crd_credentialData = val_span b, crd_creationSource = b ! 10, crd_createdBy = b ! 11,
       crd_modificationSource = b ! 12, crd_lastModifiedBy = b ! 13\<rparr>),
     rep_credstruct := (\<lambda>(t, i). le32 (ucast i) @ [t, 0, 0, 0]),
     val_credstruct := (\<lambda>b. (b ! 4, ucast (un32 b))),
     rep_weekday_info := (\<lambda>d. [wd_status d, daysMask (wd_schedule d), startHour (wd_schedule d),
       startMinute (wd_schedule d), endHour (wd_schedule d), endMinute (wd_schedule d)]),
     val_weekday_info := (\<lambda>b. \<lparr>wd_status = b ! 0, wd_schedule = \<lparr>daysMask = b ! 1,
       startHour = b ! 2, startMinute = b ! 3, endHour = b ! 4, endMinute = b ! 5\<rparr>\<rparr>),
     rep_yearday_info := (\<lambda>d. le32 (ucast (yd_status d)) @ le32 (yd_localStartTime (yd_schedule d))
       @ le32 (yd_localEndTime (yd_schedule d))),
     val_yearday_info := (\<lambda>b. \<lparr>yd_status = ucast (un32 b), yd_schedule =
       \<lparr>yd_localStartTime = un32 (drop 4 b), yd_localEndTime = un32 (drop 8 b)\<rparr>\<rparr>),
     rep_holiday_info := (\<lambda>d. le32 (hd_localStartTime (hd_schedule d))
       @ le32 (hd_localEndTime (hd_schedule d))
       @ [hd_operatingMode (hd_schedule d), 0, 0, 0, hd_status d, 0, 0, 0]),
     val_holiday_info := (\<lambda>b. \<lparr>hd_status = b ! 12, hd_schedule = \<lparr>hd_localStartTime = un32 b,
       hd_localEndTime = un32 (drop 4 b), hd_operatingMode = b ! 8\<rparr>\<rparr>),
     sizeof_user := 28, sizeof_credential := 16, sizeof_credstruct := 8,
     sizeof_weekday := 5, sizeof_weekday_info := 6, sizeof_yearday := 8, sizeof_yearday_info := 12,
     sizeof_holiday := 12, sizeof_holiday_info := 16\<rparr>"

definition flash_env :: env where
  "flash_env = flash_codec demo_env"

lemma user_rep_env:
  "rep_ok (rep_user flash_env) (val_user flash_env) (sizeof_user flash_env) user_spans_ok"
proof -
  have "val_span (rep_span sp @ bs) = sp" if "sp = NullSpan \<or> (\<exists>p n. sp = Span p n \<and> p < 10 \<and> n \<le> 200)"
    for sp bs using that by (intro val_rep_span) auto
  then show ?thesis
    by (auto simp: rep_ok_def flash_env_def flash_codec_def nth_append user_spans_ok_def)
qed

lemma credential_rep_env: "credential_rep_ok flash_env"
proof -
  have "val_span (rep_span sp @ bs) = sp"
    if "sp = NullSpan \<or> (\<exists>p n. sp = Span p n \<and> p < 12000 \<and> n \<le> 20)" for sp bs
    using that by (intro val_rep_span) auto
  then show ?thesis
    by (auto simp: credential_rep_ok_def rep_ok_def flash_env_def flash_codec_def nth_append)
qed

lemma credstruct_rep_env:
  "rep_ok (rep_credstruct flash_env) (val_credstruct flash_env) (sizeof_credstruct flash_env) (\<lambda>_. True)"
  by (auto simp: rep_ok_def flash_env_def flash_codec_def nth_append)

lemma schedule_reps_env: "schedule_reps_ok flash_env"
  unfolding schedule_reps_ok_def rep_ok_def
  by (auto simp: flash_env_def flash_codec_def nth_append)

lemma flash_env_reps: "credential_rep_ok flash_env" "user_rep_ok flash_env" "schedule_reps_ok flash_env"
  using credential_rep_env user_rep_env credstruct_rep_env schedule_reps_env
  by (simp_all add: user_rep_ok_def) (simp add: flash_env_def flash_codec_def)

lemma flash_env_ok:
  "flash_ok flash_env" "copy_string_ok flash_env" "credential_types_ok flash_env"
  using demo_env_ok
  by (simp_all add: flash_env_def flash_codec_def flash_ok_def copy_string_ok_def credential_types_ok_def)

end
