(* ===== verification/Witness.thy ===== *)
theory Witness
  imports SystemProps FlashCodec
begin

text \<open>
  Concrete inputs for the witnesses: an environment that keeps every promise, the memory
  before the first write, a start-up with the lock locked, and the state it leaves.
\<close>

lemma flash_env_simps [simp]:
  "ENABLE_UI flash_env = False" "ENABLE_BUTTON_LOCK_UNLOCK flash_env = False"
  "CYW955913EVK_01 flash_env = True" "kProgrammingPIN flash_env = 0" "kPin flash_env = 1"
  "UserStatus_kAvailable flash_env = 0" "CredentialStatus_kAvailable flash_env = 0"
  "ScheduleStatus_kAvailable flash_env = 0" "AssetSource_kMatterIM flash_env = 2"
  "DOOR_LOCK_MAX_USER_NAME_SIZE flash_env = 10" "RequirePIN_Get flash_env ep = Some False"
  "rtos_timer_init flash_env tn = True" "rtos_timer_start flash_env ms t = Some (Some ms)"
  "rtos_timer_stop flash_env t = Some None" "rtos_timer_is_running flash_env t = (t \<noteq> None)"
  "sizeof_weekday flash_env = 5" "sizeof_weekday_info flash_env = 6"
  "sizeof_yearday flash_env = 8" "sizeof_yearday_info flash_env = 12"
  "sizeof_holiday flash_env = 12" "sizeof_holiday_info flash_env = 16"
  by (simp_all add: flash_env_def flash_codec_def)

lemma flash_env_timer: "timer_ok flash_env" "queue_ok flash_env"
  using demo_env_ok by (simp_all add: flash_env_def flash_codec_def timer_ok_def queue_ok_def)

lemma flash_env_db: "db_env_ok flash_env"
  using flash_env_ok flash_env_reps by (simp add: db_env_ok_def)

lemma flash_env_platform: "platform_ok flash_env"
  using flash_env_timer flash_env_db by (simp add: platform_ok_def)

definition demo_boot :: boot where
  "demo_boot = \<lparr>LockState_Get = Some kLocked, NumberOfCredentialsSupportedPerUser = None,
     NumberOfUserSupported = None, NumberOfWeekDaySchedulesPerUserSupported = None,
     NumberOfYearDaySchedulesPerUserSupported = None, NumberOfHolidaySchedulesSupported = None,
     IsWiFiStationProvisioned = False, GetQRCode = None, LOCK_STATE_LED = 1,
     ENABLE_DEVICE_ATTESTATION = False, ENABLE_OTA_REQUESTOR = False, boot_set_confirmed = 0\<rparr>"

lemma demo_params:
  "boot_params demo_boot = \<lparr>numberOfUsers = 10, numberOfCredentialsPerUser = 5,
     numberOfWeekdaySchedulesPerUser = 10, numberOfYeardaySchedulesPerUser = 10,
     numberOfHolidaySchedules = 10\<rparr>"
  by (simp add: boot_params_def demo_boot_def value_or_def LockParam_default_def
      SetNumberOfHolidaySchedules_def SetNumberOfYeardaySchedulesPerUser_def
      SetNumberOfWeekdaySchedulesPerUser_def SetNumberOfCredentialsPerUser_def SetNumberOfUsers_def)

lemma demo_params_ok: "params_ok (boot_params demo_boot)"
  by (simp add: params_ok_def demo_params)

text \<open>The databases before the first write.\<close>

definition db0 :: world where
  "db0 = (static_world flash_env Map.empty)\<lparr>LockParams := boot_params demo_boot\<rparr>"

lemma db0_inv: "db_inv flash_env db0"
  unfolding db0_def using flash_env_db demo_params_ok by (rule static_db_inv)

lemma db0_invs:
  "users_inv flash_env db0" "credentials_inv flash_env db0" "schedules_inv db0"
  "upper_free flash_env db0" "credential_spans_ok db0" "\<forall>e \<in> set (mLockUsers db0). user_spans_ok e"
  "params_ok (LockParams db0)" "credentials_shape db0"
  using db0_inv by (simp_all add: db_inv_def credentials_inv_def)

text \<open>The state start-up leaves.\<close>

definition world0 :: world where
  "world0 = (case lockMgr_Init flash_env demo_boot (static_world flash_env Map.empty) of
     Done w \<Rightarrow> w | _ \<Rightarrow> static_world flash_env Map.empty)"

lemma boot_returns:
  assumes "rtos_timer_init E LockTimer" and "rtos_timer_init E FunctionTimer"
  shows "\<exists>w. lockMgr_Init E demo_boot w0 = Done w"
proof -
  have "LockManager_Init E (LockState_Get demo_boot) (boot_params demo_boot) w
      = Done (None, w\<lparr>LockParams := boot_params demo_boot, sLockTimer := None, mState := kState_LockCompleted\<rparr>)" for w
    using demo_params_ok assms by (simp add: LockManager_Init_eq demo_boot_def)
  then show ?thesis using assms by (simp add: lockMgr_Init_def Let_def)
qed

lemma world0: "lockMgr_Init flash_env demo_boot (static_world flash_env Map.empty) = Done world0"
  using boot_returns [of flash_env "static_world flash_env Map.empty"] by (auto simp: world0_def)

lemma world0_init: "sys_init flash_env world0"
  using world0 flash_env_platform by (auto simp: sys_init_def booted_def)

lemma world0_inv: "sys_inv flash_env world0"
  using world0_init by (rule sys.init_inv)

lemma world0_fields:
  "mState world0 = kState_LockCompleted" "sLockTimer world0 = None" "sAppEventQueue world0 = []"
  "mFunction world0 = kNoneSelected" "\<not> mFunctionTimerActive world0" "scheduled_work world0 = []"
  "\<not> mSyncClusterToButtonAction world0" "length (buttonTimers world0) = 1"
  by (rule lockMgr_Init_Done [OF world0]; simp add: static_world_def demo_boot_def kButtonCount_def)+

lemma world0_reach: "reach (sys_init flash_env) (sys_step flash_env) world0"
  using world0_init by (rule reach_init)

end
