(* ===== verification/LockProps.thy ===== *)
theory LockProps
  imports Witness
begin

text \<open>
  The properties of the lock manager on its own: its databases refine finite maps, which PIN
  codes open the lock, what survives a restart, and where the code's limits give way.
\<close>

section \<open>The databases refine finite maps\<close>


definition demo_user :: user_args where
  "demo_user = \<lparr>ua_creator = 1, ua_modifier = 2, ua_name = [65, 66], ua_uniqueId = 7, ua_status = 1,
     ua_type = 0, ua_rule = 0, ua_credentials = [(1, 1)], ua_total = 1\<rparr>"



definition demo_pin :: credential_args where
  "demo_pin = \<lparr>ca_creator = 1, ca_modifier = 1, ca_status = 1, ca_data = [49, 50, 51, 52]\<rparr>"




text \<open>The year-day schedules refine a finite map in the same way.\<close>
theorem yearday_history:
  fixes s :: "'z LockManager_scheme"
  assumes "schedules_inv s"
  shows "view_yearday E blank (run_puts (put_yearday E) ops s)
    = spec_puts (\<lambda>k _. schedule_key_ok k)
        (\<lambda>_ v. schedule_image E (yd_status v) (yd_schedule v)) ops (view_yearday E blank s)"
  using assms by (intro yearday.run_puts_refines) auto

theorem yearday_history_witness:
  "view_yearday flash_env (yd_schedule yearday_zero)
      (run_puts (put_yearday flash_env) [((10, 10), yearday_zero\<lparr>yd_status := 1\<rparr>), ((11, 2), yearday_zero)] db0)
    = (view_yearday flash_env (yd_schedule yearday_zero) db0)((10, 10) \<mapsto> Some (yd_schedule yearday_zero))"
  using yearday_history [of db0 flash_env "yd_schedule yearday_zero"
      "[((10, 10), yearday_zero\<lparr>yd_status := 1\<rparr>), ((11, 2), yearday_zero)]"] db0_invs(3)
  by (simp add: schedule_key_ok_def user_index_ok_def schedule_image_def)



section \<open>Who may open the lock\<close>

text \<open>
  C11: a remote unlock with a PIN succeeds exactly when the history of \<open>SetCredential\<close> calls
  left that PIN in one of the ten PIN credentials, provided that the data of every call in the
  history fit a slot of twenty bytes (longer data would overwrite the next credential).
\<close>
theorem unlock_pin:
  fixes w :: world
  assumes "credential_types_ok E" and "credentials_inv E w" and "upper_free E w"
    and "\<forall>(k, v) \<in> set ops. credential_pre v"
  shows "fst (LockManager_Unlock E ep (Some pin) err (run_puts (put_credential E) ops w))
    \<longleftrightarrow> pin_known E (spec_puts (\<lambda>k _. credential_key_ok E k) (credential_image E) ops
          (view_credential E blank w)) pin"
  using find_pin_history [OF assms, of pin blank]
  by (simp add: LockManager_Unlock_def setLockState_def Let_def)

theorem unlock_pin_witness:
  "fst (LockManager_Unlock flash_env 1 (Some [49, 50, 51, 52]) (OperationError_other 0)
      (run_puts (put_credential flash_env) [((1, 4), demo_pin)] db0))"
proof -
  have "pin_known flash_env (spec_puts (\<lambda>k _. credential_key_ok flash_env k) (credential_image flash_env)
      [((1, 4), demo_pin)] (view_credential flash_env credential_zero db0)) [49, 50, 51, 52]"
    by (simp add: pin_known_def credential_key_ok_def credential_image_def demo_pin_def)
       (intro exI [of _ 4], simp)
  moreover have "\<forall>(k, v) \<in> set [((1, 4 :: u16), demo_pin)]. credential_pre v"
    by (simp add: credential_pre_def demo_pin_def limits)
  ultimately show ?thesis
    using unlock_pin [OF flash_env_ok(3) db0_invs(2) db0_invs(4)] by blast
qed

text \<open>
  \<open>setLockState\<close> on every branch: without a PIN it succeeds only when the attribute says
  that none is required (an unreadable attribute counts as required), with one only when a
  credential in use has that data; the attribute is set exactly on success, and the error is
  written only for a PIN that is not known.
\<close>
theorem setLockState_outcome:
  "setLockState E ep st pin err w =
     (let ok = (case pin of None \<Rightarrow> RequirePIN_Get E ep = Some False
                | Some p \<Rightarrow> (\<exists>c \<in> set (mLockCredentials w ! unat (kPin E)).
                    crd_status c \<noteq> CredentialStatus_kAvailable E \<and> deref_data w (crd_credentialData c) = p))
      in (ok, if ok \<or> pin = None then err else OperationError_kInvalidCredential,
          if ok then emit (Eff_SetLockState ep st None) w else w))"
  by (auto simp: setLockState_def Let_def find_pin_iff split: option.splits)

section \<open>What survives a restart\<close>

text \<open>
  C18: after a successful \<open>SetCredential\<close> with data that fit a slot and a restart,
  \<open>ReadConfigValues\<close> gives back the whole credential database.
\<close>
theorem credentials_survive:
  fixes s :: "'z LockManager_scheme"
  assumes "flash_ok E" and "credential_rep_ok E" and "credentials_inv E s" and "credential_spans_ok s"
    and "credentials_shape s0" and "credential_pre v" and "put_credential E k v s = Some s'"
  shows "view_credential E blank (restart E s0 s') = view_credential E blank s'"
  using assms by (rule credentials_restart(1))

theorem credentials_survive_witness:
  "\<exists>s'. put_credential flash_env (1, 4) demo_pin db0 = Some s'
    \<and> view_credential flash_env credential_zero (restart flash_env db0 s') (1, 4)
      = Some (credential_image flash_env (1, 4) demo_pin)"
proof -
  have pre: "credential_pre demo_pin" by (simp add: credential_pre_def demo_pin_def limits)
  have "credential_key_ok flash_env (1, 4)" by (simp add: credential_key_ok_def)
  then obtain s' where s': "put_credential flash_env (1, 4) demo_pin db0 = Some s'"
    by (simp add: put_credential_eq [OF db0_invs(8) pre])
  have "view_credential flash_env credential_zero (restart flash_env db0 s')
      = view_credential flash_env credential_zero s'"
    by (rule credentials_survive [OF flash_env_ok(1) flash_env_reps(1) db0_invs(2,5,8) pre s'])
  moreover have "view_credential flash_env credential_zero s' (1, 4)
      = Some (credential_image flash_env (1, 4) demo_pin)"
    by (rule credentials.view_put_same [OF db0_invs(2) pre s'])
  ultimately show ?thesis using s' by auto
qed

text \<open>
  C17: after a successful \<open>SetUser\<close> with as many credentials as announced and a restart a reader sees of every user up to
  \<open>numberOfUsers\<close> what it saw before: name, credentials and all.
\<close>
theorem users_survive:
  fixes s :: "'z LockManager_scheme"
  assumes "flash_ok E" and "user_rep_ok E" and "params_ok (LockParams s)"
    and "users_inv E s" and "\<forall>e \<in> set (mLockUsers s). user_spans_ok e"
    and "users_inv E s0" and "\<forall>e \<in> set (mLockUsers s0). user_spans_ok e"
    and "user_pre v" and "put_user E k v s = Some s'"
    and "unat k' \<le> unat (numberOfUsers (LockParams s))"
  shows "view_user E blank (restart E s0 s') k' = view_user E blank s' k'"
  using assms by (rule users_restart)

theorem users_survive_witness:
  "\<exists>s'. put_user flash_env 3 demo_user db0 = Some s'
    \<and> view_user flash_env user_zero (restart flash_env db0 s') 3 = Some (user_image flash_env demo_user)"
proof -
  have pre: "user_pre demo_user" by (simp add: user_pre_def demo_user_def)
  have "user_accept flash_env db0 3 demo_user"
    by (simp add: user_accept_def user_index_ok_def demo_user_def db0_def demo_params)
  then obtain s' where s': "put_user flash_env 3 demo_user db0 = Some s'"
    by (simp add: put_user_eq [OF db0_invs(1) pre])
  have "unat (3 :: u16) \<le> unat (numberOfUsers (LockParams db0))" by (simp add: db0_def demo_params)
  then have "view_user flash_env user_zero (restart flash_env db0 s') 3 = view_user flash_env user_zero s' 3"
    by (rule users_survive [OF flash_env_ok(1) flash_env_reps(2) db0_invs(7,1,6,1,6) pre s'])
  moreover have "view_user flash_env user_zero s' 3 = Some (user_image flash_env demo_user)"
    by (rule users.view_put_same [OF db0_invs(1) pre s'])
  ultimately show ?thesis using s' by auto
qed

text \<open>
  C19: of the week-day schedules a restart gives back exactly those whose elements lie within
  the \<open>sizeof(schedule) * schedules * users\<close> bytes that are stored; those behind them come back
  as the memory had them before, although the write had reported success.
\<close>
theorem weekday_survive:
  fixes s :: "'z LockManager_scheme"
  assumes "flash_ok E" and "schedule_reps_ok E" and "params_ok (LockParams s)"
    and "schedules_inv s" and "schedules_inv s0"
    and "put_weekday E k v s = Some s'" and "schedule_key_ok k'"
  shows "(Suc (schedule_pos k') * sizeof_weekday_info E \<le> weekday_bytes E (LockParams s) \<longrightarrow>
      view_weekday E blank (restart E s0 s') k' = view_weekday E blank s' k')
    \<and> (weekday_bytes E (LockParams s) \<le> schedule_pos k' * sizeof_weekday_info E \<longrightarrow>
      view_weekday E blank (restart E s0 s') k' = view_weekday E blank s0 k')"
  using weekday_restart [OF assms] by blast

text \<open>
  With the target's sizes, five bytes for a schedule and six for an element, the schedules of
  user 10 are lost: the write of the one below succeeds, and after the restart it is free.
\<close>
theorem weekday_survive_witness:
  "\<exists>s'. put_weekday flash_env (10, 10) (weekday_zero\<lparr>wd_status := 1\<rparr>) db0 = Some s'
    \<and> view_weekday flash_env (wd_schedule weekday_zero) s' (10, 10) = Some (Some (wd_schedule weekday_zero))
    \<and> view_weekday flash_env (wd_schedule weekday_zero) (restart flash_env db0 s') (10, 10) = Some None"
proof -
  have key: "schedule_key_ok (10, 10)" by (simp add: schedule_key_ok_def user_index_ok_def)
  let ?v = "weekday_zero\<lparr>wd_status := 1\<rparr>"
  obtain s' where s': "put_weekday flash_env (10, 10) ?v db0 = Some s'"
    using key by (simp add: put_weekday_eq)
  have "weekday_bytes flash_env (LockParams db0) \<le> schedule_pos (10, 10) * sizeof_weekday_info flash_env"
    by (simp add: weekday_bytes_def schedule_pos_def db0_def demo_params)
  then have "view_weekday flash_env (wd_schedule weekday_zero) (restart flash_env db0 s') (10, 10)
      = view_weekday flash_env (wd_schedule weekday_zero) db0 (10, 10)"
    using weekday_survive [OF flash_env_ok(1) flash_env_reps(3) db0_invs(7,3,3) s' key] by blast
  moreover have "view_weekday flash_env (wd_schedule weekday_zero) db0 (10, 10) = Some None"
    using key by (simp add: view_weekday_eq db0_def static_db weekday_zero_def schedule_image_def)
  moreover have "view_weekday flash_env (wd_schedule weekday_zero) s' (10, 10)
      = Some (schedule_image flash_env (wd_status ?v) (wd_schedule ?v))"
    by (rule weekday.view_put_same [OF db0_invs(3) _ s']) simp
  ultimately show ?thesis using s' by (simp add: schedule_image_def)
qed

text \<open>The year-day schedules lose what lies behind the stored bytes in the same way.\<close>
theorem yearday_survive:
  fixes s :: "'z LockManager_scheme"
  assumes "flash_ok E" and "schedule_reps_ok E" and "params_ok (LockParams s)"
    and "schedules_inv s" and "schedules_inv s0"
    and "put_yearday E k v s = Some s'" and "schedule_key_ok k'"
  shows "(Suc (schedule_pos k') * sizeof_yearday_info E \<le> yearday_bytes E (LockParams s) \<longrightarrow>
      view_yearday E blank (restart E s0 s') k' = view_yearday E blank s' k')
    \<and> (yearday_bytes E (LockParams s) \<le> schedule_pos k' * sizeof_yearday_info E \<longrightarrow>
      view_yearday E blank (restart E s0 s') k' = view_yearday E blank s0 k')"
  using yearday_restart [OF assms] by blast

theorem yearday_survive_witness:
  "\<exists>s'. put_yearday flash_env (7, 7) (yearday_zero\<lparr>yd_status := 1\<rparr>) db0 = Some s'
    \<and> view_yearday flash_env (yd_schedule yearday_zero) (restart flash_env db0 s') (8, 7) = Some None
    \<and> view_yearday flash_env (yd_schedule yearday_zero) (restart flash_env db0 s') (6, 7)
      = view_yearday flash_env (yd_schedule yearday_zero) s' (6, 7)"
proof -
  have key: "schedule_key_ok (7, 7)" "schedule_key_ok (8, 7)" "schedule_key_ok (6, 7)"
    by (simp_all add: schedule_key_ok_def user_index_ok_def)
  obtain s' where s': "put_yearday flash_env (7, 7) (yearday_zero\<lparr>yd_status := 1\<rparr>) db0 = Some s'"
    using key by (simp add: put_yearday_eq)
  note survive = yearday_survive [OF flash_env_ok(1) flash_env_reps(3) db0_invs(7,3,3) s']
  have "yearday_bytes flash_env (LockParams db0) = 800" by (simp add: yearday_bytes_def db0_def demo_params)
  then have "view_yearday flash_env (yd_schedule yearday_zero) (restart flash_env db0 s') (8, 7)
      = view_yearday flash_env (yd_schedule yearday_zero) db0 (8, 7)"
    and "view_yearday flash_env (yd_schedule yearday_zero) (restart flash_env db0 s') (6, 7)
      = view_yearday flash_env (yd_schedule yearday_zero) s' (6, 7)"
    using survive [OF key(2), of "yd_schedule yearday_zero"] survive [OF key(3), of "yd_schedule yearday_zero"]
    by (simp_all add: schedule_pos_def)
  moreover have "view_yearday flash_env (yd_schedule yearday_zero) db0 (8, 7) = Some None"
    using key(2) by (simp add: view_yearday_eq db0_def static_db yearday_zero_def schedule_image_def)
  ultimately show ?thesis using s' by auto
qed

text \<open>
  C20: of the holiday schedules a restart gives back exactly those whose elements lie within the
  bytes that are stored; those behind them come back as the memory had them before, although
  the write had reported success.
\<close>
theorem holiday_survive:
  fixes s :: "'z LockManager_scheme"
  assumes "flash_ok E" and "schedule_reps_ok E" and "params_ok (LockParams s)"
    and "schedules_inv s" and "schedules_inv s0"
    and "put_holiday E k v s = Some s'" and "holiday_key_ok k'"
  shows "(unat k' * sizeof_holiday_info E \<le> holiday_bytes E (LockParams s) \<longrightarrow>
      view_holiday E blank (restart E s0 s') k' = view_holiday E blank s' k')
    \<and> (holiday_bytes E (LockParams s) \<le> (unat k' - 1) * sizeof_holiday_info E \<longrightarrow>
      view_holiday E blank (restart E s0 s') k' = view_holiday E blank s0 k')"
  using holiday_restart [OF assms] by blast

theorem holiday_survive_witness:
  "\<exists>s'. put_holiday flash_env 9 (holiday_zero\<lparr>hd_status := 1\<rparr>) db0 = Some s'
    \<and> view_holiday flash_env (hd_schedule holiday_zero) (restart flash_env db0 s') 9 = Some None"
proof -
  have key: "holiday_key_ok 9" by (simp add: holiday_key_ok_def)
  obtain s' where s': "put_holiday flash_env 9 (holiday_zero\<lparr>hd_status := 1\<rparr>) db0 = Some s'"
    using key by (simp add: put_holiday_eq)
  have "holiday_bytes flash_env (LockParams db0) \<le> (unat (9 :: u8) - 1) * sizeof_holiday_info flash_env"
    by (simp add: holiday_bytes_def db0_def demo_params)
  then have "view_holiday flash_env (hd_schedule holiday_zero) (restart flash_env db0 s') 9
      = view_holiday flash_env (hd_schedule holiday_zero) db0 9"
    using holiday_survive [OF flash_env_ok(1) flash_env_reps(3) db0_invs(7,3,3) s' key] by blast
  then show ?thesis using s' key
    by (simp add: view_holiday_eq db0_def static_db holiday_zero_def schedule_image_def)
qed

section \<open>Where the limits give way\<close>

text \<open>
  C21: a user name of exactly \<open>DOOR_LOCK_MAX_USER_NAME_SIZE\<close> bytes is accepted, but
  \<open>GetUser\<close> returns it with its last byte replaced by the terminating zero.
\<close>
theorem full_name_loses_last_byte:
  fixes s :: "'z LockManager_scheme"
  assumes "users_inv E s" and "user_pre v" and "put_user E k v s = Some s'"
    and "length (ua_name v) = DOOR_LOCK_MAX_USER_NAME_SIZE E"
    and "ua_status v \<noteq> UserStatus_kAvailable E"
  shows "\<exists>e. view_user E blank s' k = Some (Some e) \<and> ue_name e = butlast (ua_name v) @ [0]"
proof -
  have "view_user E blank s' k = Some (user_image E v)" using assms(1-3) by (rule users.view_put_same)
  then show ?thesis
    using assms(4,5) by (simp add: user_image_def stored_name_def butlast_conv_take)
qed

theorem full_name_loses_last_byte_witness:
  "\<exists>s' e. put_user flash_env 1 (demo_user\<lparr>ua_name := replicate 10 65\<rparr>) db0 = Some s'
    \<and> view_user flash_env user_zero s' 1 = Some (Some e) \<and> ue_name e = replicate 9 65 @ [0]"
proof -
  let ?v = "demo_user\<lparr>ua_name := replicate 10 65\<rparr>"
  have pre: "user_pre ?v" by (simp add: user_pre_def demo_user_def)
  have "user_accept flash_env db0 1 ?v"
    by (simp add: user_accept_def user_index_ok_def demo_user_def db0_def demo_params)
  then obtain s' where s': "put_user flash_env 1 ?v db0 = Some s'"
    by (simp add: put_user_eq [OF db0_invs(1) pre])
  have "length (ua_name ?v) = DOOR_LOCK_MAX_USER_NAME_SIZE flash_env"
    "ua_status ?v \<noteq> UserStatus_kAvailable flash_env" by (simp_all add: demo_user_def)
  from full_name_loses_last_byte [OF db0_invs(1) pre s' this, of user_zero]
  show ?thesis using s' by (simp add: butlast_conv_take demo_user_def)
qed

text \<open>
  C22: \<open>SetCredential\<close> accepts data longer than the twenty bytes of a slot, and its tail
  replaces the front of the data of the next credential of the same type, whose entry is
  otherwise unchanged.
\<close>
theorem long_credential_overwrites_next:
  fixes s :: "'z LockManager_scheme" and v :: credential_args
  assumes shape: "credentials_shape s" and key: "credential_key_ok E (t, i)"
    and slot: "credential_slot E (t, i) = (unat t, j)"
    and next_entry: "crd_credentialData (mLockCredentials s ! unat t ! Suc j)
      = Span (credential_offset (unat t) (Suc j)) n"
    and data: "length (ca_data v) = 20 + x" and x: "x \<le> n" and n: "n \<le> 20"
  shows "\<exists>s'. SetCredential E ep i (ca_creator v) (ca_modifier v) (ca_status v) t (ca_data v) s
      = Done (True, s')
    \<and> mLockCredentials s' ! unat t ! Suc j = mLockCredentials s ! unat t ! Suc j
    \<and> deref_data s' (crd_credentialData (mLockCredentials s ! unat t ! Suc j))
      = drop 20 (ca_data v) @ drop x (deref_data s (crd_credentialData (mLockCredentials s ! unat t ! Suc j)))"
proof -
  have tj: "unat t < 6" "j < 10" using credential_slot_index(2,3) [OF key] slot by simp_all
  have off: "credential_offset (unat t) (Suc j) = credential_offset (unat t) j + 20"
    by (simp add: credential_offset_eq)
  have bound: "credential_offset (unat t) j + 40 \<le> 12000"
    using credential_offset_bound [of "unat t" "Suc j"] tj off by simp
  have fits: "credential_offset (unat t) (snd (credential_slot E (t, i))) + length (ca_data v) \<le> 12000"
    using bound data x n slot by simp
  let ?w = "credential_written (unat t) j t v s"
  have set: "SetCredential E ep i (ca_creator v) (ca_modifier v) (ca_status v) t (ca_data v) s
      = Done (True, SaveCredentials E ?w)"
    using SetCredential_eq [OF shape fits] key slot by simp
  have "mem_slice (credential_offset (unat t) (Suc j)) n (mCredentialData ?w)
      = drop 20 (ca_data v) @ drop x (mem_slice (credential_offset (unat t) (Suc j)) n (mCredentialData s))"
    using memcpy_overflow [OF data x n] bound shape
    by (simp add: off credential_written_def credentials_shape_def)
  then show ?thesis
    using set next_entry tj credential_written_entry [OF shape, of "unat t" j "unat t" "Suc j"]
    by (intro exI [of _ "SaveCredentials E ?w"]) simp
qed

theorem long_credential_overwrites_next_witness:
  "\<exists>s' s''. put_credential flash_env (1, 2) demo_pin db0 = Some s'
    \<and> deref_data s' (crd_credentialData (mLockCredentials s' ! 1 ! 1)) = [49, 50, 51, 52]
    \<and> SetCredential flash_env 1 1 1 1 1 1 (replicate 24 7) s' = Done (True, s'')
    \<and> deref_data s'' (crd_credentialData (mLockCredentials s'' ! 1 ! 1)) = [7, 7, 7, 7]"
proof -
  have pre: "credential_pre demo_pin" by (simp add: credential_pre_def demo_pin_def limits)
  have key: "credential_key_ok flash_env (1, 2)" "credential_key_ok flash_env (1, 1)"
    by (simp_all add: credential_key_ok_def)
  have slot: "credential_slot flash_env (1, 2) = (1, 1)" "credential_slot flash_env (1, 1) = (unat (1 :: u8), 0)"
    by (simp_all add: credential_slot_def)
  let ?s = "SaveCredentials flash_env (credential_written 1 1 1 demo_pin db0)"
  have s': "put_credential flash_env (1, 2) demo_pin db0 = Some ?s"
    using key(1) slot(1) by (simp add: put_credential_eq [OF db0_invs(8) pre])
  have entry: "crd_credentialData (mLockCredentials ?s ! 1 ! 1) = Span (credential_offset 1 1) 4"
    using credential_written_entry [OF db0_invs(8), of 1 1 1 1 1 demo_pin] by (simp add: demo_pin_def)
  have "view_credential flash_env credential_zero ?s (1, 2) = Some (credential_image flash_env (1, 2) demo_pin)"
    by (rule credentials.view_put_same [OF db0_invs(2) pre s'])
  then have old: "deref_data ?s (crd_credentialData (mLockCredentials ?s ! 1 ! 1)) = [49, 50, 51, 52]"
    using key(1) slot(1)
    by (simp add: view_credential_eq credential_image_def demo_pin_def Let_def split: if_split_asm)
  have shape: "credentials_shape ?s"
    using credentials.put_inv [OF db0_invs(2) pre s'] by (simp add: credentials_inv_def)
  let ?v = "\<lparr>ca_creator = 1, ca_modifier = 1, ca_status = 1, ca_data = replicate 24 7\<rparr>"
  have entry': "crd_credentialData (mLockCredentials ?s ! unat (1 :: u8) ! Suc 0)
      = Span (credential_offset (unat (1 :: u8)) (Suc 0)) 4" using entry by simp
  have "\<exists>s''. SetCredential flash_env 1 1 1 1 1 1 (replicate 24 7) ?s = Done (True, s'')
      \<and> mLockCredentials s'' ! 1 ! 1 = mLockCredentials ?s ! 1 ! 1
      \<and> deref_data s'' (crd_credentialData (mLockCredentials ?s ! 1 ! 1)) = [7, 7, 7, 7]"
    using long_credential_overwrites_next [OF shape key(2) slot(2) entry', of ?v 4 1] old
    by (simp add: numeral_eq_Suc)
  then show ?thesis using s' old by auto
qed

section \<open>Start-up and actions\<close>

text \<open>
  \<open>LockManager::Init\<close> on every branch: parameters beyond the arrays are refused, then a
  timer that cannot be made is reported; otherwise the actuator starts at rest, unlocked
  exactly when the attribute says so. The parameters are stored in every case.
\<close>
theorem init_outcome:
  "LockManager_Init E state p w =
     (if \<not> params_ok p then Done (Some APP_ERROR_ALLOCATION_FAILED, w\<lparr>LockParams := p\<rparr>)
      else if \<not> rtos_timer_init E LockTimer
      then Done (Some APP_ERROR_CREATE_TIMER_FAILED, w\<lparr>LockParams := p\<rparr>)
      else case state of None \<Rightarrow> Undef
        | Some st \<Rightarrow> Done (None, w\<lparr>LockParams := p, sLockTimer := None,
            mState := (if st = kUnlocked then kState_UnlockCompleted else kState_LockCompleted)\<rparr>))"
  by (rule LockManager_Init_eq)

text \<open>
  \<open>InitiateAction\<close> starts a movement exactly when the bolt rests at the other end: it
  arms the timer with the movement's 2000 ms and enters the next phase. Otherwise it returns
  false and changes nothing.
\<close>
theorem initiate_action_outcome:
  assumes "timer_ok E" and "InitiateAction E actor a w = Done (started, w')"
  shows "(started \<longleftrightarrow> startable (mState w) a)
    \<and> (started \<longrightarrow> mState w' = phase_next (mState w) \<and> sLockTimer w' = Some 2000)
    \<and> (\<not> started \<longrightarrow> w' = w)"
proof (cases "startable (mState w) a")
  case True
  then show ?thesis using InitiateAction_started [OF assms(1) True assms(2)]
    by (auto simp: ACTUATOR_MOVEMENT_PERIOS_MS_def split: option.splits)
next
  case False
  then show ?thesis using InitiateAction_rejected [OF False, of E actor] assms(2) by simp
qed

theorem initiate_action_outcome_witness:
  "\<exists>w'. InitiateAction flash_env kEventType_Lock UNLOCK_ACTION (db0\<lparr>mState := kState_LockCompleted\<rparr>)
      = Done (True, w') \<and> mState w' = kState_UnlockInitiated \<and> sLockTimer w' = Some 2000"
proof -
  let ?w = "db0\<lparr>mState := kState_LockCompleted\<rparr>"
  have "\<exists>w'. InitiateAction flash_env kEventType_Lock UNLOCK_ACTION ?w = Done (True, w')"
    by (simp add: InitiateAction_def LockManager_StartTimer_def Let_def LockManager_CancelTimer_def)
  then obtain w' where w': "InitiateAction flash_env kEventType_Lock UNLOCK_ACTION ?w = Done (True, w')"
    by blast
  show ?thesis
    using initiate_action_outcome [OF flash_env_timer(1) w'] w' by simp
qed

section \<open>The LED\<close>

text \<open>
  The pin of the LED always carries the level of the LED's state, after any sequence of
  \<open>Set\<close>, \<open>Invert\<close>, \<open>Blink\<close> and \<open>Animate\<close> at any times, although the pin is only written when the
  state changes.
\<close>
theorem led_pin_follows_state:
  assumes "led_run ops (fst (Led_Init n w)) = (w', io)"
  shows "pin_level n (snd (Led_Init n w) @ io) l = Some (led_level_of (led_mState w'))"
proof -
  have "led_sync (fst (Led_Init n w)) (pin_level n (snd (Led_Init n w)) l)"
    and "mLedNum (fst (Led_Init n w)) = n"
    by (simp_all add: Led_Init_def led_sync_def led_level_of_def)
  then show ?thesis
    using led_run_sync [OF assms] by (simp add: led_sync_def pin_level_append)
qed

theorem led_pin_follows_state_witness:
  "pin_level 3 (snd (Led_Init 3 LEDWidget_default)
      @ snd (led_run [(0, LedBlink 50 50), (100, LedAnimate), (120, LedAnimate)] (fst (Led_Init 3 LEDWidget_default))))
     None = Some CYBSP_LED_STATE_ON"
proof -
  let ?r = "led_run [(0, LedBlink 50 50), (100, LedAnimate), (120, LedAnimate)] (fst (Led_Init 3 LEDWidget_default))"
  have "led_mState (fst ?r)"
    by (simp add: Led_Init_def Led_Blink_def Led_Animate_def Led_DoSet_def LEDWidget_default_def
        split: prod.split)
  then show ?thesis
    using led_pin_follows_state [of "[(0, LedBlink 50 50), (100, LedAnimate), (120, LedAnimate)]" 3
        LEDWidget_default "fst ?r" "snd ?r" None]
    by (simp add: led_level_of_def)
qed

text \<open>
  A blinking LED changes over exactly when the clock has passed the time of its last
  change by more than the duration of its present state, as long as the sum fits 64 bits.
\<close>
theorem led_animate_period:
  assumes "mBlinkOnTimeMS w \<noteq> 0" and "mBlinkOffTimeMS w \<noteq> 0"
    and "unat (mLastChangeTimeMS w) + blink_duration w < 2 ^ 64"
  shows "led_mState (fst (Led_Animate now w)) \<noteq> led_mState w
    \<longleftrightarrow> unat (mLastChangeTimeMS w) + blink_duration w < unat now"
  using assms by (rule Animate_toggles)

theorem led_animate_period_witness:
  "led_mState (fst (Led_Animate 151 (LEDWidget_default\<lparr>mBlinkOnTimeMS := 50, mBlinkOffTimeMS := 50,
     mLastChangeTimeMS := 100\<rparr>)))"
proof -
  let ?w = "LEDWidget_default\<lparr>mBlinkOnTimeMS := 50, mBlinkOffTimeMS := 50, mLastChangeTimeMS := 100\<rparr>"
  have "blink_duration ?w = 50" by (simp add: blink_duration_def LEDWidget_default_def)
  then show ?thesis
    using led_animate_period [of ?w 151] by (simp add: LEDWidget_default_def)
qed

end
