(* ===== verification/SystemClaims.thy ===== *)
theory SystemClaims
  imports Witness
begin

text \<open>
  The properties of the running program: of every state it reaches from start-up, whatever
  order the tasks, timers and callbacks run in.
\<close>

section \<open>Safety\<close>



text \<open>
  C2: the actuator's protocol, in every reachable state: at rest its timer is idle and no
  event of it is in the queue; in movement at most one of the two; the queue never holds more
  than ten events.
\<close>
theorem reachable_actuator_protocol:
  assumes "reach (sys_init E) (sys_step E) w"
  shows "length (sAppEventQueue w) \<le> 10
    \<and> (if at_rest (mState w) then sLockTimer w = None \<and> pending w = 0
       else pending w \<le> 1 \<and> (sLockTimer w = None \<or> pending w = 0))"
  using sys.reach_inv [OF assms]
  by (cases "mState w") (auto simp: sys_inv_def ctl_inv_def queue_inv_def actuator_inv_def at_rest_def
      IsActionInProgress_def APP_EVENT_QUEUE_SIZE_def split: if_split_asm)

theorem reachable_actuator_protocol_witness: "pending world0 = 0"
  using reachable_actuator_protocol [OF world0_reach] world0_fields(1)
  by (simp add: at_rest_def)

text \<open>
  C3: the actuator refines the bolt's cycle: every step of the program, by whatever task or
  callback, leaves the bolt's state or makes one of the four moves of the cycle.
\<close>
theorem step_refines_bolt:
  assumes "reach (sys_init E) (sys_step E) w" and "sys_step E w a w'"
  shows "mState w' = mState w \<or> (\<exists>b. bolt_step (mState w) b (mState w'))"
  using bolt.sim_step [OF sys.reach_inv [OF assms(1)] assms(2)] .

theorem step_refines_bolt_witness:
  "\<exists>w'. sys_step flash_env world0 (A_tick 5) w' \<and> (mState w' = mState world0
     \<or> (\<exists>b. bolt_step (mState world0) b (mState w')))"
proof -
  have st: "sys_step flash_env world0 (A_tick 5) (world0\<lparr>clock_ms := clock_ms world0 + 5\<rparr>)"
    using flash_env_platform tick [of flash_env world0 5] by (simp add: sys_step_def goes_def)
  show ?thesis using step_refines_bolt [OF world0_reach st] st by blast
qed

text \<open>
  C16: the databases keep their invariant along every run in which the door lock server's calls
  are those it owes (\<open>server_owes\<close>): every entry in use points to its own
  row or slot, names and credentials are within their rows, and the credentials the interface
  cannot reach stay free.
\<close>
theorem reachable_databases:
  assumes "reach (sys_init E) (sys_step E) w"
  shows "users_inv E w \<and> credentials_inv E w \<and> upper_free E w \<and> schedules_inv w \<and> params_ok (LockParams w)"
  using sys.reach_inv [OF assms] by (simp add: sys_inv_def db_inv_def)

theorem reachable_databases_witness: "users_inv flash_env world0"
  using reachable_databases [OF world0_reach] by simp

section \<open>The attribute and the bolt\<close>



text \<open>
  C5: a remote lock command that arrives while a remote unlock moves the bolt is accepted and
  sets the attribute to locked, the actuator ignores it, and the bolt comes to rest unlocked
  with nothing left that would correct the attribute.
\<close>
theorem opposite_command_leaves_wrong_attribute:
  assumes "queue_ok E" and "ctl_inv E w" and "RequirePIN_Get E 1 = Some False"
    and "mState w = kState_UnlockInitiated" and "sLockTimer w = Some ms" and "sAppEventQueue w = []"
    and "\<not> mSyncClusterToButtonAction w" and "scheduled_work w = []"
  shows "\<exists>w'. run (goes E) w [A_lock 1 None err, A_lock_timer, A_dispatch None] w'
    \<and> mState w' = kState_UnlockCompleted \<and> lock_attr a0 w' = Some kLocked
    \<and> scheduled_work w' = [] \<and> \<not> mSyncClusterToButtonAction w'"
  using assms by (rule opposite_command_race)

definition unlocking :: world where
  "unlocking = unlock_started flash_env world0"

lemma unlocking_goes:
  "goes flash_env world0 (A_unlock 1 None (OperationError_other 0)) unlocking \<and> ctl_inv flash_env unlocking"
  unfolding unlocking_def
  by (rule unlock_command_goes [of flash_env world0 "Some ACTUATOR_MOVEMENT_PERIOS_MS"])
     (use flash_env_timer(1) world0_inv world0_fields(1) in \<open>simp_all add: sys_inv_def\<close>)

lemma unlocking_fields:
  "mState unlocking = kState_UnlockInitiated" "sLockTimer unlocking = Some ACTUATOR_MOVEMENT_PERIOS_MS"
  "sAppEventQueue unlocking = []" "\<not> mSyncClusterToButtonAction unlocking" "scheduled_work unlocking = []"
  using world0_fields by (simp_all add: unlocking_def unlock_started_def event_type_defs)

lemma unlocking_reach: "reach (sys_init flash_env) (sys_step flash_env) unlocking"
  using unlocking_goes flash_env_platform by (intro reach_step [OF world0_reach]) (auto simp: sys_step_def)

theorem opposite_command_leaves_wrong_attribute_witness:
  "\<exists>w'. run (goes flash_env) unlocking
      [A_lock 1 None (OperationError_other 0), A_lock_timer, A_dispatch None] w'
    \<and> mState w' = kState_UnlockCompleted \<and> lock_attr (Some kUnlocked) w' = Some kLocked"
  using opposite_command_leaves_wrong_attribute [OF flash_env_timer(2) conjunct2 [OF unlocking_goes] _
      unlocking_fields, of "OperationError_other 0" "Some kUnlocked"] by auto

text \<open>
  C6: an update of the attribute that the button scheduled and that runs after a remote unlock
  has begun writes the old state over the command's: the bolt comes to rest unlocked, with the
  attribute locked and nothing left to correct it.
\<close>
theorem stale_update_leaves_wrong_attribute:
  assumes "queue_ok E" and "timer_ok E" and "ctl_inv E w" and "RequirePIN_Get E 1 = Some False"
    and "rtos_timer_start E ACTUATOR_MOVEMENT_PERIOS_MS None = Some t"
    and "mState w = kState_LockCompleted" and "sAppEventQueue w = []"
    and "scheduled_work w = [Work_UpdateCluster]"
  shows "\<exists>w'. run (goes E) w [A_unlock 1 None err, A_work b, A_lock_timer, A_dispatch None] w'
    \<and> mState w' = kState_UnlockCompleted \<and> lock_attr a0 w' = Some kLocked
    \<and> scheduled_work w' = [] \<and> \<not> mSyncClusterToButtonAction w'"
  using assms by (rule stale_update_race)

theorem stale_update_leaves_wrong_attribute_witness:
  "\<exists>w'. run (goes flash_env) (world0\<lparr>scheduled_work := [Work_UpdateCluster]\<rparr>)
      [A_unlock 1 None (OperationError_other 0), A_work demo_boot, A_lock_timer, A_dispatch None] w'
    \<and> mState w' = kState_UnlockCompleted \<and> lock_attr (Some kLocked) w' = Some kLocked"
proof -
  let ?w = "world0\<lparr>scheduled_work := [Work_UpdateCluster]\<rparr>"
  have inv: "ctl_inv flash_env ?w"
    using world0_inv world0_fields
    by (auto simp: sys_inv_def ctl_inv_def queue_inv_def actuator_inv_def function_inv_def
        wiring_inv_def IsActionInProgress_def pending_def)
  have start: "rtos_timer_start flash_env ACTUATOR_MOVEMENT_PERIOS_MS None
      = Some (Some ACTUATOR_MOVEMENT_PERIOS_MS)" by simp
  have w: "mState ?w = kState_LockCompleted" "sAppEventQueue ?w = []"
    "scheduled_work ?w = [Work_UpdateCluster]"
    using world0_fields by simp_all
  show ?thesis
    using stale_update_leaves_wrong_attribute [OF flash_env_timer(2,1) inv _ start w,
        of "OperationError_other 0" demo_boot "Some kLocked"] by auto
qed

section \<open>Completion, and the lost event\<close>

text \<open>
  C7: a movement ends: while the actuator's timer is armed and the queue is empty, its expiry
  and one round of the application task are possible and complete the action; a movement
  started with the button leaves an update of the attribute to run.
\<close>
theorem movement_ends:
  assumes "reach (sys_init E) (sys_step E) w" and "platform_ok E"
    and "sLockTimer w = Some ms" and "sAppEventQueue w = []"
  shows "\<exists>w'. run (sys_step E) w [A_lock_timer, A_dispatch None] w' \<and> at_rest (mState w')
    \<and> mState w' = phase_next (mState w)
    \<and> (mSyncClusterToButtonAction w \<longrightarrow> Work_UpdateCluster \<in> set (scheduled_work w'))"
proof -
  have q: "queue_ok E" and inv: "ctl_inv E w"
    using assms(2) sys.reach_inv [OF assms(1)] by (simp_all add: platform_ok_def sys_inv_def)
  have moving: "IsActionInProgress w"
    using inv assms(3) by (auto simp: ctl_inv_def actuator_inv_def split: if_split_asm)
  from movement_completes [OF q inv assms(3,4), of None] obtain w' where
    r: "run (goes E) w [A_lock_timer, A_dispatch None] w'" "mState w' = phase_next (mState w)"
    "scheduled_work w' = scheduled_work w
      @ (if mSyncClusterToButtonAction w then [Work_UpdateCluster] else [])" by blast
  have "at_rest (mState w')"
    using r(2) moving by (auto simp: IsActionInProgress_def at_rest_def)
  with r goes_run [OF assms(2) r(1)] show ?thesis by (intro exI [of _ w']) simp
qed

theorem movement_ends_witness:
  "\<exists>w'. run (sys_step flash_env) unlocking [A_lock_timer, A_dispatch None] w'
    \<and> mState w' = kState_UnlockCompleted"
  using movement_ends [OF unlocking_reach flash_env_platform unlocking_fields(2,3)] unlocking_fields(1)
  by auto

text \<open>
  C10: when the actuator's timer expires while the event queue is full, its event is dropped
  and the actuator is in movement for good: no later step of any task changes its state, and
  every request is refused.
\<close>
theorem lost_timer_event_stops_actuator:
  assumes "reach (sys_init E) (sys_step E) w" and "sLockTimer w = Some ms"
    and "length (sAppEventQueue w) = APP_EVENT_QUEUE_SIZE"
    and "sys_step E w A_lock_timer v" and "run (sys_step E) v as w'"
  shows "mState w' = mState w \<and> IsActionInProgress w' \<and> InitiateAction E actor a w' = Done (False, w')"
proof -
  have inv: "ctl_inv E w" "sys_inv E v" and q: "queue_ok E" and go: "goes E w A_lock_timer v"
    using assms(4) sys.reach_inv [OF assms(1)] sys.reach_inv [OF reach_step [OF assms(1,4)]]
    by (simp_all add: sys_inv_def sys_step_def platform_ok_def)
  have "stuck v \<and> mState v = mState w" using stuck_entered [OF q inv(1) assms(2,3) go] .
  then have st: "stuck w'" "mState w' = mState w" using run_stuck [OF assms(5) inv(2)] by auto
  then have "\<not> startable (mState w') a"
    by (auto simp: stuck_def IsActionInProgress_def startable_def)
  with st show ?thesis by (simp add: InitiateAction_rejected stuck_def)
qed

lemma flash_step: "step flash_env w a (Done w') \<Longrightarrow> server_owes a \<Longrightarrow> sys_step flash_env w a w'"
  by (simp add: sys_step_def goes_def flash_env_platform)

text \<open>A press of the function button, short or long, as the steps of a run.\<close>

definition press_event :: "bool \<Rightarrow> AppEvent" where
  "press_event level = \<lparr>Type = kEventType_Button,
     evt_union = ButtonEvent 0 (if level then APP_BUTTON_PRESSED else APP_BUTTON_LONG_PRESS),
     Handler = Some H_FunctionHandler\<rparr>"

lemma press_posts:
  assumes "reach (sys_init flash_env) (sys_step flash_env) w" and "length (sAppEventQueue w) < 10"
  obtains v where "reach (sys_init flash_env) (sys_step flash_env) v"
    and "sAppEventQueue v = sAppEventQueue w @ [press_event level]" and "sLockTimer v = sLockTimer w"
    and "mFunction v = mFunction w" and "mFunctionTimerActive v = mFunctionTimerActive w"
    and "resets v = resets w"
proof -
  let ?w1 = "w\<lparr>buttonTimers := (buttonTimers w)[0 := Some APP_BUTTON_MIN_ASSERT_TIME_MS]\<rparr>"
  let ?v = "ButtonHandler_TimerCallback flash_env (word_of_nat 0) level
    (?w1\<lparr>buttonTimers := (buttonTimers ?w1)[0 := None]\<rparr>)"
  have len: "length (buttonTimers w) = 1"
    using sys.reach_inv [OF assms(1)] by (simp add: sys_inv_def ctl_inv_def wiring_inv_def kButtonCount_def)
  have "step flash_env w A_button_irq (Done ?w1)"
    using button_irq [of flash_env w] len
    by (simp add: FuncButtonCallback_def APP_FUNCTION_BUTTON_IDX_def Let_def)
  then have r1: "reach (sys_init flash_env) (sys_step flash_env) ?w1"
    by (rule reach_step [OF assms(1) flash_step]) simp
  have "step flash_env ?w1 (A_button_timer 0 level) (Done ?v)"
    by (rule button_timer) (use len in simp_all)
  then have "reach (sys_init flash_env) (sys_step flash_env) ?v"
    by (rule reach_step [OF r1 flash_step]) simp
  then show ?thesis
    by (rule that) (use assms(2) in \<open>simp_all add: ButtonHandler_TimerCallback_def ButtonEventHandler_def
      Let_def APP_FUNCTION_BUTTON_IDX_def PostEvent_queue [OF flash_env_timer(2)] APP_EVENT_QUEUE_SIZE_def
      press_event_def\<close>)
qed

lemma full_queue_reached:
  assumes "reach (sys_init flash_env) (sys_step flash_env) w" and "sAppEventQueue w = []"
  shows "\<exists>v. reach (sys_init flash_env) (sys_step flash_env) v
    \<and> length (sAppEventQueue v) = APP_EVENT_QUEUE_SIZE \<and> sLockTimer v = sLockTimer w"
proof -
  have "\<exists>v. reach (sys_init flash_env) (sys_step flash_env) v \<and> length (sAppEventQueue v) = n
      \<and> sLockTimer v = sLockTimer w" if "n \<le> 10" for n
    using that
  proof (induction n)
    case 0
    then show ?case using assms by auto
  next
    case (Suc n)
    then obtain u where u: "reach (sys_init flash_env) (sys_step flash_env) u"
      "length (sAppEventQueue u) = n" "sLockTimer u = sLockTimer w" by auto
    show ?case
      by (rule press_posts [OF u(1), of True]) (use u Suc.prems in auto)
  qed
  then show ?thesis by (simp add: APP_EVENT_QUEUE_SIZE_def)
qed

theorem lost_timer_event_stops_actuator_witness:
  "\<exists>w. reach (sys_init flash_env) (sys_step flash_env) w \<and> IsActionInProgress w
    \<and> InitiateAction flash_env kEventType_Lock LOCK_ACTION w = Done (False, w)"
proof -
  obtain w where w: "reach (sys_init flash_env) (sys_step flash_env) w"
    "length (sAppEventQueue w) = APP_EVENT_QUEUE_SIZE" "sLockTimer w = Some ACTUATOR_MOVEMENT_PERIOS_MS"
    using full_queue_reached [OF unlocking_reach unlocking_fields(3)] unlocking_fields(2) by auto
  obtain v where v: "sys_step flash_env w A_lock_timer v"
    using lock_timer [OF w(3)] flash_env_platform by (auto simp: sys_step_def goes_def)
  show ?thesis
    using lost_timer_event_stops_actuator [OF w(1,3,2) v run_nil] reach_step [OF w(1) v] by blast
qed

section \<open>The factory reset\<close>

text \<open>
  C23: along a run in which no long press of the function button is dispatched, from a state
  with nothing selected, no factory reset is scheduled.
\<close>
theorem reset_needs_long_press:
  assumes "reach (sys_init E) (sys_step E) w" and "mFunction w = kNoneSelected"
    and "run (no_press_step E) w as w'"
  shows "resets w' = resets w"
  using run_no_press [OF assms(3) sys.reach_inv [OF assms(1)] assms(2)] by simp

theorem reset_needs_long_press_witness: "resets unlocking = resets world0"
proof -
  have "no_press_step flash_env world0 (A_unlock 1 None (OperationError_other 0)) unlocking"
    using unlocking_goes flash_env_platform
    by (auto simp: no_press_step_def sys_step_def long_press_dispatch_def)
  then have "run (no_press_step flash_env) world0 [A_unlock 1 None (OperationError_other 0)] unlocking"
    by (rule run_cons [OF _ run_nil])
  from reset_needs_long_press [OF world0_reach world0_fields(4) this] show ?thesis .
qed

text \<open>
  C24: a step schedules at most one factory reset, and only when it was selected and its cancel
  window was running; and since the flag of the function timer is not cleared when the reset
  is scheduled, a boot schedules at most one: afterwards nothing can be selected any more.
\<close>
theorem reset_at_most_once:
  assumes "reach (sys_init E) (sys_step E) w" and "sys_step E w a w'"
  shows "resets w' \<le> 1
    \<and> (resets w' \<noteq> resets w \<longrightarrow> mFunction w = kFactoryReset \<and> mFunctionTimerActive w)
    \<and> (resets w' = 1 \<longrightarrow> mFunction w' = kNoneSelected \<and> mFunctionTimerActive w')"
proof -
  have "reset_once w'" using factory.reach_inv [OF reach_step [OF assms]] by simp
  moreover have "core_step E w w'"
    using step_core [of E w a w'] sys.reach_inv [OF assms(1)] assms(2) by (simp add: sys_step_def)
  ultimately show ?thesis using core_resets [of E w w'] by (auto simp: reset_once_def)
qed

text \<open>A long press selects the reset; when nothing cancels it, the timer schedules it.\<close>

lemma long_press_selects:
  assumes "reach (sys_init flash_env) (sys_step flash_env) w" and "sAppEventQueue w = [press_event False]"
    and "mFunction w = kNoneSelected" and "\<not> mFunctionTimerActive w"
  obtains v where "reach (sys_init flash_env) (sys_step flash_env) v" and "sAppEventQueue v = []"
    and "mFunction v = kFactoryReset" and "mFunctionTimerActive v" and "resets v = resets w"
    and "sFunctionTimer v = Some FACTORY_RESET_CANCEL_WINDOW_TIMEOUT"
proof -
  have idle: "sFunctionTimer w = None"
    using sys.reach_inv [OF assms(1)] assms(4) by (auto simp: sys_inv_def ctl_inv_def function_inv_def)
  let ?w1 = "w\<lparr>sAppEventQueue := [], sFunctionTimer := Some FACTORY_RESET_CANCEL_WINDOW_TIMEOUT,
    mFunctionTimerActive := True\<rparr>"
  let ?w2 = "on_led (Led_Blink_rate (clock_ms w) 500)
    (on_led (Led_Set False) (?w1\<lparr>mFunction := kFactoryReset\<rparr>))"
  have "AppTaskMain_round flash_env None w = Some (Done (on_led (Led_Animate (clock_ms ?w2)) ?w2))"
    using assms idle
    by (simp add: AppTaskMain_round_def DispatchEvent_def press_event_def FunctionHandler_def
        APP_FUNCTION_BUTTON_IDX_def AppTask_StartTimer_def collect_connectivity_def Let_def)
  from step.dispatch [OF this] have "reach (sys_init flash_env) (sys_step flash_env)
      (on_led (Led_Animate (clock_ms ?w2)) ?w2)"
    by (rule reach_step [OF assms(1) flash_step]) simp
  then show ?thesis by (rule that) simp_all
qed

lemma selected_resets:
  assumes "reach (sys_init flash_env) (sys_step flash_env) w" and "sAppEventQueue w = []"
    and "mFunction w = kFactoryReset" and "mFunctionTimerActive w"
    and "sFunctionTimer w = Some FACTORY_RESET_CANCEL_WINDOW_TIMEOUT"
  obtains v v' where "reach (sys_init flash_env) (sys_step flash_env) v"
    and "sys_step flash_env v (A_dispatch None) v'" and "resets v' = Suc (resets w)"
proof -
  let ?e = "\<lparr>Type = kEventType_Timer, evt_union = TimerEvent Ctx_AppTask,
    Handler = Some H_FunctionTimerEventHandler\<rparr>"
  let ?v = "AppTask_TimerEventHandler flash_env Ctx_AppTask (w\<lparr>sFunctionTimer := None\<rparr>)"
  have q: "sAppEventQueue ?v = [?e]"
    using assms(2) by (simp add: AppTask_TimerEventHandler_def PostEvent_queue [OF flash_env_timer(2)]
        APP_EVENT_QUEUE_SIZE_def)
  have f: "mFunction ?v = kFactoryReset" "mFunctionTimerActive ?v" "resets ?v = resets w"
    using assms by (simp_all add: AppTask_TimerEventHandler_def)
  let ?u = "emit Eff_ScheduleFactoryReset (?v\<lparr>sAppEventQueue := [], mFunction := kNoneSelected\<rparr>)"
  have "AppTaskMain_round flash_env None ?v = Some (Done (on_led (Led_Animate (clock_ms ?u)) ?u))"
    using q f by (simp add: AppTaskMain_round_def DispatchEvent_def FunctionTimerEventHandler_def
        collect_connectivity_def Let_def)
  then have "sys_step flash_env ?v (A_dispatch None) (on_led (Led_Animate (clock_ms ?u)) ?u)"
    using flash_env_platform by (simp add: sys_step_def goes_def step.dispatch)
  moreover have "reach (sys_init flash_env) (sys_step flash_env) ?v"
    by (rule reach_step [OF assms(1) flash_step [OF function_timer [OF assms(5)]]]) simp
  moreover have "resets (on_led (Led_Animate (clock_ms ?u)) ?u) = Suc (resets w)"
    using f(3) by simp
  ultimately show ?thesis using that by blast
qed

theorem reset_at_most_once_witness:
  "\<exists>w. reach (sys_init flash_env) (sys_step flash_env) w \<and> resets w = 1 \<and> mFunctionTimerActive w"
proof -
  have r0: "resets world0 = 0"
    using lockMgr_Init_resets [OF world0] static_resets by simp
  obtain u where u: "reach (sys_init flash_env) (sys_step flash_env) u"
    "sAppEventQueue u = [press_event False]" "mFunction u = kNoneSelected" "\<not> mFunctionTimerActive u"
    "resets u = 0"
    by (rule press_posts [OF world0_reach, of False]) (use world0_fields r0 in auto)
  obtain v where v: "reach (sys_init flash_env) (sys_step flash_env) v" "sAppEventQueue v = []"
    "mFunction v = kFactoryReset" "mFunctionTimerActive v" "resets v = 0"
    "sFunctionTimer v = Some FACTORY_RESET_CANCEL_WINDOW_TIMEOUT"
    by (rule long_press_selects [OF u(1-4)]) (use u(5) in auto)
  obtain x x' where x: "reach (sys_init flash_env) (sys_step flash_env) x"
    "sys_step flash_env x (A_dispatch None) x'" "resets x' = 1"
    by (rule selected_resets [OF v(1-4,6)]) (use v(5) in auto)
  show ?thesis using reset_at_most_once [OF x(1,2)] x reach_step [OF x(1,2)] by blast
qed

section \<open>The LED and the button\<close>

text \<open>
  C25: on a board without the display, whenever the bolt rests and no reset is selected or was
  scheduled, the lock LED is on exactly when the bolt is locked, and does not blink.
\<close>
theorem led_shows_lock:
  assumes "reach (sys_init E) (sys_step E) w" and "\<not> ENABLE_UI E" and "at_rest (mState w)"
    and "mFunction w \<noteq> kFactoryReset" and "\<not> mFunctionTimerActive w"
  shows "led_mState (sLockLED w) = (mState w = kState_LockCompleted)
    \<and> mBlinkOnTimeMS (sLockLED w) = 0 \<and> mBlinkOffTimeMS (sLockLED w) = 0"
  using led.reach_inv [OF assms(1)] assms(2-)
  by (auto simp: led_inv_def shows_lock_def steady_def NextState_def at_rest_def)

theorem led_shows_lock_witness: "led_mState (sLockLED world0)"
  using led_shows_lock [OF world0_reach] world0_fields by (simp add: at_rest_def)

text \<open>
  C35: on a board other than the CYW955913EVK-01 the button's interrupt reads past the array of
  button timers.
\<close>
theorem button_irq_out_of_bounds:
  assumes "reach (sys_init E) (sys_step E) w" and "\<not> CYW955913EVK_01 E"
  shows "step E w A_button_irq Undef"
proof -
  have "length (buttonTimers w) = 1"
    using sys.reach_inv [OF assms(1)] by (simp add: sys_inv_def ctl_inv_def wiring_inv_def kButtonCount_def)
  then show ?thesis
    using button_irq [of E w] assms(2) by (simp add: FuncButtonCallback_def APP_FUNCTION_BUTTON_IDX_def Let_def)
qed

text \<open>The environment of the witnesses on another board.\<close>

definition other_board :: env where
  "other_board = flash_env\<lparr>CYW955913EVK_01 := False\<rparr>"

lemma other_board_platform: "platform_ok other_board"
  using flash_env_platform
  by (simp add: other_board_def platform_ok_def timer_ok_def queue_ok_def db_env_ok_def
      credential_types_ok_def copy_string_ok_def flash_ok_def credential_rep_ok_def user_rep_ok_def
      schedule_reps_ok_def)

lemma other_board_init: "\<exists>w. sys_init other_board w"
proof -
  have "rtos_timer_init other_board t" for t by (simp add: other_board_def)
  then show ?thesis
    using boot_returns [of other_board "static_world other_board Map.empty"] other_board_platform
    unfolding sys_init_def booted_def by blast
qed

theorem button_irq_out_of_bounds_witness: "\<exists>w. step other_board w A_button_irq Undef"
proof -
  obtain w where "sys_init other_board w" using other_board_init by blast
  then have "step other_board w A_button_irq Undef"
    by (intro button_irq_out_of_bounds reach_init) (simp_all add: other_board_def)
  then show ?thesis by blast
qed

end
