(* ===== verification/EndpointConfig.thy ===== *)
theory EndpointConfig
  imports Prelude
begin

text \<open>
  \<open>src/zap-generated/endpoint_config.h\<close>: the tables the data model server is built from, with
  the endpoints, clusters, attributes, commands and events of the lock. An index macro
  (\<open>ZAP_ATTRIBUTE_INDEX\<close> and the like) is the index itself, a pointer that may be null an
  option, and \<open>chip::kInvalidCommandId\<close>, which ends a list of commands, is \<open>None\<close>.
\<close>

section \<open>Attributes\<close>

datatype EmberAfDefault =
    ZAP_EMPTY_DEFAULT
  | ZAP_SIMPLE_DEFAULT u32
  | ZAP_LONG_DEFAULTS_INDEX nat
  | ZAP_MIN_MAX_DEFAULTS_INDEX nat

datatype zap_type =
    ZAP_ARRAY
  | ZAP_BITMAP32
  | ZAP_INT16U
  | ZAP_CHAR_STRING
  | ZAP_VENDOR_ID
  | ZAP_INT32U
  | ZAP_STRUCT
  | ZAP_INT64U
  | ZAP_ENUM8
  | ZAP_BOOLEAN
  | ZAP_INT8U
  | ZAP_OCTET_STRING
  | ZAP_INT32S
  | ZAP_FABRIC_IDX
  | ZAP_BITMAP8
  | ZAP_BITMAP16

datatype zap_mask =
    MASK_EXTERNAL_STORAGE
  | MASK_WRITABLE
  | MASK_SINGLETON
  | MASK_TOKENIZE
  | MASK_NULLABLE
  | MASK_MIN_MAX

record EmberAfAttributeMetadata =
  defaultValue :: EmberAfDefault
  attributeId :: u32
  attr_size :: nat
  attributeType :: zap_type
  attr_mask :: "zap_mask list"

record EmberAfAttributeMinMaxValue =
  mm_default :: u16
  mm_min :: u16
  mm_max :: u16

definition attr_row :: "EmberAfDefault \<Rightarrow> u32 \<Rightarrow> nat \<Rightarrow> zap_type \<Rightarrow> zap_mask list \<Rightarrow> EmberAfAttributeMetadata" where
  "attr_row d i n t m = \<lparr>defaultValue = d, attributeId = i, attr_size = n, attributeType = t, attr_mask = m\<rparr>"

definition GENERATED_DEFAULTS :: "byte list" where
  "GENERATED_DEFAULTS = [0, 0, 0, 0, 0, 0, 0, 0]"

definition GENERATED_MIN_MAX_DEFAULTS :: "EmberAfAttributeMinMaxValue list" where
  "GENERATED_MIN_MAX_DEFAULTS =
     [\<lparr>mm_default = 0, mm_min = 0, mm_max = 3\<rparr>,
      \<lparr>mm_default = 0, mm_min = 0, mm_max = 4\<rparr>,
      \<lparr>mm_default = 3, mm_min = 1, mm_max = 255\<rparr>,
      \<lparr>mm_default = 10, mm_min = 1, mm_max = 255\<rparr>]"

definition GENERATED_ATTRIBUTE_COUNT :: nat where "GENERATED_ATTRIBUTE_COUNT = 108"

definition GENERATED_ATTRIBUTES :: "EmberAfAttributeMetadata list" where
  "GENERATED_ATTRIBUTES =
     [
      \<comment> \<open>Endpoint: 0, Cluster: Descriptor (server)\<close>
      attr_row ZAP_EMPTY_DEFAULT 0x0 0 ZAP_ARRAY [MASK_EXTERNAL_STORAGE],
      attr_row ZAP_EMPTY_DEFAULT 0x1 0 ZAP_ARRAY [MASK_EXTERNAL_STORAGE],
      attr_row ZAP_EMPTY_DEFAULT 0x2 0 ZAP_ARRAY [MASK_EXTERNAL_STORAGE],
      attr_row ZAP_EMPTY_DEFAULT 0x3 0 ZAP_ARRAY [MASK_EXTERNAL_STORAGE],
      attr_row ZAP_EMPTY_DEFAULT 0xfffc 4 ZAP_BITMAP32 [MASK_EXTERNAL_STORAGE],
      attr_row ZAP_EMPTY_DEFAULT 0xfffd 2 ZAP_INT16U [MASK_EXTERNAL_STORAGE],
      \<comment> \<open>Endpoint: 0, Cluster: Access Control (server)\<close>
      attr_row ZAP_EMPTY_DEFAULT 0x0 0 ZAP_ARRAY [MASK_EXTERNAL_STORAGE, MASK_WRITABLE],
      attr_row ZAP_EMPTY_DEFAULT 0x1 0 ZAP_ARRAY [MASK_EXTERNAL_STORAGE, MASK_WRITABLE],
      attr_row ZAP_EMPTY_DEFAULT 0x2 2 ZAP_INT16U [MASK_EXTERNAL_STORAGE],
      attr_row ZAP_EMPTY_DEFAULT 0x3 2 ZAP_INT16U [MASK_EXTERNAL_STORAGE],
      attr_row ZAP_EMPTY_DEFAULT 0x4 2 ZAP_INT16U [MASK_EXTERNAL_STORAGE],
      attr_row ZAP_EMPTY_DEFAULT 0xfffc 4 ZAP_BITMAP32 [MASK_EXTERNAL_STORAGE],
      attr_row ZAP_EMPTY_DEFAULT 0xfffd 2 ZAP_INT16U [MASK_EXTERNAL_STORAGE],
      \<comment> \<open>Endpoint: 0, Cluster: Basic Information (server)\<close>
      attr_row ZAP_EMPTY_DEFAULT 0x0 2 ZAP_INT16U [MASK_EXTERNAL_STORAGE, MASK_SINGLETON],
      attr_row ZAP_EMPTY_DEFAULT 0x1 33 ZAP_CHAR_STRING [MASK_EXTERNAL_STORAGE, MASK_SINGLETON],
      attr_row ZAP_EMPTY_DEFAULT 0x2 2 ZAP_VENDOR_ID [MASK_EXTERNAL_STORAGE, MASK_SINGLETON],
      attr_row ZAP_EMPTY_DEFAULT 0x3 33 ZAP_CHAR_STRING [MASK_EXTERNAL_STORAGE, MASK_SINGLETON],
      attr_row ZAP_EMPTY_DEFAULT 0x4 2 ZAP_INT16U [MASK_EXTERNAL_STORAGE, MASK_SINGLETON],
      attr_row ZAP_EMPTY_DEFAULT 0x5 33 ZAP_CHAR_STRING [MASK_TOKENIZE, MASK_SINGLETON, MASK_WRITABLE],
      attr_row ZAP_EMPTY_DEFAULT 0x6 3 ZAP_CHAR_STRING [MASK_EXTERNAL_STORAGE, MASK_SINGLETON, MASK_WRITABLE],
      attr_row ZAP_EMPTY_DEFAULT 0x7 2 ZAP_INT16U [MASK_EXTERNAL_STORAGE, MASK_SINGLETON],
      attr_row ZAP_EMPTY_DEFAULT 0x8 65 ZAP_CHAR_STRING [MASK_EXTERNAL_STORAGE, MASK_SINGLETON],
      attr_row ZAP_EMPTY_DEFAULT 0x9 4 ZAP_INT32U [MASK_EXTERNAL_STORAGE, MASK_SINGLETON],
      attr_row ZAP_EMPTY_DEFAULT 0xa 65 ZAP_CHAR_STRING [MASK_EXTERNAL_STORAGE, MASK_SINGLETON],
      attr_row ZAP_EMPTY_DEFAULT 0x12 33 ZAP_CHAR_STRING [MASK_EXTERNAL_STORAGE, MASK_SINGLETON],
      attr_row ZAP_EMPTY_DEFAULT 0x13 0 ZAP_STRUCT [MASK_EXTERNAL_STORAGE],
      attr_row ZAP_EMPTY_DEFAULT 0x15 4 ZAP_INT32U [MASK_EXTERNAL_STORAGE, MASK_SINGLETON],
      attr_row ZAP_EMPTY_DEFAULT 0x16 2 ZAP_INT16U [MASK_EXTERNAL_STORAGE, MASK_SINGLETON],
      attr_row (ZAP_SIMPLE_DEFAULT 1) 0x18 4 ZAP_INT32U [MASK_TOKENIZE, MASK_SINGLETON],
      attr_row (ZAP_SIMPLE_DEFAULT 0) 0xfffc 4 ZAP_BITMAP32 [],
      attr_row (ZAP_SIMPLE_DEFAULT 5) 0xfffd 2 ZAP_INT16U [MASK_SINGLETON],
      \<comment> \<open>Endpoint: 0, Cluster: General Commissioning (server)\<close>
      attr_row (ZAP_LONG_DEFAULTS_INDEX 0) 0x0 8 ZAP_INT64U [MASK_WRITABLE],
      attr_row ZAP_EMPTY_DEFAULT 0x1 0 ZAP_STRUCT [MASK_EXTERNAL_STORAGE],
      attr_row ZAP_EMPTY_DEFAULT 0x2 1 ZAP_ENUM8 [MASK_EXTERNAL_STORAGE],
      attr_row ZAP_EMPTY_DEFAULT 0x3 1 ZAP_ENUM8 [MASK_EXTERNAL_STORAGE],
      attr_row ZAP_EMPTY_DEFAULT 0x4 1 ZAP_BOOLEAN [MASK_EXTERNAL_STORAGE],
      attr_row (ZAP_SIMPLE_DEFAULT 0) 0xfffc 4 ZAP_BITMAP32 [],
      attr_row ZAP_EMPTY_DEFAULT 0xfffd 2 ZAP_INT16U [MASK_EXTERNAL_STORAGE],
      \<comment> \<open>Endpoint: 0, Cluster: Network Commissioning (server)\<close>
      attr_row ZAP_EMPTY_DEFAULT 0x0 1 ZAP_INT8U [MASK_EXTERNAL_STORAGE],
      attr_row ZAP_EMPTY_DEFAULT 0x1 0 ZAP_ARRAY [MASK_EXTERNAL_STORAGE],
      attr_row ZAP_EMPTY_DEFAULT 0x2 1 ZAP_INT8U [MASK_EXTERNAL_STORAGE],
      attr_row ZAP_EMPTY_DEFAULT 0x3 1 ZAP_INT8U [MASK_EXTERNAL_STORAGE],
      attr_row ZAP_EMPTY_DEFAULT 0x4 1 ZAP_BOOLEAN [MASK_EXTERNAL_STORAGE, MASK_WRITABLE],
      attr_row ZAP_EMPTY_DEFAULT 0x5 1 ZAP_ENUM8 [MASK_EXTERNAL_STORAGE, MASK_NULLABLE],
      attr_row ZAP_EMPTY_DEFAULT 0x6 33 ZAP_OCTET_STRING [MASK_EXTERNAL_STORAGE, MASK_NULLABLE],
      attr_row ZAP_EMPTY_DEFAULT 0x7 4 ZAP_INT32S [MASK_EXTERNAL_STORAGE, MASK_NULLABLE],
      attr_row ZAP_EMPTY_DEFAULT 0x8 0 ZAP_ARRAY [MASK_EXTERNAL_STORAGE],
      attr_row ZAP_EMPTY_DEFAULT 0xfffc 4 ZAP_BITMAP32 [MASK_EXTERNAL_STORAGE],
      attr_row ZAP_EMPTY_DEFAULT 0xfffd 2 ZAP_INT16U [MASK_EXTERNAL_STORAGE],
      \<comment> \<open>Endpoint: 0, Cluster: General Diagnostics (server)\<close>
      attr_row ZAP_EMPTY_DEFAULT 0x0 0 ZAP_ARRAY [MASK_EXTERNAL_STORAGE],
      attr_row ZAP_EMPTY_DEFAULT 0x1 2 ZAP_INT16U [MASK_EXTERNAL_STORAGE],
      attr_row ZAP_EMPTY_DEFAULT 0x2 8 ZAP_INT64U [MASK_EXTERNAL_STORAGE],
      attr_row ZAP_EMPTY_DEFAULT 0x8 1 ZAP_BOOLEAN [MASK_EXTERNAL_STORAGE],
      attr_row ZAP_EMPTY_DEFAULT 0xfffc 4 ZAP_BITMAP32 [MASK_EXTERNAL_STORAGE],
      attr_row ZAP_EMPTY_DEFAULT 0xfffd 2 ZAP_INT16U [MASK_EXTERNAL_STORAGE],
      \<comment> \<open>Endpoint: 0, Cluster: Administrator Commissioning (server)\<close>
      attr_row ZAP_EMPTY_DEFAULT 0x0 1 ZAP_ENUM8 [MASK_EXTERNAL_STORAGE],
      attr_row ZAP_EMPTY_DEFAULT 0x1 1 ZAP_FABRIC_IDX [MASK_EXTERNAL_STORAGE, MASK_NULLABLE],
      attr_row ZAP_EMPTY_DEFAULT 0x2 2 ZAP_VENDOR_ID [MASK_EXTERNAL_STORAGE, MASK_NULLABLE],
      attr_row (ZAP_SIMPLE_DEFAULT 0) 0xfffc 4 ZAP_BITMAP32 [],
      attr_row ZAP_EMPTY_DEFAULT 0xfffd 2 ZAP_INT16U [MASK_EXTERNAL_STORAGE],
      \<comment> \<open>Endpoint: 0, Cluster: Operational Credentials (server)\<close>
      attr_row ZAP_EMPTY_DEFAULT 0x0 0 ZAP_ARRAY [MASK_EXTERNAL_STORAGE],
      attr_row ZAP_EMPTY_DEFAULT 0x1 0 ZAP_ARRAY [MASK_EXTERNAL_STORAGE],
      attr_row ZAP_EMPTY_DEFAULT 0x2 1 ZAP_INT8U [MASK_EXTERNAL_STORAGE],
      attr_row ZAP_EMPTY_DEFAULT 0x3 1 ZAP_INT8U [MASK_EXTERNAL_STORAGE],
      attr_row ZAP_EMPTY_DEFAULT 0x4 0 ZAP_ARRAY [MASK_EXTERNAL_STORAGE],
      attr_row ZAP_EMPTY_DEFAULT 0x5 1 ZAP_INT8U [MASK_EXTERNAL_STORAGE],
      attr_row (ZAP_SIMPLE_DEFAULT 0) 0xfffc 4 ZAP_BITMAP32 [],
      attr_row (ZAP_SIMPLE_DEFAULT 2) 0xfffd 2 ZAP_INT16U [],
      \<comment> \<open>Endpoint: 0, Cluster: Group Key Management (server)\<close>
      attr_row ZAP_EMPTY_DEFAULT 0x0 0 ZAP_ARRAY [MASK_EXTERNAL_STORAGE, MASK_WRITABLE],
      attr_row ZAP_EMPTY_DEFAULT 0x1 0 ZAP_ARRAY [MASK_EXTERNAL_STORAGE],
      attr_row ZAP_EMPTY_DEFAULT 0x2 2 ZAP_INT16U [MASK_EXTERNAL_STORAGE],
      attr_row ZAP_EMPTY_DEFAULT 0x3 2 ZAP_INT16U [MASK_EXTERNAL_STORAGE],
      attr_row ZAP_EMPTY_DEFAULT 0xfffc 4 ZAP_BITMAP32 [MASK_EXTERNAL_STORAGE],
      attr_row ZAP_EMPTY_DEFAULT 0xfffd 2 ZAP_INT16U [MASK_EXTERNAL_STORAGE],
      \<comment> \<open>Endpoint: 1, Cluster: Identify (server)\<close>
      attr_row (ZAP_SIMPLE_DEFAULT 0) 0x0 2 ZAP_INT16U [MASK_WRITABLE],
      attr_row (ZAP_SIMPLE_DEFAULT 0) 0x1 1 ZAP_ENUM8 [],
      attr_row (ZAP_SIMPLE_DEFAULT 0) 0xfffc 4 ZAP_BITMAP32 [],
      attr_row (ZAP_SIMPLE_DEFAULT 6) 0xfffd 2 ZAP_INT16U [],
      \<comment> \<open>Endpoint: 1, Cluster: Descriptor (server)\<close>
      attr_row ZAP_EMPTY_DEFAULT 0x0 0 ZAP_ARRAY [MASK_EXTERNAL_STORAGE],
      attr_row ZAP_EMPTY_DEFAULT 0x1 0 ZAP_ARRAY [MASK_EXTERNAL_STORAGE],
      attr_row ZAP_EMPTY_DEFAULT 0x2 0 ZAP_ARRAY [MASK_EXTERNAL_STORAGE],
      attr_row ZAP_EMPTY_DEFAULT 0x3 0 ZAP_ARRAY [MASK_EXTERNAL_STORAGE],
      attr_row ZAP_EMPTY_DEFAULT 0xfffc 4 ZAP_BITMAP32 [MASK_EXTERNAL_STORAGE],
      attr_row ZAP_EMPTY_DEFAULT 0xfffd 2 ZAP_INT16U [MASK_EXTERNAL_STORAGE],
      \<comment> \<open>Endpoint: 1, Cluster: Door Lock (server)\<close>
      attr_row (ZAP_SIMPLE_DEFAULT 1) 0x0 1 ZAP_ENUM8 [MASK_TOKENIZE, MASK_NULLABLE],
      attr_row ZAP_EMPTY_DEFAULT 0x1 1 ZAP_ENUM8 [],
      attr_row ZAP_EMPTY_DEFAULT 0x2 1 ZAP_BOOLEAN [],
      attr_row ZAP_EMPTY_DEFAULT 0x3 1 ZAP_ENUM8 [MASK_NULLABLE],
      attr_row (ZAP_SIMPLE_DEFAULT 10) 0x11 2 ZAP_INT16U [],
      attr_row (ZAP_SIMPLE_DEFAULT 10) 0x12 2 ZAP_INT16U [],
      attr_row (ZAP_SIMPLE_DEFAULT 10) 0x13 2 ZAP_INT16U [],
      attr_row (ZAP_SIMPLE_DEFAULT 10) 0x14 1 ZAP_INT8U [],
      attr_row (ZAP_SIMPLE_DEFAULT 10) 0x15 1 ZAP_INT8U [],
      attr_row (ZAP_SIMPLE_DEFAULT 10) 0x16 1 ZAP_INT8U [],
      attr_row (ZAP_SIMPLE_DEFAULT 8) 0x17 1 ZAP_INT8U [],
      attr_row (ZAP_SIMPLE_DEFAULT 6) 0x18 1 ZAP_INT8U [],
      attr_row (ZAP_SIMPLE_DEFAULT 20) 0x19 1 ZAP_INT8U [],
      attr_row (ZAP_SIMPLE_DEFAULT 10) 0x1a 1 ZAP_INT8U [],
      attr_row (ZAP_SIMPLE_DEFAULT 1) 0x1b 1 ZAP_BITMAP8 [],
      attr_row (ZAP_SIMPLE_DEFAULT 5) 0x1c 1 ZAP_INT8U [],
      attr_row (ZAP_MIN_MAX_DEFAULTS_INDEX 0) 0x24 1 ZAP_INT8U [MASK_MIN_MAX, MASK_WRITABLE],
      attr_row (ZAP_MIN_MAX_DEFAULTS_INDEX 1) 0x25 1 ZAP_ENUM8 [MASK_MIN_MAX, MASK_WRITABLE],
      attr_row (ZAP_SIMPLE_DEFAULT 65526) 0x26 2 ZAP_BITMAP16 [],
      attr_row (ZAP_MIN_MAX_DEFAULTS_INDEX 2) 0x30 1 ZAP_INT8U [MASK_MIN_MAX, MASK_WRITABLE],
      attr_row (ZAP_MIN_MAX_DEFAULTS_INDEX 3) 0x31 1 ZAP_INT8U [MASK_MIN_MAX, MASK_WRITABLE],
      attr_row (ZAP_SIMPLE_DEFAULT 0) 0x33 1 ZAP_BOOLEAN [MASK_WRITABLE],
      attr_row (ZAP_SIMPLE_DEFAULT 7603) 0xfffc 4 ZAP_BITMAP32 [],
      attr_row (ZAP_SIMPLE_DEFAULT 9) 0xfffd 2 ZAP_INT16U []]"

section \<open>Commands and events\<close>

definition GENERATED_EVENT_COUNT :: nat where "GENERATED_EVENT_COUNT = 9"

definition GENERATED_EVENTS :: "u32 list" where
  "GENERATED_EVENTS = [0, 1, 0, 3, 0, 1, 2, 3, 4]"

definition GENERATED_COMMANDS :: "u32 option list" where
  "GENERATED_COMMANDS =
     [
      \<comment> \<open>endpoint 0, General Commissioning\<close>
      Some 0x0,
      Some 0x2,
      Some 0x4,
      None,
      Some 0x1,
      Some 0x3,
      Some 0x5,
      None,
      \<comment> \<open>endpoint 0, Network Commissioning\<close>
      Some 0x0,
      Some 0x2,
      Some 0x4,
      Some 0x6,
      Some 0x8,
      Some 0x9,
      None,
      Some 0x1,
      Some 0x5,
      Some 0x7,
      Some 0xa,
      None,
      \<comment> \<open>endpoint 0, General Diagnostics\<close>
      Some 0x0,
      Some 0x1,
      None,
      Some 0x2,
      None,
      \<comment> \<open>endpoint 0, Administrator Commissioning\<close>
      Some 0x0,
      Some 0x2,
      None,
      \<comment> \<open>endpoint 0, Operational Credentials\<close>
      Some 0x0,
      Some 0x2,
      Some 0x4,
      Some 0x6,
      Some 0x7,
      Some 0x9,
      Some 0xa,
      Some 0xb,
      Some 0xc,
      Some 0xd,
      None,
      Some 0x1,
      Some 0x3,
      Some 0x5,
      Some 0x8,
      Some 0xe,
      None,
      \<comment> \<open>endpoint 0, Group Key Management\<close>
      Some 0x0,
      Some 0x1,
      Some 0x3,
      Some 0x4,
      None,
      Some 0x2,
      Some 0x5,
      None,
      \<comment> \<open>endpoint 1, Identify\<close>
      Some 0x0,
      Some 0x40,
      None,
      \<comment> \<open>endpoint 1, Door Lock\<close>
      Some 0x0,
      Some 0x1,
      Some 0x3,
      Some 0xb,
      Some 0xc,
      Some 0xd,
      Some 0xe,
      Some 0xf,
      Some 0x10,
      Some 0x11,
      Some 0x12,
      Some 0x13,
      Some 0x1a,
      Some 0x1b,
      Some 0x1d,
      Some 0x22,
      Some 0x24,
      Some 0x26,
      Some 0x27,
      None,
      Some 0xc,
      Some 0xf,
      Some 0x12,
      Some 0x1c,
      Some 0x23,
      Some 0x25,
      None]"

section \<open>Clusters and endpoints\<close>

datatype cluster_mask =
    CLUSTER_MASK_SERVER
  | CLUSTER_MASK_INIT_FUNCTION
  | CLUSTER_MASK_ATTRIBUTE_CHANGED_FUNCTION
  | CLUSTER_MASK_SHUTDOWN_FUNCTION
  | CLUSTER_MASK_PRE_ATTRIBUTE_CHANGED_FUNCTION

datatype cluster_function =
    emberAfIdentifyClusterServerInitCallback
  | MatterIdentifyClusterServerAttributeChangedCallback
  | MatterDoorLockClusterServerAttributeChangedCallback
  | MatterDoorLockClusterServerShutdownCallback
  | MatterDoorLockClusterServerPreAttributeChangedCallback

definition chipFuncArrayIdentifyServer :: "cluster_function list" where
  "chipFuncArrayIdentifyServer =
     [emberAfIdentifyClusterServerInitCallback,
      MatterIdentifyClusterServerAttributeChangedCallback]"

definition chipFuncArrayDoorLockServer :: "cluster_function list" where
  "chipFuncArrayDoorLockServer =
     [MatterDoorLockClusterServerAttributeChangedCallback,
      MatterDoorLockClusterServerShutdownCallback,
      MatterDoorLockClusterServerPreAttributeChangedCallback]"

record EmberAfCluster =
  clusterId :: u32
  cl_attributes :: nat
  attributeCount :: nat
  clusterSize :: nat
  cl_mask :: "cluster_mask list"
  cl_functions :: "cluster_function list option"
  acceptedCommandList :: "nat option"
  generatedCommandList :: "nat option"
  eventList :: "nat option"
  eventCount :: nat

definition GENERATED_CLUSTER_COUNT :: nat where "GENERATED_CLUSTER_COUNT = 12"

definition GENERATED_CLUSTERS :: "EmberAfCluster list" where
  "GENERATED_CLUSTERS =
     [
      \<comment> \<open>Endpoint: 0, Cluster: Descriptor (server)\<close>
      \<lparr>clusterId = 0x1d, cl_attributes = 0, attributeCount = 6, clusterSize = 0,
        cl_mask = [CLUSTER_MASK_SERVER],
        cl_functions = None, acceptedCommandList = None,
        generatedCommandList = None, eventList = None, eventCount = 0\<rparr>,
      \<comment> \<open>Endpoint: 0, Cluster: Access Control (server)\<close>
      \<lparr>clusterId = 0x1f, cl_attributes = 6, attributeCount = 7, clusterSize = 0,
        cl_mask = [CLUSTER_MASK_SERVER],
        cl_functions = None, acceptedCommandList = None,
        generatedCommandList = None, eventList = Some 0, eventCount = 2\<rparr>,
      \<comment> \<open>Endpoint: 0, Cluster: Basic Information (server)\<close>
      \<lparr>clusterId = 0x28, cl_attributes = 13, attributeCount = 18, clusterSize = 43,
        cl_mask = [CLUSTER_MASK_SERVER],
        cl_functions = None, acceptedCommandList = None,
        generatedCommandList = None, eventList = Some 2, eventCount = 1\<rparr>,
      \<comment> \<open>Endpoint: 0, Cluster: General Commissioning (server)\<close>
      \<lparr>clusterId = 0x30, cl_attributes = 31, attributeCount = 7, clusterSize = 12,
        cl_mask = [CLUSTER_MASK_SERVER],
        cl_functions = None, acceptedCommandList = Some 0,
        generatedCommandList = Some 4, eventList = None, eventCount = 0\<rparr>,
      \<comment> \<open>Endpoint: 0, Cluster: Network Commissioning (server)\<close>
      \<lparr>clusterId = 0x31, cl_attributes = 38, attributeCount = 11, clusterSize = 0,
        cl_mask = [CLUSTER_MASK_SERVER],
        cl_functions = None, acceptedCommandList = Some 8,
        generatedCommandList = Some 15, eventList = None, eventCount = 0\<rparr>,
      \<comment> \<open>Endpoint: 0, Cluster: General Diagnostics (server)\<close>
      \<lparr>clusterId = 0x33, cl_attributes = 49, attributeCount = 6, clusterSize = 0,
        cl_mask = [CLUSTER_MASK_SERVER],
        cl_functions = None, acceptedCommandList = Some 20,
        generatedCommandList = Some 23, eventList = Some 3, eventCount = 1\<rparr>,
      \<comment> \<open>Endpoint: 0, Cluster: Administrator Commissioning (server)\<close>
      \<lparr>clusterId = 0x3c, cl_attributes = 55, attributeCount = 5, clusterSize = 4,
        cl_mask = [CLUSTER_MASK_SERVER],
        cl_functions = None, acceptedCommandList = Some 25,
        generatedCommandList = None, eventList = None, eventCount = 0\<rparr>,
      \<comment> \<open>Endpoint: 0, Cluster: Operational Credentials (server)\<close>
      \<lparr>clusterId = 0x3e, cl_attributes = 60, attributeCount = 8, clusterSize = 6,
        cl_mask = [CLUSTER_MASK_SERVER],
        cl_functions = None, acceptedCommandList = Some 28,
        generatedCommandList = Some 39, eventList = None, eventCount = 0\<rparr>,
      \<comment> \<open>Endpoint: 0, Cluster: Group Key Management (server)\<close>
      \<lparr>clusterId = 0x3f, cl_attributes = 68, attributeCount = 6, clusterSize = 0,
        cl_mask = [CLUSTER_MASK_SERVER],
        cl_functions = None, acceptedCommandList = Some 45,
        generatedCommandList = Some 50, eventList = None, eventCount = 0\<rparr>,
      \<comment> \<open>Endpoint: 1, Cluster: Identify (server)\<close>
      \<lparr>clusterId = 0x3, cl_attributes = 74, attributeCount = 4, clusterSize = 9,
        cl_mask = [CLUSTER_MASK_SERVER, CLUSTER_MASK_INIT_FUNCTION, CLUSTER_MASK_ATTRIBUTE_CHANGED_FUNCTION],
        cl_functions = Some chipFuncArrayIdentifyServer, acceptedCommandList = Some 53,
        generatedCommandList = None, eventList = None, eventCount = 0\<rparr>,
      \<comment> \<open>Endpoint: 1, Cluster: Descriptor (server)\<close>
      \<lparr>clusterId = 0x1d, cl_attributes = 78, attributeCount = 6, clusterSize = 0,
        cl_mask = [CLUSTER_MASK_SERVER],
        cl_functions = None, acceptedCommandList = None,
        generatedCommandList = None, eventList = None, eventCount = 0\<rparr>,
      \<comment> \<open>Endpoint: 1, Cluster: Door Lock (server)\<close>
      \<lparr>clusterId = 0x101, cl_attributes = 84, attributeCount = 24, clusterSize = 32,
        cl_mask = [CLUSTER_MASK_SERVER, CLUSTER_MASK_ATTRIBUTE_CHANGED_FUNCTION, CLUSTER_MASK_SHUTDOWN_FUNCTION, CLUSTER_MASK_PRE_ATTRIBUTE_CHANGED_FUNCTION],
        cl_functions = Some chipFuncArrayDoorLockServer, acceptedCommandList = Some 56,
        generatedCommandList = Some 76, eventList = Some 4, eventCount = 5\<rparr>]"

record EmberAfEndpointType =
  et_cluster :: nat
  et_clusterCount :: nat
  endpointSize :: nat

definition GENERATED_ENDPOINT_TYPES :: "EmberAfEndpointType list" where
  "GENERATED_ENDPOINT_TYPES =
     [\<lparr>et_cluster = 0, et_clusterCount = 9, endpointSize = 65\<rparr>,
      \<lparr>et_cluster = 9, et_clusterCount = 3, endpointSize = 41\<rparr>]"

definition ATTRIBUTE_LARGEST :: nat where "ATTRIBUTE_LARGEST = 66"
definition ATTRIBUTE_SINGLETONS_SIZE :: nat where "ATTRIBUTE_SINGLETONS_SIZE = 39"
definition ATTRIBUTE_MAX_SIZE :: nat where "ATTRIBUTE_MAX_SIZE = 106"
definition FIXED_ENDPOINT_COUNT :: nat where "FIXED_ENDPOINT_COUNT = 2"
definition FIXED_ENDPOINT_ARRAY :: "u16 list" where "FIXED_ENDPOINT_ARRAY = [0, 1]"
definition FIXED_DEVICE_TYPES :: "(u32 \<times> nat) list" where "FIXED_DEVICE_TYPES = [(0x16, 3), (0x0A, 3)]"
definition FIXED_DEVICE_TYPE_OFFSETS :: "nat list" where "FIXED_DEVICE_TYPE_OFFSETS = [0, 1]"
definition FIXED_DEVICE_TYPE_LENGTHS :: "nat list" where "FIXED_DEVICE_TYPE_LENGTHS = [1, 1]"
definition FIXED_ENDPOINT_TYPES :: "nat list" where "FIXED_ENDPOINT_TYPES = [0, 1]"

section \<open>Reading the tables\<close>

text \<open>The clusters of an endpoint type, the rows of a cluster, and the commands of a list up to its end.\<close>

definition type_clusters :: "EmberAfEndpointType \<Rightarrow> EmberAfCluster list" where
  "type_clusters t = take (et_clusterCount t) (drop (et_cluster t) GENERATED_CLUSTERS)"

definition cluster_attributes :: "EmberAfCluster \<Rightarrow> EmberAfAttributeMetadata list" where
  "cluster_attributes c = take (attributeCount c) (drop (cl_attributes c) GENERATED_ATTRIBUTES)"

fun command_list :: "u32 option list \<Rightarrow> u32 list" where
  "command_list [] = []"
| "command_list (None # cs) = []"
| "command_list (Some c # cs) = c # command_list cs"

definition commands_at :: "nat option \<Rightarrow> u32 list" where
  "commands_at i = (case i of None \<Rightarrow> [] | Some k \<Rightarrow> command_list (drop k GENERATED_COMMANDS))"

text \<open>An attribute the server keeps in its own RAM: not external, and not a singleton.\<close>

definition stored_size :: "EmberAfAttributeMetadata \<Rightarrow> nat" where
  "stored_size a = (if MASK_EXTERNAL_STORAGE \<in> set (attr_mask a) then 0 else attr_size a)"

definition singleton_size :: "EmberAfAttributeMetadata \<Rightarrow> nat" where
  "singleton_size a = (if MASK_SINGLETON \<in> set (attr_mask a) then stored_size a else 0)"

end
