(* ===== verification/StaticConfig.thy ===== *)
theory StaticConfig
  imports Prelude
begin

text \<open>
  \<open>include/app/static-cluster-config\<close>: for each of the eleven clusters the attributes and
  commands its endpoints enable, and the two predicates the cluster code asks at compile time.
  The identifiers are constants of the SDK: a name stands for \<open>Attributes::<name>::Id\<close>,
  \<open>Commands::<name>::Id\<close> or a bit of \<open>Feature\<close>, and the predicates take the function \<open>ident\<close>
  from names to numbers. A \<open>switch\<close> that returns true for its labels tests membership.
\<close>

datatype ClusterName =
    Cl_Descriptor
  | Cl_AccessControl
  | Cl_BasicInformation
  | Cl_GeneralCommissioning
  | Cl_NetworkCommissioning
  | Cl_GeneralDiagnostics
  | Cl_AdministratorCommissioning
  | Cl_OperationalCredentials
  | Cl_GroupKeyManagement
  | Cl_Identify
  | Cl_DoorLock

record ClusterConfiguration =
  endpointNumber :: u16
  featureMap :: "string list"
  enabledAttributes :: "string list"
  enabledCommands :: "string list"

section \<open>Descriptor\<close>

definition Descriptor_kEndpoint0EnabledAttributes :: "string list" where
  "Descriptor_kEndpoint0EnabledAttributes =
     [''AcceptedCommandList'', ''AttributeList'', ''ClientList'', ''ClusterRevision'',
      ''DeviceTypeList'', ''FeatureMap'', ''GeneratedCommandList'', ''PartsList'',
      ''ServerList'']"

definition Descriptor_kEndpoint1EnabledAttributes :: "string list" where
  "Descriptor_kEndpoint1EnabledAttributes =
     [''AcceptedCommandList'', ''AttributeList'', ''ClientList'', ''ClusterRevision'',
      ''DeviceTypeList'', ''FeatureMap'', ''GeneratedCommandList'', ''PartsList'',
      ''ServerList'']"

definition Descriptor_kFixedClusterConfig :: "ClusterConfiguration list" where
  "Descriptor_kFixedClusterConfig =
     [\<lparr>endpointNumber = 0,
       featureMap = [],
       enabledAttributes = Descriptor_kEndpoint0EnabledAttributes,
       enabledCommands = []\<rparr>,
      \<lparr>endpointNumber = 1,
       featureMap = [],
       enabledAttributes = Descriptor_kEndpoint1EnabledAttributes,
       enabledCommands = []\<rparr>]"

definition Descriptor_IsAttributeEnabledOnSomeEndpoint :: "(string \<Rightarrow> u32) \<Rightarrow> u32 \<Rightarrow> bool" where
  "Descriptor_IsAttributeEnabledOnSomeEndpoint ident attributeId = (attributeId \<in> set (map ident
     [''AcceptedCommandList'', ''AttributeList'', ''ClientList'', ''ClusterRevision'',
      ''DeviceTypeList'', ''FeatureMap'', ''GeneratedCommandList'', ''PartsList'',
      ''ServerList'']))"

definition Descriptor_IsCommandEnabledOnSomeEndpoint :: "(string \<Rightarrow> u32) \<Rightarrow> u32 \<Rightarrow> bool" where
  "Descriptor_IsCommandEnabledOnSomeEndpoint ident commandId = (False)"

section \<open>AccessControl\<close>

definition AccessControl_kEndpoint0EnabledAttributes :: "string list" where
  "AccessControl_kEndpoint0EnabledAttributes =
     [''AcceptedCommandList'', ''AccessControlEntriesPerFabric'', ''Acl'', ''AttributeList'',
      ''ClusterRevision'', ''Extension'', ''FeatureMap'', ''GeneratedCommandList'',
      ''SubjectsPerAccessControlEntry'', ''TargetsPerAccessControlEntry'']"

definition AccessControl_kFixedClusterConfig :: "ClusterConfiguration list" where
  "AccessControl_kFixedClusterConfig =
     [\<lparr>endpointNumber = 0,
       featureMap = [],
       enabledAttributes = AccessControl_kEndpoint0EnabledAttributes,
       enabledCommands = []\<rparr>]"

definition AccessControl_IsAttributeEnabledOnSomeEndpoint :: "(string \<Rightarrow> u32) \<Rightarrow> u32 \<Rightarrow> bool" where
  "AccessControl_IsAttributeEnabledOnSomeEndpoint ident attributeId = (attributeId \<in> set (map ident
     [''AcceptedCommandList'', ''AccessControlEntriesPerFabric'', ''Acl'', ''AttributeList'',
      ''ClusterRevision'', ''Extension'', ''FeatureMap'', ''GeneratedCommandList'',
      ''SubjectsPerAccessControlEntry'', ''TargetsPerAccessControlEntry'']))"

definition AccessControl_IsCommandEnabledOnSomeEndpoint :: "(string \<Rightarrow> u32) \<Rightarrow> u32 \<Rightarrow> bool" where
  "AccessControl_IsCommandEnabledOnSomeEndpoint ident commandId = (False)"

section \<open>BasicInformation\<close>

definition BasicInformation_kEndpoint0EnabledAttributes :: "string list" where
  "BasicInformation_kEndpoint0EnabledAttributes =
     [''AcceptedCommandList'', ''AttributeList'', ''CapabilityMinima'', ''ClusterRevision'',
      ''ConfigurationVersion'', ''DataModelRevision'', ''FeatureMap'',
      ''GeneratedCommandList'', ''HardwareVersion'', ''HardwareVersionString'', ''Location'',
      ''MaxPathsPerInvoke'', ''NodeLabel'', ''ProductID'', ''ProductName'',
      ''SoftwareVersion'', ''SoftwareVersionString'', ''SpecificationVersion'', ''UniqueID'',
      ''VendorID'', ''VendorName'']"

definition BasicInformation_kFixedClusterConfig :: "ClusterConfiguration list" where
  "BasicInformation_kFixedClusterConfig =
     [\<lparr>endpointNumber = 0,
       featureMap = [],
       enabledAttributes = BasicInformation_kEndpoint0EnabledAttributes,
       enabledCommands = []\<rparr>]"

definition BasicInformation_IsAttributeEnabledOnSomeEndpoint :: "(string \<Rightarrow> u32) \<Rightarrow> u32 \<Rightarrow> bool" where
  "BasicInformation_IsAttributeEnabledOnSomeEndpoint ident attributeId = (attributeId \<in> set (map ident
     [''AcceptedCommandList'', ''AttributeList'', ''CapabilityMinima'', ''ClusterRevision'',
      ''ConfigurationVersion'', ''DataModelRevision'', ''FeatureMap'',
      ''GeneratedCommandList'', ''HardwareVersion'', ''HardwareVersionString'', ''Location'',
      ''MaxPathsPerInvoke'', ''NodeLabel'', ''ProductID'', ''ProductName'',
      ''SoftwareVersion'', ''SoftwareVersionString'', ''SpecificationVersion'', ''UniqueID'',
      ''VendorID'', ''VendorName'']))"

definition BasicInformation_IsCommandEnabledOnSomeEndpoint :: "(string \<Rightarrow> u32) \<Rightarrow> u32 \<Rightarrow> bool" where
  "BasicInformation_IsCommandEnabledOnSomeEndpoint ident commandId = (False)"

section \<open>GeneralCommissioning\<close>

definition GeneralCommissioning_kEndpoint0EnabledAttributes :: "string list" where
  "GeneralCommissioning_kEndpoint0EnabledAttributes =
     [''AcceptedCommandList'', ''AttributeList'', ''BasicCommissioningInfo'', ''Breadcrumb'',
      ''ClusterRevision'', ''FeatureMap'', ''GeneratedCommandList'', ''LocationCapability'',
      ''RegulatoryConfig'', ''SupportsConcurrentConnection'']"

definition GeneralCommissioning_kEndpoint0EnabledCommands :: "string list" where
  "GeneralCommissioning_kEndpoint0EnabledCommands =
     [''ArmFailSafe'', ''ArmFailSafeResponse'', ''CommissioningComplete'',
      ''CommissioningCompleteResponse'', ''SetRegulatoryConfig'',
      ''SetRegulatoryConfigResponse'']"

definition GeneralCommissioning_kFixedClusterConfig :: "ClusterConfiguration list" where
  "GeneralCommissioning_kFixedClusterConfig =
     [\<lparr>endpointNumber = 0,
       featureMap = [],
       enabledAttributes = GeneralCommissioning_kEndpoint0EnabledAttributes,
       enabledCommands = GeneralCommissioning_kEndpoint0EnabledCommands\<rparr>]"

definition GeneralCommissioning_IsAttributeEnabledOnSomeEndpoint :: "(string \<Rightarrow> u32) \<Rightarrow> u32 \<Rightarrow> bool" where
  "GeneralCommissioning_IsAttributeEnabledOnSomeEndpoint ident attributeId = (attributeId \<in> set (map ident
     [''AcceptedCommandList'', ''AttributeList'', ''BasicCommissioningInfo'', ''Breadcrumb'',
      ''ClusterRevision'', ''FeatureMap'', ''GeneratedCommandList'', ''LocationCapability'',
      ''RegulatoryConfig'', ''SupportsConcurrentConnection'']))"

definition GeneralCommissioning_IsCommandEnabledOnSomeEndpoint :: "(string \<Rightarrow> u32) \<Rightarrow> u32 \<Rightarrow> bool" where
  "GeneralCommissioning_IsCommandEnabledOnSomeEndpoint ident commandId = (commandId \<in> set (map ident
     [''ArmFailSafe'', ''ArmFailSafeResponse'', ''CommissioningComplete'',
      ''CommissioningCompleteResponse'', ''SetRegulatoryConfig'',
      ''SetRegulatoryConfigResponse'']))"

section \<open>NetworkCommissioning\<close>

definition NetworkCommissioning_kEndpoint0EnabledAttributes :: "string list" where
  "NetworkCommissioning_kEndpoint0EnabledAttributes =
     [''AcceptedCommandList'', ''AttributeList'', ''ClusterRevision'',
      ''ConnectMaxTimeSeconds'', ''FeatureMap'', ''GeneratedCommandList'',
      ''InterfaceEnabled'', ''LastConnectErrorValue'', ''LastNetworkID'',
      ''LastNetworkingStatus'', ''MaxNetworks'', ''Networks'', ''ScanMaxTimeSeconds'',
      ''SupportedWiFiBands'']"

definition NetworkCommissioning_kEndpoint0EnabledCommands :: "string list" where
  "NetworkCommissioning_kEndpoint0EnabledCommands =
     [''AddOrUpdateWiFiNetwork'', ''ConnectNetwork'', ''ConnectNetworkResponse'',
      ''NetworkConfigResponse'', ''QueryIdentity'', ''QueryIdentityResponse'',
      ''RemoveNetwork'', ''ReorderNetwork'', ''ScanNetworks'', ''ScanNetworksResponse'']"

definition NetworkCommissioning_kFixedClusterConfig :: "ClusterConfiguration list" where
  "NetworkCommissioning_kFixedClusterConfig =
     [\<lparr>endpointNumber = 0,
       featureMap = [],
       enabledAttributes = NetworkCommissioning_kEndpoint0EnabledAttributes,
       enabledCommands = NetworkCommissioning_kEndpoint0EnabledCommands\<rparr>]"

definition NetworkCommissioning_IsAttributeEnabledOnSomeEndpoint :: "(string \<Rightarrow> u32) \<Rightarrow> u32 \<Rightarrow> bool" where
  "NetworkCommissioning_IsAttributeEnabledOnSomeEndpoint ident attributeId = (attributeId \<in> set (map ident
     [''AcceptedCommandList'', ''AttributeList'', ''ClusterRevision'',
      ''ConnectMaxTimeSeconds'', ''FeatureMap'', ''GeneratedCommandList'',
      ''InterfaceEnabled'', ''LastConnectErrorValue'', ''LastNetworkID'',
      ''LastNetworkingStatus'', ''MaxNetworks'', ''Networks'', ''ScanMaxTimeSeconds'',
      ''SupportedWiFiBands'']))"

definition NetworkCommissioning_IsCommandEnabledOnSomeEndpoint :: "(string \<Rightarrow> u32) \<Rightarrow> u32 \<Rightarrow> bool" where
  "NetworkCommissioning_IsCommandEnabledOnSomeEndpoint ident commandId = (commandId \<in> set (map ident
     [''AddOrUpdateWiFiNetwork'', ''ConnectNetwork'', ''ConnectNetworkResponse'',
      ''NetworkConfigResponse'', ''QueryIdentity'', ''QueryIdentityResponse'',
      ''RemoveNetwork'', ''ReorderNetwork'', ''ScanNetworks'', ''ScanNetworksResponse'']))"

section \<open>GeneralDiagnostics\<close>

definition GeneralDiagnostics_kEndpoint0EnabledAttributes :: "string list" where
  "GeneralDiagnostics_kEndpoint0EnabledAttributes =
     [''AcceptedCommandList'', ''AttributeList'', ''ClusterRevision'', ''FeatureMap'',
      ''GeneratedCommandList'', ''NetworkInterfaces'', ''RebootCount'',
      ''TestEventTriggersEnabled'', ''UpTime'']"

definition GeneralDiagnostics_kEndpoint0EnabledCommands :: "string list" where
  "GeneralDiagnostics_kEndpoint0EnabledCommands =
     [''TestEventTrigger'', ''TimeSnapshot'', ''TimeSnapshotResponse'']"

definition GeneralDiagnostics_kFixedClusterConfig :: "ClusterConfiguration list" where
  "GeneralDiagnostics_kFixedClusterConfig =
     [\<lparr>endpointNumber = 0,
       featureMap = [],
       enabledAttributes = GeneralDiagnostics_kEndpoint0EnabledAttributes,
       enabledCommands = GeneralDiagnostics_kEndpoint0EnabledCommands\<rparr>]"

definition GeneralDiagnostics_IsAttributeEnabledOnSomeEndpoint :: "(string \<Rightarrow> u32) \<Rightarrow> u32 \<Rightarrow> bool" where
  "GeneralDiagnostics_IsAttributeEnabledOnSomeEndpoint ident attributeId = (attributeId \<in> set (map ident
     [''AcceptedCommandList'', ''AttributeList'', ''ClusterRevision'', ''FeatureMap'',
      ''GeneratedCommandList'', ''NetworkInterfaces'', ''RebootCount'',
      ''TestEventTriggersEnabled'', ''UpTime'']))"

definition GeneralDiagnostics_IsCommandEnabledOnSomeEndpoint :: "(string \<Rightarrow> u32) \<Rightarrow> u32 \<Rightarrow> bool" where
  "GeneralDiagnostics_IsCommandEnabledOnSomeEndpoint ident commandId = (commandId \<in> set (map ident
     [''TestEventTrigger'', ''TimeSnapshot'', ''TimeSnapshotResponse'']))"

section \<open>AdministratorCommissioning\<close>

definition AdministratorCommissioning_kEndpoint0EnabledAttributes :: "string list" where
  "AdministratorCommissioning_kEndpoint0EnabledAttributes =
     [''AcceptedCommandList'', ''AdminFabricIndex'', ''AdminVendorId'', ''AttributeList'',
      ''ClusterRevision'', ''FeatureMap'', ''GeneratedCommandList'', ''WindowStatus'']"

definition AdministratorCommissioning_kEndpoint0EnabledCommands :: "string list" where
  "AdministratorCommissioning_kEndpoint0EnabledCommands =
     [''OpenCommissioningWindow'', ''RevokeCommissioning'']"

definition AdministratorCommissioning_kFixedClusterConfig :: "ClusterConfiguration list" where
  "AdministratorCommissioning_kFixedClusterConfig =
     [\<lparr>endpointNumber = 0,
       featureMap = [],
       enabledAttributes = AdministratorCommissioning_kEndpoint0EnabledAttributes,
       enabledCommands = AdministratorCommissioning_kEndpoint0EnabledCommands\<rparr>]"

definition AdministratorCommissioning_IsAttributeEnabledOnSomeEndpoint :: "(string \<Rightarrow> u32) \<Rightarrow> u32 \<Rightarrow> bool" where
  "AdministratorCommissioning_IsAttributeEnabledOnSomeEndpoint ident attributeId = (attributeId \<in> set (map ident
     [''AcceptedCommandList'', ''AdminFabricIndex'', ''AdminVendorId'', ''AttributeList'',
      ''ClusterRevision'', ''FeatureMap'', ''GeneratedCommandList'', ''WindowStatus'']))"

definition AdministratorCommissioning_IsCommandEnabledOnSomeEndpoint :: "(string \<Rightarrow> u32) \<Rightarrow> u32 \<Rightarrow> bool" where
  "AdministratorCommissioning_IsCommandEnabledOnSomeEndpoint ident commandId = (commandId \<in> set (map ident
     [''OpenCommissioningWindow'', ''RevokeCommissioning'']))"

section \<open>OperationalCredentials\<close>

definition OperationalCredentials_kEndpoint0EnabledAttributes :: "string list" where
  "OperationalCredentials_kEndpoint0EnabledAttributes =
     [''AcceptedCommandList'', ''AttributeList'', ''ClusterRevision'',
      ''CommissionedFabrics'', ''CurrentFabricIndex'', ''Fabrics'', ''FeatureMap'',
      ''GeneratedCommandList'', ''NOCs'', ''SupportedFabrics'', ''TrustedRootCertificates'']"

definition OperationalCredentials_kEndpoint0EnabledCommands :: "string list" where
  "OperationalCredentials_kEndpoint0EnabledCommands =
     [''AddNOC'', ''AddTrustedRootCertificate'', ''AttestationRequest'',
      ''AttestationResponse'', ''CertificateChainRequest'', ''CertificateChainResponse'',
      ''CSRRequest'', ''CSRResponse'', ''NOCResponse'', ''RemoveFabric'',
      ''SetVIDVerificationStatement'', ''SignVIDVerificationRequest'',
      ''SignVIDVerificationResponse'', ''UpdateFabricLabel'', ''UpdateNOC'']"

definition OperationalCredentials_kFixedClusterConfig :: "ClusterConfiguration list" where
  "OperationalCredentials_kFixedClusterConfig =
     [\<lparr>endpointNumber = 0,
       featureMap = [],
       enabledAttributes = OperationalCredentials_kEndpoint0EnabledAttributes,
       enabledCommands = OperationalCredentials_kEndpoint0EnabledCommands\<rparr>]"

definition OperationalCredentials_IsAttributeEnabledOnSomeEndpoint :: "(string \<Rightarrow> u32) \<Rightarrow> u32 \<Rightarrow> bool" where
  "OperationalCredentials_IsAttributeEnabledOnSomeEndpoint ident attributeId = (attributeId \<in> set (map ident
     [''NOCs'', ''AcceptedCommandList'', ''AttributeList'', ''ClusterRevision'',
      ''CommissionedFabrics'', ''CurrentFabricIndex'', ''Fabrics'', ''FeatureMap'',
      ''GeneratedCommandList'', ''SupportedFabrics'', ''TrustedRootCertificates'']))"

definition OperationalCredentials_IsCommandEnabledOnSomeEndpoint :: "(string \<Rightarrow> u32) \<Rightarrow> u32 \<Rightarrow> bool" where
  "OperationalCredentials_IsCommandEnabledOnSomeEndpoint ident commandId = (commandId \<in> set (map ident
     [''AddNOC'', ''AddTrustedRootCertificate'', ''AttestationRequest'',
      ''AttestationResponse'', ''CSRRequest'', ''CSRResponse'', ''CertificateChainRequest'',
      ''CertificateChainResponse'', ''NOCResponse'', ''RemoveFabric'',
      ''SetVIDVerificationStatement'', ''SignVIDVerificationRequest'',
      ''SignVIDVerificationResponse'', ''UpdateFabricLabel'', ''UpdateNOC'']))"

section \<open>GroupKeyManagement\<close>

definition GroupKeyManagement_kEndpoint0EnabledAttributes :: "string list" where
  "GroupKeyManagement_kEndpoint0EnabledAttributes =
     [''AcceptedCommandList'', ''AttributeList'', ''ClusterRevision'', ''FeatureMap'',
      ''GeneratedCommandList'', ''GroupKeyMap'', ''GroupTable'', ''MaxGroupKeysPerFabric'',
      ''MaxGroupsPerFabric'']"

definition GroupKeyManagement_kEndpoint0EnabledCommands :: "string list" where
  "GroupKeyManagement_kEndpoint0EnabledCommands =
     [''KeySetRead'', ''KeySetReadAllIndices'', ''KeySetReadAllIndicesResponse'',
      ''KeySetReadResponse'', ''KeySetRemove'', ''KeySetWrite'']"

definition GroupKeyManagement_kFixedClusterConfig :: "ClusterConfiguration list" where
  "GroupKeyManagement_kFixedClusterConfig =
     [\<lparr>endpointNumber = 0,
       featureMap = [],
       enabledAttributes = GroupKeyManagement_kEndpoint0EnabledAttributes,
       enabledCommands = GroupKeyManagement_kEndpoint0EnabledCommands\<rparr>]"

definition GroupKeyManagement_IsAttributeEnabledOnSomeEndpoint :: "(string \<Rightarrow> u32) \<Rightarrow> u32 \<Rightarrow> bool" where
  "GroupKeyManagement_IsAttributeEnabledOnSomeEndpoint ident attributeId = (attributeId \<in> set (map ident
     [''AcceptedCommandList'', ''AttributeList'', ''ClusterRevision'', ''FeatureMap'',
      ''GeneratedCommandList'', ''GroupKeyMap'', ''GroupTable'', ''MaxGroupKeysPerFabric'',
      ''MaxGroupsPerFabric'']))"

definition GroupKeyManagement_IsCommandEnabledOnSomeEndpoint :: "(string \<Rightarrow> u32) \<Rightarrow> u32 \<Rightarrow> bool" where
  "GroupKeyManagement_IsCommandEnabledOnSomeEndpoint ident commandId = (commandId \<in> set (map ident
     [''KeySetRead'', ''KeySetReadAllIndices'', ''KeySetReadAllIndicesResponse'',
      ''KeySetReadResponse'', ''KeySetRemove'', ''KeySetWrite'']))"

section \<open>Identify\<close>

definition Identify_kEndpoint1EnabledAttributes :: "string list" where
  "Identify_kEndpoint1EnabledAttributes =
     [''AcceptedCommandList'', ''AttributeList'', ''ClusterRevision'', ''FeatureMap'',
      ''GeneratedCommandList'', ''IdentifyTime'', ''IdentifyType'']"

definition Identify_kEndpoint1EnabledCommands :: "string list" where
  "Identify_kEndpoint1EnabledCommands =
     [''Identify'', ''TriggerEffect'']"

definition Identify_kFixedClusterConfig :: "ClusterConfiguration list" where
  "Identify_kFixedClusterConfig =
     [\<lparr>endpointNumber = 1,
       featureMap = [],
       enabledAttributes = Identify_kEndpoint1EnabledAttributes,
       enabledCommands = Identify_kEndpoint1EnabledCommands\<rparr>]"

definition Identify_IsAttributeEnabledOnSomeEndpoint :: "(string \<Rightarrow> u32) \<Rightarrow> u32 \<Rightarrow> bool" where
  "Identify_IsAttributeEnabledOnSomeEndpoint ident attributeId = (attributeId \<in> set (map ident
     [''AcceptedCommandList'', ''AttributeList'', ''ClusterRevision'', ''FeatureMap'',
      ''GeneratedCommandList'', ''IdentifyTime'', ''IdentifyType'']))"

definition Identify_IsCommandEnabledOnSomeEndpoint :: "(string \<Rightarrow> u32) \<Rightarrow> u32 \<Rightarrow> bool" where
  "Identify_IsCommandEnabledOnSomeEndpoint ident commandId = (commandId \<in> set (map ident
     [''Identify'', ''TriggerEffect'']))"

section \<open>DoorLock\<close>

definition DoorLock_kEndpoint1EnabledAttributes :: "string list" where
  "DoorLock_kEndpoint1EnabledAttributes =
     [''AcceptedCommandList'', ''ActuatorEnabled'', ''AttributeList'', ''ClusterRevision'',
      ''CredentialRulesSupport'', ''DoorState'', ''FeatureMap'', ''GeneratedCommandList'',
      ''LockState'', ''LockType'', ''MaxPINCodeLength'', ''MaxRFIDCodeLength'',
      ''MinPINCodeLength'', ''MinRFIDCodeLength'', ''NumberOfCredentialsSupportedPerUser'',
      ''NumberOfHolidaySchedulesSupported'', ''NumberOfPINUsersSupported'',
      ''NumberOfRFIDUsersSupported'', ''NumberOfTotalUsersSupported'',
      ''NumberOfWeekDaySchedulesSupportedPerUser'',
      ''NumberOfYearDaySchedulesSupportedPerUser'', ''OperatingMode'',
      ''RequirePINforRemoteOperation'', ''SoundVolume'', ''SupportedOperatingModes'',
      ''UserCodeTemporaryDisableTime'', ''WrongCodeEntryLimit'']"

definition DoorLock_kEndpoint1EnabledCommands :: "string list" where
  "DoorLock_kEndpoint1EnabledCommands =
     [''ClearCredential'', ''ClearHolidaySchedule'', ''ClearUser'', ''ClearWeekDaySchedule'',
      ''ClearYearDaySchedule'', ''GetCredentialStatus'', ''GetCredentialStatusResponse'',
      ''GetHolidaySchedule'', ''GetHolidayScheduleResponse'', ''GetUser'',
      ''GetUserResponse'', ''GetWeekDaySchedule'', ''GetWeekDayScheduleResponse'',
      ''GetYearDaySchedule'', ''GetYearDayScheduleResponse'', ''LockDoor'', ''SetCredential'',
      ''SetCredentialResponse'', ''SetHolidaySchedule'', ''SetUser'', ''SetWeekDaySchedule'',
      ''SetYearDaySchedule'', ''UnboltDoor'', ''UnlockDoor'', ''UnlockWithTimeout'']"

definition DoorLock_kFixedClusterConfig :: "ClusterConfiguration list" where
  "DoorLock_kFixedClusterConfig =
     [\<lparr>endpointNumber = 1,
       featureMap = [''kPINCredential'', ''kRFIDCredential'', ''kWeekDayAccessSchedules'',
         ''kDoorPositionSensor'', ''kCredentialsOverTheAirAccess'', ''kUser'',
         ''kYearDayAccessSchedules'', ''kHolidaySchedules'', ''kUnbolt''],
       enabledAttributes = DoorLock_kEndpoint1EnabledAttributes,
       enabledCommands = DoorLock_kEndpoint1EnabledCommands\<rparr>]"

definition DoorLock_IsAttributeEnabledOnSomeEndpoint :: "(string \<Rightarrow> u32) \<Rightarrow> u32 \<Rightarrow> bool" where
  "DoorLock_IsAttributeEnabledOnSomeEndpoint ident attributeId = (attributeId \<in> set (map ident
     [''AcceptedCommandList'', ''ActuatorEnabled'', ''AttributeList'', ''ClusterRevision'',
      ''CredentialRulesSupport'', ''DoorState'', ''FeatureMap'', ''GeneratedCommandList'',
      ''LockState'', ''LockType'', ''MaxPINCodeLength'', ''MaxRFIDCodeLength'',
      ''MinPINCodeLength'', ''MinRFIDCodeLength'', ''NumberOfCredentialsSupportedPerUser'',
      ''NumberOfHolidaySchedulesSupported'', ''NumberOfPINUsersSupported'',
      ''NumberOfRFIDUsersSupported'', ''NumberOfTotalUsersSupported'',
      ''NumberOfWeekDaySchedulesSupportedPerUser'',
      ''NumberOfYearDaySchedulesSupportedPerUser'', ''OperatingMode'',
      ''RequirePINforRemoteOperation'', ''SoundVolume'', ''SupportedOperatingModes'',
      ''UserCodeTemporaryDisableTime'', ''WrongCodeEntryLimit'']))"

definition DoorLock_IsCommandEnabledOnSomeEndpoint :: "(string \<Rightarrow> u32) \<Rightarrow> u32 \<Rightarrow> bool" where
  "DoorLock_IsCommandEnabledOnSomeEndpoint ident commandId = (commandId \<in> set (map ident
     [''ClearCredential'', ''ClearHolidaySchedule'', ''ClearUser'', ''ClearWeekDaySchedule'',
      ''ClearYearDaySchedule'', ''GetCredentialStatus'', ''GetCredentialStatusResponse'',
      ''GetHolidaySchedule'', ''GetHolidayScheduleResponse'', ''GetUser'',
      ''GetUserResponse'', ''GetWeekDaySchedule'', ''GetWeekDayScheduleResponse'',
      ''GetYearDaySchedule'', ''GetYearDayScheduleResponse'', ''LockDoor'', ''SetCredential'',
      ''SetCredentialResponse'', ''SetHolidaySchedule'', ''SetUser'', ''SetWeekDaySchedule'',
      ''SetYearDaySchedule'', ''UnboltDoor'', ''UnlockDoor'', ''UnlockWithTimeout'']))"

section \<open>All clusters\<close>

fun static_config :: "ClusterName \<Rightarrow> ClusterConfiguration list" where
  "static_config Cl_Descriptor = Descriptor_kFixedClusterConfig"
| "static_config Cl_AccessControl = AccessControl_kFixedClusterConfig"
| "static_config Cl_BasicInformation = BasicInformation_kFixedClusterConfig"
| "static_config Cl_GeneralCommissioning = GeneralCommissioning_kFixedClusterConfig"
| "static_config Cl_NetworkCommissioning = NetworkCommissioning_kFixedClusterConfig"
| "static_config Cl_GeneralDiagnostics = GeneralDiagnostics_kFixedClusterConfig"
| "static_config Cl_AdministratorCommissioning = AdministratorCommissioning_kFixedClusterConfig"
| "static_config Cl_OperationalCredentials = OperationalCredentials_kFixedClusterConfig"
| "static_config Cl_GroupKeyManagement = GroupKeyManagement_kFixedClusterConfig"
| "static_config Cl_Identify = Identify_kFixedClusterConfig"
| "static_config Cl_DoorLock = DoorLock_kFixedClusterConfig"

fun attribute_enabled :: "ClusterName \<Rightarrow> (string \<Rightarrow> u32) \<Rightarrow> u32 \<Rightarrow> bool" where
  "attribute_enabled Cl_Descriptor = Descriptor_IsAttributeEnabledOnSomeEndpoint"
| "attribute_enabled Cl_AccessControl = AccessControl_IsAttributeEnabledOnSomeEndpoint"
| "attribute_enabled Cl_BasicInformation = BasicInformation_IsAttributeEnabledOnSomeEndpoint"
| "attribute_enabled Cl_GeneralCommissioning = GeneralCommissioning_IsAttributeEnabledOnSomeEndpoint"
| "attribute_enabled Cl_NetworkCommissioning = NetworkCommissioning_IsAttributeEnabledOnSomeEndpoint"
| "attribute_enabled Cl_GeneralDiagnostics = GeneralDiagnostics_IsAttributeEnabledOnSomeEndpoint"
| "attribute_enabled Cl_AdministratorCommissioning = AdministratorCommissioning_IsAttributeEnabledOnSomeEndpoint"
| "attribute_enabled Cl_OperationalCredentials = OperationalCredentials_IsAttributeEnabledOnSomeEndpoint"
| "attribute_enabled Cl_GroupKeyManagement = GroupKeyManagement_IsAttributeEnabledOnSomeEndpoint"
| "attribute_enabled Cl_Identify = Identify_IsAttributeEnabledOnSomeEndpoint"
| "attribute_enabled Cl_DoorLock = DoorLock_IsAttributeEnabledOnSomeEndpoint"

fun command_enabled :: "ClusterName \<Rightarrow> (string \<Rightarrow> u32) \<Rightarrow> u32 \<Rightarrow> bool" where
  "command_enabled Cl_Descriptor = Descriptor_IsCommandEnabledOnSomeEndpoint"
| "command_enabled Cl_AccessControl = AccessControl_IsCommandEnabledOnSomeEndpoint"
| "command_enabled Cl_BasicInformation = BasicInformation_IsCommandEnabledOnSomeEndpoint"
| "command_enabled Cl_GeneralCommissioning = GeneralCommissioning_IsCommandEnabledOnSomeEndpoint"
| "command_enabled Cl_NetworkCommissioning = NetworkCommissioning_IsCommandEnabledOnSomeEndpoint"
| "command_enabled Cl_GeneralDiagnostics = GeneralDiagnostics_IsCommandEnabledOnSomeEndpoint"
| "command_enabled Cl_AdministratorCommissioning = AdministratorCommissioning_IsCommandEnabledOnSomeEndpoint"
| "command_enabled Cl_OperationalCredentials = OperationalCredentials_IsCommandEnabledOnSomeEndpoint"
| "command_enabled Cl_GroupKeyManagement = GroupKeyManagement_IsCommandEnabledOnSomeEndpoint"
| "command_enabled Cl_Identify = Identify_IsCommandEnabledOnSomeEndpoint"
| "command_enabled Cl_DoorLock = DoorLock_IsCommandEnabledOnSomeEndpoint"

lemmas attribute_enabled_defs =
  Descriptor_IsAttributeEnabledOnSomeEndpoint_def
  AccessControl_IsAttributeEnabledOnSomeEndpoint_def
  BasicInformation_IsAttributeEnabledOnSomeEndpoint_def
  GeneralCommissioning_IsAttributeEnabledOnSomeEndpoint_def
  NetworkCommissioning_IsAttributeEnabledOnSomeEndpoint_def
  GeneralDiagnostics_IsAttributeEnabledOnSomeEndpoint_def
  AdministratorCommissioning_IsAttributeEnabledOnSomeEndpoint_def
  OperationalCredentials_IsAttributeEnabledOnSomeEndpoint_def
  GroupKeyManagement_IsAttributeEnabledOnSomeEndpoint_def
  Identify_IsAttributeEnabledOnSomeEndpoint_def
  DoorLock_IsAttributeEnabledOnSomeEndpoint_def

lemmas command_enabled_defs =
  Descriptor_IsCommandEnabledOnSomeEndpoint_def
  AccessControl_IsCommandEnabledOnSomeEndpoint_def
  BasicInformation_IsCommandEnabledOnSomeEndpoint_def
  GeneralCommissioning_IsCommandEnabledOnSomeEndpoint_def
  NetworkCommissioning_IsCommandEnabledOnSomeEndpoint_def
  GeneralDiagnostics_IsCommandEnabledOnSomeEndpoint_def
  AdministratorCommissioning_IsCommandEnabledOnSomeEndpoint_def
  OperationalCredentials_IsCommandEnabledOnSomeEndpoint_def
  GroupKeyManagement_IsCommandEnabledOnSomeEndpoint_def
  Identify_IsCommandEnabledOnSomeEndpoint_def
  DoorLock_IsCommandEnabledOnSomeEndpoint_def

lemmas static_config_defs =
  Descriptor_kEndpoint0EnabledAttributes_def
  Descriptor_kEndpoint1EnabledAttributes_def
  Descriptor_kFixedClusterConfig_def
  AccessControl_kEndpoint0EnabledAttributes_def
  AccessControl_kFixedClusterConfig_def
  BasicInformation_kEndpoint0EnabledAttributes_def
  BasicInformation_kFixedClusterConfig_def
  GeneralCommissioning_kEndpoint0EnabledAttributes_def
  GeneralCommissioning_kEndpoint0EnabledCommands_def
  GeneralCommissioning_kFixedClusterConfig_def
  NetworkCommissioning_kEndpoint0EnabledAttributes_def
  NetworkCommissioning_kEndpoint0EnabledCommands_def
  NetworkCommissioning_kFixedClusterConfig_def
  GeneralDiagnostics_kEndpoint0EnabledAttributes_def
  GeneralDiagnostics_kEndpoint0EnabledCommands_def
  GeneralDiagnostics_kFixedClusterConfig_def
  AdministratorCommissioning_kEndpoint0EnabledAttributes_def
  AdministratorCommissioning_kEndpoint0EnabledCommands_def
  AdministratorCommissioning_kFixedClusterConfig_def
  OperationalCredentials_kEndpoint0EnabledAttributes_def
  OperationalCredentials_kEndpoint0EnabledCommands_def
  OperationalCredentials_kFixedClusterConfig_def
  GroupKeyManagement_kEndpoint0EnabledAttributes_def
  GroupKeyManagement_kEndpoint0EnabledCommands_def
  GroupKeyManagement_kFixedClusterConfig_def
  Identify_kEndpoint1EnabledAttributes_def
  Identify_kEndpoint1EnabledCommands_def
  Identify_kFixedClusterConfig_def
  DoorLock_kEndpoint1EnabledAttributes_def
  DoorLock_kEndpoint1EnabledCommands_def
  DoorLock_kFixedClusterConfig_def

end
