(* ===== verification/CommandDispatch.thy ===== *)
theory CommandDispatch
  imports StaticConfig
begin

text \<open>
  \<open>src/zap-generated/IMClusterCommandHandler.cpp\<close>: the dispatch of an incoming command to the
  callback of its cluster. The state is whatever the callbacks and \<open>AddStatus\<close> of the SDK
  change; decoding, the callbacks and the numbers of clusters and commands are the SDK's.
\<close>

section \<open>The SDK's side\<close>

text \<open>A command stands for its namespace under \<open>Commands\<close>, and for its callback.\<close>

datatype Command =
    DoorLock_LockDoor
  | DoorLock_UnlockDoor
  | DoorLock_UnlockWithTimeout
  | DoorLock_SetWeekDaySchedule
  | DoorLock_GetWeekDaySchedule
  | DoorLock_ClearWeekDaySchedule
  | DoorLock_SetYearDaySchedule
  | DoorLock_GetYearDaySchedule
  | DoorLock_ClearYearDaySchedule
  | DoorLock_SetHolidaySchedule
  | DoorLock_GetHolidaySchedule
  | DoorLock_ClearHolidaySchedule
  | DoorLock_SetUser
  | DoorLock_GetUser
  | DoorLock_ClearUser
  | DoorLock_SetCredential
  | DoorLock_GetCredentialStatus
  | DoorLock_ClearCredential
  | DoorLock_UnboltDoor
  | GroupKeyManagement_KeySetWrite
  | GroupKeyManagement_KeySetRead
  | GroupKeyManagement_KeySetRemove
  | GroupKeyManagement_KeySetReadAllIndices
  | Identify_Identify
  | Identify_TriggerEffect
  | OperationalCredentials_AttestationRequest
  | OperationalCredentials_CertificateChainRequest
  | OperationalCredentials_CSRRequest
  | OperationalCredentials_AddNOC
  | OperationalCredentials_UpdateNOC
  | OperationalCredentials_UpdateFabricLabel
  | OperationalCredentials_RemoveFabric
  | OperationalCredentials_AddTrustedRootCertificate
  | OperationalCredentials_SetVIDVerificationStatement
  | OperationalCredentials_SignVIDVerificationRequest

datatype Status = Status_Success | UnsupportedCommand | InvalidCommand | UnsupportedCluster

record ConcreteCommandPath =
  path_mEndpointId :: u16
  mClusterId :: u32
  mCommandId :: u32

record ('d, 's) sdk =
  cluster_Id :: "ClusterName \<Rightarrow> u32"
  command_Id :: "Command \<Rightarrow> u32"
  DataModel_Decode :: "Command \<Rightarrow> byte list \<Rightarrow> 'd option"
  Decode_fabric :: "Command \<Rightarrow> byte list \<Rightarrow> u8 \<Rightarrow> 'd option"
  GetAccessingFabricIndex :: "'s \<Rightarrow> u8"
  cluster_callback :: "Command \<Rightarrow> ConcreteCommandPath \<Rightarrow> 'd \<Rightarrow> 's \<Rightarrow> bool \<times> 's"
  AddStatus :: "ConcreteCommandPath \<Rightarrow> Status \<Rightarrow> 's \<Rightarrow> 's"

section \<open>The switches\<close>

text \<open>
  A case of a switch: decode, and call the callback when that succeeded. The second part of
  every \<open>DispatchServerCommand\<close> turns a decoding error or an unhandled command into a status.
\<close>

definition handle_command ::
  "('d, 's) sdk \<Rightarrow> 'd option \<Rightarrow> Command \<Rightarrow> ConcreteCommandPath \<Rightarrow> 's \<Rightarrow> Status \<times> 's" where
  "handle_command S commandData cb path s =
     (case commandData of
        None \<Rightarrow> (InvalidCommand, s)
      | Some d \<Rightarrow> (case cluster_callback S cb path d s of (wasHandled, s) \<Rightarrow>
          if \<not> wasHandled then (InvalidCommand, s) else (Status_Success, s)))"

definition DoorLock_DispatchServerCommand ::
  "('d, 's) sdk \<Rightarrow> ConcreteCommandPath \<Rightarrow> byte list \<Rightarrow> 's \<Rightarrow> Status \<times> 's" where
  "DoorLock_DispatchServerCommand S path aDataTlv s =
     (if mCommandId path = command_Id S DoorLock_LockDoor
      then handle_command S (DataModel_Decode S DoorLock_LockDoor aDataTlv) DoorLock_LockDoor path s
      else if mCommandId path = command_Id S DoorLock_UnlockDoor
      then handle_command S (DataModel_Decode S DoorLock_UnlockDoor aDataTlv) DoorLock_UnlockDoor path s
      else if mCommandId path = command_Id S DoorLock_UnlockWithTimeout
      then handle_command S (DataModel_Decode S DoorLock_UnlockWithTimeout aDataTlv) DoorLock_UnlockWithTimeout path s
      else if mCommandId path = command_Id S DoorLock_SetWeekDaySchedule
      then handle_command S (DataModel_Decode S DoorLock_SetWeekDaySchedule aDataTlv) DoorLock_SetWeekDaySchedule path s
      else if mCommandId path = command_Id S DoorLock_GetWeekDaySchedule
      then handle_command S (DataModel_Decode S DoorLock_GetWeekDaySchedule aDataTlv) DoorLock_GetWeekDaySchedule path s
      else if mCommandId path = command_Id S DoorLock_ClearWeekDaySchedule
      then handle_command S (DataModel_Decode S DoorLock_ClearWeekDaySchedule aDataTlv) DoorLock_ClearWeekDaySchedule path s
      else if mCommandId path = command_Id S DoorLock_SetYearDaySchedule
      then handle_command S (DataModel_Decode S DoorLock_SetYearDaySchedule aDataTlv) DoorLock_SetYearDaySchedule path s
      else if mCommandId path = command_Id S DoorLock_GetYearDaySchedule
      then handle_command S (DataModel_Decode S DoorLock_GetYearDaySchedule aDataTlv) DoorLock_GetYearDaySchedule path s
      else if mCommandId path = command_Id S DoorLock_ClearYearDaySchedule
      then handle_command S (DataModel_Decode S DoorLock_ClearYearDaySchedule aDataTlv) DoorLock_ClearYearDaySchedule path s
      else if mCommandId path = command_Id S DoorLock_SetHolidaySchedule
      then handle_command S (DataModel_Decode S DoorLock_SetHolidaySchedule aDataTlv) DoorLock_SetHolidaySchedule path s
      else if mCommandId path = command_Id S DoorLock_GetHolidaySchedule
      then handle_command S (DataModel_Decode S DoorLock_GetHolidaySchedule aDataTlv) DoorLock_GetHolidaySchedule path s
      else if mCommandId path = command_Id S DoorLock_ClearHolidaySchedule
      then handle_command S (DataModel_Decode S DoorLock_ClearHolidaySchedule aDataTlv) DoorLock_ClearHolidaySchedule path s
      else if mCommandId path = command_Id S DoorLock_SetUser
      then handle_command S (DataModel_Decode S DoorLock_SetUser aDataTlv) DoorLock_SetUser path s
      else if mCommandId path = command_Id S DoorLock_GetUser
      then handle_command S (DataModel_Decode S DoorLock_GetUser aDataTlv) DoorLock_GetUser path s
      else if mCommandId path = command_Id S DoorLock_ClearUser
      then handle_command S (DataModel_Decode S DoorLock_ClearUser aDataTlv) DoorLock_ClearUser path s
      else if mCommandId path = command_Id S DoorLock_SetCredential
      then handle_command S (DataModel_Decode S DoorLock_SetCredential aDataTlv) DoorLock_SetCredential path s
      else if mCommandId path = command_Id S DoorLock_GetCredentialStatus
      then handle_command S (DataModel_Decode S DoorLock_GetCredentialStatus aDataTlv) DoorLock_GetCredentialStatus path s
      else if mCommandId path = command_Id S DoorLock_ClearCredential
      then handle_command S (DataModel_Decode S DoorLock_ClearCredential aDataTlv) DoorLock_ClearCredential path s
      else if mCommandId path = command_Id S DoorLock_UnboltDoor
      then handle_command S (DataModel_Decode S DoorLock_UnboltDoor aDataTlv) DoorLock_UnboltDoor path s
      else (UnsupportedCommand, s))"

definition GroupKeyManagement_DispatchServerCommand ::
  "('d, 's) sdk \<Rightarrow> ConcreteCommandPath \<Rightarrow> byte list \<Rightarrow> 's \<Rightarrow> Status \<times> 's" where
  "GroupKeyManagement_DispatchServerCommand S path aDataTlv s =
     (if mCommandId path = command_Id S GroupKeyManagement_KeySetWrite
      then handle_command S (Decode_fabric S GroupKeyManagement_KeySetWrite aDataTlv (GetAccessingFabricIndex S s)) GroupKeyManagement_KeySetWrite path s
      else if mCommandId path = command_Id S GroupKeyManagement_KeySetRead
      then handle_command S (Decode_fabric S GroupKeyManagement_KeySetRead aDataTlv (GetAccessingFabricIndex S s)) GroupKeyManagement_KeySetRead path s
      else if mCommandId path = command_Id S GroupKeyManagement_KeySetRemove
      then handle_command S (Decode_fabric S GroupKeyManagement_KeySetRemove aDataTlv (GetAccessingFabricIndex S s)) GroupKeyManagement_KeySetRemove path s
      else if mCommandId path = command_Id S GroupKeyManagement_KeySetReadAllIndices
      then handle_command S (Decode_fabric S GroupKeyManagement_KeySetReadAllIndices aDataTlv (GetAccessingFabricIndex S s)) GroupKeyManagement_KeySetReadAllIndices path s
      else (UnsupportedCommand, s))"

definition Identify_DispatchServerCommand ::
  "('d, 's) sdk \<Rightarrow> ConcreteCommandPath \<Rightarrow> byte list \<Rightarrow> 's \<Rightarrow> Status \<times> 's" where
  "Identify_DispatchServerCommand S path aDataTlv s =
     (if mCommandId path = command_Id S Identify_Identify
      then handle_command S (DataModel_Decode S Identify_Identify aDataTlv) Identify_Identify path s
      else if mCommandId path = command_Id S Identify_TriggerEffect
      then handle_command S (DataModel_Decode S Identify_TriggerEffect aDataTlv) Identify_TriggerEffect path s
      else (UnsupportedCommand, s))"

definition OperationalCredentials_DispatchServerCommand ::
  "('d, 's) sdk \<Rightarrow> ConcreteCommandPath \<Rightarrow> byte list \<Rightarrow> 's \<Rightarrow> Status \<times> 's" where
  "OperationalCredentials_DispatchServerCommand S path aDataTlv s =
     (if mCommandId path = command_Id S OperationalCredentials_AttestationRequest
      then handle_command S (DataModel_Decode S OperationalCredentials_AttestationRequest aDataTlv) OperationalCredentials_AttestationRequest path s
      else if mCommandId path = command_Id S OperationalCredentials_CertificateChainRequest
      then handle_command S (DataModel_Decode S OperationalCredentials_CertificateChainRequest aDataTlv) OperationalCredentials_CertificateChainRequest path s
      else if mCommandId path = command_Id S OperationalCredentials_CSRRequest
      then handle_command S (DataModel_Decode S OperationalCredentials_CSRRequest aDataTlv) OperationalCredentials_CSRRequest path s
      else if mCommandId path = command_Id S OperationalCredentials_AddNOC
      then handle_command S (DataModel_Decode S OperationalCredentials_AddNOC aDataTlv) OperationalCredentials_AddNOC path s
      else if mCommandId path = command_Id S OperationalCredentials_UpdateNOC
      then handle_command S (Decode_fabric S OperationalCredentials_UpdateNOC aDataTlv (GetAccessingFabricIndex S s)) OperationalCredentials_UpdateNOC path s
      else if mCommandId path = command_Id S OperationalCredentials_UpdateFabricLabel
      then handle_command S (Decode_fabric S OperationalCredentials_UpdateFabricLabel aDataTlv (GetAccessingFabricIndex S s)) OperationalCredentials_UpdateFabricLabel path s
      else if mCommandId path = command_Id S OperationalCredentials_RemoveFabric
      then handle_command S (DataModel_Decode S OperationalCredentials_RemoveFabric aDataTlv) OperationalCredentials_RemoveFabric path s
      else if mCommandId path = command_Id S OperationalCredentials_AddTrustedRootCertificate
      then handle_command S (DataModel_Decode S OperationalCredentials_AddTrustedRootCertificate aDataTlv) OperationalCredentials_AddTrustedRootCertificate path s
      else if mCommandId path = command_Id S OperationalCredentials_SetVIDVerificationStatement
      then handle_command S (Decode_fabric S OperationalCredentials_SetVIDVerificationStatement aDataTlv (GetAccessingFabricIndex S s)) OperationalCredentials_SetVIDVerificationStatement path s
      else if mCommandId path = command_Id S OperationalCredentials_SignVIDVerificationRequest
      then handle_command S (DataModel_Decode S OperationalCredentials_SignVIDVerificationRequest aDataTlv) OperationalCredentials_SignVIDVerificationRequest path s
      else (UnsupportedCommand, s))"

definition DispatchSingleClusterCommand ::
  "('d, 's) sdk \<Rightarrow> ConcreteCommandPath \<Rightarrow> byte list \<Rightarrow> 's \<Rightarrow> 's" where
  "DispatchSingleClusterCommand S path aReader s =
     (case
       (if mClusterId path = cluster_Id S Cl_DoorLock
        then DoorLock_DispatchServerCommand S path aReader s
        else if mClusterId path = cluster_Id S Cl_GroupKeyManagement
        then GroupKeyManagement_DispatchServerCommand S path aReader s
        else if mClusterId path = cluster_Id S Cl_Identify
        then Identify_DispatchServerCommand S path aReader s
        else if mClusterId path = cluster_Id S Cl_OperationalCredentials
        then OperationalCredentials_DispatchServerCommand S path aReader s
        else (UnsupportedCluster, s))
      of (errorStatus, s) \<Rightarrow>
        if errorStatus \<noteq> Status_Success then AddStatus S path errorStatus s else s)"

section \<open>The table the switches implement\<close>

text \<open>Which cluster a command belongs to, and whether its fields depend on the fabric.\<close>

fun cluster_of :: "Command \<Rightarrow> ClusterName" where
  "cluster_of DoorLock_LockDoor = Cl_DoorLock"
| "cluster_of DoorLock_UnlockDoor = Cl_DoorLock"
| "cluster_of DoorLock_UnlockWithTimeout = Cl_DoorLock"
| "cluster_of DoorLock_SetWeekDaySchedule = Cl_DoorLock"
| "cluster_of DoorLock_GetWeekDaySchedule = Cl_DoorLock"
| "cluster_of DoorLock_ClearWeekDaySchedule = Cl_DoorLock"
| "cluster_of DoorLock_SetYearDaySchedule = Cl_DoorLock"
| "cluster_of DoorLock_GetYearDaySchedule = Cl_DoorLock"
| "cluster_of DoorLock_ClearYearDaySchedule = Cl_DoorLock"
| "cluster_of DoorLock_SetHolidaySchedule = Cl_DoorLock"
| "cluster_of DoorLock_GetHolidaySchedule = Cl_DoorLock"
| "cluster_of DoorLock_ClearHolidaySchedule = Cl_DoorLock"
| "cluster_of DoorLock_SetUser = Cl_DoorLock"
| "cluster_of DoorLock_GetUser = Cl_DoorLock"
| "cluster_of DoorLock_ClearUser = Cl_DoorLock"
| "cluster_of DoorLock_SetCredential = Cl_DoorLock"
| "cluster_of DoorLock_GetCredentialStatus = Cl_DoorLock"
| "cluster_of DoorLock_ClearCredential = Cl_DoorLock"
| "cluster_of DoorLock_UnboltDoor = Cl_DoorLock"
| "cluster_of GroupKeyManagement_KeySetWrite = Cl_GroupKeyManagement"
| "cluster_of GroupKeyManagement_KeySetRead = Cl_GroupKeyManagement"
| "cluster_of GroupKeyManagement_KeySetRemove = Cl_GroupKeyManagement"
| "cluster_of GroupKeyManagement_KeySetReadAllIndices = Cl_GroupKeyManagement"
| "cluster_of Identify_Identify = Cl_Identify"
| "cluster_of Identify_TriggerEffect = Cl_Identify"
| "cluster_of OperationalCredentials_AttestationRequest = Cl_OperationalCredentials"
| "cluster_of OperationalCredentials_CertificateChainRequest = Cl_OperationalCredentials"
| "cluster_of OperationalCredentials_CSRRequest = Cl_OperationalCredentials"
| "cluster_of OperationalCredentials_AddNOC = Cl_OperationalCredentials"
| "cluster_of OperationalCredentials_UpdateNOC = Cl_OperationalCredentials"
| "cluster_of OperationalCredentials_UpdateFabricLabel = Cl_OperationalCredentials"
| "cluster_of OperationalCredentials_RemoveFabric = Cl_OperationalCredentials"
| "cluster_of OperationalCredentials_AddTrustedRootCertificate = Cl_OperationalCredentials"
| "cluster_of OperationalCredentials_SetVIDVerificationStatement = Cl_OperationalCredentials"
| "cluster_of OperationalCredentials_SignVIDVerificationRequest = Cl_OperationalCredentials"

definition fabric_scoped :: "Command list" where
  "fabric_scoped =
     [GroupKeyManagement_KeySetWrite,
      GroupKeyManagement_KeySetRead,
      GroupKeyManagement_KeySetRemove,
      GroupKeyManagement_KeySetReadAllIndices,
      OperationalCredentials_UpdateNOC,
      OperationalCredentials_UpdateFabricLabel,
      OperationalCredentials_SetVIDVerificationStatement]"

definition cluster_commands :: "ClusterName \<Rightarrow> Command list" where
  "cluster_commands cl = filter (\<lambda>c. cluster_of c = cl)
     [DoorLock_LockDoor,
      DoorLock_UnlockDoor,
      DoorLock_UnlockWithTimeout,
      DoorLock_SetWeekDaySchedule,
      DoorLock_GetWeekDaySchedule,
      DoorLock_ClearWeekDaySchedule,
      DoorLock_SetYearDaySchedule,
      DoorLock_GetYearDaySchedule,
      DoorLock_ClearYearDaySchedule,
      DoorLock_SetHolidaySchedule,
      DoorLock_GetHolidaySchedule,
      DoorLock_ClearHolidaySchedule,
      DoorLock_SetUser,
      DoorLock_GetUser,
      DoorLock_ClearUser,
      DoorLock_SetCredential,
      DoorLock_GetCredentialStatus,
      DoorLock_ClearCredential,
      DoorLock_UnboltDoor,
      GroupKeyManagement_KeySetWrite,
      GroupKeyManagement_KeySetRead,
      GroupKeyManagement_KeySetRemove,
      GroupKeyManagement_KeySetReadAllIndices,
      Identify_Identify,
      Identify_TriggerEffect,
      OperationalCredentials_AttestationRequest,
      OperationalCredentials_CertificateChainRequest,
      OperationalCredentials_CSRRequest,
      OperationalCredentials_AddNOC,
      OperationalCredentials_UpdateNOC,
      OperationalCredentials_UpdateFabricLabel,
      OperationalCredentials_RemoveFabric,
      OperationalCredentials_AddTrustedRootCertificate,
      OperationalCredentials_SetVIDVerificationStatement,
      OperationalCredentials_SignVIDVerificationRequest]"

definition decode_command :: "('d, 's) sdk \<Rightarrow> Command \<Rightarrow> byte list \<Rightarrow> 's \<Rightarrow> 'd option" where
  "decode_command S c bs s =
     (if c \<in> set fabric_scoped then Decode_fabric S c bs (GetAccessingFabricIndex S s)
      else DataModel_Decode S c bs)"

end
