(* ===== verification/DataModel.thy ===== *)
theory DataModel
  imports EndpointConfig CommandDispatch
begin

text \<open>
  How the three views of the data model fit together: the tables of \<open>endpoint_config.h\<close>, the
  static configuration of the clusters and the command dispatch. The numbers the SDK gives to
  the names of clusters, attributes and commands are those that \<open>endpoint_config.h\<close> documents
  beside each entry; that the SDK's constants have them is a hypothesis.
\<close>

section \<open>The documented numbers\<close>

fun cluster_number :: "ClusterName \<Rightarrow> u32" where
  "cluster_number Cl_Descriptor = 0x1d"
| "cluster_number Cl_AccessControl = 0x1f"
| "cluster_number Cl_BasicInformation = 0x28"
| "cluster_number Cl_GeneralCommissioning = 0x30"
| "cluster_number Cl_NetworkCommissioning = 0x31"
| "cluster_number Cl_GeneralDiagnostics = 0x33"
| "cluster_number Cl_AdministratorCommissioning = 0x3c"
| "cluster_number Cl_OperationalCredentials = 0x3e"
| "cluster_number Cl_GroupKeyManagement = 0x3f"
| "cluster_number Cl_Identify = 0x3"
| "cluster_number Cl_DoorLock = 0x101"

text \<open>Every cluster has three more attributes, which the tables do not list.\<close>

definition global_attributes :: "(string \<times> u32) list" where
  "global_attributes =
     [(''GeneratedCommandList'', 0xfff8), (''AcceptedCommandList'', 0xfff9),
      (''AttributeList'', 0xfffb)]"

fun attribute_numbers :: "ClusterName \<Rightarrow> (string \<times> u32) list" where
  "attribute_numbers Cl_Descriptor =
     [(''ClientList'', 0x2), (''ClusterRevision'', 0xfffd), (''DeviceTypeList'', 0x0),
      (''FeatureMap'', 0xfffc), (''PartsList'', 0x3), (''ServerList'', 0x1)]"
| "attribute_numbers Cl_AccessControl =
     [(''AccessControlEntriesPerFabric'', 0x4), (''Acl'', 0x0),
      (''ClusterRevision'', 0xfffd), (''Extension'', 0x1), (''FeatureMap'', 0xfffc),
      (''SubjectsPerAccessControlEntry'', 0x2), (''TargetsPerAccessControlEntry'', 0x3)]"
| "attribute_numbers Cl_BasicInformation =
     [(''CapabilityMinima'', 0x13), (''ClusterRevision'', 0xfffd),
      (''ConfigurationVersion'', 0x18), (''DataModelRevision'', 0x0),
      (''FeatureMap'', 0xfffc), (''HardwareVersion'', 0x7),
      (''HardwareVersionString'', 0x8), (''Location'', 0x6), (''MaxPathsPerInvoke'', 0x16),
      (''NodeLabel'', 0x5), (''ProductID'', 0x4), (''ProductName'', 0x3),
      (''SoftwareVersion'', 0x9), (''SoftwareVersionString'', 0xa),
      (''SpecificationVersion'', 0x15), (''UniqueID'', 0x12), (''VendorID'', 0x2),
      (''VendorName'', 0x1)]"
| "attribute_numbers Cl_GeneralCommissioning =
     [(''BasicCommissioningInfo'', 0x1), (''Breadcrumb'', 0x0),
      (''ClusterRevision'', 0xfffd), (''FeatureMap'', 0xfffc),
      (''LocationCapability'', 0x3), (''RegulatoryConfig'', 0x2),
      (''SupportsConcurrentConnection'', 0x4)]"
| "attribute_numbers Cl_NetworkCommissioning =
     [(''ClusterRevision'', 0xfffd), (''ConnectMaxTimeSeconds'', 0x3),
      (''FeatureMap'', 0xfffc), (''InterfaceEnabled'', 0x4),
      (''LastConnectErrorValue'', 0x7), (''LastNetworkID'', 0x6),
      (''LastNetworkingStatus'', 0x5), (''MaxNetworks'', 0x0), (''Networks'', 0x1),
      (''ScanMaxTimeSeconds'', 0x2), (''SupportedWiFiBands'', 0x8)]"
| "attribute_numbers Cl_GeneralDiagnostics =
     [(''ClusterRevision'', 0xfffd), (''FeatureMap'', 0xfffc), (''NetworkInterfaces'', 0x0),
      (''RebootCount'', 0x1), (''TestEventTriggersEnabled'', 0x8), (''UpTime'', 0x2)]"
| "attribute_numbers Cl_AdministratorCommissioning =
     [(''AdminFabricIndex'', 0x1), (''AdminVendorId'', 0x2), (''ClusterRevision'', 0xfffd),
      (''FeatureMap'', 0xfffc), (''WindowStatus'', 0x0)]"
| "attribute_numbers Cl_OperationalCredentials =
     [(''ClusterRevision'', 0xfffd), (''CommissionedFabrics'', 0x3),
      (''CurrentFabricIndex'', 0x5), (''Fabrics'', 0x1), (''FeatureMap'', 0xfffc),
      (''NOCs'', 0x0), (''SupportedFabrics'', 0x2), (''TrustedRootCertificates'', 0x4)]"
| "attribute_numbers Cl_GroupKeyManagement =
     [(''ClusterRevision'', 0xfffd), (''FeatureMap'', 0xfffc), (''GroupKeyMap'', 0x0),
      (''GroupTable'', 0x1), (''MaxGroupKeysPerFabric'', 0x3), (''MaxGroupsPerFabric'', 0x2)]"
| "attribute_numbers Cl_Identify =
     [(''ClusterRevision'', 0xfffd), (''FeatureMap'', 0xfffc), (''IdentifyTime'', 0x0),
      (''IdentifyType'', 0x1)]"
| "attribute_numbers Cl_DoorLock =
     [(''ActuatorEnabled'', 0x2), (''ClusterRevision'', 0xfffd),
      (''CredentialRulesSupport'', 0x1b), (''DoorState'', 0x3), (''FeatureMap'', 0xfffc),
      (''LockState'', 0x0), (''LockType'', 0x1), (''MaxPINCodeLength'', 0x17),
      (''MaxRFIDCodeLength'', 0x19), (''MinPINCodeLength'', 0x18),
      (''MinRFIDCodeLength'', 0x1a), (''NumberOfCredentialsSupportedPerUser'', 0x1c),
      (''NumberOfHolidaySchedulesSupported'', 0x16), (''NumberOfPINUsersSupported'', 0x12),
      (''NumberOfRFIDUsersSupported'', 0x13), (''NumberOfTotalUsersSupported'', 0x11),
      (''NumberOfWeekDaySchedulesSupportedPerUser'', 0x14),
      (''NumberOfYearDaySchedulesSupportedPerUser'', 0x15), (''OperatingMode'', 0x25),
      (''RequirePINforRemoteOperation'', 0x33), (''SoundVolume'', 0x24),
      (''SupportedOperatingModes'', 0x26), (''UserCodeTemporaryDisableTime'', 0x31),
      (''WrongCodeEntryLimit'', 0x30)]"

fun command_numbers :: "ClusterName \<Rightarrow> (string \<times> u32) list" where
  "command_numbers Cl_Descriptor =
     []"
| "command_numbers Cl_AccessControl =
     []"
| "command_numbers Cl_BasicInformation =
     []"
| "command_numbers Cl_GeneralCommissioning =
     [(''ArmFailSafe'', 0x0), (''ArmFailSafeResponse'', 0x1),
      (''CommissioningComplete'', 0x4), (''CommissioningCompleteResponse'', 0x5),
      (''SetRegulatoryConfig'', 0x2), (''SetRegulatoryConfigResponse'', 0x3)]"
| "command_numbers Cl_NetworkCommissioning =
     [(''AddOrUpdateWiFiNetwork'', 0x2), (''ConnectNetwork'', 0x6),
      (''ConnectNetworkResponse'', 0x7), (''NetworkConfigResponse'', 0x5),
      (''QueryIdentity'', 0x9), (''QueryIdentityResponse'', 0xa), (''RemoveNetwork'', 0x4),
      (''ReorderNetwork'', 0x8), (''ScanNetworks'', 0x0), (''ScanNetworksResponse'', 0x1)]"
| "command_numbers Cl_GeneralDiagnostics =
     [(''TestEventTrigger'', 0x0), (''TimeSnapshot'', 0x1), (''TimeSnapshotResponse'', 0x2)]"
| "command_numbers Cl_AdministratorCommissioning =
     [(''OpenCommissioningWindow'', 0x0), (''RevokeCommissioning'', 0x2)]"
| "command_numbers Cl_OperationalCredentials =
     [(''AddNOC'', 0x6), (''AddTrustedRootCertificate'', 0xb),
      (''AttestationRequest'', 0x0), (''AttestationResponse'', 0x1),
      (''CertificateChainRequest'', 0x2), (''CertificateChainResponse'', 0x3),
      (''CSRRequest'', 0x4), (''CSRResponse'', 0x5), (''NOCResponse'', 0x8),
      (''RemoveFabric'', 0xa), (''SetVIDVerificationStatement'', 0xc),
      (''SignVIDVerificationRequest'', 0xd), (''SignVIDVerificationResponse'', 0xe),
      (''UpdateFabricLabel'', 0x9), (''UpdateNOC'', 0x7)]"
| "command_numbers Cl_GroupKeyManagement =
     [(''KeySetRead'', 0x1), (''KeySetReadAllIndices'', 0x4),
      (''KeySetReadAllIndicesResponse'', 0x5), (''KeySetReadResponse'', 0x2),
      (''KeySetRemove'', 0x3), (''KeySetWrite'', 0x0)]"
| "command_numbers Cl_Identify =
     [(''Identify'', 0x0), (''TriggerEffect'', 0x40)]"
| "command_numbers Cl_DoorLock =
     [(''ClearCredential'', 0x26), (''ClearHolidaySchedule'', 0x13), (''ClearUser'', 0x1d),
      (''ClearWeekDaySchedule'', 0xd), (''ClearYearDaySchedule'', 0x10),
      (''GetCredentialStatus'', 0x24), (''GetCredentialStatusResponse'', 0x25),
      (''GetHolidaySchedule'', 0x12), (''GetHolidayScheduleResponse'', 0x12),
      (''GetUser'', 0x1b), (''GetUserResponse'', 0x1c), (''GetWeekDaySchedule'', 0xc),
      (''GetWeekDayScheduleResponse'', 0xc), (''GetYearDaySchedule'', 0xf),
      (''GetYearDayScheduleResponse'', 0xf), (''LockDoor'', 0x0), (''SetCredential'', 0x22),
      (''SetCredentialResponse'', 0x23), (''SetHolidaySchedule'', 0x11),
      (''SetUser'', 0x1a), (''SetWeekDaySchedule'', 0xb), (''SetYearDaySchedule'', 0xe),
      (''UnboltDoor'', 0x27), (''UnlockDoor'', 0x1), (''UnlockWithTimeout'', 0x3)]"

fun command_number :: "Command \<Rightarrow> u32" where
  "command_number DoorLock_LockDoor = 0x0"
| "command_number DoorLock_UnlockDoor = 0x1"
| "command_number DoorLock_UnlockWithTimeout = 0x3"
| "command_number DoorLock_SetWeekDaySchedule = 0xb"
| "command_number DoorLock_GetWeekDaySchedule = 0xc"
| "command_number DoorLock_ClearWeekDaySchedule = 0xd"
| "command_number DoorLock_SetYearDaySchedule = 0xe"
| "command_number DoorLock_GetYearDaySchedule = 0xf"
| "command_number DoorLock_ClearYearDaySchedule = 0x10"
| "command_number DoorLock_SetHolidaySchedule = 0x11"
| "command_number DoorLock_GetHolidaySchedule = 0x12"
| "command_number DoorLock_ClearHolidaySchedule = 0x13"
| "command_number DoorLock_SetUser = 0x1a"
| "command_number DoorLock_GetUser = 0x1b"
| "command_number DoorLock_ClearUser = 0x1d"
| "command_number DoorLock_SetCredential = 0x22"
| "command_number DoorLock_GetCredentialStatus = 0x24"
| "command_number DoorLock_ClearCredential = 0x26"
| "command_number DoorLock_UnboltDoor = 0x27"
| "command_number GroupKeyManagement_KeySetWrite = 0x0"
| "command_number GroupKeyManagement_KeySetRead = 0x1"
| "command_number GroupKeyManagement_KeySetRemove = 0x3"
| "command_number GroupKeyManagement_KeySetReadAllIndices = 0x4"
| "command_number Identify_Identify = 0x0"
| "command_number Identify_TriggerEffect = 0x40"
| "command_number OperationalCredentials_AttestationRequest = 0x0"
| "command_number OperationalCredentials_CertificateChainRequest = 0x2"
| "command_number OperationalCredentials_CSRRequest = 0x4"
| "command_number OperationalCredentials_AddNOC = 0x6"
| "command_number OperationalCredentials_UpdateNOC = 0x7"
| "command_number OperationalCredentials_UpdateFabricLabel = 0x9"
| "command_number OperationalCredentials_RemoveFabric = 0xa"
| "command_number OperationalCredentials_AddTrustedRootCertificate = 0xb"
| "command_number OperationalCredentials_SetVIDVerificationStatement = 0xc"
| "command_number OperationalCredentials_SignVIDVerificationRequest = 0xd"

definition idents_ok :: "(string \<Rightarrow> u32) \<Rightarrow> (string \<times> u32) list \<Rightarrow> bool" where
  "idents_ok ident ns \<longleftrightarrow> list_all (\<lambda>(n, v). ident n = v) ns"

definition sdk_numbers_ok :: "('d, 's) sdk \<Rightarrow> bool" where
  "sdk_numbers_ok S \<longleftrightarrow> cluster_Id S = cluster_number \<and> command_Id S = command_number"

section \<open>The rows of a cluster\<close>

definition cluster_rows :: "ClusterName \<Rightarrow> EmberAfCluster list" where
  "cluster_rows cl = filter (\<lambda>r. clusterId r = cluster_number cl) GENERATED_CLUSTERS"

definition listed_attributes :: "ClusterName \<Rightarrow> u32 list" where
  "listed_attributes cl =
     concat (map (\<lambda>r. map attributeId (cluster_attributes r)) (cluster_rows cl)) @ map snd global_attributes"

definition accepted_commands :: "ClusterName \<Rightarrow> u32 list" where
  "accepted_commands cl = concat (map (\<lambda>r. commands_at (acceptedCommandList r)) (cluster_rows cl))"

definition generated_commands :: "ClusterName \<Rightarrow> u32 list" where
  "generated_commands cl = concat (map (\<lambda>r. commands_at (generatedCommandList r)) (cluster_rows cl))"

text \<open>The lists, computed once.\<close>

lemma listed_attributes_eval [simp]:
  "listed_attributes Cl_Descriptor =
     [0x0, 0x1, 0x2, 0x3, 0xfffc, 0xfffd, 0x0, 0x1, 0x2, 0x3, 0xfffc, 0xfffd, 0xfff8, 0xfff9, 0xfffb]"
  "listed_attributes Cl_AccessControl =
     [0x0, 0x1, 0x2, 0x3, 0x4, 0xfffc, 0xfffd, 0xfff8, 0xfff9, 0xfffb]"
  "listed_attributes Cl_BasicInformation =
     [0x0, 0x1, 0x2, 0x3, 0x4, 0x5, 0x6, 0x7, 0x8, 0x9, 0xa, 0x12, 0x13, 0x15, 0x16, 0x18, 0xfffc, 0xfffd, 0xfff8, 0xfff9, 0xfffb]"
  "listed_attributes Cl_GeneralCommissioning =
     [0x0, 0x1, 0x2, 0x3, 0x4, 0xfffc, 0xfffd, 0xfff8, 0xfff9, 0xfffb]"
  "listed_attributes Cl_NetworkCommissioning =
     [0x0, 0x1, 0x2, 0x3, 0x4, 0x5, 0x6, 0x7, 0x8, 0xfffc, 0xfffd, 0xfff8, 0xfff9, 0xfffb]"
  "listed_attributes Cl_GeneralDiagnostics =
     [0x0, 0x1, 0x2, 0x8, 0xfffc, 0xfffd, 0xfff8, 0xfff9, 0xfffb]"
  "listed_attributes Cl_AdministratorCommissioning =
     [0x0, 0x1, 0x2, 0xfffc, 0xfffd, 0xfff8, 0xfff9, 0xfffb]"
  "listed_attributes Cl_OperationalCredentials =
     [0x0, 0x1, 0x2, 0x3, 0x4, 0x5, 0xfffc, 0xfffd, 0xfff8, 0xfff9, 0xfffb]"
  "listed_attributes Cl_GroupKeyManagement =
     [0x0, 0x1, 0x2, 0x3, 0xfffc, 0xfffd, 0xfff8, 0xfff9, 0xfffb]"
  "listed_attributes Cl_Identify =
     [0x0, 0x1, 0xfffc, 0xfffd, 0xfff8, 0xfff9, 0xfffb]"
  "listed_attributes Cl_DoorLock =
     [0x0, 0x1, 0x2, 0x3, 0x11, 0x12, 0x13, 0x14, 0x15, 0x16, 0x17, 0x18, 0x19, 0x1a, 0x1b, 0x1c, 0x24, 0x25, 0x26, 0x30, 0x31, 0x33, 0xfffc, 0xfffd, 0xfff8, 0xfff9, 0xfffb]"
  by code_simp+

lemma accepted_commands_eval [simp]:
  "accepted_commands Cl_Descriptor = []"
  "accepted_commands Cl_AccessControl = []"
  "accepted_commands Cl_BasicInformation = []"
  "accepted_commands Cl_GeneralCommissioning = [0x0, 0x2, 0x4]"
  "accepted_commands Cl_NetworkCommissioning = [0x0, 0x2, 0x4, 0x6, 0x8, 0x9]"
  "accepted_commands Cl_GeneralDiagnostics = [0x0, 0x1]"
  "accepted_commands Cl_AdministratorCommissioning = [0x0, 0x2]"
  "accepted_commands Cl_OperationalCredentials = [0x0, 0x2, 0x4, 0x6, 0x7, 0x9, 0xa, 0xb, 0xc, 0xd]"
  "accepted_commands Cl_GroupKeyManagement = [0x0, 0x1, 0x3, 0x4]"
  "accepted_commands Cl_Identify = [0x0, 0x40]"
  "accepted_commands Cl_DoorLock = [0x0, 0x1, 0x3, 0xb, 0xc, 0xd, 0xe, 0xf, 0x10, 0x11, 0x12, 0x13, 0x1a, 0x1b, 0x1d, 0x22, 0x24, 0x26, 0x27]"
  by code_simp+

lemma generated_commands_eval [simp]:
  "generated_commands Cl_Descriptor = []"
  "generated_commands Cl_AccessControl = []"
  "generated_commands Cl_BasicInformation = []"
  "generated_commands Cl_GeneralCommissioning = [0x1, 0x3, 0x5]"
  "generated_commands Cl_NetworkCommissioning = [0x1, 0x5, 0x7, 0xa]"
  "generated_commands Cl_GeneralDiagnostics = [0x2]"
  "generated_commands Cl_AdministratorCommissioning = []"
  "generated_commands Cl_OperationalCredentials = [0x1, 0x3, 0x5, 0x8, 0xe]"
  "generated_commands Cl_GroupKeyManagement = [0x2, 0x5]"
  "generated_commands Cl_Identify = []"
  "generated_commands Cl_DoorLock = [0xc, 0xf, 0x12, 0x1c, 0x23, 0x25]"
  by code_simp+

section \<open>The static configuration\<close>

lemma attribute_enabled_iff:
  assumes "idents_ok ident (attribute_numbers cl @ global_attributes)"
  shows "attribute_enabled cl ident a \<longleftrightarrow> a \<in> set (listed_attributes cl)"
  using assms
  by (cases cl) (auto simp: idents_ok_def global_attributes_def attribute_enabled_defs)

lemma command_enabled_iff:
  assumes "idents_ok ident (command_numbers cl)"
  shows "command_enabled cl ident c \<longleftrightarrow> c \<in> set (accepted_commands cl @ generated_commands cl)"
  using assms
  by (cases cl) (auto simp: idents_ok_def command_enabled_defs)

end
