(* ===== verification/AccessTables.thy ===== *)
theory AccessTables
  imports Prelude
begin

text \<open>
  \<open>src/zap-generated/access.h\<close>: the privileges that differ from the defaults, as parallel arrays
  of cluster, element and privilege, for reading and writing attributes, for commands and for
  reading events. The arrays are read entry by entry; an element with no entry has the default
  privilege, which the SDK sets.
\<close>

datatype Privilege = kView | kOperate | kManage | kAdminister

definition GENERATED_ACCESS_READ_ATTRIBUTE_CLUSTER :: "u32 list" where
  "GENERATED_ACCESS_READ_ATTRIBUTE_CLUSTER =
     [0x1f, 0x1f, 0x31, 0x31, 0x31, 0x31, 0x31, 0x3e]"

definition GENERATED_ACCESS_READ_ATTRIBUTE_ATTRIBUTE :: "u32 list" where
  "GENERATED_ACCESS_READ_ATTRIBUTE_ATTRIBUTE =
     [0x0, 0x1, 0x0, 0x1, 0x5, 0x6, 0x7, 0x0]"

definition GENERATED_ACCESS_READ_ATTRIBUTE_PRIVILEGE :: "Privilege list" where
  "GENERATED_ACCESS_READ_ATTRIBUTE_PRIVILEGE =
     [kAdminister, kAdminister, kAdminister, kAdminister, kAdminister, kAdminister,
      kAdminister, kAdminister]"

definition GENERATED_ACCESS_WRITE_ATTRIBUTE_CLUSTER :: "u32 list" where
  "GENERATED_ACCESS_WRITE_ATTRIBUTE_CLUSTER =
     [0x1f, 0x1f, 0x28, 0x28, 0x30, 0x31, 0x3f, 0x101, 0x101, 0x101, 0x101, 0x101]"

definition GENERATED_ACCESS_WRITE_ATTRIBUTE_ATTRIBUTE :: "u32 list" where
  "GENERATED_ACCESS_WRITE_ATTRIBUTE_ATTRIBUTE =
     [0x0, 0x1, 0x5, 0x6, 0x0, 0x4, 0x0, 0x24, 0x25, 0x30, 0x31, 0x33]"

definition GENERATED_ACCESS_WRITE_ATTRIBUTE_PRIVILEGE :: "Privilege list" where
  "GENERATED_ACCESS_WRITE_ATTRIBUTE_PRIVILEGE =
     [kAdminister, kAdminister, kManage, kAdminister, kAdminister, kAdminister, kManage,
      kManage, kManage, kAdminister, kAdminister, kAdminister]"

definition GENERATED_ACCESS_INVOKE_COMMAND_CLUSTER :: "u32 list" where
  "GENERATED_ACCESS_INVOKE_COMMAND_CLUSTER =
     [0x3, 0x3, 0x30, 0x30, 0x30, 0x31, 0x31, 0x31, 0x31, 0x31, 0x31, 0x33, 0x3c, 0x3c,
      0x3e, 0x3e, 0x3e, 0x3e, 0x3e, 0x3e, 0x3e, 0x3e, 0x3e, 0x3e, 0x3f, 0x3f, 0x3f, 0x3f,
      0x101, 0x101, 0x101, 0x101, 0x101, 0x101, 0x101, 0x101, 0x101, 0x101, 0x101, 0x101,
      0x101, 0x101, 0x101]"

definition GENERATED_ACCESS_INVOKE_COMMAND_COMMAND :: "u32 list" where
  "GENERATED_ACCESS_INVOKE_COMMAND_COMMAND =
     [0x0, 0x40, 0x0, 0x2, 0x4, 0x0, 0x2, 0x4, 0x6, 0x8, 0x9, 0x0, 0x0, 0x2, 0x0, 0x2, 0x4,
      0x6, 0x7, 0x9, 0xa, 0xb, 0xc, 0xd, 0x0, 0x1, 0x3, 0x4, 0xb, 0xc, 0xd, 0xe, 0xf, 0x10,
      0x11, 0x12, 0x13, 0x1a, 0x1b, 0x1d, 0x22, 0x24, 0x26]"

definition GENERATED_ACCESS_INVOKE_COMMAND_PRIVILEGE :: "Privilege list" where
  "GENERATED_ACCESS_INVOKE_COMMAND_PRIVILEGE =
     [kManage, kManage, kAdminister, kAdminister, kAdminister, kAdminister, kAdminister,
      kAdminister, kAdminister, kAdminister, kAdminister, kManage, kAdminister, kAdminister,
      kAdminister, kAdminister, kAdminister, kAdminister, kAdminister, kAdminister,
      kAdminister, kAdminister, kAdminister, kAdminister, kAdminister, kAdminister,
      kAdminister, kAdminister, kAdminister, kAdminister, kAdminister, kAdminister,
      kAdminister, kAdminister, kAdminister, kAdminister, kAdminister, kAdminister,
      kAdminister, kAdminister, kAdminister, kAdminister, kAdminister]"

definition GENERATED_ACCESS_READ_EVENT_CLUSTER :: "u32 list" where
  "GENERATED_ACCESS_READ_EVENT_CLUSTER =
     [0x1f, 0x1f, 0x1f]"

definition GENERATED_ACCESS_READ_EVENT_EVENT :: "u32 list" where
  "GENERATED_ACCESS_READ_EVENT_EVENT =
     [0x0, 0x1, 0x2]"

definition GENERATED_ACCESS_READ_EVENT_PRIVILEGE :: "Privilege list" where
  "GENERATED_ACCESS_READ_EVENT_PRIVILEGE =
     [kAdminister, kAdminister, kAdminister]"

section \<open>Looking up a privilege\<close>

fun access_entries :: "u32 list \<Rightarrow> u32 list \<Rightarrow> Privilege list \<Rightarrow> ((u32 \<times> u32) \<times> Privilege) list" where
  "access_entries (c # cs) (x # xs) (p # ps) = ((c, x), p) # access_entries cs xs ps"
| "access_entries _ _ _ = []"

definition read_attribute_privilege :: "Privilege \<Rightarrow> u32 \<Rightarrow> u32 \<Rightarrow> Privilege" where
  "read_attribute_privilege dflt c x =
     (case map_of (access_entries GENERATED_ACCESS_READ_ATTRIBUTE_CLUSTER
         GENERATED_ACCESS_READ_ATTRIBUTE_ATTRIBUTE GENERATED_ACCESS_READ_ATTRIBUTE_PRIVILEGE) (c, x) of
        None \<Rightarrow> dflt | Some p \<Rightarrow> p)"

definition write_attribute_privilege :: "Privilege \<Rightarrow> u32 \<Rightarrow> u32 \<Rightarrow> Privilege" where
  "write_attribute_privilege dflt c x =
     (case map_of (access_entries GENERATED_ACCESS_WRITE_ATTRIBUTE_CLUSTER
         GENERATED_ACCESS_WRITE_ATTRIBUTE_ATTRIBUTE GENERATED_ACCESS_WRITE_ATTRIBUTE_PRIVILEGE) (c, x) of
        None \<Rightarrow> dflt | Some p \<Rightarrow> p)"

definition invoke_privilege :: "Privilege \<Rightarrow> u32 \<Rightarrow> u32 \<Rightarrow> Privilege" where
  "invoke_privilege dflt c x =
     (case map_of (access_entries GENERATED_ACCESS_INVOKE_COMMAND_CLUSTER
         GENERATED_ACCESS_INVOKE_COMMAND_COMMAND GENERATED_ACCESS_INVOKE_COMMAND_PRIVILEGE) (c, x) of
        None \<Rightarrow> dflt | Some p \<Rightarrow> p)"

end
