(* ===== verification/DataModelProps.thy ===== *)
theory DataModelProps
  imports DataModel AccessTables Startup
begin

text \<open>
  Properties of the data model's configuration: the tables of \<open>endpoint_config.h\<close> are laid out
  soundly, and the static configuration, the command dispatch, the access tables and the lock
  manager's limits agree with them.
\<close>

section \<open>The layout of the tables\<close>

text \<open>Pieces that follow each other without a gap from \<open>n\<close>; where they end.\<close>

fun tiles :: "nat \<Rightarrow> (nat \<times> nat) list \<Rightarrow> nat option" where
  "tiles n [] = Some n"
| "tiles n ((start, len) # ps) = (if start = n then tiles (n + len) ps else None)"

definition default_ok :: "EmberAfAttributeMetadata \<Rightarrow> bool" where
  "default_ok a = (case defaultValue a of
     ZAP_EMPTY_DEFAULT \<Rightarrow> True
   | ZAP_SIMPLE_DEFAULT v \<Rightarrow> attr_size a \<le> 4 \<and> unat v < 256 ^ attr_size a
   | ZAP_LONG_DEFAULTS_INDEX i \<Rightarrow> i + attr_size a \<le> length GENERATED_DEFAULTS
   | ZAP_MIN_MAX_DEFAULTS_INDEX i \<Rightarrow> i < length GENERATED_MIN_MAX_DEFAULTS
       \<and> mm_min (GENERATED_MIN_MAX_DEFAULTS ! i) \<le> mm_default (GENERATED_MIN_MAX_DEFAULTS ! i)
       \<and> mm_default (GENERATED_MIN_MAX_DEFAULTS ! i) \<le> mm_max (GENERATED_MIN_MAX_DEFAULTS ! i)
       \<and> unat (mm_max (GENERATED_MIN_MAX_DEFAULTS ! i)) < 256 ^ attr_size a)"

lemma attribute_layout:
  "length GENERATED_ATTRIBUTES = GENERATED_ATTRIBUTE_COUNT"
  "tiles 0 (map (\<lambda>c. (cl_attributes c, attributeCount c)) GENERATED_CLUSTERS) = Some GENERATED_ATTRIBUTE_COUNT"
  "map clusterSize GENERATED_CLUSTERS
     = map (\<lambda>c. sum_list (map stored_size (cluster_attributes c))) GENERATED_CLUSTERS"
  "ATTRIBUTE_SINGLETONS_SIZE = sum_list (map singleton_size GENERATED_ATTRIBUTES)"
  "list_all (\<lambda>a. attr_size a \<le> ATTRIBUTE_LARGEST) GENERATED_ATTRIBUTES"
  "list_all (\<lambda>c. distinct (map attributeId (cluster_attributes c))) GENERATED_CLUSTERS"
  by code_simp+

lemma defaults_fit: "list_all default_ok GENERATED_ATTRIBUTES"
  by (simp add: GENERATED_ATTRIBUTES_def attr_row_def default_ok_def GENERATED_MIN_MAX_DEFAULTS_def
      GENERATED_DEFAULTS_def)

lemma endpoint_layout:
  "length GENERATED_CLUSTERS = GENERATED_CLUSTER_COUNT"
  "tiles 0 (map (\<lambda>t. (et_cluster t, et_clusterCount t)) GENERATED_ENDPOINT_TYPES) = Some GENERATED_CLUSTER_COUNT"
  "length FIXED_ENDPOINT_ARRAY = FIXED_ENDPOINT_COUNT"
  "list_all (\<lambda>t. t < length GENERATED_ENDPOINT_TYPES) FIXED_ENDPOINT_TYPES"
  "map endpointSize GENERATED_ENDPOINT_TYPES
     = map (\<lambda>t. sum_list (map clusterSize (type_clusters t))) GENERATED_ENDPOINT_TYPES"
  "ATTRIBUTE_MAX_SIZE = sum_list (map endpointSize GENERATED_ENDPOINT_TYPES)"
  by code_simp+

text \<open>
  The attribute rows of the clusters tile the attribute table, and the clusters of the
  endpoint types the cluster table; the sizes of clusters, endpoint types, singletons and the
  whole storage are the sums of the attributes the server keeps itself; no attribute is larger
  than the buffers, every default fits its attribute, and no cluster lists an attribute twice.
\<close>
theorem endpoint_tables_sound:
  "length GENERATED_ATTRIBUTES = GENERATED_ATTRIBUTE_COUNT
   \<and> tiles 0 (map (\<lambda>c. (cl_attributes c, attributeCount c)) GENERATED_CLUSTERS) = Some GENERATED_ATTRIBUTE_COUNT
   \<and> length GENERATED_CLUSTERS = GENERATED_CLUSTER_COUNT
   \<and> tiles 0 (map (\<lambda>t. (et_cluster t, et_clusterCount t)) GENERATED_ENDPOINT_TYPES) = Some GENERATED_CLUSTER_COUNT
   \<and> length FIXED_ENDPOINT_ARRAY = FIXED_ENDPOINT_COUNT
   \<and> list_all (\<lambda>t. t < length GENERATED_ENDPOINT_TYPES) FIXED_ENDPOINT_TYPES
   \<and> map clusterSize GENERATED_CLUSTERS
       = map (\<lambda>c. sum_list (map stored_size (cluster_attributes c))) GENERATED_CLUSTERS
   \<and> map endpointSize GENERATED_ENDPOINT_TYPES
       = map (\<lambda>t. sum_list (map clusterSize (type_clusters t))) GENERATED_ENDPOINT_TYPES
   \<and> ATTRIBUTE_MAX_SIZE = sum_list (map endpointSize GENERATED_ENDPOINT_TYPES)
   \<and> ATTRIBUTE_SINGLETONS_SIZE = sum_list (map singleton_size GENERATED_ATTRIBUTES)
   \<and> list_all (\<lambda>a. attr_size a \<le> ATTRIBUTE_LARGEST) GENERATED_ATTRIBUTES
   \<and> list_all default_ok GENERATED_ATTRIBUTES
   \<and> list_all (\<lambda>c. distinct (map attributeId (cluster_attributes c))) GENERATED_CLUSTERS"
  by (intro conjI attribute_layout endpoint_layout defaults_fit)

section \<open>The static configuration\<close>

text \<open>The clusters of each endpoint, with the endpoint's number.\<close>

definition endpoint_rows :: "ClusterName \<Rightarrow> (u16 \<times> EmberAfCluster) list" where
  "endpoint_rows cl = filter (\<lambda>(e, r). clusterId r = cluster_number cl)
     (concat (map (\<lambda>(e, t). map (Pair e) (type_clusters (GENERATED_ENDPOINT_TYPES ! t)))
        (zip FIXED_ENDPOINT_ARRAY FIXED_ENDPOINT_TYPES)))"

definition row_lists :: "u16 \<times> EmberAfCluster \<Rightarrow> u16 \<times> u32 list \<times> u32 list" where
  "row_lists er = (fst er,
     map attributeId (cluster_attributes (snd er)) @ map snd global_attributes,
     commands_at (acceptedCommandList (snd er)) @ commands_at (generatedCommandList (snd er)))"

fun as_sets :: "u16 \<times> u32 list \<times> u32 list \<Rightarrow> u16 \<times> u32 set \<times> u32 set" where
  "as_sets (e, xs, ys) = (e, set xs, set ys)"

definition config_lists ::
  "(string \<Rightarrow> u32) \<Rightarrow> (string \<Rightarrow> u32) \<Rightarrow> ClusterConfiguration \<Rightarrow> u16 \<times> u32 list \<times> u32 list" where
  "config_lists ident cident c =
     (endpointNumber c, map ident (enabledAttributes c), map cident (enabledCommands c))"

lemma row_lists_eval:
  "map row_lists (endpoint_rows Cl_Descriptor) =
     [(0, [0x0, 0x1, 0x2, 0x3, 0xfffc, 0xfffd, 0xfff8, 0xfff9, 0xfffb],
        []),
      (1, [0x0, 0x1, 0x2, 0x3, 0xfffc, 0xfffd, 0xfff8, 0xfff9, 0xfffb],
        [])]"
  "map row_lists (endpoint_rows Cl_AccessControl) =
     [(0, [0x0, 0x1, 0x2, 0x3, 0x4, 0xfffc, 0xfffd, 0xfff8, 0xfff9, 0xfffb],
        [])]"
  "map row_lists (endpoint_rows Cl_BasicInformation) =
     [(0, [0x0, 0x1, 0x2, 0x3, 0x4, 0x5, 0x6, 0x7, 0x8, 0x9, 0xa, 0x12, 0x13, 0x15, 0x16, 0x18, 0xfffc, 0xfffd, 0xfff8, 0xfff9, 0xfffb],
        [])]"
  "map row_lists (endpoint_rows Cl_GeneralCommissioning) =
     [(0, [0x0, 0x1, 0x2, 0x3, 0x4, 0xfffc, 0xfffd, 0xfff8, 0xfff9, 0xfffb],
        [0x0, 0x2, 0x4, 0x1, 0x3, 0x5])]"
  "map row_lists (endpoint_rows Cl_NetworkCommissioning) =
     [(0, [0x0, 0x1, 0x2, 0x3, 0x4, 0x5, 0x6, 0x7, 0x8, 0xfffc, 0xfffd, 0xfff8, 0xfff9, 0xfffb],
        [0x0, 0x2, 0x4, 0x6, 0x8, 0x9, 0x1, 0x5, 0x7, 0xa])]"
  "map row_lists (endpoint_rows Cl_GeneralDiagnostics) =
     [(0, [0x0, 0x1, 0x2, 0x8, 0xfffc, 0xfffd, 0xfff8, 0xfff9, 0xfffb],
        [0x0, 0x1, 0x2])]"
  "map row_lists (endpoint_rows Cl_AdministratorCommissioning) =
     [(0, [0x0, 0x1, 0x2, 0xfffc, 0xfffd, 0xfff8, 0xfff9, 0xfffb],
        [0x0, 0x2])]"
  "map row_lists (endpoint_rows Cl_OperationalCredentials) =
     [(0, [0x0, 0x1, 0x2, 0x3, 0x4, 0x5, 0xfffc, 0xfffd, 0xfff8, 0xfff9, 0xfffb],
        [0x0, 0x2, 0x4, 0x6, 0x7, 0x9, 0xa, 0xb, 0xc, 0xd, 0x1, 0x3, 0x5, 0x8, 0xe])]"
  "map row_lists (endpoint_rows Cl_GroupKeyManagement) =
     [(0, [0x0, 0x1, 0x2, 0x3, 0xfffc, 0xfffd, 0xfff8, 0xfff9, 0xfffb],
        [0x0, 0x1, 0x3, 0x4, 0x2, 0x5])]"
  "map row_lists (endpoint_rows Cl_Identify) =
     [(1, [0x0, 0x1, 0xfffc, 0xfffd, 0xfff8, 0xfff9, 0xfffb],
        [0x0, 0x40])]"
  "map row_lists (endpoint_rows Cl_DoorLock) =
     [(1, [0x0, 0x1, 0x2, 0x3, 0x11, 0x12, 0x13, 0x14, 0x15, 0x16, 0x17, 0x18, 0x19, 0x1a, 0x1b, 0x1c, 0x24, 0x25, 0x26, 0x30, 0x31, 0x33, 0xfffc, 0xfffd, 0xfff8, 0xfff9, 0xfffb],
        [0x0, 0x1, 0x3, 0xb, 0xc, 0xd, 0xe, 0xf, 0x10, 0x11, 0x12, 0x13, 0x1a, 0x1b, 0x1d, 0x22, 0x24, 0x26, 0x27, 0xc, 0xf, 0x12, 0x1c, 0x23, 0x25])]"
  by code_simp+

lemma configs_as_rows:
  assumes "idents_ok ident (attribute_numbers cl @ global_attributes)" and "idents_ok cident (command_numbers cl)"
  shows "map (as_sets \<circ> config_lists ident cident) (static_config cl)
    = map as_sets (map row_lists (endpoint_rows cl))"
  using assms
  by (cases cl)
     (simp_all add: idents_ok_def config_lists_def row_lists_eval static_config_defs global_attributes_def,
      auto)

text \<open>
  C38: for every cluster, with the SDK's documented numbers, the static configuration enables
  exactly the attributes and commands of the endpoint tables (and the three attributes every
  cluster has): the predicates over all endpoints, and the configurations endpoint by endpoint.
\<close>
theorem static_config_matches:
  assumes "idents_ok ident (attribute_numbers cl @ global_attributes)" and "idents_ok cident (command_numbers cl)"
  shows "(attribute_enabled cl ident a \<longleftrightarrow> a \<in> set (listed_attributes cl))
    \<and> (command_enabled cl cident c \<longleftrightarrow> c \<in> set (accepted_commands cl @ generated_commands cl))
    \<and> map (as_sets \<circ> config_lists ident cident) (static_config cl)
      = map as_sets (map row_lists (endpoint_rows cl))"
  using attribute_enabled_iff [OF assms(1)] command_enabled_iff [OF assms(2)] configs_as_rows [OF assms]
  by blast

text \<open>Identifiers with the documented numbers.\<close>

definition doc_ident :: "(string \<times> u32) list \<Rightarrow> string \<Rightarrow> u32" where
  "doc_ident ns n = (case map_of ns n of None \<Rightarrow> 0 | Some v \<Rightarrow> v)"

lemma doc_ident_ok: "distinct (map fst ns) \<Longrightarrow> idents_ok (doc_ident ns) ns"
  by (auto simp: idents_ok_def doc_ident_def list_all_iff)

theorem static_config_matches_witness:
  "attribute_enabled Cl_DoorLock (doc_ident (attribute_numbers Cl_DoorLock @ global_attributes)) 0x33
   \<and> \<not> command_enabled Cl_DoorLock (doc_ident (command_numbers Cl_DoorLock)) 0x02"
proof -
  have "distinct (map fst (attribute_numbers Cl_DoorLock @ global_attributes))"
    "distinct (map fst (command_numbers Cl_DoorLock))" by code_simp+
  note ok = doc_ident_ok [OF this(1)] doc_ident_ok [OF this(2)]
  show ?thesis using static_config_matches [OF ok, of "0x33" "0x02"] by simp
qed

section \<open>The dispatch of commands\<close>

definition cluster_ids_distinct :: "('d, 's) sdk \<Rightarrow> bool" where
  "cluster_ids_distinct S \<longleftrightarrow> distinct (map (cluster_Id S)
     [Cl_DoorLock, Cl_GroupKeyManagement, Cl_Identify, Cl_OperationalCredentials])"

definition command_ids_distinct :: "('d, 's) sdk \<Rightarrow> bool" where
  "command_ids_distinct S \<longleftrightarrow> (\<forall>c c'. cluster_of c = cluster_of c' \<longrightarrow>
     (command_Id S c = command_Id S c') = (c = c'))"

text \<open>What the dispatch of a command owes: its own decoder, its own callback, one status.\<close>

definition route :: "('d, 's) sdk \<Rightarrow> Command \<Rightarrow> ConcreteCommandPath \<Rightarrow> byte list \<Rightarrow> 's \<Rightarrow> 's" where
  "route S c path bs s =
     (case decode_command S c bs s of
        None \<Rightarrow> AddStatus S path InvalidCommand s
      | Some d \<Rightarrow> (case cluster_callback S c path d s of (handled, s') \<Rightarrow>
          if handled then s' else AddStatus S path InvalidCommand s'))"

lemma handle_command_status: "fst (handle_command S d c path s) \<noteq> UnsupportedCommand"
  by (auto simp: handle_command_def split: option.split prod.split)

lemmas dispatch_defs = DoorLock_DispatchServerCommand_def
    GroupKeyManagement_DispatchServerCommand_def Identify_DispatchServerCommand_def
    OperationalCredentials_DispatchServerCommand_def

lemma dispatch_own:
  assumes "command_ids_distinct S" and "mCommandId path = command_Id S c"
  shows "cluster_of c = Cl_DoorLock \<Longrightarrow> DoorLock_DispatchServerCommand S path bs s
      = handle_command S (decode_command S c bs s) c path s"
    and "cluster_of c = Cl_GroupKeyManagement \<Longrightarrow> GroupKeyManagement_DispatchServerCommand S path bs s
      = handle_command S (decode_command S c bs s) c path s"
    and "cluster_of c = Cl_Identify \<Longrightarrow> Identify_DispatchServerCommand S path bs s
      = handle_command S (decode_command S c bs s) c path s"
    and "cluster_of c = Cl_OperationalCredentials \<Longrightarrow> OperationalCredentials_DispatchServerCommand S path bs s
      = handle_command S (decode_command S c bs s) c path s"
proof -
  have ids: "cluster_of c = cluster_of c' \<Longrightarrow> (command_Id S c = command_Id S c') = (c = c')" for c c'
    using assms(1) by (auto simp: command_ids_distinct_def)
  show "cluster_of c = Cl_DoorLock \<Longrightarrow> DoorLock_DispatchServerCommand S path bs s
      = handle_command S (decode_command S c bs s) c path s"
    by (cases c) (simp_all add: DoorLock_DispatchServerCommand_def assms(2) ids decode_command_def fabric_scoped_def)
  show "cluster_of c = Cl_GroupKeyManagement \<Longrightarrow> GroupKeyManagement_DispatchServerCommand S path bs s
      = handle_command S (decode_command S c bs s) c path s"
    by (cases c) (simp_all add: GroupKeyManagement_DispatchServerCommand_def assms(2) ids decode_command_def fabric_scoped_def)
  show "cluster_of c = Cl_Identify \<Longrightarrow> Identify_DispatchServerCommand S path bs s
      = handle_command S (decode_command S c bs s) c path s"
    by (cases c) (simp_all add: Identify_DispatchServerCommand_def assms(2) ids decode_command_def fabric_scoped_def)
  show "cluster_of c = Cl_OperationalCredentials \<Longrightarrow> OperationalCredentials_DispatchServerCommand S path bs s
      = handle_command S (decode_command S c bs s) c path s"
    by (cases c) (simp_all add: OperationalCredentials_DispatchServerCommand_def assms(2) ids decode_command_def fabric_scoped_def)
qed
lemma cluster_of_cases: "cluster_of c \<in> {Cl_DoorLock, Cl_GroupKeyManagement, Cl_Identify, Cl_OperationalCredentials}"
  by (cases c) simp_all

lemma route_handle:
  "route S c path bs s = (case handle_command S (decode_command S c bs s) c path s of
     (st, s) \<Rightarrow> if st \<noteq> Status_Success then AddStatus S path st s else s)"
  by (simp add: route_def handle_command_def split: option.split prod.split)

text \<open>
  C36: the switches of the dispatch send every command they know, and only it, to its own
  decoder (with the accessing fabric exactly for the fabric-scoped commands) and its own
  callback; a status is added exactly when decoding fails or the callback does not handle it.
\<close>
theorem dispatch_routes:
  assumes "cluster_ids_distinct S" and "command_ids_distinct S"
    and "mClusterId path = cluster_Id S (cluster_of c)" and "mCommandId path = command_Id S c"
  shows "DispatchSingleClusterCommand S path bs s = route S c path bs s"
proof -
  have cl: "distinct [cluster_Id S Cl_DoorLock, cluster_Id S Cl_GroupKeyManagement,
      cluster_Id S Cl_Identify, cluster_Id S Cl_OperationalCredentials]"
    using assms(1) by (simp add: cluster_ids_distinct_def)
  then have cl': "cluster_Id S Cl_GroupKeyManagement \<noteq> cluster_Id S Cl_DoorLock"
    "cluster_Id S Cl_Identify \<noteq> cluster_Id S Cl_DoorLock"
    "cluster_Id S Cl_Identify \<noteq> cluster_Id S Cl_GroupKeyManagement"
    "cluster_Id S Cl_OperationalCredentials \<noteq> cluster_Id S Cl_DoorLock"
    "cluster_Id S Cl_OperationalCredentials \<noteq> cluster_Id S Cl_GroupKeyManagement"
    "cluster_Id S Cl_OperationalCredentials \<noteq> cluster_Id S Cl_Identify" by auto
  note own = dispatch_own [OF assms(2,4), of bs s]
  show ?thesis
    using cluster_of_cases [of c]
    by (elim insertE) (simp_all add: DispatchSingleClusterCommand_def assms(3) cl' own route_handle)
qed

text \<open>An SDK with the documented numbers, whose callbacks and statuses leave a trace.\<close>

datatype trace = T_callback Command "byte list" | T_status Status

definition doc_sdk :: "(byte list, trace list) sdk" where
  "doc_sdk = \<lparr>cluster_Id = cluster_number, command_Id = command_number,
     DataModel_Decode = (\<lambda>c bs. if bs = [] then None else Some bs),
     Decode_fabric = (\<lambda>c bs fab. if bs = [] then None else Some (fab # bs)),
     GetAccessingFabricIndex = (\<lambda>s. 1),
     cluster_callback = (\<lambda>c path d s. (True, T_callback c d # s)),
     AddStatus = (\<lambda>path st s. T_status st # s)\<rparr>"

lemma doc_sdk_numbers: "sdk_numbers_ok doc_sdk"
  by (simp add: sdk_numbers_ok_def doc_sdk_def)

lemma command_numbers_distinct: "distinct (map command_number (cluster_commands cl))"
  by (cases cl) (simp_all add: cluster_commands_def)

lemma sdk_numbers_distinct:
  assumes "sdk_numbers_ok S"
  shows "cluster_ids_distinct S" and "command_ids_distinct S"
proof -
  have member: "c \<in> set (cluster_commands (cluster_of c))" for c
    by (cases c) (simp_all add: cluster_commands_def)
  have "c = c'" if "cluster_of c = cluster_of c'" "command_number c = command_number c'" for c c'
    using command_numbers_distinct [of "cluster_of c"] member [of c] member [of c'] that
    by (auto simp: distinct_map inj_on_def)
  then show "command_ids_distinct S"
    using assms by (auto simp: command_ids_distinct_def sdk_numbers_ok_def)
  show "cluster_ids_distinct S" using assms by (simp add: cluster_ids_distinct_def sdk_numbers_ok_def)
qed

theorem dispatch_routes_witness:
  "DispatchSingleClusterCommand doc_sdk
     \<lparr>path_mEndpointId = 0, mClusterId = 0x3E, mCommandId = 0x07\<rparr> [9] []
   = [T_callback OperationalCredentials_UpdateNOC [1, 9]]"
proof -
  let ?p = "\<lparr>path_mEndpointId = 0, mClusterId = 0x3E, mCommandId = 0x07\<rparr>"
  have "mClusterId ?p = cluster_Id doc_sdk (cluster_of OperationalCredentials_UpdateNOC)"
    "mCommandId ?p = command_Id doc_sdk OperationalCredentials_UpdateNOC"
    by (simp_all add: doc_sdk_def)
  from dispatch_routes [OF sdk_numbers_distinct [OF doc_sdk_numbers] this, of "[9]" "[]"]
  show ?thesis by (simp add: route_def decode_command_def fabric_scoped_def doc_sdk_def)
qed

text \<open>
  C37: the dispatch and the endpoint tables agree: with the documented numbers a command of the
  four clusters is refused as unsupported exactly when it is not in the accepted command list
  of its cluster.
\<close>
theorem accepted_iff_dispatched:
  assumes "sdk_numbers_ok S"
  shows "(fst (DoorLock_DispatchServerCommand S path bs s) = UnsupportedCommand)
      = (mCommandId path \<notin> set (accepted_commands Cl_DoorLock))
   \<and> (fst (GroupKeyManagement_DispatchServerCommand S path bs s) = UnsupportedCommand)
      = (mCommandId path \<notin> set (accepted_commands Cl_GroupKeyManagement))
   \<and> (fst (Identify_DispatchServerCommand S path bs s) = UnsupportedCommand)
      = (mCommandId path \<notin> set (accepted_commands Cl_Identify))
   \<and> (fst (OperationalCredentials_DispatchServerCommand S path bs s) = UnsupportedCommand)
      = (mCommandId path \<notin> set (accepted_commands Cl_OperationalCredentials))"
  using assms
  by (intro conjI) (simp_all add: sdk_numbers_ok_def handle_command_status dispatch_defs)

theorem accepted_iff_dispatched_witness:
  "fst (DoorLock_DispatchServerCommand doc_sdk
     \<lparr>path_mEndpointId = 1, mClusterId = 0x101, mCommandId = 0x02\<rparr> [] []) = UnsupportedCommand"
  using accepted_iff_dispatched [OF doc_sdk_numbers,
      of "\<lparr>path_mEndpointId = 1, mClusterId = 0x101, mCommandId = 0x02\<rparr>" "[]" "[]"]
  by simp

section \<open>Access\<close>

text \<open>The commands anyone may send who may operate the lock.\<close>

definition operate_commands :: "u32 list" where
  "operate_commands = [0x00, 0x01, 0x03, 0x27]"

definition writable :: "EmberAfAttributeMetadata \<Rightarrow> bool" where
  "writable a \<longleftrightarrow> MASK_WRITABLE \<in> set (attr_mask a)"

text \<open>
  The access tables are well formed, and they protect the lock: the parallel arrays have
  the same length and no element twice; every door lock command that the endpoint accepts needs
  the administer privilege, but locking, unlocking (with a timeout or without) and unbolting,
  which have the default; every
  writable attribute of the endpoints has a privilege above operate, but \<open>IdentifyTime\<close>; and
  every privilege to write belongs to a writable attribute.
\<close>
theorem access_tables_protect:
  "length GENERATED_ACCESS_INVOKE_COMMAND_CLUSTER = length GENERATED_ACCESS_INVOKE_COMMAND_COMMAND
   \<and> length GENERATED_ACCESS_INVOKE_COMMAND_COMMAND = length GENERATED_ACCESS_INVOKE_COMMAND_PRIVILEGE
   \<and> length GENERATED_ACCESS_WRITE_ATTRIBUTE_CLUSTER = length GENERATED_ACCESS_WRITE_ATTRIBUTE_ATTRIBUTE
   \<and> length GENERATED_ACCESS_WRITE_ATTRIBUTE_ATTRIBUTE = length GENERATED_ACCESS_WRITE_ATTRIBUTE_PRIVILEGE
   \<and> length GENERATED_ACCESS_READ_ATTRIBUTE_CLUSTER = length GENERATED_ACCESS_READ_ATTRIBUTE_ATTRIBUTE
   \<and> length GENERATED_ACCESS_READ_ATTRIBUTE_ATTRIBUTE = length GENERATED_ACCESS_READ_ATTRIBUTE_PRIVILEGE
   \<and> length GENERATED_ACCESS_READ_EVENT_CLUSTER = length GENERATED_ACCESS_READ_EVENT_EVENT
   \<and> length GENERATED_ACCESS_READ_EVENT_EVENT = length GENERATED_ACCESS_READ_EVENT_PRIVILEGE
   \<and> distinct (zip GENERATED_ACCESS_INVOKE_COMMAND_CLUSTER GENERATED_ACCESS_INVOKE_COMMAND_COMMAND)
   \<and> distinct (zip GENERATED_ACCESS_WRITE_ATTRIBUTE_CLUSTER GENERATED_ACCESS_WRITE_ATTRIBUTE_ATTRIBUTE)
   \<and> map (invoke_privilege kOperate 0x101) (accepted_commands Cl_DoorLock)
       = map (\<lambda>c. if c \<in> set operate_commands then kOperate else kAdminister) (accepted_commands Cl_DoorLock)
   \<and> concat (map (\<lambda>r. map (\<lambda>a. (clusterId r, attributeId a))
         (filter (\<lambda>a. writable a \<and> write_attribute_privilege kOperate (clusterId r) (attributeId a) = kOperate)
           (cluster_attributes r))) GENERATED_CLUSTERS) = [(0x03, 0x00)]
   \<and> list_all (\<lambda>(c, x). list_ex (\<lambda>r. clusterId r = c
         \<and> list_ex (\<lambda>a. attributeId a = x \<and> writable a) (cluster_attributes r)) GENERATED_CLUSTERS)
       (zip GENERATED_ACCESS_WRITE_ATTRIBUTE_CLUSTER GENERATED_ACCESS_WRITE_ATTRIBUTE_ATTRIBUTE)"
  by (intro conjI; code_simp)

section \<open>The shipped configuration and the lock manager\<close>

text \<open>The default of an attribute, where the tables give one.\<close>

definition row_default :: "EmberAfAttributeMetadata \<Rightarrow> u32 option" where
  "row_default a = (case defaultValue a of
     ZAP_SIMPLE_DEFAULT v \<Rightarrow> Some v
   | ZAP_MIN_MAX_DEFAULTS_INDEX i \<Rightarrow> Some (ucast (mm_default (GENERATED_MIN_MAX_DEFAULTS ! i)))
   | _ \<Rightarrow> None)"

definition attribute_default :: "ClusterName \<Rightarrow> u32 \<Rightarrow> u32 option" where
  "attribute_default cl x =
     (case find (\<lambda>a. attributeId a = x) (concat (map cluster_attributes (cluster_rows cl))) of
        None \<Rightarrow> None | Some a \<Rightarrow> row_default a)"

lemma attribute_defaults [simp]:
  "attribute_default Cl_DoorLock 0x11 = Some 10" "attribute_default Cl_DoorLock 0x14 = Some 10"
  "attribute_default Cl_DoorLock 0x15 = Some 10" "attribute_default Cl_DoorLock 0x16 = Some 10"
  "attribute_default Cl_DoorLock 0x17 = Some 8" "attribute_default Cl_DoorLock 0x19 = Some 20"
  "attribute_default Cl_DoorLock 0x1C = Some 5"
  by code_simp+

text \<open>What the door lock server reads at start-up, when the attributes have their defaults.\<close>

definition reads_defaults :: "boot \<Rightarrow> bool" where
  "reads_defaults b \<longleftrightarrow>
     NumberOfUserSupported b = map_option ucast (attribute_default Cl_DoorLock 0x11)
   \<and> NumberOfWeekDaySchedulesPerUserSupported b = map_option ucast (attribute_default Cl_DoorLock 0x14)
   \<and> NumberOfYearDaySchedulesPerUserSupported b = map_option ucast (attribute_default Cl_DoorLock 0x15)
   \<and> NumberOfHolidaySchedulesSupported b = map_option ucast (attribute_default Cl_DoorLock 0x16)
   \<and> NumberOfCredentialsSupportedPerUser b = map_option ucast (attribute_default Cl_DoorLock 0x1C)"

text \<open>
  The shipped attributes and the lock manager's arrays agree: with the defaults, a known
  lock state and timers that can be made, start-up gets through; and the longest PIN and RFID
  codes the attributes allow fit the lock manager's slots.
\<close>
theorem shipped_configuration_starts:
  assumes "reads_defaults b" and "LockState_Get b \<noteq> None"
    and "rtos_timer_init E LockTimer" and "rtos_timer_init E FunctionTimer"
  shows "(\<exists>w'. lockMgr_Init E b w = Done w')
    \<and> map_option unat (attribute_default Cl_DoorLock 0x17) = Some 8 \<and> 8 \<le> unat kMaxCredentialSize
    \<and> map_option unat (attribute_default Cl_DoorLock 0x19) = Some (unat kMaxCredentialSize)"
proof -
  have "params_ok (boot_params b)"
    using assms(1) by (simp add: reads_defaults_def params_ok_def boot_params_def value_or_def
        SetNumberOfHolidaySchedules_def SetNumberOfYeardaySchedulesPerUser_def
        SetNumberOfWeekdaySchedulesPerUser_def SetNumberOfCredentialsPerUser_def SetNumberOfUsers_def)
  then have "\<exists>w'. lockMgr_Init E b w = Done w'"
    using assms(2-) by (auto simp: lockMgr_Init_def LockManager_Init_eq Let_def)
  then show ?thesis by (simp add: limits)
qed

theorem shipped_configuration_starts_witness:
  "\<exists>b w'. NumberOfUserSupported b = Some 10 \<and> lockMgr_Init demo_env b (static_world demo_env Map.empty) = Done w'"
proof -
  let ?b = "\<lparr>LockState_Get = Some kLocked, NumberOfCredentialsSupportedPerUser = Some 5,
    NumberOfUserSupported = Some 10, NumberOfWeekDaySchedulesPerUserSupported = Some 10,
    NumberOfYearDaySchedulesPerUserSupported = Some 10, NumberOfHolidaySchedulesSupported = Some 10,
    IsWiFiStationProvisioned = False, GetQRCode = None, LOCK_STATE_LED = 1,
    ENABLE_DEVICE_ATTESTATION = False, ENABLE_OTA_REQUESTOR = False, boot_set_confirmed = 0\<rparr>"
  have "reads_defaults ?b" by (simp add: reads_defaults_def)
  then have "\<exists>w'. lockMgr_Init demo_env ?b (static_world demo_env Map.empty) = Done w'"
    by (rule shipped_configuration_starts [THEN conjunct1]) simp_all
  then show ?thesis by (intro exI [of _ ?b]) simp
qed

end
