(* ===== verification/Iteration.thy ===== *)
theory Iteration
  imports Prelude
begin

text \<open>
  Iterators as an interface: a client calls \<open>Next\<close> until it says there is no more. The
  provider promises what is left in an iterator; then the client's loop ends, with exactly
  that list. The iterators of the device information providers interpret the locale.
\<close>

section \<open>The client's loop\<close>

text \<open>
  \<open>while (it->Next(x)) use(x);\<close> collects the elements. A loop that never ended would have the
  value \<open>None\<close>. \<open>Next\<close> itself may be undefined, which ends the loop as well.
\<close>

partial_function (option) iterate ::
  "('i \<Rightarrow> ('a \<times> 'i) option outcome) \<Rightarrow> 'i \<Rightarrow> 'a list outcome option" where
  "iterate Next it =
     (case Next it of
        Done None \<Rightarrow> Some (Done [])
      | Done (Some (x, it')) \<Rightarrow> Option.bind (iterate Next it') (\<lambda>r. Some (obind r (\<lambda>xs. Done (x # xs))))
      | Halted e \<Rightarrow> Some (Halted e)
      | Undef \<Rightarrow> Some Undef)"

locale iterator =
  fixes Next :: "'i \<Rightarrow> ('a \<times> 'i) option outcome"
    and left :: "'i \<Rightarrow> 'a list"
    and ok :: "'i \<Rightarrow> bool"
  assumes next_end: "ok it \<Longrightarrow> left it = [] \<Longrightarrow> Next it = Done None"
    and next_more: "ok it \<Longrightarrow> left it = x # xs \<Longrightarrow>
      \<exists>it'. Next it = Done (Some (x, it')) \<and> left it' = xs \<and> ok it'"
begin

lemma iterate_left: "ok it \<Longrightarrow> iterate Next it = Some (Done (left it))"
proof (induction "left it" arbitrary: it)
  case Nil
  then show ?case by (subst iterate.simps) (simp add: next_end)
next
  case (Cons x xs)
  from next_more [OF Cons.prems Cons.hyps(2) [symmetric]]
  obtain it' where it': "Next it = Done (Some (x, it'))" "left it' = xs" "ok it'" by blast
  with Cons.hyps have "iterate Next it' = Some (Done xs)" by metis
  with it' Cons.hyps(2) show ?case by (subst iterate.simps) simp
qed

end

section \<open>Iterators over a fixed array\<close>

text \<open>
  The shape of most iterators of the program: an index into a static array, compared with
  the number of its elements.
\<close>

definition array_next :: "'a list \<Rightarrow> u32 \<Rightarrow> u32 \<Rightarrow> ('a \<times> u32) option outcome" where
  "array_next xs n i =
     (if \<not> i < n then Done None
      else if unat i < length xs then Done (Some (xs ! unat i, i + 1)) else Undef)"

lemma unat_inc:
  fixes i n :: "'a::len word"
  assumes "i < n"
  shows "unat (i + 1) = unat i + 1"
proof -
  have "Suc (unat i) < 2 ^ LENGTH('a)"
    using assms by (intro le_less_trans [of "Suc (unat i)" "unat n"])
      (simp_all add: word_less_nat_alt Suc_le_eq)
  then show ?thesis by (simp add: unat_word_ariths)
qed

lemma array_next_iterator:
  assumes "length xs = unat n"
  shows "iterator (array_next xs n) (\<lambda>i :: u32. drop (unat i) xs) (\<lambda>_. True)"
proof
  fix i :: u32
  assume "drop (unat i) xs = []"
  then show "array_next xs n i = Done None"
    using assms by (simp add: array_next_def word_less_nat_alt)
next
  fix i :: u32 and y ys
  assume d: "drop (unat i) xs = y # ys"
  then have i: "unat i < length xs" by (metis drop_all leI list.distinct(1))
  with d have "xs ! unat i = y \<and> drop (unat i + 1) xs = ys"
    by (metis Cons_nth_drop_Suc Suc_eq_plus1 list.inject)
  moreover from i assms have lt: "i < n" by (simp add: word_less_nat_alt)
  ultimately show "\<exists>j. array_next xs n i = Done (Some (y, j)) \<and> drop (unat j) xs = ys \<and> True"
    using i unat_inc [OF lt] by (simp add: array_next_def)
qed

end
