(* ===== verification/DeviceInfo.thy ===== *)
theory DeviceInfo
  imports Iteration LockTypes
begin

text \<open>
  \<open>src/providers/DeviceInfoProviderImpl.cpp\<close>, the provider the program installs: user labels
  kept in the persistent storage of the Matter SDK as TLV, and fixed lists of locales and
  calendar types. The storage, the TLV writer and reader, \<open>CopyString\<close>, the error codes and
  sizes are the SDK's: fields of one record. \<open>size_t\<close> has 32 bits on the target. A
  \<open>CharSpan\<close> is its bytes.
\<close>

section \<open>The SDK's side\<close>

record ('k, 'st, 'w, 'r) label_sdk =
  CHIP_NO_ERROR :: u32
  CHIP_ERROR_INVALID_ARGUMENT :: u32
  kMaxLabelNameLength :: nat
  kMaxLabelValueLength :: nat
  EstimateStructOverhead :: "nat \<Rightarrow> nat \<Rightarrow> nat"
  \<comment> \<open>the storage delegate; a read gets the buffer and gives it back\<close>
  UserLabelLengthKey :: "EndpointId \<Rightarrow> 'k"
  UserLabelIndexKey :: "EndpointId \<Rightarrow> u32 \<Rightarrow> 'k"
  SyncSetKeyValue :: "'k \<Rightarrow> byte list \<Rightarrow> 'st \<Rightarrow> u32 \<times> 'st"
  SyncGetKeyValue :: "'k \<Rightarrow> byte list \<Rightarrow> u16 \<Rightarrow> 'st \<Rightarrow> u32 \<times> byte list"
  SyncDeleteKeyValue :: "'k \<Rightarrow> 'st \<Rightarrow> u32 \<times> 'st"
  \<comment> \<open>the TLV writer over a buffer of a size, and the bytes it has written\<close>
  writer_Init :: "nat \<Rightarrow> 'w"
  StartContainer :: "'w \<Rightarrow> u32 \<times> 'w"
  PutString :: "u8 \<Rightarrow> byte list \<Rightarrow> 'w \<Rightarrow> u32 \<times> 'w"
  EndContainer :: "'w \<Rightarrow> u32 \<times> 'w"
  written :: "'w \<Rightarrow> byte list"
  \<comment> \<open>the TLV reader over a whole buffer\<close>
  reader_Init :: "byte list \<Rightarrow> 'r"
  Next_structure :: "'r \<Rightarrow> u32 \<times> 'r"
  EnterContainer :: "'r \<Rightarrow> u32 \<times> 'r"
  Next_tag :: "u8 \<Rightarrow> 'r \<Rightarrow> u32 \<times> 'r"
  Get_string :: "'r \<Rightarrow> u32 \<times> byte list"
  VerifyEndOfContainer :: "'r \<Rightarrow> u32 \<times> 'r"
  ExitContainer :: "'r \<Rightarrow> u32 \<times> 'r"
  label_CopyString :: "byte list \<Rightarrow> byte list \<Rightarrow> byte list"
  \<comment> \<open>object representation of a \<open>size_t\<close>, and what uninitialised memory holds\<close>
  size_bytes :: "u32 \<Rightarrow> byte list"
  size_value :: "byte list \<Rightarrow> u32"
  junk_tlv :: "byte list"
  junk_name :: "byte list"
  junk_value :: "byte list"
  heap_available :: bool

definition kLabelNameTag :: u8 where "kLabelNameTag = 0"
definition kLabelValueTag :: u8 where "kLabelValueTag = 1"

definition UserLabelTLVMaxSize :: "('k, 'st, 'w, 'r) label_sdk \<Rightarrow> nat" where
  "UserLabelTLVMaxSize S = EstimateStructOverhead S (kMaxLabelNameLength S) (kMaxLabelValueLength S)"

text \<open>\<open>CanCastTo<uint32_t>\<close> of a \<open>size_t\<close>.\<close>

definition CanCastTo_u32 :: "u32 \<Rightarrow> bool" where "CanCastTo_u32 i \<longleftrightarrow> unat i < 2 ^ 32"

text \<open>A C string: its bytes up to the terminating zero; without one the read leaves the array.\<close>

definition fromCharString :: "byte list \<Rightarrow> byte list outcome" where
  "fromCharString buf = (if 0 \<in> set buf then Done (takeWhile (\<lambda>c. c \<noteq> 0) buf) else Undef)"

definition c_literal :: "string \<Rightarrow> byte list" where
  "c_literal cs = map of_char cs"

section \<open>User labels\<close>

text \<open>Fixed labels: there are none, the null pointer stands for the empty list.\<close>

definition IterateFixedLabel :: "EndpointId \<Rightarrow> unit option" where
  "IterateFixedLabel endpoint = None"

definition SetUserLabelLength ::
  "('k, 'st, 'w, 'r) label_sdk \<Rightarrow> EndpointId \<Rightarrow> u32 \<Rightarrow> 'st \<Rightarrow> u32 \<times> 'st" where
  "SetUserLabelLength S endpoint val st =
     SyncSetKeyValue S (UserLabelLengthKey S endpoint) (size_bytes S val) st"

text \<open>\<open>val\<close> is the caller's variable, which the storage may leave as it is.\<close>

definition GetUserLabelLength ::
  "('k, 'st, 'w, 'r) label_sdk \<Rightarrow> EndpointId \<Rightarrow> u32 \<Rightarrow> 'st \<Rightarrow> u32 \<times> u32" where
  "GetUserLabelLength S endpoint val st =
     (let len = of_nat (length (size_bytes S val));
          (err, buf) = SyncGetKeyValue S (UserLabelLengthKey S endpoint) (size_bytes S val) len st
      in (err, size_value S buf))"

text \<open>The length written is passed on as 16 bits.\<close>

definition SetUserLabelAt ::
  "('k, 'st, 'w, 'r) label_sdk \<Rightarrow> EndpointId \<Rightarrow> u32 \<Rightarrow> byte list \<times> byte list \<Rightarrow> 'st \<Rightarrow> u32 \<times> 'st" where
  "SetUserLabelAt S endpoint index userLabel st =
     (if \<not> CanCastTo_u32 index then (CHIP_ERROR_INVALID_ARGUMENT S, st)
      else let writer = writer_Init S (UserLabelTLVMaxSize S);
               (err, writer) = StartContainer S writer in
      if err \<noteq> CHIP_NO_ERROR S then (err, st)
      else let (err, writer) = PutString S kLabelNameTag (fst userLabel) writer in
      if err \<noteq> CHIP_NO_ERROR S then (err, st)
      else let (err, writer) = PutString S kLabelValueTag (snd userLabel) writer in
      if err \<noteq> CHIP_NO_ERROR S then (err, st)
      else let (err, writer) = EndContainer S writer in
      if err \<noteq> CHIP_NO_ERROR S then (err, st)
      else let len = of_nat (length (written S writer)) :: u16
      in SyncSetKeyValue S (UserLabelIndexKey S endpoint index) (take (unat len) (written S writer)) st)"

definition DeleteUserLabelAt ::
  "('k, 'st, 'w, 'r) label_sdk \<Rightarrow> EndpointId \<Rightarrow> u32 \<Rightarrow> 'st \<Rightarrow> u32 \<times> 'st" where
  "DeleteUserLabelAt S endpoint index st = SyncDeleteKeyValue S (UserLabelIndexKey S endpoint index) st"

section \<open>Iterating over the user labels\<close>

record UserLabelIterator =
  mEndpoint :: EndpointId
  mIndex :: u32
  mTotal :: u32
  mUserLabelNameBuf :: "byte list"
  mUserLabelValueBuf :: "byte list"

text \<open>The constructor: without a stored length the total stays zero.\<close>

definition UserLabelIteratorImpl ::
  "('k, 'st, 'w, 'r) label_sdk \<Rightarrow> EndpointId \<Rightarrow> 'st \<Rightarrow> UserLabelIterator" where
  "UserLabelIteratorImpl S endpoint st =
     (let it = \<lparr>mEndpoint = endpoint, mIndex = 0, mTotal = 0, mUserLabelNameBuf = junk_name S,
                mUserLabelValueBuf = junk_value S\<rparr>;
          (err, total) = GetUserLabelLength S endpoint 0 st
      in if err \<noteq> CHIP_NO_ERROR S then it else it\<lparr>mTotal := total, mIndex := 0\<rparr>)"

definition IterateUserLabel ::
  "('k, 'st, 'w, 'r) label_sdk \<Rightarrow> EndpointId \<Rightarrow> 'st \<Rightarrow> UserLabelIterator option" where
  "IterateUserLabel S endpoint st =
     (if heap_available S then Some (UserLabelIteratorImpl S endpoint st) else None)"

definition UserLabelIterator_Count :: "UserLabelIterator \<Rightarrow> u32" where
  "UserLabelIterator_Count it = mTotal it"

text \<open>The reads of one label from its buffer, up to the first that fails.\<close>

definition read_label ::
  "('k, 'st, 'w, 'r) label_sdk \<Rightarrow> byte list \<Rightarrow> (byte list \<times> byte list) option" where
  "read_label S buf =
     (let reader = reader_Init S buf;
          (err, reader) = Next_structure S reader in
      if err \<noteq> CHIP_NO_ERROR S then None
      else let (err, reader) = EnterContainer S reader in
      if err \<noteq> CHIP_NO_ERROR S then None
      else let (err, reader) = Next_tag S kLabelNameTag reader in
      if err \<noteq> CHIP_NO_ERROR S then None
      else let (err, label) = Get_string S reader in
      if err \<noteq> CHIP_NO_ERROR S then None
      else let (err, reader) = Next_tag S kLabelValueTag reader in
      if err \<noteq> CHIP_NO_ERROR S then None
      else let (err, value) = Get_string S reader in
      if err \<noteq> CHIP_NO_ERROR S then None
      else let (err, reader) = VerifyEndOfContainer S reader in
      if err \<noteq> CHIP_NO_ERROR S then None
      else let (err, reader) = ExitContainer S reader in
      if err \<noteq> CHIP_NO_ERROR S then None
      else Some (label, value))"

definition UserLabelIterator_Next ::
  "('k, 'st, 'w, 'r) label_sdk \<Rightarrow> 'st \<Rightarrow> UserLabelIterator
    \<Rightarrow> ((byte list \<times> byte list) \<times> UserLabelIterator) option outcome" where
  "UserLabelIterator_Next S st it =
     (if \<not> mIndex it < mTotal it then Done None
      else if \<not> CanCastTo_u32 (mIndex it) then Done None
      else let len = of_nat (UserLabelTLVMaxSize S);
               (err, buf) = SyncGetKeyValue S (UserLabelIndexKey S (mEndpoint it) (mIndex it))
                              (junk_tlv S) len st in
      if err \<noteq> CHIP_NO_ERROR S then Done None
      else case read_label S buf of
        None \<Rightarrow> Done None
      | Some (label, value) \<Rightarrow>
          let it = it\<lparr>mUserLabelNameBuf := label_CopyString S (mUserLabelNameBuf it) label,
                      mUserLabelValueBuf := label_CopyString S (mUserLabelValueBuf it) value\<rparr> in
          obind (fromCharString (mUserLabelNameBuf it)) (\<lambda>out_label.
          obind (fromCharString (mUserLabelValueBuf it)) (\<lambda>out_value.
          Done (Some ((out_label, out_value), it\<lparr>mIndex := mIndex it + 1\<rparr>)))))"

section \<open>Locales and calendar types\<close>

datatype CalendarType = kGregorian

definition kNumSupportedLocales :: u32 where "kNumSupportedLocales = 1"
definition kNumSupportedCalendarTypes :: u32 where "kNumSupportedCalendarTypes = 1"

text \<open>A new iterator stands before the first element; without memory there is none.\<close>

definition IterateSupportedLocales :: "('k, 'st, 'w, 'r) label_sdk \<Rightarrow> u32 option" where
  "IterateSupportedLocales S = (if heap_available S then Some 0 else None)"

definition IterateSupportedCalendarTypes :: "('k, 'st, 'w, 'r) label_sdk \<Rightarrow> u32 option" where
  "IterateSupportedCalendarTypes S = (if heap_available S then Some 0 else None)"

definition SupportedLocales_Count :: u32 where "SupportedLocales_Count = kNumSupportedLocales"

definition kAllSupportedLocales :: "byte list list" where
  "kAllSupportedLocales = [c_literal ''en-US'']"

definition SupportedLocales_Next :: "u32 \<Rightarrow> (byte list \<times> u32) option outcome" where
  "SupportedLocales_Next i = array_next kAllSupportedLocales kNumSupportedLocales i"

definition SupportedCalendarTypes_Count :: u32 where
  "SupportedCalendarTypes_Count = kNumSupportedCalendarTypes"

definition kAllSupportedCalendarTypes :: "CalendarType list" where
  "kAllSupportedCalendarTypes = [kGregorian]"

definition SupportedCalendarTypes_Next :: "u32 \<Rightarrow> (CalendarType \<times> u32) option outcome" where
  "SupportedCalendarTypes_Next i =
     array_next kAllSupportedCalendarTypes kNumSupportedCalendarTypes i"

interpretation locales: iterator SupportedLocales_Next
  "\<lambda>i. drop (unat i) kAllSupportedLocales" "\<lambda>_. True"
  unfolding SupportedLocales_Next_def
  by (rule array_next_iterator) (simp add: kAllSupportedLocales_def kNumSupportedLocales_def)

interpretation calendars: iterator SupportedCalendarTypes_Next
  "\<lambda>i. drop (unat i) kAllSupportedCalendarTypes" "\<lambda>_. True"
  unfolding SupportedCalendarTypes_Next_def
  by (rule array_next_iterator) (simp add: kAllSupportedCalendarTypes_def kNumSupportedCalendarTypes_def)

section \<open>What the user label iterator lists\<close>

text \<open>
  \<open>CopyString\<close> copies what fits in the array less one cell and terminates it. So a reader
  sees a label up to its first zero and up to the size of the array.
\<close>

definition label_copy_ok :: "('k, 'st, 'w, 'r) label_sdk \<Rightarrow> bool" where
  "label_copy_ok S \<longleftrightarrow>
     (\<forall>dst src. length (label_CopyString S dst src) = length dst
       \<and> (dst \<noteq> [] \<longrightarrow>
            (let m = min (length dst - 1) (length src)
             in take m (label_CopyString S dst src) = take m src
                \<and> label_CopyString S dst src ! m = 0)))
   \<and> length (junk_name S) = kMaxLabelNameLength S + 1
   \<and> length (junk_value S) = kMaxLabelValueLength S + 1"

definition shown_text :: "nat \<Rightarrow> byte list \<Rightarrow> byte list" where
  "shown_text n bs = takeWhile (\<lambda>c. c \<noteq> 0) (take n bs)"

definition stored_label ::
  "('k, 'st, 'w, 'r) label_sdk \<Rightarrow> 'st \<Rightarrow> EndpointId \<Rightarrow> u32 \<Rightarrow> (byte list \<times> byte list) option" where
  "stored_label S st endpoint i =
     (let (err, buf) = SyncGetKeyValue S (UserLabelIndexKey S endpoint i) (junk_tlv S)
                         (of_nat (UserLabelTLVMaxSize S)) st
      in if err \<noteq> CHIP_NO_ERROR S then None
         else case read_label S buf of
           None \<Rightarrow> None
         | Some (l, v) \<Rightarrow> Some (shown_text (kMaxLabelNameLength S) l, shown_text (kMaxLabelValueLength S) v))"

definition listed_labels ::
  "('k, 'st, 'w, 'r) label_sdk \<Rightarrow> 'st \<Rightarrow> EndpointId \<Rightarrow> nat \<Rightarrow> nat \<Rightarrow> (byte list \<times> byte list) list" where
  "listed_labels S st endpoint i n =
     map the (takeWhile (\<lambda>l. l \<noteq> None) (map (\<lambda>j. stored_label S st endpoint (of_nat j)) [i..<n]))"

lemma takeWhile_stop: "\<not> P z \<Longrightarrow> takeWhile P (ys @ z # zs) = takeWhile P ys"
  by (induction ys) auto

lemma takeWhile_zero:
  "xs ! m = 0 \<Longrightarrow> m < length xs \<Longrightarrow>
    takeWhile (\<lambda>c. c \<noteq> 0) xs = takeWhile (\<lambda>c. c \<noteq> 0) (take m xs)"
  by (subst id_take_nth_drop) (auto intro: takeWhile_stop)

lemma label_copyD:
  "label_copy_ok S \<Longrightarrow> dst \<noteq> [] \<Longrightarrow>
     take (min (length dst - 1) (length src)) (label_CopyString S dst src)
       = take (min (length dst - 1) (length src)) src
   \<and> label_CopyString S dst src ! min (length dst - 1) (length src) = 0
   \<and> length (label_CopyString S dst src) = length dst"
  unfolding label_copy_ok_def Let_def by blast

lemma shown_copy:
  assumes "label_copy_ok S" and "length dst = n + 1"
  shows "fromCharString (label_CopyString S dst src) = Done (shown_text n src)"
proof -
  let ?c = "label_CopyString S dst src"
  let ?m = "min n (length src)"
  have "dst \<noteq> []" and n: "length dst - 1 = n" using assms(2) by auto
  note copied = label_copyD [OF assms(1) this(1), of src]
  with assms(2) copied have len: "length ?c = n + 1" and pre: "take ?m ?c = take ?m src" and zero: "?c ! ?m = 0"
    by simp_all
  then have "0 \<in> set ?c" by (metis in_set_conv_nth less_Suc_eq_le Suc_eq_plus1 min.cobounded1)
  moreover have "takeWhile (\<lambda>c. c \<noteq> 0) ?c = takeWhile (\<lambda>c. c \<noteq> 0) (take ?m src)"
    using takeWhile_zero [OF zero] len pre by simp
  moreover have "take ?m src = take n src" by (cases "n \<le> length src") simp_all
  ultimately show ?thesis by (simp add: fromCharString_def shown_text_def)
qed

definition label_buffers_ok :: "('k, 'st, 'w, 'r) label_sdk \<Rightarrow> UserLabelIterator \<Rightarrow> bool" where
  "label_buffers_ok S it \<longleftrightarrow> length (mUserLabelNameBuf it) = kMaxLabelNameLength S + 1
     \<and> length (mUserLabelValueBuf it) = kMaxLabelValueLength S + 1"

lemma listed_labels_unfold:
  "listed_labels S st ep i n =
     (if i < n then (case stored_label S st ep (of_nat i) of None \<Rightarrow> []
        | Some l \<Rightarrow> l # listed_labels S st ep (Suc i) n) else [])"
  by (simp add: listed_labels_def upt_rec [of i] split: option.split)

lemma UserLabelIterator_Next_unfold:
  assumes copy: "label_copy_ok S" and ok: "label_buffers_ok S it"
  shows "UserLabelIterator_Next S st it =
    (if mIndex it < mTotal it then
       (case stored_label S st (mEndpoint it) (mIndex it) of None \<Rightarrow> Done None
        | Some l \<Rightarrow> Done (Some (l, it\<lparr>
            mUserLabelNameBuf := label_CopyString S (mUserLabelNameBuf it)
              (fst (the (read_label S (snd (SyncGetKeyValue S (UserLabelIndexKey S (mEndpoint it) (mIndex it))
                 (junk_tlv S) (of_nat (UserLabelTLVMaxSize S)) st))))),
            mUserLabelValueBuf := label_CopyString S (mUserLabelValueBuf it)
              (snd (the (read_label S (snd (SyncGetKeyValue S (UserLabelIndexKey S (mEndpoint it) (mIndex it))
                 (junk_tlv S) (of_nat (UserLabelTLVMaxSize S)) st))))),
            mIndex := mIndex it + 1\<rparr>)))
     else Done None)"
proof -
  have cast: "CanCastTo_u32 (mIndex it)" 
    using unsigned_less [of "mIndex it"] by (simp add: CanCastTo_u32_def)
  show ?thesis
    using ok by (auto simp: UserLabelIterator_Next_def stored_label_def Let_def cast label_buffers_ok_def
        shown_copy [OF copy] split: prod.splits option.splits)
qed

lemma user_labels_iterator:
  assumes copy: "label_copy_ok S"
  shows "iterator (UserLabelIterator_Next S st)
    (\<lambda>it. listed_labels S st (mEndpoint it) (unat (mIndex it)) (unat (mTotal it))) (label_buffers_ok S)"
proof
  fix it
  assume ok: "label_buffers_ok S it"
    and "listed_labels S st (mEndpoint it) (unat (mIndex it)) (unat (mTotal it)) = []"
  then show "UserLabelIterator_Next S st it = Done None"
    by (subst (asm) listed_labels_unfold)
       (auto simp: UserLabelIterator_Next_unfold [OF copy ok] word_less_nat_alt split: option.splits)
next
  fix it x xs
  assume ok: "label_buffers_ok S it"
    and left: "listed_labels S st (mEndpoint it) (unat (mIndex it)) (unat (mTotal it)) = x # xs"
  from left have lt: "mIndex it < mTotal it" and x: "stored_label S st (mEndpoint it) (mIndex it) = Some x"
    and xs: "xs = listed_labels S st (mEndpoint it) (Suc (unat (mIndex it))) (unat (mTotal it))"
    by (subst (asm) listed_labels_unfold; simp add: word_less_nat_alt split: if_splits option.splits)+
  have lens: "length (label_CopyString S dst src) = length dst" for dst src
    using copy by (simp add: label_copy_ok_def)
  show "\<exists>it'. UserLabelIterator_Next S st it = Done (Some (x, it'))
      \<and> listed_labels S st (mEndpoint it') (unat (mIndex it')) (unat (mTotal it')) = xs
      \<and> label_buffers_ok S it'"
    using lt x xs ok unat_inc [OF lt]
    by (auto simp: UserLabelIterator_Next_unfold [OF copy ok] label_buffers_ok_def lens)
qed

interpretation user_labels: iterator "UserLabelIterator_Next S st"
  "\<lambda>it. listed_labels S st (mEndpoint it) (unat (mIndex it)) (unat (mTotal it))"
  "\<lambda>it. label_copy_ok S \<and> label_buffers_ok S it" for S st
proof
  fix it
  assume "label_copy_ok S \<and> label_buffers_ok S it"
    and "listed_labels S st (mEndpoint it) (unat (mIndex it)) (unat (mTotal it)) = []"
  then show "UserLabelIterator_Next S st it = Done None"
    using iterator.next_end [OF user_labels_iterator [of S st], of it] by simp
next
  fix it x xs
  assume "label_copy_ok S \<and> label_buffers_ok S it"
    and "listed_labels S st (mEndpoint it) (unat (mIndex it)) (unat (mTotal it)) = x # xs"
  then show "\<exists>it'. UserLabelIterator_Next S st it = Done (Some (x, it'))
      \<and> listed_labels S st (mEndpoint it') (unat (mIndex it')) (unat (mTotal it')) = xs
      \<and> label_copy_ok S \<and> label_buffers_ok S it'"
    using iterator.next_more [OF user_labels_iterator [of S st], of it x xs] by simp
qed

end
