(* ===== verification/LabelStore.thy ===== *)
theory LabelStore
  imports DeviceInfo
begin

text \<open>
  Labels written by the device information provider come back from its iterator. The laws
  of the storage, its keys and the TLV codec are hypotheses on the SDK's record; a small
  codec in the style of Matter TLV and a map as the storage satisfy them.
\<close>

section \<open>The SDK's laws\<close>

text \<open>A value set is what a read finds, in front of what the buffer held; no other key changes.\<close>

definition storage_ok :: "('k, 'st, 'w, 'r) label_sdk \<Rightarrow> bool" where
  "storage_ok S \<longleftrightarrow>
     (\<forall>k bs st st'. SyncSetKeyValue S k bs st = (CHIP_NO_ERROR S, st') \<longrightarrow>
        (\<forall>buf len. length bs \<le> unat len \<and> unat len \<le> length buf \<longrightarrow>
           SyncGetKeyValue S k buf len st' = (CHIP_NO_ERROR S, memcpy_at 0 bs buf))
      \<and> (\<forall>k' buf len. k' \<noteq> k \<longrightarrow> SyncGetKeyValue S k' buf len st' = SyncGetKeyValue S k' buf len st))"

definition label_keys_ok :: "('k, 'st, 'w, 'r) label_sdk \<Rightarrow> bool" where
  "label_keys_ok S \<longleftrightarrow>
     (\<forall>e i e' i'. UserLabelIndexKey S e i = UserLabelIndexKey S e' i' \<longrightarrow> e = e' \<and> i = i')
   \<and> (\<forall>e e'. UserLabelLengthKey S e = UserLabelLengthKey S e' \<longrightarrow> e = e')
   \<and> (\<forall>e i e'. UserLabelIndexKey S e i \<noteq> UserLabelLengthKey S e')"

text \<open>A structure of two strings, once written without error, is read back, whatever follows it.\<close>

definition tlv_ok :: "('k, 'st, 'w, 'r) label_sdk \<Rightarrow> bool" where
  "tlv_ok S \<longleftrightarrow>
     (\<forall>n name val w1 w2 w3 w4 rest.
        StartContainer S (writer_Init S n) = (CHIP_NO_ERROR S, w1) \<and>
        PutString S 0 name w1 = (CHIP_NO_ERROR S, w2) \<and>
        PutString S 1 val w2 = (CHIP_NO_ERROR S, w3) \<and>
        EndContainer S w3 = (CHIP_NO_ERROR S, w4) \<longrightarrow>
        length (written S w4) \<le> n \<and>
        (\<exists>r1 r2 r3 r4 r5 r6.
           Next_structure S (reader_Init S (written S w4 @ rest)) = (CHIP_NO_ERROR S, r1) \<and>
           EnterContainer S r1 = (CHIP_NO_ERROR S, r2) \<and>
           Next_tag S 0 r2 = (CHIP_NO_ERROR S, r3) \<and> Get_string S r3 = (CHIP_NO_ERROR S, name) \<and>
           Next_tag S 1 r3 = (CHIP_NO_ERROR S, r4) \<and> Get_string S r4 = (CHIP_NO_ERROR S, val) \<and>
           VerifyEndOfContainer S r4 = (CHIP_NO_ERROR S, r5) \<and>
           ExitContainer S r5 = (CHIP_NO_ERROR S, r6)))"

definition label_sizes_ok :: "('k, 'st, 'w, 'r) label_sdk \<Rightarrow> bool" where
  "label_sizes_ok S \<longleftrightarrow>
     length (junk_tlv S) = UserLabelTLVMaxSize S \<and> UserLabelTLVMaxSize S < 65536 \<and> heap_available S
   \<and> (\<forall>v. length (size_bytes S v) = 4 \<and> size_value S (size_bytes S v) = v)"

definition label_sdk_ok :: "('k, 'st, 'w, 'r) label_sdk \<Rightarrow> bool" where
  "label_sdk_ok S \<longleftrightarrow> storage_ok S \<and> label_keys_ok S \<and> tlv_ok S \<and> label_sizes_ok S \<and> label_copy_ok S"

lemma label_sdk_okD:
  "label_sdk_ok S \<Longrightarrow> storage_ok S" "label_sdk_ok S \<Longrightarrow> label_keys_ok S" "label_sdk_ok S \<Longrightarrow> tlv_ok S"
  "label_sdk_ok S \<Longrightarrow> label_sizes_ok S" "label_sdk_ok S \<Longrightarrow> label_copy_ok S"
  by (simp_all add: label_sdk_ok_def)

section \<open>Writing one label\<close>

lemma storage_get_same:
  "storage_ok S \<Longrightarrow> SyncSetKeyValue S k bs st = (CHIP_NO_ERROR S, st') \<Longrightarrow> length bs \<le> unat len \<Longrightarrow>
     unat len \<le> length buf \<Longrightarrow> SyncGetKeyValue S k buf len st' = (CHIP_NO_ERROR S, memcpy_at 0 bs buf)"
  by (simp add: storage_ok_def)

lemma storage_get_other:
  "storage_ok S \<Longrightarrow> SyncSetKeyValue S k bs st = (CHIP_NO_ERROR S, st') \<Longrightarrow> k' \<noteq> k \<Longrightarrow>
     SyncGetKeyValue S k' buf len st' = SyncGetKeyValue S k' buf len st"
  by (simp add: storage_ok_def)

lemma stored_label_cong:
  "(\<And>buf len. SyncGetKeyValue S (UserLabelIndexKey S ep i) buf len st'
      = SyncGetKeyValue S (UserLabelIndexKey S ep i) buf len st) \<Longrightarrow>
    stored_label S st' ep i = stored_label S st ep i"
  by (simp add: stored_label_def)

lemma GetUserLabelLength_cong:
  "(\<And>buf len. SyncGetKeyValue S (UserLabelLengthKey S ep) buf len st'
      = SyncGetKeyValue S (UserLabelLengthKey S ep) buf len st) \<Longrightarrow>
    GetUserLabelLength S ep v st' = GetUserLabelLength S ep v st"
  by (simp add: GetUserLabelLength_def)

text \<open>A label written without error is a structure of two strings, handed to the storage whole.\<close>

lemma SetUserLabelAt_written:
  assumes "SetUserLabelAt S ep i l st = (CHIP_NO_ERROR S, st')" and "CHIP_ERROR_INVALID_ARGUMENT S \<noteq> CHIP_NO_ERROR S"
  obtains w1 w2 w3 w4 where
    "StartContainer S (writer_Init S (UserLabelTLVMaxSize S)) = (CHIP_NO_ERROR S, w1)"
    "PutString S 0 (fst l) w1 = (CHIP_NO_ERROR S, w2)"
    "PutString S 1 (snd l) w2 = (CHIP_NO_ERROR S, w3)"
    "EndContainer S w3 = (CHIP_NO_ERROR S, w4)"
    "SyncSetKeyValue S (UserLabelIndexKey S ep i)
       (take (unat (of_nat (length (written S w4)) :: u16)) (written S w4)) st = (CHIP_NO_ERROR S, st')"
  using assms
  by (auto simp: SetUserLabelAt_def Let_def kLabelNameTag_def kLabelValueTag_def split: prod.splits if_splits)

lemma SetUserLabelAt_stored:
  assumes S: "label_sdk_ok S" and err: "CHIP_ERROR_INVALID_ARGUMENT S \<noteq> CHIP_NO_ERROR S"
    and put: "SetUserLabelAt S ep i l st = (CHIP_NO_ERROR S, st')"
  shows "stored_label S st' ep i
    = Some (shown_text (kMaxLabelNameLength S) (fst l), shown_text (kMaxLabelValueLength S) (snd l))"
proof -
  note sizes = label_sdk_okD(4) [OF S, unfolded label_sizes_ok_def]
  obtain w1 w2 w3 w4 where w:
    "StartContainer S (writer_Init S (UserLabelTLVMaxSize S)) = (CHIP_NO_ERROR S, w1)"
    "PutString S 0 (fst l) w1 = (CHIP_NO_ERROR S, w2)" "PutString S 1 (snd l) w2 = (CHIP_NO_ERROR S, w3)"
    "EndContainer S w3 = (CHIP_NO_ERROR S, w4)"
    and set: "SyncSetKeyValue S (UserLabelIndexKey S ep i)
       (take (unat (of_nat (length (written S w4)) :: u16)) (written S w4)) st = (CHIP_NO_ERROR S, st')"
    by (rule SetUserLabelAt_written [OF put err])
  let ?rest = "drop (length (written S w4)) (junk_tlv S)"
  from label_sdk_okD(3) [OF S] w have len: "length (written S w4) \<le> UserLabelTLVMaxSize S"
    unfolding tlv_ok_def by blast
  from label_sdk_okD(3) [OF S] w obtain r1 r2 r3 r4 r5 r6 where r:
    "Next_structure S (reader_Init S (written S w4 @ ?rest)) = (CHIP_NO_ERROR S, r1)"
    "EnterContainer S r1 = (CHIP_NO_ERROR S, r2)" "Next_tag S 0 r2 = (CHIP_NO_ERROR S, r3)"
    "Get_string S r3 = (CHIP_NO_ERROR S, fst l)" "Next_tag S 1 r3 = (CHIP_NO_ERROR S, r4)"
    "Get_string S r4 = (CHIP_NO_ERROR S, snd l)" "VerifyEndOfContainer S r4 = (CHIP_NO_ERROR S, r5)"
    "ExitContainer S r5 = (CHIP_NO_ERROR S, r6)"
    unfolding tlv_ok_def by blast
  have u: "unat (of_nat (length (written S w4)) :: u16) = length (written S w4)"
    and m: "unat (of_nat (UserLabelTLVMaxSize S) :: u16) = UserLabelTLVMaxSize S"
    using len sizes by (simp_all add: unat_of_nat)
  have "SyncGetKeyValue S (UserLabelIndexKey S ep i) (junk_tlv S) (of_nat (UserLabelTLVMaxSize S)) st'
      = (CHIP_NO_ERROR S, written S w4 @ ?rest)"
    using storage_get_same [OF label_sdk_okD(1) [OF S] set, of "of_nat (UserLabelTLVMaxSize S)" "junk_tlv S"]
      len sizes by (simp add: u m memcpy_at_def)
  with r show ?thesis
    by (simp add: stored_label_def read_label_def kLabelNameTag_def kLabelValueTag_def split: prod.split)
qed

text \<open>It leaves every other label and every total alone.\<close>

lemma SetUserLabelAt_other:
  assumes S: "label_sdk_ok S" and err: "CHIP_ERROR_INVALID_ARGUMENT S \<noteq> CHIP_NO_ERROR S"
    and put: "SetUserLabelAt S ep i l st = (CHIP_NO_ERROR S, st')"
  shows "(ep', i') \<noteq> (ep, i) \<Longrightarrow> stored_label S st' ep' i' = stored_label S st ep' i'"
    and "GetUserLabelLength S ep' v st' = GetUserLabelLength S ep' v st"
proof -
  have other: "k' \<noteq> UserLabelIndexKey S ep i \<Longrightarrow>
      SyncGetKeyValue S k' buf len st' = SyncGetKeyValue S k' buf len st" for k' buf len
    by (rule SetUserLabelAt_written [OF put err]) (rule storage_get_other [OF label_sdk_okD(1) [OF S]])
  note keys = label_sdk_okD(2) [OF S, unfolded label_keys_ok_def]
  show "(ep', i') \<noteq> (ep, i) \<Longrightarrow> stored_label S st' ep' i' = stored_label S st ep' i'"
    using keys by (intro stored_label_cong other) auto
  show "GetUserLabelLength S ep' v st' = GetUserLabelLength S ep' v st"
    using keys by (intro GetUserLabelLength_cong other) metis
qed

section \<open>Writing a list of labels\<close>

text \<open>The labels one after the other from an index on, up to the first failure; then their number.\<close>

fun set_labels ::
  "('k, 'st, 'w, 'r) label_sdk \<Rightarrow> EndpointId \<Rightarrow> nat \<Rightarrow> (byte list \<times> byte list) list \<Rightarrow> 'st \<Rightarrow> u32 \<times> 'st" where
  "set_labels S ep i [] st = SetUserLabelLength S ep (of_nat i) st"
| "set_labels S ep i (l # ls) st =
     (let (err, st) = SetUserLabelAt S ep (of_nat i) l st
      in if err \<noteq> CHIP_NO_ERROR S then (err, st) else set_labels S ep (Suc i) ls st)"

lemma SetUserLabelLength_stored:
  assumes S: "label_sdk_ok S" and put: "SetUserLabelLength S ep n st = (CHIP_NO_ERROR S, st')"
  shows "GetUserLabelLength S ep 0 st' = (CHIP_NO_ERROR S, n)"
    and "stored_label S st' ep' i' = stored_label S st ep' i'"
    and "ep' \<noteq> ep \<Longrightarrow> GetUserLabelLength S ep' v st' = GetUserLabelLength S ep' v st"
proof -
  note sizes = label_sdk_okD(4) [OF S, unfolded label_sizes_ok_def]
  note keys = label_sdk_okD(2) [OF S, unfolded label_keys_ok_def]
  note set = put [unfolded SetUserLabelLength_def]
  note other = storage_get_other [OF label_sdk_okD(1) [OF S] set]
  show "GetUserLabelLength S ep 0 st' = (CHIP_NO_ERROR S, n)"
    using storage_get_same [OF label_sdk_okD(1) [OF S] set, of 4 "size_bytes S 0"] sizes
    by (simp add: GetUserLabelLength_def memcpy_at_def)
  show "stored_label S st' ep' i' = stored_label S st ep' i'"
    using keys by (intro stored_label_cong other) metis
  show "ep' \<noteq> ep \<Longrightarrow> GetUserLabelLength S ep' v st' = GetUserLabelLength S ep' v st"
    using keys by (intro GetUserLabelLength_cong other) metis
qed

definition label_shown :: "('k, 'st, 'w, 'r) label_sdk \<Rightarrow> byte list \<times> byte list \<Rightarrow> byte list \<times> byte list" where
  "label_shown S l =
     (shown_text (kMaxLabelNameLength S) (fst l), shown_text (kMaxLabelValueLength S) (snd l))"

lemma of_nat_u32_inj:
  "of_nat i = (of_nat j :: u32) \<Longrightarrow> i < 2 ^ 32 \<Longrightarrow> j < 2 ^ 32 \<Longrightarrow> i = j"
  by (drule arg_cong [of _ _ unat]) (simp add: unat_of_nat)

lemma set_labels_stored:
  assumes S: "label_sdk_ok S" and err: "CHIP_ERROR_INVALID_ARGUMENT S \<noteq> CHIP_NO_ERROR S"
    and "set_labels S ep i ls st = (CHIP_NO_ERROR S, st')" and "i + length ls < 2 ^ 32"
  shows "GetUserLabelLength S ep 0 st' = (CHIP_NO_ERROR S, of_nat (i + length ls))
    \<and> (\<forall>j < length ls. stored_label S st' ep (of_nat (i + j)) = Some (label_shown S (ls ! j)))
    \<and> (\<forall>j < i. stored_label S st' ep (of_nat j) = stored_label S st ep (of_nat j))
    \<and> (\<forall>ep' i'. ep' \<noteq> ep \<longrightarrow> stored_label S st' ep' i' = stored_label S st ep' i'
        \<and> GetUserLabelLength S ep' 0 st' = GetUserLabelLength S ep' 0 st)"
  using assms(3,4)
proof (induction ls arbitrary: i st)
  case Nil
  then show ?case using SetUserLabelLength_stored [OF S, of ep "of_nat i" st st'] by simp
next
  case (Cons l ls)
  obtain st1 where put: "SetUserLabelAt S ep (of_nat i) l st = (CHIP_NO_ERROR S, st1)"
    and rest: "set_labels S ep (Suc i) ls st1 = (CHIP_NO_ERROR S, st')"
    using Cons.prems(1) by (auto split: prod.splits if_splits)
  note IH = Cons.IH [OF rest]
  note same = SetUserLabelAt_stored [OF S err put]
  note other = SetUserLabelAt_other [OF S err put]
  have i: "stored_label S st' ep (of_nat i) = Some (label_shown S l)"
    using IH Cons.prems(2) same by (auto simp: label_shown_def)
  have "stored_label S st' ep (of_nat (i + j)) = Some (label_shown S ((l # ls) ! j))"
    if "j < length (l # ls)" for j
    using that i IH Cons.prems(2) by (cases j) auto
  moreover have "stored_label S st' ep (of_nat j) = stored_label S st ep (of_nat j)" if "j < i" for j
    using that IH Cons.prems(2) other(1) [of ep "of_nat j"] of_nat_u32_inj [of j i] by auto
  moreover have "stored_label S st' ep' i' = stored_label S st ep' i'
      \<and> GetUserLabelLength S ep' 0 st' = GetUserLabelLength S ep' 0 st" if "ep' \<noteq> ep" for ep' i'
    using that IH Cons.prems(2) other(1) [of ep' i'] other(2) [of ep' 0] by auto
  ultimately show ?case using IH Cons.prems(2) by auto
qed

section \<open>Reading the list back\<close>

lemma iterate_user_labels:
  assumes copy: "label_copy_ok S" and it: "IterateUserLabel S ep st = Some it"
  shows "iterate (UserLabelIterator_Next S st) it
    = Some (Done (listed_labels S st ep 0 (unat (UserLabelIterator_Count it))))"
proof -
  from it have "mEndpoint it = ep" and "mIndex it = 0"
    by (auto simp: IterateUserLabel_def UserLabelIteratorImpl_def Let_def split: if_splits prod.splits)
  moreover from it copy have "label_buffers_ok S it"
    by (auto simp: IterateUserLabel_def UserLabelIteratorImpl_def Let_def label_copy_ok_def
        label_buffers_ok_def split: if_splits prod.splits)
  ultimately show ?thesis
    using user_labels.iterate_left [of S it st] copy by (simp add: UserLabelIterator_Count_def)
qed

lemma listed_labels_all:
  assumes "\<And>j. j < n \<Longrightarrow> stored_label S st ep (of_nat j) = Some (f j)"
  shows "listed_labels S st ep 0 n = map f [0..<n]"
proof -
  have "map (\<lambda>j. stored_label S st ep (of_nat j)) [0..<n] = map (Some \<circ> f) [0..<n]"
    using assms by simp
  moreover have "takeWhile (\<lambda>l. l \<noteq> None) (map (Some \<circ> f) [0..<n]) = map (Some \<circ> f) [0..<n]"
    by (simp add: takeWhile_eq_all_conv)
  ultimately show ?thesis
    by (simp only: listed_labels_def) simp
qed

lemma set_labels_listed:
  assumes S: "label_sdk_ok S" and err: "CHIP_ERROR_INVALID_ARGUMENT S \<noteq> CHIP_NO_ERROR S"
    and put: "set_labels S ep 0 ls st = (CHIP_NO_ERROR S, st')" and len: "length ls < 2 ^ 32"
  obtains it where "IterateUserLabel S ep st' = Some it"
    and "iterate (UserLabelIterator_Next S st') it = Some (Done (map (label_shown S) ls))"
    and "unat (UserLabelIterator_Count it) = length ls"
proof -
  note stored = set_labels_stored [OF S err put]
  have heap: "heap_available S" using S by (simp add: label_sdk_ok_def label_sizes_ok_def)
  then obtain it where it: "IterateUserLabel S ep st' = Some it" by (simp add: IterateUserLabel_def)
  from it heap stored len have "mTotal it = of_nat (length ls)"
    by (auto simp: IterateUserLabel_def UserLabelIteratorImpl_def Let_def split: prod.splits)
  then have count: "unat (UserLabelIterator_Count it) = length ls"
    using len by (simp add: UserLabelIterator_Count_def unat_of_nat)
  have "listed_labels S st' ep 0 (length ls) = map (\<lambda>j. label_shown S (ls ! j)) [0..<length ls]"
    using stored len by (intro listed_labels_all) auto
  also have "\<dots> = map (label_shown S) ls"
    by (rule nth_equalityI) simp_all
  finally show ?thesis
    using iterate_user_labels [OF label_sdk_okD(5) [OF S] it] count that [OF it] by simp
qed

section \<open>A concrete SDK\<close>

text \<open>
  A codec in the style of Matter's TLV (an anonymous structure of short UTF-8 strings with
  context tags), and a map that refuses nothing as the storage.
\<close>

datatype demo_key = Key_Length EndpointId | Key_Index EndpointId u32

definition demo_start :: "nat \<times> byte list \<Rightarrow> u32 \<times> (nat \<times> byte list)" where
  "demo_start w = (case w of (n, bs) \<Rightarrow>
     if length bs + 1 \<le> n then (0, (n, bs @ [0x15])) else (0x19, w))"

definition demo_put :: "u8 \<Rightarrow> byte list \<Rightarrow> nat \<times> byte list \<Rightarrow> u32 \<times> (nat \<times> byte list)" where
  "demo_put t s w = (case w of (n, bs) \<Rightarrow>
     if length s < 256 \<and> length bs + 3 + length s \<le> n
     then (0, (n, bs @ [0x2C, t, of_nat (length s)] @ s)) else (0x19, w))"

definition demo_end :: "nat \<times> byte list \<Rightarrow> u32 \<times> (nat \<times> byte list)" where
  "demo_end w = (case w of (n, bs) \<Rightarrow>
     if length bs + 1 \<le> n then (0, (n, bs @ [0x18])) else (0x19, w))"

definition demo_next :: "byte list \<times> byte list \<Rightarrow> u32 \<times> (byte list \<times> byte list)" where
  "demo_next r = (case r of (b # bs, c) \<Rightarrow> if b = 0x15 then (0, (bs, [])) else (0x1f, r) | _ \<Rightarrow> (0x21, r))"

definition demo_tag :: "u8 \<Rightarrow> byte list \<times> byte list \<Rightarrow> u32 \<times> (byte list \<times> byte list)" where
  "demo_tag t r = (case r of
     (a # b # c # bs, _) \<Rightarrow>
       if a = 0x2C \<and> b = t \<and> unat c \<le> length bs
       then (0, (drop (unat c) bs, take (unat c) bs)) else (0x33, r)
   | _ \<Rightarrow> (0x33, r))"

definition demo_verify_end :: "byte list \<times> byte list \<Rightarrow> u32 \<times> (byte list \<times> byte list)" where
  "demo_verify_end r = (case r of (b # bs, c) \<Rightarrow> if b = 0x18 then (0, (bs, [])) else (0x24, r) | _ \<Rightarrow> (0x21, r))"

definition demo_copy :: "byte list \<Rightarrow> byte list \<Rightarrow> byte list" where
  "demo_copy dst src =
     (let m = min (length dst - 1) (length src)
      in if dst = [] then [] else take m src @ [0] @ drop (Suc m) dst)"

definition demo_size_bytes :: "u32 \<Rightarrow> byte list" where
  "demo_size_bytes v = [ucast v, ucast (drop_bit 8 v), ucast (drop_bit 16 v), ucast (drop_bit 24 v)]"

definition demo_size_value :: "byte list \<Rightarrow> u32" where
  "demo_size_value bs = (case bs of
     [a, b, c, d] \<Rightarrow> ucast a OR push_bit 8 (ucast b) OR push_bit 16 (ucast c) OR push_bit 24 (ucast d)
   | _ \<Rightarrow> 0)"

definition demo_sdk ::
  "(demo_key, demo_key \<rightharpoonup> byte list, nat \<times> byte list, byte list \<times> byte list) label_sdk" where
  "demo_sdk = \<lparr>CHIP_NO_ERROR = 0, CHIP_ERROR_INVALID_ARGUMENT = 0x2f,
     kMaxLabelNameLength = 16, kMaxLabelValueLength = 16, EstimateStructOverhead = (\<lambda>a b. a + b + 8),
     UserLabelLengthKey = Key_Length, UserLabelIndexKey = Key_Index,
     SyncSetKeyValue = (\<lambda>k bs st. (0, st(k \<mapsto> bs))),
     SyncGetKeyValue = (\<lambda>k buf len st. case st k of None \<Rightarrow> (0xa0, buf)
        | Some bs \<Rightarrow> if length bs \<le> unat len then (0, memcpy_at 0 bs buf) else (0x19, buf)),
     SyncDeleteKeyValue = (\<lambda>k st. (0, st(k := None))),
     writer_Init = (\<lambda>n. (n, [])), StartContainer = demo_start, PutString = demo_put, EndContainer = demo_end,
     written = snd, reader_Init = (\<lambda>bs. (bs, [])), Next_structure = demo_next, EnterContainer = Pair 0,
     Next_tag = demo_tag, Get_string = (\<lambda>r. (0, snd r)), VerifyEndOfContainer = demo_verify_end,
     ExitContainer = Pair 0, label_CopyString = demo_copy, size_bytes = demo_size_bytes,
     size_value = demo_size_value, junk_tlv = replicate 40 0xAA, junk_name = replicate 17 0xAA,
     junk_value = replicate 17 0xAA, heap_available = True\<rparr>"

lemma demo_size_roundtrip: "demo_size_value (demo_size_bytes v) = v"
  unfolding demo_size_value_def demo_size_bytes_def list.case
  apply (rule bit_eqI)
  subgoal for n by (cases "24 \<le> n"; cases "16 \<le> n"; cases "8 \<le> n") (auto simp: bit_simps not_less)
  done

lemma demo_sdk_ok: "label_sdk_ok demo_sdk"
  unfolding label_sdk_ok_def
proof (intro conjI)
  show "storage_ok demo_sdk"
    by (auto simp: storage_ok_def demo_sdk_def)
  show "label_keys_ok demo_sdk"
    by (simp add: label_keys_ok_def demo_sdk_def)
  show "tlv_ok demo_sdk"
    by (auto simp: tlv_ok_def demo_sdk_def demo_start_def demo_put_def demo_end_def demo_next_def
        demo_tag_def demo_verify_end_def unat_of_nat split: if_splits)
  show "label_sizes_ok demo_sdk"
    by (simp add: label_sizes_ok_def demo_sdk_def UserLabelTLVMaxSize_def demo_size_roundtrip)
       (simp add: demo_size_bytes_def)
  show "label_copy_ok demo_sdk"
    by (auto simp: label_copy_ok_def demo_sdk_def demo_copy_def Let_def nth_append min_def)
qed

end
