(* ===== verification/DeviceInfoExample.thy ===== *)
theory DeviceInfoExample
  imports DeviceInfo
begin

text \<open>
  \<open>src/providers/AllClustersExampleDeviceInfoProviderImpl.cpp\<close>, the example provider with fixed
  labels and more locales. Its members have the names of the default provider's; here they
  carry the prefix \<open>AllClusters\<close>. Its user labels are kept the same way, which the lemmas at
  the end state, so what is known of the default provider holds for it too.
\<close>

section \<open>Fixed labels\<close>

record FixedLabelIterator =
  fixed_mEndpoint :: EndpointId
  fixed_mIndex :: u32

definition kNumSupportedFixedLabels :: u32 where "kNumSupportedFixedLabels = 1"

definition FixedLabelIteratorImpl :: "EndpointId \<Rightarrow> FixedLabelIterator" where
  "FixedLabelIteratorImpl endpoint = \<lparr>fixed_mEndpoint = endpoint, fixed_mIndex = 0\<rparr>"

definition AllClusters_IterateFixedLabel ::
  "('k, 'st, 'w, 'r) label_sdk \<Rightarrow> EndpointId \<Rightarrow> FixedLabelIterator option" where
  "AllClusters_IterateFixedLabel S endpoint =
     (if heap_available S then Some (FixedLabelIteratorImpl endpoint) else None)"

definition FixedLabels_Count :: "FixedLabelIterator \<Rightarrow> u32" where
  "FixedLabels_Count it = kNumSupportedFixedLabels"

text \<open>The switch over the index has one case; any other index is an error.\<close>

definition FixedLabels_Next ::
  "FixedLabelIterator \<Rightarrow> ((byte list \<times> byte list) \<times> FixedLabelIterator) option outcome" where
  "FixedLabels_Next it =
     (if \<not> fixed_mIndex it < kNumSupportedFixedLabels then Done None
      else let out =
        (if fixed_mIndex it = 0
         then Some (c_literal ''direction'',
                    if fixed_mEndpoint it = 1 then c_literal ''up'' else c_literal ''down'')
         else None)
      in case out of
           Some output \<Rightarrow> Done (Some (output, it\<lparr>fixed_mIndex := fixed_mIndex it + 1\<rparr>))
         | None \<Rightarrow> Done None)"

section \<open>User labels\<close>

definition AllClusters_SetUserLabelLength ::
  "('k, 'st, 'w, 'r) label_sdk \<Rightarrow> EndpointId \<Rightarrow> u32 \<Rightarrow> 'st \<Rightarrow> u32 \<times> 'st" where
  "AllClusters_SetUserLabelLength S endpoint val st =
     SyncSetKeyValue S (UserLabelLengthKey S endpoint) (size_bytes S val) st"

text \<open>\<open>val\<close> is the caller's variable, which the storage may leave as it is.\<close>

definition AllClusters_GetUserLabelLength ::
  "('k, 'st, 'w, 'r) label_sdk \<Rightarrow> EndpointId \<Rightarrow> u32 \<Rightarrow> 'st \<Rightarrow> u32 \<times> u32" where
  "AllClusters_GetUserLabelLength S endpoint val st =
     (let len = of_nat (length (size_bytes S val));
          (err, buf) = SyncGetKeyValue S (UserLabelLengthKey S endpoint) (size_bytes S val) len st
      in (err, size_value S buf))"

definition AllClusters_SetUserLabelAt ::
  "('k, 'st, 'w, 'r) label_sdk \<Rightarrow> EndpointId \<Rightarrow> u32 \<Rightarrow> byte list \<times> byte list \<Rightarrow> 'st \<Rightarrow> u32 \<times> 'st" where
  "AllClusters_SetUserLabelAt S endpoint index userLabel st =
     (if \<not> CanCastTo_u32 index then (CHIP_ERROR_INVALID_ARGUMENT S, st)
      else let writer = writer_Init S (UserLabelTLVMaxSize S);
               (err, writer) = StartContainer S writer in
      if err \<noteq> CHIP_NO_ERROR S then (err, st)
      else let (err, writer) = PutString S kLabelNameTag (fst userLabel) writer in
      if err \<noteq> CHIP_NO_ERROR S then (err, st)
      else let (err, writer) = PutString S kLabelValueTag (snd userLabel) writer in
      if err \<noteq> CHIP_NO_ERROR S then (err, st)
      else let (err, writer) = EndContainer S writer in
      if err \<noteq> CHIP_NO_ERROR S then (err, st)
      else let len = of_nat (length (written S writer)) :: u16
      in SyncSetKeyValue S (UserLabelIndexKey S endpoint index) (take (unat len) (written S writer)) st)"

definition AllClusters_DeleteUserLabelAt ::
  "('k, 'st, 'w, 'r) label_sdk \<Rightarrow> EndpointId \<Rightarrow> u32 \<Rightarrow> 'st \<Rightarrow> u32 \<times> 'st" where
  "AllClusters_DeleteUserLabelAt S endpoint index st = SyncDeleteKeyValue S (UserLabelIndexKey S endpoint index) st"

section \<open>Iterating over the user labels\<close>

definition AllClusters_UserLabelIteratorImpl ::
  "('k, 'st, 'w, 'r) label_sdk \<Rightarrow> EndpointId \<Rightarrow> 'st \<Rightarrow> UserLabelIterator" where
  "AllClusters_UserLabelIteratorImpl S endpoint st =
     (let it = \<lparr>mEndpoint = endpoint, mIndex = 0, mTotal = 0, mUserLabelNameBuf = junk_name S,
                mUserLabelValueBuf = junk_value S\<rparr>;
          (err, total) = AllClusters_GetUserLabelLength S endpoint 0 st
      in if err \<noteq> CHIP_NO_ERROR S then it else it\<lparr>mTotal := total, mIndex := 0\<rparr>)"

definition AllClusters_IterateUserLabel ::
  "('k, 'st, 'w, 'r) label_sdk \<Rightarrow> EndpointId \<Rightarrow> 'st \<Rightarrow> UserLabelIterator option" where
  "AllClusters_IterateUserLabel S endpoint st =
     (if heap_available S then Some (AllClusters_UserLabelIteratorImpl S endpoint st) else None)"

definition AllClusters_UserLabelIterator_Count :: "UserLabelIterator \<Rightarrow> u32" where
  "AllClusters_UserLabelIterator_Count it = mTotal it"

definition AllClusters_read_label ::
  "('k, 'st, 'w, 'r) label_sdk \<Rightarrow> byte list \<Rightarrow> (byte list \<times> byte list) option" where
  "AllClusters_read_label S buf =
     (let reader = reader_Init S buf;
          (err, reader) = Next_structure S reader in
      if err \<noteq> CHIP_NO_ERROR S then None
      else let (err, reader) = EnterContainer S reader in
      if err \<noteq> CHIP_NO_ERROR S then None
      else let (err, reader) = Next_tag S kLabelNameTag reader in
      if err \<noteq> CHIP_NO_ERROR S then None
      else let (err, label) = Get_string S reader in
      if err \<noteq> CHIP_NO_ERROR S then None
      else let (err, reader) = Next_tag S kLabelValueTag reader in
      if err \<noteq> CHIP_NO_ERROR S then None
      else let (err, value) = Get_string S reader in
      if err \<noteq> CHIP_NO_ERROR S then None
      else let (err, reader) = VerifyEndOfContainer S reader in
      if err \<noteq> CHIP_NO_ERROR S then None
      else let (err, reader) = ExitContainer S reader in
      if err \<noteq> CHIP_NO_ERROR S then None
      else Some (label, value))"

definition AllClusters_UserLabelIterator_Next ::
  "('k, 'st, 'w, 'r) label_sdk \<Rightarrow> 'st \<Rightarrow> UserLabelIterator
    \<Rightarrow> ((byte list \<times> byte list) \<times> UserLabelIterator) option outcome" where
  "AllClusters_UserLabelIterator_Next S st it =
     (if \<not> mIndex it < mTotal it then Done None
      else if \<not> CanCastTo_u32 (mIndex it) then Done None
      else let len = of_nat (UserLabelTLVMaxSize S);
               (err, buf) = SyncGetKeyValue S (UserLabelIndexKey S (mEndpoint it) (mIndex it))
                              (junk_tlv S) len st in
      if err \<noteq> CHIP_NO_ERROR S then Done None
      else case AllClusters_read_label S buf of
        None \<Rightarrow> Done None
      | Some (label, value) \<Rightarrow>
          let it = it\<lparr>mUserLabelNameBuf := label_CopyString S (mUserLabelNameBuf it) label,
                      mUserLabelValueBuf := label_CopyString S (mUserLabelValueBuf it) value\<rparr> in
          obind (fromCharString (mUserLabelNameBuf it)) (\<lambda>out_label.
          obind (fromCharString (mUserLabelValueBuf it)) (\<lambda>out_value.
          Done (Some ((out_label, out_value), it\<lparr>mIndex := mIndex it + 1\<rparr>)))))"

section \<open>Locales and calendar types\<close>

definition AllClusters_kNumSupportedLocales :: u32 where "AllClusters_kNumSupportedLocales = 8"
definition AllClusters_kNumSupportedCalendarTypes :: u32 where
  "AllClusters_kNumSupportedCalendarTypes = 1"

definition AllClusters_IterateSupportedLocales :: "('k, 'st, 'w, 'r) label_sdk \<Rightarrow> u32 option" where
  "AllClusters_IterateSupportedLocales S = (if heap_available S then Some 0 else None)"

definition AllClusters_IterateSupportedCalendarTypes :: "('k, 'st, 'w, 'r) label_sdk \<Rightarrow> u32 option" where
  "AllClusters_IterateSupportedCalendarTypes S = (if heap_available S then Some 0 else None)"

definition AllClusters_SupportedLocales_Count :: u32 where
  "AllClusters_SupportedLocales_Count = AllClusters_kNumSupportedLocales"

definition AllClusters_kAllSupportedLocales :: "byte list list" where
  "AllClusters_kAllSupportedLocales =
     [c_literal ''en-US'', c_literal ''de-DE'', c_literal ''fr-FR'', c_literal ''en-GB'',
      c_literal ''es-ES'', c_literal ''zh-CN'', c_literal ''it-IT'', c_literal ''ja-JP'']"

definition AllClusters_SupportedLocales_Next :: "u32 \<Rightarrow> (byte list \<times> u32) option outcome" where
  "AllClusters_SupportedLocales_Next i =
     array_next AllClusters_kAllSupportedLocales AllClusters_kNumSupportedLocales i"

definition AllClusters_SupportedCalendarTypes_Count :: u32 where
  "AllClusters_SupportedCalendarTypes_Count = AllClusters_kNumSupportedCalendarTypes"

definition AllClusters_kAllSupportedCalendarTypes :: "CalendarType list" where
  "AllClusters_kAllSupportedCalendarTypes = [kGregorian]"

definition AllClusters_SupportedCalendarTypes_Next :: "u32 \<Rightarrow> (CalendarType \<times> u32) option outcome" where
  "AllClusters_SupportedCalendarTypes_Next i =
     array_next AllClusters_kAllSupportedCalendarTypes AllClusters_kNumSupportedCalendarTypes i"

interpretation example_locales: iterator AllClusters_SupportedLocales_Next
  "\<lambda>i. drop (unat i) AllClusters_kAllSupportedLocales" "\<lambda>_. True"
  unfolding AllClusters_SupportedLocales_Next_def
  by (rule array_next_iterator)
     (simp add: AllClusters_kAllSupportedLocales_def AllClusters_kNumSupportedLocales_def)

interpretation example_calendars: iterator AllClusters_SupportedCalendarTypes_Next
  "\<lambda>i. drop (unat i) AllClusters_kAllSupportedCalendarTypes" "\<lambda>_. True"
  unfolding AllClusters_SupportedCalendarTypes_Next_def
  by (rule array_next_iterator)
     (simp add: AllClusters_kAllSupportedCalendarTypes_def AllClusters_kNumSupportedCalendarTypes_def)

definition fixed_labels_left :: "FixedLabelIterator \<Rightarrow> (byte list \<times> byte list) list" where
  "fixed_labels_left it =
     (if fixed_mIndex it = 0
      then [(c_literal ''direction'', c_literal (if fixed_mEndpoint it = 1 then ''up'' else ''down''))]
      else [])"

interpretation fixed_labels: iterator FixedLabels_Next fixed_labels_left "\<lambda>_. True"
  by unfold_locales
     (auto simp: FixedLabels_Next_def fixed_labels_left_def kNumSupportedFixedLabels_def
       word_less_1 split: if_splits)

named_theorems example_provider_simps "the example provider's user labels are the default ones"

section \<open>The user labels are those of the default provider\<close>

lemma AllClusters_SetUserLabelLength [example_provider_simps]: "AllClusters_SetUserLabelLength = SetUserLabelLength"
  by (intro ext) (simp only: AllClusters_SetUserLabelLength_def SetUserLabelLength_def)

lemma AllClusters_GetUserLabelLength [example_provider_simps]: "AllClusters_GetUserLabelLength = GetUserLabelLength"
  by (intro ext) (simp only: AllClusters_GetUserLabelLength_def GetUserLabelLength_def)

lemma AllClusters_SetUserLabelAt [example_provider_simps]: "AllClusters_SetUserLabelAt = SetUserLabelAt"
  by (intro ext) (simp only: AllClusters_SetUserLabelAt_def SetUserLabelAt_def)

lemma AllClusters_DeleteUserLabelAt [example_provider_simps]: "AllClusters_DeleteUserLabelAt = DeleteUserLabelAt"
  by (intro ext) (simp only: AllClusters_DeleteUserLabelAt_def DeleteUserLabelAt_def)

lemma AllClusters_UserLabelIteratorImpl [example_provider_simps]: "AllClusters_UserLabelIteratorImpl = UserLabelIteratorImpl"
  by (intro ext) (simp only: AllClusters_UserLabelIteratorImpl_def UserLabelIteratorImpl_def AllClusters_GetUserLabelLength)

lemma AllClusters_IterateUserLabel [example_provider_simps]: "AllClusters_IterateUserLabel = IterateUserLabel"
  by (intro ext) (simp only: AllClusters_IterateUserLabel_def IterateUserLabel_def AllClusters_UserLabelIteratorImpl)

lemma AllClusters_UserLabelIterator_Count [example_provider_simps]: "AllClusters_UserLabelIterator_Count = UserLabelIterator_Count"
  by (intro ext) (simp only: AllClusters_UserLabelIterator_Count_def UserLabelIterator_Count_def)

lemma AllClusters_read_label [example_provider_simps]: "AllClusters_read_label = read_label"
  by (intro ext) (simp only: AllClusters_read_label_def read_label_def)

lemma AllClusters_UserLabelIterator_Next [example_provider_simps]: "AllClusters_UserLabelIterator_Next = UserLabelIterator_Next"
  by (intro ext) (simp only: AllClusters_UserLabelIterator_Next_def UserLabelIterator_Next_def AllClusters_read_label)

end
