(* ===== verification/GenConfig.thy ===== *)
theory GenConfig
  imports DataModel
begin

text \<open>
  \<open>src/zap-generated/gen_config.h\<close>: on how many endpoints each cluster is, as server and as
  client, which server sides are used, and which commands are enabled. A macro of a family is
  the part of its name that varies.
\<close>

section \<open>Endpoint counts\<close>

definition CLUSTER_SERVER_ENDPOINT_COUNT :: "(string \<times> nat) list" where
  "CLUSTER_SERVER_ENDPOINT_COUNT =
     [(''IDENTIFY'', 1), (''GROUPS'', 0), (''ON_OFF'', 0), (''LEVEL_CONTROL'', 0), (''PWM'', 0),
      (''DESCRIPTOR'', 2), (''BINDING'', 0), (''ACCESS_CONTROL'', 1), (''ACTIONS'', 0),
      (''BASIC_INFORMATION'', 1), (''OTA_SOFTWARE_UPDATE_PROVIDER'', 0),
      (''OTA_SOFTWARE_UPDATE_REQUESTOR'', 0), (''LOCALIZATION_CONFIGURATION'', 0),
      (''TIME_FORMAT_LOCALIZATION'', 0), (''UNIT_LOCALIZATION'', 0),
      (''POWER_SOURCE_CONFIGURATION'', 0), (''POWER_SOURCE'', 0), (''GENERAL_COMMISSIONING'', 1),
      (''NETWORK_COMMISSIONING'', 1), (''DIAGNOSTIC_LOGS'', 0), (''GENERAL_DIAGNOSTICS'', 1),
      (''SOFTWARE_DIAGNOSTICS'', 0), (''THREAD_NETWORK_DIAGNOSTICS'', 0),
      (''WIFI_NETWORK_DIAGNOSTICS'', 0), (''ETHERNET_NETWORK_DIAGNOSTICS'', 0),
      (''TIME_SYNCHRONIZATION'', 0), (''BRIDGED_DEVICE_BASIC_INFORMATION'', 0), (''SWITCH'', 0),
      (''ADMINISTRATOR_COMMISSIONING'', 1), (''OPERATIONAL_CREDENTIALS'', 1),
      (''GROUP_KEY_MANAGEMENT'', 1), (''FIXED_LABEL'', 0), (''USER_LABEL'', 0),
      (''PROXY_CONFIGURATION'', 0), (''PROXY_DISCOVERY'', 0), (''PROXY_VALID'', 0),
      (''BOOLEAN_STATE'', 0), (''ICD_MANAGEMENT'', 0), (''TIMER'', 0),
      (''OPERATIONAL_STATE_OVEN'', 0), (''OVEN_MODE'', 0), (''LAUNDRY_DRYER_CONTROLS'', 0),
      (''MODE_SELECT'', 0), (''LAUNDRY_WASHER_MODE'', 0),
      (''REFRIGERATOR_AND_TEMPERATURE_CONTROLLED_CABINET_MODE'', 0),
      (''LAUNDRY_WASHER_CONTROLS'', 0), (''RVC_RUN_MODE'', 0), (''RVC_CLEAN_MODE'', 0),
      (''TEMPERATURE_CONTROL'', 0), (''REFRIGERATOR_ALARM'', 0), (''DISHWASHER_MODE'', 0),
      (''AIR_QUALITY'', 0), (''SMOKE_CO_ALARM'', 0), (''DISHWASHER_ALARM'', 0),
      (''MICROWAVE_OVEN_MODE'', 0), (''MICROWAVE_OVEN_CONTROL'', 0), (''OPERATIONAL_STATE'', 0),
      (''OPERATIONAL_STATE_RVC'', 0), (''SCENES'', 0), (''HEPA_FILTER_MONITORING'', 0),
      (''ACTIVATED_CARBON_FILTER_MONITORING'', 0), (''BOOLEAN_STATE_CONFIGURATION'', 0),
      (''VALVE_CONFIGURATION_AND_CONTROL'', 0), (''ELECTRICAL_POWER_MEASUREMENT'', 0),
      (''ELECTRICAL_ENERGY_MEASUREMENT'', 0), (''WATER_HEATER_MANAGEMENT'', 0),
      (''COMMODITY_PRICE'', 0), (''MESSAGES'', 0), (''DEVICE_ENERGY_MANAGEMENT'', 0),
      (''ENERGY_EVSE'', 0), (''ENERGY_PREFERENCE'', 0), (''POWER_TOPOLOGY'', 0),
      (''ENERGY_EVSE_MODE'', 0), (''WATER_HEATER_MODE'', 0),
      (''DEVICE_ENERGY_MANAGEMENT_MODE'', 0), (''ELECTRICAL_GRID_CONDITIONS'', 0),
      (''DOOR_LOCK'', 1), (''WINDOW_COVERING'', 0), (''CLOSURE_CONTROL'', 0),
      (''CLOSURE_DIMENSION'', 0), (''SERVICE_AREA'', 0), (''PUMP_CONFIGURATION_AND_CONTROL'', 0),
      (''THERMOSTAT'', 0), (''FAN_CONTROL'', 0), (''THERMOSTAT_USER_INTERFACE_CONFIGURATION'', 0),
      (''COLOR_CONTROL'', 0), (''BALLAST_CONFIGURATION'', 0), (''ILLUMINANCE_MEASUREMENT'', 0),
      (''TEMPERATURE_MEASUREMENT'', 0), (''PRESSURE_MEASUREMENT'', 0), (''FLOW_MEASUREMENT'', 0),
      (''RELATIVE_HUMIDITY_MEASUREMENT'', 0), (''OCCUPANCY_SENSING'', 0),
      (''CARBON_MONOXIDE_CONCENTRATION_MEASUREMENT'', 0),
      (''CARBON_DIOXIDE_CONCENTRATION_MEASUREMENT'', 0),
      (''NITROGEN_DIOXIDE_CONCENTRATION_MEASUREMENT'', 0),
      (''OZONE_CONCENTRATION_MEASUREMENT'', 0), (''PM2_5_CONCENTRATION_MEASUREMENT'', 0),
      (''FORMALDEHYDE_CONCENTRATION_MEASUREMENT'', 0), (''PM1_CONCENTRATION_MEASUREMENT'', 0),
      (''PM10_CONCENTRATION_MEASUREMENT'', 0), (''TVOC_CONCENTRATION_MEASUREMENT'', 0),
      (''RADON_CONCENTRATION_MEASUREMENT'', 0), (''SOIL_MEASUREMENT'', 0),
      (''WIFI_NETWORK_MANAGEMENT'', 0), (''THREAD_BORDER_ROUTER_MANAGEMENT'', 0),
      (''THREAD_NETWORK_DIRECTORY'', 0), (''WAKE_ON_LAN'', 0), (''CHANNEL'', 0),
      (''TARGET_NAVIGATOR'', 0), (''MEDIA_PLAYBACK'', 0), (''MEDIA_INPUT'', 0),
      (''LOW_POWER'', 0), (''KEYPAD_INPUT'', 0), (''CONTENT_LAUNCHER'', 0), (''AUDIO_OUTPUT'', 0),
      (''APPLICATION_LAUNCHER'', 0), (''APPLICATION_BASIC'', 0), (''ACCOUNT_LOGIN'', 0),
      (''CONTENT_CONTROL'', 0), (''CONTENT_APP_OBSERVER'', 0), (''ZONE_MANAGEMENT'', 0),
      (''CAMERA_AV_STREAM_MANAGEMENT'', 0), (''CAMERA_AV_SETTINGS_USER_LEVEL_MANAGEMENT'', 0),
      (''WEB_RTC_TRANSPORT_PROVIDER'', 0), (''WEB_RTC_TRANSPORT_REQUESTOR'', 0),
      (''PUSH_AV_STREAM_TRANSPORT'', 0), (''CHIME'', 0), (''COMMODITY_TARIFF'', 0),
      (''ECOSYSTEM_INFORMATION'', 0), (''COMMISSIONER_CONTROL'', 0),
      (''JOINT_FABRIC_DATASTORE'', 0), (''JOINT_FABRIC_ADMINISTRATOR'', 0),
      (''TLS_CERTIFICATE_MANAGEMENT'', 0), (''TLS_CLIENT_MANAGEMENT'', 0),
      (''METER_IDENTIFICATION'', 0), (''COMMODITY_METERING'', 0), (''UNIT_TESTING'', 0),
      (''FAULT_INJECTION'', 0), (''SAMPLE_MEI'', 0)]"

definition CLUSTER_CLIENT_ENDPOINT_COUNT :: "(string \<times> nat) list" where
  "CLUSTER_CLIENT_ENDPOINT_COUNT =
     [(''IDENTIFY'', 0), (''GROUPS'', 0), (''ON_OFF'', 0), (''LEVEL_CONTROL'', 0), (''PWM'', 0),
      (''DESCRIPTOR'', 0), (''BINDING'', 0), (''ACCESS_CONTROL'', 0), (''ACTIONS'', 0),
      (''BASIC_INFORMATION'', 0), (''OTA_SOFTWARE_UPDATE_PROVIDER'', 0),
      (''OTA_SOFTWARE_UPDATE_REQUESTOR'', 0), (''LOCALIZATION_CONFIGURATION'', 0),
      (''TIME_FORMAT_LOCALIZATION'', 0), (''UNIT_LOCALIZATION'', 0),
      (''POWER_SOURCE_CONFIGURATION'', 0), (''POWER_SOURCE'', 0), (''GENERAL_COMMISSIONING'', 0),
      (''NETWORK_COMMISSIONING'', 0), (''DIAGNOSTIC_LOGS'', 0), (''GENERAL_DIAGNOSTICS'', 0),
      (''SOFTWARE_DIAGNOSTICS'', 0), (''THREAD_NETWORK_DIAGNOSTICS'', 0),
      (''WIFI_NETWORK_DIAGNOSTICS'', 0), (''ETHERNET_NETWORK_DIAGNOSTICS'', 0),
      (''TIME_SYNCHRONIZATION'', 0), (''BRIDGED_DEVICE_BASIC_INFORMATION'', 0), (''SWITCH'', 0),
      (''ADMINISTRATOR_COMMISSIONING'', 0), (''OPERATIONAL_CREDENTIALS'', 0),
      (''GROUP_KEY_MANAGEMENT'', 0), (''FIXED_LABEL'', 0), (''USER_LABEL'', 0),
      (''PROXY_CONFIGURATION'', 0), (''PROXY_DISCOVERY'', 0), (''PROXY_VALID'', 0),
      (''BOOLEAN_STATE'', 0), (''ICD_MANAGEMENT'', 0), (''TIMER'', 0),
      (''OPERATIONAL_STATE_OVEN'', 0), (''OVEN_MODE'', 0), (''LAUNDRY_DRYER_CONTROLS'', 0),
      (''MODE_SELECT'', 0), (''LAUNDRY_WASHER_MODE'', 0),
      (''REFRIGERATOR_AND_TEMPERATURE_CONTROLLED_CABINET_MODE'', 0),
      (''LAUNDRY_WASHER_CONTROLS'', 0), (''RVC_RUN_MODE'', 0), (''RVC_CLEAN_MODE'', 0),
      (''TEMPERATURE_CONTROL'', 0), (''REFRIGERATOR_ALARM'', 0), (''DISHWASHER_MODE'', 0),
      (''AIR_QUALITY'', 0), (''SMOKE_CO_ALARM'', 0), (''DISHWASHER_ALARM'', 0),
      (''MICROWAVE_OVEN_MODE'', 0), (''MICROWAVE_OVEN_CONTROL'', 0), (''OPERATIONAL_STATE'', 0),
      (''OPERATIONAL_STATE_RVC'', 0), (''SCENES'', 0), (''HEPA_FILTER_MONITORING'', 0),
      (''ACTIVATED_CARBON_FILTER_MONITORING'', 0), (''BOOLEAN_STATE_CONFIGURATION'', 0),
      (''VALVE_CONFIGURATION_AND_CONTROL'', 0), (''ELECTRICAL_POWER_MEASUREMENT'', 0),
      (''ELECTRICAL_ENERGY_MEASUREMENT'', 0), (''WATER_HEATER_MANAGEMENT'', 0),
      (''COMMODITY_PRICE'', 0), (''MESSAGES'', 0), (''DEVICE_ENERGY_MANAGEMENT'', 0),
      (''ENERGY_EVSE'', 0), (''ENERGY_PREFERENCE'', 0), (''POWER_TOPOLOGY'', 0),
      (''ENERGY_EVSE_MODE'', 0), (''WATER_HEATER_MODE'', 0),
      (''DEVICE_ENERGY_MANAGEMENT_MODE'', 0), (''ELECTRICAL_GRID_CONDITIONS'', 0),
      (''DOOR_LOCK'', 0), (''WINDOW_COVERING'', 0), (''CLOSURE_CONTROL'', 0),
      (''CLOSURE_DIMENSION'', 0), (''SERVICE_AREA'', 0), (''PUMP_CONFIGURATION_AND_CONTROL'', 0),
      (''THERMOSTAT'', 0), (''FAN_CONTROL'', 0), (''THERMOSTAT_USER_INTERFACE_CONFIGURATION'', 0),
      (''COLOR_CONTROL'', 0), (''BALLAST_CONFIGURATION'', 0), (''ILLUMINANCE_MEASUREMENT'', 0),
      (''TEMPERATURE_MEASUREMENT'', 0), (''PRESSURE_MEASUREMENT'', 0), (''FLOW_MEASUREMENT'', 0),
      (''RELATIVE_HUMIDITY_MEASUREMENT'', 0), (''OCCUPANCY_SENSING'', 0),
      (''CARBON_MONOXIDE_CONCENTRATION_MEASUREMENT'', 0),
      (''CARBON_DIOXIDE_CONCENTRATION_MEASUREMENT'', 0),
      (''NITROGEN_DIOXIDE_CONCENTRATION_MEASUREMENT'', 0),
      (''OZONE_CONCENTRATION_MEASUREMENT'', 0), (''PM2_5_CONCENTRATION_MEASUREMENT'', 0),
      (''FORMALDEHYDE_CONCENTRATION_MEASUREMENT'', 0), (''PM1_CONCENTRATION_MEASUREMENT'', 0),
      (''PM10_CONCENTRATION_MEASUREMENT'', 0), (''TVOC_CONCENTRATION_MEASUREMENT'', 0),
      (''RADON_CONCENTRATION_MEASUREMENT'', 0), (''SOIL_MEASUREMENT'', 0),
      (''WIFI_NETWORK_MANAGEMENT'', 0), (''THREAD_BORDER_ROUTER_MANAGEMENT'', 0),
      (''THREAD_NETWORK_DIRECTORY'', 0), (''WAKE_ON_LAN'', 0), (''CHANNEL'', 0),
      (''TARGET_NAVIGATOR'', 0), (''MEDIA_PLAYBACK'', 0), (''MEDIA_INPUT'', 0),
      (''LOW_POWER'', 0), (''KEYPAD_INPUT'', 0), (''CONTENT_LAUNCHER'', 0), (''AUDIO_OUTPUT'', 0),
      (''APPLICATION_LAUNCHER'', 0), (''APPLICATION_BASIC'', 0), (''ACCOUNT_LOGIN'', 0),
      (''CONTENT_CONTROL'', 0), (''CONTENT_APP_OBSERVER'', 0), (''ZONE_MANAGEMENT'', 0),
      (''CAMERA_AV_STREAM_MANAGEMENT'', 0), (''CAMERA_AV_SETTINGS_USER_LEVEL_MANAGEMENT'', 0),
      (''WEB_RTC_TRANSPORT_PROVIDER'', 0), (''WEB_RTC_TRANSPORT_REQUESTOR'', 0),
      (''PUSH_AV_STREAM_TRANSPORT'', 0), (''CHIME'', 0), (''COMMODITY_TARIFF'', 0),
      (''ECOSYSTEM_INFORMATION'', 0), (''COMMISSIONER_CONTROL'', 0),
      (''JOINT_FABRIC_DATASTORE'', 0), (''JOINT_FABRIC_ADMINISTRATOR'', 0),
      (''TLS_CERTIFICATE_MANAGEMENT'', 0), (''TLS_CLIENT_MANAGEMENT'', 0),
      (''METER_IDENTIFICATION'', 0), (''COMMODITY_METERING'', 0), (''UNIT_TESTING'', 0),
      (''FAULT_INJECTION'', 0), (''SAMPLE_MEI'', 0)]"

section \<open>Server sides in use\<close>

definition ZCL_USING_CLUSTER_SERVER :: "string list" where
  "ZCL_USING_CLUSTER_SERVER =
     [''IDENTIFY'', ''DESCRIPTOR'', ''ACCESS_CONTROL'', ''BASIC_INFORMATION'',
      ''GENERAL_COMMISSIONING'', ''NETWORK_COMMISSIONING'', ''GENERAL_DIAGNOSTICS'',
      ''ADMINISTRATOR_COMMISSIONING'', ''OPERATIONAL_CREDENTIALS'', ''GROUP_KEY_MANAGEMENT'',
      ''DOOR_LOCK'']"

definition MATTER_DM_PLUGIN :: "string list" where
  "MATTER_DM_PLUGIN =
     [''IDENTIFY_SERVER'', ''IDENTIFY'', ''DESCRIPTOR_SERVER'', ''DESCRIPTOR'',
      ''ACCESS_CONTROL_SERVER'', ''ACCESS_CONTROL'', ''BASIC_INFORMATION_SERVER'',
      ''BASIC_INFORMATION'', ''GENERAL_COMMISSIONING_SERVER'', ''GENERAL_COMMISSIONING'',
      ''NETWORK_COMMISSIONING_SERVER'', ''NETWORK_COMMISSIONING'', ''GENERAL_DIAGNOSTICS_SERVER'',
      ''GENERAL_DIAGNOSTICS'', ''ADMINISTRATOR_COMMISSIONING_SERVER'',
      ''ADMINISTRATOR_COMMISSIONING'', ''OPERATIONAL_CREDENTIALS_SERVER'',
      ''OPERATIONAL_CREDENTIALS'', ''GROUP_KEY_MANAGEMENT_SERVER'', ''GROUP_KEY_MANAGEMENT'',
      ''DOOR_LOCK_SERVER'', ''DOOR_LOCK'']"

section \<open>Enabled commands\<close>

text \<open>By the cluster's heading: each macro without its ending, and its value.\<close>

definition GeneralCommissioning_ENABLE_CMD :: "(string \<times> nat) list" where
  "GeneralCommissioning_ENABLE_CMD =
     [(''GENERAL_COMMISSIONING_ENABLE_ARM_FAIL_SAFE'', 1),
      (''GENERAL_COMMISSIONING_ENABLE_SET_REGULATORY_CONFIG'', 1),
      (''GENERAL_COMMISSIONING_ENABLE_COMMISSIONING_COMPLETE'', 1)]"

definition NetworkCommissioning_ENABLE_CMD :: "(string \<times> nat) list" where
  "NetworkCommissioning_ENABLE_CMD =
     [(''NETWORK_COMMISSIONING_ENABLE_SCAN_NETWORKS'', 1),
      (''NETWORK_COMMISSIONING_ENABLE_ADD_OR_UPDATE_WI_FI_NETWORK'', 1),
      (''NETWORK_COMMISSIONING_ENABLE_REMOVE_NETWORK'', 1),
      (''NETWORK_COMMISSIONING_ENABLE_CONNECT_NETWORK'', 1),
      (''NETWORK_COMMISSIONING_ENABLE_REORDER_NETWORK'', 1),
      (''NETWORK_COMMISSIONING_ENABLE_QUERY_IDENTITY'', 1)]"

definition GeneralDiagnostics_ENABLE_CMD :: "(string \<times> nat) list" where
  "GeneralDiagnostics_ENABLE_CMD =
     [(''GENERAL_DIAGNOSTICS_ENABLE_TEST_EVENT_TRIGGER'', 1),
      (''GENERAL_DIAGNOSTICS_ENABLE_TIME_SNAPSHOT'', 1)]"

definition AdministratorCommissioning_ENABLE_CMD :: "(string \<times> nat) list" where
  "AdministratorCommissioning_ENABLE_CMD =
     [(''ADMINISTRATOR_COMMISSIONING_ENABLE_OPEN_COMMISSIONING_WINDOW'', 1),
      (''ADMINISTRATOR_COMMISSIONING_ENABLE_REVOKE_COMMISSIONING'', 1)]"

definition OperationalCredentials_ENABLE_CMD :: "(string \<times> nat) list" where
  "OperationalCredentials_ENABLE_CMD =
     [(''OPERATIONAL_CREDENTIALS_ENABLE_ATTESTATION_REQUEST'', 1),
      (''OPERATIONAL_CREDENTIALS_ENABLE_CERTIFICATE_CHAIN_REQUEST'', 1),
      (''OPERATIONAL_CREDENTIALS_ENABLE_CSR_REQUEST'', 1),
      (''OPERATIONAL_CREDENTIALS_ENABLE_ADD_NOC'', 1),
      (''OPERATIONAL_CREDENTIALS_ENABLE_UPDATE_NOC'', 1),
      (''OPERATIONAL_CREDENTIALS_ENABLE_UPDATE_FABRIC_LABEL'', 1),
      (''OPERATIONAL_CREDENTIALS_ENABLE_REMOVE_FABRIC'', 1),
      (''OPERATIONAL_CREDENTIALS_ENABLE_ADD_TRUSTED_ROOT_CERTIFICATE'', 1),
      (''OPERATIONAL_CREDENTIALS_ENABLE_SET_VID_VERIFICATION_STATEMENT'', 1),
      (''OPERATIONAL_CREDENTIALS_ENABLE_SIGN_VID_VERIFICATION_REQUEST'', 1)]"

definition GroupKeyManagement_ENABLE_CMD :: "(string \<times> nat) list" where
  "GroupKeyManagement_ENABLE_CMD =
     [(''GROUP_KEY_MANAGEMENT_ENABLE_KEY_SET_WRITE'', 1),
      (''GROUP_KEY_MANAGEMENT_ENABLE_KEY_SET_READ'', 1),
      (''GROUP_KEY_MANAGEMENT_ENABLE_KEY_SET_REMOVE'', 1),
      (''GROUP_KEY_MANAGEMENT_ENABLE_KEY_SET_READ_ALL_INDICES'', 1)]"

definition Identify_ENABLE_CMD :: "(string \<times> nat) list" where
  "Identify_ENABLE_CMD =
     [(''IDENTIFY_ENABLE_IDENTIFY'', 1), (''IDENTIFY_ENABLE_TRIGGER_EFFECT'', 1)]"

definition DoorLock_ENABLE_CMD :: "(string \<times> nat) list" where
  "DoorLock_ENABLE_CMD =
     [(''DOOR_LOCK_ENABLE_LOCK_DOOR'', 1), (''DOOR_LOCK_ENABLE_UNLOCK_DOOR'', 1),
      (''DOOR_LOCK_ENABLE_UNLOCK_WITH_TIMEOUT'', 1),
      (''DOOR_LOCK_ENABLE_SET_WEEK_DAY_SCHEDULE'', 1),
      (''DOOR_LOCK_ENABLE_GET_WEEK_DAY_SCHEDULE'', 1),
      (''DOOR_LOCK_ENABLE_CLEAR_WEEK_DAY_SCHEDULE'', 1),
      (''DOOR_LOCK_ENABLE_SET_YEAR_DAY_SCHEDULE'', 1),
      (''DOOR_LOCK_ENABLE_GET_YEAR_DAY_SCHEDULE'', 1),
      (''DOOR_LOCK_ENABLE_CLEAR_YEAR_DAY_SCHEDULE'', 1),
      (''DOOR_LOCK_ENABLE_SET_HOLIDAY_SCHEDULE'', 1),
      (''DOOR_LOCK_ENABLE_GET_HOLIDAY_SCHEDULE'', 1),
      (''DOOR_LOCK_ENABLE_CLEAR_HOLIDAY_SCHEDULE'', 1), (''DOOR_LOCK_ENABLE_SET_USER'', 1),
      (''DOOR_LOCK_ENABLE_GET_USER'', 1), (''DOOR_LOCK_ENABLE_CLEAR_USER'', 1),
      (''DOOR_LOCK_ENABLE_SET_CREDENTIAL'', 1), (''DOOR_LOCK_ENABLE_GET_CREDENTIAL_STATUS'', 1),
      (''DOOR_LOCK_ENABLE_CLEAR_CREDENTIAL'', 1), (''DOOR_LOCK_ENABLE_UNBOLT_DOOR'', 1)]"

fun ENABLE_CMD :: "ClusterName \<Rightarrow> (string \<times> nat) list" where
  "ENABLE_CMD Cl_Descriptor = []"
| "ENABLE_CMD Cl_AccessControl = []"
| "ENABLE_CMD Cl_BasicInformation = []"
| "ENABLE_CMD Cl_GeneralCommissioning = GeneralCommissioning_ENABLE_CMD"
| "ENABLE_CMD Cl_NetworkCommissioning = NetworkCommissioning_ENABLE_CMD"
| "ENABLE_CMD Cl_GeneralDiagnostics = GeneralDiagnostics_ENABLE_CMD"
| "ENABLE_CMD Cl_AdministratorCommissioning = AdministratorCommissioning_ENABLE_CMD"
| "ENABLE_CMD Cl_OperationalCredentials = OperationalCredentials_ENABLE_CMD"
| "ENABLE_CMD Cl_GroupKeyManagement = GroupKeyManagement_ENABLE_CMD"
| "ENABLE_CMD Cl_Identify = Identify_ENABLE_CMD"
| "ENABLE_CMD Cl_DoorLock = DoorLock_ENABLE_CMD"

section \<open>Names\<close>

text \<open>The macro name of a name in camel case: capitals with an underscore where a word starts.\<close>

definition is_upper :: "char \<Rightarrow> bool" where
  "is_upper c \<longleftrightarrow> 65 \<le> (of_char c :: nat) \<and> (of_char c :: nat) \<le> 90"

definition is_lower :: "char \<Rightarrow> bool" where
  "is_lower c \<longleftrightarrow> 97 \<le> (of_char c :: nat) \<and> (of_char c :: nat) \<le> 122"

definition to_upper :: "char \<Rightarrow> char" where
  "to_upper c = (if is_lower c then char_of ((of_char c :: nat) - 32) else c)"

definition word_starts :: "char option \<Rightarrow> char \<Rightarrow> string \<Rightarrow> bool" where
  "word_starts p c cs \<longleftrightarrow> is_upper c \<and>
     (case p of None \<Rightarrow> False
      | Some q \<Rightarrow> \<not> is_upper q \<or> (case cs of [] \<Rightarrow> False | d # _ \<Rightarrow> is_lower d))"

fun macro_of :: "char option \<Rightarrow> string \<Rightarrow> string" where
  "macro_of p [] = []"
| "macro_of p (c # cs) =
     (if word_starts p c cs then ''_'' else []) @ to_upper c # macro_of (Some c) cs"

fun cluster_name :: "ClusterName \<Rightarrow> string" where
  "cluster_name Cl_Descriptor = ''Descriptor''"
| "cluster_name Cl_AccessControl = ''AccessControl''"
| "cluster_name Cl_BasicInformation = ''BasicInformation''"
| "cluster_name Cl_GeneralCommissioning = ''GeneralCommissioning''"
| "cluster_name Cl_NetworkCommissioning = ''NetworkCommissioning''"
| "cluster_name Cl_GeneralDiagnostics = ''GeneralDiagnostics''"
| "cluster_name Cl_AdministratorCommissioning = ''AdministratorCommissioning''"
| "cluster_name Cl_OperationalCredentials = ''OperationalCredentials''"
| "cluster_name Cl_GroupKeyManagement = ''GroupKeyManagement''"
| "cluster_name Cl_Identify = ''Identify''"
| "cluster_name Cl_DoorLock = ''DoorLock''"

definition cluster_macro :: "ClusterName \<Rightarrow> string" where
  "cluster_macro cl = macro_of None (cluster_name cl)"

text \<open>The numbers of the commands whose macros are set, by the macro names of the commands.\<close>

definition command_macros :: "ClusterName \<Rightarrow> (string \<times> u32) list" where
  "command_macros cl =
     map (\<lambda>(c, k). (cluster_macro cl @ ''_ENABLE_'' @ macro_of None c, k)) (command_numbers cl)"

definition numbers_of :: "(string \<times> u32) list \<Rightarrow> (string \<times> nat) list \<Rightarrow> u32 option list" where
  "numbers_of tbl macros = map (\<lambda>(name, val). if val = 0 then None else map_of tbl name) macros"

definition enabled_numbers :: "ClusterName \<Rightarrow> u32 option list" where
  "enabled_numbers cl = numbers_of (command_macros cl) (ENABLE_CMD cl)"

section \<open>The macros agree with the endpoint tables\<close>

lemma cluster_macro_eval:
  "cluster_macro Cl_Descriptor = ''DESCRIPTOR''"
  "cluster_macro Cl_AccessControl = ''ACCESS_CONTROL''"
  "cluster_macro Cl_BasicInformation = ''BASIC_INFORMATION''"
  "cluster_macro Cl_GeneralCommissioning = ''GENERAL_COMMISSIONING''"
  "cluster_macro Cl_NetworkCommissioning = ''NETWORK_COMMISSIONING''"
  "cluster_macro Cl_GeneralDiagnostics = ''GENERAL_DIAGNOSTICS''"
  "cluster_macro Cl_AdministratorCommissioning = ''ADMINISTRATOR_COMMISSIONING''"
  "cluster_macro Cl_OperationalCredentials = ''OPERATIONAL_CREDENTIALS''"
  "cluster_macro Cl_GroupKeyManagement = ''GROUP_KEY_MANAGEMENT''"
  "cluster_macro Cl_Identify = ''IDENTIFY''"
  "cluster_macro Cl_DoorLock = ''DOOR_LOCK''"
  by code_simp+

lemma enabled_commands_general:
  "enabled_numbers Cl_GeneralCommissioning = map Some (accepted_commands Cl_GeneralCommissioning)"
  "enabled_numbers Cl_NetworkCommissioning = map Some (accepted_commands Cl_NetworkCommissioning)"
  "enabled_numbers Cl_GeneralDiagnostics = map Some (accepted_commands Cl_GeneralDiagnostics)"
  "enabled_numbers Cl_AdministratorCommissioning = map Some (accepted_commands Cl_AdministratorCommissioning)"
  "enabled_numbers Cl_OperationalCredentials = map Some (accepted_commands Cl_OperationalCredentials)"
  "enabled_numbers Cl_GroupKeyManagement = map Some (accepted_commands Cl_GroupKeyManagement)"
  "enabled_numbers Cl_Identify = map Some (accepted_commands Cl_Identify)"
  by code_simp+

lemma enabled_commands_door_lock:
  "enabled_numbers Cl_DoorLock = map Some (accepted_commands Cl_DoorLock)"
  by code_simp

lemma enabled_commands: "enabled_numbers cl = map Some (accepted_commands cl)"
  by (cases cl) (simp_all only: enabled_commands_general enabled_commands_door_lock
      enabled_numbers_def [of Cl_Descriptor] enabled_numbers_def [of Cl_AccessControl]
      enabled_numbers_def [of Cl_BasicInformation] numbers_of_def ENABLE_CMD.simps
      accepted_commands_eval list.map)

text \<open>The counts that are not zero.\<close>

definition positive_counts :: "(string \<times> nat) list \<Rightarrow> (string \<times> nat) list" where
  "positive_counts tbl = filter (\<lambda>(name, n). n \<noteq> 0) tbl"

definition config_clusters :: "ClusterName list" where
  "config_clusters =
     [Cl_Identify, Cl_Descriptor, Cl_AccessControl, Cl_BasicInformation, Cl_GeneralCommissioning,
      Cl_NetworkCommissioning, Cl_GeneralDiagnostics, Cl_AdministratorCommissioning,
      Cl_OperationalCredentials, Cl_GroupKeyManagement, Cl_DoorLock]"

lemma config_clusters_all: "cl \<in> set config_clusters" "distinct config_clusters"
  by (cases cl) (simp_all add: config_clusters_def)

lemma cluster_rows_count:
  "map (\<lambda>cl. length (cluster_rows cl)) config_clusters = [1, 2, 1, 1, 1, 1, 1, 1, 1, 1, 1]"
  by code_simp

lemma server_counts:
  "positive_counts CLUSTER_SERVER_ENDPOINT_COUNT
     = map (\<lambda>cl. (cluster_macro cl, length (cluster_rows cl))) config_clusters"
proof -
  have "positive_counts CLUSTER_SERVER_ENDPOINT_COUNT = zip (map cluster_macro config_clusters)
      (map (\<lambda>cl. length (cluster_rows cl)) config_clusters)"
    unfolding cluster_rows_count
    by (simp add: config_clusters_def cluster_macro_eval positive_counts_def CLUSTER_SERVER_ENDPOINT_COUNT_def)
  then show ?thesis by (simp add: zip_map_map zip_same_conv_map case_prod_beta comp_def)
qed

lemma client_counts: "positive_counts CLUSTER_CLIENT_ENDPOINT_COUNT = []"
  by (simp add: positive_counts_def CLUSTER_CLIENT_ENDPOINT_COUNT_def)

lemma used_servers: "ZCL_USING_CLUSTER_SERVER = map cluster_macro config_clusters"
  by (simp add: config_clusters_def cluster_macro_eval ZCL_USING_CLUSTER_SERVER_def)

lemma plugin_servers:
  "MATTER_DM_PLUGIN = concat (map (\<lambda>cl. [cluster_macro cl @ ''_SERVER'', cluster_macro cl]) config_clusters)"
  by (simp add: config_clusters_def cluster_macro_eval MATTER_DM_PLUGIN_def)

end
