(* ===== verification/ClusterCallbacks.thy ===== *)
theory ClusterCallbacks
  imports GenConfig LockTypes
begin

text \<open>
  \<open>src/cluster-callbacks.cpp\<close>: the switches that call the init and shutdown function of a
  cluster; \<open>src/callback-stub.cpp\<close>: the weak definitions of these functions, which do nothing;
  and the lists of \<open>include/app/PluginApplicationCallbacks.h\<close>. A function defined elsewhere
  (in the SDK or the program) replaces its stub; those are a parameter, with the state they
  change.
\<close>

section \<open>The stubs\<close>

text \<open>Each of the twenty-two weak functions has this body.\<close>

definition callback_stub :: "EndpointId \<Rightarrow> 's \<Rightarrow> 's" where
  "callback_stub endpoint s = s"

text \<open>Linking: a strong definition wins over the stub.\<close>

definition linked ::
  "(ClusterName \<Rightarrow> (EndpointId \<Rightarrow> 's \<Rightarrow> 's) option) \<Rightarrow> ClusterName \<Rightarrow> EndpointId \<Rightarrow> 's \<Rightarrow> 's" where
  "linked strong cl = (case strong cl of Some f \<Rightarrow> f | None \<Rightarrow> callback_stub)"

section \<open>The switches\<close>

text \<open>\<open>ident\<close> are the cluster identifiers of the SDK, \<open>cb\<close> the functions the linker chose.\<close>

definition emberAfClusterInitCallback ::
  "(ClusterName \<Rightarrow> u32) \<Rightarrow> (ClusterName \<Rightarrow> EndpointId \<Rightarrow> 's \<Rightarrow> 's) \<Rightarrow> EndpointId \<Rightarrow> u32 \<Rightarrow> 's \<Rightarrow> 's" where
  "emberAfClusterInitCallback ident cb endpoint cid s =
     (if cid = ident Cl_AccessControl then cb Cl_AccessControl endpoint s
      else if cid = ident Cl_AdministratorCommissioning then cb Cl_AdministratorCommissioning endpoint s
      else if cid = ident Cl_BasicInformation then cb Cl_BasicInformation endpoint s
      else if cid = ident Cl_Descriptor then cb Cl_Descriptor endpoint s
      else if cid = ident Cl_DoorLock then cb Cl_DoorLock endpoint s
      else if cid = ident Cl_GeneralCommissioning then cb Cl_GeneralCommissioning endpoint s
      else if cid = ident Cl_GeneralDiagnostics then cb Cl_GeneralDiagnostics endpoint s
      else if cid = ident Cl_GroupKeyManagement then cb Cl_GroupKeyManagement endpoint s
      else if cid = ident Cl_Identify then cb Cl_Identify endpoint s
      else if cid = ident Cl_NetworkCommissioning then cb Cl_NetworkCommissioning endpoint s
      else if cid = ident Cl_OperationalCredentials then cb Cl_OperationalCredentials endpoint s
      else s)"

definition emberAfClusterShutdownCallback ::
  "(ClusterName \<Rightarrow> u32) \<Rightarrow> (ClusterName \<Rightarrow> EndpointId \<Rightarrow> 's \<Rightarrow> 's) \<Rightarrow> EndpointId \<Rightarrow> u32 \<Rightarrow> 's \<Rightarrow> 's" where
  "emberAfClusterShutdownCallback ident cb endpoint cid s =
     (if cid = ident Cl_AccessControl then cb Cl_AccessControl endpoint s
      else if cid = ident Cl_AdministratorCommissioning then cb Cl_AdministratorCommissioning endpoint s
      else if cid = ident Cl_BasicInformation then cb Cl_BasicInformation endpoint s
      else if cid = ident Cl_Descriptor then cb Cl_Descriptor endpoint s
      else if cid = ident Cl_DoorLock then cb Cl_DoorLock endpoint s
      else if cid = ident Cl_GeneralCommissioning then cb Cl_GeneralCommissioning endpoint s
      else if cid = ident Cl_GeneralDiagnostics then cb Cl_GeneralDiagnostics endpoint s
      else if cid = ident Cl_GroupKeyManagement then cb Cl_GroupKeyManagement endpoint s
      else if cid = ident Cl_Identify then cb Cl_Identify endpoint s
      else if cid = ident Cl_NetworkCommissioning then cb Cl_NetworkCommissioning endpoint s
      else if cid = ident Cl_OperationalCredentials then cb Cl_OperationalCredentials endpoint s
      else s)"

section \<open>The plugins\<close>

definition MATTER_PLUGINS_INIT :: "ClusterName list" where
  "MATTER_PLUGINS_INIT =
     [Cl_AccessControl, Cl_AdministratorCommissioning, Cl_BasicInformation, Cl_Descriptor,
      Cl_DoorLock, Cl_GeneralCommissioning, Cl_GeneralDiagnostics, Cl_GroupKeyManagement,
      Cl_Identify, Cl_NetworkCommissioning, Cl_OperationalCredentials]"

definition MATTER_PLUGINS_SHUTDOWN :: "ClusterName list" where
  "MATTER_PLUGINS_SHUTDOWN =
     [Cl_AccessControl, Cl_AdministratorCommissioning, Cl_BasicInformation, Cl_Descriptor,
      Cl_DoorLock, Cl_GeneralCommissioning, Cl_GeneralDiagnostics, Cl_GroupKeyManagement,
      Cl_Identify, Cl_NetworkCommissioning, Cl_OperationalCredentials]"

text \<open>The macros call the plugin functions in the order of their lists.\<close>

definition run_plugins :: "(ClusterName \<Rightarrow> 's \<Rightarrow> 's) \<Rightarrow> ClusterName list \<Rightarrow> 's \<Rightarrow> 's" where
  "run_plugins cb cls s = fold cb cls s"

section \<open>Which function a switch calls\<close>

lemma cluster_number_inj: "cluster_number a = cluster_number b \<Longrightarrow> a = b"
  by (cases a; cases b) simp_all

lemma init_callback_known:
  "emberAfClusterInitCallback cluster_number cb ep (cluster_number cl) s = cb cl ep s"
  by (cases cl) (simp_all add: emberAfClusterInitCallback_def)

lemma init_callback_unknown:
  "\<forall>cl. c \<noteq> ident cl \<Longrightarrow> emberAfClusterInitCallback ident cb ep c s = s"
  by (simp add: emberAfClusterInitCallback_def)

lemma shutdown_callback_known:
  "emberAfClusterShutdownCallback cluster_number cb ep (cluster_number cl) s = cb cl ep s"
  by (cases cl) (simp_all add: emberAfClusterShutdownCallback_def)

lemma shutdown_callback_unknown:
  "\<forall>cl. c \<noteq> ident cl \<Longrightarrow> emberAfClusterShutdownCallback ident cb ep c s = s"
  by (simp add: emberAfClusterShutdownCallback_def)

end
