(* ===== verification/ProviderClaims.thy ===== *)
theory ProviderClaims
  imports LabelStore DeviceInfoExample ClusterCallbacks
begin

text \<open>
  The properties of the device information providers, of the feature macros and of the
  cluster callbacks.
\<close>

section \<open>The device information providers\<close>

text \<open>
  C28: the iterators end. The client's loop over each of the seven iterators of the two providers
  stops, with the list its array or the stored labels stand for: the one locale and the one
  calendar type of the default provider (which, against the comment in front of them, are not
  empty), the eight locales and the calendar types of the example provider, its one fixed
  label, which says up on endpoint 1 and down elsewhere, and in either provider the user labels
  up to the first that cannot be read. \<open>Count\<close> is the length of the fixed lists.
\<close>

theorem iterators_end:
  assumes "label_copy_ok S" and "IterateUserLabel S ep st = Some it"
  shows "iterate (UserLabelIterator_Next S st) it
      = Some (Done (listed_labels S st ep 0 (unat (UserLabelIterator_Count it))))
    \<and> (case AllClusters_IterateUserLabel S ep st of None \<Rightarrow> False
      | Some i \<Rightarrow> iterate (AllClusters_UserLabelIterator_Next S st) i
          = Some (Done (listed_labels S st ep 0 (unat (AllClusters_UserLabelIterator_Count i)))))
    \<and> (case IterateSupportedLocales S of None \<Rightarrow> False
      | Some i \<Rightarrow> iterate SupportedLocales_Next i = Some (Done [c_literal ''en-US'']))
    \<and> unat SupportedLocales_Count = length kAllSupportedLocales
    \<and> (case IterateSupportedCalendarTypes S of None \<Rightarrow> False
      | Some i \<Rightarrow> iterate SupportedCalendarTypes_Next i = Some (Done [kGregorian]))
    \<and> unat SupportedCalendarTypes_Count = length kAllSupportedCalendarTypes
    \<and> (case AllClusters_IterateSupportedLocales S of None \<Rightarrow> False
      | Some i \<Rightarrow> iterate AllClusters_SupportedLocales_Next i = Some (Done AllClusters_kAllSupportedLocales))
    \<and> unat AllClusters_SupportedLocales_Count = length AllClusters_kAllSupportedLocales
    \<and> (case AllClusters_IterateSupportedCalendarTypes S of None \<Rightarrow> False
      | Some i \<Rightarrow> iterate AllClusters_SupportedCalendarTypes_Next i
          = Some (Done AllClusters_kAllSupportedCalendarTypes))
    \<and> unat AllClusters_SupportedCalendarTypes_Count = length AllClusters_kAllSupportedCalendarTypes
    \<and> iterate FixedLabels_Next (FixedLabelIteratorImpl e)
      = Some (Done [(c_literal ''direction'', c_literal (if e = 1 then ''up'' else ''down''))])
    \<and> FixedLabels_Count (FixedLabelIteratorImpl e) = 1"
proof (intro conjI)
  show "iterate (UserLabelIterator_Next S st) it
      = Some (Done (listed_labels S st ep 0 (unat (UserLabelIterator_Count it))))"
    using assms by (rule iterate_user_labels)
  then show "case AllClusters_IterateUserLabel S ep st of None \<Rightarrow> False
      | Some i \<Rightarrow> iterate (AllClusters_UserLabelIterator_Next S st) i
          = Some (Done (listed_labels S st ep 0 (unat (AllClusters_UserLabelIterator_Count i))))"
    using assms(2) by (simp add: example_provider_simps)
  have heap: "heap_available S" using assms(2) by (simp add: IterateUserLabel_def split: if_splits)
  show "case IterateSupportedLocales S of None \<Rightarrow> False
      | Some i \<Rightarrow> iterate SupportedLocales_Next i = Some (Done [c_literal ''en-US''])"
    by (simp add: heap IterateSupportedLocales_def locales.iterate_left kAllSupportedLocales_def)
  show "case IterateSupportedCalendarTypes S of None \<Rightarrow> False
      | Some i \<Rightarrow> iterate SupportedCalendarTypes_Next i = Some (Done [kGregorian])"
    by (simp add: heap IterateSupportedCalendarTypes_def calendars.iterate_left kAllSupportedCalendarTypes_def)
  show "case AllClusters_IterateSupportedLocales S of None \<Rightarrow> False
      | Some i \<Rightarrow> iterate AllClusters_SupportedLocales_Next i = Some (Done AllClusters_kAllSupportedLocales)"
    by (simp add: heap AllClusters_IterateSupportedLocales_def example_locales.iterate_left)
  show "case AllClusters_IterateSupportedCalendarTypes S of None \<Rightarrow> False
      | Some i \<Rightarrow> iterate AllClusters_SupportedCalendarTypes_Next i
          = Some (Done AllClusters_kAllSupportedCalendarTypes)"
    by (simp add: heap AllClusters_IterateSupportedCalendarTypes_def example_calendars.iterate_left)
  show "iterate FixedLabels_Next (FixedLabelIteratorImpl e)
      = Some (Done [(c_literal ''direction'', c_literal (if e = 1 then ''up'' else ''down''))])"
    by (simp add: fixed_labels.iterate_left fixed_labels_left_def FixedLabelIteratorImpl_def)
qed (simp_all add: SupportedLocales_Count_def kNumSupportedLocales_def kAllSupportedLocales_def
    SupportedCalendarTypes_Count_def kNumSupportedCalendarTypes_def kAllSupportedCalendarTypes_def
    AllClusters_SupportedLocales_Count_def AllClusters_kNumSupportedLocales_def
    AllClusters_kAllSupportedLocales_def AllClusters_SupportedCalendarTypes_Count_def
    AllClusters_kNumSupportedCalendarTypes_def AllClusters_kAllSupportedCalendarTypes_def
    FixedLabels_Count_def kNumSupportedFixedLabels_def)

definition demo_label :: "byte list \<times> byte list" where
  "demo_label = (c_literal ''room'', c_literal ''hall'')"

lemma demo_labels_set:
  "set_labels demo_sdk 1 0 [demo_label] Map.empty = (CHIP_NO_ERROR demo_sdk,
     snd (set_labels demo_sdk 1 0 [demo_label] Map.empty))"
  by (simp add: demo_label_def c_literal_def demo_sdk_def SetUserLabelAt_def SetUserLabelLength_def
      CanCastTo_u32_def UserLabelTLVMaxSize_def demo_start_def demo_put_def demo_end_def)

theorem iterators_end_witness:
  "\<exists>it. IterateUserLabel demo_sdk 1 Map.empty = Some it
    \<and> iterate (UserLabelIterator_Next demo_sdk Map.empty) it = Some (Done [])"
proof -
  let ?it = "UserLabelIteratorImpl demo_sdk 1 Map.empty"
  have it: "IterateUserLabel demo_sdk 1 Map.empty = Some ?it"
    by (simp add: IterateUserLabel_def demo_sdk_def)
  moreover have "UserLabelIterator_Count ?it = 0"
    by (simp add: UserLabelIterator_Count_def UserLabelIteratorImpl_def GetUserLabelLength_def demo_sdk_def)
  ultimately show ?thesis
    using iterators_end [OF label_sdk_okD(5) [OF demo_sdk_ok] it, THEN conjunct1]
    by (simp add: listed_labels_def)
qed

text \<open>
  C27: user labels round trip. Labels that the provider writes without error at the indices
  from 0, with their number after them, are what a later iterator lists, in order, provided
  that they have no zero byte and fit the iterator's buffers; \<open>Count\<close> is their number, and
  the labels of other endpoints are what they were. The example provider's functions do the
  same.
\<close>

theorem user_labels_roundtrip:
  assumes S: "label_sdk_ok S" and err: "CHIP_ERROR_INVALID_ARGUMENT S \<noteq> CHIP_NO_ERROR S"
    and put: "set_labels S ep 0 ls st = (CHIP_NO_ERROR S, st')" and len: "length ls < 2 ^ 32"
    and fits: "\<forall>(l, v) \<in> set ls. length l \<le> kMaxLabelNameLength S \<and> length v \<le> kMaxLabelValueLength S
      \<and> 0 \<notin> set l \<and> 0 \<notin> set v"
  shows "(\<exists>it. IterateUserLabel S ep st' = Some it
      \<and> iterate (UserLabelIterator_Next S st') it = Some (Done ls)
      \<and> unat (UserLabelIterator_Count it) = length ls)
    \<and> (\<exists>it. AllClusters_IterateUserLabel S ep st' = Some it
      \<and> iterate (AllClusters_UserLabelIterator_Next S st') it = Some (Done ls)
      \<and> unat (AllClusters_UserLabelIterator_Count it) = length ls)
    \<and> (ep' \<noteq> ep \<longrightarrow> stored_label S st' ep' i = stored_label S st ep' i
      \<and> GetUserLabelLength S ep' 0 st' = GetUserLabelLength S ep' 0 st)"
proof (intro conjI impI)
  have same: "takeWhile (\<lambda>c. c \<noteq> 0) bs = bs" if "0 \<notin> set bs" for bs :: "byte list"
    using that by (induction bs) auto
  have "map (label_shown S) ls = ls"
    using fits by (intro map_idI) (auto simp: label_shown_def shown_text_def same)
  with set_labels_listed [OF S err put len]
  show one: "\<exists>it. IterateUserLabel S ep st' = Some it
      \<and> iterate (UserLabelIterator_Next S st') it = Some (Done ls)
      \<and> unat (UserLabelIterator_Count it) = length ls"
    by metis
  then show "\<exists>it. AllClusters_IterateUserLabel S ep st' = Some it
      \<and> iterate (AllClusters_UserLabelIterator_Next S st') it = Some (Done ls)
      \<and> unat (AllClusters_UserLabelIterator_Count it) = length ls"
    by (simp add: example_provider_simps)
  assume "ep' \<noteq> ep"
  then show "stored_label S st' ep' i = stored_label S st ep' i"
    and "GetUserLabelLength S ep' 0 st' = GetUserLabelLength S ep' 0 st"
    using set_labels_stored [OF S err put] len by simp_all
qed

theorem user_labels_roundtrip_witness:
  "\<exists>st it. IterateUserLabel demo_sdk 1 st = Some it
    \<and> iterate (UserLabelIterator_Next demo_sdk st) it = Some (Done [(c_literal ''room'', c_literal ''hall'')])"
proof -
  have err: "CHIP_ERROR_INVALID_ARGUMENT demo_sdk \<noteq> CHIP_NO_ERROR demo_sdk"
    and len: "length [demo_label] < 2 ^ 32"
    and fits: "\<forall>(l, v) \<in> set [demo_label]. length l \<le> kMaxLabelNameLength demo_sdk
      \<and> length v \<le> kMaxLabelValueLength demo_sdk \<and> 0 \<notin> set l \<and> 0 \<notin> set v"
    by (simp_all add: demo_sdk_def demo_label_def c_literal_def)
  from user_labels_roundtrip [OF demo_sdk_ok err demo_labels_set len fits, THEN conjunct1]
  show ?thesis by (auto simp: demo_label_def)
qed

section \<open>Feature macros and cluster callbacks\<close>

lemma find_plugin_known:
  "find (\<lambda>c. cluster_number c = cluster_number cl) MATTER_PLUGINS_INIT = Some cl"
  by (cases cl) (simp_all add: MATTER_PLUGINS_INIT_def)

lemma callbacks_find:
  "emberAfClusterInitCallback cluster_number cb ep c s
     = (case find (\<lambda>cl. cluster_number cl = c) MATTER_PLUGINS_INIT of Some cl \<Rightarrow> cb cl ep s | None \<Rightarrow> s)"
  "emberAfClusterShutdownCallback cluster_number cb ep c s
     = (case find (\<lambda>cl. cluster_number cl = c) MATTER_PLUGINS_INIT of Some cl \<Rightarrow> cb cl ep s | None \<Rightarrow> s)"
proof (atomize (full), cases "\<exists>cl. c = cluster_number cl")
  case True
  then obtain cl where "c = cluster_number cl" by blast
  then show "emberAfClusterInitCallback cluster_number cb ep c s
      = (case find (\<lambda>cl. cluster_number cl = c) MATTER_PLUGINS_INIT of Some cl \<Rightarrow> cb cl ep s | None \<Rightarrow> s)
    \<and> emberAfClusterShutdownCallback cluster_number cb ep c s
      = (case find (\<lambda>cl. cluster_number cl = c) MATTER_PLUGINS_INIT of Some cl \<Rightarrow> cb cl ep s | None \<Rightarrow> s)"
    by (simp add: find_plugin_known init_callback_known shutdown_callback_known)
next
  case False
  then have "\<forall>cl. c \<noteq> cluster_number cl" by blast
  moreover from this have "find (\<lambda>cl. cluster_number cl = c) MATTER_PLUGINS_INIT = None"
    by (auto simp: find_None_iff)
  ultimately show "emberAfClusterInitCallback cluster_number cb ep c s
      = (case find (\<lambda>cl. cluster_number cl = c) MATTER_PLUGINS_INIT of Some cl \<Rightarrow> cb cl ep s | None \<Rightarrow> s)
    \<and> emberAfClusterShutdownCallback cluster_number cb ep c s
      = (case find (\<lambda>cl. cluster_number cl = c) MATTER_PLUGINS_INIT of Some cl \<Rightarrow> cb cl ep s | None \<Rightarrow> s)"
    by (simp add: init_callback_unknown shutdown_callback_unknown)
qed

text \<open>
  C39: the three generated descriptions of the data model agree. \<open>gen_config.h\<close> counts for
  every cluster as many server endpoints as it has rows in the cluster table of
  \<open>endpoint_config.h\<close>, no server for any other cluster and no client at all; it uses the
  server side and defines the plugins of exactly these clusters; the commands it enables are,
  in order, the accepted commands of the table. The switches of \<open>cluster-callbacks.cpp\<close> call
  for each of these clusters its own function (the stub, which does nothing, when there is
  no other), for any other number none, and the two plugin lists name each cluster once.
\<close>

theorem configuration_agrees:
  "positive_counts CLUSTER_SERVER_ENDPOINT_COUNT
     = map (\<lambda>cl. (cluster_macro cl, length (cluster_rows cl))) config_clusters
   \<and> positive_counts CLUSTER_CLIENT_ENDPOINT_COUNT = []
   \<and> ZCL_USING_CLUSTER_SERVER = map cluster_macro config_clusters
   \<and> MATTER_DM_PLUGIN = concat (map (\<lambda>cl. [cluster_macro cl @ ''_SERVER'', cluster_macro cl]) config_clusters)
   \<and> enabled_numbers cl = map Some (accepted_commands cl)
   \<and> emberAfClusterInitCallback cluster_number (linked strong) ep c s
     = (case find (\<lambda>cl. cluster_number cl = c) MATTER_PLUGINS_INIT of
          Some cl \<Rightarrow> (case strong cl of Some f \<Rightarrow> f ep s | None \<Rightarrow> s) | None \<Rightarrow> s)
   \<and> emberAfClusterShutdownCallback cluster_number (linked strong) ep c s
     = (case find (\<lambda>cl. cluster_number cl = c) MATTER_PLUGINS_SHUTDOWN of
          Some cl \<Rightarrow> (case strong cl of Some f \<Rightarrow> f ep s | None \<Rightarrow> s) | None \<Rightarrow> s)
   \<and> distinct MATTER_PLUGINS_INIT \<and> set MATTER_PLUGINS_INIT = set config_clusters
   \<and> MATTER_PLUGINS_SHUTDOWN = MATTER_PLUGINS_INIT \<and> cl \<in> set config_clusters"
proof -
  have same: "MATTER_PLUGINS_SHUTDOWN = MATTER_PLUGINS_INIT"
    by (simp add: MATTER_PLUGINS_INIT_def MATTER_PLUGINS_SHUTDOWN_def)
  have stub: "linked strong cl ep s = (case strong cl of Some f \<Rightarrow> f ep s | None \<Rightarrow> s)" for cl
    by (simp add: linked_def callback_stub_def split: option.split)
  have "set MATTER_PLUGINS_INIT = set config_clusters" "distinct MATTER_PLUGINS_INIT"
    by (auto simp: MATTER_PLUGINS_INIT_def config_clusters_def)
  then show ?thesis
    by (simp add: callbacks_find server_counts client_counts used_servers plugin_servers enabled_commands
        config_clusters_all same stub cong: option.case_cong)
qed

end
