(* ===== verification/MainTask.thy ===== *)
theory MainTask
  imports Startup
begin

text \<open>
  \<open>src/main.cpp\<close>, \<open>src/main_task.cpp\<close>, \<open>init_cyw955913Platform.cpp\<close> and
  \<open>mbedtls_helpers.cpp\<close>: what runs before the application task. \<open>main\<close> starts the watchdog
  and its timer and creates the thread of \<open>main_task\<close>, whose control block and stack are
  freed when it exits; \<open>main_task\<close> brings up the Matter stack step by step. The calls of the
  RTOS and the SDK and the heap are explicit; what the RTOS and the stack answer are arguments.
\<close>

section \<open>The machine main runs on\<close>

text \<open>
  The calls of the SDK and the RTOS are recorded in their order, the ones that matter for the
  watchdog with their argument. A block of the heap is a number; a thread's control block
  holds the start of its stack, and may have an exit notification.
\<close>

datatype host_call =
    Api string
  | Watchdog_ConfigureTime nat
  | Timer_start nat
  | Delay_ms nat

record host =
  calls :: "host_call list"
  heap_live :: "nat set"
  next_block :: nat
  control_block :: "nat \<rightharpoonup> nat option"
  exit_notify :: "nat set"

record main_answers =
  wdt_timer_init_ok :: bool
  wdt_timer_start_ok :: bool
  thread_alloc_ok :: bool
  stack_alloc_ok :: bool
  tx_thread_create_ok :: bool

definition host_do :: "host_call \<Rightarrow> host \<Rightarrow> host" where
  "host_do c h = h\<lparr>calls := calls h @ [c]\<rparr>"

abbreviation call :: "string \<Rightarrow> host \<Rightarrow> host" where
  "call c \<equiv> host_do (Api c)"

definition WDT_TIMEOUT_SECS :: nat where "WDT_TIMEOUT_SECS = 5"
definition WDT_TIMER_MSECS :: nat where "WDT_TIMER_MSECS = 4 * 1000"

definition wdt_timer_callback :: "host \<Rightarrow> host" where
  "wdt_timer_callback h = host_do (Watchdog_ConfigureTime WDT_TIMEOUT_SECS) h"

text \<open>\<open>malloc\<close> gives a block that is not in use, or null; \<open>free\<close> of a block not in use is undefined.\<close>

definition malloc :: "bool \<Rightarrow> host \<Rightarrow> nat option \<times> host" where
  "malloc ok h =
     (if ok then (Some (next_block h), h\<lparr>heap_live := insert (next_block h) (heap_live h),
                                         next_block := next_block h + 1\<rparr>)
      else (None, h))"

definition free :: "nat option \<Rightarrow> host \<Rightarrow> host outcome" where
  "free p h =
     (case p of
        None \<Rightarrow> Done h
      | Some b \<Rightarrow> if b \<in> heap_live h then Done (h\<lparr>heap_live := heap_live h - {b}\<rparr>) else Undef)"

section \<open>main\<close>

definition init_cyw955913Platform :: "env \<Rightarrow> host \<Rightarrow> host" where
  "init_cyw955913Platform E h =
     (let h = call ''cybsp_init'' h
      in if ENABLE_UI E then call ''cy_retarget_io_init(BT_UART)'' h
         else call ''cy_retarget_io_init(CYBSP_DEBUG_UART)'' h)"

text \<open>A core dump copies the registers and lets the fault handler go on (the result is \<open>FALSE\<close>).\<close>

record sec_exc_t =
  sp :: u32
  pc :: u32
  lr :: u32
  r :: "u32 list"
  PSR :: u32

definition app_coredump_callback :: "sec_exc_t \<Rightarrow> sec_exc_t \<Rightarrow> sec_exc_t \<times> bool" where
  "app_coredump_callback info app_regs = (let p_exec = info in (p_exec, False))"

text \<open>
  Without the timer the program goes on with a log line, and its start is not checked. The
  display pauses for its logo. Neither allocation is checked:
  creating a thread without them fails.
\<close>

definition main_thread :: "main_answers \<Rightarrow> host \<Rightarrow> host outcome" where
  "main_thread a h =
     (let (main_thread_handle, h) = malloc (thread_alloc_ok a) h;
          (main_thread_stack, h) = malloc (stack_alloc_ok a) h;
          h = call ''tx_thread_create(main_task)'' h
      in if \<not> tx_thread_create_ok a
         then obind (free main_thread_handle h) (\<lambda>h. free main_thread_stack h)
         else case main_thread_handle of
                None \<Rightarrow> Undef
              | Some t \<Rightarrow>
                  let h = h\<lparr>control_block := (control_block h)(t \<mapsto> main_thread_stack)\<rparr>
                  in Done (h\<lparr>exit_notify := insert t (exit_notify h)\<rparr>))"

definition main :: "env \<Rightarrow> main_answers \<Rightarrow> host \<Rightarrow> host outcome" where
  "main E a h =
     (let h = init_cyw955913Platform E h;
          h = call ''__enable_irq'' h;
          h = host_do (Watchdog_ConfigureTime WDT_TIMEOUT_SECS) h;
          h = call ''cy_rtos_timer_init(wdt_timer_callback)'' h;
          h = (if wdt_timer_init_ok a then host_do (Timer_start WDT_TIMER_MSECS) h else h);
          h = call ''wiced_set_coredump_callback'' h;
          h = call ''MemoryInit'' h;
          h = (if ENABLE_UI E then host_do (Delay_ms (5 * 1000)) (call ''display_init'' h) else h)
      in main_thread a h)"

text \<open>Called when the thread is entered or left; \<open>None\<close> is the null pointer.\<close>

definition application_thread_cleanup :: "nat option \<Rightarrow> bool \<Rightarrow> host \<Rightarrow> host outcome" where
  "application_thread_cleanup thread_ptr condition_is_exit h =
     (case thread_ptr of
        None \<Rightarrow> Done h
      | Some t \<Rightarrow>
          if \<not> condition_is_exit then Done h
          else let h = call ''tx_thread_terminate'' h; h = call ''tx_thread_delete'' h in
          case control_block h t of
            None \<Rightarrow> Undef
          | Some stack_start \<Rightarrow> obind (free stack_start h) (\<lambda>h. free (Some t) h))"

text \<open>The RTOS calls it for a thread that has been registered.\<close>

definition thread_exits :: "nat \<Rightarrow> host \<Rightarrow> host outcome" where
  "thread_exits t h =
     (if t \<in> exit_notify h then application_thread_cleanup (Some t) True h else Done h)"

section \<open>main_task\<close>

text \<open>\<open>None\<close> is \<open>CHIP_NO_ERROR\<close>; the other errors by their number.\<close>

record stack_answers =
  KeyValueStore_Init :: "u32 option"
  InitChipStack :: "u32 option"
  SetBLEDeviceName :: "u32 option"
  StartEventLoopTask :: "u32 option"
  app_queue_ok :: bool
  app_thread_ok :: bool

definition appError :: "app_error \<Rightarrow> 'a outcome" where
  "appError err = Halted err"

definition stack_step :: "string \<Rightarrow> u32 option \<Rightarrow> world \<Rightarrow> world outcome" where
  "stack_step c ret w =
     (let w = emit (Eff_call c) w
      in case ret of None \<Rightarrow> Done w | Some e \<Rightarrow> appError (CHIP_ERROR_OTHER e))"

definition main_task :: "stack_answers \<Rightarrow> world \<Rightarrow> world outcome" where
  "main_task a w =
     obind (stack_step ''KeyValueStoreMgrImpl.Init'' (KeyValueStore_Init a) w) (\<lambda>w.
     obind (stack_step ''InitChipStack'' (InitChipStack a) w) (\<lambda>w.
     obind (stack_step ''SetBLEDeviceName(H1CP_LOCK)'' (SetBLEDeviceName a) w) (\<lambda>w.
     obind (stack_step ''StartEventLoopTask'' (StartEventLoopTask a) w) (\<lambda>w.
     obind (StartAppTask (app_queue_ok a) (app_thread_ok a) w) (\<lambda>(ret, w).
     case ret of None \<Rightarrow> Done w | Some e \<Rightarrow> appError e)))))"

text \<open>\<open>mbedtls\<close> allocates from the C heap; \<open>calloc\<close> is the C library's.\<close>

definition mbedtls_calloc :: "(nat \<Rightarrow> nat \<Rightarrow> 'h \<Rightarrow> nat option \<times> 'h) \<Rightarrow> nat \<Rightarrow> nat \<Rightarrow> 'h \<Rightarrow> nat option \<times> 'h" where
  "mbedtls_calloc calloc n sz h = calloc n sz h"

definition mbedtls_free :: "nat option \<Rightarrow> host \<Rightarrow> host outcome" where
  "mbedtls_free ptr h = free ptr h"

section \<open>The watchdog\<close>

text \<open>
  The watchdog and the timer are not part of the program. Read off the recorded calls: when
  the watchdog is configured and for how many seconds, and when a timer is started and with
  what period, in milliseconds from the first call on; only a delay takes time.
\<close>

fun config_times :: "nat \<Rightarrow> host_call list \<Rightarrow> (nat \<times> nat) list" where
  "config_times t [] = []"
| "config_times t (Watchdog_ConfigureTime s # cs) = (t, s) # config_times t cs"
| "config_times t (Delay_ms d # cs) = config_times (t + d) cs"
| "config_times t (c # cs) = config_times t cs"

fun timer_started :: "nat \<Rightarrow> host_call list \<Rightarrow> (nat \<times> nat) option" where
  "timer_started t [] = None"
| "timer_started t (Timer_start p # cs) = Some (t, p)"
| "timer_started t (Delay_ms d # cs) = timer_started (t + d) cs"
| "timer_started t (c # cs) = timer_started t cs"

text \<open>
  Every configuration of the watchdog: main's own ones and, once its timer is started and the
  RTOS accepts that, those of the callback at each expiry; \<open>expiry p k\<close> is when a timer of
  period \<open>p\<close> expires for the \<open>k\<close>-th time, from its start.
\<close>

definition watchdog_configs :: "main_answers \<Rightarrow> (nat \<Rightarrow> nat \<Rightarrow> nat) \<Rightarrow> host \<Rightarrow> (nat \<times> nat) set" where
  "watchdog_configs a expiry h =
     set (config_times 0 (calls h)) \<union>
     (case timer_started 0 (calls h) of
        None \<Rightarrow> {}
      | Some (t, p) \<Rightarrow>
          if wdt_timer_start_ok a
          then (\<Union>k. set (config_times (t + expiry p k) (calls (wdt_timer_callback (h\<lparr>calls := []\<rparr>)))))
          else {})"

text \<open>
  What is expected of them: a periodic timer is late by at most \<open>j\<close> milliseconds, and never
  early; the device has been reset by a time exactly when some configuration ran out by then,
  no other having come before its seconds were over.
\<close>

definition periodic_ok :: "nat \<Rightarrow> (nat \<Rightarrow> nat \<Rightarrow> nat) \<Rightarrow> bool" where
  "periodic_ok j expiry \<longleftrightarrow> (\<forall>p k. (k + 1) * p \<le> expiry p k \<and> expiry p k \<le> (k + 1) * p + j)"

definition ran_out :: "(nat \<times> nat) set \<Rightarrow> nat \<Rightarrow> bool" where
  "ran_out configs t \<longleftrightarrow>
     (\<exists>(c, s) \<in> configs. c + 1000 * s \<le> t \<and> \<not> (\<exists>(c', s') \<in> configs. c < c' \<and> c' < c + 1000 * s))"

definition watchdog_ok :: "((nat \<times> nat) set \<Rightarrow> nat \<Rightarrow> bool) \<Rightarrow> bool" where
  "watchdog_ok reset_by \<longleftrightarrow> (\<forall>configs t. reset_by configs t \<longleftrightarrow> ran_out configs t)"

text \<open>Configurations that come late by less than what the period leaves keep the watchdog quiet.\<close>

lemma periodic_bounds:
  assumes "periodic_ok j expiry"
  shows "(k + 1) * p \<le> expiry p k" and "expiry p k \<le> (k + 1) * p + j"
  using assms by (simp_all add: periodic_ok_def)

lemma periodic_feeds:
  assumes "periodic_ok j expiry" and "p + j < 1000 * s" and "j < p"
  shows "\<not> ran_out (insert (0, s) (\<Union>k. {(expiry p k, s)})) t"
proof
  assume "ran_out (insert (0, s) (\<Union>k. {(expiry p k, s)})) t"
  moreover have "0 < expiry p 0 \<and> expiry p 0 < 1000 * s"
    using periodic_bounds [OF assms(1), where k = 0 and p = p] assms(2,3) by simp
  moreover have "expiry p k < expiry p (Suc k) \<and> expiry p (Suc k) < expiry p k + 1000 * s" for k
    using periodic_bounds [OF assms(1), where k = k and p = p] periodic_bounds [OF assms(1), where k = "Suc k" and p = p] assms(2,3)
    by simp
  ultimately show False by (force simp: ran_out_def)
qed

lemma single_runs_out: "ran_out {(0, s)} t \<longleftrightarrow> 1000 * s \<le> t"
  by (auto simp: ran_out_def)

section \<open>The heap\<close>

lemma host_do_heap [simp]:
  "heap_live (host_do c h) = heap_live h" "next_block (host_do c h) = next_block h"
  "control_block (host_do c h) = control_block h" "exit_notify (host_do c h) = exit_notify h"
  "calls (host_do c h) = calls h @ [c]"
  by (simp_all add: host_do_def)

text \<open>Blocks from \<open>next_block\<close> on are not in use.\<close>

definition heap_ok :: "host \<Rightarrow> bool" where
  "heap_ok h \<longleftrightarrow> (\<forall>b \<in> heap_live h. b < next_block h)"

text \<open>The state of main just before it creates the thread.\<close>

definition main_prefix :: "env \<Rightarrow> main_answers \<Rightarrow> host \<Rightarrow> host" where
  "main_prefix E a h =
     (let h = host_do (Watchdog_ConfigureTime WDT_TIMEOUT_SECS) (call ''__enable_irq'' (init_cyw955913Platform E h));
          h = call ''cy_rtos_timer_init(wdt_timer_callback)'' h;
          h = (if wdt_timer_init_ok a then host_do (Timer_start WDT_TIMER_MSECS) h else h);
          h = call ''MemoryInit'' (call ''wiced_set_coredump_callback'' h)
      in if ENABLE_UI E then host_do (Delay_ms (5 * 1000)) (call ''display_init'' h) else h)"

lemma main_split: "main E a h = main_thread a (main_prefix E a h)"
  by (simp add: main_def main_prefix_def Let_def)

lemma main_prefix_heap [simp]:
  "heap_live (main_prefix E a h) = heap_live h" "next_block (main_prefix E a h) = next_block h"
  "control_block (main_prefix E a h) = control_block h" "exit_notify (main_prefix E a h) = exit_notify h"
  by (simp_all add: main_prefix_def Let_def init_cyw955913Platform_def)

lemma main_thread_calls:
  "main_thread a h = Done h' \<Longrightarrow> calls h' = calls h @ [Api ''tx_thread_create(main_task)'']"
  by (auto simp: main_thread_def malloc_def free_def Let_def obind_Done_iff split: if_splits option.splits)

text \<open>What main's calls mean to the watchdog, with or without the display's delay at their end.\<close>

lemma main_watchdog:
  assumes "main E a h = Done h'" and "calls h = []"
  shows "watchdog_configs a expiry h' =
    insert (0, 5) (if wdt_timer_init_ok a \<and> wdt_timer_start_ok a then \<Union>k. {(expiry 4000 k, 5)} else {})"
proof -
  have "calls h' = calls (main_prefix E a h) @ [Api ''tx_thread_create(main_task)'']"
    using assms(1) by (simp add: main_split main_thread_calls)
  then show ?thesis using assms(2)
    by (simp add: watchdog_configs_def main_prefix_def init_cyw955913Platform_def Let_def
        wdt_timer_callback_def WDT_TIMEOUT_SECS_def WDT_TIMER_MSECS_def)
qed

text \<open>A thread that was created, and one that was not.\<close>

lemma main_thread_failed:
  "heap_ok h \<Longrightarrow> \<not> tx_thread_create_ok a \<Longrightarrow> \<exists>h'. main_thread a h = Done h' \<and> heap_live h' = heap_live h"
  by (cases "thread_alloc_ok a"; cases "stack_alloc_ok a")
     (auto simp: main_thread_def malloc_def free_def Let_def heap_ok_def)

lemma main_thread_created:
  assumes "tx_thread_create_ok a" and "thread_alloc_ok a" and "stack_alloc_ok a"
  obtains h' where "main_thread a h = Done h'"
    and "heap_live h' = insert (Suc (next_block h)) (insert (next_block h) (heap_live h))"
    and "next_block h \<in> exit_notify h'" and "control_block h' (next_block h) = Some (Some (Suc (next_block h)))"
  using assms by (simp add: main_thread_def malloc_def Let_def)

lemma thread_exits_frees:
  assumes "t \<in> exit_notify h" and "control_block h t = Some (Some k)" and "k \<in> heap_live h"
    and "t \<in> heap_live h" and "t \<noteq> k"
  shows "\<exists>h'. thread_exits t h = Done h' \<and> heap_live h' = heap_live h - {k, t}"
  using assms
  by (auto simp: thread_exits_def application_thread_cleanup_def free_def Let_def)

end
