(* ===== verification/PowerOn.thy ===== *)
theory PowerOn
  imports MainTask SystemProps
begin

text \<open>
  From power-on to the running program: \<open>main_task\<close> brings the stack up and starts the application
  task, which schedules \<open>InitServer\<close> on the Matter event loop; when that has run, the program is in
  one of the states its transition system starts from, up to the calls logged on the way.
\<close>

section \<open>The log before start-up\<close>

definition logged :: "effect list \<Rightarrow> world \<Rightarrow> world" where
  "logged xs w = w\<lparr>effects := xs @ effects w\<rparr>"

lemma logged_simps [simp]:
  "emit x (logged xs w) = logged xs (emit x w)"
  "on_led f (logged xs w) = logged xs (on_led f w)"
  "(logged xs w)\<lparr>sFunctionTimer := t\<rparr> = logged xs (w\<lparr>sFunctionTimer := t\<rparr>)"
  "(logged xs w)\<lparr>sLockTimer := t\<rparr> = logged xs (w\<lparr>sLockTimer := t\<rparr>)"
  "(logged xs w)\<lparr>buttonTimers := ts\<rparr> = logged xs (w\<lparr>buttonTimers := ts\<rparr>)"
  "(logged xs w)\<lparr>LockParams := p\<rparr> = logged xs (w\<lparr>LockParams := p\<rparr>)"
  "(logged xs w)\<lparr>mState := st\<rparr> = logged xs (w\<lparr>mState := st\<rparr>)"
  "(logged xs w)\<lparr>mActionInitiated_CB := i\<rparr> = logged xs (w\<lparr>mActionInitiated_CB := i\<rparr>)"
  "(logged xs w)\<lparr>mActionCompleted_CB := c\<rparr> = logged xs (w\<lparr>mActionCompleted_CB := c\<rparr>)"
  by (simp_all add: logged_def emit_def on_led_def split: prod.split)

lemma logged_fields [simp]:
  "sLockLED (logged xs w) = sLockLED w" "buttonTimers (logged xs w) = buttonTimers w"
  "mState (logged xs w) = mState w" "effects (logged xs w) = xs @ effects w"
  by (simp_all add: logged_def)

lemma ReadConfigValues_logged:
  "snd (ReadConfigValues E (logged xs w)) = logged xs (snd (ReadConfigValues E w))"
  by (cases w) (simp add: ReadConfigValues_def Let_def logged_def)

lemma logged_start [simp]:
  "NetWorkCommissioningInstInit (logged xs w) = logged xs (NetWorkCommissioningInstInit w)"
  "ButtonHandler_Init E (logged xs w) = logged xs (ButtonHandler_Init E w)"
  "SetCallbacks i c (logged xs w) = logged xs (SetCallbacks i c w)"
  by (simp_all add: NetWorkCommissioningInstInit_def ButtonHandler_Init_def ButtonHandler_GpioInit_def
      SetCallbacks_def Let_def)

lemma LockManager_Init_logged: "LockManager_Init E state p (logged xs w)
    = obind (LockManager_Init E state p w) (\<lambda>(e, w). Done (e, logged xs w))"
  by (simp add: LockManager_Init_eq split: option.split)

definition map_done :: "(world \<Rightarrow> world) \<Rightarrow> world outcome \<Rightarrow> world outcome" where
  "map_done f res = obind res (\<lambda>w. Done (f w))"

lemma map_done_simps [simp]:
  "map_done f (Done w) = Done (f w)" "map_done f (Halted e) = Halted e" "map_done f Undef = Undef"
  by (simp_all add: map_done_def)

lemma lockMgr_Init_logged: "lockMgr_Init E b (logged xs w) = map_done (logged xs) (lockMgr_Init E b w)"
proof (cases "LockManager_Init E (LockState_Get b) (boot_params b) (NetWorkCommissioningInstInit w)")
  case (Done ew)
  obtain e v where ew: "ew = (e, v)" by (cases ew)
  show ?thesis
  proof (cases e)
    case None
    then show ?thesis
      using Done ew
      by (simp add: lockMgr_Init_def Let_def LockManager_Init_logged ReadConfigValues_logged split: option.split)
  next
    case (Some a)
    then show ?thesis using Done ew by (simp add: lockMgr_Init_def Let_def LockManager_Init_logged)
  qed
qed (simp_all add: lockMgr_Init_def Let_def LockManager_Init_logged)

section \<open>The chain of start-up\<close>

text \<open>
  \<open>main_task\<close> runs in its thread, \<open>AppTask::Init\<close> first thing in the application thread, and what
  that schedules on the Matter event loop.
\<close>

definition power_on :: "env \<Rightarrow> boot \<Rightarrow> stack_answers \<Rightarrow> u32 \<Rightarrow> world \<Rightarrow> world outcome" where
  "power_on E b a uninit w =
     obind (main_task a w) (\<lambda>w.
     obind (AppTask_Init uninit b w) (\<lambda>w.
     case scheduled_work w of
       [] \<Rightarrow> Done w
     | item # rest \<Rightarrow> run_work E b item (w\<lparr>scheduled_work := rest\<rparr>)))"

text \<open>The first step that fails before \<open>InitServer\<close>, and the calls made when none does.\<close>

fun first_error :: "u32 option list \<Rightarrow> app_error option" where
  "first_error [] = None"
| "first_error (None # es) = first_error es"
| "first_error (Some e # es) = Some (CHIP_ERROR_OTHER e)"

definition start_failure :: "boot \<Rightarrow> stack_answers \<Rightarrow> u32 \<Rightarrow> app_error option" where
  "start_failure b a uninit =
     (case first_error [KeyValueStore_Init a, InitChipStack a, SetBLEDeviceName a, StartEventLoopTask a] of
        Some e \<Rightarrow> Some e
      | None \<Rightarrow> if \<not> app_queue_ok a then Some APP_ERROR_EVENT_QUEUE_FAILED
               else if \<not> app_thread_ok a then Some APP_ERROR_CREATE_TASK_FAILED
               else if ENABLE_OTA_REQUESTOR b \<and> boot_set_confirmed b \<noteq> 0 then Some (CHIP_ERROR_OTHER uninit)
               else None)"

definition start_calls :: "boot \<Rightarrow> string list" where
  "start_calls b =
     [''KeyValueStoreMgrImpl.Init'', ''InitChipStack'', ''SetBLEDeviceName(H1CP_LOCK)'',
      ''StartEventLoopTask'', ''cy_rtos_thread_create(AppTaskMain)'',
      ''AddEventHandler(DeviceEventCallback)'',
      ''InitializeStaticResourcesBeforeServerInit'', ''CodegenDataModelProviderInstance'',
      ''Server.Init'', ''SetStorageDelegate'', ''SetDeviceInfoProvider'',
      ''mFactoryDataProvider.Init'', ''SetCommissionableDataProvider'', ''SetDeviceInstanceInfoProvider'',
      (if ENABLE_DEVICE_ATTESTATION b then ''SetDeviceAttestationCredentialsProvider(TrustM)''
       else ''SetDeviceAttestationCredentialsProvider(FactoryData)'')] @
     (if ENABLE_OTA_REQUESTOR b then
       [''SetRequestorInstance'', ''StoreSoftwareVersion'', ''gRequestorStorage.Init'',
        ''gRequestorCore.Init'', ''SetOTADownloader'', ''SetImageProcessorDelegate'', ''gRequestorUser.Init'']
      else [])"

lemma fold_calls: "effects w = [] \<Longrightarrow> fold (\<lambda>c. emit (Eff_call c)) cs (logged xs w) = logged (xs @ map Eff_call cs) w"
proof (induction cs arbitrary: xs)
  case Nil
  then show ?case by simp
next
  case (Cons c cs)
  have "emit (Eff_call c) (logged xs w) = logged (xs @ [Eff_call c]) w"
    using Cons.prems by (simp add: logged_def emit_def)
  then show ?case using Cons by simp
qed

lemma logged_nil [simp]: "logged [] w = w"
  by (simp add: logged_def)

lemma main_task_logged:
  assumes "effects w = []" and "sAppEventQueue w = []"
  shows "main_task a w =
    (case first_error [KeyValueStore_Init a, InitChipStack a, SetBLEDeviceName a, StartEventLoopTask a] of
       Some e \<Rightarrow> Halted e
     | None \<Rightarrow> if \<not> app_queue_ok a then Halted APP_ERROR_EVENT_QUEUE_FAILED
              else if \<not> app_thread_ok a then Halted APP_ERROR_CREATE_TASK_FAILED
              else Done (logged (map Eff_call (take 5 (start_calls b))) w))"
  using assms
  by (cases w) (auto simp: main_task_def stack_step_def appError_def StartAppTask_def emit_def Let_def
      logged_def start_calls_def split: option.split)

lemma InitServer_logged:
  assumes "effects w = []"
  shows "InitServer E b (logged (map Eff_call (take 6 (start_calls b))) w)
    = map_done (logged (map Eff_call (start_calls b))) (lockMgr_Init E b w)"
  using assms
  by (simp only: InitServer_def InitOTARequestor_def fold_calls Let_def lockMgr_Init_logged [symmetric])
     (simp add: start_calls_def fold_calls)

lemma power_on_outcome:
  assumes w: "effects w = []" "scheduled_work w = []" "sAppEventQueue w = []"
  shows "power_on E b a uninit w =
    (case start_failure b a uninit of
       Some e \<Rightarrow> Halted e
     | None \<Rightarrow> map_done (logged (map Eff_call (start_calls b))) (lockMgr_Init E b w))"
proof (cases "first_error [KeyValueStore_Init a, InitChipStack a, SetBLEDeviceName a, StartEventLoopTask a] = None
    \<and> app_queue_ok a \<and> app_thread_ok a")
  case False
  then show ?thesis
    unfolding power_on_def main_task_logged [OF w(1,3), of a b]
    by (auto simp: start_failure_def simp del: first_error.simps split: option.split)
next
  case True
  have init: "AppTask_Init uninit b (logged (map Eff_call (take 5 (start_calls b))) w) =
    (if ENABLE_OTA_REQUESTOR b \<and> boot_set_confirmed b \<noteq> 0 then Halted (CHIP_ERROR_OTHER uninit)
     else Done ((logged (map Eff_call (take 6 (start_calls b))) w)\<lparr>scheduled_work := [Work_InitServer]\<rparr>))"
    using w by (cases w) (simp add: AppTask_Init_def emit_def logged_def start_calls_def)
  have rest: "(logged xs w)\<lparr>scheduled_work := [Work_InitServer], scheduled_work := []\<rparr> = logged xs w" for xs
    using w by (cases w) (simp add: logged_def)
  show ?thesis
    unfolding power_on_def main_task_logged [OF w(1,3), of a b]
    using True InitServer_logged [OF w(1), of E b] rest
    by (simp add: start_failure_def init run_work_def del: first_error.simps)
qed

section \<open>The invariant at power-on\<close>

lemma sys_inv_logged: "sys_inv E (logged xs w) = sys_inv E w"
proof -
  have "db_inv E (logged xs w) = db_inv E w"
    by (rule db_inv_db) (simp add: db_def logged_def)
  then show ?thesis
    by (simp add: sys_inv_def ctl_inv_def wiring_inv_def actuator_inv_def queue_inv_def function_inv_def
        pending_def IsActionInProgress_def logged_def)
qed

lemma static_world_start:
  "effects (static_world E f) = []" "scheduled_work (static_world E f) = []"
  "sAppEventQueue (static_world E f) = []"
  by (simp_all add: static_world_def)

lemmas power_on_static = power_on_outcome [OF static_world_start]

end
