(* ===== verification/Touch.thy ===== *)
theory Touch
  imports Prelude
begin

text \<open>
  The touch screen: the driver \<open>lvgl_support/ft6206.c\<close> of the FT6206 controller and its port
  to LVGL, \<open>lvgl_support/lv_port_indev_ft6206.c\<close>. The hardware layer (\<open>cyhal\<close>) and the bus
  behind it are a parameter: every call takes the state of the bus and gives its result and
  the new state. The statics of both files and of \<open>touchpad_read\<close> are one record.
\<close>

section \<open>The hardware layer\<close>

record 'b touch_hal =
  RSLT_SUCCESS :: u32
  i2c_init :: "'b \<Rightarrow> u32 \<times> 'b"
  i2c_configure :: "u32 \<Rightarrow> 'b \<Rightarrow> u32 \<times> 'b"
  touch_gpio_init :: "'b \<Rightarrow> u32 \<times> 'b"
  gpio_register_callback :: "'b \<Rightarrow> 'b"
  gpio_enable_event :: "'b \<Rightarrow> 'b"
  i2c_master_write :: "u16 \<Rightarrow> byte list \<Rightarrow> 'b \<Rightarrow> u32 \<times> 'b"
  \<comment> \<open>address and number of bytes; the bytes are what it leaves in the buffer\<close>
  i2c_master_read :: "u16 \<Rightarrow> nat \<Rightarrow> 'b \<Rightarrow> u32 \<times> byte list \<times> 'b"

section \<open>State\<close>

record 'b touch =
  ft6206_initialized :: bool
  touch_count :: u32
  last_x :: u16
  last_y :: u16
  indev_registered :: bool
  bus :: 'b

definition touch_static :: "'b \<Rightarrow> 'b touch" where
  "touch_static b = \<lparr>ft6206_initialized = False, touch_count = 0, last_x = 0, last_y = 0,
     indev_registered = False, bus = b\<rparr>"

definition FT6206_I2C_ADDRESS :: u16 where "FT6206_I2C_ADDRESS = 0x38"
definition FT6206_I2C_FREQUENCY :: u32 where "FT6206_I2C_FREQUENCY = 100000"
definition FT6206_REG_P1_XH :: u8 where "FT6206_REG_P1_XH = 0x03"
definition X_RESOLUTION :: u16 where "X_RESOLUTION = 240"
definition Y_RESOLUTION :: u16 where "Y_RESOLUTION = 320"

section \<open>The driver\<close>

text \<open>The interrupt of the touch controller; its argument points to \<open>touch_count\<close>.\<close>

definition gpio_interrupt_handler :: "'b touch \<Rightarrow> 'b touch" where
  "gpio_interrupt_handler s = s\<lparr>touch_count := touch_count s + 1\<rparr>"

text \<open>
  A failure of the interrupt pin does not stop the set-up: callback and event are still
  enabled, but the driver does not count as initialised and the failure is returned.
\<close>

definition ft6206_init :: "'b touch_hal \<Rightarrow> 'b touch \<Rightarrow> u32 \<times> 'b touch" where
  "ft6206_init H s =
     (if ft6206_initialized s then (RSLT_SUCCESS H, s)
      else let (result, b) = i2c_init H (bus s); s = s\<lparr>bus := b\<rparr> in
      if result \<noteq> RSLT_SUCCESS H then (result, s)
      else let (result, b) = i2c_configure H FT6206_I2C_FREQUENCY (bus s); s = s\<lparr>bus := b\<rparr> in
      if result \<noteq> RSLT_SUCCESS H then (result, s)
      else let (result, b) = touch_gpio_init H (bus s); s = s\<lparr>bus := b\<rparr>;
               s = s\<lparr>bus := gpio_register_callback H (bus s)\<rparr>;
               s = s\<lparr>bus := gpio_enable_event H (bus s)\<rparr>;
               s = (if result = RSLT_SUCCESS H then s\<lparr>ft6206_initialized := True\<rparr> else s)
      in (result, s))"

definition ft6206_read_byte :: "'b touch_hal \<Rightarrow> u8 \<Rightarrow> byte list \<Rightarrow> 'b touch \<Rightarrow> u32 \<times> byte list \<times> 'b touch" where
  "ft6206_read_byte H reg_addr data s =
     (let (result, b) = i2c_master_write H FT6206_I2C_ADDRESS [reg_addr] (bus s); s = s\<lparr>bus := b\<rparr> in
      if result = RSLT_SUCCESS H
      then (let (result, data, b) = i2c_master_read H FT6206_I2C_ADDRESS 1 (bus s)
            in (result, data, s\<lparr>bus := b\<rparr>))
      else (result, data, s))"

definition ft6206_write_byte :: "'b touch_hal \<Rightarrow> u8 \<Rightarrow> u8 \<Rightarrow> 'b touch \<Rightarrow> u32 \<times> 'b touch" where
  "ft6206_write_byte H reg_addr data s =
     (let (result, b) = i2c_master_write H FT6206_I2C_ADDRESS [reg_addr, data] (bus s)
      in (result, s\<lparr>bus := b\<rparr>))"

text \<open>
  A coordinate from its two registers: the low four bits of the first, then the second. The
  source computes in \<open>int\<close> and narrows to 16 bits.
\<close>

definition raw_coordinate :: "byte \<Rightarrow> byte \<Rightarrow> u16" where
  "raw_coordinate hi lo = (push_bit 8 (ucast (hi AND 0x0F)) OR ucast lo)"

text \<open>
  The two results \<open>*x\<close> and \<open>*y\<close> are cleared first, and only set when both transfers
  succeeded.
\<close>

definition ft6206_read_xy :: "'b touch_hal \<Rightarrow> 'b touch \<Rightarrow> u32 \<times> (u16 \<times> u16) \<times> 'b touch" where
  "ft6206_read_xy H s =
     (let reg_addr = FT6206_REG_P1_XH;
          (result, b) = i2c_master_write H FT6206_I2C_ADDRESS [reg_addr] (bus s); s = s\<lparr>bus := b\<rparr> in
      if result = RSLT_SUCCESS H then
        (let (result, xy_data, b) = i2c_master_read H FT6206_I2C_ADDRESS 4 (bus s); s = s\<lparr>bus := b\<rparr> in
         if result = RSLT_SUCCESS H then
           (let tmp_x = raw_coordinate (xy_data ! 0) (xy_data ! 1);
                tmp_y = raw_coordinate (xy_data ! 2) (xy_data ! 3)
            in (result, (X_RESOLUTION - tmp_x - 1, Y_RESOLUTION - tmp_y - 1), s))
         else (result, (0, 0), s))
      else (result, (0, 0), s))"

section \<open>The input device of LVGL\<close>

datatype lv_indev_state = LV_INDEV_STATE_RELEASED | LV_INDEV_STATE_PRESSED

record lv_indev_data =
  indev_state :: lv_indev_state
  point_x :: i32
  point_y :: i32

definition touchpad_is_pressed :: "'b touch \<Rightarrow> bool \<times> 'b touch" where
  "touchpad_is_pressed s =
     (if touch_count s > 0 then (True, s\<lparr>touch_count := 0\<rparr>) else (False, s))"

text \<open>The result of \<open>ft6206_read_xy\<close> is not looked at.\<close>

definition touchpad_read :: "'b touch_hal \<Rightarrow> 'b touch \<Rightarrow> lv_indev_data \<times> 'b touch" where
  "touchpad_read H s =
     (let (pressed, s) = touchpad_is_pressed s;
          (st, s) = (if pressed
            then (let (_, (x, y), s) = ft6206_read_xy H s
                  in (LV_INDEV_STATE_PRESSED, s\<lparr>last_x := x, last_y := y\<rparr>))
            else (LV_INDEV_STATE_RELEASED, s))
      in (\<lparr>indev_state = st, point_x = ucast (last_x s), point_y = ucast (last_y s)\<rparr>, s))"

definition lv_port_indev_ft6202_init :: "'b touch_hal \<Rightarrow> 'b touch \<Rightarrow> u32 \<times> 'b touch" where
  "lv_port_indev_ft6202_init H s =
     (let (result, s) = ft6206_init H s in
      if result \<noteq> RSLT_SUCCESS H then (result, s)
      else (RSLT_SUCCESS H, s\<lparr>indev_registered := True\<rparr>))"

section \<open>Coordinates\<close>

lemma raw_coordinate_bound: "unat (raw_coordinate hi lo) < 4096"
proof -
  have nibble: "(0x0F :: u8) = mask 4"
    by (simp add: mask_eq_exp_minus_1)
  have "raw_coordinate hi lo = take_bit 12 (raw_coordinate hi lo)"
    unfolding raw_coordinate_def nibble
    by (rule bit_eqI) (auto simp: bit_simps dest: bit_imp_le_length)
  then have "unat (raw_coordinate hi lo) = take_bit 12 (unat (raw_coordinate hi lo))"
    by (metis unsigned_take_bit_eq)
  then show ?thesis
    using take_bit_nat_less_exp [of 12 "unat (raw_coordinate hi lo)"] by simp
qed

text \<open>
  Mirroring at a resolution of \<open>n\<close>: within the panel it is \<open>n - 1 - raw\<close>; behind its edge
  the subtraction wraps, so the result lies at the top of the 16-bit range.
\<close>

definition mirrored :: "nat \<Rightarrow> u16 \<Rightarrow> nat" where
  "mirrored n raw = (if unat raw < n then n - 1 - unat raw else 65535 + n - unat raw)"

lemma unat_mirror:
  assumes "unat n < 65536" and "0 < unat n" and "unat raw < 4096"
  shows "unat (n - raw - 1 :: u16) = mirrored (unat n) raw"
proof -
  have "unat (n - raw - 1) = unat (n - (raw + 1))"
    by (simp add: algebra_simps)
  moreover have r: "unat (raw + 1) = unat raw + 1"
    using assms(3) by (simp add: unat_word_ariths)
  ultimately show ?thesis
    using unat_sub_if_size [of n "raw + 1"] assms
    by (auto simp: mirrored_def word_le_nat_alt word_size r)
qed

lemma mirrored_in_panel: "mirrored n raw < n \<longleftrightarrow> unat raw < n" if "unat raw < 4096" "0 < n" "n < 61440"
  using that by (auto simp: mirrored_def)

lemma mirrored_inj:
  "unat a < n \<Longrightarrow> unat b < n \<Longrightarrow> mirrored n a = mirrored n b \<Longrightarrow> a = b"
  by (auto simp: mirrored_def unat_inj_iff [symmetric])

lemma raw_coordinate_value: "unat (raw_coordinate hi lo) = (unat hi mod 16) * 256 + unat lo"
proof -
  have nibble: "(0x0F :: u8) = mask 4"
    by (simp add: mask_eq_exp_minus_1)
  define h :: u16 where "h = ucast (take_bit 4 hi)"
  have sum: "raw_coordinate hi lo = push_bit 8 h + ucast lo"
    unfolding raw_coordinate_def nibble h_def take_bit_eq_mask [symmetric]
    by (subst disjunctive_add) (auto simp: bit_simps dest: bit_imp_le_length)
  have h: "unat h = unat hi mod 16"
    using mod_less_divisor [of 16 "unat hi"]
    by (simp add: h_def unsigned_ucast_eq take_bit_eq_mod unat_mod)
  have lo: "unat lo < 256"
    using unsigned_less [of lo] by simp
  have "unat (ucast lo :: u16) = unat lo"
    using lo by (simp add: unsigned_ucast_eq take_bit_nat_eq_self)
  with lo mod_less_divisor [of 16 "unat hi"] show ?thesis
    by (simp add: sum push_bit_eq_mult unat_word_ariths h)
qed

section \<open>Touches and polls\<close>

text \<open>
  The interrupt comes whenever the panel is touched, LVGL polls the input device on its own
  schedule.
\<close>

datatype touch_event = Touch_irq | Touch_poll

fun touch_step :: "'b touch_hal \<Rightarrow> touch_event \<Rightarrow> 'b touch \<Rightarrow> 'b touch" where
  "touch_step H Touch_irq s = gpio_interrupt_handler s"
| "touch_step H Touch_poll s = snd (touchpad_read H s)"

definition touch_run :: "'b touch_hal \<Rightarrow> touch_event list \<Rightarrow> 'b touch \<Rightarrow> 'b touch" where
  "touch_run H es s = fold (touch_step H) es s"

text \<open>The interrupts since the last poll.\<close>

fun irqs_pending :: "nat \<Rightarrow> touch_event list \<Rightarrow> nat" where
  "irqs_pending n [] = n"
| "irqs_pending n (Touch_irq # es) = irqs_pending (Suc n) es"
| "irqs_pending n (Touch_poll # es) = irqs_pending 0 es"

lemma read_xy_frame [simp]:
  "touch_count (snd (snd (ft6206_read_xy H s))) = touch_count s"
  "last_x (snd (snd (ft6206_read_xy H s))) = last_x s"
  "last_y (snd (snd (ft6206_read_xy H s))) = last_y s"
  by (simp_all add: ft6206_read_xy_def Let_def split: prod.splits)

lemma touchpad_read_count [simp]: "touch_count (snd (touchpad_read H s)) = 0"
  using read_xy_frame(1) [of H "s\<lparr>touch_count := 0\<rparr>"]
  by (cases "ft6206_read_xy H (s\<lparr>touch_count := 0\<rparr>)")
     (auto simp: touchpad_read_def touchpad_is_pressed_def Let_def word_gt_0 split: prod.splits)

lemma touch_count_run:
  "touch_count s = of_nat n \<Longrightarrow> touch_count (touch_run H es s) = of_nat (irqs_pending n es)"
  unfolding touch_run_def
  by (induction n es arbitrary: s rule: irqs_pending.induct)
     (simp_all add: gpio_interrupt_handler_def)

lemma touch_static_count: "touch_count (touch_run H es (touch_static b)) = of_nat (irqs_pending 0 es)"
  by (rule touch_count_run) (simp add: touch_static_def)

lemma touchpad_read_state:
  "indev_state (fst (touchpad_read H s)) = LV_INDEV_STATE_PRESSED \<longleftrightarrow> touch_count s \<noteq> 0"
  by (auto simp: touchpad_read_def touchpad_is_pressed_def Let_def word_gt_0 split: prod.splits)

lemma touchpad_read_pressed:
  assumes "touch_count s \<noteq> 0" and "ft6206_read_xy H (s\<lparr>touch_count := 0\<rparr>) = (r, (x, y), s')"
  shows "touchpad_read H s = (\<lparr>indev_state = LV_INDEV_STATE_PRESSED, point_x = ucast x,
    point_y = ucast y\<rparr>, s'\<lparr>last_x := x, last_y := y\<rparr>)"
  using assms by (simp add: touchpad_read_def touchpad_is_pressed_def word_gt_0)

lemma touchpad_read_released:
  "touch_count s = 0 \<Longrightarrow> touchpad_read H s = (\<lparr>indev_state = LV_INDEV_STATE_RELEASED,
    point_x = ucast (last_x s), point_y = ucast (last_y s)\<rparr>, s)"
  by (simp add: touchpad_read_def touchpad_is_pressed_def)

lemma of_nat_u32_zero_iff: "(of_nat n :: u32) = 0 \<longleftrightarrow> 2 ^ 32 dvd n"
  by (simp add: of_nat_eq_0_iff word_of_nat_eq_0_iff)

text \<open>
  Initialising twice does nothing the second time, once it has succeeded: the display start-up
  does it first, the registration with LVGL again.
\<close>

lemma ft6206_init_initialized:
  "ft6206_init H s = (RSLT_SUCCESS H, s') \<Longrightarrow> ft6206_initialized s'"
  by (auto simp: ft6206_init_def Let_def split: prod.splits if_splits)

lemma ft6206_init_twice:
  "ft6206_init H s = (RSLT_SUCCESS H, s') \<Longrightarrow> ft6206_init H s' = (RSLT_SUCCESS H, s')"
  using ft6206_init_initialized [of H s s'] by (simp add: ft6206_init_def)

end
