(* ===== verification/Display.thy ===== *)
theory Display
  imports Startup Touch
begin

text \<open>
  The display of \<open>lvgl_support/lvgl_support.c\<close>: the transfers to the panel, its start-up, and
  the screens (splash, QR code, lock with its button and animation). LVGL is a parameter with
  its own state; using an object that does not exist (any more) is undefined, and the laws of
  its object tree are named hypotheses. \<open>active_icon\<close> and \<open>lock_display_area\<close> are the two
  pointers the file keeps into that tree; a null pointer is \<open>None\<close>.
\<close>

section \<open>Transfers to the panel\<close>

datatype display_io =
    Io_DC nat
  | Io_SPI "byte list"
  | Io_flush_ready

definition DISPLAY_DC_COMMAND :: nat where "DISPLAY_DC_COMMAND = 0"
definition DISPLAY_DC_DATA :: nat where "DISPLAY_DC_DATA = 1"

text \<open>Whether the two transfers succeed is an argument; \<open>param\<close> may be null.\<close>

definition display_send_cmd ::
  "bool \<Rightarrow> bool \<Rightarrow> byte list \<Rightarrow> byte list option \<Rightarrow> display_io list" where
  "display_send_cmd cmd_ok param_ok cmd param =
     [Io_DC DISPLAY_DC_COMMAND, Io_SPI cmd] @
     (if cmd_ok then
        (case param of
           None \<Rightarrow> []
         | Some p \<Rightarrow> if length p = 0 then [] else [Io_DC DISPLAY_DC_DATA, Io_SPI p])
      else [])"

text \<open>LVGL waits for the flush to be reported as ready.\<close>

definition display_send_color ::
  "bool \<Rightarrow> bool \<Rightarrow> byte list \<Rightarrow> byte list option \<Rightarrow> display_io list" where
  "display_send_color cmd_ok param_ok cmd param =
     [Io_DC DISPLAY_DC_COMMAND, Io_SPI cmd] @
     (if cmd_ok then
        (case param of
           None \<Rightarrow> []
         | Some p \<Rightarrow> if length p = 0 then []
                     else [Io_DC DISPLAY_DC_DATA, Io_SPI p, Io_flush_ready])
      else [])"

lemma send_color_flush_ready:
  "Io_flush_ready \<in> set (display_send_color cmd_ok param_ok cmd param)
    \<longleftrightarrow> cmd_ok \<and> param \<noteq> None \<and> param \<noteq> Some []"
  by (cases param; cases "param = Some []"; cases cmd_ok) (simp_all add: display_send_color_def)

section \<open>LVGL\<close>

datatype widget = W_obj | W_image | W_label | W_button | W_qrcode

datatype image = Img_screenbackground | Img_lock_icon | Img_unlock_icon | Img_ifx_logo

datatype alignment = LV_ALIGN_CENTER | LV_ALIGN_TOP_MID | LV_ALIGN_BOTTOM_MID | LV_ALIGN_LEFT_MID

datatype lv_color = Lv_white | Lv_black | Lv_blue

datatype lv_call =
    lv_image_set_src image
  | lv_obj_align alignment int int
  | lv_obj_set_size int int
  | lv_obj_set_pos int int
  | lv_obj_set_height_content
  | lv_obj_set_width_content
  | lv_obj_set_style_text_font_16
  | lv_obj_set_style_text_color lv_color
  | lv_obj_set_style_bg_color lv_color
  | lv_obj_set_style_bg_opa nat
  | lv_obj_set_style_border_width nat
  | lv_obj_set_style_pad_all nat
  | lv_obj_clear_flag_scrollable
  | lv_obj_add_style_btn
  | lv_obj_add_style_pressed
  | lv_obj_add_event_cb_btn bool
  | lv_obj_center
  | lv_label_set_text string
  | lv_qrcode_set_size nat
  | lv_qrcode_set_dark_color lv_color
  | lv_qrcode_set_light_color lv_color
  | lv_qrcode_update "byte list"
  | lv_obj_set_x int
  | lv_anim_start_x nat int int

record ('o, 'l) lvgl =
  lv_screen_active :: "'l \<Rightarrow> 'o"
  lv_create :: "widget \<Rightarrow> 'o \<Rightarrow> 'l \<Rightarrow> 'o \<times> 'l"
  lv_obj_delete :: "'o \<Rightarrow> 'l \<Rightarrow> 'l"
  lv_obj_clean :: "'o \<Rightarrow> 'l \<Rightarrow> 'l"
  lv_do :: "lv_call \<Rightarrow> 'o \<Rightarrow> 'l \<Rightarrow> 'l"
  \<comment> \<open>the objects that exist and their parents, of which the code knows nothing\<close>
  lv_live :: "'l \<Rightarrow> 'o set"
  lv_parent :: "'l \<Rightarrow> 'o \<Rightarrow> 'o option"

datatype screen = Splash_screen | Qrcode_screen "byte list" | Lock_screen bool

text \<open>What the file sets up outside LVGL's tree, in order.\<close>

datatype ui_call =
    Ui_spi_init
  | Ui_spi_set_frequency nat
  | Ui_gpio_init_dc
  | Ui_gpio_init_reset
  | Ui_pwm_init
  | Ui_pwm_set_duty_cycle nat nat
  | Ui_pwm_start
  | Ui_thread_create
  | Ui_gpio_write_reset nat
  | Ui_delay_ms nat
  | Ui_lv_init
  | Ui_timer_init
  | Ui_timer_start nat
  | Ui_ili9341_create nat nat
  | Ui_rotation_270
  | Ui_set_buffers u32
  | Ui_lv_timer_handler

datatype style_prop =
    Style_radius nat
  | Style_bg_opa nat
  | Style_bg_color_grey_lightened nat
  | Style_bg_grad_color_grey
  | Style_bg_grad_dir_ver
  | Style_border_color lv_color
  | Style_border_opa nat
  | Style_border_width nat
  | Style_text_color lv_color
  | Style_color_filter_darken
  | Style_color_filter_opa nat

text \<open>\<open>shown\<close> is the screen drawn last; a lock screen's button carries \<open>locked\<close> as user data.\<close>

record ('o, 'l) display =
  lv :: 'l
  active_icon :: "'o option"
  lock_display_area :: "'o option"
  style_btn :: "style_prop list"
  style_button_pressed :: "style_prop list"
  lvgl_ticks :: u32
  ui_calls :: "ui_call list"
  shown :: "screen option"

definition display_static :: "'l \<Rightarrow> ('o, 'l) display" where
  "display_static l = \<lparr>lv = l, active_icon = None, lock_display_area = None, style_btn = [],
     style_button_pressed = [], lvgl_ticks = 0, ui_calls = [], shown = None\<rparr>"

definition ui :: "ui_call \<Rightarrow> ('o, 'l) display \<Rightarrow> ('o, 'l) display" where
  "ui c d = d\<lparr>ui_calls := ui_calls d @ [c]\<rparr>"

definition LVGL_TIMEOUT_MS :: nat where "LVGL_TIMEOUT_MS = 10"

definition lvgl_handler :: "('o, 'l) display \<Rightarrow> ('o, 'l) display" where
  "lvgl_handler d = d\<lparr>lvgl_ticks := lvgl_ticks d + of_nat LVGL_TIMEOUT_MS\<rparr>"

definition lv_new ::
  "('o, 'l) lvgl \<Rightarrow> widget \<Rightarrow> 'o \<Rightarrow> ('o, 'l) display \<Rightarrow> ('o \<times> ('o, 'l) display) outcome" where
  "lv_new L k parent d =
     (if parent \<in> lv_live L (lv d)
      then (case lv_create L k parent (lv d) of (obj, l) \<Rightarrow> Done (obj, d\<lparr>lv := l\<rparr>))
      else Undef)"

definition lv_on ::
  "('o, 'l) lvgl \<Rightarrow> 'o \<Rightarrow> lv_call list \<Rightarrow> ('o, 'l) display \<Rightarrow> ('o, 'l) display outcome" where
  "lv_on L obj cs d =
     (if obj \<in> lv_live L (lv d) then Done (d\<lparr>lv := fold (\<lambda>c. lv_do L c obj) cs (lv d)\<rparr>) else Undef)"

definition lv_remove :: "('o, 'l) lvgl \<Rightarrow> 'o \<Rightarrow> ('o, 'l) display \<Rightarrow> ('o, 'l) display outcome" where
  "lv_remove L obj d =
     (if obj \<in> lv_live L (lv d) then Done (d\<lparr>lv := lv_obj_delete L obj (lv d)\<rparr>) else Undef)"

section \<open>The screens\<close>

definition clear_screen ::
  "('o, 'l) lvgl \<Rightarrow> bool \<Rightarrow> ('o, 'l) display \<Rightarrow> ('o \<times> ('o, 'l) display) outcome" where
  "clear_screen L use_background_image d =
     (let scr = lv_screen_active L (lv d);
          d = d\<lparr>lv := lv_obj_clean L scr (lv d)\<rparr>;
          d = d\<lparr>active_icon := None, lock_display_area := None, shown := None\<rparr>
      in if use_background_image
         then obind (lv_new L W_image scr d) (\<lambda>(background, d).
              obind (lv_on L background [lv_image_set_src Img_screenbackground,
                lv_obj_align LV_ALIGN_CENTER 0 0] d) (\<lambda>d.
              Done (background, d)))
         else obind (lv_on L scr [lv_obj_set_style_bg_color Lv_white, lv_obj_set_style_bg_opa 255] d)
                (\<lambda>d. Done (scr, d)))"

text \<open>A label as all three screens make them.\<close>

definition text_label ::
  "('o, 'l) lvgl \<Rightarrow> 'o \<Rightarrow> alignment \<Rightarrow> int \<Rightarrow> string \<Rightarrow> ('o, 'l) display \<Rightarrow> ('o, 'l) display outcome" where
  "text_label L base al y txt d =
     obind (lv_new L W_label base d) (\<lambda>(lbl, d).
     lv_on L lbl [lv_obj_align al 0 y, lv_obj_set_height_content, lv_obj_set_width_content,
       lv_obj_set_style_text_font_16, lv_obj_set_style_text_color Lv_black, lv_label_set_text txt] d)"

definition drop_active_icon :: "('o, 'l) lvgl \<Rightarrow> ('o, 'l) display \<Rightarrow> ('o, 'l) display outcome" where
  "drop_active_icon L d =
     (case active_icon d of
        None \<Rightarrow> Done d
      | Some icon \<Rightarrow> obind (lv_remove L icon d) (\<lambda>d. Done (d\<lparr>active_icon := None\<rparr>)))"

definition draw_icon_image ::
  "('o, 'l) lvgl \<Rightarrow> 'o \<Rightarrow> bool \<Rightarrow> ('o, 'l) display \<Rightarrow> ('o, 'l) display outcome" where
  "draw_icon_image L parent locked d =
     obind (drop_active_icon L d) (\<lambda>d.
     let icon = (if locked then Img_lock_icon else Img_unlock_icon) in
     obind (lv_new L W_image parent d) (\<lambda>(obj, d).
     let d = d\<lparr>active_icon := Some obj\<rparr> in
     lv_on L obj [lv_image_set_src icon, lv_obj_align LV_ALIGN_CENTER 0 0] d))"

definition LOCK_DISPLAY_AREA_WIDTH :: int where "LOCK_DISPLAY_AREA_WIDTH = 100"
definition LOCK_DISPLAY_AREA_HEIGHT :: int where "LOCK_DISPLAY_AREA_HEIGHT = 100"
definition LOCK_DISPLAY_AREA_X :: int where "LOCK_DISPLAY_AREA_X = 110"
definition LOCK_DISPLAY_AREA_Y :: int where "LOCK_DISPLAY_AREA_Y = 60"
definition ANIMATION_OBJ_SIZE :: int where "ANIMATION_OBJ_SIZE = 14"

definition draw_lock_screen ::
  "('o, 'l) lvgl \<Rightarrow> bool \<Rightarrow> ('o, 'l) display \<Rightarrow> ('o, 'l) display outcome" where
  "draw_lock_screen L locked d =
     obind (clear_screen L True d) (\<lambda>(base, d).
     obind (text_label L base LV_ALIGN_TOP_MID 20 ''Lock status'' d) (\<lambda>d.
     obind (lv_new L W_obj base d) (\<lambda>(area, d).
     let d = d\<lparr>lock_display_area := Some area\<rparr> in
     obind (lv_on L area [lv_obj_set_size LOCK_DISPLAY_AREA_WIDTH LOCK_DISPLAY_AREA_HEIGHT,
       lv_obj_set_pos LOCK_DISPLAY_AREA_X LOCK_DISPLAY_AREA_Y, lv_obj_set_style_bg_opa 0,
       lv_obj_set_style_border_width 0, lv_obj_set_style_pad_all 0, lv_obj_clear_flag_scrollable] d) (\<lambda>d.
     obind (draw_icon_image L area locked d) (\<lambda>d.
     obind (lv_new L W_button base d) (\<lambda>(btn, d).
     obind (lv_on L btn [lv_obj_align LV_ALIGN_BOTTOM_MID 0 (- 20), lv_obj_set_size 140 40,
       lv_obj_add_style_btn, lv_obj_add_style_pressed, lv_obj_add_event_cb_btn locked] d) (\<lambda>d.
     obind (lv_new L W_label btn d) (\<lambda>(label, d).
     obind (lv_on L label [lv_label_set_text (if locked then ''Unlock'' else ''Lock''),
       lv_obj_center] d) (\<lambda>d.
     Done (d\<lparr>shown := Some (Lock_screen locked)\<rparr>))))))))))"

text \<open>LVGL's animation calls it with each value, on the object of the animation.\<close>

definition anim_x_cb :: "('o, 'l) lvgl \<Rightarrow> 'o \<Rightarrow> int \<Rightarrow> ('o, 'l) display \<Rightarrow> ('o, 'l) display outcome" where
  "anim_x_cb L obj v d = lv_on L obj [lv_obj_set_x v] d"

text \<open>Nothing happens on another screen, where there is no area.\<close>

definition start_lock_screen_animation ::
  "('o, 'l) lvgl \<Rightarrow> ('o, 'l) display \<Rightarrow> ('o, 'l) display outcome" where
  "start_lock_screen_animation L d =
     (case lock_display_area d of
        None \<Rightarrow> Done d
      | Some area \<Rightarrow>
          obind (drop_active_icon L d) (\<lambda>d.
          obind (lv_new L W_obj area d) (\<lambda>(obj, d).
          lv_on L obj [lv_obj_clear_flag_scrollable,
            lv_obj_set_size ANIMATION_OBJ_SIZE ANIMATION_OBJ_SIZE,
            lv_obj_set_style_bg_color Lv_blue, lv_obj_align LV_ALIGN_LEFT_MID 0 0,
            lv_anim_start_x 1000 10 (LOCK_DISPLAY_AREA_WIDTH - 10 - ANIMATION_OBJ_SIZE)] d)))"

definition draw_qrcode_screen ::
  "('o, 'l) lvgl \<Rightarrow> byte list \<Rightarrow> ('o, 'l) display \<Rightarrow> ('o, 'l) display outcome" where
  "draw_qrcode_screen L qrcode d =
     obind (clear_screen L True d) (\<lambda>(base, d).
     obind (text_label L base LV_ALIGN_TOP_MID 20 ''Please scan the QR code'' d) (\<lambda>d.
     obind (text_label L base LV_ALIGN_BOTTOM_MID (- 20) ''CWY955913 Matter Lock Demo'' d) (\<lambda>d.
     obind (lv_new L W_qrcode base d) (\<lambda>(qr, d).
     obind (lv_on L qr [lv_qrcode_set_size 140, lv_qrcode_set_dark_color Lv_black,
       lv_qrcode_set_light_color Lv_white, lv_qrcode_update qrcode, lv_obj_center] d) (\<lambda>d.
     Done (d\<lparr>shown := Some (Qrcode_screen qrcode)\<rparr>))))))"

definition display_qrcode ::
  "('o, 'l) lvgl \<Rightarrow> byte list option \<Rightarrow> ('o, 'l) display \<Rightarrow> ('o, 'l) display outcome" where
  "display_qrcode L qrcode d =
     (case qrcode of None \<Rightarrow> Done d | Some code \<Rightarrow> draw_qrcode_screen L code d)"

definition draw_splash_screen ::
  "('o, 'l) lvgl \<Rightarrow> ('o, 'l) display \<Rightarrow> ('o, 'l) display outcome" where
  "draw_splash_screen L d =
     obind (clear_screen L False d) (\<lambda>(base, d).
     obind (lv_new L W_image base d) (\<lambda>(img1, d).
     obind (lv_on L img1 [lv_image_set_src Img_ifx_logo, lv_obj_align LV_ALIGN_CENTER 0 (- 10)] d) (\<lambda>d.
     obind (text_label L base LV_ALIGN_BOTTOM_MID (- 20) ''CWY955913 Matter Lock Demo'' d) (\<lambda>d.
     Done (d\<lparr>shown := Some Splash_screen\<rparr>)))))"

section \<open>The button\<close>

text \<open>The result of \<open>start_lock_action\<close> is dropped.\<close>

datatype lv_event_code = LV_EVENT_CLICKED | LV_EVENT_other nat

definition btn_event_cb :: "env \<Rightarrow> lv_event_code \<Rightarrow> bool \<Rightarrow> world \<Rightarrow> world outcome" where
  "btn_event_cb E code locked w =
     (if code = LV_EVENT_CLICKED
      then obind (start_lock_action E (\<not> locked) w) (\<lambda>(result, w). Done w)
      else Done w)"

section \<open>Start-up\<close>

definition DISPLAY_HOR_RES :: nat where "DISPLAY_HOR_RES = 240"
definition DISPLAY_VER_RES :: nat where "DISPLAY_VER_RES = 320"
definition SPI_CLK_DEFAULT_HZ :: nat where "SPI_CLK_DEFAULT_HZ = 24 * 1000 * 1000"
definition DISPLAY_RESET_DELAY_MS :: nat where "DISPLAY_RESET_DELAY_MS = 1000"
definition BACKLIGHT_PWM_DUTY_CYCLE_DEFAULT :: nat where "BACKLIGHT_PWM_DUTY_CYCLE_DEFAULT = 50"
definition BACKLIGHT_PWM_FREQ_HZ :: nat where "BACKLIGHT_PWM_FREQ_HZ = 8 * 1000 * 1000"

text \<open>The two styles of the button; the pressed one filters the colours through \<open>darken\<close>.\<close>

definition darken :: "('c \<Rightarrow> u8 \<Rightarrow> 'c) \<Rightarrow> 'c \<Rightarrow> u8 \<Rightarrow> 'c" where
  "darken lv_color_darken color opa = lv_color_darken color opa"

definition button_style_init :: "('o, 'l) display \<Rightarrow> ('o, 'l) display" where
  "button_style_init d =
     d\<lparr>style_btn := [Style_radius 10, Style_bg_opa 255, Style_bg_color_grey_lightened 3,
         Style_bg_grad_color_grey, Style_bg_grad_dir_ver, Style_border_color Lv_black,
         Style_border_opa 51, Style_border_width 2, Style_text_color Lv_black],
       style_button_pressed := [Style_color_filter_darken, Style_color_filter_opa 51]\<rparr>"

text \<open>A tenth of the panel, in bytes; the product is one of 32-bit unsigned numbers.\<close>

definition draw_buffer_size :: "u32 \<Rightarrow> u32" where
  "draw_buffer_size color_size = of_nat (DISPLAY_HOR_RES * DISPLAY_VER_RES div 10) * color_size"

text \<open>Without the draw buffer nothing more is set up; a touch screen that fails is only logged.\<close>

definition lvgl_init ::
  "('o, 'l) lvgl \<Rightarrow> 'b touch_hal \<Rightarrow> u32 \<Rightarrow> bool \<Rightarrow> ('o, 'l) display \<Rightarrow> 'b touch
    \<Rightarrow> (('o, 'l) display \<times> 'b touch) outcome" where
  "lvgl_init L H color_size buf_ok d t =
     (let d = ui Ui_lv_init d;
          d = ui (Ui_timer_start LVGL_TIMEOUT_MS) (ui Ui_timer_init d);
          d = ui Ui_rotation_270 (ui (Ui_ili9341_create DISPLAY_HOR_RES DISPLAY_VER_RES) d);
          buf_size = draw_buffer_size color_size
      in if \<not> buf_ok then Done (d, t)
         else let d = ui (Ui_set_buffers buf_size) d;
                  (result, t) = lv_port_indev_ft6202_init H t;
                  d = button_style_init d
              in obind (draw_splash_screen L d) (\<lambda>d. Done (d, t)))"

text \<open>
  The task never returns: it is its start and a number of rounds of its loop.
  \<open>lv_timer_handler\<close>, in which LVGL draws, polls the touch screen and calls back, is a
  parameter.
\<close>

definition display_round ::
  "(('o, 'l) display \<times> 'b touch \<Rightarrow> (('o, 'l) display \<times> 'b touch) outcome)
    \<Rightarrow> ('o, 'l) display \<times> 'b touch \<Rightarrow> (('o, 'l) display \<times> 'b touch) outcome" where
  "display_round lv_timer_handler s =
     obind (lv_timer_handler s) (\<lambda>(d, t). Done (ui (Ui_delay_ms 10) (ui Ui_lv_timer_handler d), t))"

fun display_rounds ::
  "(('o, 'l) display \<times> 'b touch \<Rightarrow> (('o, 'l) display \<times> 'b touch) outcome) \<Rightarrow> nat
    \<Rightarrow> ('o, 'l) display \<times> 'b touch \<Rightarrow> (('o, 'l) display \<times> 'b touch) outcome" where
  "display_rounds lv_timer_handler 0 s = Done s"
| "display_rounds lv_timer_handler (Suc n) s =
     obind (display_round lv_timer_handler s) (display_rounds lv_timer_handler n)"

definition display_task ::
  "('o, 'l) lvgl \<Rightarrow> 'b touch_hal \<Rightarrow> (('o, 'l) display \<times> 'b touch \<Rightarrow> (('o, 'l) display \<times> 'b touch) outcome)
    \<Rightarrow> u32 \<Rightarrow> bool \<Rightarrow> nat \<Rightarrow> ('o, 'l) display \<times> 'b touch \<Rightarrow> (('o, 'l) display \<times> 'b touch) outcome" where
  "display_task L H lv_timer_handler color_size buf_ok rounds s =
     (case s of (d, t) \<Rightarrow>
      let d = ui (Ui_gpio_write_reset 1) d;
          d = ui (Ui_delay_ms DISPLAY_RESET_DELAY_MS) d;
          d = ui (Ui_gpio_write_reset 0) d
      in obind (lvgl_init L H color_size buf_ok d t) (\<lambda>s.
         obind (lv_timer_handler s) (\<lambda>(d, t).
         let d = ui (Ui_delay_ms 10) (ui Ui_pwm_start (ui Ui_lv_timer_handler d))
         in display_rounds lv_timer_handler rounds (d, t))))"

record display_answers =
  spi_init_ok :: bool
  spi_frequency_ok :: bool
  display_thread_ok :: bool

text \<open>
  Whether the display task runs. Only the two failures of the SPI end the start-up; those of
  the pins, the touch screen and the thread are logged.
\<close>

definition display_init ::
  "'b touch_hal \<Rightarrow> display_answers \<Rightarrow> ('o, 'l) display \<Rightarrow> 'b touch \<Rightarrow> bool \<times> ('o, 'l) display \<times> 'b touch" where
  "display_init H a d t =
     (let d = ui Ui_spi_init d in
      if \<not> spi_init_ok a then (False, d, t)
      else let d = ui (Ui_spi_set_frequency SPI_CLK_DEFAULT_HZ) d in
      if \<not> spi_frequency_ok a then (False, d, t)
      else let d = ui Ui_gpio_init_reset (ui Ui_gpio_init_dc d);
               d = ui (Ui_pwm_set_duty_cycle BACKLIGHT_PWM_DUTY_CYCLE_DEFAULT BACKLIGHT_PWM_FREQ_HZ)
                     (ui Ui_pwm_init d);
               (result, t) = ft6206_init H t
           in (display_thread_ok a, ui Ui_thread_create d, t))"

section \<open>What the rest of the program shows\<close>

definition show_effect ::
  "('o, 'l) lvgl \<Rightarrow> effect \<Rightarrow> ('o, 'l) display \<Rightarrow> ('o, 'l) display outcome" where
  "show_effect L e d =
     (case e of
        Eff_draw_lock_screen locked \<Rightarrow> draw_lock_screen L locked d
      | Eff_start_lock_screen_animation \<Rightarrow> start_lock_screen_animation L d
      | Eff_display_qrcode code \<Rightarrow> display_qrcode L (Some code) d
      | _ \<Rightarrow> Done d)"

fun show_effects ::
  "('o, 'l) lvgl \<Rightarrow> effect list \<Rightarrow> ('o, 'l) display \<Rightarrow> ('o, 'l) display outcome" where
  "show_effects L [] d = Done d"
| "show_effects L (e # es) d = obind (show_effect L e d) (show_effects L es)"

section \<open>LVGL's object tree\<close>

text \<open>
  The documented behaviour: a new object is a child of its parent, and did not exist before;
  deleting an object without children removes only that object; cleaning one keeps it; the
  setters leave the tree alone; the screen exists throughout.
\<close>

definition lv_tree_ok :: "('o, 'l) lvgl \<Rightarrow> bool" where
  "lv_tree_ok L \<longleftrightarrow>
     (\<forall>l. lv_screen_active L l \<in> lv_live L l
       \<and> (\<forall>x \<in> lv_live L l. \<forall>p. lv_parent L l x = Some p \<longrightarrow> p \<in> lv_live L l))"

definition lv_create_ok :: "('o, 'l) lvgl \<Rightarrow> bool" where
  "lv_create_ok L \<longleftrightarrow>
     (\<forall>k p l obj l'. p \<in> lv_live L l \<longrightarrow> lv_create L k p l = (obj, l') \<longrightarrow>
        obj \<notin> lv_live L l \<and> lv_live L l' = insert obj (lv_live L l)
        \<and> lv_parent L l' = (lv_parent L l)(obj := Some p)
        \<and> lv_screen_active L l' = lv_screen_active L l)"

definition leaf :: "('o, 'l) lvgl \<Rightarrow> 'l \<Rightarrow> 'o \<Rightarrow> bool" where
  "leaf L l obj \<longleftrightarrow> obj \<in> lv_live L l \<and> obj \<noteq> lv_screen_active L l
     \<and> (\<forall>x \<in> lv_live L l. lv_parent L l x \<noteq> Some obj)"

definition lv_delete_ok :: "('o, 'l) lvgl \<Rightarrow> bool" where
  "lv_delete_ok L \<longleftrightarrow>
     (\<forall>obj l. leaf L l obj \<longrightarrow>
        lv_live L (lv_obj_delete L obj l) = lv_live L l - {obj}
        \<and> lv_screen_active L (lv_obj_delete L obj l) = lv_screen_active L l)"

definition lv_clean_ok :: "('o, 'l) lvgl \<Rightarrow> bool" where
  "lv_clean_ok L \<longleftrightarrow>
     (\<forall>obj l. obj \<in> lv_live L l \<longrightarrow> obj \<in> lv_live L (lv_obj_clean L obj l)
        \<and> lv_screen_active L (lv_obj_clean L obj l) = lv_screen_active L l)"

definition lv_do_ok :: "('o, 'l) lvgl \<Rightarrow> bool" where
  "lv_do_ok L \<longleftrightarrow>
     (\<forall>c obj l. lv_live L (lv_do L c obj l) = lv_live L l
        \<and> lv_parent L (lv_do L c obj l) = lv_parent L l
        \<and> lv_screen_active L (lv_do L c obj l) = lv_screen_active L l)"

definition lv_ok :: "('o, 'l) lvgl \<Rightarrow> bool" where
  "lv_ok L \<longleftrightarrow> lv_tree_ok L \<and> lv_create_ok L \<and> lv_delete_ok L \<and> lv_clean_ok L \<and> lv_do_ok L"

lemma lv_screen_live: "lv_ok L \<Longrightarrow> lv_screen_active L l \<in> lv_live L l"
  by (simp add: lv_ok_def lv_tree_ok_def)

lemma lv_parent_live: "lv_ok L \<Longrightarrow> x \<in> lv_live L l \<Longrightarrow> lv_parent L l x = Some p \<Longrightarrow> p \<in> lv_live L l"
  by (simp add: lv_ok_def lv_tree_ok_def)

lemma lv_createD:
  assumes "lv_ok L" and "p \<in> lv_live L l" and "lv_create L k p l = (obj, l')"
  shows "obj \<notin> lv_live L l \<and> lv_live L l' = insert obj (lv_live L l)
    \<and> lv_parent L l' = (lv_parent L l)(obj := Some p) \<and> lv_screen_active L l' = lv_screen_active L l"
proof -
  from assms(1) have "lv_create_ok L" by (simp add: lv_ok_def)
  with assms(2,3) show ?thesis unfolding lv_create_ok_def by blast
qed

lemma lv_deleteD:
  "lv_ok L \<Longrightarrow> leaf L l obj \<Longrightarrow> lv_live L (lv_obj_delete L obj l) = lv_live L l - {obj}"
  by (simp add: lv_ok_def lv_delete_ok_def)

lemma lv_cleanD:
  "lv_ok L \<Longrightarrow> obj \<in> lv_live L l \<Longrightarrow> obj \<in> lv_live L (lv_obj_clean L obj l)"
  by (simp add: lv_ok_def lv_clean_ok_def)

lemma lv_do_fold:
  assumes "lv_ok L"
  shows "lv_live L (fold (\<lambda>c. lv_do L c obj) cs l) = lv_live L l
    \<and> lv_parent L (fold (\<lambda>c. lv_do L c obj) cs l) = lv_parent L l
    \<and> lv_screen_active L (fold (\<lambda>c. lv_do L c obj) cs l) = lv_screen_active L l"
proof -
  from assms have "lv_do_ok L" by (simp add: lv_ok_def)
  then show ?thesis by (induction cs arbitrary: l) (simp_all add: lv_do_ok_def)
qed

section \<open>The invariant\<close>

text \<open>
  The two pointers are null or point to objects that exist; the icon has no children, is
  neither the screen nor the area, and never there without the area.
\<close>

definition display_ok :: "('o, 'l) lvgl \<Rightarrow> ('o, 'l) display \<Rightarrow> bool" where
  "display_ok L d \<longleftrightarrow>
     (\<forall>icon. active_icon d = Some icon \<longrightarrow> leaf L (lv d) icon)
   \<and> (\<forall>area. lock_display_area d = Some area \<longrightarrow>
        area \<in> lv_live L (lv d) \<and> active_icon d \<noteq> Some area)"

text \<open>The objects a step may use: those that exist, but for the icon.\<close>

definition usable :: "('o, 'l) lvgl \<Rightarrow> ('o, 'l) display \<Rightarrow> 'o set" where
  "usable L d = {x \<in> lv_live L (lv d). active_icon d \<noteq> Some x}"

text \<open>A step that is defined, and what then holds.\<close>

definition ends_in :: "'a outcome \<Rightarrow> ('a \<Rightarrow> bool) \<Rightarrow> bool" where
  "ends_in m P \<longleftrightarrow> (\<exists>x. m = Done x \<and> P x)"

lemma ends_in_Done [simp]: "ends_in (Done x) P = P x"
  by (simp add: ends_in_def)

lemma ends_in_obind [intro]: "ends_in m (\<lambda>x. ends_in (f x) P) \<Longrightarrow> ends_in (obind m f) P"
  by (auto simp: ends_in_def)

lemma ends_in_mono: "ends_in m P \<Longrightarrow> (\<And>x. P x \<Longrightarrow> Q x) \<Longrightarrow> ends_in m Q"
  by (auto simp: ends_in_def)

lemma lv_new_ends:
  assumes L: "lv_ok L" and ok: "display_ok L d" and p: "p \<in> usable L d"
    and P: "\<And>obj d'. display_ok L d' \<Longrightarrow> usable L d' = insert obj (usable L d) \<Longrightarrow> obj \<notin> lv_live L (lv d) \<Longrightarrow>
      leaf L (lv d') obj \<Longrightarrow> active_icon d' = active_icon d \<Longrightarrow> lock_display_area d' = lock_display_area d \<Longrightarrow>
      shown d' = shown d \<Longrightarrow> P (obj, d')"
  shows "ends_in (lv_new L k p d) P"
proof -
  obtain obj l where c: "lv_create L k p (lv d) = (obj, l)" by fastforce
  from p have live: "p \<in> lv_live L (lv d)" and noicon: "active_icon d \<noteq> Some p"
    by (simp_all add: usable_def)
  note new = lv_createD [OF L live c]
  have icon: "leaf L l i" if "active_icon d = Some i" for i
    using that ok noicon new by (auto simp: display_ok_def leaf_def)
  have "P (obj, d\<lparr>lv := l\<rparr>)"
  proof (rule P)
    show "display_ok L (d\<lparr>lv := l\<rparr>)" using ok icon new by (simp add: display_ok_def)
    show "usable L (d\<lparr>lv := l\<rparr>) = insert obj (usable L d)"
      using new ok by (auto simp: usable_def display_ok_def leaf_def)
    show "leaf L (lv (d\<lparr>lv := l\<rparr>)) obj"
      using new live lv_screen_live [OF L, of "lv d"] lv_parent_live [OF L, of _ "lv d" obj]
      by (auto simp: leaf_def)
  qed (use new in auto)
  then show ?thesis by (simp add: ends_in_def lv_new_def live c)
qed

lemma lv_on_ends:
  assumes L: "lv_ok L" and ok: "display_ok L d" and o: "obj \<in> lv_live L (lv d)"
    and P: "\<And>d'. display_ok L d' \<Longrightarrow> usable L d' = usable L d \<Longrightarrow> lv_live L (lv d') = lv_live L (lv d) \<Longrightarrow>
      active_icon d' = active_icon d \<Longrightarrow> lock_display_area d' = lock_display_area d \<Longrightarrow>
      shown d' = shown d \<Longrightarrow> P d'"
  shows "ends_in (lv_on L obj cs d) P"
proof -
  note kept = lv_do_fold [OF L, of obj cs "lv d"]
  have "P (d\<lparr>lv := fold (\<lambda>c. lv_do L c obj) cs (lv d)\<rparr>)"
    using ok kept by (intro P) (simp_all add: display_ok_def usable_def leaf_def)
  then show ?thesis by (simp add: ends_in_def lv_on_def o)
qed

lemma drop_active_icon_ends:
  assumes L: "lv_ok L" and ok: "display_ok L d"
    and P: "\<And>d'. display_ok L d' \<Longrightarrow> usable L d' = usable L d \<Longrightarrow> active_icon d' = None \<Longrightarrow>
      lock_display_area d' = lock_display_area d \<Longrightarrow> shown d' = shown d \<Longrightarrow> P d'"
  shows "ends_in (drop_active_icon L d) P"
proof (cases "active_icon d")
  case None
  with ok P [of d] show ?thesis by (simp add: drop_active_icon_def)
next
  case (Some i)
  with ok have leaf: "leaf L (lv d) i" by (simp add: display_ok_def)
  note del = lv_deleteD [OF L leaf]
  have "P (d\<lparr>lv := lv_obj_delete L i (lv d), active_icon := None\<rparr>)"
    using ok Some del by (intro P) (auto simp: display_ok_def usable_def)
  with leaf Some show ?thesis by (simp add: ends_in_def drop_active_icon_def lv_remove_def leaf_def)
qed

lemma usable_live: "x \<in> usable L d \<Longrightarrow> x \<in> lv_live L (lv d)"
  by (simp add: usable_def)

lemma leaf_live: "leaf L l x \<Longrightarrow> x \<in> lv_live L l"
  by (simp add: leaf_def)

lemma display_ok_updates [simp]:
  "display_ok L (d\<lparr>shown := x\<rparr>) = display_ok L d" "usable L (d\<lparr>shown := x\<rparr>) = usable L d"
  "display_ok L (ui c d) = display_ok L d" "display_ok L (button_style_init d) = display_ok L d"
  "usable L (d\<lparr>lock_display_area := y\<rparr>) = usable L d"
  by (simp_all add: display_ok_def usable_def ui_def button_style_init_def)

lemma display_ok_area:
  "display_ok L d \<Longrightarrow> area \<in> usable L d \<Longrightarrow> display_ok L (d\<lparr>lock_display_area := Some area\<rparr>)"
  by (simp add: display_ok_def usable_def)

section \<open>The screens keep the invariant\<close>

lemma clear_screen_ends:
  assumes L: "lv_ok L"
    and P: "\<And>base d'. display_ok L d' \<Longrightarrow> base \<in> usable L d' \<Longrightarrow> active_icon d' = None \<Longrightarrow>
      lock_display_area d' = None \<Longrightarrow> P (base, d')"
  shows "ends_in (clear_screen L bg d) P"
proof -
  let ?scr = "lv_screen_active L (lv d)"
  let ?d = "d\<lparr>lv := lv_obj_clean L ?scr (lv d), active_icon := None, lock_display_area := None, shown := None\<rparr>"
  have ok: "display_ok L ?d" by (simp add: display_ok_def)
  have scr: "?scr \<in> usable L ?d"
    using lv_cleanD [OF L lv_screen_live [OF L], of "lv d"] by (simp add: usable_def)
  show ?thesis
    unfolding clear_screen_def Let_def
    using scr usable_live [OF scr] ok
    by (cases bg) (auto intro!: ends_in_obind lv_new_ends [OF L] lv_on_ends [OF L] P simp: leaf_live)
qed

lemma text_label_ends:
  assumes L: "lv_ok L" and ok: "display_ok L d" and base: "base \<in> usable L d"
    and P: "\<And>d'. display_ok L d' \<Longrightarrow> usable L d \<subseteq> usable L d' \<Longrightarrow> active_icon d' = active_icon d \<Longrightarrow>
      lock_display_area d' = lock_display_area d \<Longrightarrow> P d'"
  shows "ends_in (text_label L base al y txt d) P"
  unfolding text_label_def
  by (rule ends_in_obind, rule lv_new_ends [OF L ok base])
     (auto intro!: lv_on_ends [OF L] P leaf_live)

lemma draw_icon_image_ends:
  assumes L: "lv_ok L" and ok: "display_ok L d" and parent: "parent \<in> usable L d"
    and P: "\<And>d'. display_ok L d' \<Longrightarrow> usable L d \<subseteq> usable L d' \<Longrightarrow> active_icon d' \<noteq> None \<Longrightarrow>
      lock_display_area d' = lock_display_area d \<Longrightarrow> P d'"
  shows "ends_in (draw_icon_image L parent locked d) P"
  unfolding draw_icon_image_def Let_def
proof (rule ends_in_obind, rule drop_active_icon_ends [OF L ok], rule ends_in_obind)
  fix d1
  assume d1: "display_ok L d1" "usable L d1 = usable L d" "active_icon d1 = None"
    "lock_display_area d1 = lock_display_area d"
  show "ends_in (lv_new L W_image parent d1) (\<lambda>x. ends_in (case x of (obj, d) \<Rightarrow>
      lv_on L obj [lv_image_set_src (if locked then Img_lock_icon else Img_unlock_icon),
        lv_obj_align LV_ALIGN_CENTER 0 0] (d\<lparr>active_icon := Some obj\<rparr>)) P)"
  proof (rule lv_new_ends [OF L d1(1)])
    show "parent \<in> usable L d1" using parent d1 by simp
    fix obj d2
    assume d2: "display_ok L d2" "usable L d2 = insert obj (usable L d1)" "obj \<notin> lv_live L (lv d1)"
      "leaf L (lv d2) obj" "active_icon d2 = active_icon d1" "lock_display_area d2 = lock_display_area d1"
    let ?d = "d2\<lparr>active_icon := Some obj\<rparr>"
    have ok2: "display_ok L ?d" using d1 d2 by (auto simp: display_ok_def)
    have "usable L ?d = usable L d"
      using d1 d2 by (auto simp: usable_def)
    with d1 d2 show "ends_in (case (obj, d2) of (obj, d) \<Rightarrow>
      lv_on L obj [lv_image_set_src (if locked then Img_lock_icon else Img_unlock_icon),
        lv_obj_align LV_ALIGN_CENTER 0 0] (d\<lparr>active_icon := Some obj\<rparr>)) P"
      by (auto intro!: lv_on_ends [OF L ok2] P simp: leaf_live)
  qed
qed

lemma draw_lock_screen_ends:
  assumes L: "lv_ok L"
    and P: "\<And>d'. display_ok L d' \<Longrightarrow> shown d' = Some (Lock_screen locked) \<Longrightarrow> active_icon d' \<noteq> None \<Longrightarrow>
      lock_display_area d' \<noteq> None \<Longrightarrow> P d'"
  shows "ends_in (draw_lock_screen L locked d) P"
  unfolding draw_lock_screen_def Let_def
  by (auto intro!: ends_in_obind clear_screen_ends [OF L] text_label_ends [OF L] lv_new_ends [OF L]
      lv_on_ends [OF L] draw_icon_image_ends [OF L] display_ok_area P simp: leaf_live subset_iff
      split del: if_split)

lemma start_lock_screen_animation_ends:
  assumes L: "lv_ok L" and ok: "display_ok L d"
    and P: "\<And>d'. display_ok L d' \<Longrightarrow> lock_display_area d' = lock_display_area d \<Longrightarrow>
      shown d' = shown d \<Longrightarrow> P d'"
  shows "ends_in (start_lock_screen_animation L d) P"
proof (cases "lock_display_area d")
  case None
  with ok P [of d] show ?thesis by (simp add: start_lock_screen_animation_def)
next
  case (Some area)
  with ok have "area \<in> usable L d" by (simp add: display_ok_def usable_def)
  with Some show ?thesis
    unfolding start_lock_screen_animation_def
    by (auto intro!: ends_in_obind drop_active_icon_ends [OF L ok] lv_new_ends [OF L] lv_on_ends [OF L] P
        simp: leaf_live)
qed

lemma draw_qrcode_screen_ends:
  assumes L: "lv_ok L"
    and P: "\<And>d'. display_ok L d' \<Longrightarrow> shown d' = Some (Qrcode_screen code) \<Longrightarrow>
      lock_display_area d' = None \<Longrightarrow> P d'"
  shows "ends_in (draw_qrcode_screen L code d) P"
  unfolding draw_qrcode_screen_def
  by (auto intro!: ends_in_obind clear_screen_ends [OF L] text_label_ends [OF L] lv_new_ends [OF L]
      lv_on_ends [OF L] P simp: leaf_live dest: subsetD)

lemma draw_splash_screen_ends:
  assumes L: "lv_ok L"
    and P: "\<And>d'. display_ok L d' \<Longrightarrow> shown d' = Some Splash_screen \<Longrightarrow> lock_display_area d' = None \<Longrightarrow> P d'"
  shows "ends_in (draw_splash_screen L d) P"
  unfolding draw_splash_screen_def
  by (auto intro!: ends_in_obind clear_screen_ends [OF L] text_label_ends [OF L] lv_new_ends [OF L]
      lv_on_ends [OF L] P simp: leaf_live dest: subsetD)

lemma display_ok_static: "display_ok L (display_static l)"
  by (simp add: display_ok_def display_static_def)

text \<open>The start-up of LVGL, and the task as long as LVGL's own handler keeps the pointers.\<close>

lemma lvgl_init_ends:
  assumes L: "lv_ok L" and ok: "display_ok L d"
  shows "ends_in (lvgl_init L H cs buf_ok d t) (\<lambda>s. display_ok L (fst s)
    \<and> (buf_ok \<longrightarrow> shown (fst s) = Some Splash_screen))"
  unfolding lvgl_init_def Let_def
  by (auto simp: ok split: prod.split intro!: ends_in_obind draw_splash_screen_ends [OF L])

lemma display_rounds_ends:
  assumes handler: "\<And>s. display_ok L (fst s) \<Longrightarrow> ends_in (handler s) (\<lambda>s. display_ok L (fst s))"
  shows "display_ok L (fst s) \<Longrightarrow> ends_in (display_rounds handler n s) (\<lambda>s. display_ok L (fst s))"
proof (induction n arbitrary: s)
  case 0
  then show ?case by simp
next
  case (Suc n)
  then show ?case
    by (auto simp: display_round_def intro!: ends_in_obind ends_in_mono [OF handler])
qed

lemma display_task_ends:
  assumes L: "lv_ok L" and ok: "display_ok L (fst s)"
    and handler: "\<And>s. display_ok L (fst s) \<Longrightarrow> ends_in (handler s) (\<lambda>s. display_ok L (fst s))"
  shows "ends_in (display_task L H handler cs buf_ok n s) (\<lambda>s. display_ok L (fst s))"
proof (cases s)
  case (Pair d t)
  with ok show ?thesis
    unfolding display_task_def Let_def
    by (auto intro!: ends_in_obind ends_in_mono [OF lvgl_init_ends [OF L]] ends_in_mono [OF handler]
        display_rounds_ends [OF handler])
qed

text \<open>The screen a list of effects leaves: the last one drawn.\<close>

fun screen_after :: "screen option \<Rightarrow> effect list \<Rightarrow> screen option" where
  "screen_after sc [] = sc"
| "screen_after sc (Eff_draw_lock_screen locked # es) = screen_after (Some (Lock_screen locked)) es"
| "screen_after sc (Eff_display_qrcode code # es) = screen_after (Some (Qrcode_screen code)) es"
| "screen_after sc (e # es) = screen_after sc es"

lemma show_effect_ends:
  assumes L: "lv_ok L" and ok: "display_ok L d"
  shows "ends_in (show_effect L e d) (\<lambda>d'. display_ok L d'
    \<and> screen_after (shown d') es = screen_after (shown d) (e # es))"
  using ok
  by (cases e) (auto simp: show_effect_def display_qrcode_def intro!: draw_lock_screen_ends [OF L]
      start_lock_screen_animation_ends [OF L] draw_qrcode_screen_ends [OF L])

lemma show_effects_ends:
  "lv_ok L \<Longrightarrow> display_ok L d \<Longrightarrow>
    ends_in (show_effects L es d) (\<lambda>d'. display_ok L d' \<and> shown d' = screen_after (shown d) es)"
proof (induction es arbitrary: d)
  case Nil
  then show ?case by simp
next
  case (Cons e es)
  show ?case
    unfolding show_effects.simps
  proof (rule ends_in_obind, rule ends_in_mono [OF show_effect_ends [where es = es]])
    fix d'
    assume "display_ok L d' \<and> screen_after (shown d') es = screen_after (shown d) (e # es)"
    with Cons.IH [of d'] Cons.prems(1)
    show "ends_in (show_effects L es d') (\<lambda>d'. display_ok L d' \<and> shown d' = screen_after (shown d) (e # es))"
      by simp
  qed (use Cons.prems in simp_all)
qed

end
