(* ===== verification/ObjectTree.thy ===== *)
theory ObjectTree
  imports Display
begin

text \<open>
  An object tree that has the laws the display relies on: a concrete LVGL for the witnesses,
  without any drawing.
\<close>

section \<open>A concrete LVGL\<close>

text \<open>
  The tree as the list of its objects in the order of creation, and their parents; object 0
  is the screen. Deleting takes the object and what was created below it.
\<close>

type_synonym demo_tree = "nat list \<times> (nat \<Rightarrow> nat)"

definition demo_live :: "demo_tree \<Rightarrow> nat set" where
  "demo_live t = insert 0 (set (fst t))"

definition demo_fresh :: "demo_tree \<Rightarrow> nat" where
  "demo_fresh t = Suc (foldr (\<lambda>x m. max m (max x (snd t x))) (fst t) 0)"

fun below :: "(nat \<Rightarrow> nat) \<Rightarrow> nat set \<Rightarrow> nat list \<Rightarrow> nat set" where
  "below par S [] = S"
| "below par S (x # xs) = below par (if par x \<in> S then insert x S else S) xs"

definition demo_lvgl :: "(nat, demo_tree) lvgl" where
  "demo_lvgl = \<lparr>lv_screen_active = (\<lambda>t. 0),
     lv_create = (\<lambda>k p t. (demo_fresh t, (fst t @ [demo_fresh t], (snd t)(demo_fresh t := p)))),
     lv_obj_delete = (\<lambda>obj t. (filter (\<lambda>x. x \<notin> below (snd t) {obj} (fst t)) (fst t), snd t)),
     lv_obj_clean = (\<lambda>obj t. (filter (\<lambda>x. x = obj \<or> x \<notin> below (snd t) {obj} (fst t)) (fst t), snd t)),
     lv_do = (\<lambda>c obj t. t),
     lv_live = demo_live,
     lv_parent = (\<lambda>t x. if x \<in> set (fst t) \<and> snd t x \<in> demo_live t then Some (snd t x) else None)\<rparr>"

lemma foldr_max_bound:
  "x \<in> set xs \<Longrightarrow> max x (f x) \<le> foldr (\<lambda>x m. max m (max x (f x))) xs (0 :: nat)"
  by (induction xs) auto

lemma demo_fresh_new:
  assumes "x \<in> set (fst t)"
  shows "x < demo_fresh t" and "snd t x < demo_fresh t"
  using foldr_max_bound [OF assms, of "snd t"] by (simp_all add: demo_fresh_def)

lemma demo_fresh_pos: "0 < demo_fresh t"
  by (simp add: demo_fresh_def)

lemma below_leaf: "\<forall>x \<in> set xs. par x \<notin> S \<Longrightarrow> below par S xs = S"
  by (induction xs) auto

lemma demo_lvgl_ok: "lv_ok demo_lvgl"
  unfolding lv_ok_def
proof (intro conjI)
  show "lv_tree_ok demo_lvgl"
    by (auto simp: lv_tree_ok_def demo_lvgl_def demo_live_def)
  show "lv_create_ok demo_lvgl"
    unfolding lv_create_ok_def
  proof (intro allI impI)
    fix k p t obj t'
    assume p: "p \<in> lv_live demo_lvgl t" and c: "lv_create demo_lvgl k p t = (obj, t')"
    from c have obj: "obj = demo_fresh t" and t': "t' = (fst t @ [obj], (snd t)(obj := p))"
      by (auto simp: demo_lvgl_def)
    from p have p: "p \<in> demo_live t" by (simp add: demo_lvgl_def)
    have new: "obj \<notin> demo_live t"
      using demo_fresh_new(1) [of obj t] demo_fresh_pos [of t] by (auto simp: demo_live_def obj)
    have live: "demo_live t' = insert obj (demo_live t)"
      by (auto simp: demo_live_def t')
    have par: "snd t x \<noteq> obj" if "x \<in> set (fst t)" for x
      using demo_fresh_new(2) [OF that] obj by simp
    have "lv_parent demo_lvgl t' x = ((lv_parent demo_lvgl t)(obj := Some p)) x" for x
    proof (cases "x = obj")
      case True
      then show ?thesis using p by (auto simp: demo_lvgl_def t' demo_live_def)
    next
      case False
      then show ?thesis using par [of x] live by (auto simp: demo_lvgl_def t' demo_live_def)
    qed
    then show "obj \<notin> lv_live demo_lvgl t \<and> lv_live demo_lvgl t' = insert obj (lv_live demo_lvgl t)
        \<and> lv_parent demo_lvgl t' = (lv_parent demo_lvgl t)(obj := Some p)
        \<and> lv_screen_active demo_lvgl t' = lv_screen_active demo_lvgl t"
      using new live by (auto simp: demo_lvgl_def)
  qed
  show "lv_delete_ok demo_lvgl"
    unfolding lv_delete_ok_def
  proof (intro allI impI)
    fix obj t
    assume leaf: "leaf demo_lvgl t obj"
    have child: "snd t x \<noteq> obj" if "x \<in> set (fst t)" for x
    proof
      assume "snd t x = obj"
      with leaf that have "x \<in> demo_live t" and "lv_parent demo_lvgl t x = Some obj"
        by (auto simp: leaf_def demo_lvgl_def demo_live_def)
      with leaf show False by (auto simp: leaf_def demo_lvgl_def)
    qed
    then have "\<forall>x \<in> set (fst t). snd t x \<notin> {obj}" by simp
    from below_leaf [OF this] leaf
    show "lv_live demo_lvgl (lv_obj_delete demo_lvgl obj t) = lv_live demo_lvgl t - {obj}
        \<and> lv_screen_active demo_lvgl (lv_obj_delete demo_lvgl obj t) = lv_screen_active demo_lvgl t"
      by (auto simp: leaf_def demo_lvgl_def demo_live_def)
  qed
  show "lv_clean_ok demo_lvgl"
    by (auto simp: lv_clean_ok_def demo_lvgl_def demo_live_def)
  show "lv_do_ok demo_lvgl"
    by (simp add: lv_do_ok_def demo_lvgl_def)
qed

end
