(* ===== verification/ScreenButton.thy ===== *)
theory ScreenButton
  imports ObjectTree Witness
begin

text \<open>
  The display, the lock manager and the application task together: a click on the lock
  screen's button, the movement it starts, and the screens the display draws meanwhile.
\<close>

definition screen_agrees :: "bool \<Rightarrow> State_t \<Rightarrow> bool" where
  "screen_agrees locked st \<longleftrightarrow>
     st = (if locked then kState_LockCompleted else kState_UnlockCompleted)"

lemma click_starts:
  assumes E: "timer_ok E" and UI: "ENABLE_UI E" and cb: "mActionInitiated_CB w = Some CB_AppTask_ActionInitiated"
    and agree: "screen_agrees locked (mState w)" and click: "btn_event_cb E LV_EVENT_CLICKED locked w = Done w1"
  shows "mState w1 = phase_next (mState w) \<and> sLockTimer w1 = Some ACTUATOR_MOVEMENT_PERIOS_MS
    \<and> effects w1 = effects w @ [Eff_start_lock_screen_animation] \<and> sAppEventQueue w1 = sAppEventQueue w
    \<and> mSyncClusterToButtonAction w1"
proof -
  let ?a = "if \<not> locked then LOCK_ACTION else UNLOCK_ACTION"
  have st: "startable (mState w) ?a" using agree by (auto simp: screen_agrees_def startable_def)
  from click obtain r where "InitiateAction E kEventType_Button ?a w = Done (r, w1)"
    by (auto simp: btn_event_cb_def start_lock_action_def obind_Done_iff Let_def split: if_splits prod.splits)
  from InitiateAction_started [OF E st this] cb UI show ?thesis
    by (simp add: ActionInitiated_def Let_def emit_def)
qed

lemma click_ignored:
  assumes agree: "\<not> screen_agrees locked (mState w)"
  shows "btn_event_cb E LV_EVENT_CLICKED locked w = Done w"
proof -
  have "\<not> startable (mState w) (if \<not> locked then LOCK_ACTION else UNLOCK_ACTION)"
    using agree by (auto simp: screen_agrees_def startable_def split: if_splits)
  then show ?thesis
    by (simp add: btn_event_cb_def start_lock_action_def InitiateAction_rejected)
qed

text \<open>A click is the step the transition system has for the touch screen.\<close>

lemma click_goes:
  assumes "ENABLE_UI E" and "btn_event_cb E LV_EVENT_CLICKED locked w = Done w1"
  shows "goes E w (A_touch (\<not> locked)) w1"
proof -
  have "obind (start_lock_action E (\<not> locked) w) (\<lambda>(rc, w). Done w) = Done w1"
    using assms(2) by (simp add: btn_event_cb_def)
  with step.touch [OF assms(1), of w "\<not> locked"] show ?thesis by (simp add: goes_def)
qed

section \<open>An environment with the display\<close>

definition ui_env :: env where
  "ui_env = flash_env\<lparr>ENABLE_UI := True\<rparr>"

lemma ui_env_platform: "platform_ok ui_env"
  using flash_env_platform
  by (simp add: ui_env_def platform_ok_def timer_ok_def queue_ok_def db_env_ok_def copy_string_ok_def
      flash_ok_def user_rep_ok_def credential_rep_ok_def schedule_reps_ok_def)

lemma ui_env_simps [simp]:
  "ENABLE_UI ui_env" "rtos_timer_init ui_env tn" "rtos_timer_start ui_env ms t = Some (Some ms)"
  "rtos_timer_is_running ui_env t = (t \<noteq> None)"
  by (simp_all add: ui_env_def)

definition ui_world :: world where
  "ui_world = (case lockMgr_Init ui_env demo_boot (static_world ui_env Map.empty) of
     Done w \<Rightarrow> w | _ \<Rightarrow> static_world ui_env Map.empty)"

lemma ui_world: "lockMgr_Init ui_env demo_boot (static_world ui_env Map.empty) = Done ui_world"
  using boot_returns [of ui_env "static_world ui_env Map.empty"] by (auto simp: ui_world_def)

lemma ui_world_reach: "reach (sys_init ui_env) (sys_step ui_env) ui_world"
  using ui_world ui_env_platform by (auto intro!: reach_init simp: sys_init_def booted_def)

lemma ui_world_fields:
  "mState ui_world = kState_LockCompleted" "sLockTimer ui_world = None" "sAppEventQueue ui_world = []"
  by (rule lockMgr_Init_Done [OF ui_world]; simp add: static_world_def demo_boot_def kButtonCount_def)+

lemma ui_click: "\<exists>w. btn_event_cb ui_env LV_EVENT_CLICKED True ui_world = Done w"
  by (simp add: btn_event_cb_def start_lock_action_def InitiateAction_def LockManager_StartTimer_def
      LockManager_CancelTimer_def ui_world_fields Let_def)

end
