(* ===== verification/PeripheralClaims.thy ===== *)
theory PeripheralClaims
  imports PowerOn ScreenButton
begin

text \<open>
  The properties of the touch screen, the display, and of what runs before the application
  task.
\<close>

section \<open>The touch screen\<close>

text \<open>
  C29: what LVGL hears of touches. After any interrupts and polls, the next poll reports a
  press exactly when the number of interrupts since the last poll is not a multiple of
  $2^{32}$ (the counter has 32 bits). The point pressed is the controller's, mirrored in
  both directions: within the 240 by 320 panel it is the opposite pixel; a raw coordinate
  behind the panel's edge wraps around and is reported far outside. When the transfer fails
  the press is reported at the corner, since the result of the read is not looked at.
\<close>

theorem touch_reports:
  assumes s: "s = touch_run H es (touch_static b)"
    and sent: "i2c_master_write H FT6206_I2C_ADDRESS [FT6206_REG_P1_XH] (bus s) = (RSLT_SUCCESS H, b')"
    and got: "i2c_master_read H FT6206_I2C_ADDRESS 4 b' = (result, [xh, xl, yh, yl], b'')"
    and d: "d = fst (touchpad_read H s)"
  shows "if 2 ^ 32 dvd irqs_pending 0 es then indev_state d = LV_INDEV_STATE_RELEASED
    else indev_state d = LV_INDEV_STATE_PRESSED
      \<and> (if result = RSLT_SUCCESS H
         then unat (point_x d) = mirrored 240 (raw_coordinate xh xl)
           \<and> unat (point_y d) = mirrored 320 (raw_coordinate yh yl)
           \<and> (unat (point_x d) < 240 \<longleftrightarrow> (unat xh mod 16) * 256 + unat xl < 240)
           \<and> (unat (point_y d) < 320 \<longleftrightarrow> (unat yh mod 16) * 256 + unat yl < 320)
         else point_x d = 0 \<and> point_y d = 0)"
proof (cases "2 ^ 32 dvd irqs_pending 0 es")
  case True
  then have "indev_state d \<noteq> LV_INDEV_STATE_PRESSED"
    unfolding d touchpad_read_state s touch_static_count by (simp add: of_nat_u32_zero_iff)
  with True show ?thesis by (cases "indev_state d") simp_all
next
  case False
  then have pressed: "touch_count s \<noteq> 0"
    unfolding s touch_static_count by (simp add: of_nat_u32_zero_iff)
  then have state: "indev_state d = LV_INDEV_STATE_PRESSED"
    unfolding d touchpad_read_state .
  have wide: "unat (ucast w :: i32) = unat w" for w :: u16
    using unsigned_less [of w, where ?'a = nat] by (simp add: unsigned_ucast_eq take_bit_nat_eq_self)
  show ?thesis
  proof (cases "result = RSLT_SUCCESS H")
    case ok: True
    have "point_x d = ucast (X_RESOLUTION - raw_coordinate xh xl - 1)"
      and "point_y d = ucast (Y_RESOLUTION - raw_coordinate yh yl - 1)"
      using touchpad_read_pressed [OF pressed, of H] sent got ok
      by (simp_all add: d ft6206_read_xy_def Let_def)
    then have "unat (point_x d) = mirrored 240 (raw_coordinate xh xl)"
      and "unat (point_y d) = mirrored 320 (raw_coordinate yh yl)"
      using unat_mirror [of X_RESOLUTION "raw_coordinate xh xl"]
        unat_mirror [of Y_RESOLUTION "raw_coordinate yh yl"] raw_coordinate_bound
      by (simp_all add: wide X_RESOLUTION_def Y_RESOLUTION_def)
    with False state ok show ?thesis
      using mirrored_in_panel [OF raw_coordinate_bound, of 240 xh xl]
        mirrored_in_panel [OF raw_coordinate_bound, of 320 yh yl]
      by (simp add: raw_coordinate_value)
  next
    case failed: False
    then have "point_x d = 0 \<and> point_y d = 0"
      using touchpad_read_pressed [OF pressed, of H] sent got
      by (simp add: d ft6206_read_xy_def Let_def)
    with False state failed show ?thesis by simp
  qed
qed

definition demo_hal :: "unit touch_hal" where
  "demo_hal = \<lparr>RSLT_SUCCESS = 0, i2c_init = (\<lambda>b. (0, b)), i2c_configure = (\<lambda>f b. (0, b)),
     touch_gpio_init = (\<lambda>b. (0, b)), gpio_register_callback = (\<lambda>b. b), gpio_enable_event = (\<lambda>b. b),
     i2c_master_write = (\<lambda>a bs b. (0, b)),
     i2c_master_read = (\<lambda>a n b. (0, take n [0x80, 0x14, 0x01, 0x00], b))\<rparr>"

theorem touch_reports_witness:
  "unat (point_x (fst (touchpad_read demo_hal (touch_run demo_hal [Touch_irq] (touch_static ()))))) = 219"
proof -
  have "unat (raw_coordinate 0x80 0x14) = 20"
    by (simp add: raw_coordinate_value)
  then show ?thesis
    using touch_reports [where H = demo_hal and es = "[Touch_irq]" and b = "()" and b' = "()"
        and b'' = "()" and result = 0 and xh = "0x80" and xl = "0x14" and yh = "0x01" and yl = "0x00",
        OF refl _ _ refl]
    by (simp add: demo_hal_def mirrored_def)
qed

section \<open>Before the application task\<close>

text \<open>
  C32: power-on. \<open>main_task\<close>, the initialisation of the application task and what it schedules
  take their steps in order, and the first that fails halts the program with its error.
  Otherwise all the calls have been made, once and in order, and the rest is the initialisation
  of the lock: with an empty store the program that comes out is, up to the log of those calls,
  one its transition system starts from, so everything shown of the reachable states holds from
  there.
\<close>

theorem power_on_boots:
  assumes E: "platform_ok E"
  shows "power_on E b a uninit (static_world E f) =
      (case start_failure b a uninit of
         Some e \<Rightarrow> Halted e
       | None \<Rightarrow> map_done (logged (map Eff_call (start_calls b))) (lockMgr_Init E b (static_world E f)))
    \<and> (power_on E b a uninit (static_world E Map.empty) = Done w \<longrightarrow>
        (\<exists>w0. sys_init E w0 \<and> w = logged (map Eff_call (start_calls b)) w0) \<and> sys_inv E w)"
proof -
  have "(\<exists>w0. sys_init E w0 \<and> w = logged (map Eff_call (start_calls b)) w0) \<and> sys_inv E w"
    if run: "power_on E b a uninit (static_world E Map.empty) = Done w"
  proof -
    from run obtain w0 where w0: "lockMgr_Init E b (static_world E Map.empty) = Done w0"
      "w = logged (map Eff_call (start_calls b)) w0"
      by (auto simp: power_on_static map_done_def obind_Done_iff split: option.split_asm)
    then have "sys_init E w0" using E by (auto simp: sys_init_def booted_def)
    with w0(2) sys.init_inv [of E w0] show ?thesis by (auto simp: sys_inv_logged)
  qed
  then show ?thesis by (simp add: power_on_static)
qed

definition demo_answers :: stack_answers where
  "demo_answers = \<lparr>KeyValueStore_Init = None, InitChipStack = None, SetBLEDeviceName = None,
     StartEventLoopTask = None, app_queue_ok = True, app_thread_ok = True\<rparr>"

theorem power_on_boots_witness:
  "power_on flash_env demo_boot demo_answers 14 (static_world flash_env Map.empty)
      = Done (logged (map Eff_call (start_calls demo_boot)) world0)
    \<and> sys_inv flash_env (logged (map Eff_call (start_calls demo_boot)) world0)"
proof -
  have ok: "start_failure demo_boot demo_answers 14 = None"
    by (simp add: start_failure_def demo_answers_def demo_boot_def)
  note boots = power_on_boots [OF flash_env_platform, where b = demo_boot and a = demo_answers and uninit = 14
      and f = Map.empty]
  have "power_on flash_env demo_boot demo_answers 14 (static_world flash_env Map.empty)
      = Done (logged (map Eff_call (start_calls demo_boot)) world0)"
    using boots [THEN conjunct1] by (simp add: ok world0)
  with boots show ?thesis by blast
qed

text \<open>
  C33: no memory is lost. \<open>main\<close> returns whatever fails, provided a thread can only be created
  with a control block and a stack. When the thread cannot be created both are freed and the
  heap is as before; otherwise the exit of the thread frees both, and then the heap is as
  before. No block is ever freed twice.
\<close>

theorem thread_memory_freed:
  assumes heap: "heap_ok h"
    and create: "tx_thread_create_ok a \<longrightarrow> thread_alloc_ok a \<and> stack_alloc_ok a"
  shows "\<exists>h'. main E a h = Done h'
    \<and> (\<not> tx_thread_create_ok a \<longrightarrow> heap_live h' = heap_live h)
    \<and> (tx_thread_create_ok a \<longrightarrow>
        (\<exists>t k h''. heap_live h' = insert t (insert k (heap_live h)) \<and> t \<noteq> k \<and> t \<notin> heap_live h \<and> k \<notin> heap_live h
          \<and> thread_exits t h' = Done h'' \<and> heap_live h'' = heap_live h))"
proof -
  let ?p = "main_prefix E a h"
  have ok: "heap_ok ?p" and fresh: "next_block h \<notin> heap_live h" "Suc (next_block h) \<notin> heap_live h"
    using heap by (auto simp: heap_ok_def)
  show ?thesis
  proof (cases "tx_thread_create_ok a")
    case False
    with main_thread_failed [OF ok False] show ?thesis by (auto simp: main_split)
  next
    case True
    with create obtain h' where h': "main_thread a ?p = Done h'"
      "heap_live h' = insert (Suc (next_block h)) (insert (next_block h) (heap_live h))"
      "next_block h \<in> exit_notify h'" "control_block h' (next_block h) = Some (Some (Suc (next_block h)))"
      using main_thread_created [of a ?p] by auto
    from thread_exits_frees [OF h'(3,4)] h'(2) fresh obtain h'' where
      "thread_exits (next_block h) h' = Done h''" "heap_live h'' = heap_live h"
      by auto
    with True h' fresh show ?thesis
      by (intro exI [of _ h'] conjI impI exI [of _ "next_block h"] exI [of _ "Suc (next_block h)"] exI [of _ h''])
         (auto simp: main_split)
  qed
qed

definition demo_host :: host where
  "demo_host = \<lparr>calls = [], heap_live = {}, next_block = 1, control_block = Map.empty, exit_notify = {}\<rparr>"

definition demo_main :: main_answers where
  "demo_main = \<lparr>wdt_timer_init_ok = True, wdt_timer_start_ok = True, thread_alloc_ok = True,
     stack_alloc_ok = True, tx_thread_create_ok = True\<rparr>"

theorem thread_memory_freed_witness:
  "\<exists>h' t h''. main flash_env demo_main demo_host = Done h' \<and> thread_exits t h' = Done h'' \<and> heap_live h'' = {}"
  using thread_memory_freed [of demo_host demo_main flash_env]
  by (auto simp: demo_host_def demo_main_def heap_ok_def)

text \<open>
  C34: the watchdog. From the time \<open>main\<close> has configured it, the device is never reset when
  the periodic timer was created and started, however long it runs: every expiry of the timer
  comes before the watchdog's five seconds are over. When the timer could not be created or
  started, the program still goes on, and the device is reset at five seconds, not before. The
  RTOS's timer (\<open>expiry\<close>, late by less than a second) and the hardware's reset
  (\<open>reset_by\<close>, when a configuration has run out) are arguments; of the calls of \<open>main\<close>
  only a delay takes time.
\<close>

theorem watchdog_outcome:
  assumes "main E a h = Done h'" and "calls h = []"
    and "periodic_ok j expiry" and "j < 1000" and "watchdog_ok reset_by"
  shows "reset_by (watchdog_configs a expiry h') t
    \<longleftrightarrow> \<not> (wdt_timer_init_ok a \<and> wdt_timer_start_ok a) \<and> 5000 \<le> t"
  using main_watchdog [OF assms(1,2), of expiry] periodic_feeds [OF assms(3), of 4000 5 t] assms(4,5)
    single_runs_out [of 5 t]
  by (simp add: watchdog_ok_def)

theorem watchdog_outcome_witness:
  "\<exists>h'. main flash_env demo_main demo_host = Done h'
    \<and> \<not> ran_out (watchdog_configs demo_main (\<lambda>p k. (k + 1) * p) h') 100000"
proof -
  have "tx_thread_create_ok demo_main" "thread_alloc_ok demo_main" "stack_alloc_ok demo_main"
    by (simp_all add: demo_main_def)
  then obtain h' where "main_thread demo_main (main_prefix flash_env demo_main demo_host) = Done h'"
    by (rule main_thread_created)
  then have h': "main flash_env demo_main demo_host = Done h'" by (simp add: main_split)
  have "periodic_ok 0 (\<lambda>p k. (k + 1) * p)" "watchdog_ok ran_out"
    by (simp_all add: periodic_ok_def watchdog_ok_def)
  from watchdog_outcome [OF h' _ this(1) _ this(2), of 100000] h' show ?thesis
    by (auto simp: demo_main_def demo_host_def)
qed

section \<open>The display\<close>

text \<open>
  C26: the display never uses an object of LVGL that is gone, and never keeps a pointer to one.
  Once LVGL's tree exists, every sequence of the screens, animations and QR codes that the
  program asks for is drawn to its end, and what is shown afterwards is the screen asked for
  last (an animation changes no screen). The display task gets through its start-up, with the
  splash screen shown, and any number of rounds, as long as LVGL's own handler keeps the two
  pointers.
\<close>

theorem display_never_dangles:
  assumes L: "lv_ok L" and ok: "display_ok L d"
    and handler: "\<And>s. display_ok L (fst s) \<Longrightarrow> ends_in (handler s) (\<lambda>s. display_ok L (fst s))"
  shows "(\<exists>d'. show_effects L es d = Done d' \<and> display_ok L d' \<and> shown d' = screen_after (shown d) es)
    \<and> (\<exists>d' t'. lvgl_init L H color_size buf_ok d t = Done (d', t') \<and> display_ok L d'
      \<and> (buf_ok \<longrightarrow> shown d' = Some Splash_screen))
    \<and> (\<exists>d' t'. display_task L H handler color_size buf_ok n (d, t) = Done (d', t') \<and> display_ok L d')"
  using show_effects_ends [OF L ok, of es]
    lvgl_init_ends [where H = H and cs = color_size and buf_ok = buf_ok and t = t, OF L ok]
    display_task_ends [where s = "(d, t)" and H = H and cs = color_size and buf_ok = buf_ok and n = n,
      OF L _ handler] ok
  by (auto simp: ends_in_def)

theorem display_never_dangles_witness:
  "\<exists>d'. show_effects demo_lvgl
      [Eff_draw_lock_screen True, Eff_start_lock_screen_animation, Eff_draw_lock_screen False]
      (display_static ([], \<lambda>x. 0)) = Done d' \<and> shown d' = Some (Lock_screen False)"
  using display_never_dangles [where handler = Done and d = "display_static ([], \<lambda>x. 0)"
      and es = "[Eff_draw_lock_screen True, Eff_start_lock_screen_animation, Eff_draw_lock_screen False]",
      OF demo_lvgl_ok display_ok_static, THEN conjunct1]
  by auto

text \<open>
  C8: a click on the lock screen's button. When the screen agrees with the lock, the click starts
  the movement to the other end: the actuator's timer is armed and the animation drawn; with
  the queue empty the expiry of the timer and one round of the application task follow, after
  which the lock is at the other end and the screen drawn is that of the other end, so that
  it agrees again. On a screen that does not agree, in particular during a movement, a click
  changes nothing.
\<close>

theorem screen_button_moves_bolt:
  assumes reach: "reach (sys_init E) (sys_step E) w" and E: "platform_ok E" and UI: "ENABLE_UI E"
    and click: "btn_event_cb E LV_EVENT_CLICKED locked w = Done w1" and empty: "sAppEventQueue w = []"
    and L: "lv_ok L" and d: "display_ok L d" and shown: "shown d = Some (Lock_screen locked)"
  shows "if screen_agrees locked (mState w)
    then sLockTimer w1 = Some ACTUATOR_MOVEMENT_PERIOS_MS
      \<and> (\<exists>w2 d2. run (sys_step E) w [A_touch (\<not> locked), A_lock_timer, A_dispatch None] w2
          \<and> show_effects L (drop (length (effects w)) (effects w2)) d = Done d2
          \<and> shown d2 = Some (Lock_screen (\<not> locked)) \<and> screen_agrees (\<not> locked) (mState w2))
    else w1 = w"
proof (cases "screen_agrees locked (mState w)")
  case False
  with click_ignored [OF False, of E] click show ?thesis by simp
next
  case True
  have inv: "ctl_inv E w" and E': "timer_ok E" "queue_ok E"
    using sys.reach_inv [OF reach] E by (simp_all add: sys_inv_def platform_ok_def)
  then have cb: "mActionInitiated_CB w = Some CB_AppTask_ActionInitiated"
    by (simp add: ctl_inv_def wiring_inv_def)
  note started = click_starts [OF E'(1) UI cb True click]
  have first: "goes E w (A_touch (\<not> locked)) w1"
    by (rule click_goes [OF UI click])
  have "run (sys_step E) w [A_touch (\<not> locked)] w1"
    by (rule goes_run [OF E run_cons [where step = "goes E", OF first run_nil]])
  from sys.run_inv [OF this sys.reach_inv [OF reach]] have "ctl_inv E w1" by (simp add: sys_inv_def)
  from movement_completes [OF E'(2) this, of ACTUATOR_MOVEMENT_PERIOS_MS None] started empty UI
  obtain w2 where w2: "run (goes E) w1 [A_lock_timer, A_dispatch None] w2" "mState w2 = phase_next (mState w1)"
    "effects w2 = effects w1 @ [Eff_draw_lock_screen (mState w1 = kState_LockInitiated)]"
    by auto
  have "drop (length (effects w)) (effects w2)
      = [Eff_start_lock_screen_animation, Eff_draw_lock_screen (\<not> locked)]"
    using started w2 True by (auto simp: screen_agrees_def)
  with show_effects_ends [OF L d, of "drop (length (effects w)) (effects w2)"] obtain d2 where
    "show_effects L (drop (length (effects w)) (effects w2)) d = Done d2"
    "shown d2 = Some (Lock_screen (\<not> locked))"
    by (auto simp: ends_in_def)
  moreover have "screen_agrees (\<not> locked) (mState w2)"
    using started w2 True by (auto simp: screen_agrees_def)
  moreover have "run (sys_step E) w [A_touch (\<not> locked), A_lock_timer, A_dispatch None] w2"
    by (rule goes_run [OF E run_cons [OF first w2(1)]])
  ultimately show ?thesis using True started by auto
qed

theorem screen_button_moves_bolt_witness:
  "\<exists>w2. run (sys_step ui_env) ui_world [A_touch False, A_lock_timer, A_dispatch None] w2
    \<and> mState w2 = kState_UnlockCompleted"
proof -
  obtain w1 where w1: "btn_event_cb ui_env LV_EVENT_CLICKED True ui_world = Done w1"
    using ui_click by blast
  have d: "display_ok demo_lvgl (display_static ([], \<lambda>x. 0)\<lparr>shown := Some (Lock_screen True)\<rparr>)"
    by (simp add: display_ok_static)
  show ?thesis
    using screen_button_moves_bolt [OF ui_world_reach ui_env_platform _ w1 _ demo_lvgl_ok d]
    by (auto simp: ui_world_fields screen_agrees_def)
qed

end
