(* ===== verification/ScreenInv.thy ===== *)
theory ScreenInv
  imports Display SystemProps
begin

text \<open>
  What the display shows along the program's runs: the screen drawn last is among the effects
  of the running program, and with the display the lock screen that is shown while the bolt
  rests is that of the bolt.
\<close>

section \<open>The screen drawn last\<close>

definition screen_of :: "world \<Rightarrow> screen option" where
  "screen_of w = screen_after None (effects w)"

lemma screen_after_append: "screen_after sc (xs @ ys) = screen_after (screen_after sc xs) ys"
  by (induction sc xs rule: screen_after.induct) simp_all

lemma screen_after_drawn: "\<exists>s'. screen_after (Some s) es = Some s'"
  by (induction "Some s" es arbitrary: s rule: screen_after.induct) simp_all

lemma screen_after_from: "screen_after sc es = (if screen_after None es = None then sc else screen_after None es)"
proof (induction sc es rule: screen_after.induct)
  case (2 sc locked es)
  show ?case using screen_after_drawn [of "Lock_screen locked" es] by auto
next
  case (3 sc code es)
  show ?case using screen_after_drawn [of "Qrcode_screen code" es] by auto
qed simp_all

lemma screen_after_led: "screen_after sc (map Eff_Led io) = sc"
  by (induction io) simp_all

lemma screen_simps [simp]:
  "screen_of (emit x w) = screen_after (screen_of w) [x]"
  "screen_of (on_led f w) = screen_of w"
  "screen_of (PostEvent E e w) = screen_of w"
  by (simp_all add: screen_of_def screen_after_append screen_after_led)

lemma screen_effects: "effects w' = effects w \<Longrightarrow> screen_of w' = screen_of w"
  by (simp add: screen_of_def)

lemma screen_updates [simp]:
  "screen_of (w\<lparr>mState := b\<rparr>) = screen_of w" "screen_of (w\<lparr>sLockTimer := c\<rparr>) = screen_of w"
  "screen_of (w\<lparr>sFunctionTimer := d\<rparr>) = screen_of w" "screen_of (w\<lparr>buttonTimers := e\<rparr>) = screen_of w"
  "screen_of (w\<lparr>sAppEventQueue := f\<rparr>) = screen_of w" "screen_of (w\<lparr>mFunction := g\<rparr>) = screen_of w"
  "screen_of (w\<lparr>mFunctionTimerActive := h\<rparr>) = screen_of w"
  "screen_of (w\<lparr>mSyncClusterToButtonAction := i\<rparr>) = screen_of w"
  "screen_of (w\<lparr>scheduled_work := j\<rparr>) = screen_of w" "screen_of (w\<lparr>clock_ms := k\<rparr>) = screen_of w"
  "screen_of (collect_connectivity cn w) = screen_of w"
  by (simp_all add: screen_of_def collect_connectivity_def split: option.split)

lemma screen_callbacks [simp]:
  "screen_of (ActionInitiated E a x w) = screen_of w"
  "screen_of (ActionCompleted E a w) = (if ENABLE_UI E \<and> a \<noteq> INVALID_ACTION
     then Some (Lock_screen (a = LOCK_ACTION)) else screen_of w)"
  by (simp_all add: ActionInitiated_def ActionCompleted_def UpdateClusterState_def Let_def
      split: Action_t.split)

section \<open>What a step does to the screen\<close>

text \<open>
  The screen stays while the bolt stays or sets out; when the bolt arrives, its screen is
  drawn.
\<close>

definition screen_step :: "world \<Rightarrow> world \<Rightarrow> bool" where
  "screen_step w w' \<longleftrightarrow>
     screen_of w' = screen_of w \<and> (mState w' = mState w \<or> \<not> at_rest (mState w'))
   \<or> at_rest (mState w') \<and> screen_of w' = Some (Lock_screen (mState w' = kState_LockCompleted))"

lemma screen_same: "screen_of w' = screen_of w \<Longrightarrow> mState w' = mState w \<Longrightarrow> screen_step w w'"
  by (simp add: screen_step_def)

lemma screen_step_cong:
  "screen_step v w' \<Longrightarrow> screen_of v = screen_of w \<Longrightarrow> mState v = mState w \<Longrightarrow> screen_step w w'"
  by (simp add: screen_step_def)

lemma screen_step_then:
  "screen_step w v \<Longrightarrow> screen_of w' = screen_of v \<Longrightarrow> mState w' = mState v \<Longrightarrow> screen_step w w'"
  by (simp add: screen_step_def)

lemma InitiateAction_screen:
  assumes E: "timer_ok E" and inv: "ctl_inv E w" and run: "InitiateAction E x a w = Done (r, w')"
  shows "screen_step w w'"
proof (cases "startable (mState w) a")
  case False
  then show ?thesis using InitiateAction_rejected [OF False, of E x] run by (simp add: screen_same)
next
  case True
  have "w' = ActionInitiated E a x (w\<lparr>sLockTimer := Some ACTUATOR_MOVEMENT_PERIOS_MS,
      mState := phase_next (mState w)\<rparr>)"
    using InitiateAction_started [OF E True run] inv by (simp add: ctl_inv_def wiring_inv_def)
  with True show ?thesis by (auto simp: screen_step_def startable_def at_rest_def)
qed

lemma initiate_and_log_screen:
  "timer_ok E \<Longrightarrow> ctl_inv E w \<Longrightarrow> initiate_and_log E x a w = Done w' \<Longrightarrow> screen_step w w'"
  by (auto simp: initiate_and_log_def obind_Done_iff dest: InitiateAction_screen)

lemma arrives_screen:
  "ENABLE_UI E \<Longrightarrow> IsActionInProgress w \<Longrightarrow>
    screen_step w (ActionCompleted E (if mState w = kState_LockInitiated then LOCK_ACTION
      else UNLOCK_ACTION) (w\<lparr>mState := phase_next (mState w)\<rparr>))"
  by (auto simp: screen_step_def IsActionInProgress_def at_rest_def)

lemma FunctionHandler_screen:
  assumes E: "timer_ok E" and inv: "ctl_inv E w" and run: "FunctionHandler E e w = Done w'"
  shows "screen_step w w'"
proof -
  from run obtain idx act where e: "evt_union e = ButtonEvent idx act"
    by (auto simp: FunctionHandler_def split: event_union.splits)
  show ?thesis
  proof (cases "idx = APP_FUNCTION_BUTTON_IDX E \<and> act = APP_BUTTON_LONG_PRESS")
    case False
    then show ?thesis using run e initiate_and_log_screen [OF E inv]
      by (auto simp: FunctionHandler_def screen_same split: if_split_asm)
  next
    case True
    show ?thesis
      by (rule screen_same) (use run True e in \<open>auto simp: FunctionHandler_def Let_def obind_Done_iff
          dest!: AppTask_timer_Done [OF E] split: if_split_asm\<close>)
  qed
qed

lemma dispatch_screen:
  assumes UI: "ENABLE_UI E" and E: "timer_ok E" and inv: "ctl_inv E w" and q: "sAppEventQueue w = e # q"
    and run: "DispatchEvent E e (w\<lparr>sAppEventQueue := q\<rparr>) = Done w'"
  shows "screen_step w w'"
proof -
  let ?v = "w\<lparr>sAppEventQueue := q\<rparr>"
  have "screen_step ?v w'"
  proof (cases "is_actuator_event e")
    case True
    have prog: "IsActionInProgress ?v"
      using dequeue_actuator(1) [OF inv q True] by (simp add: IsActionInProgress_def)
    have ev: "evt_union e = TimerEvent Ctx_LockManager"
      using head_event_cases [OF inv q] True by (auto simp: is_actuator_event_def)
    have "mActionCompleted_CB w = Some CB_AppTask_ActionCompleted"
      using inv by (simp add: ctl_inv_def wiring_inv_def)
    with run True prog have "w' = ActionCompleted E (if mState ?v = kState_LockInitiated then LOCK_ACTION
        else UNLOCK_ACTION) (?v\<lparr>mState := phase_next (mState ?v)\<rparr>)"
      by (simp add: DispatchEvent_def is_actuator_event_def actuator_event_Done [OF ev] Let_def)
    with arrives_screen [OF UI prog] show ?thesis by simp
  next
    case False
    have inv': "ctl_inv E ?v" using inv q False by (rule dequeue_inv)
    from head_event_cases [OF inv q] False
    consider "Handler e = Some H_FunctionTimerEventHandler"
      | "Handler e = Some H_FunctionHandler"
      | a actor where "Handler e = Some H_LockActionEventHandler" "Type e = kEventType_Lock"
          "evt_union e = LockEvent (Action_code a) actor"
      by (auto simp: is_actuator_event_def)
    then show ?thesis
    proof cases
      case 1
      with run show ?thesis
        by (intro screen_same) (auto simp: DispatchEvent_def FunctionTimerEventHandler_def split: if_split_asm)
    next
      case 2
      with run FunctionHandler_screen [OF E inv'] show ?thesis by (simp add: DispatchEvent_def)
    next
      case 3
      with run initiate_and_log_screen [OF E inv'] show ?thesis
        by (simp add: DispatchEvent_def LockActionEventHandler_def)
    qed
  qed
  then show ?thesis by (rule screen_step_cong) simp_all
qed

lemma round_screen:
  assumes UI: "ENABLE_UI E" and "timer_ok E" and "ctl_inv E w" and "AppTaskMain_round E c w = Some (Done w')"
  shows "screen_step w w'"
proof -
  from assms(4) obtain e q v where q: "sAppEventQueue w = e # q"
    and v: "DispatchEvent E e (w\<lparr>sAppEventQueue := q\<rparr>) = Done v"
    and w': "w' = collect_connectivity c v"
    using UI by (auto simp: AppTaskMain_round_def Let_def obind_Done_iff split: list.splits if_split_asm)
  show ?thesis
    by (rule screen_step_then [OF dispatch_screen [OF UI assms(2,3) q v]]) (simp_all add: w')
qed

lemma command_screen:
  assumes E: "timer_ok E" and inv: "ctl_inv E w" and set: "setLockState E ep st pin err w = (b, err', v)"
    and r: "if b then (\<exists>r. InitiateAction E x a v = Done (r, w')) else w' = v"
  shows "screen_step w w'"
proof -
  have "v = w \<or> (\<exists>y. v = emit (Eff_SetLockState ep st None) w)"
    using set by (auto simp: setLockState_def Let_def split: option.splits if_split_asm)
  then have v: "screen_of v = screen_of w" "mState v = mState w" by auto
  have inv': "ctl_inv E v" using setLockState_ctl_inv [OF set] inv by simp
  have "screen_step v w'"
  proof (cases b)
    case True
    with r InitiateAction_screen [OF E inv'] show ?thesis by auto
  next
    case False
    with r show ?thesis by (auto intro: screen_same)
  qed
  then show ?thesis using v by (rule screen_step_cong)
qed

text \<open>
  The event that commissioning is complete draws the screen of the attribute it reads; at
  rest the attribute is to tell where the bolt is.
\<close>

definition truthful :: "world \<Rightarrow> act \<Rightarrow> bool" where
  "truthful w a \<longleftrightarrow> (case a of
       A_device_event state kCommissioningComplete \<Rightarrow>
         at_rest (mState w) \<longrightarrow> (state \<noteq> Some kUnlocked) = (mState w = kState_LockCompleted)
     | _ \<Rightarrow> True)"

text \<open>It does when the attribute agrees with the bolt and no update of it is left to run.\<close>

lemma settled_truthful:
  assumes "sys_inv E w" and "agree a0 w" and "scheduled_work w = []"
  shows "truthful w (A_device_event (lock_attr a0 w) ev)"
  using agree_at_rest [OF assms(1,2) _ assms(3)]
  by (cases "mState w") (auto simp: truthful_def at_rest_def split: ChipDeviceEvent.split)

text \<open>The screen and the bolt: at rest, a lock screen is that of the bolt.\<close>

definition screen_true :: "screen option \<Rightarrow> State_t \<Rightarrow> bool" where
  "screen_true sc st \<longleftrightarrow> (\<forall>locked. at_rest st \<and> sc = Some (Lock_screen locked)
     \<longrightarrow> locked = (st = kState_LockCompleted))"

lemma screen_step_true:
  "screen_step w w' \<Longrightarrow> screen_true (screen_of w) (mState w) \<Longrightarrow> screen_true (screen_of w') (mState w')"
  by (auto simp: screen_step_def screen_true_def)

theorem step_screen:
  assumes UI: "ENABLE_UI E" and "platform_ok E" and inv: "sys_inv E w" and go: "goes E w a w'"
    and tr: "truthful w a" and ag: "screen_true (screen_of w) (mState w)"
  shows "screen_true (screen_of w') (mState w')"
proof -
  have E: "timer_ok E" "queue_ok E" and ctl: "ctl_inv E w" and st: "step E w a (Done w')"
    using assms by (simp_all add: platform_ok_def sys_inv_def goes_def)
  have same: ?thesis if "screen_of w' = screen_of w" "mState w' = mState w"
    using ag that by simp
  have moves: ?thesis if "screen_step w w'"
    using that ag by (rule screen_step_true)
  show ?thesis
  proof (cases "is_db a")
    case True
    note f = ctl_fields [OF is_db_ctl [OF go True]]
    show ?thesis by (rule same) (simp_all add: f screen_of_def)
  next
    case False
    from st show ?thesis
    proof (cases rule: step.cases)
      case (dispatch c)
      then show ?thesis using round_screen [OF UI E(1) ctl] by (intro moves) simp
    next
      case (lock_command ep pin err)
      then show ?thesis
        by (auto simp: Done_obind_iff dest!: lock_command_Done intro: moves command_screen [OF E(1) ctl])
    next
      case (unlock_command ep pin err)
      then show ?thesis
        by (auto simp: Done_obind_iff dest!: unlock_command_Done intro: moves command_screen [OF E(1) ctl])
    next
      case (touch lock)
      then show ?thesis
        by (auto simp: Done_obind_iff dest!: start_lock_action_Done
            intro: moves InitiateAction_screen [OF E(1) ctl])
    next
      case (work item rest b)
      have "item = Work_UpdateCluster"
        using ctl work by (cases item) (simp_all add: ctl_inv_def wiring_inv_def)
      then show ?thesis using work
        by (intro same) (simp_all add: run_work_def UpdateCluster_def Let_def)
    next
      case (device_event state ev)
      then show ?thesis using ag tr UI
        by (auto simp: DeviceEventCallback_def truthful_def screen_true_def at_rest_def
            split: ChipDeviceEvent.splits if_splits option.splits)
    next
      case button_irq
      show ?thesis
        by (rule same) (use button_irq in \<open>auto simp: FuncButtonCallback_def Let_def
            split: if_split_asm option.split_asm\<close>)
    next
      case (lock_timer ms)
      show ?thesis by (rule same) (simp_all add: lock_timer LockManager_TimerEventHandler_def)
    next
      case (function_timer ms)
      show ?thesis by (rule same) (simp_all add: function_timer AppTask_TimerEventHandler_def)
    next
      case (button_timer i ms level)
      show ?thesis
        by (rule same) (simp_all add: button_timer ButtonHandler_TimerCallback_def
            ButtonEventHandler_def Let_def)
    next
      case (request actor action)
      show ?thesis by (rule same) (simp_all add: request ActionRequest_def)
    next
      case (tick n)
      show ?thesis by (rule same) (simp_all add: tick)
    qed (use False in simp_all)
  qed
qed

section \<open>From start-up on\<close>

lemma start_screen [simp]:
  fixes v :: world
  shows "screen_of (v\<lparr>LockParams := p\<rparr>) = screen_of v"
    "screen_of (v\<lparr>mActionInitiated_CB := i\<rparr>) = screen_of v"
    "screen_of (v\<lparr>mActionCompleted_CB := c\<rparr>) = screen_of v"
    "screen_of (snd (ReadConfigValues E v)) = screen_of v"
  by (simp_all add: screen_of_def)

lemma lockMgr_Init_screen:
  assumes "lockMgr_Init E b w = Done w'" and "ENABLE_UI E"
  shows "screen_of w' = (if IsWiFiStationProvisioned b
    then Some (Lock_screen (LockState_Get b \<noteq> Some kUnlocked))
    else case GetQRCode b of None \<Rightarrow> screen_of w | Some code \<Rightarrow> Some (Qrcode_screen code))"
  using assms
  by (auto simp: lockMgr_Init_def Let_def LockManager_Init_eq SetCallbacks_def ButtonHandler_Init_def
      ButtonHandler_GpioInit_def NetWorkCommissioningInstInit_def
      split: if_split_asm option.split_asm)

lemma booted_screen:
  assumes "ENABLE_UI E" and "booted E w"
  shows "screen_true (screen_of w) (mState w)"
proof -
  from assms(2) obtain b where b: "lockMgr_Init E b (static_world E Map.empty) = Done w"
    by (auto simp: booted_def)
  have "screen_of (static_world E Map.empty) = None"
    by (simp add: screen_of_def static_effects)
  then show ?thesis
    using lockMgr_Init_screen [OF b assms(1)] b
    by (auto simp: screen_true_def elim!: lockMgr_Init_Done split: if_split_asm option.split_asm)
qed

definition truthful_step :: "env \<Rightarrow> world \<Rightarrow> act \<Rightarrow> world \<Rightarrow> bool" where
  "truthful_step E w a w' \<longleftrightarrow> ENABLE_UI E \<and> sys_step E w a w' \<and> truthful w a"

definition ui_init :: "env \<Rightarrow> world \<Rightarrow> bool" where
  "ui_init E w \<longleftrightarrow> ENABLE_UI E \<and> sys_init E w"

interpretation screen: invariant_system "ui_init E" "truthful_step E"
  "\<lambda>w. sys_inv E w \<and> screen_true (screen_of w) (mState w)" for E
proof unfold_locales
  fix w a w'
  show "sys_inv E w \<and> screen_true (screen_of w) (mState w)" if "ui_init E w"
    using that sys.init_inv booted_screen by (auto simp: ui_init_def sys_init_def)
  show "sys_inv E w' \<and> screen_true (screen_of w') (mState w')"
    if "sys_inv E w \<and> screen_true (screen_of w) (mState w)" "truthful_step E w a w'"
    using that sys.step_inv [of E w a w'] step_screen [of E w a w'] by (simp add: truthful_step_def sys_step_def)
qed

end
