(* ===== verification/Preprocessor.thy ===== *)
theory Preprocessor
  imports Prelude
begin

text \<open>
  The preprocessor of C, as far as the configuration headers of the project use it: object-like
  macros, whose replacement is an integer expression or other text, definitions that take
  arguments, conditional groups with \<open>#else\<close>, and conditions over integers. The macros known
  before a header is read (from the compiler and from the headers of libraries) are an
  argument. A pragma does nothing (\<open>#pragma once\<close> when its header is read once). Integers are unbounded; no condition of the headers comes near $2^{63}$.
\<close>

section \<open>Directives\<close>

datatype pp_expr =
    E_num int
  | E_name string
  | E_defined string
  | E_times pp_expr pp_expr
  | E_eq pp_expr pp_expr
  | E_ne pp_expr pp_expr
  | E_and pp_expr pp_expr
  | E_bit_or pp_expr pp_expr

datatype replacement = R_expr pp_expr | R_text string | R_fun string string

datatype directive =
    Define string replacement
  | Undef_macro string
  | If_expr pp_expr
  | Ifndef string
  | Else_group
  | Endif
  | Include string
  | Pragma string

text \<open>The macros, the latest definition first; an entry without replacement undefines its name.\<close>

type_synonym macros = "(string \<times> replacement option) list"

definition lookup :: "macros \<Rightarrow> string \<Rightarrow> replacement option" where
  "lookup ms x = (case map_of ms x of Some (Some r) \<Rightarrow> Some r | _ \<Rightarrow> None)"

lemma lookup_simps [simp]:
  "lookup [] x = None"
  "lookup ((y, r) # ms) x = (if x = y then r else lookup ms x)"
  by (simp_all add: lookup_def split: option.split)

section \<open>Conditions\<close>

text \<open>
  A name is replaced until none is left to replace; a name is not replaced within its own
  replacement (\<open>hidden\<close>), and a name that is left counts as zero. A replacement that is no
  integer expression makes the condition invalid.
\<close>

definition pp_bin :: "(int \<Rightarrow> int \<Rightarrow> int) \<Rightarrow> int option \<Rightarrow> int option \<Rightarrow> int option" where
  "pp_bin f a b = (case (a, b) of (Some m, Some n) \<Rightarrow> Some (f m n) | _ \<Rightarrow> None)"

definition pp_bool :: "bool \<Rightarrow> int" where
  "pp_bool b = (if b then 1 else 0)"

function pp_value :: "macros \<Rightarrow> string list \<Rightarrow> pp_expr \<Rightarrow> int option" where
  "pp_value ms hidden (E_num n) = Some n"
| "pp_value ms hidden (E_name x) =
     (if x \<in> set hidden then Some 0
      else case lookup ms x of
        None \<Rightarrow> Some 0
      | Some (R_expr e) \<Rightarrow> pp_value ms (x # hidden) e
      | Some _ \<Rightarrow> None)"
| "pp_value ms hidden (E_defined x) = Some (pp_bool (lookup ms x \<noteq> None))"
| "pp_value ms hidden (E_times a b) = pp_bin (*) (pp_value ms hidden a) (pp_value ms hidden b)"
| "pp_value ms hidden (E_eq a b) =
     pp_bin (\<lambda>m n. pp_bool (m = n)) (pp_value ms hidden a) (pp_value ms hidden b)"
| "pp_value ms hidden (E_ne a b) =
     pp_bin (\<lambda>m n. pp_bool (m \<noteq> n)) (pp_value ms hidden a) (pp_value ms hidden b)"
| "pp_value ms hidden (E_and a b) =
     pp_bin (\<lambda>m n. pp_bool (m \<noteq> 0 \<and> n \<noteq> 0)) (pp_value ms hidden a) (pp_value ms hidden b)"
| "pp_value ms hidden (E_bit_or a b) = pp_bin (OR) (pp_value ms hidden a) (pp_value ms hidden b)"
  by pat_completeness auto

text \<open>It ends, since every replacement hides one more of the names that are defined.\<close>

lemma lookup_in: "lookup ms x = Some r \<Longrightarrow> x \<in> fst ` set ms"
  by (auto simp: lookup_def split: option.splits dest!: map_of_SomeD intro: rev_image_eqI)

termination pp_value
proof (relation "measures [\<lambda>(ms, hidden, e). card (fst ` set ms - set hidden), \<lambda>(ms, hidden, e). size e]")
  fix ms hidden x r e
  assume "x \<notin> set hidden" and "lookup ms x = Some r" and "r = R_expr e"
  then have "fst ` set ms - set (x # hidden) \<subset> fst ` set ms - set hidden"
    using lookup_in [of ms x r] by auto
  then have "card (fst ` set ms - set (x # hidden)) < card (fst ` set ms - set hidden)"
    by (intro psubset_card_mono) simp_all
  then show "((ms, x # hidden, e), (ms, hidden, E_name x))
      \<in> measures [\<lambda>(ms, hidden, e). card (fst ` set ms - set hidden), \<lambda>(ms, hidden, e). size e]"
    by simp
qed simp_all

section \<open>Conditional groups\<close>

text \<open>
  A group remembers whether the text around it is kept, whether one of its parts was, whether
  the part being read is, and whether \<open>#else\<close> has come.
\<close>

record group =
  g_outer :: bool
  g_taken :: bool
  g_active :: bool
  g_else :: bool

record pp_state =
  macros :: macros
  groups :: "group list"

datatype pp_error = Unbalanced | Not_an_integer | Needs_file string

definition pp_active :: "pp_state \<Rightarrow> bool" where
  "pp_active s = (case groups s of [] \<Rightarrow> True | g # gs \<Rightarrow> g_active g)"

definition open_group :: "bool \<Rightarrow> bool \<Rightarrow> pp_state \<Rightarrow> pp_state" where
  "open_group outer b s =
     s\<lparr>groups := \<lparr>g_outer = outer, g_taken = outer \<and> b, g_active = outer \<and> b, g_else = False\<rparr> # groups s\<rparr>"

definition set_macro :: "string \<Rightarrow> replacement option \<Rightarrow> pp_state \<Rightarrow> pp_state" where
  "set_macro x r s = (if pp_active s then s\<lparr>macros := (x, r) # macros s\<rparr> else s)"

fun pp_step :: "directive \<Rightarrow> pp_state \<Rightarrow> pp_error + pp_state" where
  "pp_step (Define x r) s = Inr (set_macro x (Some r) s)"
| "pp_step (Undef_macro x) s = Inr (set_macro x None s)"
| "pp_step (If_expr e) s =
     (if \<not> pp_active s then Inr (open_group False False s)
      else case pp_value (macros s) [] e of
        None \<Rightarrow> Inl Not_an_integer
      | Some n \<Rightarrow> Inr (open_group True (n \<noteq> 0) s))"
| "pp_step (Ifndef x) s = Inr (open_group (pp_active s) (lookup (macros s) x = None) s)"
| "pp_step Else_group s =
     (case groups s of
        [] \<Rightarrow> Inl Unbalanced
      | g # gs \<Rightarrow> if g_else g then Inl Unbalanced
                  else Inr (s\<lparr>groups := g\<lparr>g_active := g_outer g \<and> \<not> g_taken g, g_else := True\<rparr> # gs\<rparr>))"
| "pp_step Endif s = (case groups s of [] \<Rightarrow> Inl Unbalanced | g # gs \<Rightarrow> Inr (s\<lparr>groups := gs\<rparr>))"
| "pp_step (Include f) s = (if pp_active s then Inl (Needs_file f) else Inr s)"
| "pp_step (Pragma t) s = Inr s"

fun pp_run :: "directive list \<Rightarrow> pp_state \<Rightarrow> pp_error + pp_state" where
  "pp_run [] s = Inr s"
| "pp_run (d # ds) s = (case pp_step d s of Inl e \<Rightarrow> Inl e | Inr s' \<Rightarrow> pp_run ds s')"

lemma pp_run_append:
  "pp_run (ds @ ds') s = (case pp_run ds s of Inl e \<Rightarrow> Inl e | Inr s' \<Rightarrow> pp_run ds' s')"
  by (induction ds arbitrary: s) (simp_all split: sum.split)

text \<open>A header as a whole: it is to end outside every group.\<close>

definition preprocess :: "directive list \<Rightarrow> macros \<Rightarrow> pp_error + macros" where
  "preprocess ds ms =
     (case pp_run ds \<lparr>macros = ms, groups = []\<rparr> of
        Inl e \<Rightarrow> Inl e
      | Inr s \<Rightarrow> if groups s = [] then Inr (macros s) else Inl Unbalanced)"

section \<open>What can be read off a header\<close>

text \<open>A macro that a header does not name keeps its definition.\<close>

fun sets_macro :: "string \<Rightarrow> directive \<Rightarrow> bool" where
  "sets_macro x (Define y r) \<longleftrightarrow> x = y"
| "sets_macro x (Undef_macro y) \<longleftrightarrow> x = y"
| "sets_macro x _ \<longleftrightarrow> False"

lemma pp_step_other:
  "pp_step d s = Inr s' \<Longrightarrow> \<not> sets_macro x d \<Longrightarrow> lookup (macros s') x = lookup (macros s) x"
  by (cases d) (auto simp: set_macro_def open_group_def split: if_split_asm option.split_asm list.split_asm)

lemma pp_run_other:
  "pp_run ds s = Inr s' \<Longrightarrow> \<not> list_ex (sets_macro x) ds \<Longrightarrow> lookup (macros s') x = lookup (macros s) x"
proof (induction ds arbitrary: s)
  case Nil
  then show ?case by simp
next
  case (Cons d ds)
  then show ?case by (auto simp: pp_step_other split: sum.split_asm)
qed

text \<open>
  A definition outside the groups a text opens stands, when no later directive of the text
  touches the name. \<open>depth\<close> counts the groups that are open, \<open>r\<close> is what is known so far.
\<close>

fun stands :: "nat \<Rightarrow> string \<Rightarrow> directive list \<Rightarrow> replacement option \<Rightarrow> replacement option" where
  "stands depth x [] r = r"
| "stands depth x (Define y v # ds) r =
     stands depth x ds (if x \<noteq> y then r else if depth = 0 then Some v else None)"
| "stands depth x (Undef_macro y # ds) r = stands depth x ds (if x \<noteq> y then r else None)"
| "stands depth x (If_expr e # ds) r = stands (Suc depth) x ds r"
| "stands depth x (Ifndef y # ds) r = stands (Suc depth) x ds r"
| "stands depth x (Else_group # ds) r = (if depth = 0 then None else stands depth x ds r)"
| "stands depth x (Endif # ds) r = (if depth = 0 then None else stands (depth - 1) x ds r)"
| "stands depth x (Include f # ds) r = stands depth x ds r"
| "stands depth x (Pragma t # ds) r = stands depth x ds r"

definition kept :: "group list \<Rightarrow> bool" where
  "kept base \<longleftrightarrow> (case base of [] \<Rightarrow> True | g # gs \<Rightarrow> g_active g)"

text \<open>The state within a text that was entered with the groups \<open>base\<close> and opened \<open>depth\<close> more.\<close>

definition within :: "group list \<Rightarrow> nat \<Rightarrow> string \<Rightarrow> replacement option \<Rightarrow> pp_state \<Rightarrow> bool" where
  "within base depth x r s \<longleftrightarrow> (\<exists>inner. groups s = inner @ base \<and> length inner = depth)
     \<and> (\<forall>v. r = Some v \<longrightarrow> lookup (macros s) x = Some v)"

lemma within_push: "within base depth x r s \<Longrightarrow> within base (Suc depth) x r (open_group b c s)"
  by (auto simp: within_def open_group_def Cons_eq_append_conv)

lemma within_pop:
  assumes "within base depth x r s" and "groups s = g # gs" and "depth \<noteq> 0"
  shows "within base (depth - 1) x r (s\<lparr>groups := gs\<rparr>)"
    and "within base depth x r (s\<lparr>groups := g' # gs\<rparr>)"
proof -
  from assms obtain inner where i: "groups s = inner @ base" "length inner = depth" "inner \<noteq> []"
    by (auto simp: within_def)
  with assms(2) have "gs = tl inner @ base" by (cases inner) simp_all
  with assms i show "within base (depth - 1) x r (s\<lparr>groups := gs\<rparr>)"
    and "within base depth x r (s\<lparr>groups := g' # gs\<rparr>)"
    by (auto simp: within_def intro: exI [of _ "tl inner"] exI [of _ "g' # tl inner"])
qed

lemma within_set:
  assumes "within base depth x r s" and "kept base"
  shows "within base depth x (if x \<noteq> y then r else if depth = 0 then v else None) (set_macro y v s)"
  using assms by (auto simp: within_def set_macro_def pp_active_def kept_def)

lemma stands_sound:
  assumes "stands depth x ds r = Some v" and "pp_run ds s = Inr s'" and "within base depth x r s"
    and base: "kept base"
  shows "lookup (macros s') x = Some v"
  using assms(1-3)
proof (induction depth x ds r arbitrary: s rule: stands.induct)
  case (2 depth x y w ds r)
  then show ?case using within_set [OF 2(4) base, of y "Some w"] by (simp split: if_splits)
next
  case (3 depth x y ds r)
  then show ?case using within_set [OF 3(4) base, of y None] by (simp split: if_splits)
next
  case (4 depth x e ds r)
  then show ?case using within_push [of base depth x r s] by (auto split: if_split_asm option.split_asm)
next
  case (5 depth x y ds r)
  then show ?case using within_push [of base depth x r s] by auto
next
  case (6 depth x ds r)
  then show ?case by (auto simp: within_pop(2) split: list.split_asm if_split_asm)
next
  case (7 depth x ds r)
  then show ?case using within_pop(1) [of base depth x r s] by (auto split: list.split_asm if_split_asm)
qed (auto simp: within_def split: if_split_asm)

section \<open>Defaults\<close>

text \<open>The common form of a default: a definition unless the macro is already defined.\<close>

definition set_default :: "string \<Rightarrow> replacement \<Rightarrow> pp_state \<Rightarrow> pp_state" where
  "set_default x r s = (if lookup (macros s) x = None then set_macro x (Some r) s else s)"

lemma pp_run_default:
  assumes "pp_active s"
  shows "pp_run (Ifndef x # Define x r # Endif # ds) s = pp_run ds (set_default x r s)"
  using assms by (cases s) (simp add: set_default_def set_macro_def open_group_def pp_active_def)

lemma pp_run_define:
  "pp_run (Define x r # ds) s = pp_run ds (set_macro x (Some r) s)"
  "pp_run (Pragma p # ds) s = pp_run ds s"
  by simp_all

lemma set_default_simps [simp]:
  "groups (set_default x r s) = groups s"
  "pp_active (set_default x r s) = pp_active s"
  "pp_active s \<Longrightarrow> lookup (macros (set_default x r s)) y
     = (if x = y \<and> lookup (macros s) y = None then Some r else lookup (macros s) y)"
  by (simp_all add: set_default_def set_macro_def pp_active_def)

lemma set_macro_simps [simp]:
  "groups (set_macro x r s) = groups s"
  "pp_active (set_macro x r s) = pp_active s"
  "pp_active s \<Longrightarrow> lookup (macros (set_macro x r s)) y = (if x = y then r else lookup (macros s) y)"
  by (simp_all add: set_macro_def pp_active_def)

end
