(* ===== verification/LvConf.thy ===== *)
theory LvConf
  imports Preprocessor
begin

text \<open>
  The configuration of LVGL, \<open>lvgl_support/lv_conf.h\<close>, directive by directive: the header with its
  two guards, the settings in twelve parts, and the end of the guards.
\<close>

text \<open>The character constant \<open>'\0'\<close>.\<close>

abbreviation nul_letter :: string where
  "nul_letter \<equiv> [CHR 0x27, CHR 0x5C, CHR 0x30, CHR 0x27]"

section \<open>The directives\<close>

definition lv_conf_1 :: "directive list" where
  "lv_conf_1 =
    [If_expr (E_num 1),
     Ifndef ''LV_CONF_H'',
     Define ''LV_CONF_H'' (R_text ''''),
     If_expr (E_and (E_num 0) (E_defined ''__ASSEMBLY__'')),
     Include ''my_include.h'',
     Endif]"

definition lv_conf_2 :: "directive list" where
  "lv_conf_2 =
    [Define ''LV_COLOR_DEPTH'' (R_expr (E_num 16)),
     Define ''LV_COLOR_16_SWAP'' (R_expr (E_num 1)),
     Define ''LV_USE_STDLIB_MALLOC'' (R_expr (E_name ''LV_STDLIB_CLIB'')),
     Define ''LV_USE_STDLIB_STRING'' (R_expr (E_name ''LV_STDLIB_CLIB'')),
     Define ''LV_USE_STDLIB_SPRINTF'' (R_expr (E_name ''LV_STDLIB_CLIB'')),
     Define ''LV_STDINT_INCLUDE'' (R_text ''<stdint.h>''),
     Define ''LV_STDDEF_INCLUDE'' (R_text ''<stddef.h>''),
     Define ''LV_STDBOOL_INCLUDE'' (R_text ''<stdbool.h>''),
     Define ''LV_INTTYPES_INCLUDE'' (R_text ''<inttypes.h>''),
     Define ''LV_LIMITS_INCLUDE'' (R_text ''<limits.h>''),
     Define ''LV_STDARG_INCLUDE'' (R_text ''<stdarg.h>''),
     If_expr (E_eq (E_name ''LV_USE_STDLIB_MALLOC'') (E_name ''LV_STDLIB_BUILTIN'')),
     Define ''LV_MEM_SIZE'' (R_expr (E_times (E_num 35) (E_num 1024))),
     Define ''LV_MEM_POOL_EXPAND_SIZE'' (R_expr (E_num 0)),
     Define ''LV_MEM_ADR'' (R_expr (E_num 0)),
     If_expr (E_eq (E_name ''LV_MEM_ADR'') (E_num 0)),
     Undef_macro ''LV_MEM_POOL_INCLUDE'',
     Undef_macro ''LV_MEM_POOL_ALLOC'',
     Endif,
     Endif]"

definition lv_conf_3 :: "directive list" where
  "lv_conf_3 =
    [Define ''LV_DEF_REFR_PERIOD'' (R_expr (E_num 33)),
     Define ''LV_DPI_DEF'' (R_expr (E_num 130)),
     Define ''LV_USE_OS'' (R_expr (E_name ''LV_OS_NONE'')),
     If_expr (E_eq (E_name ''LV_USE_OS'') (E_name ''LV_OS_CUSTOM'')),
     Define ''LV_OS_CUSTOM_INCLUDE'' (R_text ''<stdint.h>''),
     Endif,
     If_expr (E_eq (E_name ''LV_USE_OS'') (E_name ''LV_OS_FREERTOS'')),
     Define ''LV_USE_FREERTOS_TASK_NOTIFY'' (R_expr (E_num 1)),
     Endif]"

definition lv_conf_4 :: "directive list" where
  "lv_conf_4 =
    [Define ''LV_DRAW_BUF_STRIDE_ALIGN'' (R_expr (E_num 1)),
     Define ''LV_DRAW_BUF_ALIGN'' (R_expr (E_num 4)),
     Define ''LV_DRAW_TRANSFORM_USE_MATRIX'' (R_expr (E_num 0)),
     Define ''LV_DRAW_LAYER_SIMPLE_BUF_SIZE'' (R_expr (E_times (E_num 24) (E_num 1024))),
     Define ''LV_DRAW_LAYER_MAX_MEMORY'' (R_expr (E_num 0)),
     Define ''LV_DRAW_THREAD_STACK_SIZE'' (R_expr (E_times (E_num 8) (E_num 1024))),
     Define ''LV_DRAW_THREAD_PRIO'' (R_expr (E_name ''LV_THREAD_PRIO_HIGH'')),
     Define ''LV_USE_DRAW_SW'' (R_expr (E_num 1)),
     If_expr (E_eq (E_name ''LV_USE_DRAW_SW'') (E_num 1)),
     Define ''LV_DRAW_SW_SUPPORT_RGB565'' (R_expr (E_num 1)),
     Define ''LV_DRAW_SW_SUPPORT_RGB565_SWAPPED'' (R_expr (E_num 1)),
     Define ''LV_DRAW_SW_SUPPORT_RGB565A8'' (R_expr (E_num 1)),
     Define ''LV_DRAW_SW_SUPPORT_RGB888'' (R_expr (E_num 1)),
     Define ''LV_DRAW_SW_SUPPORT_XRGB8888'' (R_expr (E_num 1)),
     Define ''LV_DRAW_SW_SUPPORT_ARGB8888'' (R_expr (E_num 1)),
     Define ''LV_DRAW_SW_SUPPORT_ARGB8888_PREMULTIPLIED'' (R_expr (E_num 1)),
     Define ''LV_DRAW_SW_SUPPORT_L8'' (R_expr (E_num 1)),
     Define ''LV_DRAW_SW_SUPPORT_AL88'' (R_expr (E_num 1)),
     Define ''LV_DRAW_SW_SUPPORT_A8'' (R_expr (E_num 1)),
     Define ''LV_DRAW_SW_SUPPORT_I1'' (R_expr (E_num 1)),
     Define ''LV_DRAW_SW_I1_LUM_THRESHOLD'' (R_expr (E_num 127)),
     Define ''LV_DRAW_SW_DRAW_UNIT_CNT'' (R_expr (E_num 1)),
     Define ''LV_USE_DRAW_ARM2D_SYNC'' (R_expr (E_num 0)),
     Define ''LV_USE_NATIVE_HELIUM_ASM'' (R_expr (E_num 0)),
     Define ''LV_DRAW_SW_COMPLEX'' (R_expr (E_num 1)),
     If_expr (E_eq (E_name ''LV_DRAW_SW_COMPLEX'') (E_num 1)),
     Define ''LV_DRAW_SW_SHADOW_CACHE_SIZE'' (R_expr (E_num 0)),
     Define ''LV_DRAW_SW_CIRCLE_CACHE_SIZE'' (R_expr (E_num 4)),
     Endif,
     Define ''LV_USE_DRAW_SW_ASM'' (R_expr (E_name ''LV_DRAW_SW_ASM_NONE'')),
     If_expr (E_eq (E_name ''LV_USE_DRAW_SW_ASM'') (E_name ''LV_DRAW_SW_ASM_CUSTOM'')),
     Define ''LV_DRAW_SW_ASM_CUSTOM_INCLUDE'' (R_text ''\"\"''),
     Endif,
     Define ''LV_USE_DRAW_SW_COMPLEX_GRADIENTS'' (R_expr (E_num 0)),
     Endif]"

definition lv_conf_5 :: "directive list" where
  "lv_conf_5 =
    [Define ''LV_USE_NEMA_GFX'' (R_expr (E_num 0)),
     If_expr (E_name ''LV_USE_NEMA_GFX''),
     Define ''LV_USE_NEMA_HAL'' (R_expr (E_name ''LV_NEMA_HAL_CUSTOM'')),
     If_expr (E_eq (E_name ''LV_USE_NEMA_HAL'') (E_name ''LV_NEMA_HAL_STM32'')),
     Define ''LV_NEMA_STM32_HAL_INCLUDE'' (R_text ''<stm32u5xx_hal.h>''),
     Endif,
     Define ''LV_USE_NEMA_VG'' (R_expr (E_num 0)),
     If_expr (E_name ''LV_USE_NEMA_VG''),
     Define ''LV_NEMA_GFX_MAX_RESX'' (R_expr (E_num 800)),
     Define ''LV_NEMA_GFX_MAX_RESY'' (R_expr (E_num 600)),
     Endif,
     Endif,
     Define ''LV_USE_DRAW_VGLITE'' (R_expr (E_num 0)),
     If_expr (E_name ''LV_USE_DRAW_VGLITE''),
     Define ''LV_USE_VGLITE_BLIT_SPLIT'' (R_expr (E_num 0)),
     If_expr (E_name ''LV_USE_OS''),
     Define ''LV_USE_VGLITE_DRAW_THREAD'' (R_expr (E_num 1)),
     If_expr (E_name ''LV_USE_VGLITE_DRAW_THREAD''),
     Define ''LV_USE_VGLITE_DRAW_ASYNC'' (R_expr (E_num 1)),
     Endif,
     Endif,
     Define ''LV_USE_VGLITE_ASSERT'' (R_expr (E_num 0)),
     Define ''LV_USE_VGLITE_CHECK_ERROR'' (R_expr (E_num 0)),
     Endif,
     Define ''LV_USE_PXP'' (R_expr (E_num 0)),
     If_expr (E_name ''LV_USE_PXP''),
     Define ''LV_USE_DRAW_PXP'' (R_expr (E_num 1)),
     Define ''LV_USE_ROTATE_PXP'' (R_expr (E_num 0)),
     If_expr (E_and (E_name ''LV_USE_DRAW_PXP'') (E_name ''LV_USE_OS'')),
     Define ''LV_USE_PXP_DRAW_THREAD'' (R_expr (E_num 1)),
     Endif,
     Define ''LV_USE_PXP_ASSERT'' (R_expr (E_num 0)),
     Endif,
     Define ''LV_USE_DRAW_G2D'' (R_expr (E_num 0)),
     If_expr (E_name ''LV_USE_DRAW_G2D''),
     Define ''LV_G2D_HASH_TABLE_SIZE'' (R_expr (E_num 50)),
     If_expr (E_name ''LV_USE_OS''),
     Define ''LV_USE_G2D_DRAW_THREAD'' (R_expr (E_num 1)),
     Endif,
     Define ''LV_USE_G2D_ASSERT'' (R_expr (E_num 0)),
     Endif,
     Define ''LV_USE_DRAW_DAVE2D'' (R_expr (E_num 0)),
     Define ''LV_USE_DRAW_SDL'' (R_expr (E_num 0)),
     Define ''LV_USE_DRAW_VG_LITE'' (R_expr (E_num 0)),
     If_expr (E_name ''LV_USE_DRAW_VG_LITE''),
     Define ''LV_VG_LITE_USE_GPU_INIT'' (R_expr (E_num 0)),
     Define ''LV_VG_LITE_USE_ASSERT'' (R_expr (E_num 0)),
     Define ''LV_VG_LITE_FLUSH_MAX_COUNT'' (R_expr (E_num 8)),
     Define ''LV_VG_LITE_USE_BOX_SHADOW'' (R_expr (E_num 1)),
     Define ''LV_VG_LITE_GRAD_CACHE_CNT'' (R_expr (E_num 32)),
     Define ''LV_VG_LITE_STROKE_CACHE_CNT'' (R_expr (E_num 32)),
     Endif,
     Define ''LV_USE_DRAW_DMA2D'' (R_expr (E_num 0)),
     If_expr (E_name ''LV_USE_DRAW_DMA2D''),
     Define ''LV_DRAW_DMA2D_HAL_INCLUDE'' (R_text ''\"stm32h7xx_hal.h\"''),
     Define ''LV_USE_DRAW_DMA2D_INTERRUPT'' (R_expr (E_num 0)),
     Endif,
     Define ''LV_USE_DRAW_OPENGLES'' (R_expr (E_num 0))]"

definition lv_conf_6 :: "directive list" where
  "lv_conf_6 =
    [Define ''LV_USE_LOG'' (R_expr (E_num 0)),
     If_expr (E_name ''LV_USE_LOG''),
     Define ''LV_LOG_LEVEL'' (R_expr (E_name ''LV_LOG_LEVEL_WARN'')),
     Define ''LV_LOG_PRINTF'' (R_expr (E_num 0)),
     Define ''LV_LOG_USE_TIMESTAMP'' (R_expr (E_num 1)),
     Define ''LV_LOG_USE_FILE_LINE'' (R_expr (E_num 1)),
     Define ''LV_LOG_TRACE_MEM'' (R_expr (E_num 1)),
     Define ''LV_LOG_TRACE_TIMER'' (R_expr (E_num 1)),
     Define ''LV_LOG_TRACE_INDEV'' (R_expr (E_num 1)),
     Define ''LV_LOG_TRACE_DISP_REFR'' (R_expr (E_num 1)),
     Define ''LV_LOG_TRACE_EVENT'' (R_expr (E_num 1)),
     Define ''LV_LOG_TRACE_OBJ_CREATE'' (R_expr (E_num 1)),
     Define ''LV_LOG_TRACE_LAYOUT'' (R_expr (E_num 1)),
     Define ''LV_LOG_TRACE_ANIM'' (R_expr (E_num 1)),
     Define ''LV_LOG_TRACE_CACHE'' (R_expr (E_num 1)),
     Endif,
     Define ''LV_USE_ASSERT_NULL'' (R_expr (E_num 1)),
     Define ''LV_USE_ASSERT_MALLOC'' (R_expr (E_num 1)),
     Define ''LV_USE_ASSERT_STYLE'' (R_expr (E_num 0)),
     Define ''LV_USE_ASSERT_MEM_INTEGRITY'' (R_expr (E_num 0)),
     Define ''LV_USE_ASSERT_OBJ'' (R_expr (E_num 0)),
     Define ''LV_ASSERT_HANDLER_INCLUDE'' (R_text ''<stdint.h>''),
     Define ''LV_ASSERT_HANDLER'' (R_text ''while(1);''),
     Define ''LV_USE_REFR_DEBUG'' (R_expr (E_num 0)),
     Define ''LV_USE_LAYER_DEBUG'' (R_expr (E_num 0)),
     Define ''LV_USE_PARALLEL_DRAW_DEBUG'' (R_expr (E_num 0)),
     Define ''LV_ENABLE_GLOBAL_CUSTOM'' (R_expr (E_num 0)),
     If_expr (E_name ''LV_ENABLE_GLOBAL_CUSTOM''),
     Define ''LV_GLOBAL_CUSTOM_INCLUDE'' (R_text ''<stdint.h>''),
     Endif,
     Define ''LV_CACHE_DEF_SIZE'' (R_expr (E_num 0)),
     Define ''LV_IMAGE_HEADER_CACHE_DEF_CNT'' (R_expr (E_num 0)),
     Define ''LV_GRADIENT_MAX_STOPS'' (R_expr (E_num 2)),
     Define ''LV_COLOR_MIX_ROUND_OFS'' (R_expr (E_num 0)),
     Define ''LV_OBJ_STYLE_CACHE'' (R_expr (E_num 0)),
     Define ''LV_USE_OBJ_ID'' (R_expr (E_num 0)),
     Define ''LV_USE_OBJ_NAME'' (R_expr (E_num 0)),
     Define ''LV_OBJ_ID_AUTO_ASSIGN'' (R_expr (E_name ''LV_USE_OBJ_ID'')),
     Define ''LV_USE_OBJ_ID_BUILTIN'' (R_expr (E_num 1)),
     Define ''LV_USE_OBJ_PROPERTY'' (R_expr (E_num 0)),
     Define ''LV_USE_OBJ_PROPERTY_NAME'' (R_expr (E_num 1))]"

definition lv_conf_7 :: "directive list" where
  "lv_conf_7 =
    [Define ''LV_USE_VG_LITE_THORVG'' (R_expr (E_num 0)),
     If_expr (E_name ''LV_USE_VG_LITE_THORVG''),
     Define ''LV_VG_LITE_THORVG_LVGL_BLEND_SUPPORT'' (R_expr (E_num 0)),
     Define ''LV_VG_LITE_THORVG_YUV_SUPPORT'' (R_expr (E_num 0)),
     Define ''LV_VG_LITE_THORVG_LINEAR_GRADIENT_EXT_SUPPORT'' (R_expr (E_num 0)),
     Define ''LV_VG_LITE_THORVG_16PIXELS_ALIGN'' (R_expr (E_num 1)),
     Define ''LV_VG_LITE_THORVG_BUF_ADDR_ALIGN'' (R_expr (E_num 64)),
     Define ''LV_VG_LITE_THORVG_THREAD_RENDER'' (R_expr (E_num 0)),
     Endif,
     Define ''LV_USE_GESTURE_RECOGNITION'' (R_expr (E_num 0)),
     Define ''LV_BIG_ENDIAN_SYSTEM'' (R_expr (E_num 0)),
     Define ''LV_ATTRIBUTE_TICK_INC'' (R_text ''''),
     Define ''LV_ATTRIBUTE_TIMER_HANDLER'' (R_text ''''),
     Define ''LV_ATTRIBUTE_FLUSH_READY'' (R_text ''''),
     Define ''LV_ATTRIBUTE_MEM_ALIGN_SIZE'' (R_expr (E_num 1)),
     Define ''LV_ATTRIBUTE_MEM_ALIGN'' (R_text ''''),
     Define ''LV_ATTRIBUTE_LARGE_CONST'' (R_text ''''),
     Define ''LV_ATTRIBUTE_LARGE_RAM_ARRAY'' (R_text ''''),
     Define ''LV_ATTRIBUTE_FAST_MEM'' (R_text ''''),
     Define ''LV_EXPORT_CONST_INT'' (R_fun ''int_value'' ''struct _silence_gcc_warning''),
     Define ''LV_ATTRIBUTE_EXTERN_DATA'' (R_text ''''),
     Define ''LV_USE_FLOAT'' (R_expr (E_num 0)),
     Define ''LV_USE_MATRIX'' (R_expr (E_num 0)),
     Ifndef ''LV_USE_PRIVATE_API'',
     Define ''LV_USE_PRIVATE_API'' (R_expr (E_num 0)),
     Endif,
     Define ''LV_FONT_MONTSERRAT_8'' (R_expr (E_num 0)),
     Define ''LV_FONT_MONTSERRAT_10'' (R_expr (E_num 0)),
     Define ''LV_FONT_MONTSERRAT_12'' (R_expr (E_num 0)),
     Define ''LV_FONT_MONTSERRAT_14'' (R_expr (E_num 1)),
     Define ''LV_FONT_MONTSERRAT_16'' (R_expr (E_num 1)),
     Define ''LV_FONT_MONTSERRAT_18'' (R_expr (E_num 0)),
     Define ''LV_FONT_MONTSERRAT_20'' (R_expr (E_num 0)),
     Define ''LV_FONT_MONTSERRAT_22'' (R_expr (E_num 0)),
     Define ''LV_FONT_MONTSERRAT_24'' (R_expr (E_num 0)),
     Define ''LV_FONT_MONTSERRAT_26'' (R_expr (E_num 0)),
     Define ''LV_FONT_MONTSERRAT_28'' (R_expr (E_num 0)),
     Define ''LV_FONT_MONTSERRAT_30'' (R_expr (E_num 0)),
     Define ''LV_FONT_MONTSERRAT_32'' (R_expr (E_num 0)),
     Define ''LV_FONT_MONTSERRAT_34'' (R_expr (E_num 0)),
     Define ''LV_FONT_MONTSERRAT_36'' (R_expr (E_num 0)),
     Define ''LV_FONT_MONTSERRAT_38'' (R_expr (E_num 0)),
     Define ''LV_FONT_MONTSERRAT_40'' (R_expr (E_num 0)),
     Define ''LV_FONT_MONTSERRAT_42'' (R_expr (E_num 0)),
     Define ''LV_FONT_MONTSERRAT_44'' (R_expr (E_num 0)),
     Define ''LV_FONT_MONTSERRAT_46'' (R_expr (E_num 0)),
     Define ''LV_FONT_MONTSERRAT_48'' (R_expr (E_num 0)),
     Define ''LV_FONT_MONTSERRAT_28_COMPRESSED'' (R_expr (E_num 0)),
     Define ''LV_FONT_DEJAVU_16_PERSIAN_HEBREW'' (R_expr (E_num 0)),
     Define ''LV_FONT_SIMSUN_14_CJK'' (R_expr (E_num 0)),
     Define ''LV_FONT_SIMSUN_16_CJK'' (R_expr (E_num 0)),
     Define ''LV_FONT_SOURCE_HAN_SANS_SC_14_CJK'' (R_expr (E_num 0)),
     Define ''LV_FONT_SOURCE_HAN_SANS_SC_16_CJK'' (R_expr (E_num 0)),
     Define ''LV_FONT_UNSCII_8'' (R_expr (E_num 0)),
     Define ''LV_FONT_UNSCII_16'' (R_expr (E_num 0))]"

definition lv_conf_8 :: "directive list" where
  "lv_conf_8 =
    [Define ''LV_FONT_CUSTOM_DECLARE'' (R_text ''''),
     Define ''LV_FONT_DEFAULT'' (R_text ''&lv_font_montserrat_14''),
     Define ''LV_FONT_FMT_TXT_LARGE'' (R_expr (E_num 0)),
     Define ''LV_USE_FONT_COMPRESSED'' (R_expr (E_num 0)),
     Define ''LV_USE_FONT_PLACEHOLDER'' (R_expr (E_num 1)),
     Define ''LV_TXT_ENC'' (R_expr (E_name ''LV_TXT_ENC_UTF8'')),
     Define ''LV_TXT_BREAK_CHARS'' (R_text ''\" ,.;:-_)]}\"''),
     Define ''LV_TXT_LINE_BREAK_LONG_LEN'' (R_expr (E_num 0)),
     Define ''LV_TXT_LINE_BREAK_LONG_PRE_MIN_LEN'' (R_expr (E_num 3)),
     Define ''LV_TXT_LINE_BREAK_LONG_POST_MIN_LEN'' (R_expr (E_num 3)),
     Define ''LV_USE_BIDI'' (R_expr (E_num 0)),
     If_expr (E_name ''LV_USE_BIDI''),
     Define ''LV_BIDI_BASE_DIR_DEF'' (R_expr (E_name ''LV_BASE_DIR_AUTO'')),
     Endif,
     Define ''LV_USE_ARABIC_PERSIAN_CHARS'' (R_expr (E_num 0)),
     Define ''LV_TXT_COLOR_CMD'' (R_text ''\"#\"''),
     Define ''LV_WIDGETS_HAS_DEFAULT_VALUE'' (R_expr (E_num 1)),
     Define ''LV_USE_ANIMIMG'' (R_expr (E_num 1)),
     Define ''LV_USE_ARC'' (R_expr (E_num 1)),
     Define ''LV_USE_BAR'' (R_expr (E_num 1)),
     Define ''LV_USE_BUTTON'' (R_expr (E_num 1)),
     Define ''LV_USE_BUTTONMATRIX'' (R_expr (E_num 1)),
     Define ''LV_USE_CALENDAR'' (R_expr (E_num 1)),
     If_expr (E_name ''LV_USE_CALENDAR''),
     Define ''LV_CALENDAR_WEEK_STARTS_MONDAY'' (R_expr (E_num 0)),
     If_expr (E_name ''LV_CALENDAR_WEEK_STARTS_MONDAY''),
     Define ''LV_CALENDAR_DEFAULT_DAY_NAMES'' (R_text ''{\"Mo\", \"Tu\", \"We\", \"Th\", \"Fr\", \"Sa\", \"Su\"}''),
     Else_group,
     Define ''LV_CALENDAR_DEFAULT_DAY_NAMES'' (R_text ''{\"Su\", \"Mo\", \"Tu\", \"We\", \"Th\", \"Fr\", \"Sa\"}''),
     Endif,
     Define ''LV_CALENDAR_DEFAULT_MONTH_NAMES'' (R_text ''{\"January\", \"February\", \"March\",  \"April\", \"May\",  \"June\", \"July\", \"August\", \"September\", \"October\", \"November\", \"December\"}''),
     Define ''LV_USE_CALENDAR_HEADER_ARROW'' (R_expr (E_num 1)),
     Define ''LV_USE_CALENDAR_HEADER_DROPDOWN'' (R_expr (E_num 1)),
     Define ''LV_USE_CALENDAR_CHINESE'' (R_expr (E_num 0)),
     Endif,
     Define ''LV_USE_CANVAS'' (R_expr (E_num 1)),
     Define ''LV_USE_CHART'' (R_expr (E_num 1)),
     Define ''LV_USE_CHECKBOX'' (R_expr (E_num 1)),
     Define ''LV_USE_DROPDOWN'' (R_expr (E_num 1)),
     Define ''LV_USE_IMAGE'' (R_expr (E_num 1)),
     Define ''LV_USE_IMAGEBUTTON'' (R_expr (E_num 1)),
     Define ''LV_USE_KEYBOARD'' (R_expr (E_num 1)),
     Define ''LV_USE_LABEL'' (R_expr (E_num 1)),
     If_expr (E_name ''LV_USE_LABEL''),
     Define ''LV_LABEL_TEXT_SELECTION'' (R_expr (E_num 1)),
     Define ''LV_LABEL_LONG_TXT_HINT'' (R_expr (E_num 1)),
     Define ''LV_LABEL_WAIT_CHAR_COUNT'' (R_expr (E_num 3)),
     Endif,
     Define ''LV_USE_LED'' (R_expr (E_num 1))]"

definition lv_conf_9 :: "directive list" where
  "lv_conf_9 =
    [Define ''LV_USE_LINE'' (R_expr (E_num 1)),
     Define ''LV_USE_LIST'' (R_expr (E_num 1)),
     Define ''LV_USE_LOTTIE'' (R_expr (E_num 0)),
     Define ''LV_USE_MENU'' (R_expr (E_num 1)),
     Define ''LV_USE_MSGBOX'' (R_expr (E_num 1)),
     Define ''LV_USE_ROLLER'' (R_expr (E_num 1)),
     Define ''LV_USE_SCALE'' (R_expr (E_num 1)),
     Define ''LV_USE_SLIDER'' (R_expr (E_num 1)),
     Define ''LV_USE_SPAN'' (R_expr (E_num 1)),
     If_expr (E_name ''LV_USE_SPAN''),
     Define ''LV_SPAN_SNIPPET_STACK_SIZE'' (R_expr (E_num 64)),
     Endif,
     Define ''LV_USE_SPINBOX'' (R_expr (E_num 1)),
     Define ''LV_USE_SPINNER'' (R_expr (E_num 1)),
     Define ''LV_USE_SWITCH'' (R_expr (E_num 1)),
     Define ''LV_USE_TABLE'' (R_expr (E_num 1)),
     Define ''LV_USE_TABVIEW'' (R_expr (E_num 1)),
     Define ''LV_USE_TEXTAREA'' (R_expr (E_num 1)),
     If_expr (E_ne (E_name ''LV_USE_TEXTAREA'') (E_num 0)),
     Define ''LV_TEXTAREA_DEF_PWD_SHOW_TIME'' (R_expr (E_num 1500)),
     Endif,
     Define ''LV_USE_TILEVIEW'' (R_expr (E_num 1)),
     Define ''LV_USE_WIN'' (R_expr (E_num 1)),
     Define ''LV_USE_3DTEXTURE'' (R_expr (E_num 0)),
     Define ''LV_USE_THEME_DEFAULT'' (R_expr (E_num 1)),
     If_expr (E_name ''LV_USE_THEME_DEFAULT''),
     Define ''LV_THEME_DEFAULT_DARK'' (R_expr (E_num 0)),
     Define ''LV_THEME_DEFAULT_GROW'' (R_expr (E_num 1)),
     Define ''LV_THEME_DEFAULT_TRANSITION_TIME'' (R_expr (E_num 80)),
     Endif,
     Define ''LV_USE_THEME_SIMPLE'' (R_expr (E_num 1)),
     Define ''LV_USE_THEME_MONO'' (R_expr (E_num 1)),
     Define ''LV_USE_FLEX'' (R_expr (E_num 1)),
     Define ''LV_USE_GRID'' (R_expr (E_num 1)),
     Define ''LV_FS_DEFAULT_DRIVER_LETTER'' (R_text nul_letter),
     Define ''LV_USE_FS_STDIO'' (R_expr (E_num 0)),
     If_expr (E_name ''LV_USE_FS_STDIO''),
     Define ''LV_FS_STDIO_LETTER'' (R_text nul_letter),
     Define ''LV_FS_STDIO_PATH'' (R_text ''\"\"''),
     Define ''LV_FS_STDIO_CACHE_SIZE'' (R_expr (E_num 0)),
     Endif,
     Define ''LV_USE_FS_POSIX'' (R_expr (E_num 0)),
     If_expr (E_name ''LV_USE_FS_POSIX''),
     Define ''LV_FS_POSIX_LETTER'' (R_text nul_letter),
     Define ''LV_FS_POSIX_PATH'' (R_text ''\"\"''),
     Define ''LV_FS_POSIX_CACHE_SIZE'' (R_expr (E_num 0)),
     Endif,
     Define ''LV_USE_FS_WIN32'' (R_expr (E_num 0)),
     If_expr (E_name ''LV_USE_FS_WIN32''),
     Define ''LV_FS_WIN32_LETTER'' (R_text nul_letter),
     Define ''LV_FS_WIN32_PATH'' (R_text ''\"\"''),
     Define ''LV_FS_WIN32_CACHE_SIZE'' (R_expr (E_num 0)),
     Endif]"

definition lv_conf_10 :: "directive list" where
  "lv_conf_10 =
    [Define ''LV_USE_FS_FATFS'' (R_expr (E_num 0)),
     If_expr (E_name ''LV_USE_FS_FATFS''),
     Define ''LV_FS_FATFS_LETTER'' (R_text nul_letter),
     Define ''LV_FS_FATFS_PATH'' (R_text ''\"\"''),
     Define ''LV_FS_FATFS_CACHE_SIZE'' (R_expr (E_num 0)),
     Endif,
     Define ''LV_USE_FS_MEMFS'' (R_expr (E_num 0)),
     If_expr (E_name ''LV_USE_FS_MEMFS''),
     Define ''LV_FS_MEMFS_LETTER'' (R_text nul_letter),
     Endif,
     Define ''LV_USE_FS_LITTLEFS'' (R_expr (E_num 0)),
     If_expr (E_name ''LV_USE_FS_LITTLEFS''),
     Define ''LV_FS_LITTLEFS_LETTER'' (R_text nul_letter),
     Define ''LV_FS_LITTLEFS_PATH'' (R_text ''\"\"''),
     Endif,
     Define ''LV_USE_FS_ARDUINO_ESP_LITTLEFS'' (R_expr (E_num 0)),
     If_expr (E_name ''LV_USE_FS_ARDUINO_ESP_LITTLEFS''),
     Define ''LV_FS_ARDUINO_ESP_LITTLEFS_LETTER'' (R_text nul_letter),
     Define ''LV_FS_ARDUINO_ESP_LITTLEFS_PATH'' (R_text ''\"\"''),
     Endif,
     Define ''LV_USE_FS_ARDUINO_SD'' (R_expr (E_num 0)),
     If_expr (E_name ''LV_USE_FS_ARDUINO_SD''),
     Define ''LV_FS_ARDUINO_SD_LETTER'' (R_text nul_letter),
     Define ''LV_FS_ARDUINO_SD_PATH'' (R_text ''\"\"''),
     Endif,
     Define ''LV_USE_FS_UEFI'' (R_expr (E_num 0)),
     If_expr (E_name ''LV_USE_FS_UEFI''),
     Define ''LV_FS_UEFI_LETTER'' (R_text nul_letter),
     Endif,
     Define ''LV_USE_LODEPNG'' (R_expr (E_num 0)),
     Define ''LV_USE_LIBPNG'' (R_expr (E_num 0)),
     Define ''LV_USE_BMP'' (R_expr (E_num 0)),
     Define ''LV_USE_TJPGD'' (R_expr (E_num 0)),
     Define ''LV_USE_LIBJPEG_TURBO'' (R_expr (E_num 0)),
     Define ''LV_USE_GIF'' (R_expr (E_num 0)),
     If_expr (E_name ''LV_USE_GIF''),
     Define ''LV_GIF_CACHE_DECODE_DATA'' (R_expr (E_num 0)),
     Endif,
     Define ''LV_BIN_DECODER_RAM_LOAD'' (R_expr (E_num 0)),
     Define ''LV_USE_RLE'' (R_expr (E_num 0)),
     Define ''LV_USE_QRCODE'' (R_expr (E_num 1)),
     Define ''LV_USE_BARCODE'' (R_expr (E_num 0)),
     Define ''LV_USE_FREETYPE'' (R_expr (E_num 0)),
     If_expr (E_name ''LV_USE_FREETYPE''),
     Define ''LV_FREETYPE_USE_LVGL_PORT'' (R_expr (E_num 0)),
     Define ''LV_FREETYPE_CACHE_FT_GLYPH_CNT'' (R_expr (E_num 256)),
     Endif,
     Define ''LV_USE_TINY_TTF'' (R_expr (E_num 0)),
     If_expr (E_name ''LV_USE_TINY_TTF''),
     Define ''LV_TINY_TTF_FILE_SUPPORT'' (R_expr (E_num 0)),
     Define ''LV_TINY_TTF_CACHE_GLYPH_CNT'' (R_expr (E_num 256)),
     Endif,
     Define ''LV_USE_RLOTTIE'' (R_expr (E_num 0)),
     Define ''LV_USE_VECTOR_GRAPHIC'' (R_expr (E_num 0)),
     Define ''LV_USE_THORVG_INTERNAL'' (R_expr (E_num 0)),
     Define ''LV_USE_THORVG_EXTERNAL'' (R_expr (E_num 0)),
     Define ''LV_USE_LZ4_INTERNAL'' (R_expr (E_num 0)),
     Define ''LV_USE_LZ4_EXTERNAL'' (R_expr (E_num 0)),
     Define ''LV_USE_SVG'' (R_expr (E_num 0)),
     Define ''LV_USE_SVG_ANIMATION'' (R_expr (E_num 0)),
     Define ''LV_USE_SVG_DEBUG'' (R_expr (E_num 0)),
     Define ''LV_USE_FFMPEG'' (R_expr (E_num 0)),
     If_expr (E_name ''LV_USE_FFMPEG''),
     Define ''LV_FFMPEG_DUMP_FORMAT'' (R_expr (E_num 0)),
     Define ''LV_FFMPEG_PLAYER_USE_LV_FS'' (R_expr (E_num 0)),
     Endif]"

definition lv_conf_11 :: "directive list" where
  "lv_conf_11 =
    [Define ''LV_USE_SNAPSHOT'' (R_expr (E_num 0)),
     Define ''LV_USE_SYSMON'' (R_expr (E_num 0)),
     If_expr (E_name ''LV_USE_SYSMON''),
     Define ''LV_SYSMON_GET_IDLE'' (R_expr (E_name ''lv_os_get_idle_percent'')),
     Define ''LV_USE_PERF_MONITOR'' (R_expr (E_num 0)),
     If_expr (E_name ''LV_USE_PERF_MONITOR''),
     Define ''LV_USE_PERF_MONITOR_POS'' (R_expr (E_name ''LV_ALIGN_BOTTOM_RIGHT'')),
     Define ''LV_USE_PERF_MONITOR_LOG_MODE'' (R_expr (E_num 0)),
     Endif,
     Define ''LV_USE_MEM_MONITOR'' (R_expr (E_num 0)),
     If_expr (E_name ''LV_USE_MEM_MONITOR''),
     Define ''LV_USE_MEM_MONITOR_POS'' (R_expr (E_name ''LV_ALIGN_BOTTOM_LEFT'')),
     Endif,
     Endif,
     Define ''LV_USE_PROFILER'' (R_expr (E_num 0)),
     If_expr (E_name ''LV_USE_PROFILER''),
     Define ''LV_USE_PROFILER_BUILTIN'' (R_expr (E_num 1)),
     If_expr (E_name ''LV_USE_PROFILER_BUILTIN''),
     Define ''LV_PROFILER_BUILTIN_BUF_SIZE'' (R_expr (E_times (E_num 16) (E_num 1024))),
     Define ''LV_PROFILER_BUILTIN_DEFAULT_ENABLE'' (R_expr (E_num 1)),
     Endif,
     Define ''LV_PROFILER_INCLUDE'' (R_text ''\"lvgl/src/misc/lv_profiler_builtin.h\"''),
     Define ''LV_PROFILER_BEGIN'' (R_expr (E_name ''LV_PROFILER_BUILTIN_BEGIN'')),
     Define ''LV_PROFILER_END'' (R_expr (E_name ''LV_PROFILER_BUILTIN_END'')),
     Define ''LV_PROFILER_BEGIN_TAG'' (R_expr (E_name ''LV_PROFILER_BUILTIN_BEGIN_TAG'')),
     Define ''LV_PROFILER_END_TAG'' (R_expr (E_name ''LV_PROFILER_BUILTIN_END_TAG'')),
     Define ''LV_PROFILER_LAYOUT'' (R_expr (E_num 1)),
     Define ''LV_PROFILER_REFR'' (R_expr (E_num 1)),
     Define ''LV_PROFILER_DRAW'' (R_expr (E_num 1)),
     Define ''LV_PROFILER_INDEV'' (R_expr (E_num 1)),
     Define ''LV_PROFILER_DECODER'' (R_expr (E_num 1)),
     Define ''LV_PROFILER_FONT'' (R_expr (E_num 1)),
     Define ''LV_PROFILER_FS'' (R_expr (E_num 1)),
     Define ''LV_PROFILER_STYLE'' (R_expr (E_num 0)),
     Define ''LV_PROFILER_TIMER'' (R_expr (E_num 1)),
     Define ''LV_PROFILER_CACHE'' (R_expr (E_num 1)),
     Define ''LV_PROFILER_EVENT'' (R_expr (E_num 1)),
     Endif,
     Define ''LV_USE_MONKEY'' (R_expr (E_num 0)),
     Define ''LV_USE_GRIDNAV'' (R_expr (E_num 0)),
     Define ''LV_USE_FRAGMENT'' (R_expr (E_num 0)),
     Define ''LV_USE_IMGFONT'' (R_expr (E_num 0)),
     Define ''LV_USE_OBSERVER'' (R_expr (E_num 1)),
     Define ''LV_USE_IME_PINYIN'' (R_expr (E_num 0)),
     If_expr (E_name ''LV_USE_IME_PINYIN''),
     Define ''LV_IME_PINYIN_USE_DEFAULT_DICT'' (R_expr (E_num 1)),
     Define ''LV_IME_PINYIN_CAND_TEXT_NUM'' (R_expr (E_num 6)),
     Define ''LV_IME_PINYIN_USE_K9_MODE'' (R_expr (E_num 1)),
     If_expr (E_eq (E_name ''LV_IME_PINYIN_USE_K9_MODE'') (E_num 1)),
     Define ''LV_IME_PINYIN_K9_CAND_TEXT_NUM'' (R_expr (E_num 3)),
     Endif,
     Endif,
     Define ''LV_USE_FILE_EXPLORER'' (R_expr (E_num 0)),
     If_expr (E_name ''LV_USE_FILE_EXPLORER''),
     Define ''LV_FILE_EXPLORER_PATH_MAX_LEN'' (R_expr (E_num 128)),
     Define ''LV_FILE_EXPLORER_QUICK_ACCESS'' (R_expr (E_num 1)),
     Endif,
     Define ''LV_USE_FONT_MANAGER'' (R_expr (E_num 0)),
     If_expr (E_name ''LV_USE_FONT_MANAGER''),
     Define ''LV_FONT_MANAGER_NAME_MAX_LEN'' (R_expr (E_num 32)),
     Endif]"

definition lv_conf_12 :: "directive list" where
  "lv_conf_12 =
    [Define ''LV_USE_TEST'' (R_expr (E_num 0)),
     If_expr (E_name ''LV_USE_TEST''),
     Define ''LV_USE_TEST_SCREENSHOT_COMPARE'' (R_expr (E_num 0)),
     Endif,
     Define ''LV_USE_XML'' (R_expr (E_num 0)),
     Define ''LV_USE_COLOR_FILTER'' (R_expr (E_num 0)),
     Define ''LV_USE_SDL'' (R_expr (E_num 0)),
     If_expr (E_name ''LV_USE_SDL''),
     Define ''LV_SDL_INCLUDE_PATH'' (R_text ''<SDL2/SDL.h>''),
     Define ''LV_SDL_RENDER_MODE'' (R_expr (E_name ''LV_DISPLAY_RENDER_MODE_DIRECT'')),
     Define ''LV_SDL_BUF_COUNT'' (R_expr (E_num 1)),
     Define ''LV_SDL_ACCELERATED'' (R_expr (E_num 1)),
     Define ''LV_SDL_FULLSCREEN'' (R_expr (E_num 0)),
     Define ''LV_SDL_DIRECT_EXIT'' (R_expr (E_num 1)),
     Define ''LV_SDL_MOUSEWHEEL_MODE'' (R_expr (E_name ''LV_SDL_MOUSEWHEEL_MODE_ENCODER'')),
     Endif,
     Define ''LV_USE_X11'' (R_expr (E_num 0)),
     If_expr (E_name ''LV_USE_X11''),
     Define ''LV_X11_DIRECT_EXIT'' (R_expr (E_num 1)),
     Define ''LV_X11_DOUBLE_BUFFER'' (R_expr (E_num 1)),
     Define ''LV_X11_RENDER_MODE_PARTIAL'' (R_expr (E_num 1)),
     Define ''LV_X11_RENDER_MODE_DIRECT'' (R_expr (E_num 0)),
     Define ''LV_X11_RENDER_MODE_FULL'' (R_expr (E_num 0)),
     Endif,
     Define ''LV_USE_WAYLAND'' (R_expr (E_num 0)),
     If_expr (E_name ''LV_USE_WAYLAND''),
     Define ''LV_WAYLAND_BUF_COUNT'' (R_expr (E_num 1)),
     Define ''LV_WAYLAND_USE_DMABUF'' (R_expr (E_num 0)),
     Define ''LV_WAYLAND_RENDER_MODE'' (R_expr (E_name ''LV_DISPLAY_RENDER_MODE_PARTIAL'')),
     Define ''LV_WAYLAND_WINDOW_DECORATIONS'' (R_expr (E_num 0)),
     Define ''LV_WAYLAND_WL_SHELL'' (R_expr (E_num 0)),
     Endif,
     Define ''LV_USE_LINUX_FBDEV'' (R_expr (E_num 0)),
     If_expr (E_name ''LV_USE_LINUX_FBDEV''),
     Define ''LV_LINUX_FBDEV_BSD'' (R_expr (E_num 0)),
     Define ''LV_LINUX_FBDEV_RENDER_MODE'' (R_expr (E_name ''LV_DISPLAY_RENDER_MODE_PARTIAL'')),
     Define ''LV_LINUX_FBDEV_BUFFER_COUNT'' (R_expr (E_num 0)),
     Define ''LV_LINUX_FBDEV_BUFFER_SIZE'' (R_expr (E_num 60)),
     Define ''LV_LINUX_FBDEV_MMAP'' (R_expr (E_num 1)),
     Endif,
     Define ''LV_USE_NUTTX'' (R_expr (E_num 0)),
     If_expr (E_name ''LV_USE_NUTTX''),
     Define ''LV_USE_NUTTX_INDEPENDENT_IMAGE_HEAP'' (R_expr (E_num 0)),
     Define ''LV_NUTTX_DEFAULT_DRAW_BUF_USE_INDEPENDENT_IMAGE_HEAP'' (R_expr (E_num 0)),
     Define ''LV_USE_NUTTX_LIBUV'' (R_expr (E_num 0)),
     Define ''LV_USE_NUTTX_CUSTOM_INIT'' (R_expr (E_num 0)),
     Define ''LV_USE_NUTTX_LCD'' (R_expr (E_num 0)),
     If_expr (E_name ''LV_USE_NUTTX_LCD''),
     Define ''LV_NUTTX_LCD_BUFFER_COUNT'' (R_expr (E_num 0)),
     Define ''LV_NUTTX_LCD_BUFFER_SIZE'' (R_expr (E_num 60)),
     Endif,
     Define ''LV_USE_NUTTX_TOUCHSCREEN'' (R_expr (E_num 0)),
     Define ''LV_NUTTX_TOUCHSCREEN_CURSOR_SIZE'' (R_expr (E_num 0)),
     Endif,
     Define ''LV_USE_LINUX_DRM'' (R_expr (E_num 0)),
     If_expr (E_name ''LV_USE_LINUX_DRM''),
     Define ''LV_LINUX_DRM_GBM_BUFFERS'' (R_expr (E_num 0)),
     Endif,
     Define ''LV_USE_TFT_ESPI'' (R_expr (E_num 0)),
     Define ''LV_USE_EVDEV'' (R_expr (E_num 0)),
     Define ''LV_USE_LIBINPUT'' (R_expr (E_num 0)),
     If_expr (E_name ''LV_USE_LIBINPUT''),
     Define ''LV_LIBINPUT_BSD'' (R_expr (E_num 0)),
     Define ''LV_LIBINPUT_XKB'' (R_expr (E_num 0)),
     If_expr (E_name ''LV_LIBINPUT_XKB''),
     Define ''LV_LIBINPUT_XKB_KEY_MAP'' (R_text ''{ .rules = NULL, .model = \"pc101\", .layout = \"us\", .variant = NULL, .options = NULL }''),
     Endif,
     Endif]"

definition lv_conf_13 :: "directive list" where
  "lv_conf_13 =
    [Define ''LV_USE_ST7735'' (R_expr (E_num 0)),
     Define ''LV_USE_ST7789'' (R_expr (E_num 0)),
     Define ''LV_USE_ST7796'' (R_expr (E_num 0)),
     Define ''LV_USE_ILI9341'' (R_expr (E_num 1)),
     Define ''LV_USE_FT81X'' (R_expr (E_num 0)),
     If_expr (E_bit_or (E_bit_or (E_bit_or (E_name ''LV_USE_ST7735'') (E_name ''LV_USE_ST7789'')) (E_name ''LV_USE_ST7796'')) (E_name ''LV_USE_ILI9341'')),
     Define ''LV_USE_GENERIC_MIPI'' (R_expr (E_num 1)),
     Else_group,
     Define ''LV_USE_GENERIC_MIPI'' (R_expr (E_num 0)),
     Endif,
     Define ''LV_USE_RENESAS_GLCDC'' (R_expr (E_num 0)),
     Define ''LV_USE_ST_LTDC'' (R_expr (E_num 0)),
     If_expr (E_name ''LV_USE_ST_LTDC''),
     Define ''LV_ST_LTDC_USE_DMA2D_FLUSH'' (R_expr (E_num 0)),
     Endif,
     Define ''LV_USE_WINDOWS'' (R_expr (E_num 0)),
     Define ''LV_USE_UEFI'' (R_expr (E_num 0)),
     If_expr (E_name ''LV_USE_UEFI''),
     Define ''LV_USE_UEFI_INCLUDE'' (R_text ''\"myefi.h\"''),
     Define ''LV_UEFI_USE_MEMORY_SERVICES'' (R_expr (E_num 0)),
     Endif,
     Define ''LV_USE_OPENGLES'' (R_expr (E_num 0)),
     If_expr (E_name ''LV_USE_OPENGLES''),
     Define ''LV_USE_OPENGLES_DEBUG'' (R_expr (E_num 1)),
     Endif,
     Define ''LV_USE_QNX'' (R_expr (E_num 0)),
     If_expr (E_name ''LV_USE_QNX''),
     Define ''LV_QNX_BUF_COUNT'' (R_expr (E_num 1)),
     Endif,
     Define ''LV_BUILD_EXAMPLES'' (R_expr (E_num 1)),
     Define ''LV_BUILD_DEMOS'' (R_expr (E_num 1)),
     If_expr (E_name ''LV_BUILD_DEMOS''),
     Define ''LV_USE_DEMO_WIDGETS'' (R_expr (E_num 0)),
     Define ''LV_USE_DEMO_KEYPAD_AND_ENCODER'' (R_expr (E_num 0)),
     Define ''LV_USE_DEMO_BENCHMARK'' (R_expr (E_num 0)),
     If_expr (E_name ''LV_USE_DEMO_BENCHMARK''),
     Define ''LV_DEMO_BENCHMARK_ALIGNED_FONTS'' (R_expr (E_num 0)),
     Endif,
     Define ''LV_USE_DEMO_RENDER'' (R_expr (E_num 0)),
     Define ''LV_USE_DEMO_STRESS'' (R_expr (E_num 0)),
     Define ''LV_USE_DEMO_MUSIC'' (R_expr (E_num 0)),
     If_expr (E_name ''LV_USE_DEMO_MUSIC''),
     Define ''LV_DEMO_MUSIC_SQUARE'' (R_expr (E_num 0)),
     Define ''LV_DEMO_MUSIC_LANDSCAPE'' (R_expr (E_num 0)),
     Define ''LV_DEMO_MUSIC_ROUND'' (R_expr (E_num 0)),
     Define ''LV_DEMO_MUSIC_LARGE'' (R_expr (E_num 0)),
     Define ''LV_DEMO_MUSIC_AUTO_PLAY'' (R_expr (E_num 0)),
     Endif,
     Define ''LV_USE_DEMO_VECTOR_GRAPHIC'' (R_expr (E_num 0)),
     Define ''LV_USE_DEMO_FLEX_LAYOUT'' (R_expr (E_num 0)),
     Define ''LV_USE_DEMO_MULTILANG'' (R_expr (E_num 0)),
     Define ''LV_USE_DEMO_TRANSFORM'' (R_expr (E_num 0)),
     Define ''LV_USE_DEMO_SCROLL'' (R_expr (E_num 0)),
     Define ''LV_USE_DEMO_EBIKE'' (R_expr (E_num 0)),
     If_expr (E_name ''LV_USE_DEMO_EBIKE''),
     Define ''LV_DEMO_EBIKE_PORTRAIT'' (R_expr (E_num 0)),
     Endif,
     Define ''LV_USE_DEMO_HIGH_RES'' (R_expr (E_num 0)),
     Define ''LV_USE_DEMO_SMARTWATCH'' (R_expr (E_num 0)),
     Endif]"

definition lv_conf_14 :: "directive list" where
  "lv_conf_14 =
    [Endif,
     Endif]"

definition lv_conf_parts :: "directive list list" where
  "lv_conf_parts = [lv_conf_2, lv_conf_3, lv_conf_4, lv_conf_5, lv_conf_6, lv_conf_7, lv_conf_8,
     lv_conf_9, lv_conf_10, lv_conf_11, lv_conf_12, lv_conf_13]"

definition lv_conf_h :: "directive list" where
  "lv_conf_h = lv_conf_1 @ concat lv_conf_parts @ lv_conf_14"

section \<open>The parts one by one\<close>

text \<open>
  Between the guards two groups are open. \<open>open_guards\<close> is their state at the first inclusion,
  \<open>shut_guards\<close> at a later one.
\<close>

definition guard :: "bool \<Rightarrow> group" where
  "guard b = \<lparr>g_outer = True, g_taken = b, g_active = b, g_else = False\<rparr>"

definition open_guards :: "group list" where "open_guards = [guard True, guard True]"
definition shut_guards :: "group list" where "shut_guards = [guard False, guard True]"

definition passes :: "group list \<Rightarrow> directive list \<Rightarrow> macros \<Rightarrow> bool" where
  "passes gs ds t \<longleftrightarrow>
     (case pp_run ds \<lparr>macros = t, groups = gs\<rparr> of Inl e \<Rightarrow> False | Inr s \<Rightarrow> groups s = gs)"

definition skips :: "directive list \<Rightarrow> bool" where
  "skips ds \<longleftrightarrow> (\<forall>t. pp_run ds \<lparr>macros = t, groups = shut_guards\<rparr> = Inr \<lparr>macros = t, groups = shut_guards\<rparr>)"

text \<open>
  The constants the settings are chosen from come from LVGL's own headers: each is a number, or
  not defined.
\<close>

definition lvgl_constants :: "string list" where
  "lvgl_constants = [''LV_STDLIB_BUILTIN'', ''LV_STDLIB_CLIB'', ''LV_OS_NONE'', ''LV_OS_CUSTOM'',
     ''LV_OS_FREERTOS'', ''LV_DRAW_SW_ASM_NONE'', ''LV_DRAW_SW_ASM_CUSTOM'']"

definition plain :: "macros \<Rightarrow> string \<Rightarrow> bool" where
  "plain t x \<longleftrightarrow> lookup t x = None \<or> (\<exists>n. lookup t x = Some (R_expr (E_num n)))"

definition plain_constants :: "macros \<Rightarrow> bool" where
  "plain_constants t \<longleftrightarrow> (\<forall>x \<in> set lvgl_constants. plain t x)"

lemma plain_cases:
  "plain_constants t \<Longrightarrow> x \<in> set lvgl_constants \<Longrightarrow> lookup t x = None \<or> (\<exists>n. lookup t x = Some (R_expr (E_num n)))"
  by (simp add: plain_constants_def plain_def)

definition untouched :: "directive list \<Rightarrow> bool" where
  "untouched ds \<longleftrightarrow> list_all (\<lambda>x. \<not> list_ex (sets_macro x) ds) lvgl_constants"

lemmas run_simps = pp_active_def open_group_def set_macro_def pp_bin_def pp_bool_def
  passes_def open_guards_def guard_def

lemma part_2: "plain_constants t \<Longrightarrow> passes open_guards lv_conf_2 t"
  using plain_cases [of t "''LV_STDLIB_BUILTIN''"] plain_cases [of t "''LV_STDLIB_CLIB''"]
  by (auto simp: lv_conf_2_def run_simps lvgl_constants_def)

lemma part_3: "plain_constants t \<Longrightarrow> passes open_guards lv_conf_3 t"
  using plain_cases [of t "''LV_OS_NONE''"] plain_cases [of t "''LV_OS_CUSTOM''"]
    plain_cases [of t "''LV_OS_FREERTOS''"]
  by (auto simp: lv_conf_3_def run_simps lvgl_constants_def)

text \<open>The fourth part switches the drawing code on, with the colour formats of the images.\<close>

definition draws_formats :: "macros \<Rightarrow> bool" where
  "draws_formats ms \<longleftrightarrow> lookup ms ''LV_DRAW_SW_SUPPORT_RGB565'' = Some (R_expr (E_num 1))
     \<and> lookup ms ''LV_DRAW_SW_SUPPORT_RGB565A8'' = Some (R_expr (E_num 1))"

lemma part_4_run: "plain_constants t \<Longrightarrow>
   case pp_run lv_conf_4 \<lparr>macros = t, groups = open_guards\<rparr> of
     Inl e \<Rightarrow> False | Inr s \<Rightarrow> groups s = open_guards \<and> draws_formats (macros s)"
  using plain_cases [of t "''LV_DRAW_SW_ASM_NONE''"] plain_cases [of t "''LV_DRAW_SW_ASM_CUSTOM''"]
  by (auto simp: lv_conf_4_def run_simps lvgl_constants_def draws_formats_def)

lemma part_4: "plain_constants t \<Longrightarrow> passes open_guards lv_conf_4 t"
  using part_4_run [of t] by (simp add: passes_def split: sum.split_asm)

lemma part_5: "passes open_guards lv_conf_5 t" by code_simp
lemma part_6: "passes open_guards lv_conf_6 t" by code_simp

lemma part_7: "passes open_guards lv_conf_7 t"
  by (cases "lookup t ''LV_USE_PRIVATE_API''") (auto simp: lv_conf_7_def run_simps)

lemma part_8: "passes open_guards lv_conf_8 t" by code_simp
lemma part_9: "passes open_guards lv_conf_9 t" by code_simp
lemma part_10: "passes open_guards lv_conf_10 t" by code_simp
lemma part_11: "passes open_guards lv_conf_11 t" by code_simp
lemma part_12: "passes open_guards lv_conf_12 t" by code_simp
lemma part_13: "passes open_guards lv_conf_13 t" by code_simp

text \<open>A panel driver of the last part brings the common part of the panel drivers.\<close>

lemma part_13_panel:
  "case pp_run lv_conf_13 \<lparr>macros = t, groups = open_guards\<rparr> of
     Inl e \<Rightarrow> False | Inr s \<Rightarrow> lookup (macros s) ''LV_USE_GENERIC_MIPI'' = Some (R_expr (E_num 1))"
  by code_simp

section \<open>The header as a whole\<close>

lemma passes_run:
  assumes "passes gs ds t"
  obtains t' where "pp_run ds \<lparr>macros = t, groups = gs\<rparr> = Inr \<lparr>macros = t', groups = gs\<rparr>"
proof -
  from assms obtain s where "pp_run ds \<lparr>macros = t, groups = gs\<rparr> = Inr s" "groups s = gs"
    by (auto simp: passes_def split: sum.split_asm)
  then show thesis by (intro that [of "macros s"]) (cases s, simp)
qed

lemma untouched_plain:
  assumes "untouched ds" and "pp_run ds s = Inr s'" and "plain_constants (macros s)"
  shows "plain_constants (macros s')"
  using assms pp_run_other [OF assms(2)]
  by (auto simp: untouched_def plain_constants_def plain_def list_all_iff)

text \<open>The constants matter in the first three parts only, which do not set them.\<close>

lemma part_passes:
  "k < length lv_conf_parts \<Longrightarrow> (k < 3 \<Longrightarrow> plain_constants t) \<Longrightarrow> passes open_guards (lv_conf_parts ! k) t"
  by (auto simp: lv_conf_parts_def less_Suc_eq part_2 part_3 part_4 part_5 part_6 part_7 part_8
      part_9 part_10 part_11 part_12 part_13)

lemma first_untouched: "list_all untouched [lv_conf_2, lv_conf_3, lv_conf_4]"
  by code_simp

lemma part_untouched: "k < 3 \<Longrightarrow> untouched (lv_conf_parts ! k)"
  using first_untouched by (auto simp: lv_conf_parts_def less_Suc_eq numeral_3_eq_3)

lemma after_parts:
  assumes "plain_constants t" and "k \<le> length lv_conf_parts"
  shows "\<exists>t'. pp_run (concat (take k lv_conf_parts)) \<lparr>macros = t, groups = open_guards\<rparr>
    = Inr \<lparr>macros = t', groups = open_guards\<rparr> \<and> (k \<le> 3 \<longrightarrow> plain_constants t')"
  using assms(2)
proof (induction k)
  case 0
  then show ?case using assms(1) by simp
next
  case (Suc k)
  then obtain t1 where t1: "pp_run (concat (take k lv_conf_parts)) \<lparr>macros = t, groups = open_guards\<rparr>
      = Inr \<lparr>macros = t1, groups = open_guards\<rparr>" "k \<le> 3 \<longrightarrow> plain_constants t1"
    by auto
  have "passes open_guards (lv_conf_parts ! k) t1"
    by (rule part_passes) (use Suc.prems t1 in simp_all)
  then obtain t2 where t2: "pp_run (lv_conf_parts ! k) \<lparr>macros = t1, groups = open_guards\<rparr>
      = Inr \<lparr>macros = t2, groups = open_guards\<rparr>"
    by (rule passes_run)
  have "plain_constants t2" if "Suc k \<le> 3"
    using untouched_plain [OF part_untouched t2] t1(2) that by simp
  with t1 t2 Suc.prems show ?case by (simp add: take_Suc_conv_app_nth pp_run_append)
qed

text \<open>What a part leaves is what a reader finds, when no later part sets it.\<close>

lemma part_reached:
  assumes "pp_run (concat lv_conf_parts) \<lparr>macros = t, groups = open_guards\<rparr> = Inr s"
    and "plain_constants t" and "k < length lv_conf_parts"
  obtains t' s' where "k \<le> 3 \<Longrightarrow> plain_constants t'"
    and "pp_run (lv_conf_parts ! k) \<lparr>macros = t', groups = open_guards\<rparr> = Inr s'"
    and "pp_run (concat (drop (Suc k) lv_conf_parts)) s' = Inr s"
proof -
  from after_parts [OF assms(2), of k] assms(3) obtain t' where
    t': "pp_run (concat (take k lv_conf_parts)) \<lparr>macros = t, groups = open_guards\<rparr>
      = Inr \<lparr>macros = t', groups = open_guards\<rparr>" "k \<le> 3 \<longrightarrow> plain_constants t'"
    by auto
  have "concat lv_conf_parts
      = concat (take k lv_conf_parts) @ lv_conf_parts ! k @ concat (drop (Suc k) lv_conf_parts)"
    by (subst id_take_nth_drop [OF assms(3)]) simp
  with assms(1) t'(1) have "pp_run (lv_conf_parts ! k @ concat (drop (Suc k) lv_conf_parts))
      \<lparr>macros = t', groups = open_guards\<rparr> = Inr s"
    by (simp add: pp_run_append)
  with t'(2) show thesis by (auto simp: pp_run_append intro: that split: sum.split_asm)
qed

definition set_later :: "string \<Rightarrow> nat \<Rightarrow> bool" where
  "set_later x k \<longleftrightarrow> list_ex (list_ex (sets_macro x)) (drop (Suc k) lv_conf_parts)"

lemma not_set_later:
  "\<not> set_later x k \<Longrightarrow> pp_run (concat (drop (Suc k) lv_conf_parts)) s' = Inr s \<Longrightarrow>
    lookup (macros s) x = lookup (macros s') x"
  by (erule pp_run_other) (auto simp: set_later_def list_ex_iff)

text \<open>\<open>setting k x v\<close>: the part with number \<open>k\<close> sets \<open>x\<close> outside every group, for good.\<close>

definition setting :: "nat \<Rightarrow> string \<Rightarrow> replacement \<Rightarrow> bool" where
  "setting k x v \<longleftrightarrow> k < length lv_conf_parts \<and> stands 0 x (lv_conf_parts ! k) None = Some v \<and> \<not> set_later x k"

lemma setting_found:
  assumes "pp_run (concat lv_conf_parts) \<lparr>macros = t, groups = open_guards\<rparr> = Inr s"
    and "plain_constants t" and set: "setting k x v"
  shows "lookup (macros s) x = Some v"
proof -
  obtain t' s' where s': "pp_run (lv_conf_parts ! k) \<lparr>macros = t', groups = open_guards\<rparr> = Inr s'"
    "pp_run (concat (drop (Suc k) lv_conf_parts)) s' = Inr s"
    by (rule part_reached [OF assms(1,2)]) (use set in \<open>auto simp: setting_def\<close>)
  have "lookup (macros s') x = Some v"
    by (rule stands_sound [where base = open_guards and depth = 0 and r = None, OF _ s'(1)])
       (use set in \<open>simp_all add: setting_def within_def kept_def open_guards_def guard_def\<close>)
  with not_set_later [OF _ s'(2)] set show ?thesis by (simp add: setting_def)
qed

lemma lv_conf_formats:
  assumes "pp_run (concat lv_conf_parts) \<lparr>macros = t, groups = open_guards\<rparr> = Inr s" and "plain_constants t"
  shows "draws_formats (macros s)"
proof -
  obtain t' s' where t': "2 \<le> (3::nat) \<Longrightarrow> plain_constants t'"
    "pp_run (lv_conf_parts ! 2) \<lparr>macros = t', groups = open_guards\<rparr> = Inr s'"
    "pp_run (concat (drop (Suc 2) lv_conf_parts)) s' = Inr s"
    by (rule part_reached [OF assms, of 2]) (simp_all add: lv_conf_parts_def)
  have "\<not> set_later ''LV_DRAW_SW_SUPPORT_RGB565'' 2" by code_simp
  moreover have "\<not> set_later ''LV_DRAW_SW_SUPPORT_RGB565A8'' 2" by code_simp
  moreover have "lv_conf_parts ! 2 = lv_conf_4" by (simp add: lv_conf_parts_def)
  ultimately show ?thesis
    using part_4_run [OF t'(1)] t'(2) not_set_later [OF _ t'(3)] by (simp add: draws_formats_def)
qed

lemma lv_conf_panel:
  assumes "pp_run (concat lv_conf_parts) \<lparr>macros = t, groups = open_guards\<rparr> = Inr s" and "plain_constants t"
  shows "lookup (macros s) ''LV_USE_GENERIC_MIPI'' = Some (R_expr (E_num 1))"
proof -
  obtain t' s' where t': "pp_run (lv_conf_parts ! 11) \<lparr>macros = t', groups = open_guards\<rparr> = Inr s'"
    "pp_run (concat (drop (Suc 11) lv_conf_parts)) s' = Inr s"
    by (rule part_reached [OF assms, of 11]) (simp_all add: lv_conf_parts_def)
  moreover have "lv_conf_parts ! 11 = lv_conf_13" "drop (Suc 11) lv_conf_parts = []"
    by (simp_all add: lv_conf_parts_def)
  ultimately show ?thesis using part_13_panel [of t'] by simp
qed

section \<open>The guards\<close>

lemma skips_concat: "list_all skips dss \<Longrightarrow> skips (concat dss)"
  by (induction dss) (simp_all add: skips_def pp_run_append)

lemma skip_2: "skips lv_conf_2" unfolding skips_def by (rule allI) code_simp
lemma skip_3: "skips lv_conf_3" unfolding skips_def by (rule allI) code_simp
lemma skip_4: "skips lv_conf_4" unfolding skips_def by (rule allI) code_simp
lemma skip_5: "skips lv_conf_5" unfolding skips_def by (rule allI) code_simp
lemma skip_6: "skips lv_conf_6" unfolding skips_def by (rule allI) code_simp
lemma skip_7: "skips lv_conf_7" unfolding skips_def by (rule allI) code_simp
lemma skip_8: "skips lv_conf_8" unfolding skips_def by (rule allI) code_simp
lemma skip_9: "skips lv_conf_9" unfolding skips_def by (rule allI) code_simp
lemma skip_10: "skips lv_conf_10" unfolding skips_def by (rule allI) code_simp
lemma skip_11: "skips lv_conf_11" unfolding skips_def by (rule allI) code_simp
lemma skip_12: "skips lv_conf_12" unfolding skips_def by (rule allI) code_simp
lemma skip_13: "skips lv_conf_13" unfolding skips_def by (rule allI) code_simp

lemma parts_skip: "list_all skips lv_conf_parts"
  by (simp add: lv_conf_parts_def skip_2 skip_3 skip_4 skip_5 skip_6 skip_7 skip_8 skip_9 skip_10
      skip_11 skip_12 skip_13)

text \<open>The guards open at the first inclusion, and shut out the rest at every later one.\<close>

lemma guards_open:
  "lookup t ''LV_CONF_H'' = None \<Longrightarrow> pp_run lv_conf_1 \<lparr>macros = t, groups = []\<rparr>
    = Inr \<lparr>macros = (''LV_CONF_H'', Some (R_text [])) # t, groups = open_guards\<rparr>"
  by (simp add: lv_conf_1_def run_simps)

lemma guards_shut:
  "lookup t ''LV_CONF_H'' = Some r \<Longrightarrow> pp_run lv_conf_1 \<lparr>macros = t, groups = []\<rparr>
    = Inr \<lparr>macros = t, groups = shut_guards\<rparr>"
  by (simp add: lv_conf_1_def run_simps shut_guards_def)

lemma guards_close:
  "pp_run lv_conf_14 \<lparr>macros = t, groups = [g, g']\<rparr> = Inr \<lparr>macros = t, groups = []\<rparr>"
  by (simp add: lv_conf_14_def)

lemma lv_conf_included_again:
  "lookup t ''LV_CONF_H'' = Some r \<Longrightarrow> preprocess lv_conf_h t = Inr t"
  using skips_concat [OF parts_skip] guards_shut [of t r] guards_close [of t "guard False" "guard True"]
  by (simp add: preprocess_def lv_conf_h_def pp_run_append skips_def shut_guards_def)

lemma lv_conf_included:
  assumes "lookup t ''LV_CONF_H'' = None" and "plain_constants t"
  obtains ms where "preprocess lv_conf_h t = Inr ms"
    and "plain_constants ((''LV_CONF_H'', Some (R_text [])) # t)"
    and "pp_run (concat lv_conf_parts)
      \<lparr>macros = (''LV_CONF_H'', Some (R_text [])) # t, groups = open_guards\<rparr>
      = Inr \<lparr>macros = ms, groups = open_guards\<rparr>"
proof -
  let ?t = "(''LV_CONF_H'', Some (R_text [])) # t"
  have plain: "plain_constants ?t"
    using assms(2) by (simp add: plain_constants_def plain_def lvgl_constants_def)
  then obtain ms where ms: "pp_run (concat lv_conf_parts) \<lparr>macros = ?t, groups = open_guards\<rparr>
      = Inr \<lparr>macros = ms, groups = open_guards\<rparr>"
    using after_parts [OF plain, of "length lv_conf_parts"] by auto
  then have "preprocess lv_conf_h t = Inr ms"
    using guards_open [OF assms(1)] guards_close [of ms "guard True" "guard True"]
    by (simp add: preprocess_def lv_conf_h_def pp_run_append open_guards_def)
  then show thesis using plain ms by (rule that)
qed

end
