(* ===== verification/ImageData.thy ===== *)
theory ImageData
  imports Prelude
begin

text \<open>
  The arrays of pixels of \<open>lvgl_support/images\<close>. A line of the source is written as the runs of
  equal pixels in it: \<open>(n, v)\<close> stands for \<open>n\<close> times the two bytes of \<open>v\<close>, the lower one first. The
  icons have a second plane of one byte for the opacity of each pixel, whose lines are written
  the same way, two bytes at a time.
\<close>

type_synonym runs = "(nat \<times> nat) list"

definition run_bytes :: "nat \<times> nat \<Rightarrow> byte list" where
  "run_bytes r = concat (replicate (fst r) [word_of_nat (snd r mod 256), word_of_nat (snd r div 256)])"

definition image_bytes :: "runs list \<Rightarrow> byte list" where
  "image_bytes rows = concat (map run_bytes (concat rows))"

definition ifx_logo_rows :: "runs list" where
  "ifx_logo_rows =
    [[(121,0xffff),(1,0xe008),(1,0xf008),(2,0xe007),(1,0xe806),(2,0xe807),(1,0xe007),(2,0xe827),
      (1,0xe026),(1,0xe827),(1,0xe826),(1,0xe807),(4,0xe007),(1,0xe806),(1,0xe007),(1,0xe006),
      (1,0xe807),(3,0xf007),(5,0xf807),(1,0xf007),(2,0xe807),(1,0xe806),(1,0xe807),(2,0xe806),
      (1,0xe007),(1,0xe826),(1,0xe027),(1,0xe827),(2,0xe807),(2,0xe007),(1,0xe807),(1,0xe007),
      (1,0xe807),(1,0xe006),(1,0xf8ff),(149,0xffff)],
     [(110,0xffff),(1,0xf808),(1,0xe006),(1,0xe807),(1,0xe806),(2,0xe807),(1,0xe827),(1,0xe826),
      (1,0xe807),(1,0xe007),(1,0xe006),(1,0xe806),(3,0xe807),(2,0xf007),(13,0xf807),(1,0xf007),
      (2,0xe807),(1,0xe806),(1,0xe006),(1,0xe807),(1,0xe026),(2,0xe027),(2,0xe807),(2,0xe806),
      (3,0xe807),(1,0xe806),(1,0xe006),(1,0xf006),(1,0xd006),(2,0xe806),(1,0xd006),(1,0xe007),
      (2,0xe806),(1,0xd006),(2,0xffff),(1,0xf8ff),(150,0xffff)],
     [(103,0xffff),(4,0xe807),(1,0xe827),(1,0xe826),(1,0xe807),(1,0xe006),(1,0xe007),(2,0xe807),
      (1,0xf007),(3,0xf807),(3,0xf007),(7,0xe807),(1,0xf007),(3,0xf807),(2,0xe807),(1,0xe806),
      (1,0xe007),(1,0xe807),(2,0xe827),(1,0xe807),(1,0xe006),(2,0xe807),(1,0xe805),(1,0xf8ff),
      (175,0xffff)],
     [(96,0xffff),(1,0xc008),(3,0xe807),(1,0xe827),(1,0xe026),(3,0xe807),(1,0xf007),(3,0xf807),
      (2,0xf007),(11,0xe807),(1,0xf007),(2,0xf807),(1,0xf007),(2,0xe806),(1,0xe807),(1,0xe026),
      (1,0xe827),(2,0xe807),(1,0xe806),(1,0xe006),(1,0xf8ff),(184,0xffff)],
     [(91,0xffff),(1,0xe008),(1,0xe007),(1,0xe807),(1,0xe827),(1,0xe807),(1,0xe806),(2,0xe807),
      (1,0xf007),(2,0xf807),(1,0xf007),(13,0xe807),(2,0xf007),(1,0xf807),(1,0xf007),(1,0xe807),
      (1,0xe806),(1,0xe807),(1,0xe026),(1,0xe806),(1,0xe007),(1,0xe807),(1,0xf006),(192,0xffff)],
     [(86,0xffff),(1,0xe806),(1,0xe007),(1,0xe807),(1,0xe026),(3,0xe807),(1,0xf007),(2,0xf807),
      (1,0xf007),(14,0xe807),(2,0xf007),(1,0xf807),(1,0xf007),(1,0xe807),(2,0xe806),(1,0xe827),
      (1,0xe806),(1,0xe807),(1,0xe006),(198,0xffff)],
     [(81,0xffff),(1,0xd805),(2,0xe807),(1,0xe826),(3,0xe807),(2,0xf807),(1,0xf007),(16,0xe807),
      (1,0xf007),(1,0xf807),(1,0xf007),(2,0xe807),(1,0xe006),(1,0xe807),(1,0xe806),(1,0xe007),
      (1,0xe008),(203,0xffff)],
     [(77,0xffff),(1,0xf808),(2,0xe807),(1,0xe027),(2,0xe807),(1,0xf007),(1,0xf807),(1,0xf007),
      (17,0xe807),(1,0xf007),(1,0xf807),(1,0xf007),(2,0xe807),(1,0xe827),(2,0xe807),(1,0xe806),
      (208,0xffff)],
     [(74,0xffff),(1,0xe806),(1,0xe807),(1,0xe826),(2,0xe807),(2,0xf807),(1,0xf007),(17,0xe807),
      (1,0xf007),(1,0xf807),(1,0xf007),(1,0xe806),(1,0xe807),(1,0xe827),(1,0xe807),(1,0xe006),
      (213,0xffff)],
     [(70,0xffff),(1,0xd807),(1,0xe806),(1,0xe827),(2,0xe807),(1,0xf007),(1,0xf807),(1,0xf007),
      (17,0xe807),(1,0xf007),(1,0xf807),(1,0xf007),(4,0xe807),(1,0xe806),(217,0xffff)],
     [(67,0xffff),(3,0xe807),(1,0xe806),(1,0xf007),(1,0xf807),(1,0xf007),(18,0xe807),(1,0xf007),
      (1,0xf807),(4,0xe807),(1,0xe006),(221,0xffff)],
     [(64,0xffff),(1,0xe807),(1,0xe827),(2,0xe807),(2,0xf807),(1,0xf007),(18,0xe807),(1,0xf007),
      (1,0xf807),(4,0xe807),(225,0xffff)],
     [(49,0xffff),(1,0x410),(1,0x318),(1,0x2f6),(1,0x316),(7,0xffff),(1,0xe806),(1,0xe807),(1,0xe827),
      (2,0xe807),(1,0xf807),(1,0xf007),(18,0xe807),(1,0xf007),(1,0xf807),(1,0xf007),(1,0xe807),
      (1,0xe806),(1,0xe807),(1,0xe007),(228,0xffff)],
     [(47,0xffff),(1,0x315),(1,0x316),(2,0x2f6),(2,0x2f5),(1,0x2f6),(1,0x316),(1,0x2f5),(4,0xffff),
      (1,0xe027),(2,0xf807),(1,0xf007),(18,0xe807),(1,0xf007),(1,0xf807),(1,0xf007),(1,0xe807),
      (1,0xe827),(2,0xe807),(231,0xffff)],
     [(45,0xffff),(1,0x2b4),(1,0x2f6),(1,0x316),(1,0x337),(5,0x316),(1,0x337),(1,0x316),(1,0x2f5),
      (1,0x353),(2,0xffff),(1,0xe006),(1,0xe807),(1,0xf007),(1,0xe007),(16,0xe807),(1,0xf807),
      (1,0xf007),(1,0xe807),(1,0xe827),(1,0xe807),(1,0xf007),(234,0xffff)],
     [(44,0xffff),(1,0x2d5),(1,0x316),(1,0x337),(1,0x2f6),(7,0x2f5),(1,0x316),(1,0x337),(1,0x2f5),
      (1,0x2f4),(2,0xffff),(1,0xe006),(15,0xe807),(1,0xf807),(1,0xf007),(1,0xe807),(1,0xe827),
      (1,0xe807),(1,0xf007),(237,0xffff)],
     [(43,0xffff),(1,0x315),(1,0x2f6),(1,0x337),(11,0x2f5),(1,0x337),(1,0x2f5),(3,0xffff),(1,0xe027),
      (1,0xf807),(10,0xe807),(1,0xf007),(1,0xf807),(1,0xe807),(1,0xe827),(1,0xf007),(1,0xf006),
      (240,0xffff)],
     [(43,0xffff),(1,0x2d5),(1,0x337),(13,0x2f5),(1,0x337),(1,0x2f5),(2,0xffff),(1,0xe006),(8,0xe807),
      (1,0xf007),(1,0xf807),(4,0xe807),(243,0xffff)],
     [(42,0xffff),(1,0x2f5),(1,0x316),(1,0x2f6),(13,0x2f5),(1,0x316),(1,0x2f5),(1,0x2b5),(2,0xffff),
      (1,0xe826),(1,0xf807),(3,0xe807),(1,0xf007),(1,0xf807),(4,0xe807),(246,0xffff)],
     [(42,0xffff),(1,0x2f5),(1,0x337),(15,0x2f5),(1,0x337),(1,0x2f5),(2,0xffff),(1,0xe807),(1,0xf007),
      (1,0xe807),(2,0xf007),(3,0xe807),(249,0xffff)],
     [(41,0xffff),(1,0x7ff),(1,0x2f5),(1,0x316),(15,0x2f5),(1,0x337),(1,0x2f5),(2,0xffff),(1,0xe807),
      (1,0xf807),(2,0xe807),(1,0xf007),(1,0xe006),(251,0xffff)],
     [(41,0xffff),(1,0x356),(1,0x2f5),(1,0x316),(15,0x2f5),(1,0x337),(1,0x2f5),(2,0xffff),(1,0xe006),
      (2,0xe807),(254,0xffff)],
     [(37,0xffff),(1,0xd807),(1,0xe807),(1,0x80ff),(1,0xffff),(1,0x2b5),(1,0x2f5),(1,0x316),(15,0x2f5),
      (1,0x337),(1,0x2f5),(259,0xffff)],
     [(35,0xffff),(1,0xc008),(1,0xe827),(1,0xf007),(1,0xe806),(1,0xf8ff),(1,0xffff),(1,0x353),
      (1,0x2f5),(1,0x316),(15,0x2f5),(1,0x337),(1,0x2f5),(259,0xffff)],
     [(34,0xffff),(2,0xe807),(2,0xf807),(1,0xe006),(1,0xe806),(2,0xffff),(1,0x2f5),(1,0x337),
      (15,0x2f5),(1,0x337),(1,0x2f5),(259,0xffff)],
     [(32,0xffff),(1,0xe006),(1,0xe806),(2,0xf007),(2,0xe807),(1,0xf007),(1,0xe807),(2,0xffff),
      (1,0x2f5),(1,0x337),(14,0x2f5),(1,0x316),(1,0x2f6),(1,0x335),(259,0xffff)],
     [(30,0xffff),(1,0xd805),(1,0xe827),(1,0xe807),(1,0xf807),(4,0xe807),(1,0xf807),(1,0xe827),
      (2,0xffff),(1,0x2b5),(1,0x2f5),(1,0x316),(13,0x2f5),(1,0x337),(1,0x2f5),(53,0xffff),(1,0x2b5),
      (1,0x2f5),(1,0x315),(3,0x2f5),(2,0x316),(1,0x2b5),(198,0xffff)],
     [(29,0xffff),(2,0xe807),(1,0xf807),(1,0xe807),(1,0xe007),(6,0xe807),(1,0xe006),(2,0xffff),
      (1,0x315),(1,0x337),(1,0x316),(11,0x2f5),(1,0x316),(1,0x2f6),(1,0x316),(51,0xffff),(1,0x2d5),
      (1,0x316),(1,0x2f6),(1,0x316),(4,0x337),(1,0x316),(2,0x2f6),(2,0x316),(196,0xffff)],
     [(27,0xffff),(1,0xd807),(1,0xe827),(2,0xf007),(8,0xe807),(1,0xf807),(1,0xe006),(3,0xffff),
      (1,0x2f5),(1,0x337),(1,0x316),(9,0x2f5),(2,0x316),(1,0x2d5),(51,0xffff),(1,0x2f5),(1,0x316),
      (1,0x337),(1,0x316),(6,0x2f5),(1,0x2f6),(1,0x316),(1,0x337),(1,0x316),(1,0x2f5),(1,0x294),
      (7,0xffff),(1,0x2f7),(1,0x2d5),(1,0x356),(184,0xffff)],
     [(26,0xffff),(2,0xe807),(1,0xf807),(11,0xe807),(1,0xf007),(1,0xe006),(3,0xffff),(1,0x2f5),
      (1,0x316),(1,0x337),(1,0x316),(5,0x2f5),(1,0x316),(1,0x337),(1,0x316),(1,0x2f5),(51,0xffff),
      (1,0x2f5),(1,0x337),(1,0x316),(11,0x2f5),(1,0x316),(1,0x2f5),(1,0x2b5),(5,0xffff),(1,0x2f6),
      (1,0x316),(1,0x315),(1,0x2f5),(2,0x316),(1,0x2d5),(182,0xffff)],
     [(24,0xffff),(1,0xd006),(1,0xe827),(2,0xf007),(11,0xe807),(1,0xe007),(1,0xf007),(1,0xe807),
      (1,0xe006),(3,0xffff),(1,0x2f5),(1,0x316),(1,0x2f6),(4,0x337),(1,0x316),(1,0x2f6),(1,0x315),
      (1,0x2b4),(51,0xffff),(1,0x2f5),(1,0x337),(1,0x316),(12,0x2f5),(1,0x337),(1,0x2f6),(4,0xffff),
      (1,0xff1f),(1,0x2f5),(2,0x337),(3,0x316),(1,0x337),(1,0x316),(1,0x2f5),(181,0xffff)],
     [(23,0xffff),(1,0xe006),(1,0xe807),(1,0xf807),(1,0xe807),(1,0xe007),(12,0xe807),(1,0xe007),
      (1,0xf007),(1,0xe807),(1,0xe006),(4,0xffff),(2,0x316),(1,0x2f5),(1,0x316),(1,0x2f5),(1,0x2f6),
      (1,0x316),(52,0xffff),(1,0x2d5),(1,0x2f5),(1,0x316),(13,0x2f5),(1,0x316),(1,0x2f5),(4,0xffff),
      (1,0x2f5),(1,0x337),(1,0x2f6),(5,0x2f5),(2,0x316),(1,0x2f5),(180,0xffff)],
     [(22,0xffff),(1,0xe827),(1,0xe807),(1,0xf007),(16,0xe807),(2,0xf007),(1,0xe806),(63,0xffff),
      (1,0x2f5),(1,0x337),(13,0x2f5),(1,0x316),(1,0x2f5),(1,0x356),(3,0xffff),(2,0x2f5),(1,0x316),
      (7,0x2f5),(1,0x337),(1,0x2f5),(180,0xffff)],
     [(20,0xffff),(1,0xe008),(1,0xe826),(1,0xf807),(1,0xe807),(1,0xe007),(13,0xe807),(1,0xe007),
      (1,0xe807),(1,0xf807),(1,0xe807),(1,0xe007),(63,0xffff),(1,0x336),(1,0x2f5),(1,0x316),(7,0x2f5),
      (1,0x2f6),(4,0x337),(1,0x316),(1,0x337),(1,0x2f5),(4,0xffff),(1,0x2f5),(1,0x337),(8,0x2f5),
      (1,0x316),(1,0x2f5),(1,0x335),(179,0xffff)],
     [(19,0xffff),(1,0xe006),(1,0xe807),(1,0xf807),(16,0xe807),(1,0xf007),(1,0xe807),(1,0xe827),
      (1,0xc008),(64,0xffff),(1,0x2f5),(1,0x316),(7,0x2f5),(1,0x316),(5,0x2f5),(1,0x316),(1,0x337),
      (1,0x2f5),(4,0xffff),(1,0x2f5),(1,0x337),(8,0x2f5),(1,0x316),(1,0x2f5),(1,0x2d6),(179,0xffff)],
     [(18,0xffff),(1,0xe007),(1,0xe807),(1,0xf807),(14,0xe807),(1,0xe007),(1,0xe807),(1,0xf807),
      (1,0xe807),(1,0xe007),(66,0xffff),(1,0x2f5),(1,0x337),(7,0x2f5),(1,0x316),(1,0x2f5),(4,0xffff),
      (1,0x316),(1,0x2f5),(1,0x2b5),(4,0xffff),(1,0x2f6),(1,0x337),(8,0x2f5),(1,0x316),(2,0x2f5),
      (179,0xffff)],
     [(17,0xffff),(1,0xe006),(1,0xe807),(1,0xf007),(1,0xe007),(13,0xe807),(1,0xe007),(2,0xf007),
      (1,0xe827),(1,0xe007),(67,0xffff),(1,0x2f5),(1,0x317),(6,0x2f5),(1,0x337),(1,0x2f5),(12,0xffff),
      (1,0x2f5),(1,0x317),(8,0x2f5),(1,0x316),(1,0x2f5),(1,0x353),(179,0xffff)],
     [(16,0xffff),(1,0xe006),(1,0xe807),(1,0xf007),(1,0xe007),(13,0xe807),(1,0xe007),(1,0xf007),
      (2,0xe807),(14,0xffff),(1,0xff1f),(1,0x2d5),(1,0x2d6),(1,0x316),(1,0x2f5),(1,0x355),(48,0xffff),
      (1,0x314),(1,0x2f5),(1,0x316),(6,0x2f5),(1,0x337),(1,0x2f5),(12,0xffff),(1,0x2b5),(1,0x2f5),
      (1,0x337),(7,0x2f5),(1,0x337),(1,0x2f5),(180,0xffff)],
     [(15,0xffff),(1,0xe807),(1,0xf007),(1,0xe807),(1,0xe007),(14,0xe807),(1,0xf807),(1,0xe807),
      (1,0xe006),(11,0xffff),(1,0x2f5),(1,0x316),(5,0x2f5),(1,0x337),(1,0x316),(1,0x2f5),(48,0xffff),
      (1,0x315),(1,0x2f5),(1,0x316),(5,0x2f5),(1,0x2f6),(1,0x2f5),(1,0x2f6),(13,0xffff),(1,0x2f5),
      (1,0x316),(1,0x337),(4,0x2f5),(1,0x316),(1,0x357),(1,0x2f5),(1,0x218),(180,0xffff)],
     [(14,0xffff),(1,0xe006),(1,0xf007),(1,0xe807),(1,0xe007),(14,0xe807),(1,0xf807),(1,0xe807),
      (1,0xe006),(12,0xffff),(1,0x2f5),(1,0x358),(1,0x337),(1,0x317),(2,0x316),(1,0x2f6),(1,0x316),
      (2,0x2f5),(48,0xffff),(1,0x336),(1,0x2f5),(1,0x2f6),(5,0x2f5),(1,0x316),(2,0x2f5),(14,0xffff),
      (1,0x2f5),(1,0x316),(1,0x317),(3,0x337),(1,0x316),(1,0x2f6),(1,0x2b5),(181,0xffff)],
     [(13,0xffff),(1,0xe806),(1,0xf007),(1,0xe807),(1,0xe007),(12,0xe807),(1,0xe007),(1,0xe807),
      (1,0xf007),(1,0xe827),(14,0xffff),(1,0x2f5),(1,0x316),(5,0x2f5),(1,0x316),(2,0x2f5),(48,0xffff),
      (1,0x2d6),(1,0x2f5),(1,0x2f6),(5,0x2f5),(1,0x316),(2,0x2f5),(15,0xffff),(1,0x314),(1,0x2f6),
      (1,0x2f5),(2,0x316),(1,0x2f6),(183,0xffff)],
     [(12,0xffff),(1,0xe007),(1,0xf007),(1,0xe807),(1,0xe007),(12,0xe807),(1,0xe007),(1,0xe807),
      (1,0xf007),(1,0xe827),(15,0xffff),(1,0x2f5),(1,0x316),(5,0x2f5),(1,0x316),(2,0x2f5),(48,0xffff),
      (2,0x2f5),(1,0x2f6),(5,0x2f5),(1,0x316),(1,0x2f5),(1,0x2d5),(204,0xffff)],
     [(11,0xffff),(1,0xe007),(1,0xf007),(1,0xe807),(1,0xe007),(12,0xe807),(1,0xe007),(1,0xf007),
      (1,0xe807),(1,0xe007),(16,0xffff),(1,0x2f5),(1,0x316),(5,0x2f5),(1,0x316),(2,0x2f5),(48,0xffff),
      (1,0x2d5),(1,0x2f5),(1,0x2f6),(5,0x2f5),(1,0x316),(1,0x2f5),(1,0x2d5),(204,0xffff)],
     [(10,0xffff),(1,0xe006),(2,0xf007),(1,0xe007),(12,0xe807),(1,0xe007),(1,0xf007),(1,0xe807),
      (1,0xe007),(17,0xffff),(1,0x2f5),(1,0x316),(5,0x2f5),(1,0x316),(2,0x2f5),(48,0xffff),(1,0x315),
      (1,0x2f5),(1,0x316),(5,0x2f5),(1,0x316),(1,0x2f5),(1,0x2d5),(204,0xffff)],
     [(9,0xffff),(1,0xe007),(1,0xe807),(1,0xf007),(1,0xe007),(12,0xe807),(1,0xe007),(1,0xe807),
      (1,0xf007),(1,0xe007),(18,0xffff),(1,0x2f5),(1,0x316),(5,0x2f5),(1,0x316),(2,0x2f5),(48,0xffff),
      (1,0x315),(1,0x2f5),(1,0x316),(5,0x2f5),(1,0x316),(1,0x2f5),(1,0x2d5),(204,0xffff)],
     [(8,0xffff),(1,0xf80b),(1,0xe807),(1,0xf807),(1,0xe007),(14,0xe807),(1,0xf007),(1,0xe807),
      (19,0xffff),(1,0x2f5),(1,0x316),(5,0x2f5),(1,0x316),(2,0x2f5),(14,0xffff),(1,0x418),(1,0x2f6),
      (1,0x2f5),(8,0xffff),(1,0x410),(1,0x2d5),(2,0x316),(1,0x2f5),(1,0x7ff),(17,0xffff),(1,0x2f4),
      (1,0x2f5),(1,0x316),(5,0x2f5),(1,0x316),(1,0x2f5),(1,0x2b5),(21,0xffff),(1,0x2d5),(1,0x2f6),
      (1,0x410),(15,0xffff),(1,0x317),(1,0x316),(1,0x2b5),(8,0xffff),(1,0x2f7),(1,0x2f5),(1,0x316),
      (1,0x2f5),(1,0x355),(26,0xffff),(2,0x2f6),(1,0x2f5),(2,0x2f6),(1,0x2f5),(1,0x316),(1,0x315),
      (27,0xffff),(1,0x377),(1,0x2f5),(1,0x2f6),(2,0x2f5),(1,0x315),(1,0x2f5),(1,0x316),(1,0x2f7),
      (23,0xffff),(1,0x377),(1,0x316),(1,0x2f5),(8,0xffff),(1,0x2b5),(1,0x2d6),(2,0x316),(1,0x2d5),
      (40,0xffff)],
     [(8,0xffff),(1,0xe027),(1,0xf807),(15,0xe807),(1,0xf807),(1,0xe026),(20,0xffff),(1,0x2f5),
      (1,0x316),(5,0x2f5),(1,0x316),(2,0x2f5),(11,0xffff),(1,0x2f5),(1,0x316),(1,0x2f6),(1,0x2f5),
      (1,0x316),(1,0x2f5),(1,0x257),(5,0xffff),(3,0x2f6),(4,0x2f5),(1,0x2f6),(1,0x316),(1,0x2f5),
      (12,0xffff),(1,0x2b5),(4,0x2f5),(1,0x316),(5,0x2f5),(1,0x2f6),(9,0x2f5),(1,0x2f6),(5,0xffff),
      (1,0x41f),(1,0x316),(1,0x2f6),(5,0x2f5),(1,0x316),(1,0x2f5),(1,0x257),(11,0xffff),(2,0x316),
      (3,0x2f5),(1,0x358),(1,0x2f5),(5,0xffff),(1,0x316),(1,0x2f6),(1,0x316),(1,0x2f6),(3,0x2f5),
      (1,0x2f6),(2,0x316),(1,0xff10),(20,0xffff),(1,0x210),(1,0x2f6),(1,0x316),(1,0x2f6),(1,0x316),
      (4,0x337),(1,0x316),(1,0x2f5),(2,0x316),(1,0x1b3),(22,0xffff),(1,0x2f5),(1,0x316),(2,0x2f6),
      (1,0x317),(4,0x337),(3,0x316),(1,0x2f5),(17,0xffff),(1,0x410),(1,0x2f5),(1,0x2f6),(1,0x316),
      (1,0x2f5),(1,0x316),(1,0x2f5),(1,0x218),(4,0xffff),(1,0x2ab),(1,0x2f6),(1,0x316),(1,0x2f6),
      (4,0x2f5),(2,0x2f6),(1,0x2d6),(37,0xffff)],
     [(7,0xffff),(1,0xe007),(1,0xf007),(15,0xe807),(1,0xf807),(1,0xe027),(21,0xffff),(1,0x2f5),
      (1,0x316),(5,0x2f5),(1,0x316),(2,0x2f5),(8,0xffff),(1,0x315),(1,0x316),(2,0x2f5),(2,0x337),
      (2,0x316),(2,0x2f6),(3,0xffff),(1,0x2f6),(2,0x316),(1,0x337),(2,0x316),(2,0x2f6),(2,0x316),
      (1,0x337),(1,0x316),(1,0x315),(11,0xffff),(1,0x2d6),(1,0x2f5),(1,0x337),(1,0x316),(9,0x2f5),
      (8,0x316),(1,0x2f6),(5,0xffff),(2,0x2f5),(2,0x316),(3,0x337),(1,0x316),(1,0x337),(1,0x2f5),
      (1,0x2b5),(8,0xffff),(1,0x2b5),(1,0x2f5),(1,0x315),(1,0x2f6),(1,0x316),(1,0x337),(1,0x317),
      (1,0x316),(1,0x337),(1,0x2f5),(3,0xffff),(1,0x2f5),(2,0x316),(2,0x337),(1,0x316),(3,0x2f6),
      (1,0x316),(2,0x337),(1,0x316),(1,0x2d5),(18,0xffff),(1,0x2f5),(1,0x316),(2,0x337),(1,0x316),
      (6,0x2f5),(1,0x316),(2,0x337),(1,0x316),(1,0x2f5),(20,0xffff),(1,0x2f6),(1,0x316),(1,0x337),
      (1,0x316),(1,0x2f6),(6,0x2f5),(1,0x316),(1,0x337),(1,0x316),(1,0x2f6),(1,0x2d4),(13,0xffff),
      (1,0x2f5),(1,0x316),(2,0x2f5),(2,0x337),(2,0x316),(2,0x2f5),(3,0xffff),(1,0x2f5),(1,0x2f6),
      (1,0x316),(1,0x337),(2,0x316),(2,0x2f6),(2,0x316),(1,0x337),(1,0x316),(1,0x315),(36,0xffff)],
     [(6,0xffff),(1,0xe007),(1,0xe807),(1,0xf007),(1,0xe007),(12,0xe807),(1,0xe007),(1,0xf807),
      (1,0xe807),(1,0x80ff),(21,0xffff),(1,0x2f5),(1,0x316),(5,0x2f5),(1,0x316),(2,0x2f5),(8,0xffff),
      (1,0x2f5),(1,0x379),(2,0x316),(4,0x2f5),(1,0x337),(1,0x2f5),(1,0xffff),(1,0x2d5),(1,0x316),
      (1,0x317),(1,0x337),(9,0x2f5),(1,0x316),(1,0x337),(1,0x2f5),(1,0x410),(9,0xffff),(1,0x316),
      (1,0x2f5),(1,0x316),(16,0x2f5),(1,0x316),(1,0x2f5),(1,0x314),(5,0xffff),(1,0x2d5),(1,0x2f5),
      (1,0x316),(5,0x2f5),(1,0x316),(1,0x2f5),(1,0x2b5),(8,0xffff),(1,0x2f6),(1,0x316),(1,0x337),
      (1,0x316),(4,0x2f5),(1,0x316),(1,0x2f5),(2,0xffff),(1,0x315),(1,0x316),(1,0x337),(1,0x316),
      (9,0x2f5),(1,0x337),(1,0x316),(1,0x2f5),(16,0xffff),(1,0x2f5),(1,0x316),(1,0x337),(12,0x2f5),
      (1,0x337),(1,0x316),(1,0x2f5),(17,0xffff),(1,0x2f5),(1,0x316),(1,0x337),(1,0x316),(11,0x2f5),
      (1,0x2f6),(1,0x337),(1,0x316),(1,0x2d5),(12,0xffff),(1,0x2f5),(1,0x378),(1,0x316),(1,0x2f6),
      (4,0x2f5),(1,0x337),(1,0x2f5),(1,0xffff),(1,0x2b4),(1,0x2f6),(1,0x337),(1,0x317),(9,0x2f5),
      (1,0x316),(1,0x337),(1,0x2f5),(35,0xffff)],
     [(6,0xffff),(1,0xe026),(1,0xf807),(1,0xe007),(12,0xe807),(1,0xe007),(1,0xf007),(1,0xe807),
      (1,0xd806),(22,0xffff),(1,0x2f5),(1,0x316),(5,0x2f5),(1,0x316),(2,0x2f5),(8,0xffff),(1,0x2f6),
      (1,0x317),(6,0x2f5),(1,0x337),(1,0x2f5),(1,0x315),(1,0x316),(1,0x337),(13,0x2f5),(1,0x337),
      (1,0x2f5),(9,0xffff),(1,0x316),(1,0x2f5),(1,0x316),(16,0x2f5),(1,0x337),(1,0x2f5),(6,0xffff),
      (2,0x2f5),(1,0x316),(5,0x2f5),(1,0x316),(1,0x2f5),(1,0x2b5),(8,0xffff),(1,0x410),(1,0x2f5),
      (1,0x316),(5,0x2f5),(1,0x316),(1,0x2f5),(1,0x294),(1,0x2f5),(1,0x337),(1,0x316),(12,0x2f5),
      (1,0x337),(1,0x2f6),(1,0x2d5),(14,0xffff),(1,0x2f5),(1,0x337),(1,0x316),(14,0x2f5),(2,0x316),
      (1,0x2f5),(15,0xffff),(1,0x2f7),(1,0x2f6),(1,0x337),(15,0x2f5),(1,0x317),(1,0x316),(1,0x2f5),
      (11,0xffff),(1,0x2f5),(1,0x337),(6,0x2f5),(1,0x337),(1,0x2f5),(1,0x2f6),(1,0x316),(1,0x337),
      (12,0x2f5),(1,0x2f6),(1,0x337),(1,0x2f5),(34,0xffff)],
     [(5,0xffff),(1,0xe006),(16,0xe807),(1,0xf007),(1,0xe007),(23,0xffff),(1,0x2f5),(1,0x316),
      (5,0x2f5),(1,0x316),(2,0x2f5),(8,0xffff),(1,0x316),(2,0x2f6),(5,0x2f5),(1,0x316),(2,0x2f5),
      (1,0x337),(14,0x2f5),(1,0x316),(2,0x2f6),(8,0xffff),(1,0x316),(1,0x2f5),(1,0x316),(16,0x2f5),
      (1,0x337),(1,0x2f5),(6,0xffff),(2,0x2f5),(1,0x316),(5,0x2f5),(1,0x316),(1,0x2f5),(1,0x2b5),
      (9,0xffff),(1,0x2f5),(1,0x337),(8,0x2f5),(1,0x316),(1,0x2f6),(14,0x2f5),(1,0x337),(1,0x2f5),
      (13,0xffff),(1,0x2f5),(2,0x316),(16,0x2f5),(2,0x316),(1,0x2f5),(14,0xffff),(1,0x2d5),(1,0x337),
      (17,0x2f5),(1,0x316),(1,0x2f6),(1,0x2f5),(10,0xffff),(1,0x2d5),(2,0x2f6),(5,0x2f5),(1,0x316),
      (2,0x2f5),(1,0x337),(14,0x2f5),(1,0x316),(1,0x2f5),(1,0x2f6),(33,0xffff)],
     [(4,0xffff),(1,0xf8ff),(1,0xe007),(1,0xf007),(1,0xe007),(12,0xe807),(1,0xe007),(1,0xf807),
      (1,0xe027),(24,0xffff),(1,0x2f5),(1,0x316),(5,0x2f5),(1,0x316),(2,0x2f5),(8,0xffff),(2,0x2f5),
      (1,0x316),(6,0x2f5),(2,0x316),(16,0x2f5),(1,0x337),(1,0x2f5),(8,0xffff),(1,0x316),(1,0x2f5),
      (1,0x316),(16,0x2f5),(1,0x316),(1,0x2f5),(6,0xffff),(2,0x2f5),(1,0x316),(5,0x2f5),(1,0x316),
      (1,0x2f5),(1,0x2b5),(9,0xffff),(1,0x2f5),(1,0x337),(7,0x2f5),(1,0x316),(16,0x2f5),(1,0x316),
      (1,0x2f5),(1,0x377),(11,0xffff),(1,0x315),(1,0x2f6),(1,0x316),(7,0x2f5),(1,0x2f6),(2,0x316),
      (1,0x2f6),(7,0x2f5),(1,0x317),(1,0x2f6),(1,0x276),(12,0xffff),(1,0x2f5),(1,0x337),(19,0x2f5),
      (1,0x337),(1,0x2f5),(1,0x318),(9,0xffff),(1,0x2d5),(1,0x2f5),(1,0x316),(6,0x2f5),(2,0x316),
      (16,0x2f5),(1,0x337),(1,0x2f6),(33,0xffff)],
     [(4,0xffff),(1,0xe007),(1,0xf007),(14,0xe807),(1,0xf007),(1,0xe807),(1,0xd806),(24,0xffff),
      (1,0x2f5),(1,0x316),(5,0x2f5),(1,0x316),(2,0x2f5),(9,0xffff),(1,0x2f5),(1,0x316),(24,0x2f5),
      (1,0x317),(1,0x2f5),(8,0xffff),(1,0x316),(1,0x2f5),(1,0x316),(15,0x2f5),(1,0x316),(2,0x2f5),
      (6,0xffff),(2,0x2f5),(1,0x316),(5,0x2f5),(1,0x316),(1,0x2f5),(1,0x2b5),(9,0xffff),(1,0x2f6),
      (1,0x337),(25,0x2f5),(1,0x316),(1,0x315),(11,0xffff),(1,0x2f5),(1,0x337),(7,0x2f5),(1,0x337),
      (4,0x2f5),(1,0x337),(7,0x2f5),(1,0x337),(1,0x2f5),(11,0xffff),(1,0x2f5),(2,0x316),(7,0x2f5),
      (1,0x316),(3,0x337),(1,0x316),(8,0x2f5),(1,0x337),(1,0x2f5),(9,0xffff),(1,0x2b5),(1,0x2f5),
      (1,0x316),(24,0x2f5),(1,0x337),(1,0x2f5),(33,0xffff)],
     [(3,0xffff),(1,0xd805),(1,0xe806),(1,0xf007),(14,0xe807),(1,0xf807),(1,0xe826),(25,0xffff),
      (1,0x2f5),(1,0x316),(5,0x2f5),(1,0x316),(2,0x2f5),(9,0xffff),(1,0x2f5),(1,0x317),(11,0x2f5),
      (1,0x316),(3,0x337),(1,0x316),(8,0x2f5),(1,0x316),(1,0x2f5),(1,0x2b5),(7,0xffff),(1,0x2d6),
      (1,0x2f5),(2,0x337),(9,0x2f5),(1,0x317),(4,0x337),(1,0x358),(1,0x2f5),(1,0x2b5),(6,0xffff),
      (2,0x2f5),(1,0x316),(5,0x2f5),(1,0x316),(1,0x2f5),(1,0x2b5),(9,0xffff),(1,0x2f6),(1,0x316),
      (12,0x2f5),(1,0x316),(3,0x337),(1,0x316),(8,0x2f5),(1,0x337),(1,0x2f5),(10,0xffff),(1,0x315),
      (1,0x316),(1,0x2f6),(6,0x2f5),(1,0x337),(1,0x2f6),(1,0x2f5),(1,0x2b5),(1,0x356),(1,0x2f5),
      (1,0x2f6),(1,0x316),(1,0x2f6),(5,0x2f5),(1,0x316),(1,0x2f5),(1,0x2d5),(10,0xffff),(1,0x2f5),
      (1,0x337),(7,0x2f5),(1,0x316),(5,0x2f5),(1,0x337),(7,0x2f5),(1,0x316),(2,0x2f5),(9,0xffff),
      (1,0x2f5),(1,0x317),(11,0x2f5),(1,0x316),(3,0x337),(1,0x316),(8,0x2f5),(1,0x316),(1,0x2f5),
      (1,0x276),(32,0xffff)],
     [(3,0xffff),(1,0xe007),(1,0xf807),(14,0xe807),(1,0xf007),(1,0xe006),(1,0xf806),(25,0xffff),
      (1,0x2f5),(1,0x316),(5,0x2f5),(1,0x316),(2,0x2f5),(9,0xffff),(1,0x2f5),(1,0x337),(9,0x2f5),
      (1,0x2f6),(1,0x337),(4,0x2f5),(1,0x2f6),(1,0x316),(7,0x2f5),(1,0x2f6),(2,0x2f5),(7,0xffff),
      (1,0x318),(1,0x2f5),(1,0x316),(2,0x2f5),(1,0x316),(5,0x2f5),(1,0x2f6),(6,0x2f5),(1,0x316),
      (1,0x2f5),(7,0xffff),(2,0x2f5),(1,0x316),(5,0x2f5),(1,0x316),(1,0x2f5),(1,0x2b5),(9,0xffff),
      (1,0x2f6),(1,0x2f5),(1,0x2f6),(9,0x2f5),(2,0x316),(1,0x2f6),(4,0x2f5),(1,0x316),(7,0x2f5),
      (1,0x337),(1,0x2f5),(10,0xffff),(1,0x2f5),(1,0x337),(6,0x2f5),(1,0x337),(1,0x2f5),(6,0xffff),
      (1,0x2f5),(1,0x337),(6,0x2f5),(1,0x337),(1,0x2f5),(9,0xffff),(1,0x2f5),(1,0x2f6),(1,0x316),
      (6,0x2f5),(1,0x317),(1,0x316),(1,0x2f5),(3,0xffff),(1,0x315),(1,0x2f6),(1,0x337),(7,0x2f5),
      (1,0x337),(1,0x2f5),(9,0xffff),(1,0x2f5),(1,0x337),(9,0x2f5),(1,0x316),(1,0x337),(5,0x2f5),
      (1,0x316),(7,0x2f5),(1,0x316),(1,0x2f5),(1,0x315),(32,0xffff)],
     [(2,0xffff),(1,0xf8ff),(1,0xe006),(1,0xf007),(14,0xe807),(1,0xf807),(1,0xe826),(26,0xffff),
      (1,0x2f5),(1,0x316),(5,0x2f5),(1,0x316),(2,0x2f5),(9,0xffff),(1,0x2f6),(1,0x337),(8,0x2f5),
      (2,0x316),(1,0x2f6),(1,0x315),(3,0xffff),(1,0x353),(1,0x2f5),(1,0x337),(6,0x2f5),(1,0x2f6),
      (1,0x316),(1,0x2f5),(11,0xffff),(1,0x2f5),(1,0x316),(5,0x2f5),(1,0x316),(1,0x2f5),(1,0x294),
      (13,0xffff),(2,0x2f5),(1,0x316),(5,0x2f5),(1,0x316),(1,0x2f5),(1,0x2b5),(9,0xffff),(2,0x2f5),
      (1,0x316),(8,0x2f5),(1,0x337),(1,0x2f6),(1,0x315),(4,0xffff),(1,0x2f5),(1,0x2f6),(1,0x316),
      (6,0x2f5),(1,0x337),(1,0x2f5),(9,0xffff),(2,0x2f5),(1,0x316),(5,0x2f5),(1,0x316),(1,0x2f5),
      (1,0x252),(6,0xffff),(1,0x2b5),(1,0x2f5),(1,0x316),(5,0x2f5),(1,0x317),(1,0x2f5),(1,0xff1f),
      (8,0xffff),(1,0x2f5),(1,0x337),(6,0x2f5),(2,0x316),(1,0x2f5),(6,0xffff),(1,0x2f5),(1,0x337),
      (6,0x2f5),(1,0x316),(1,0x2f5),(1,0x316),(8,0xffff),(1,0x2f5),(1,0x337),(8,0x2f5),(3,0x316),
      (1,0x2f6),(3,0xffff),(1,0x377),(1,0x315),(1,0x317),(6,0x2f5),(1,0x316),(2,0x2f5),(32,0xffff)],
     [(2,0xffff),(1,0xe007),(1,0xf007),(14,0xe807),(1,0xf007),(1,0xe007),(1,0xe806),(26,0xffff),
      (1,0x2f5),(1,0x316),(5,0x2f5),(1,0x316),(2,0x2f5),(9,0xffff),(1,0x2f5),(1,0x337),(7,0x2f5),
      (1,0x316),(1,0x2f6),(1,0x2f5),(6,0xffff),(1,0x2f5),(1,0x2f6),(1,0x316),(5,0x2f5),(1,0x2f6),
      (2,0x316),(10,0xffff),(1,0x2b5),(1,0x2f5),(1,0x316),(5,0x2f5),(1,0x316),(1,0x2f5),(1,0x2d5),
      (13,0xffff),(2,0x2f5),(1,0x316),(5,0x2f5),(1,0x316),(1,0x2f5),(1,0x2b5),(9,0xffff),(2,0x2f5),
      (1,0x316),(7,0x2f5),(1,0x337),(1,0x2f6),(1,0x2b3),(6,0xffff),(1,0x2f5),(1,0x337),(6,0x2f5),
      (1,0x337),(1,0x2f5),(9,0xffff),(1,0x2f5),(1,0x337),(6,0x2f5),(1,0x337),(1,0x2f5),(8,0xffff),
      (1,0x2f5),(1,0x337),(5,0x2f5),(1,0x316),(1,0x2f5),(1,0x315),(7,0xffff),(1,0x2b5),(1,0x2f5),
      (1,0x316),(6,0x2f5),(1,0x337),(1,0x2f5),(7,0xffff),(1,0x2f5),(2,0x2f6),(6,0x2f5),(1,0x337),
      (1,0x2f5),(8,0xffff),(1,0x2f5),(1,0x337),(7,0x2f5),(2,0x316),(1,0x2f5),(6,0xffff),(1,0x2f5),
      (2,0x2f6),(5,0x2f5),(1,0x2f6),(1,0x316),(1,0x2f5),(32,0xffff)],
     [(2,0xffff),(1,0xe826),(1,0xf807),(14,0xe807),(1,0xf807),(1,0xe826),(27,0xffff),(1,0x2f5),
      (1,0x316),(5,0x2f5),(1,0x316),(2,0x2f5),(9,0xffff),(1,0x2f5),(1,0x337),(6,0x2f5),(2,0x316),
      (1,0x2f5),(8,0xffff),(1,0x2f5),(1,0x316),(5,0x2f5),(1,0x2f6),(2,0x316),(10,0xffff),(1,0x2b5),
      (1,0x2f5),(1,0x316),(5,0x2f5),(1,0x316),(1,0x2f5),(1,0x2d5),(13,0xffff),(2,0x2f5),(1,0x316),
      (5,0x2f5),(1,0x316),(1,0x2f5),(1,0x2b5),(9,0xffff),(1,0x2f4),(1,0x2f5),(1,0x316),(6,0x2f5),
      (1,0x316),(1,0x2f6),(8,0xffff),(1,0x315),(1,0x337),(6,0x2f5),(1,0x337),(1,0x2f5),(9,0xffff),
      (1,0x2f5),(1,0x337),(5,0x2f5),(1,0x316),(1,0x2f5),(1,0x2f6),(8,0xffff),(2,0x2f5),(1,0x2f6),
      (5,0x2f5),(1,0x337),(1,0x2f5),(7,0xffff),(1,0x2f5),(1,0x316),(6,0x2f5),(1,0x316),(1,0x2f5),
      (1,0x2b5),(8,0xffff),(1,0x2f5),(1,0x337),(6,0x2f5),(1,0x337),(1,0x2f5),(8,0xffff),(1,0x2f5),
      (1,0x337),(6,0x2f5),(2,0x316),(1,0x2f5),(7,0xffff),(1,0xff1f),(1,0x2f5),(1,0x316),(5,0x2f5),
      (1,0x2f6),(1,0x316),(1,0x2f5),(32,0xffff)],
     [(1,0xffff),(1,0xe808),(1,0xe006),(1,0xf007),(16,0xe807),(27,0xffff),(1,0x2f5),(1,0x316),
      (5,0x2f5),(1,0x316),(2,0x2f5),(9,0xffff),(1,0x2f5),(1,0x337),(6,0x2f5),(1,0x337),(1,0x2f5),
      (9,0xffff),(1,0x2f5),(1,0x337),(5,0x2f5),(1,0x2f6),(2,0x316),(10,0xffff),(1,0x2b5),(1,0x2f5),
      (1,0x316),(5,0x2f5),(1,0x316),(1,0x2f5),(1,0x2d5),(13,0xffff),(2,0x2f5),(1,0x316),(5,0x2f5),
      (1,0x316),(1,0x2f5),(1,0x2b5),(9,0xffff),(1,0x2d5),(1,0x2f5),(1,0x316),(5,0x2f5),(1,0x316),
      (1,0x2f5),(9,0xffff),(3,0x2f6),(5,0x2f5),(1,0x337),(1,0x2f5),(8,0xffff),(1,0x2f4),(1,0x2f5),
      (1,0x316),(5,0x2f5),(1,0x316),(1,0x2f5),(1,0x410),(8,0xffff),(1,0x377),(1,0x2f5),(1,0x316),
      (5,0x2f5),(1,0x337),(1,0x2f5),(7,0xffff),(1,0x2f5),(1,0x337),(6,0x2f5),(1,0x337),(1,0x2f5),
      (9,0xffff),(1,0x2f5),(1,0x337),(6,0x2f5),(1,0x316),(1,0x2f5),(1,0x2f7),(7,0xffff),(1,0x2f5),
      (1,0x337),(6,0x2f5),(1,0x316),(1,0x2f5),(9,0xffff),(1,0x2f5),(1,0x337),(5,0x2f5),(1,0x2f6),
      (1,0x316),(1,0x2f5),(32,0xffff)],
     [(1,0xffff),(1,0xe807),(1,0xf007),(14,0xe807),(1,0xf007),(1,0xe006),(1,0x80ff),(27,0xffff),
      (1,0x2f5),(1,0x316),(5,0x2f5),(1,0x316),(2,0x2f5),(9,0xffff),(1,0x2f5),(1,0x337),(6,0x2f5),
      (1,0x316),(1,0x2f5),(9,0xffff),(1,0x2f5),(1,0x337),(5,0x2f5),(1,0x2f6),(2,0x316),(10,0xffff),
      (1,0x2b5),(1,0x2f5),(1,0x316),(5,0x2f5),(1,0x316),(1,0x2f5),(1,0x2d5),(13,0xffff),(2,0x2f5),
      (1,0x316),(5,0x2f5),(1,0x316),(1,0x2f5),(1,0x2b5),(9,0xffff),(1,0x2d5),(1,0x2f5),(1,0x316),
      (5,0x2f5),(1,0x316),(1,0x2f5),(9,0xffff),(2,0x2f5),(1,0x2f6),(5,0x2f5),(1,0x337),(1,0x2f5),
      (8,0xffff),(1,0x2f5),(1,0x316),(6,0x2f5),(1,0x337),(1,0x2f5),(10,0xffff),(1,0x2f5),(1,0x316),
      (5,0x2f5),(1,0x317),(1,0x2f5),(7,0xffff),(1,0x2f5),(1,0x337),(6,0x2f5),(1,0x337),(1,0x2f5),
      (9,0xffff),(2,0x2f5),(1,0x2f6),(6,0x2f5),(1,0x316),(1,0x2f6),(7,0xffff),(1,0x2f5),(1,0x337),
      (5,0x2f5),(1,0x2f6),(1,0x316),(1,0x2f5),(9,0xffff),(1,0x2f5),(1,0x337),(5,0x2f5),(1,0x2f6),
      (1,0x316),(1,0x2f5),(32,0xffff)],
     [(1,0xffff),(1,0xe827),(1,0xf807),(14,0xe807),(1,0xf807),(1,0xe026),(28,0xffff),(1,0x2f5),
      (1,0x316),(5,0x2f5),(1,0x316),(2,0x2f5),(9,0xffff),(1,0x2f5),(1,0x337),(6,0x2f5),(1,0x316),
      (1,0x2f5),(9,0xffff),(1,0x2f5),(1,0x337),(5,0x2f5),(1,0x2f6),(2,0x316),(10,0xffff),(1,0x2b5),
      (1,0x2f5),(1,0x316),(5,0x2f5),(1,0x316),(1,0x2f5),(1,0x2d5),(13,0xffff),(2,0x2f5),(1,0x316),
      (5,0x2f5),(1,0x316),(1,0x2f5),(1,0x2b5),(9,0xffff),(1,0x2d5),(1,0x2f5),(1,0x316),(5,0x2f5),
      (1,0x316),(1,0x2f5),(9,0xffff),(2,0x2f5),(1,0x2f6),(5,0x2f5),(1,0x337),(1,0x2f5),(8,0xffff),
      (1,0x2f5),(1,0x337),(6,0x2f5),(1,0x337),(1,0x2f5),(10,0xffff),(1,0x2f5),(1,0x337),(5,0x2f5),
      (1,0x316),(1,0x2f5),(1,0x2b5),(5,0xffff),(1,0x2b5),(1,0x2f5),(1,0x316),(6,0x2f5),(1,0x316),
      (1,0x2f5),(9,0xffff),(1,0x377),(1,0x2f5),(1,0x316),(6,0x2f5),(1,0x337),(1,0x2f5),(7,0xffff),
      (1,0x2f5),(1,0x337),(5,0x2f5),(1,0x2f6),(1,0x316),(1,0x2f5),(9,0xffff),(1,0x2f5),(1,0x337),
      (5,0x2f5),(1,0x2f6),(1,0x316),(1,0x2f5),(32,0xffff)],
     [(1,0xffff),(1,0xe006),(1,0xf007),(14,0xe807),(1,0xf007),(1,0xe827),(28,0xffff),(1,0x2f5),
      (1,0x316),(5,0x2f5),(1,0x316),(2,0x2f5),(9,0xffff),(1,0x2f5),(1,0x337),(6,0x2f5),(1,0x316),
      (1,0x2f5),(9,0xffff),(1,0x2f5),(1,0x337),(5,0x2f5),(1,0x2f6),(2,0x316),(10,0xffff),(1,0x2b5),
      (1,0x2f5),(1,0x316),(5,0x2f5),(1,0x316),(1,0x2f5),(1,0x2d5),(13,0xffff),(2,0x2f5),(1,0x316),
      (5,0x2f5),(1,0x316),(1,0x2f5),(1,0x2b5),(9,0xffff),(1,0x2d5),(1,0x2f5),(1,0x316),(5,0x2f5),
      (1,0x316),(1,0x2f5),(9,0xffff),(1,0x2b5),(1,0x2f5),(1,0x316),(5,0x2f5),(1,0x337),(1,0x2f5),
      (8,0xffff),(1,0x2f5),(1,0x337),(6,0x2f5),(1,0x337),(1,0x2f5),(10,0xffff),(1,0x2f5),(1,0x337),
      (5,0x2f5),(1,0x316),(1,0x2f5),(1,0x315),(5,0xffff),(1,0x2f5),(2,0x2f6),(5,0x2f5),(1,0x316),
      (2,0x2f5),(10,0xffff),(1,0x2f5),(1,0x316),(6,0x2f5),(1,0x337),(1,0x2f5),(7,0xffff),(1,0x2f5),
      (1,0x337),(5,0x2f5),(1,0x2f6),(1,0x316),(1,0x2f5),(9,0xffff),(1,0x2f5),(1,0x337),(5,0x2f5),
      (1,0x2f6),(1,0x316),(1,0x2f5),(32,0xffff)],
     [(1,0xe807),(1,0xe006),(17,0xe807),(28,0xffff),(1,0x2f5),(1,0x316),(5,0x2f5),(1,0x316),(2,0x2f5),
      (9,0xffff),(1,0x2f5),(1,0x337),(6,0x2f5),(1,0x316),(1,0x2f5),(9,0xffff),(1,0x2f5),(1,0x337),
      (5,0x2f5),(1,0x2f6),(2,0x316),(10,0xffff),(1,0x2b5),(1,0x2f5),(1,0x316),(5,0x2f5),(1,0x316),
      (1,0x2f5),(1,0x2d5),(13,0xffff),(2,0x2f5),(1,0x316),(5,0x2f5),(1,0x316),(1,0x2f5),(1,0x2b5),
      (9,0xffff),(1,0x2d5),(1,0x2f5),(1,0x316),(5,0x2f5),(1,0x316),(1,0x2f5),(9,0xffff),(1,0x2d5),
      (1,0x2f5),(1,0x316),(5,0x2f5),(1,0x337),(1,0x2f5),(8,0xffff),(1,0x2f5),(1,0x317),(6,0x2f5),
      (1,0x337),(1,0x2f5),(10,0xffff),(1,0x2f5),(1,0x337),(5,0x2f5),(1,0x2f6),(1,0x2f5),(1,0x315),
      (5,0xffff),(1,0x2f5),(1,0x316),(6,0x2f5),(1,0x316),(1,0x2f5),(1,0x336),(10,0xffff),(1,0x2f5),
      (1,0x337),(6,0x2f5),(1,0x316),(1,0x2f5),(7,0xffff),(1,0x2f5),(1,0x337),(5,0x2f5),(1,0x2f6),
      (1,0x316),(1,0x2f5),(9,0xffff),(1,0x2f5),(1,0x337),(5,0x2f5),(1,0x2f6),(1,0x316),(1,0x2f5),
      (32,0xffff)],
     [(1,0xe007),(1,0xf007),(15,0xe807),(1,0xe006),(1,0xe806),(28,0xffff),(1,0x2f5),(1,0x316),
      (5,0x2f5),(1,0x316),(2,0x2f5),(9,0xffff),(1,0x2f5),(1,0x337),(6,0x2f5),(1,0x316),(1,0x2f5),
      (9,0xffff),(1,0x2f5),(1,0x337),(5,0x2f5),(1,0x2f6),(2,0x316),(10,0xffff),(1,0x2b5),(1,0x2f5),
      (1,0x316),(5,0x2f5),(1,0x316),(1,0x2f5),(1,0x2d5),(13,0xffff),(2,0x2f5),(1,0x316),(5,0x2f5),
      (1,0x316),(1,0x2f5),(1,0x2b5),(9,0xffff),(1,0x2d5),(1,0x2f5),(1,0x316),(5,0x2f5),(1,0x316),
      (1,0x2f5),(9,0xffff),(1,0x2d5),(1,0x2f5),(1,0x316),(5,0x2f5),(1,0x337),(1,0x2f5),(7,0xffff),
      (1,0x410),(1,0x2f5),(1,0x316),(6,0x2f5),(1,0x316),(1,0x2f5),(10,0xffff),(1,0x2f5),(1,0x337),
      (5,0x2f5),(1,0x2f6),(1,0x316),(1,0x2f5),(5,0xffff),(1,0x2f5),(1,0x337),(6,0x2f5),(1,0x316),
      (1,0x2f5),(1,0x218),(10,0xffff),(1,0x2f5),(1,0x337),(6,0x2f5),(1,0x316),(1,0x2f5),(1,0x218),
      (6,0xffff),(1,0x2f5),(1,0x337),(5,0x2f5),(1,0x2f6),(1,0x316),(1,0x2f5),(9,0xffff),(1,0x2f5),
      (1,0x337),(5,0x2f5),(1,0x2f6),(1,0x316),(1,0x2f5),(32,0xffff)],
     [(1,0xe006),(1,0xf807),(14,0xe807),(1,0xf007),(1,0xe806),(1,0xe006),(28,0xffff),(1,0x2f5),
      (1,0x316),(5,0x2f5),(1,0x316),(2,0x2f5),(9,0xffff),(1,0x2f5),(1,0x337),(6,0x2f5),(1,0x316),
      (1,0x2f5),(9,0xffff),(1,0x2f5),(1,0x337),(5,0x2f5),(1,0x2f6),(2,0x316),(10,0xffff),(1,0x2b5),
      (1,0x2f5),(1,0x316),(5,0x2f5),(1,0x316),(1,0x2f5),(1,0x2d5),(13,0xffff),(2,0x2f5),(1,0x316),
      (5,0x2f5),(1,0x316),(1,0x2f5),(1,0x2b5),(9,0xffff),(1,0x2d5),(1,0x2f5),(1,0x316),(5,0x2f5),
      (1,0x316),(1,0x2f5),(9,0xffff),(1,0x2d5),(1,0x2f5),(1,0x316),(5,0x2f5),(1,0x337),(1,0x2f5),
      (7,0xffff),(1,0x316),(1,0x2f5),(1,0x316),(6,0x2f5),(1,0x316),(12,0x2f5),(1,0x316),(6,0x2f5),
      (1,0x316),(1,0x2f5),(5,0xffff),(1,0x2f5),(1,0x337),(6,0x2f5),(1,0x316),(1,0x2f5),(11,0xffff),
      (1,0x2f5),(1,0x337),(6,0x2f5),(1,0x316),(1,0x2f5),(1,0x2f6),(6,0xffff),(1,0x2f5),(1,0x337),
      (5,0x2f5),(1,0x2f6),(1,0x316),(1,0x2f5),(9,0xffff),(1,0x2f5),(1,0x337),(5,0x2f5),(1,0x2f6),
      (1,0x316),(1,0x2f5),(32,0xffff)],
     [(1,0xe827),(1,0xf807),(14,0xe807),(1,0xf007),(1,0xe806),(1,0xd807),(28,0xffff),(1,0x2f5),
      (1,0x316),(5,0x2f5),(1,0x316),(2,0x2f5),(9,0xffff),(1,0x2f5),(1,0x337),(6,0x2f5),(1,0x316),
      (1,0x2f5),(9,0xffff),(1,0x2f5),(1,0x337),(5,0x2f5),(1,0x2f6),(2,0x316),(10,0xffff),(1,0x2b5),
      (1,0x2f5),(1,0x316),(5,0x2f5),(1,0x316),(1,0x2f5),(1,0x2d5),(13,0xffff),(2,0x2f5),(1,0x316),
      (5,0x2f5),(1,0x316),(1,0x2f5),(1,0x2b5),(9,0xffff),(1,0x2d5),(1,0x2f5),(1,0x316),(5,0x2f5),
      (1,0x316),(1,0x2f5),(9,0xffff),(1,0x2d5),(1,0x2f5),(1,0x316),(5,0x2f5),(1,0x337),(1,0x2f5),
      (7,0xffff),(2,0x2f5),(1,0x316),(7,0x2f5),(1,0x316),(10,0x337),(1,0x316),(7,0x2f5),(1,0x317),
      (1,0x2f5),(5,0xffff),(1,0x2f5),(1,0x337),(6,0x2f5),(1,0x317),(1,0x2f5),(11,0xffff),(1,0x2f5),
      (1,0x337),(6,0x2f5),(1,0x316),(2,0x2f5),(6,0xffff),(1,0x2f5),(1,0x337),(5,0x2f5),(1,0x2f6),
      (1,0x316),(1,0x2f5),(9,0xffff),(1,0x2f5),(1,0x337),(5,0x2f5),(1,0x2f6),(1,0x316),(1,0x2f5),
      (32,0xffff)],
     [(1,0xe827),(1,0xf807),(14,0xe807),(1,0xf007),(1,0xe006),(1,0xd807),(28,0xffff),(1,0x2f5),
      (1,0x316),(5,0x2f5),(1,0x316),(2,0x2f5),(9,0xffff),(1,0x2f5),(1,0x337),(6,0x2f5),(1,0x316),
      (1,0x2f5),(9,0xffff),(1,0x2f5),(1,0x337),(5,0x2f5),(1,0x2f6),(2,0x316),(10,0xffff),(1,0x2b5),
      (1,0x2f5),(1,0x316),(5,0x2f5),(1,0x316),(1,0x2f5),(1,0x2d5),(13,0xffff),(2,0x2f5),(1,0x316),
      (5,0x2f5),(1,0x316),(1,0x2f5),(1,0x2b5),(9,0xffff),(1,0x2d5),(1,0x2f5),(1,0x316),(5,0x2f5),
      (1,0x316),(1,0x2f5),(9,0xffff),(1,0x2d5),(1,0x2f5),(1,0x316),(5,0x2f5),(1,0x337),(1,0x2f5),
      (7,0xffff),(1,0x316),(1,0x2f5),(1,0x2f6),(26,0x2f5),(1,0x337),(1,0x2f5),(5,0xffff),(1,0x2f5),
      (1,0x337),(6,0x2f5),(1,0x337),(1,0x2f5),(11,0xffff),(1,0x2f5),(1,0x337),(6,0x2f5),(1,0x2f6),
      (1,0x2f5),(1,0x2d5),(6,0xffff),(1,0x2f5),(1,0x337),(5,0x2f5),(1,0x2f6),(1,0x316),(1,0x2f5),
      (9,0xffff),(1,0x2f5),(1,0x337),(5,0x2f5),(1,0x2f6),(1,0x316),(1,0x2f5),(32,0xffff)],
     [(1,0xe026),(1,0xf007),(15,0xe807),(2,0xe806),(28,0xffff),(1,0x2f5),(1,0x316),(5,0x2f5),(1,0x316),
      (2,0x2f5),(9,0xffff),(1,0x2f5),(1,0x337),(6,0x2f5),(1,0x316),(1,0x2f5),(9,0xffff),(1,0x2f5),
      (1,0x337),(5,0x2f5),(1,0x2f6),(2,0x316),(10,0xffff),(1,0x2b5),(1,0x2f5),(1,0x316),(5,0x2f5),
      (1,0x316),(1,0x2f5),(1,0x2d5),(13,0xffff),(2,0x2f5),(1,0x316),(5,0x2f5),(1,0x316),(1,0x2f5),
      (1,0x2b5),(9,0xffff),(1,0x2d5),(1,0x2f5),(1,0x316),(5,0x2f5),(1,0x316),(1,0x2f5),(9,0xffff),
      (1,0x2d5),(1,0x2f5),(1,0x316),(5,0x2f5),(1,0x337),(1,0x2f5),(7,0xffff),(1,0x2d6),(1,0x2f5),
      (1,0x2f6),(26,0x2f5),(1,0x337),(1,0x2f5),(5,0xffff),(1,0x2f5),(1,0x316),(6,0x2f5),(1,0x337),
      (1,0x2f5),(11,0xffff),(1,0x2f5),(1,0x337),(6,0x2f5),(2,0x2f6),(1,0x2f5),(6,0xffff),(1,0x2f5),
      (1,0x337),(5,0x2f5),(1,0x2f6),(1,0x316),(1,0x2f5),(9,0xffff),(1,0x2f5),(1,0x337),(5,0x2f5),
      (1,0x2f6),(1,0x316),(1,0x2f5),(32,0xffff)],
     [(1,0xe807),(1,0xf007),(17,0xe807),(28,0xffff),(1,0x2f5),(1,0x316),(5,0x2f5),(1,0x316),(2,0x2f5),
      (9,0xffff),(1,0x2f5),(1,0x337),(6,0x2f5),(1,0x316),(1,0x2f5),(9,0xffff),(1,0x2f5),(1,0x337),
      (5,0x2f5),(1,0x2f6),(2,0x316),(10,0xffff),(1,0x2b5),(1,0x2f5),(1,0x316),(5,0x2f5),(1,0x316),
      (1,0x2f5),(1,0x2d5),(13,0xffff),(2,0x2f5),(1,0x316),(5,0x2f5),(1,0x316),(1,0x2f5),(1,0x2b5),
      (9,0xffff),(1,0x2d5),(1,0x2f5),(1,0x316),(5,0x2f5),(1,0x316),(1,0x2f5),(9,0xffff),(1,0x2d5),
      (1,0x2f5),(1,0x316),(5,0x2f5),(1,0x337),(1,0x2f5),(7,0xffff),(2,0x2f5),(1,0x2f6),(26,0x2f5),
      (1,0x337),(1,0x2f5),(5,0xffff),(1,0x2f5),(1,0x316),(6,0x2f5),(1,0x337),(1,0x2f5),(11,0xffff),
      (1,0x2f5),(1,0x337),(7,0x2f5),(1,0x316),(1,0x2f5),(6,0xffff),(1,0x2f5),(1,0x337),(5,0x2f5),
      (1,0x2f6),(1,0x316),(1,0x2f5),(9,0xffff),(1,0x2f5),(1,0x337),(5,0x2f5),(1,0x2f6),(1,0x316),
      (1,0x2f5),(32,0xffff)],
     [(1,0xe007),(1,0xf007),(15,0xe807),(1,0xf007),(1,0xe007),(28,0xffff),(1,0x2f5),(1,0x316),
      (5,0x2f5),(1,0x316),(2,0x2f5),(9,0xffff),(1,0x2f5),(1,0x337),(6,0x2f5),(1,0x316),(1,0x2f5),
      (9,0xffff),(1,0x2f5),(1,0x337),(5,0x2f5),(1,0x2f6),(2,0x316),(10,0xffff),(1,0x2b5),(1,0x2f5),
      (1,0x316),(5,0x2f5),(1,0x316),(1,0x2f5),(1,0x2d5),(13,0xffff),(2,0x2f5),(1,0x316),(5,0x2f5),
      (1,0x316),(1,0x2f5),(1,0x2b5),(9,0xffff),(1,0x2d5),(1,0x2f5),(1,0x316),(5,0x2f5),(1,0x316),
      (1,0x2f5),(9,0xffff),(1,0x2d5),(1,0x2f5),(1,0x316),(5,0x2f5),(1,0x337),(1,0x2f5),(7,0xffff),
      (2,0x2f5),(1,0x2f6),(26,0x2f5),(1,0x337),(1,0x2f5),(5,0xffff),(1,0x2f5),(1,0x316),(6,0x2f5),
      (1,0x337),(1,0x2f5),(11,0xffff),(1,0x2f5),(1,0x337),(7,0x2f5),(1,0x316),(1,0x2f5),(6,0xffff),
      (1,0x2f5),(1,0x337),(5,0x2f5),(1,0x2f6),(1,0x316),(1,0x2f5),(9,0xffff),(1,0x2f5),(1,0x337),
      (5,0x2f5),(1,0x2f6),(1,0x316),(1,0x2f5),(32,0xffff)],
     [(1,0xe007),(1,0xf007),(15,0xe807),(1,0xf007),(1,0xe827),(28,0xffff),(1,0x2f5),(1,0x316),
      (5,0x2f5),(1,0x316),(2,0x2f5),(9,0xffff),(1,0x2f5),(1,0x337),(6,0x2f5),(1,0x316),(1,0x2f5),
      (9,0xffff),(1,0x2f5),(1,0x337),(5,0x2f5),(1,0x2f6),(2,0x316),(10,0xffff),(1,0x2b5),(1,0x2f5),
      (1,0x316),(5,0x2f5),(1,0x316),(1,0x2f5),(1,0x2d5),(13,0xffff),(2,0x2f5),(1,0x316),(5,0x2f5),
      (1,0x316),(1,0x2f5),(1,0x2b5),(9,0xffff),(1,0x2d5),(1,0x2f5),(1,0x316),(5,0x2f5),(1,0x316),
      (1,0x2f5),(9,0xffff),(1,0x2d5),(1,0x2f5),(1,0x316),(5,0x2f5),(1,0x337),(1,0x2f5),(7,0xffff),
      (1,0x2d6),(1,0x2f5),(1,0x2f6),(7,0x2f5),(1,0x316),(18,0x337),(1,0x379),(1,0x2f5),(5,0xffff),
      (1,0x2f5),(1,0x317),(6,0x2f5),(1,0x337),(1,0x2f5),(11,0xffff),(1,0x2f5),(1,0x337),(6,0x2f5),
      (1,0x2f6),(1,0x2f5),(1,0x2d5),(6,0xffff),(1,0x2f5),(1,0x337),(5,0x2f5),(1,0x2f6),(1,0x316),
      (1,0x2f5),(9,0xffff),(1,0x2f5),(1,0x337),(5,0x2f5),(1,0x2f6),(1,0x316),(1,0x2f5),(32,0xffff)],
     [(1,0xe827),(1,0xf007),(15,0xe807),(1,0xf807),(1,0xe826),(28,0xffff),(1,0x2f5),(1,0x316),
      (5,0x2f5),(1,0x316),(2,0x2f5),(9,0xffff),(1,0x2f5),(1,0x337),(6,0x2f5),(1,0x316),(1,0x2f5),
      (9,0xffff),(1,0x2f5),(1,0x337),(5,0x2f5),(1,0x2f6),(2,0x316),(10,0xffff),(1,0x2b5),(1,0x2f5),
      (1,0x316),(5,0x2f5),(1,0x316),(1,0x2f5),(1,0x2d5),(13,0xffff),(2,0x2f5),(1,0x316),(5,0x2f5),
      (1,0x316),(1,0x2f5),(1,0x2b5),(9,0xffff),(1,0x2d5),(1,0x2f5),(1,0x316),(5,0x2f5),(1,0x316),
      (1,0x2f5),(9,0xffff),(1,0x2d5),(1,0x2f5),(1,0x316),(5,0x2f5),(1,0x337),(1,0x2f5),(7,0xffff),
      (2,0x2f5),(1,0x2f6),(6,0x2f5),(1,0x316),(19,0x2f5),(1,0x337),(1,0x2f5),(5,0xffff),(1,0x2f5),
      (1,0x337),(6,0x2f5),(1,0x337),(1,0x2f5),(11,0xffff),(1,0x2f5),(1,0x337),(6,0x2f5),(1,0x2f6),
      (2,0x2f5),(6,0xffff),(1,0x2f5),(1,0x337),(5,0x2f5),(1,0x2f6),(1,0x316),(1,0x2f5),(9,0xffff),
      (1,0x2f5),(1,0x337),(5,0x2f5),(1,0x2f6),(1,0x316),(1,0x2f5),(32,0xffff)],
     [(1,0xe826),(1,0xf807),(15,0xe807),(1,0xf007),(1,0xe007),(1,0xf8ff),(27,0xffff),(1,0x2f5),
      (1,0x316),(5,0x2f5),(1,0x316),(2,0x2f5),(9,0xffff),(1,0x2f5),(1,0x337),(6,0x2f5),(1,0x316),
      (1,0x2f5),(9,0xffff),(1,0x2f5),(1,0x337),(5,0x2f5),(1,0x2f6),(2,0x316),(10,0xffff),(1,0x2b5),
      (1,0x2f5),(1,0x316),(5,0x2f5),(1,0x316),(1,0x2f5),(1,0x2d5),(13,0xffff),(2,0x2f5),(1,0x316),
      (5,0x2f5),(1,0x316),(1,0x2f5),(1,0x2b5),(9,0xffff),(1,0x2d5),(1,0x2f5),(1,0x316),(5,0x2f5),
      (1,0x316),(1,0x2f5),(9,0xffff),(1,0x2d5),(1,0x2f5),(1,0x316),(5,0x2f5),(1,0x337),(1,0x2f5),
      (7,0xffff),(1,0x315),(1,0x2f5),(1,0x316),(6,0x2f5),(1,0x317),(1,0x2f5),(25,0xffff),(1,0x2f5),
      (1,0x337),(6,0x2f5),(1,0x337),(1,0x2f5),(11,0xffff),(1,0x2f5),(1,0x337),(6,0x2f5),(1,0x316),
      (2,0x2f5),(6,0xffff),(1,0x2f5),(1,0x337),(5,0x2f5),(1,0x2f6),(1,0x316),(1,0x2f5),(9,0xffff),
      (1,0x2f5),(1,0x337),(5,0x2f5),(1,0x2f6),(1,0x316),(1,0x2f5),(32,0xffff)],
     [(1,0xe827),(1,0xf807),(18,0xe807),(27,0xffff),(1,0x2f5),(1,0x316),(5,0x2f5),(1,0x316),(2,0x2f5),
      (9,0xffff),(1,0x2f5),(1,0x337),(6,0x2f5),(1,0x316),(1,0x2f5),(9,0xffff),(1,0x2f5),(1,0x337),
      (5,0x2f5),(1,0x2f6),(2,0x316),(10,0xffff),(1,0x2b5),(1,0x2f5),(1,0x316),(5,0x2f5),(1,0x316),
      (1,0x2f5),(1,0x2d5),(13,0xffff),(2,0x2f5),(1,0x316),(5,0x2f5),(1,0x316),(1,0x2f5),(1,0x2b5),
      (9,0xffff),(1,0x2d5),(1,0x2f5),(1,0x316),(5,0x2f5),(1,0x316),(1,0x2f5),(9,0xffff),(1,0x2d5),
      (1,0x2f5),(1,0x316),(5,0x2f5),(1,0x337),(1,0x2f5),(7,0xffff),(1,0x2b5),(1,0x2f5),(1,0x316),
      (6,0x2f5),(1,0x316),(1,0x2f6),(25,0xffff),(1,0x2f5),(1,0x337),(6,0x2f5),(1,0x316),(1,0x2f5),
      (11,0xffff),(1,0x2f5),(1,0x337),(6,0x2f5),(1,0x316),(1,0x2f5),(1,0x316),(6,0xffff),(1,0x2f5),
      (1,0x337),(5,0x2f5),(1,0x2f6),(1,0x316),(1,0x2f5),(9,0xffff),(1,0x2f5),(1,0x337),(5,0x2f5),
      (1,0x2f6),(1,0x316),(1,0x2f5),(32,0xffff)],
     [(1,0xe806),(1,0xf007),(16,0xe807),(1,0xf807),(1,0xe826),(27,0xffff),(1,0x2f5),(1,0x316),
      (5,0x2f5),(1,0x316),(2,0x2f5),(9,0xffff),(1,0x2f5),(1,0x337),(6,0x2f5),(1,0x316),(1,0x2f5),
      (9,0xffff),(1,0x2f5),(1,0x337),(5,0x2f5),(1,0x2f6),(2,0x316),(10,0xffff),(1,0x2b5),(1,0x2f5),
      (1,0x316),(5,0x2f5),(1,0x316),(1,0x2f5),(1,0x2d5),(13,0xffff),(2,0x2f5),(1,0x316),(5,0x2f5),
      (1,0x316),(1,0x2f5),(1,0x2b5),(9,0xffff),(1,0x2d5),(1,0x2f5),(1,0x316),(5,0x2f5),(1,0x316),
      (1,0x2f5),(9,0xffff),(1,0x2d5),(1,0x2f5),(1,0x316),(5,0x2f5),(1,0x337),(1,0x2f5),(8,0xffff),
      (1,0x2f5),(1,0x316),(6,0x2f5),(1,0x316),(1,0x2f5),(25,0xffff),(1,0x2f5),(1,0x337),(6,0x2f5),
      (1,0x316),(1,0x2f5),(1,0x2b5),(10,0xffff),(1,0x2f5),(1,0x337),(6,0x2f5),(1,0x316),(1,0x2f5),
      (1,0x41f),(6,0xffff),(1,0x2f5),(1,0x337),(5,0x2f5),(1,0x2f6),(1,0x316),(1,0x2f5),(9,0xffff),
      (1,0x2f5),(1,0x337),(5,0x2f5),(1,0x2f6),(1,0x316),(1,0x2f5),(32,0xffff)],
     [(18,0xe807),(1,0xf007),(1,0xe007),(27,0xffff),(1,0x2f5),(1,0x316),(5,0x2f5),(1,0x316),(2,0x2f5),
      (9,0xffff),(1,0x2f5),(1,0x337),(6,0x2f5),(1,0x316),(1,0x2f5),(9,0xffff),(1,0x2f5),(1,0x337),
      (5,0x2f5),(1,0x2f6),(2,0x316),(10,0xffff),(1,0x2b5),(1,0x2f5),(1,0x316),(5,0x2f5),(1,0x316),
      (1,0x2f5),(1,0x2d5),(13,0xffff),(2,0x2f5),(1,0x316),(5,0x2f5),(1,0x316),(1,0x2f5),(1,0x2b5),
      (9,0xffff),(1,0x2d5),(1,0x2f5),(1,0x316),(5,0x2f5),(1,0x316),(1,0x2f5),(9,0xffff),(1,0x2d5),
      (1,0x2f5),(1,0x316),(5,0x2f5),(1,0x337),(1,0x2f5),(8,0xffff),(1,0x2f5),(1,0x317),(6,0x2f5),
      (1,0x337),(1,0x2f5),(25,0xffff),(1,0x2f5),(1,0x337),(6,0x2f5),(1,0x316),(1,0x2f5),(1,0x2f7),
      (10,0xffff),(1,0x2f5),(1,0x337),(6,0x2f5),(1,0x317),(1,0x2f5),(7,0xffff),(1,0x2f5),(1,0x337),
      (5,0x2f5),(1,0x2f6),(1,0x316),(1,0x2f5),(9,0xffff),(1,0x2f5),(1,0x337),(5,0x2f5),(1,0x2f6),
      (1,0x316),(1,0x2f5),(32,0xffff)],
     [(1,0xc008),(1,0xe806),(1,0xf007),(17,0xe807),(1,0xe006),(26,0xffff),(1,0x2f5),(1,0x316),
      (5,0x2f5),(1,0x316),(2,0x2f5),(9,0xffff),(1,0x2f5),(1,0x337),(6,0x2f5),(1,0x316),(1,0x2f5),
      (9,0xffff),(1,0x2f5),(1,0x337),(5,0x2f5),(1,0x2f6),(2,0x316),(10,0xffff),(1,0x2b5),(1,0x2f5),
      (1,0x316),(5,0x2f5),(1,0x316),(1,0x2f5),(1,0x2d5),(13,0xffff),(2,0x2f5),(1,0x316),(5,0x2f5),
      (1,0x316),(1,0x2f5),(1,0x2b5),(9,0xffff),(1,0x2d5),(1,0x2f5),(1,0x316),(5,0x2f5),(1,0x316),
      (1,0x2f5),(9,0xffff),(1,0x2d5),(1,0x2f5),(1,0x316),(5,0x2f5),(1,0x337),(1,0x2f5),(8,0xffff),
      (1,0x2f5),(1,0x337),(6,0x2f5),(1,0x337),(1,0x2f5),(25,0xffff),(1,0x2f5),(1,0x316),(6,0x2f5),
      (1,0x316),(2,0x2f5),(10,0xffff),(1,0x2f5),(1,0x316),(6,0x2f5),(1,0x337),(1,0x2f5),(7,0xffff),
      (1,0x2f5),(1,0x337),(5,0x2f5),(1,0x2f6),(1,0x316),(1,0x2f5),(9,0xffff),(1,0x2f5),(1,0x337),
      (5,0x2f5),(1,0x2f6),(1,0x316),(1,0x2f5),(32,0xffff)],
     [(1,0xffff),(1,0xe026),(1,0xf807),(16,0xe807),(1,0xf807),(1,0xe826),(26,0xffff),(1,0x2f5),
      (1,0x316),(5,0x2f5),(1,0x316),(2,0x2f5),(9,0xffff),(1,0x2f5),(1,0x337),(6,0x2f5),(1,0x316),
      (1,0x2f5),(9,0xffff),(1,0x2f5),(1,0x337),(5,0x2f5),(1,0x2f6),(2,0x316),(10,0xffff),(1,0x2b5),
      (1,0x2f5),(1,0x316),(5,0x2f5),(1,0x316),(1,0x2f5),(1,0x2d5),(13,0xffff),(2,0x2f5),(1,0x316),
      (5,0x2f5),(1,0x316),(1,0x2f5),(1,0x2b5),(9,0xffff),(1,0x2d5),(1,0x2f5),(1,0x316),(5,0x2f5),
      (1,0x316),(1,0x2f5),(9,0xffff),(1,0x2d5),(1,0x2f5),(1,0x316),(5,0x2f5),(1,0x337),(1,0x2f5),
      (8,0xffff),(1,0x315),(1,0x337),(6,0x2f5),(1,0x337),(1,0x2f5),(25,0xffff),(1,0x2f6),(1,0x2f5),
      (1,0x316),(5,0x2f5),(1,0x2f6),(1,0x316),(1,0x2f5),(9,0xffff),(1,0x316),(1,0x2f5),(1,0x316),
      (6,0x2f5),(1,0x337),(1,0x2f5),(7,0xffff),(1,0x2f5),(1,0x337),(5,0x2f5),(1,0x2f6),(1,0x316),
      (1,0x2f5),(9,0xffff),(1,0x2f5),(1,0x337),(5,0x2f5),(1,0x2f6),(1,0x316),(1,0x2f5),(32,0xffff)],
     [(1,0xffff),(1,0xe807),(1,0xf807),(16,0xe807),(1,0xf007),(1,0xe806),(1,0xf806),(25,0xffff),
      (1,0x2f5),(1,0x316),(5,0x2f5),(1,0x316),(2,0x2f5),(9,0xffff),(1,0x2f5),(1,0x337),(6,0x2f5),
      (1,0x316),(1,0x2f5),(9,0xffff),(1,0x2f5),(1,0x337),(5,0x2f5),(1,0x2f6),(2,0x316),(10,0xffff),
      (1,0x2b5),(1,0x2f5),(1,0x316),(5,0x2f5),(1,0x316),(1,0x2f5),(1,0x2d5),(13,0xffff),(2,0x2f5),
      (1,0x316),(5,0x2f5),(1,0x316),(1,0x2f5),(1,0x2b5),(9,0xffff),(1,0x2d5),(1,0x2f5),(1,0x316),
      (5,0x2f5),(1,0x316),(1,0x2f5),(9,0xffff),(1,0x2d5),(1,0x2f5),(1,0x316),(5,0x2f5),(1,0x337),
      (1,0x2f5),(8,0xffff),(1,0x2f5),(1,0x316),(6,0x2f5),(1,0x316),(1,0x2f5),(1,0x2b5),(24,0xffff),
      (1,0x41f),(1,0x2f5),(1,0x316),(6,0x2f5),(1,0x337),(1,0x2f5),(9,0xffff),(1,0x2d6),(2,0x2f6),
      (6,0x2f5),(1,0x316),(1,0x2f6),(7,0xffff),(1,0x2f5),(1,0x337),(5,0x2f5),(1,0x2f6),(1,0x316),
      (1,0x2f5),(9,0xffff),(1,0x2f5),(1,0x337),(5,0x2f5),(1,0x2f6),(1,0x316),(1,0x2f5),(32,0xffff)],
     [(1,0xffff),(2,0xe806),(17,0xe807),(1,0xf807),(1,0xe027),(25,0xffff),(1,0x2f5),(1,0x316),
      (5,0x2f5),(1,0x316),(2,0x2f5),(9,0xffff),(1,0x2f5),(1,0x337),(6,0x2f5),(1,0x316),(1,0x2f5),
      (9,0xffff),(1,0x2f5),(1,0x337),(5,0x2f5),(1,0x2f6),(2,0x316),(10,0xffff),(1,0x2b5),(1,0x2f5),
      (1,0x316),(5,0x2f5),(1,0x316),(1,0x2f5),(1,0x2d5),(13,0xffff),(2,0x2f5),(1,0x316),(5,0x2f5),
      (1,0x316),(1,0x2f5),(1,0x2b5),(9,0xffff),(1,0x2d5),(1,0x2f5),(1,0x316),(5,0x2f5),(1,0x316),
      (1,0x2f5),(9,0xffff),(1,0x2d5),(1,0x2f5),(1,0x316),(5,0x2f5),(1,0x337),(1,0x2f5),(8,0xffff),
      (1,0x2b5),(1,0x2f5),(1,0x316),(6,0x2f5),(1,0x316),(1,0x2d5),(25,0xffff),(1,0x2f5),(1,0x337),
      (6,0x2f5),(1,0x337),(1,0x2f5),(9,0xffff),(1,0x2f6),(1,0x337),(6,0x2f5),(1,0x316),(1,0x2f5),
      (1,0x2f7),(7,0xffff),(1,0x2f5),(1,0x337),(5,0x2f5),(1,0x2f6),(1,0x316),(1,0x2f5),(9,0xffff),
      (1,0x2f5),(1,0x337),(5,0x2f5),(1,0x2f6),(1,0x316),(1,0x2f5),(32,0xffff)],
     [(2,0xffff),(1,0xe807),(1,0xf807),(16,0xe807),(1,0xf007),(1,0xe807),(1,0xe806),(24,0xffff),
      (1,0x2f5),(1,0x316),(5,0x2f5),(1,0x316),(2,0x2f5),(9,0xffff),(1,0x2f5),(1,0x337),(6,0x2f5),
      (1,0x316),(1,0x2f5),(9,0xffff),(1,0x2f5),(1,0x337),(5,0x2f5),(1,0x2f6),(2,0x316),(10,0xffff),
      (1,0x2b5),(1,0x2f5),(1,0x316),(5,0x2f5),(1,0x316),(1,0x2f5),(1,0x2d5),(13,0xffff),(2,0x2f5),
      (1,0x316),(5,0x2f5),(1,0x316),(1,0x2f5),(1,0x2b5),(9,0xffff),(1,0x2d5),(1,0x2f5),(1,0x316),
      (5,0x2f5),(1,0x316),(1,0x2f5),(9,0xffff),(1,0x2d5),(1,0x2f5),(1,0x316),(5,0x2f5),(1,0x337),
      (1,0x2f5),(9,0xffff),(1,0x2f5),(1,0x337),(6,0x2f5),(1,0x337),(1,0x2f5),(13,0xffff),(1,0x2d4),
      (1,0x2f5),(10,0xffff),(1,0x2f5),(1,0x337),(6,0x2f5),(1,0x316),(1,0x2f5),(1,0x2f4),(8,0xffff),
      (1,0x2f5),(1,0x337),(6,0x2f5),(1,0x337),(1,0x2f5),(8,0xffff),(1,0x2f5),(1,0x337),(5,0x2f5),
      (1,0x2f6),(1,0x316),(1,0x2f5),(9,0xffff),(1,0x2f5),(1,0x337),(5,0x2f5),(1,0x2f6),(1,0x316),
      (1,0x2f5),(32,0xffff)],
     [(2,0xffff),(1,0xe807),(1,0xf007),(17,0xe807),(1,0xf807),(1,0xe027),(24,0xffff),(1,0x2f5),
      (1,0x316),(5,0x2f5),(1,0x316),(2,0x2f5),(9,0xffff),(1,0x2f5),(1,0x337),(6,0x2f5),(1,0x316),
      (1,0x2f5),(9,0xffff),(1,0x2f5),(1,0x337),(5,0x2f5),(1,0x2f6),(2,0x316),(10,0xffff),(1,0x2b5),
      (1,0x2f5),(1,0x316),(5,0x2f5),(1,0x316),(1,0x2f5),(1,0x2d5),(13,0xffff),(2,0x2f5),(1,0x316),
      (5,0x2f5),(1,0x316),(1,0x2f5),(1,0x2b5),(9,0xffff),(1,0x2d5),(1,0x2f5),(1,0x316),(5,0x2f5),
      (1,0x316),(1,0x2f5),(9,0xffff),(1,0x2d5),(1,0x2f5),(1,0x316),(5,0x2f5),(1,0x337),(1,0x2f5),
      (9,0xffff),(1,0x2f5),(1,0x337),(6,0x2f5),(1,0x2f6),(1,0x316),(1,0x2f5),(11,0xffff),(1,0x2f5),
      (2,0x316),(1,0x2f5),(9,0xffff),(1,0x2f6),(1,0x2f5),(1,0x316),(6,0x2f5),(1,0x317),(1,0x315),
      (7,0xffff),(1,0x315),(1,0x2f6),(1,0x316),(6,0x2f5),(1,0x337),(1,0x2f5),(8,0xffff),(1,0x2f5),
      (1,0x337),(5,0x2f5),(1,0x2f6),(1,0x316),(1,0x2f5),(9,0xffff),(1,0x2f5),(1,0x337),(5,0x2f5),
      (1,0x2f6),(1,0x316),(1,0x2f5),(32,0xffff)],
     [(2,0xffff),(2,0xe007),(1,0xf007),(18,0xe807),(1,0xe007),(23,0xffff),(1,0x2f5),(1,0x316),
      (5,0x2f5),(1,0x316),(2,0x2f5),(9,0xffff),(1,0x2f5),(1,0x337),(6,0x2f5),(1,0x316),(1,0x2f5),
      (9,0xffff),(1,0x2f5),(1,0x337),(5,0x2f5),(1,0x2f6),(2,0x316),(10,0xffff),(1,0x2b5),(1,0x2f5),
      (1,0x316),(5,0x2f5),(1,0x316),(1,0x2f5),(1,0x2d5),(13,0xffff),(2,0x2f5),(1,0x316),(5,0x2f5),
      (1,0x316),(1,0x2f5),(1,0x2b5),(9,0xffff),(1,0x2d5),(1,0x2f5),(1,0x316),(5,0x2f5),(1,0x316),
      (1,0x2f5),(9,0xffff),(1,0x2d5),(1,0x2f5),(1,0x316),(5,0x2f5),(1,0x337),(1,0x2f5),(9,0xffff),
      (1,0x317),(1,0x2f5),(1,0x316),(6,0x2f5),(2,0x316),(1,0x2f4),(9,0xffff),(1,0x2f5),(1,0x316),
      (2,0x337),(1,0x2f5),(10,0xffff),(1,0x2f5),(1,0x337),(6,0x2f5),(1,0x316),(1,0x2f6),(1,0x214),
      (6,0xffff),(1,0x2f5),(1,0x337),(6,0x2f5),(1,0x316),(1,0x2f5),(1,0x2d6),(8,0xffff),(1,0x2f5),
      (1,0x337),(5,0x2f5),(1,0x2f6),(1,0x316),(1,0x2f5),(9,0xffff),(1,0x2f5),(1,0x337),(5,0x2f5),
      (1,0x2f6),(1,0x316),(1,0x2f5),(32,0xffff)],
     [(3,0xffff),(1,0xe807),(1,0xf807),(16,0xe807),(1,0xe007),(1,0xf807),(1,0xe026),(23,0xffff),
      (1,0x2f5),(1,0x316),(5,0x2f5),(1,0x316),(2,0x2f5),(9,0xffff),(1,0x2f5),(1,0x337),(6,0x2f5),
      (1,0x316),(1,0x2f5),(9,0xffff),(1,0x2f5),(1,0x337),(5,0x2f5),(1,0x2f6),(2,0x316),(10,0xffff),
      (1,0x2b5),(1,0x2f5),(1,0x316),(5,0x2f5),(1,0x316),(1,0x2f5),(1,0x2d5),(13,0xffff),(2,0x2f5),
      (1,0x316),(5,0x2f5),(1,0x316),(1,0x2f5),(1,0x2b5),(9,0xffff),(1,0x2d5),(1,0x2f5),(1,0x316),
      (5,0x2f5),(1,0x316),(1,0x2f5),(9,0xffff),(1,0x2d5),(1,0x2f5),(1,0x316),(5,0x2f5),(1,0x337),
      (1,0x2f5),(10,0xffff),(1,0x2f5),(1,0x337),(7,0x2f5),(1,0x317),(1,0x2f6),(1,0x316),(6,0xffff),
      (1,0x2f6),(3,0x316),(1,0x2f5),(1,0x2f6),(1,0x316),(1,0x2f6),(9,0xffff),(1,0x2f5),(1,0x337),
      (7,0x2f5),(1,0x337),(1,0x2f6),(1,0x218),(4,0xffff),(1,0x2f6),(1,0x316),(1,0x2f6),(6,0x2f5),
      (1,0x337),(1,0x2f5),(9,0xffff),(1,0x2f5),(1,0x337),(5,0x2f5),(1,0x2f6),(1,0x316),(1,0x2f5),
      (9,0xffff),(1,0x2f5),(1,0x337),(5,0x2f5),(1,0x2f6),(1,0x316),(1,0x2f5),(32,0xffff)],
     [(3,0xffff),(1,0xf006),(1,0xe807),(1,0xf007),(17,0xe807),(1,0xf007),(1,0xe007),(22,0xffff),
      (1,0x2f5),(1,0x316),(5,0x2f5),(1,0x316),(2,0x2f5),(9,0xffff),(1,0x2f5),(1,0x337),(6,0x2f5),
      (1,0x316),(1,0x2f5),(9,0xffff),(1,0x2f5),(1,0x337),(5,0x2f5),(1,0x2f6),(2,0x316),(10,0xffff),
      (1,0x2b5),(1,0x2f5),(1,0x316),(5,0x2f5),(1,0x316),(1,0x2f5),(1,0x2d5),(13,0xffff),(2,0x2f5),
      (1,0x316),(5,0x2f5),(1,0x316),(1,0x2f5),(1,0x2b5),(9,0xffff),(1,0x2d5),(1,0x2f5),(1,0x316),
      (5,0x2f5),(1,0x316),(1,0x2f5),(9,0xffff),(1,0x2d5),(1,0x2f5),(1,0x316),(5,0x2f5),(1,0x337),
      (1,0x2f5),(10,0xffff),(1,0x316),(1,0x2f6),(1,0x316),(7,0x2f5),(2,0x316),(5,0x2f5),(1,0x316),
      (1,0x2f5),(1,0x337),(1,0x2f6),(3,0x2f5),(1,0x337),(1,0x2f5),(9,0xffff),(1,0x2b5),(1,0x2f5),
      (1,0x316),(7,0x2f5),(1,0x337),(2,0x2f5),(1,0x2f6),(1,0x315),(1,0x2f5),(2,0x316),(6,0x2f5),
      (1,0x2f6),(1,0x316),(1,0x2f6),(9,0xffff),(1,0x2f5),(1,0x337),(5,0x2f5),(1,0x2f6),(1,0x316),
      (1,0x2f5),(9,0xffff),(1,0x2f5),(1,0x337),(5,0x2f5),(1,0x2f6),(1,0x316),(1,0x2f5),(32,0xffff)],
     [(4,0xffff),(1,0xe007),(1,0xf807),(17,0xe807),(1,0xf007),(1,0xe807),(1,0xe006),(21,0xffff),
      (1,0x2f5),(1,0x316),(5,0x2f5),(1,0x316),(2,0x2f5),(9,0xffff),(1,0x2f5),(1,0x337),(6,0x2f5),
      (1,0x316),(1,0x2f5),(9,0xffff),(1,0x2f5),(1,0x337),(5,0x2f5),(1,0x2f6),(2,0x316),(10,0xffff),
      (1,0x2b5),(1,0x2f5),(1,0x316),(5,0x2f5),(1,0x316),(1,0x2f5),(1,0x2d5),(13,0xffff),(2,0x2f5),
      (1,0x316),(5,0x2f5),(1,0x316),(1,0x2f5),(1,0x2b5),(9,0xffff),(1,0x2d5),(1,0x2f5),(1,0x316),
      (5,0x2f5),(1,0x316),(1,0x2f5),(9,0xffff),(1,0x2d5),(1,0x2f5),(1,0x316),(5,0x2f5),(1,0x337),
      (1,0x2f5),(11,0xffff),(1,0x2f5),(1,0x337),(9,0x2f5),(1,0x317),(1,0x337),(2,0x317),(1,0x337),
      (1,0x317),(1,0x2f6),(5,0x2f5),(1,0x2f6),(1,0x316),(1,0x315),(9,0xffff),(1,0x2f5),(1,0x337),
      (8,0x2f5),(1,0x316),(1,0x317),(1,0x2f6),(1,0x316),(1,0x337),(1,0x2f6),(7,0x2f5),(1,0x337),
      (1,0x2d5),(10,0xffff),(1,0x2f5),(1,0x337),(5,0x2f5),(1,0x2f6),(1,0x316),(1,0x2f5),(9,0xffff),
      (1,0x2f5),(1,0x337),(5,0x2f5),(1,0x2f6),(1,0x316),(1,0x2f5),(32,0xffff)],
     [(4,0xffff),(1,0xe004),(1,0xe807),(1,0xf007),(16,0xe807),(1,0xe007),(1,0xf807),(1,0xe807),
      (21,0xffff),(1,0x2f5),(1,0x316),(5,0x2f5),(1,0x316),(2,0x2f5),(9,0xffff),(1,0x2f5),(1,0x337),
      (6,0x2f5),(1,0x316),(1,0x2f5),(9,0xffff),(1,0x2f5),(1,0x337),(5,0x2f5),(1,0x2f6),(2,0x316),
      (10,0xffff),(1,0x2b5),(1,0x2f5),(1,0x316),(5,0x2f5),(1,0x316),(1,0x2f5),(1,0x2d5),(13,0xffff),
      (2,0x2f5),(1,0x316),(5,0x2f5),(1,0x316),(1,0x2f5),(1,0x2b5),(9,0xffff),(1,0x2d5),(1,0x2f5),
      (1,0x316),(5,0x2f5),(1,0x316),(1,0x2f5),(9,0xffff),(1,0x2d5),(1,0x2f5),(1,0x316),(5,0x2f5),
      (1,0x337),(1,0x2f5),(11,0xffff),(1,0x314),(1,0x2f5),(1,0x316),(21,0x2f5),(1,0x337),(1,0x2f5),
      (9,0xffff),(1,0x257),(1,0x2f5),(1,0x337),(9,0x2f5),(1,0x2f6),(9,0x2f5),(2,0x316),(1,0x2f6),
      (10,0xffff),(1,0x2f5),(1,0x337),(5,0x2f5),(1,0x2f6),(1,0x316),(1,0x2f5),(9,0xffff),(1,0x2f5),
      (1,0x337),(5,0x2f5),(1,0x2f6),(1,0x316),(1,0x2f5),(32,0xffff)],
     [(5,0xffff),(1,0xe007),(1,0xf007),(18,0xe807),(1,0xf807),(1,0xe026),(20,0xffff),(1,0x2f5),
      (1,0x316),(5,0x2f5),(1,0x316),(2,0x2f5),(9,0xffff),(1,0x2f5),(1,0x337),(6,0x2f5),(1,0x316),
      (1,0x2f5),(9,0xffff),(1,0x2f5),(1,0x337),(5,0x2f5),(1,0x2f6),(2,0x316),(10,0xffff),(1,0x2b5),
      (1,0x2f5),(1,0x316),(5,0x2f5),(1,0x316),(1,0x2f5),(1,0x2d5),(13,0xffff),(2,0x2f5),(1,0x316),
      (5,0x2f5),(1,0x316),(1,0x2f5),(1,0x2b5),(9,0xffff),(1,0x2d5),(1,0x2f5),(1,0x316),(5,0x2f5),
      (1,0x316),(1,0x2f5),(9,0xffff),(1,0x2d5),(1,0x2f5),(1,0x316),(5,0x2f5),(1,0x337),(1,0x2f5),
      (12,0xffff),(1,0x2f5),(2,0x316),(19,0x2f5),(2,0x316),(1,0x2f6),(10,0xffff),(1,0x2d5),(2,0x316),
      (17,0x2f5),(1,0x2f6),(1,0x337),(1,0x2f5),(11,0xffff),(1,0x2f5),(1,0x337),(5,0x2f5),(1,0x2f6),
      (1,0x316),(1,0x2f5),(9,0xffff),(1,0x2f5),(1,0x337),(5,0x2f5),(1,0x2f6),(1,0x316),(1,0x2f5),
      (32,0xffff)],
     [(6,0xffff),(1,0xe026),(1,0xf807),(1,0xe007),(17,0xe807),(1,0xf007),(1,0xe007),(19,0xffff),
      (1,0x2f5),(1,0x316),(5,0x2f5),(1,0x316),(2,0x2f5),(9,0xffff),(1,0x2f5),(1,0x337),(6,0x2f5),
      (1,0x316),(1,0x2f5),(9,0xffff),(1,0x2f5),(1,0x337),(5,0x2f5),(1,0x2f6),(2,0x316),(10,0xffff),
      (1,0x2b5),(1,0x2f5),(1,0x316),(5,0x2f5),(1,0x316),(1,0x2f5),(1,0x2d5),(13,0xffff),(2,0x2f5),
      (1,0x316),(5,0x2f5),(1,0x316),(1,0x2f5),(1,0x2b5),(9,0xffff),(1,0x2d5),(1,0x2f5),(1,0x316),
      (5,0x2f5),(1,0x316),(1,0x2f5),(9,0xffff),(1,0x2d5),(1,0x2f5),(1,0x316),(5,0x2f5),(1,0x337),
      (1,0x2f5),(13,0xffff),(1,0x2f5),(2,0x316),(17,0x2f5),(1,0x337),(1,0x316),(1,0x2f5),(12,0xffff),
      (1,0x2f5),(1,0x337),(1,0x316),(15,0x2f5),(1,0x2f6),(1,0x337),(1,0x2f5),(12,0xffff),(1,0x2f5),
      (1,0x337),(5,0x2f5),(1,0x2f6),(1,0x316),(1,0x2f5),(9,0xffff),(1,0x2f5),(1,0x337),(5,0x2f5),
      (1,0x2f6),(1,0x316),(1,0x2f5),(32,0xffff)],
     [(6,0xffff),(1,0xe808),(1,0xe807),(1,0xf007),(1,0xe007),(15,0xe807),(1,0xe007),(2,0xe807),
      (1,0xe006),(18,0xffff),(1,0x2f5),(1,0x316),(5,0x2f5),(1,0x316),(2,0x2f5),(9,0xffff),(1,0x2f5),
      (1,0x337),(6,0x2f5),(1,0x316),(1,0x2f5),(9,0xffff),(1,0x2f5),(1,0x337),(5,0x2f5),(1,0x2f6),
      (2,0x316),(10,0xffff),(1,0x2b5),(1,0x2f5),(1,0x316),(5,0x2f5),(1,0x316),(1,0x2f5),(1,0x2d5),
      (13,0xffff),(2,0x2f5),(1,0x316),(5,0x2f5),(1,0x316),(1,0x2f5),(1,0x2b5),(9,0xffff),(1,0x2d5),
      (1,0x2f5),(1,0x316),(5,0x2f5),(1,0x316),(1,0x2f5),(9,0xffff),(1,0x2d5),(1,0x2f5),(1,0x316),
      (5,0x2f5),(1,0x337),(1,0x2f5),(14,0xffff),(1,0x2f5),(1,0x316),(1,0x337),(14,0x2f5),(1,0x316),
      (1,0x337),(1,0x316),(1,0x2d4),(14,0xffff),(1,0x2f5),(1,0x317),(1,0x316),(13,0x2f5),(1,0x316),
      (1,0x337),(1,0x2f5),(13,0xffff),(1,0x2f5),(1,0x337),(5,0x2f5),(1,0x2f6),(1,0x316),(1,0x2f5),
      (9,0xffff),(1,0x2f5),(1,0x337),(5,0x2f5),(1,0x2f6),(1,0x316),(1,0x2f5),(32,0xffff)],
     [(7,0xffff),(1,0xe007),(1,0xf007),(17,0xe807),(1,0xe007),(1,0xf007),(1,0xe807),(1,0xe007),
      (17,0xffff),(1,0x2f5),(1,0x358),(5,0x317),(1,0x337),(1,0x2f5),(1,0x315),(9,0xffff),(1,0x2f5),
      (1,0x358),(6,0x317),(1,0x358),(1,0x2f5),(9,0xffff),(1,0x2f5),(1,0x358),(5,0x317),(2,0x337),
      (1,0x2f6),(10,0xffff),(1,0x296),(1,0x2f5),(1,0x337),(5,0x317),(1,0x337),(1,0x2f6),(1,0x2f5),
      (13,0xffff),(1,0x2f4),(1,0x316),(1,0x337),(5,0x317),(1,0x337),(1,0x2f5),(1,0x2b5),(9,0xffff),
      (1,0x315),(1,0x2f5),(1,0x337),(5,0x317),(1,0x358),(1,0x2f5),(9,0xffff),(1,0x2f5),(1,0x316),
      (1,0x337),(5,0x317),(1,0x358),(1,0x2f5),(15,0xffff),(1,0x2d5),(1,0x316),(1,0x337),(1,0x317),
      (1,0x2f6),(9,0x2f5),(1,0x316),(1,0x337),(1,0x316),(1,0x2f6),(1,0x210),(16,0xffff),(1,0x2f5),
      (1,0x316),(1,0x337),(1,0x316),(9,0x2f5),(1,0x316),(1,0x337),(1,0x316),(1,0x2f5),(14,0xffff),
      (1,0x2f5),(1,0x358),(5,0x317),(2,0x337),(1,0x2f6),(9,0xffff),(1,0x2f5),(1,0x358),(5,0x317),
      (2,0x337),(1,0x2f5),(32,0xffff)],
     [(8,0xffff),(1,0xe027),(1,0xf807),(17,0xe807),(1,0xe007),(1,0xf007),(1,0xe807),(1,0xd806),
      (16,0xffff),(1,0x2f5),(1,0x316),(5,0x2f5),(1,0x316),(1,0x2f5),(1,0x2d5),(9,0xffff),(1,0x2f5),
      (1,0x337),(6,0x2f5),(1,0x316),(1,0x2f5),(9,0xffff),(1,0x2f5),(1,0x337),(5,0x2f5),(1,0x2f6),
      (1,0x316),(1,0x2f6),(10,0xffff),(1,0x2f7),(1,0x2f5),(1,0x316),(5,0x2f5),(1,0x316),(1,0x2f5),
      (1,0x2b5),(13,0xffff),(2,0x2f5),(1,0x316),(5,0x2f5),(1,0x316),(1,0x2f5),(1,0x353),(9,0xffff),
      (1,0x2d5),(1,0x2f5),(1,0x316),(5,0x2f5),(1,0x316),(1,0x2f5),(9,0xffff),(1,0x2f6),(1,0x2f5),
      (1,0x316),(5,0x2f5),(1,0x337),(1,0x2f5),(16,0xffff),(1,0x2b5),(1,0x316),(1,0x2f6),(1,0x316),
      (2,0x337),(4,0x317),(2,0x337),(1,0x316),(1,0x2f6),(1,0x316),(1,0x2f5),(19,0xffff),(1,0x2f5),
      (2,0x316),(2,0x337),(1,0x317),(4,0x316),(2,0x337),(1,0x2f6),(1,0x316),(1,0x2d5),(15,0xffff),
      (1,0x2f5),(1,0x337),(5,0x2f5),(1,0x2f6),(1,0x316),(1,0x2f5),(9,0xffff),(1,0x2f5),(1,0x337),
      (5,0x2f5),(1,0x2f6),(2,0x316),(32,0xffff)],
     [(9,0xffff),(1,0xe807),(1,0xf807),(1,0xe007),(16,0xe807),(1,0xe007),(1,0xf007),(1,0xe807),
      (1,0xe007),(165,0xffff),(1,0x315),(1,0x2f5),(1,0x2f6),(4,0x2f5),(3,0x2f6),(1,0x273),(23,0xffff),
      (1,0x336),(2,0x2f6),(5,0x2f5),(2,0x316),(1,0x2f6),(74,0xffff),(1,0xe807),(1,0xe007),(2,0xffff)],
     [(9,0xffff),(1,0xe006),(1,0xe806),(1,0xf807),(1,0xe007),(16,0xe807),(1,0xe007),(1,0xf007),
      (1,0xe807),(1,0xe007),(202,0xffff),(1,0x410),(1,0x2b5),(1,0x41f),(77,0xffff),(1,0xe806),
      (1,0xe807),(1,0xf805),(2,0xffff)],
     [(10,0xffff),(1,0xe006),(1,0xe807),(1,0xf007),(1,0xe007),(16,0xe807),(1,0xe007),(1,0xf007),
      (1,0xe807),(1,0xe007),(280,0xffff),(1,0xe006),(1,0xe807),(1,0xd006),(3,0xffff)],
     [(11,0xffff),(1,0xe007),(1,0xe807),(1,0xf007),(1,0xe007),(16,0xe807),(1,0xe007),(1,0xf007),
      (2,0xe807),(277,0xffff),(1,0xe806),(1,0xe826),(1,0xe807),(1,0xf8ff),(4,0xffff)],
     [(12,0xffff),(1,0xe007),(2,0xf007),(1,0xe007),(16,0xe807),(1,0xe007),(1,0xe807),(1,0xf007),
      (1,0xe827),(1,0xa8ff),(274,0xffff),(1,0xe806),(1,0xe006),(1,0xe027),(6,0xffff)],
     [(13,0xffff),(1,0xe007),(2,0xf007),(1,0xe007),(18,0xe807),(1,0xf807),(1,0xe807),(1,0xe006),
      (272,0xffff),(2,0xe807),(1,0xe027),(7,0xffff)],
     [(14,0xffff),(1,0xe007),(1,0xe807),(1,0xf007),(1,0xe007),(18,0xe807),(1,0xf807),(1,0xe807),
      (1,0xe007),(269,0xffff),(1,0xd806),(1,0xe807),(1,0xf007),(1,0xe806),(8,0xffff)],
     [(15,0xffff),(1,0xe006),(1,0xe807),(1,0xf807),(18,0xe807),(1,0xe007),(2,0xf007),(1,0xe827),
      (1,0xa805),(266,0xffff),(1,0xe807),(2,0xf007),(1,0xd806),(9,0xffff)],
     [(16,0xffff),(1,0xe006),(1,0xe807),(1,0xf807),(18,0xe807),(1,0xe007),(1,0xe807),(1,0xf807),
      (1,0xe807),(1,0xe006),(263,0xffff),(1,0xe006),(1,0xf007),(1,0xf807),(1,0xe827),(11,0xffff)],
     [(17,0xffff),(1,0xd805),(1,0xe807),(1,0xf807),(1,0xe807),(1,0xe007),(18,0xe807),(1,0xf007),
      (1,0xe807),(1,0xe827),(1,0xc004),(259,0xffff),(1,0xd807),(1,0xe827),(1,0xf807),(1,0xf007),
      (1,0xe006),(12,0xffff)],
     [(19,0xffff),(1,0xe807),(2,0xf007),(1,0xe007),(17,0xe807),(1,0xe007),(1,0xe807),(1,0xf807),
      (1,0xe807),(1,0xe827),(257,0xffff),(1,0xe827),(1,0xf007),(1,0xf807),(1,0xe827),(1,0xd805),
      (13,0xffff)],
     [(20,0xffff),(1,0xe006),(1,0xf007),(1,0xf807),(20,0xe807),(2,0xf007),(1,0xe826),(1,0xe006),
      (253,0xffff),(1,0xe007),(1,0xe807),(1,0xf808),(1,0xf007),(1,0xe007),(15,0xffff)],
     [(21,0xffff),(1,0xe007),(1,0xe807),(1,0xf807),(1,0xe807),(1,0xe007),(17,0xe807),(1,0xe007),
      (1,0xe807),(1,0xf807),(2,0xe807),(1,0xd006),(249,0xffff),(2,0xe807),(2,0xf807),(1,0xe827),
      (1,0xc805),(16,0xffff)],
     [(22,0xffff),(1,0x80ff),(1,0xe827),(1,0xe807),(1,0xf007),(19,0xe807),(1,0xe007),(1,0xe807),
      (1,0xf807),(2,0xe807),(246,0xffff),(1,0xe807),(1,0xe806),(1,0xf007),(1,0xf808),(1,0xe807),
      (1,0xe007),(18,0xffff)],
     [(24,0xffff),(2,0xe807),(1,0xf807),(1,0xe807),(1,0xe007),(19,0xe807),(2,0xf007),(2,0xe807),
      (242,0xffff),(2,0xe807),(1,0xf007),(1,0xf808),(1,0xe807),(1,0xe827),(1,0xc008),(19,0xffff)],
     [(25,0xffff),(1,0xc807),(1,0xe827),(1,0xe807),(1,0xf007),(21,0xe807),(2,0xf007),(2,0xe807),
      (237,0xffff),(1,0xd805),(2,0xe807),(1,0xf007),(1,0xf807),(1,0xf007),(1,0xe827),(1,0xe007),
      (21,0xffff)],
     [(27,0xffff),(1,0xe806),(1,0xe807),(1,0xf807),(1,0xf007),(21,0xe807),(2,0xf007),(2,0xe807),
      (1,0xc008),(232,0xffff),(1,0xe806),(2,0xe807),(1,0xf007),(2,0xf807),(1,0xe807),(1,0xe806),
      (23,0xffff)],
     [(28,0xffff),(1,0xf8ff),(1,0xe827),(1,0xe807),(1,0xf807),(1,0xe807),(1,0xe007),(20,0xe807),
      (2,0xf007),(1,0xe806),(1,0xe807),(1,0xe006),(228,0xffff),(3,0xe807),(3,0xf807),(1,0xe807),
      (1,0xe827),(1,0xf8ff),(24,0xffff)],
     [(30,0xffff),(1,0xe006),(1,0xe827),(1,0xe807),(1,0xf807),(22,0xe807),(1,0xf007),(1,0xf807),
      (2,0xe807),(1,0xe007),(223,0xffff),(4,0xe807),(1,0xf807),(1,0xf007),(1,0xf807),(1,0xe807),
      (1,0xe827),(1,0xe006),(26,0xffff)],
     [(32,0xffff),(1,0xe806),(1,0xe807),(2,0xf007),(22,0xe807),(1,0xf007),(1,0xf807),(1,0xe807),
      (1,0xe827),(1,0xe807),(1,0xd805),(217,0xffff),(1,0xd006),(3,0xe807),(1,0xf807),(2,0xf007),
      (1,0xf807),(1,0xe807),(1,0xe827),(1,0xe007),(28,0xffff)],
     [(34,0xffff),(1,0xe806),(1,0xe807),(2,0xf007),(23,0xe807),(1,0xf807),(1,0xf007),(2,0xe807),
      (1,0xe806),(213,0xffff),(2,0xe807),(1,0xe806),(1,0xf007),(1,0xf807),(2,0xe807),(1,0xf807),
      (1,0xe807),(1,0xe827),(1,0xe006),(30,0xffff)],
     [(36,0xffff),(1,0xe827),(1,0xe807),(2,0xf007),(23,0xe807),(1,0xf007),(1,0xf807),(3,0xe807),
      (1,0xf006),(207,0xffff),(4,0xe807),(1,0xf807),(1,0xf007),(1,0xe807),(1,0xf007),(1,0xf807),
      (1,0xe807),(1,0xf027),(1,0xe006),(32,0xffff)],
     [(37,0xffff),(1,0xa8ff),(1,0xe827),(1,0xe807),(2,0xf007),(24,0xe807),(1,0xf807),(1,0xf007),
      (1,0xe806),(2,0xe807),(1,0xe805),(201,0xffff),(4,0xe807),(1,0xf807),(1,0xf007),(2,0xe807),
      (1,0xf007),(1,0xf807),(1,0xe807),(1,0xe827),(1,0xe006),(34,0xffff)],
     [(39,0xffff),(1,0x80ff),(1,0xe827),(1,0xe807),(2,0xf007),(25,0xe807),(1,0xf807),(1,0xf007),
      (3,0xe807),(1,0xe805),(194,0xffff),(1,0xe806),(4,0xe807),(1,0xf807),(1,0xf007),(3,0xe807),
      (2,0xf007),(1,0xe807),(1,0xe827),(1,0xd807),(36,0xffff)],
     [(42,0xffff),(3,0xe807),(1,0xf807),(25,0xe807),(1,0xf007),(1,0xf807),(1,0xf007),(1,0xe807),
      (1,0xe827),(1,0xf007),(1,0xe806),(188,0xffff),(1,0xe806),(1,0xe807),(1,0xe827),(2,0xe807),
      (1,0xf807),(1,0xf007),(4,0xe807),(1,0xf807),(3,0xe807),(1,0xd805),(38,0xffff)],
     [(44,0xffff),(1,0xe807),(1,0xe827),(1,0xe807),(1,0xf807),(1,0xf007),(25,0xe807),(1,0xf007),
      (1,0xf807),(1,0xf007),(3,0xe807),(1,0xe806),(181,0xffff),(1,0xe007),(1,0xf007),(3,0xe807),
      (1,0xf007),(1,0xf807),(1,0xf007),(4,0xe807),(1,0xf007),(1,0xf807),(1,0xe807),(1,0xe827),
      (1,0xf007),(41,0xffff)],
     [(46,0xffff),(1,0xe807),(1,0xe827),(1,0xe807),(1,0xf007),(1,0xf807),(27,0xe807),(1,0xf007),
      (1,0xf807),(1,0xe807),(1,0xe007),(2,0xe807),(1,0xe806),(173,0xffff),(1,0xf008),(4,0xe807),
      (1,0xf007),(1,0xf807),(1,0xf007),(6,0xe807),(1,0xf807),(1,0xf007),(3,0xe807),(43,0xffff)],
     [(48,0xffff),(1,0xd805),(3,0xe807),(1,0xf807),(1,0xf007),(27,0xe807),(1,0xf007),(1,0xf807),
      (1,0xf007),(1,0xe806),(2,0xe807),(1,0xf007),(1,0xe806),(165,0xffff),(6,0xe807),(1,0xf807),
      (1,0xf007),(7,0xe807),(1,0xf007),(1,0xf807),(1,0xe807),(1,0xe827),(1,0xe807),(1,0x80ff),
      (45,0xffff)],
     [(51,0xffff),(1,0xe807),(1,0xf027),(1,0xe807),(1,0xf007),(1,0xf807),(1,0xf007),(28,0xe807),
      (1,0xf007),(1,0xf807),(1,0xf007),(1,0xe807),(1,0xe806),(2,0xe807),(1,0xe007),(156,0xffff),
      (1,0xe807),(1,0xf007),(1,0xe806),(1,0xe807),(1,0xe806),(1,0xe807),(1,0xf007),(1,0xf807),
      (1,0xf007),(8,0xe807),(1,0xf007),(1,0xf807),(3,0xe807),(1,0xf007),(48,0xffff)],
     [(53,0xffff),(1,0xf8ff),(1,0xe807),(1,0xe827),(1,0xe807),(1,0xf007),(1,0xf807),(30,0xe807),
      (1,0xf007),(1,0xf807),(1,0xf007),(2,0xe807),(1,0xe827),(2,0xe807),(1,0xf006),(146,0xffff),
      (1,0xf007),(1,0xe807),(1,0xe006),(4,0xe807),(1,0xf007),(1,0xf807),(1,0xf007),(9,0xe807),
      (1,0xf007),(1,0xf807),(2,0xe807),(1,0xe827),(1,0xf007),(51,0xffff)],
     [(56,0xffff),(1,0xe006),(1,0xe807),(1,0xe827),(1,0xe807),(1,0xf007),(1,0xf807),(31,0xe807),
      (1,0xf007),(2,0xf807),(1,0xe807),(1,0xe806),(3,0xe807),(2,0xe806),(135,0xffff),(1,0xa80b),
      (1,0xe006),(1,0xe807),(1,0xe007),(1,0xe827),(3,0xe807),(1,0xf007),(1,0xf807),(2,0xf007),
      (10,0xe807),(1,0xf007),(1,0xf807),(1,0xf007),(1,0xe807),(1,0xe827),(1,0xe807),(1,0xc008),
      (53,0xffff)],
     [(59,0xffff),(1,0xe806),(1,0xe807),(1,0xe826),(1,0xe807),(1,0xf007),(1,0xf807),(1,0xf007),
      (32,0xe807),(1,0xf007),(1,0xf807),(1,0xf007),(2,0xe807),(1,0xe806),(1,0xe827),(1,0xe807),
      (1,0xe806),(1,0xe006),(1,0xd805),(123,0xffff),(1,0xe007),(1,0xe807),(2,0xe806),(1,0xe807),
      (1,0xe806),(1,0xe807),(1,0xe006),(1,0xe807),(2,0xf807),(2,0xf007),(12,0xe807),(1,0xf007),
      (1,0xf807),(1,0xe807),(1,0xe806),(1,0xe827),(1,0xe807),(1,0xd809),(56,0xffff)],
     [(62,0xffff),(1,0xd806),(1,0xe807),(1,0xe827),(1,0xe807),(1,0xf007),(1,0xf807),(1,0xf007),
      (34,0xe807),(1,0xf007),(2,0xf807),(1,0xf007),(1,0xe007),(1,0xe006),(1,0xe807),(1,0xe026),
      (1,0xe807),(1,0xe007),(1,0xe807),(1,0xe806),(1,0xf80b),(109,0xffff),(1,0xd006),(1,0xe006),
      (3,0xe807),(1,0xe027),(1,0xe007),(1,0xe806),(1,0xe007),(1,0xe807),(1,0xf007),(1,0xf807),
      (2,0xf007),(15,0xe807),(1,0xf007),(1,0xf807),(2,0xe807),(1,0xe827),(1,0xe807),(1,0xd006),
      (59,0xffff)],
     [(65,0xffff),(1,0xe806),(1,0xe807),(1,0xe827),(2,0xe807),(1,0xf807),(1,0xf007),(36,0xe807),
      (2,0xf007),(2,0xf807),(1,0xf007),(3,0xe807),(1,0xe007),(1,0xe827),(1,0xe807),(2,0xe006),
      (1,0xe007),(1,0xe006),(1,0xf8ff),(92,0xffff),(1,0xf8ff),(1,0xe006),(5,0xe807),(1,0xe026),
      (1,0xe807),(1,0xe006),(1,0xe007),(1,0xe807),(1,0xf007),(2,0xf807),(2,0xf007),(17,0xe807),
      (1,0xf007),(1,0xf807),(1,0xf007),(2,0xe807),(1,0xe827),(1,0xf007),(63,0xffff)],
     [(69,0xffff),(1,0xf007),(1,0xe827),(1,0xe806),(1,0xe807),(1,0xf007),(1,0xf807),(1,0xf007),
      (39,0xe807),(2,0xf007),(2,0xf807),(1,0xf007),(3,0xe807),(1,0xe806),(1,0xe007),(1,0xe827),
      (1,0xe807),(1,0xe806),(1,0xe007),(1,0xe806),(2,0xe807),(1,0xe805),(1,0xf8ff),(72,0xffff),
      (1,0xe008),(1,0xf007),(3,0xe807),(1,0xe006),(1,0xe807),(1,0xe027),(1,0xe826),(1,0xe007),
      (1,0xe006),(2,0xe806),(1,0xe807),(1,0xf007),(2,0xf807),(3,0xf007),(20,0xe807),(2,0xf007),
      (1,0xf807),(2,0xe807),(1,0xe827),(1,0xe807),(1,0xe006),(66,0xffff)],
     [(72,0xffff),(1,0xe006),(1,0xe807),(1,0xe827),(1,0xe807),(1,0xe006),(1,0xf007),(1,0xf807),
      (1,0xf007),(43,0xe807),(2,0xf007),(3,0xf807),(1,0xf007),(2,0xe807),(3,0xe006),(2,0xe807),
      (1,0xe027),(1,0xe827),(1,0xe806),(1,0xe007),(1,0xe807),(1,0xe007),(1,0xe006),(1,0xe806),
      (1,0xf007),(1,0xe806),(1,0xe006),(1,0xe008),(1,0xa8ff),(41,0xffff),(1,0xd805),(1,0xe805),
      (1,0xe008),(1,0xe006),(1,0xe807),(1,0xe006),(1,0xe007),(2,0xe806),(1,0xe807),(1,0xe806),
      (1,0xe827),(1,0xe027),(1,0xe026),(1,0xe807),(1,0xe007),(1,0xe006),(1,0xe007),(1,0xe806),
      (2,0xe807),(1,0xf007),(3,0xf807),(3,0xf007),(25,0xe807),(1,0xf007),(1,0xf807),(2,0xe807),
      (1,0xe007),(1,0xe827),(1,0xe806),(1,0xf8ff),(69,0xffff)],
     [(76,0xffff),(1,0xe807),(1,0xe007),(1,0xe827),(1,0xe807),(1,0xe007),(1,0xf007),(1,0xf807),
      (2,0xf007),(47,0xe807),(4,0xf007),(4,0xf807),(1,0xf007),(2,0xe807),(1,0xe006),(1,0xe806),
      (1,0xe807),(2,0xe806),(1,0xe006),(1,0xe007),(1,0xe806),(1,0xe807),(1,0xe007),(2,0xe827),
      (3,0xe027),(1,0xe806),(3,0xe007),(1,0xe006),(11,0xe807),(2,0xe006),(2,0xe007),(1,0xe807),
      (1,0xe827),(3,0xe027),(1,0xe827),(1,0xe826),(1,0xe806),(1,0xe807),(1,0xe007),(3,0xe006),
      (2,0xe806),(1,0xe007),(1,0xe807),(1,0xe007),(1,0xe807),(2,0xf007),(4,0xf807),(4,0xf007),
      (31,0xe807),(2,0xf007),(1,0xf807),(4,0xe807),(1,0xe806),(1,0xe807),(73,0xffff)],
     [(80,0xffff),(1,0xe806),(1,0xe807),(1,0xe827),(1,0xe007),(1,0xe806),(1,0xe807),(1,0xf007),
      (1,0xf807),(1,0xf007),(58,0xe807),(6,0xf007),(32,0xf807),(7,0xf007),(42,0xe807),(1,0xf007),
      (1,0xf807),(1,0xf007),(5,0xe807),(1,0xf008),(77,0xffff)],
     [(84,0xffff),(1,0xe008),(1,0xe807),(1,0xe806),(1,0xe826),(1,0xe807),(1,0xe007),(1,0xe807),
      (1,0xf007),(1,0xf807),(1,0xf007),(135,0xe807),(1,0xf007),(2,0xf807),(1,0xf007),(2,0xe807),
      (1,0xe826),(1,0xe807),(1,0xe806),(1,0xe007),(81,0xffff)],
     [(89,0xffff),(1,0xe006),(2,0xe807),(1,0xe027),(1,0xe807),(1,0xe806),(1,0xe807),(1,0xf007),
      (2,0xf807),(1,0xf007),(124,0xe807),(1,0xf007),(2,0xf807),(1,0xf007),(2,0xe807),(1,0xe027),
      (1,0xe827),(2,0xe807),(86,0xffff)],
     [(94,0xffff),(1,0xe805),(1,0xe807),(1,0xe007),(2,0xe827),(2,0xe806),(1,0xe807),(1,0xf007),
      (2,0xf807),(2,0xf007),(111,0xe807),(1,0xf007),(2,0xf807),(1,0xf007),(1,0xe807),(1,0xe806),
      (1,0xe807),(1,0xe026),(1,0xe806),(1,0xe807),(1,0xf007),(1,0xa80b),(90,0xffff)],
     [(100,0xffff),(1,0xe806),(2,0xe807),(2,0xe827),(1,0xe807),(1,0xe007),(2,0xe807),(1,0xf007),
      (2,0xf807),(2,0xf007),(97,0xe807),(1,0xf007),(3,0xf807),(1,0xf007),(3,0xe807),(1,0xe826),
      (1,0xe827),(1,0xe007),(1,0xe807),(1,0xf007),(96,0xffff)],
     [(106,0xffff),(1,0xe806),(1,0xf006),(1,0xe007),(1,0xe807),(1,0xe827),(1,0xe026),(4,0xe807),
      (1,0xf007),(4,0xf807),(2,0xf007),(79,0xe807),(2,0xf007),(3,0xf807),(1,0xf007),(1,0xe807),
      (2,0xe806),(1,0xe807),(1,0xe806),(1,0xe827),(1,0xe807),(1,0xe007),(1,0xe806),(1,0xd807),
      (102,0xffff)],
     [(113,0xffff),(1,0xd006),(1,0xd807),(3,0xe807),(1,0xe827),(1,0xe027),(1,0xe807),(1,0xe806),
      (1,0xe807),(1,0xe007),(2,0xe807),(1,0xf007),(5,0xf807),(3,0xf007),(56,0xe807),(3,0xf007),
      (4,0xf807),(1,0xf007),(1,0xe807),(2,0xe806),(2,0xe807),(1,0xe806),(1,0xe027),(2,0xe807),
      (1,0xe007),(1,0xe806),(1,0xe807),(109,0xffff)],
     [(122,0xffff),(1,0xd006),(1,0xe006),(1,0xe007),(1,0xe807),(1,0xe006),(1,0xe807),(1,0xe006),
      (2,0xe827),(1,0xe806),(2,0xe007),(3,0xe807),(1,0xe806),(1,0xe006),(2,0xe807),(1,0xf007),
      (10,0xf807),(23,0xf007),(9,0xf807),(2,0xf007),(1,0xe807),(2,0xe806),(2,0xe807),(2,0xe006),
      (1,0xe807),(1,0xe027),(1,0xe026),(1,0xe827),(1,0xe807),(1,0xe006),(2,0xe807),(1,0xe007),
      (1,0xe008),(117,0xffff)],
     [(134,0xffff),(1,0xf8ff),(1,0xd805),(1,0xe807),(2,0xe007),(1,0xe807),(2,0xe007),(1,0xe807),
      (1,0xe806),(1,0xe007),(1,0xe827),(1,0xe027),(2,0xe826),(1,0xe027),(3,0xe827),(1,0xe807),
      (2,0xe007),(1,0xe807),(12,0xe007),(1,0xe806),(1,0xe807),(1,0xe806),(1,0xe007),(1,0xe006),
      (1,0xe826),(5,0xe827),(1,0xe026),(1,0xe007),(1,0xe807),(2,0xe806),(3,0xe006),(2,0xe807),
      (1,0xd805),(129,0xffff)]]"

definition lock_icon_rows :: "runs list" where
  "lock_icon_rows =
    [[(18,0x42a),(2,0x9cd3),(1,0x9cf4),(54,0xa535),(1,0x9cf4),(2,0x9cd3),(18,0x42a)],
     [(14,0x42a),(1,0x9cd3),(1,0x9cd4),(1,0xad56),(1,0xb5d7),(1,0xc618),(1,0xc659),(27,0xce59),
      (6,0xc659),(1,0xce59),(1,0xc659),(4,0xce59),(18,0xc659),(1,0xc618),(1,0xb5d7),(1,0xad56),
      (1,0x9cd4),(1,0x9cd3),(14,0x42a)],
     [(12,0x42a),(1,0x9cd3),(1,0xa535),(1,0xb5d7),(65,0xce59),(1,0xc659),(1,0xb5d7),(1,0xa535),
      (1,0x9cd3),(12,0x42a)],
     [(10,0x42a),(1,0x9cd3),(1,0xa515),(1,0xbdf8),(24,0xce7a),(1,0xce59),(1,0xce7a),(5,0xce59),
      (1,0xce7a),(1,0xce59),(2,0xce7a),(35,0xce59),(1,0xbdf8),(1,0xa515),(1,0x9cd3),(10,0x42a)],
     [(9,0x42a),(1,0x9cd3),(1,0xb5d7),(73,0xce7a),(1,0xce59),(1,0xb5d7),(1,0x9cd3),(9,0x42a)],
     [(8,0x42a),(1,0x9cf4),(1,0xc659),(54,0xd69a),(2,0xce7a),(2,0xd69a),(1,0xce7a),(1,0xd69a),
      (16,0xce7a),(1,0xc618),(1,0x9cf4),(8,0x42a)],
     [(7,0x42a),(1,0xa535),(1,0xce7a),(78,0xd69a),(1,0xce59),(1,0xa535),(7,0x42a)],
     [(6,0x42a),(1,0xa535),(1,0xce7a),(15,0xd6bb),(1,0xce7a),(24,0xce59),(2,0xc659),(1,0xce59),
      (4,0xc659),(2,0xce59),(2,0xc659),(2,0xce59),(1,0xc659),(1,0xce59),(9,0xc659),(1,0xce7a),
      (1,0xd69a),(3,0xd6bb),(11,0xd69a),(1,0xce7a),(1,0xa535),(6,0x42a)],
     [(5,0x42a),(1,0x9cf4),(1,0xce7a),(11,0xd6bb),(1,0xd69a),(1,0xb596),(1,0x8471),(1,0x52cb),(1,0x0),
      (50,0x3000),(1,0x0),(1,0x52cb),(1,0x7c10),(1,0xad56),(1,0xce7a),(11,0xd6bb),(1,0xce7a),(1,0x9cf4),
      (5,0x42a)],
     [(4,0x42a),(1,0x9cd3),(1,0xce59),(10,0xdedb),(1,0xce7a),(1,0x8c72),(1,0x3186),(1,0x5800),
      (1,0x8000),(1,0xa800),(52,0xb800),(1,0xa800),(1,0x8000),(1,0x5800),(1,0x3186),(1,0x8c72),
      (1,0xce59),(10,0xd6bb),(1,0xce59),(1,0x9cd3),(4,0x42a)],
     [(3,0x42a),(1,0x9cd3),(1,0xbdf8),(10,0xdedb),(1,0xa515),(1,0x10a2),(1,0x5800),(1,0xa800),
      (2,0xb800),(1,0xc800),(1,0xd000),(1,0xd800),(48,0xe800),(1,0xd800),(1,0xd000),(1,0xc800),
      (2,0xb800),(1,0xa800),(1,0x5800),(1,0x10a2),(1,0x9cf4),(1,0xd6bb),(9,0xdedb),(1,0xbdf8),
      (1,0x9cd3),(3,0x42a)],
     [(3,0x42a),(1,0xa535),(1,0xdedb),(6,0xdefc),(2,0xdedb),(1,0xd69a),(1,0x6b6d),(1,0x3000),
      (1,0x9800),(2,0xb800),(1,0xd000),(1,0xf000),(54,0xf800),(1,0xf000),(1,0xd000),(2,0xb800),
      (1,0x9800),(1,0x3000),(1,0x6b6d),(1,0xce7a),(9,0xdedb),(1,0xa535),(3,0x42a)],
     [(2,0x42a),(1,0x9cd3),(1,0xce59),(8,0xdefc),(1,0xd69a),(1,0x52aa),(1,0x5800),(1,0xb000),
      (1,0xb800),(1,0xd000),(1,0xf000),(27,0xf800),(4,0xf000),(27,0xf800),(1,0xf000),(1,0xd000),
      (1,0xb800),(1,0xb000),(1,0x5800),(1,0x52aa),(1,0xce7a),(8,0xdefc),(1,0xc659),(1,0x9cd3),
      (2,0x42a)],
     [(2,0x42a),(1,0xa535),(8,0xdefc),(1,0xd6bb),(1,0x52cb),(1,0x7000),(2,0xb800),(1,0xd800),
      (24,0xf800),(14,0xf000),(24,0xf800),(1,0xd800),(2,0xb800),(1,0x7000),(1,0x52aa),(1,0xd69a),
      (8,0xdefc),(1,0xa535),(2,0x42a)],
     [(1,0x42a),(1,0x9cd3),(1,0xc659),(7,0xe73c),(1,0xdefc),(1,0x73cf),(1,0x5800),(2,0xb800),
      (1,0xe800),(24,0xf800),(3,0xf000),(1,0xe800),(8,0xd800),(1,0xe800),(4,0xf000),(23,0xf800),
      (1,0xe800),(2,0xb800),(1,0x5800),(1,0x6b6d),(8,0xdefc),(1,0xc659),(1,0x9cd3),(1,0x42a)],
     [(1,0x42a),(1,0x9cd4),(1,0xdefc),(7,0xe73c),(1,0xad56),(1,0x3000),(1,0xb000),(1,0xb800),
      (1,0xe800),(23,0xf800),(2,0xf000),(1,0xe800),(2,0xd800),(1,0xd000),(1,0xc800),(6,0xb800),
      (1,0xc800),(2,0xd000),(1,0xd800),(1,0xe800),(2,0xf000),(23,0xf800),(1,0xe800),(1,0xb800),
      (1,0xb000),(1,0x3000),(1,0xa535),(7,0xe73c),(1,0xdefc),(1,0x9cf4),(1,0x42a)],
     [(1,0x42a),(1,0xb596),(1,0xe73c),(1,0xef5d),(2,0xe73c),(3,0xef5d),(1,0xdedb),(1,0x3186),
      (1,0x9800),(1,0xb800),(1,0xd800),(22,0xf800),(3,0xf000),(1,0xe800),(1,0xd000),(1,0xc800),
      (1,0xb800),(1,0xb000),(1,0xa800),(1,0x9800),(1,0x9a08),(2,0xb3cf),(1,0x9a08),(2,0x9800),
      (1,0xb000),(1,0xb800),(1,0xc800),(1,0xd000),(1,0xd800),(3,0xf000),(22,0xf800),(1,0xd800),
      (1,0xb800),(1,0x9800),(1,0x3186),(1,0xdedb),(7,0xe73c),(1,0xb596),(1,0x42a)],
     [(1,0x42a),(1,0xc659),(7,0xef5d),(1,0x9cf4),(1,0x5800),(1,0xb800),(1,0xc800),(22,0xf800),
      (2,0xf000),(1,0xe800),(1,0xd800),(1,0xc800),(1,0xb800),(1,0xa800),(1,0x9a08),(1,0xb596),
      (1,0xdefc),(6,0xffff),(1,0xdefc),(1,0xb596),(1,0x9a08),(1,0xa800),(1,0xb800),(1,0xc800),
      (1,0xd800),(1,0xe800),(2,0xf000),(22,0xf800),(1,0xd000),(1,0xb800),(1,0x5800),(1,0x9cd3),
      (1,0xef5d),(1,0xe73c),(2,0xef5d),(3,0xe73c),(1,0xc659),(1,0x42a)],
     [(1,0x9cd3),(1,0xdedb),(6,0xef5d),(1,0xe73c),(1,0x3186),(1,0xa800),(1,0xb800),(1,0xf000),
      (21,0xf800),(2,0xf000),(1,0xe800),(1,0xd800),(1,0xc800),(1,0xb000),(1,0x8945),(1,0xbdf8),
      (12,0xffff),(1,0xc618),(1,0x8945),(1,0xb000),(1,0xc800),(1,0xd000),(1,0xe800),(2,0xf000),
      (21,0xf800),(1,0xf000),(1,0xb800),(1,0xa800),(1,0x3186),(1,0xe73c),(6,0xef5d),(1,0xdedb),
      (1,0x9cd3)],
     [(1,0x9cd3),(1,0xe73c),(6,0xef5d),(1,0xc618),(1,0x3000),(1,0xb800),(1,0xd000),(22,0xf800),
      (1,0xf000),(1,0xe800),(1,0xd000),(1,0xc800),(1,0xa800),(1,0xb3cf),(1,0xef5d),(14,0xffff),
      (1,0xef5d),(1,0xb3cf),(1,0xa800),(1,0xb800),(1,0xd000),(1,0xe800),(2,0xf000),(21,0xf800),
      (1,0xd000),(1,0xb800),(1,0x5800),(1,0xc618),(6,0xef5d),(1,0xe73c),(1,0x9cd3)],
     [(1,0x9cf4),(7,0xef5d),(1,0x9493),(1,0x8000),(1,0xb800),(1,0xe800),(21,0xf800),(1,0xf000),
      (1,0xe800),(1,0xd800),(1,0xc800),(1,0xa800),(1,0xb3cf),(18,0xffff),(1,0xb3cf),(1,0xa800),
      (1,0xc800),(1,0xd800),(1,0xe800),(1,0xf000),(21,0xf800),(1,0xe800),(1,0xb800),(1,0x8000),
      (1,0x9493),(7,0xef5d),(1,0x9cf4)],
     [(1,0xa535),(7,0xe73c),(1,0x632c),(1,0xa800),(1,0xb800),(21,0xf800),(2,0xf000),(1,0xd800),
      (1,0xc800),(1,0xa800),(1,0xb3cf),(20,0xffff),(1,0xb3cf),(1,0xa800),(1,0xc800),(1,0xd800),
      (2,0xf000),(21,0xf800),(1,0xb800),(1,0xa800),(1,0x632c),(7,0xef5d),(1,0xad56)],
     [(1,0xad56),(7,0xdefc),(1,0x10a2),(1,0xb000),(1,0xd000),(21,0xf800),(1,0xf000),(1,0xe800),
      (1,0xd000),(1,0xb800),(1,0x9a08),(8,0xffff),(1,0xef5d),(1,0xce7a),(2,0xb5d7),(1,0xce7a),
      (1,0xef5d),(8,0xffff),(1,0x9a08),(1,0xb000),(1,0xd000),(1,0xe800),(1,0xf000),(21,0xf800),
      (1,0xd000),(1,0xb000),(1,0x10a2),(7,0xe73c),(1,0xad56)],
     [(1,0xa535),(6,0xdedb),(1,0xd6bb),(1,0x0),(1,0xb800),(1,0xd800),(20,0xf800),(2,0xf000),(1,0xd800),
      (1,0xc800),(1,0x9800),(1,0xd6bb),(6,0xffff),(1,0xef5d),(1,0x9cd3),(1,0x8000),(1,0x8800),
      (3,0x9800),(1,0x8000),(1,0x9cd3),(1,0xef5d),(6,0xffff),(1,0xd6bb),(1,0x9800),(1,0xc800),
      (1,0xd800),(2,0xf000),(20,0xf800),(1,0xd800),(1,0xb800),(1,0x0),(1,0xdedb),(6,0xdefc),(1,0xad56)],
     [(1,0xa535),(6,0xd6bb),(1,0xd69a),(1,0x3000),(1,0xb800),(1,0xe800),(20,0xf800),(1,0xf000),
      (1,0xe800),(1,0xd000),(1,0xb800),(1,0xb3cf),(6,0xffff),(1,0xdedb),(1,0x8945),(1,0x9800),
      (1,0xb000),(1,0xb800),(2,0xc800),(1,0xb800),(1,0xb000),(1,0x9800),(1,0x8945),(1,0xdedb),
      (6,0xffff),(1,0xb3cf),(1,0xb000),(1,0xd000),(1,0xe800),(1,0xf000),(20,0xf800),(1,0xe800),
      (1,0xb800),(1,0x3000),(1,0xd6bb),(6,0xdedb),(1,0xad56)],
     [(1,0xa535),(6,0xd69a),(1,0xce59),(1,0x3000),(1,0xb800),(1,0xe800),(20,0xf800),(1,0xf000),
      (1,0xe800),(1,0xc800),(1,0xa800),(1,0xce7a),(5,0xffff),(1,0xe73c),(1,0x8945),(1,0xa800),
      (1,0xb800),(1,0xd000),(4,0xd800),(1,0xd000),(1,0xb800),(1,0xa800),(1,0x8945),(1,0xe73c),
      (5,0xffff),(1,0xd69a),(1,0xa800),(1,0xc800),(1,0xd800),(1,0xf000),(20,0xf800),(1,0xe800),
      (1,0xb800),(1,0x5800),(1,0xd69a),(6,0xd6bb),(1,0xa535)],
     [(1,0xa535),(6,0xce7a),(1,0xc659),(1,0x3000),(1,0xb800),(1,0xe800),(19,0xf800),(2,0xf000),
      (1,0xd800),(1,0xb800),(1,0x9800),(6,0xffff),(1,0x73cf),(1,0x9800),(1,0xb800),(1,0xd000),
      (1,0xe800),(4,0xf000),(1,0xe800),(1,0xd000),(1,0xb800),(1,0x9800),(1,0xb3cf),(6,0xffff),
      (1,0x8945),(1,0xb800),(1,0xd800),(2,0xf000),(19,0xf800),(1,0xe800),(1,0xb800),(1,0x5800),
      (1,0xce59),(6,0xd69a),(1,0xa535)],
     [(1,0xa535),(6,0xce59),(1,0xc618),(1,0x3000),(1,0xb800),(1,0xe800),(19,0xf800),(2,0xf000),
      (1,0xd800),(1,0xb800),(1,0xb3cf),(5,0xffff),(1,0xd69a),(1,0x8800),(1,0xb800),(1,0xd000),
      (1,0xe800),(3,0xf000),(1,0xf800),(2,0xf000),(1,0xe800),(1,0xd000),(1,0xb800),(1,0x8800),
      (1,0xd69a),(5,0xffff),(1,0xb3cf),(1,0xb000),(1,0xd000),(1,0xe800),(1,0xf000),(19,0xf800),
      (1,0xe800),(1,0xb800),(1,0x5800),(1,0xc659),(6,0xce7a),(1,0xa535)],
     [(1,0xa515),(2,0xc659),(2,0xc618),(2,0xc659),(1,0xc618),(1,0x3000),(1,0xb800),(1,0xe800),
      (19,0xf800),(1,0xf000),(1,0xe800),(1,0xd000),(1,0xb000),(1,0xb596),(5,0xffff),(1,0x9cf4),
      (1,0x9800),(1,0xc800),(1,0xd800),(2,0xf000),(4,0xf800),(2,0xf000),(1,0xd800),(1,0xc800),
      (1,0xa800),(1,0x9cf4),(5,0xffff),(1,0xb596),(1,0xa800),(1,0xd000),(1,0xe800),(1,0xf000),
      (19,0xf800),(1,0xe800),(1,0xb800),(1,0x5800),(1,0xc618),(6,0xce59),(1,0xa535)],
     [(1,0xa515),(6,0xc618),(1,0xbdf8),(1,0x3000),(1,0xb800),(1,0xe800),(19,0xf800),(1,0xf000),
      (1,0xe800),(1,0xd000),(1,0xa800),(1,0xb5d7),(5,0xffff),(1,0xb3cf),(1,0xa800),(1,0xd000),
      (1,0xe800),(1,0xf000),(6,0xf800),(1,0xf000),(1,0xe800),(1,0xd000),(1,0xb000),(1,0xb3cf),
      (5,0xffff),(1,0xbdf8),(1,0xa800),(1,0xd000),(1,0xe800),(1,0xf000),(19,0xf800),(1,0xe800),
      (1,0xb800),(1,0x5800),(1,0xbdf8),(1,0xc659),(1,0xc618),(4,0xc659),(1,0xa515)],
     [(1,0xa515),(6,0xbdf8),(1,0xb5d7),(1,0x3000),(1,0xb800),(1,0xe800),(19,0xf800),(1,0xf000),
      (1,0xe800),(1,0xd000),(1,0xa800),(1,0xc618),(5,0xffff),(1,0x9a08),(1,0xb000),(1,0xd000),
      (1,0xe800),(1,0xf000),(6,0xf800),(1,0xf000),(1,0xe800),(1,0xd000),(1,0xb000),(1,0x9a08),
      (5,0xffff),(1,0xce59),(1,0xa800),(1,0xc800),(1,0xe800),(1,0xf000),(19,0xf800),(1,0xe800),
      (1,0xb800),(1,0x5800),(1,0xbdf8),(6,0xc618),(1,0xa515)],
     [(1,0x9cf4),(6,0xb5d7),(1,0xb596),(1,0x3000),(1,0xb800),(1,0xe800),(19,0xf800),(1,0xf000),
      (1,0xe800),(1,0xc800),(1,0xa800),(1,0xc618),(5,0xffff),(1,0x9a08),(1,0xb000),(1,0xd000),
      (1,0xe800),(1,0xf000),(6,0xf800),(1,0xf000),(1,0xe800),(1,0xd000),(1,0xb800),(1,0x9a08),
      (5,0xffff),(1,0xce59),(1,0x9800),(1,0xc800),(1,0xe800),(1,0xf000),(19,0xf800),(1,0xe800),
      (1,0xb800),(1,0x5800),(1,0xb5d7),(6,0xbdf8),(1,0xa515)],
     [(1,0x9cf4),(7,0xb596),(1,0x3000),(1,0xb800),(1,0xe800),(19,0xf800),(1,0xf000),(1,0xe800),
      (1,0xc800),(1,0xa800),(1,0xc618),(5,0xffff),(1,0x9a08),(1,0xb000),(1,0xd000),(1,0xe800),
      (1,0xf000),(6,0xf800),(1,0xf000),(1,0xe800),(1,0xd000),(1,0xb800),(1,0x9a08),(5,0xffff),
      (1,0xce59),(1,0x9800),(1,0xc800),(1,0xe800),(1,0xf000),(19,0xf800),(1,0xe800),(1,0xb800),
      (1,0x5800),(1,0xb596),(6,0xb5d7),(1,0x9cf4)],
     [(1,0x9cf4),(6,0xb596),(1,0xad56),(1,0x3000),(1,0xb800),(1,0xe800),(19,0xf800),(1,0xf000),
      (1,0xe800),(1,0xc800),(1,0xa800),(1,0xc618),(5,0xffff),(1,0x9a08),(1,0xb000),(1,0xd000),
      (1,0xe800),(1,0xf000),(6,0xf800),(1,0xf000),(1,0xe800),(1,0xd000),(1,0xb800),(1,0x9a08),
      (5,0xffff),(1,0xce59),(1,0x9800),(1,0xc800),(1,0xe800),(1,0xf000),(19,0xf800),(1,0xe800),
      (1,0xb800),(1,0x5800),(7,0xb596),(1,0x9cf4)],
     [(1,0x9cf4),(6,0xad56),(1,0xa535),(1,0x3000),(1,0xb800),(1,0xe800),(19,0xf800),(1,0xf000),
      (1,0xe800),(1,0xc800),(1,0xa800),(1,0xc618),(5,0xffff),(1,0x9a08),(1,0xb000),(1,0xd000),
      (1,0xe800),(1,0xf000),(6,0xf800),(1,0xf000),(1,0xe800),(1,0xd000),(1,0xb800),(1,0x9a08),
      (5,0xffff),(1,0xce59),(1,0x9800),(1,0xc800),(1,0xe800),(1,0xf000),(19,0xf800),(1,0xe800),
      (1,0xb800),(1,0x5800),(1,0xad56),(6,0xb596),(1,0x9cf4)],
     [(1,0x9cf4),(7,0xa535),(1,0x3000),(1,0xb800),(1,0xe800),(19,0xf800),(1,0xf000),(1,0xe800),
      (1,0xc800),(1,0xa800),(1,0xc618),(5,0xffff),(1,0x9a08),(1,0xb000),(1,0xd000),(1,0xe800),
      (1,0xf000),(6,0xf800),(1,0xf000),(1,0xe800),(1,0xd000),(1,0xb800),(1,0x9a08),(5,0xffff),
      (1,0xce59),(1,0x9800),(1,0xc800),(1,0xe800),(1,0xf000),(19,0xf800),(1,0xe800),(1,0xb800),
      (1,0x5800),(1,0xa535),(6,0xad56),(1,0x9cf4)],
     [(1,0x9cd4),(6,0xa515),(1,0x9cf4),(1,0x3000),(1,0xb800),(1,0xe800),(19,0xf800),(1,0xf000),
      (1,0xe800),(1,0xc800),(1,0xa800),(1,0xc618),(5,0xffff),(1,0x9a08),(1,0xb000),(1,0xd000),
      (1,0xe800),(1,0xf000),(6,0xf800),(1,0xf000),(1,0xe800),(1,0xd000),(1,0xb800),(1,0x9a08),
      (5,0xffff),(1,0xce59),(1,0x9800),(1,0xc800),(1,0xe800),(1,0xf000),(19,0xf800),(1,0xe800),
      (1,0xb800),(1,0x5800),(1,0xa515),(6,0xa535),(1,0x9cf4)],
     [(1,0x9cd4),(6,0x9cf4),(1,0x9cd4),(1,0x3000),(1,0xb800),(1,0xe800),(19,0xf800),(1,0xf000),
      (1,0xe800),(1,0xc800),(1,0xa800),(1,0xc618),(5,0xffff),(1,0x9a08),(1,0xb000),(1,0xd000),
      (1,0xe800),(1,0xf000),(6,0xf800),(1,0xf000),(1,0xe800),(1,0xd000),(1,0xb800),(1,0x9a08),
      (5,0xffff),(1,0xce59),(1,0x9800),(1,0xc800),(1,0xe800),(1,0xf000),(19,0xf800),(1,0xe800),
      (1,0xb800),(1,0x5800),(1,0x9cf4),(6,0xa515),(1,0x9cd4)],
     [(1,0x9cd3),(6,0x9cd4),(1,0x94b3),(1,0x3000),(1,0xb800),(1,0xe800),(19,0xf800),(1,0xf000),
      (1,0xe800),(1,0xc800),(1,0xa800),(1,0xc618),(5,0xffff),(1,0x9a08),(1,0xb000),(1,0xd000),
      (1,0xe800),(2,0xf000),(4,0xf800),(2,0xf000),(1,0xe800),(1,0xd000),(1,0xb000),(1,0x9a08),
      (5,0xffff),(1,0xce59),(1,0x9800),(1,0xc800),(1,0xe800),(1,0xf000),(19,0xf800),(1,0xe800),
      (1,0xb800),(1,0x5800),(1,0x9cd4),(6,0x9cf4),(1,0x9cd4)],
     [(1,0x9cd3),(6,0x94b3),(1,0x9493),(1,0x3000),(1,0xb800),(1,0xe800),(19,0xf800),(1,0xf000),
      (1,0xd800),(1,0xc800),(1,0x9800),(1,0xc618),(5,0xffff),(1,0x9a08),(1,0xb000),(1,0xd000),
      (1,0xe800),(8,0xf000),(1,0xe800),(1,0xd000),(1,0xb000),(1,0x9a08),(5,0xffff),(1,0xce59),
      (1,0x9800),(1,0xc800),(1,0xd800),(2,0xf000),(18,0xf800),(1,0xe800),(1,0xb800),(1,0x5800),
      (1,0x94b3),(6,0x9cd4),(1,0x9cd3)],
     [(1,0x9cd3),(6,0x9493),(1,0x8c72),(1,0x3000),(1,0xb800),(1,0xe800),(18,0xf800),(1,0xf000),
      (1,0xe800),(1,0xd800),(1,0xb800),(1,0x9800),(1,0xc618),(5,0xffff),(1,0x9a08),(1,0x9800),
      (1,0xc800),(1,0xd000),(8,0xd800),(1,0xd000),(1,0xc800),(1,0xa800),(1,0x9a08),(5,0xffff),
      (1,0xce59),(1,0x8800),(1,0xb800),(1,0xd800),(1,0xe800),(1,0xf000),(18,0xf800),(1,0xe800),
      (1,0xb800),(1,0x5800),(1,0x9493),(6,0x94b3),(1,0x9cd3)],
     [(1,0x9cd3),(7,0x8c72),(1,0x3000),(1,0xb800),(1,0xe800),(16,0xf800),(2,0xf000),(1,0xe800),
      (1,0xd800),(1,0xc800),(1,0xb000),(1,0x8800),(1,0xbdf8),(5,0xffff),(1,0x9a08),(1,0x8800),
      (1,0xa800),(1,0xb800),(8,0xc800),(1,0xb800),(1,0xa800),(1,0x8800),(1,0x9a08),(5,0xffff),
      (1,0xce59),(1,0x8000),(1,0xb000),(1,0xc800),(1,0xd800),(1,0xe800),(2,0xf000),(16,0xf800),
      (1,0xe800),(1,0xb800),(1,0x5800),(1,0x8c72),(6,0x9493),(1,0x9cd3)],
     [(1,0x9cd3),(7,0x8c72),(1,0x3000),(1,0xb800),(1,0xe800),(15,0xf800),(2,0xf000),(1,0xe800),
      (1,0xd800),(1,0xc800),(1,0xb800),(1,0x9800),(1,0x7000),(1,0xbdf8),(5,0xffff),(1,0x5aeb),
      (1,0x7000),(1,0x8000),(1,0x8800),(8,0x9800),(1,0x8800),(1,0x8000),(1,0x7000),(1,0x5aeb),
      (5,0xffff),(1,0xc659),(1,0x7000),(1,0x9800),(1,0xb000),(1,0xc800),(1,0xd800),(1,0xe800),
      (2,0xf000),(15,0xf800),(1,0xe800),(1,0xb800),(1,0x5800),(7,0x8c72),(1,0x9cd3)],
     [(1,0x9cd3),(6,0x9493),(1,0x8c72),(1,0x3000),(1,0xb800),(1,0xe800),(14,0xf800),(2,0xf000),
      (1,0xe800),(1,0xd000),(1,0xc800),(1,0xa800),(1,0x8945),(1,0x9cf4),(1,0xce59),(1,0xef5d),
      (5,0xffff),(16,0xef5d),(5,0xffff),(1,0xef5d),(1,0xce59),(1,0x9cf4),(1,0x8945),(1,0xa800),
      (1,0xc800),(1,0xd000),(1,0xe800),(2,0xf000),(14,0xf800),(1,0xe800),(1,0xb800),(1,0x5800),
      (7,0x8c72),(1,0x9cd3)],
     [(1,0x9cd3),(6,0x94b3),(1,0x9493),(1,0x3000),(1,0xb800),(1,0xe800),(13,0xf800),(2,0xf000),
      (1,0xe800),(1,0xd000),(1,0xb800),(1,0xa800),(1,0x9cf4),(1,0xef5d),(32,0xffff),(1,0xef5d),
      (1,0x9cf4),(1,0xa800),(1,0xb800),(1,0xd000),(1,0xe800),(2,0xf000),(13,0xf800),(1,0xe800),
      (1,0xb800),(1,0x5800),(1,0x8c72),(6,0x9493),(1,0x9cd3)],
     [(1,0x9cd3),(7,0x94b3),(1,0x3000),(1,0xb800),(1,0xe800),(13,0xf800),(1,0xf000),(1,0xe800),
      (1,0xd800),(1,0xc800),(1,0x9800),(1,0xc618),(36,0xffff),(1,0xc618),(1,0x9800),(1,0xb800),
      (1,0xd800),(1,0xe800),(1,0xf000),(13,0xf800),(1,0xe800),(1,0xb800),(1,0x5800),(1,0x9493),
      (6,0x94b3),(1,0x9cd3)],
     [(2,0x9cd4),(1,0x9cf4),(4,0x9cd4),(1,0x94b3),(1,0x3000),(1,0xb800),(1,0xe800),(13,0xf800),
      (1,0xf000),(1,0xd800),(1,0xc800),(1,0xa800),(1,0xb5d7),(38,0xffff),(1,0xb5d7),(1,0xa800),
      (1,0xc800),(1,0xd800),(2,0xf000),(12,0xf800),(1,0xe800),(1,0xb800),(1,0x5800),(7,0x94b3),
      (1,0x9cd3)],
     [(1,0x9cd4),(4,0xa515),(1,0x9cf4),(1,0xa515),(1,0x9cd4),(1,0x3000),(1,0xb800),(1,0xe800),
      (12,0xf800),(1,0xf000),(1,0xe800),(1,0xd800),(1,0xb800),(1,0xb3cf),(40,0xffff),(1,0xb3cf),
      (1,0xb800),(1,0xd000),(1,0xe800),(1,0xf000),(12,0xf800),(1,0xe800),(1,0xb800),(1,0x5800),
      (1,0x94b3),(7,0x9cd4)],
     [(1,0x9cd4),(6,0xa515),(1,0x9cf4),(1,0x3000),(1,0xb800),(1,0xe800),(12,0xf800),(1,0xf000),
      (1,0xe800),(1,0xd000),(1,0xa800),(1,0xd69a),(40,0xffff),(1,0xd69a),(1,0xa800),(1,0xc800),
      (1,0xe800),(1,0xf000),(12,0xf800),(1,0xe800),(1,0xb800),(1,0x5800),(1,0x9cd4),(5,0xa515),
      (1,0x9cf4),(1,0x9cd4)],
     [(1,0x9cf4),(6,0xa535),(1,0xa515),(1,0x3000),(1,0xb800),(1,0xe800),(12,0xf800),(1,0xf000),
      (1,0xd800),(1,0xc800),(1,0x8945),(42,0xffff),(1,0x8945),(1,0xc800),(1,0xd800),(1,0xf000),
      (12,0xf800),(1,0xe800),(1,0xb800),(1,0x5800),(1,0x9cf4),(6,0xa515),(1,0x9cd4)],
     [(1,0x9cf4),(6,0xad56),(1,0xa535),(1,0x3000),(1,0xb800),(1,0xe800),(11,0xf800),(2,0xf000),
      (1,0xd800),(1,0xb800),(1,0xb3cf),(42,0xffff),(1,0xb3cf),(1,0xb800),(1,0xd800),(2,0xf000),
      (11,0xf800),(1,0xe800),(1,0xb800),(1,0x5800),(1,0xa515),(6,0xa535),(1,0x9cf4)],
     [(1,0x9cf4),(7,0xad56),(1,0x3000),(1,0xb800),(1,0xe800),(11,0xf800),(2,0xf000),(1,0xd800),
      (1,0xb800),(1,0xb3cf),(42,0xffff),(1,0xb3cf),(1,0xb800),(1,0xd000),(2,0xf000),(11,0xf800),
      (1,0xe800),(1,0xb800),(1,0x5800),(1,0xa535),(6,0xad56),(1,0x9cf4)],
     [(1,0x9cf4),(6,0xb596),(1,0xad56),(1,0x3000),(1,0xb800),(1,0xe800),(11,0xf800),(2,0xf000),
      (1,0xd000),(1,0xb800),(1,0xb3cf),(42,0xffff),(1,0xb3cf),(1,0xb000),(1,0xd000),(1,0xe800),
      (1,0xf000),(11,0xf800),(1,0xe800),(1,0xb800),(1,0x5800),(7,0xad56),(1,0x9cf4)],
     [(1,0x9cf4),(1,0xb596),(2,0xb5d7),(1,0xb596),(1,0xb5d7),(2,0xb596),(1,0x3000),(1,0xb800),
      (1,0xe800),(11,0xf800),(1,0xf000),(1,0xe800),(1,0xd000),(1,0xb800),(1,0xb3cf),(42,0xffff),
      (1,0xb3cf),(1,0xb000),(1,0xd000),(1,0xe800),(1,0xf000),(11,0xf800),(1,0xe800),(1,0xb800),
      (1,0x5800),(1,0xad56),(6,0xb596),(1,0x9cf4)],
     [(1,0x9cf4),(6,0xb5d7),(1,0xb596),(1,0x3000),(1,0xb800),(1,0xe800),(11,0xf800),(1,0xf000),
      (1,0xe800),(1,0xd000),(1,0xb800),(1,0xb3cf),(19,0xffff),(1,0xc659),(2,0x8c72),(1,0xc659),
      (19,0xffff),(1,0xb3cf),(1,0xb000),(1,0xd000),(1,0xe800),(1,0xf000),(11,0xf800),(1,0xe800),
      (1,0xb800),(1,0x5800),(1,0xb596),(1,0xb5d7),(3,0xb596),(1,0xb5d7),(1,0xb596),(1,0x9cf4)],
     [(1,0xa515),(6,0xbdf8),(1,0xb5d7),(1,0x3000),(1,0xb800),(1,0xe800),(11,0xf800),(1,0xf000),
      (1,0xe800),(1,0xd000),(1,0xb800),(1,0xb3cf),(18,0xffff),(1,0xa535),(1,0x7000),(2,0x8000),
      (1,0x7000),(1,0xa515),(18,0xffff),(1,0xb3cf),(1,0xb000),(1,0xd000),(1,0xe800),(1,0xf000),
      (11,0xf800),(1,0xe800),(1,0xb800),(1,0x5800),(1,0xb596),(6,0xb5d7),(1,0x9cf4)],
     [(1,0xa515),(6,0xbdf8),(1,0xb5d7),(1,0x3000),(1,0xb800),(1,0xe800),(11,0xf800),(1,0xf000),
      (1,0xe800),(1,0xd000),(1,0xb800),(1,0xb3cf),(17,0xffff),(1,0xe73c),(1,0x7000),(1,0x9800),
      (2,0xa800),(1,0x9800),(1,0x7000),(1,0xe73c),(17,0xffff),(1,0xb3cf),(1,0xb000),(1,0xd000),
      (1,0xe800),(1,0xf000),(11,0xf800),(1,0xe800),(1,0xb800),(1,0x5800),(1,0xb5d7),(6,0xbdf8),
      (1,0xa515)],
     [(1,0xa515),(6,0xc618),(1,0xbdf8),(1,0x3000),(1,0xb800),(1,0xe800),(11,0xf800),(1,0xf000),
      (1,0xe800),(1,0xd000),(1,0xb800),(1,0xb3cf),(17,0xffff),(1,0xce7a),(1,0x7000),(1,0xa800),
      (2,0xb800),(1,0xa800),(1,0x8000),(1,0xce7a),(17,0xffff),(1,0xb3cf),(1,0xb000),(1,0xd000),
      (1,0xe800),(1,0xf000),(11,0xf800),(1,0xe800),(1,0xb800),(1,0x5800),(1,0xb5d7),(6,0xbdf8),
      (1,0xa515)],
     [(1,0xa515),(6,0xc659),(1,0xc618),(1,0x3000),(1,0xb800),(1,0xe800),(11,0xf800),(1,0xf000),
      (1,0xe800),(1,0xd000),(1,0xb800),(1,0xb3cf),(17,0xffff),(1,0xdedb),(1,0x8000),(1,0xa800),
      (2,0xb800),(1,0xa800),(1,0x8000),(1,0xdedb),(17,0xffff),(1,0xb3cf),(1,0xb000),(1,0xd000),
      (1,0xe800),(1,0xf000),(11,0xf800),(1,0xe800),(1,0xb800),(1,0x5800),(1,0xbdf8),(6,0xc618),
      (1,0xa515)],
     [(1,0xa535),(6,0xce59),(1,0xc659),(1,0x3000),(1,0xb800),(1,0xe800),(11,0xf800),(1,0xf000),
      (1,0xe800),(1,0xd000),(1,0xb800),(1,0xb3cf),(18,0xffff),(1,0xb3cf),(1,0x9800),(2,0xb800),
      (1,0xa800),(1,0xb3cf),(18,0xffff),(1,0xb3cf),(1,0xb000),(1,0xd000),(1,0xe800),(1,0xf000),
      (11,0xf800),(1,0xe800),(1,0xb800),(1,0x5800),(1,0xc618),(6,0xc659),(1,0xa535)],
     [(1,0xa535),(6,0xce7a),(1,0xc659),(1,0x3000),(1,0xb800),(1,0xe800),(11,0xf800),(1,0xf000),
      (1,0xe800),(1,0xd000),(1,0xb800),(1,0xb3cf),(19,0xffff),(1,0xb3cf),(2,0xb000),(1,0xb3cf),
      (19,0xffff),(1,0xb3cf),(1,0xb000),(1,0xd000),(1,0xe800),(1,0xf000),(11,0xf800),(1,0xe800),
      (1,0xb800),(1,0x5800),(1,0xc659),(6,0xce59),(1,0xa535)],
     [(1,0xa535),(6,0xd69a),(1,0xce59),(1,0x3000),(1,0xb800),(1,0xe800),(11,0xf800),(1,0xf000),
      (1,0xe800),(1,0xd000),(1,0xb800),(1,0xb3cf),(19,0xffff),(1,0xb3cf),(2,0xa800),(1,0xb3cf),
      (19,0xffff),(1,0xb3cf),(1,0xb000),(1,0xd000),(1,0xe800),(1,0xf000),(11,0xf800),(1,0xe800),
      (1,0xb800),(1,0x5800),(1,0xc659),(6,0xce7a),(1,0xa535)],
     [(1,0xa535),(6,0xd6bb),(1,0xce7a),(1,0x3000),(1,0xb800),(1,0xe800),(11,0xf800),(1,0xf000),
      (1,0xe800),(1,0xd000),(1,0xb800),(1,0xb3cf),(18,0xffff),(1,0xef5d),(1,0x8800),(1,0xa800),
      (1,0xb000),(1,0x9800),(1,0xef5d),(18,0xffff),(1,0xb3cf),(1,0xb000),(1,0xd000),(1,0xe800),
      (1,0xf000),(11,0xf800),(1,0xe800),(1,0xb800),(1,0x5800),(1,0xce59),(6,0xd69a),(1,0xa535)],
     [(1,0xa535),(1,0xdedb),(1,0xd6bb),(1,0xdedb),(1,0xd6bb),(1,0xdedb),(1,0xd6bb),(1,0xd69a),
      (1,0x3000),(1,0xb800),(1,0xe800),(11,0xf800),(1,0xf000),(1,0xe800),(1,0xd000),(1,0xb800),
      (1,0xb3cf),(18,0xffff),(1,0xce59),(1,0x9800),(2,0xb000),(1,0x9800),(1,0xc659),(18,0xffff),
      (1,0xb3cf),(1,0xb000),(1,0xd000),(1,0xe800),(1,0xf000),(11,0xf800),(1,0xe800),(1,0xb800),
      (1,0x5800),(1,0xce7a),(6,0xd6bb),(1,0xa535)],
     [(1,0xa535),(6,0xdedb),(1,0xd6bb),(1,0x3000),(1,0xb800),(1,0xe800),(11,0xf800),(1,0xf000),
      (1,0xe800),(1,0xd000),(1,0xb800),(1,0xb3cf),(18,0xffff),(1,0xb3cf),(1,0x9800),(2,0xb800),
      (1,0xa800),(1,0xb3cf),(18,0xffff),(1,0xb3cf),(1,0xb000),(1,0xd000),(1,0xe800),(1,0xf000),
      (11,0xf800),(1,0xe800),(1,0xb800),(1,0x5800),(1,0xd69a),(1,0xdedb),(5,0xd6bb),(1,0xa535)],
     [(1,0xad56),(6,0xdefc),(1,0xd6bb),(1,0x3000),(1,0xb800),(1,0xe800),(11,0xf800),(1,0xf000),
      (1,0xe800),(1,0xd000),(1,0xb800),(1,0xb3cf),(18,0xffff),(1,0x8000),(1,0x9800),(2,0xb800),
      (1,0xa800),(1,0x8000),(18,0xffff),(1,0xb3cf),(1,0xb000),(1,0xd000),(1,0xe800),(1,0xf000),
      (11,0xf800),(1,0xe800),(1,0xb800),(1,0x5800),(1,0xd6bb),(6,0xdedb),(1,0xad56)],
     [(1,0xa535),(6,0xd6bb),(1,0xd69a),(1,0x3000),(1,0xb800),(1,0xe800),(11,0xf800),(1,0xf000),
      (1,0xe800),(1,0xd000),(1,0xb800),(1,0xb3cf),(17,0xffff),(1,0xce7a),(1,0x7000),(1,0x8800),
      (2,0xa800),(1,0x8800),(1,0x7000),(1,0xce59),(17,0xffff),(1,0xb3cf),(1,0xb000),(1,0xd000),
      (1,0xe800),(1,0xf000),(11,0xf800),(1,0xe800),(1,0xb800),(1,0x5800),(1,0xd6bb),(6,0xdefc),
      (1,0xad56)],
     [(1,0xa535),(6,0xd69a),(1,0xce7a),(1,0x3000),(1,0xb800),(1,0xe800),(11,0xf800),(1,0xf000),
      (1,0xe800),(1,0xd000),(1,0xb800),(1,0xb3cf),(17,0xffff),(1,0x9493),(1,0x5800),(1,0x7000),
      (2,0x8000),(1,0x7000),(1,0x5800),(1,0x9493),(17,0xffff),(1,0xb3cf),(1,0xb000),(1,0xd000),
      (1,0xe800),(1,0xf000),(11,0xf800),(1,0xe800),(1,0xb800),(1,0x5800),(1,0xd69a),(3,0xdedb),
      (2,0xd6bb),(1,0xdedb),(1,0xa535)],
     [(1,0xa535),(6,0xce59),(1,0xc659),(1,0x3000),(1,0xb800),(1,0xe800),(11,0xf800),(1,0xf000),
      (1,0xe800),(1,0xd000),(1,0xb800),(1,0xb3cf),(17,0xffff),(8,0xef5d),(17,0xffff),(1,0xb3cf),
      (1,0xb000),(1,0xd000),(1,0xe800),(1,0xf000),(11,0xf800),(1,0xe800),(1,0xb800),(1,0x5800),
      (1,0xce59),(6,0xd69a),(1,0xa535)],
     [(1,0xa515),(6,0xc659),(1,0xc618),(1,0x3000),(1,0xb800),(1,0xe800),(11,0xf800),(2,0xf000),
      (1,0xd000),(1,0xb800),(1,0xb3cf),(42,0xffff),(1,0xb3cf),(1,0xb000),(1,0xd000),(2,0xf000),
      (11,0xf800),(1,0xe800),(1,0xb800),(1,0x5800),(1,0xc659),(6,0xce59),(1,0xa535)],
     [(1,0xa515),(6,0xc618),(1,0xbdf8),(1,0x3000),(1,0xb800),(1,0xe800),(11,0xf800),(2,0xf000),
      (1,0xd800),(1,0xb800),(1,0xb3cf),(42,0xffff),(1,0xb3cf),(1,0xb800),(1,0xd000),(2,0xf000),
      (11,0xf800),(1,0xe800),(1,0xb800),(1,0x5800),(1,0xc618),(6,0xc659),(1,0xa535)],
     [(1,0x9cf4),(7,0xb5d7),(1,0x3000),(1,0xb800),(1,0xe800),(11,0xf800),(2,0xf000),(1,0xd800),
      (1,0xb800),(1,0xb3cf),(42,0xffff),(1,0xb3cf),(1,0xb800),(1,0xd800),(2,0xf000),(11,0xf800),
      (1,0xe800),(1,0xb800),(1,0x3000),(1,0xbdf8),(6,0xc618),(1,0xa515)],
     [(1,0x9cf4),(7,0xb596),(1,0x0),(1,0xb800),(1,0xd800),(12,0xf800),(1,0xf000),(1,0xd800),(1,0xc800),
      (1,0x9a08),(42,0xffff),(1,0x9a08),(1,0xb800),(1,0xd800),(1,0xf000),(12,0xf800),(1,0xd800),
      (1,0xb800),(1,0x0),(7,0xb5d7),(1,0xa515)],
     [(1,0x9cf4),(7,0xad56),(1,0x10a2),(1,0xb000),(1,0xd000),(12,0xf800),(1,0xf000),(1,0xe800),
      (1,0xc800),(1,0xa800),(1,0xe73c),(40,0xffff),(1,0xef5d),(1,0x9800),(1,0xc800),(1,0xd800),
      (1,0xf000),(12,0xf800),(1,0xd000),(1,0xb000),(1,0x0),(7,0xb596),(1,0x9cf4)],
     [(1,0x9cf4),(3,0xa535),(4,0xad56),(1,0x4249),(1,0xa800),(1,0xb800),(12,0xf800),(1,0xf000),
      (1,0xe800),(1,0xd000),(1,0xb000),(1,0xa535),(40,0xffff),(1,0xad56),(1,0xb000),(1,0xd000),
      (1,0xe800),(1,0xf000),(12,0xf800),(1,0xc800),(1,0xa800),(1,0x4249),(5,0xad56),(1,0xb596),
      (1,0xad56),(1,0x9cf4)],
     [(1,0x9cd3),(7,0xa515),(1,0x632c),(1,0x8000),(1,0xb800),(1,0xe800),(11,0xf800),(2,0xf000),
      (1,0xd800),(1,0xc800),(1,0xa800),(1,0xdefc),(38,0xffff),(1,0xe73c),(1,0x9800),(1,0xc800),
      (1,0xd800),(2,0xf000),(11,0xf800),(1,0xf000),(1,0xb800),(1,0x8000),(1,0x632c),(3,0xa535),
      (4,0xad56),(1,0x9cd4)],
     [(1,0x9cd3),(7,0x9cd4),(1,0x7c10),(1,0x5800),(1,0xb800),(1,0xd000),(12,0xf800),(1,0xf000),
      (1,0xe800),(1,0xd000),(1,0xb800),(1,0x9a08),(1,0xef5d),(36,0xffff),(1,0xef5d),(1,0x9a08),
      (1,0xb800),(1,0xd000),(1,0xe800),(1,0xf000),(12,0xf800),(1,0xd000),(1,0xb800),(1,0x5800),
      (1,0x7c10),(7,0xa515),(1,0x9cd3)],
     [(2,0x9cd3),(2,0x94b3),(1,0x9cd3),(2,0x94b3),(1,0x9cd3),(1,0x9493),(1,0x10a2),(1,0xa800),
      (1,0xb800),(1,0xf000),(11,0xf800),(2,0xf000),(1,0xd800),(1,0xd000),(1,0xb000),(1,0x9a08),
      (1,0xdefc),(34,0xffff),(1,0xdefc),(1,0x9a08),(1,0xb000),(1,0xd000),(1,0xd800),(2,0xf000),
      (11,0xf800),(1,0xf000),(1,0xb800),(1,0xa800),(1,0x10a2),(1,0x9cd3),(5,0x9cd4),(1,0x9cf4),
      (1,0x9cd4),(1,0x9cd3)],
     [(1,0x42a),(1,0x9493),(2,0x8c72),(1,0x9493),(1,0x8c72),(3,0x9493),(1,0x5aeb),(1,0x5800),
      (1,0xb800),(1,0xd000),(12,0xf800),(2,0xf000),(1,0xd800),(1,0xd000),(1,0xb800),(1,0xa800),
      (1,0x9cf4),(1,0xdefc),(30,0xffff),(1,0xdefc),(1,0x9cf4),(1,0x9800),(1,0xb800),(1,0xd000),
      (1,0xd800),(2,0xf000),(12,0xf800),(1,0xd000),(1,0xb800),(1,0x5800),(1,0x632c),(2,0x94b3),
      (1,0x9cd3),(4,0x94b3),(1,0x9cd3),(1,0x42a)],
     [(1,0x42a),(1,0x9cd3),(7,0x8471),(1,0x7c10),(1,0x10a2),(1,0x9800),(1,0xb800),(1,0xd800),
      (12,0xf800),(2,0xf000),(1,0xe800),(1,0xd000),(1,0xc800),(1,0xb000),(1,0xa800),(1,0x8945),
      (28,0xb3cf),(1,0x8945),(1,0xa800),(1,0xb000),(1,0xc800),(1,0xd000),(1,0xd800),(2,0xf000),
      (12,0xf800),(1,0xd800),(1,0xb800),(1,0x9800),(1,0x10a2),(1,0x8471),(2,0x8c72),(1,0x9493),
      (3,0x8c72),(1,0x9493),(1,0x9cd3),(1,0x42a)],
     [(1,0x42a),(1,0x9cd3),(3,0x8471),(1,0x7c10),(4,0x8471),(1,0x5aeb),(1,0x3000),(1,0xb000),
      (1,0xb800),(1,0xe800),(12,0xf800),(2,0xf000),(1,0xe800),(1,0xd800),(1,0xd000),(2,0xc800),
      (28,0xb800),(2,0xc800),(1,0xd000),(1,0xd800),(1,0xe800),(2,0xf000),(12,0xf800),(1,0xe800),
      (2,0xb800),(1,0x3000),(1,0x632c),(8,0x8471),(1,0x9cd3),(1,0x42a)],
     [(1,0x42a),(1,0x9cd3),(1,0x8471),(8,0x7c10),(1,0x31c7),(1,0x5800),(2,0xb800),(1,0xe800),
      (12,0xf800),(3,0xf000),(2,0xe800),(3,0xd800),(24,0xd000),(4,0xd800),(1,0xe800),(3,0xf000),
      (12,0xf800),(1,0xf000),(2,0xb800),(1,0x5800),(1,0x39e7),(1,0x7c10),(1,0x8471),(1,0x7c10),
      (2,0x8471),(1,0x7c10),(1,0x8471),(1,0x7c10),(1,0x8c72),(1,0x9cd3),(1,0x42a)],
     [(2,0x42a),(1,0x94b3),(9,0x73cf),(1,0x10a2),(1,0x7000),(2,0xb800),(1,0xe800),(13,0xf800),
      (8,0xf000),(1,0xe800),(1,0xf000),(2,0xe800),(1,0xf000),(1,0xe800),(1,0xf000),(2,0xe800),
      (1,0xf000),(1,0xe800),(1,0xf000),(1,0xe800),(2,0xf000),(1,0xe800),(1,0xf000),(1,0xe800),
      (2,0xf000),(1,0xe800),(7,0xf000),(13,0xf800),(1,0xe800),(2,0xb800),(1,0x7000),(1,0x3186),
      (1,0x73cf),(8,0x7c10),(1,0x94b3),(2,0x42a)],
     [(2,0x42a),(1,0x9cd3),(1,0x7c10),(8,0x73cf),(1,0x6b6d),(1,0x10a2),(1,0x5800),(2,0xb800),
      (1,0xd000),(1,0xf000),(14,0xf800),(30,0xf000),(14,0xf800),(1,0xf000),(1,0xd000),(2,0xb800),
      (1,0x5800),(1,0x10a2),(1,0x6b6d),(8,0x73cf),(1,0x8471),(1,0x9cd3),(2,0x42a)],
     [(3,0x42a),(1,0x9493),(9,0x6b6d),(1,0x632c),(1,0x3186),(1,0x3000),(1,0xa800),(2,0xb800),
      (1,0xd000),(1,0xf000),(54,0xf800),(1,0xf000),(1,0xd000),(2,0xb800),(1,0xa800),(1,0x3000),
      (1,0x3186),(2,0x6b6d),(2,0x73cf),(1,0x6b6d),(5,0x73cf),(1,0x94b3),(3,0x42a)],
     [(3,0x42a),(1,0x9cd3),(1,0x8471),(10,0x632c),(1,0x4249),(1,0x0),(1,0x7000),(1,0xa800),(2,0xb800),
      (1,0xc800),(1,0xd000),(1,0xd800),(2,0xe800),(44,0xf000),(2,0xe800),(1,0xd800),(1,0xd000),
      (1,0xc800),(2,0xb800),(1,0xa800),(1,0x7000),(1,0x0),(1,0x4249),(10,0x6b6d),(1,0x8471),(1,0x9cd3),
      (3,0x42a)],
     [(4,0x42a),(1,0x9cd3),(1,0x73cf),(3,0x5aeb),(3,0x632c),(2,0x5aeb),(2,0x632c),(1,0x52cb),
      (1,0x31c7),(1,0x0),(1,0x5800),(1,0x8800),(1,0xa800),(52,0xb800),(1,0xa800),(1,0x8800),(1,0x5800),
      (1,0x0),(1,0x39e7),(1,0x5aeb),(10,0x632c),(1,0x73cf),(1,0x9cd3),(4,0x42a)],
     [(5,0x42a),(1,0x94b3),(1,0x632c),(1,0x52cb),(2,0x5aeb),(1,0x52cb),(7,0x5aeb),(1,0x52cb),
      (1,0x4228),(1,0x3186),(1,0x10a2),(1,0x0),(1,0x3000),(48,0x5800),(1,0x3000),(1,0x0),(1,0x10a2),
      (1,0x3186),(1,0x4249),(12,0x5aeb),(1,0x6b6d),(1,0x94b3),(5,0x42a)],
     [(6,0x42a),(1,0x9493),(1,0x5aeb),(15,0x52aa),(49,0x4a69),(1,0x52aa),(15,0x52cb),(1,0x632c),
      (1,0x9493),(6,0x42a)],
     [(7,0x42a),(1,0x9493),(1,0x5aeb),(25,0x4a69),(1,0x52aa),(6,0x4a69),(2,0x52aa),(2,0x4a69),
      (42,0x52aa),(1,0x5aeb),(1,0x9493),(7,0x42a)],
     [(8,0x42a),(1,0x9493),(1,0x632c),(32,0x4249),(1,0x4a69),(1,0x4249),(42,0x4a69),(1,0x632c),
      (1,0x9493),(8,0x42a)],
     [(9,0x42a),(1,0x9cd3),(1,0x73cf),(56,0x4228),(18,0x4249),(1,0x73cf),(1,0x9cd3),(9,0x42a)],
     [(10,0x42a),(1,0x9cd3),(1,0x9493),(1,0x632c),(68,0x39e7),(2,0x4228),(1,0x632c),(1,0x9493),
      (1,0x9cd3),(10,0x42a)],
     [(12,0x42a),(1,0x9cd3),(1,0x8c72),(1,0x6b6d),(1,0x39e7),(58,0x31c7),(7,0x39e7),(1,0x6b6d),
      (1,0x8c72),(1,0x9cd3),(12,0x42a)],
     [(14,0x42a),(2,0x9cd3),(1,0x7c10),(1,0x6b6d),(1,0x52aa),(57,0x3186),(1,0x31c7),(1,0x52aa),
      (1,0x6b6d),(1,0x7c10),(2,0x9cd3),(14,0x42a)],
     [(17,0x42a),(3,0x9cd3),(1,0x9493),(54,0x8c72),(1,0x9493),(3,0x9cd3),(17,0x42a)],
     [(9,0x0),(30,0xffff),(16,0x0),(34,0xffff),(7,0x0)],
     [(6,0x0),(36,0xffff),(11,0x0),(38,0xffff),(5,0x0)],
     [(4,0x0),(1,0xff00),(38,0xffff),(1,0xff),(8,0x0),(40,0xffff),(4,0x0)],
     [(3,0x0),(1,0xff00),(40,0xffff),(1,0xff),(6,0x0),(42,0xffff),(3,0x0)],
     [(2,0x0),(1,0xff00),(42,0xffff),(1,0xff),(4,0x0),(44,0xffff),(2,0x0)],
     [(1,0x0),(1,0xff00),(44,0xffff),(1,0xff),(2,0x0),(1,0xff00),(44,0xffff),(1,0xff),(1,0x0)],
     [(1,0x0),(46,0xffff),(2,0x0),(46,0xffff),(1,0x0)],
     [(1,0xff00),(46,0xffff),(1,0xff),(1,0xff00),(46,0xffff),(1,0xff)],
     [(1,0xff00),(46,0xffff),(1,0xff),(1,0xff00),(46,0xffff),(1,0xff)],
     [(96,0xffff)],
     [(96,0xffff)],
     [(96,0xffff)],
     [(96,0xffff)],
     [(96,0xffff)],
     [(96,0xffff)],
     [(96,0xffff)],
     [(96,0xffff)],
     [(96,0xffff)],
     [(96,0xffff)],
     [(96,0xffff)],
     [(96,0xffff)],
     [(96,0xffff)],
     [(96,0xffff)],
     [(96,0xffff)],
     [(96,0xffff)],
     [(96,0xffff)],
     [(96,0xffff)],
     [(96,0xffff)],
     [(96,0xffff)],
     [(96,0xffff)],
     [(96,0xffff)],
     [(96,0xffff)],
     [(96,0xffff)],
     [(96,0xffff)],
     [(96,0xffff)],
     [(96,0xffff)],
     [(96,0xffff)],
     [(96,0xffff)],
     [(96,0xffff)],
     [(1,0xff00),(46,0xffff),(1,0xff),(1,0xff00),(46,0xffff),(1,0xff)],
     [(1,0xff00),(46,0xffff),(1,0xff),(1,0xff00),(46,0xffff),(1,0xff)],
     [(1,0x0),(46,0xffff),(2,0x0),(46,0xffff),(1,0x0)],
     [(1,0x0),(1,0xff00),(44,0xffff),(1,0xff),(2,0x0),(1,0xff00),(44,0xffff),(1,0xff),(1,0x0)],
     [(2,0x0),(44,0xffff),(4,0x0),(1,0xff00),(42,0xffff),(1,0xff),(2,0x0)],
     [(3,0x0),(42,0xffff),(6,0x0),(1,0xff00),(40,0xffff),(1,0xff),(3,0x0)],
     [(4,0x0),(40,0xffff),(8,0x0),(1,0xff00),(38,0xffff),(1,0xff),(4,0x0)],
     [(5,0x0),(38,0xffff),(11,0x0),(36,0xffff),(6,0x0)],
     [(7,0x0),(34,0xffff),(15,0x0),(1,0xff00),(30,0xffff),(1,0xff),(8,0x0)]]"

definition unlock_icon_rows :: "runs list" where
  "unlock_icon_rows =
    [[(18,0x4b),(2,0x9cd3),(1,0x9cf4),(54,0xa515),(1,0x9cf4),(2,0x9cd3),(18,0x4b)],
     [(14,0x4b),(2,0x9cd3),(1,0xad56),(1,0xb5d7),(1,0xbdf8),(58,0xc659),(1,0xbdf8),(1,0xb5d7),
      (1,0xa535),(2,0x9cd3),(14,0x4b)],
     [(12,0x4b),(1,0x9cd3),(1,0xa515),(1,0xb5d7),(1,0xc659),(64,0xce59),(1,0xc659),(1,0xb5d7),
      (1,0xa515),(1,0x9cd3),(12,0x4b)],
     [(10,0x4b),(1,0x9cd3),(1,0xa515),(1,0xbdf8),(70,0xce59),(1,0xbdf8),(1,0xa515),(1,0x9cd3),
      (10,0x4b)],
     [(9,0x4b),(1,0x9cd3),(1,0xb596),(49,0xce7a),(1,0xce59),(3,0xce7a),(1,0xce59),(7,0xce7a),
      (1,0xce59),(1,0xce7a),(1,0xce59),(1,0xce7a),(1,0xce59),(2,0xce7a),(1,0xce59),(1,0xce7a),
      (2,0xce59),(1,0xce7a),(1,0xce59),(1,0xb596),(1,0x9cd3),(9,0x4b)],
     [(8,0x4b),(1,0x9cf4),(1,0xc618),(2,0xce7a),(1,0xd69a),(3,0xce7a),(1,0xd69a),(69,0xce7a),
      (1,0xc618),(1,0x9cf4),(8,0x4b)],
     [(7,0x4b),(1,0xa515),(1,0xce59),(78,0xd69a),(1,0xce59),(1,0xa515),(7,0x4b)],
     [(6,0x4b),(1,0xa515),(1,0xce7a),(3,0xd6bb),(2,0xd69a),(2,0xd6bb),(8,0xd69a),(1,0xce7a),
      (48,0xc659),(1,0xce59),(15,0xd69a),(1,0xce7a),(1,0xa515),(6,0x4b)],
     [(5,0x4b),(1,0x9cf4),(1,0xce7a),(11,0xd6bb),(1,0xce7a),(1,0xad56),(1,0x7c10),(1,0x52cb),(1,0x0),
      (49,0x141),(2,0x0),(1,0x52cb),(1,0x7c10),(1,0xad56),(1,0xce7a),(11,0xd6bb),(1,0xce7a),(1,0x9cf4),
      (5,0x4b)],
     [(4,0x4b),(1,0x9cd3),(1,0xce59),(1,0xd6bb),(1,0xdedb),(8,0xd6bb),(1,0xce59),(1,0x8c72),(1,0x3186),
      (1,0x141),(1,0x222),(1,0x283),(1,0x2c3),(51,0x304),(1,0x283),(1,0x222),(1,0x141),(1,0x3186),
      (1,0x8c72),(1,0xce59),(10,0xd6bb),(1,0xc659),(1,0x9cd3),(4,0x4b)],
     [(3,0x4b),(1,0x9cd3),(1,0xbdf8),(9,0xdedb),(1,0xd6bb),(1,0x9cf4),(1,0x3186),(1,0x141),(1,0x283),
      (3,0x304),(1,0x3c5),(3,0x425),(43,0x466),(4,0x425),(1,0x3c5),(3,0x304),(1,0x283),(1,0x141),
      (1,0x3186),(1,0x9cf4),(2,0xd6bb),(4,0xdedb),(1,0xd6bb),(2,0xdedb),(1,0xd6bb),(1,0xb5d7),
      (1,0x9cd3),(3,0x4b)],
     [(3,0x4b),(1,0xa535),(9,0xdedb),(1,0xce7a),(1,0x6b6d),(1,0x141),(1,0x283),(2,0x304),(1,0x3c5),
      (1,0x466),(54,0x4a6),(1,0x466),(1,0x3c5),(2,0x304),(1,0x283),(1,0x141),(1,0x6b6d),(1,0xce7a),
      (9,0xdedb),(1,0xa515),(3,0x4b)],
     [(2,0x4b),(1,0x9cd3),(1,0xce59),(8,0xdefc),(1,0xce7a),(1,0x52aa),(1,0x141),(1,0x2c3),(1,0x304),
      (1,0x364),(1,0x486),(27,0x4a6),(4,0x486),(27,0x4a6),(1,0x486),(1,0x364),(1,0x304),(1,0x2c3),
      (1,0x141),(1,0x52aa),(1,0xce7a),(8,0xdedb),(1,0xc659),(1,0x9cd3),(2,0x4b)],
     [(2,0x4b),(1,0xa535),(8,0xdefc),(1,0xd69a),(1,0x52aa),(1,0x141),(2,0x304),(1,0x425),(25,0x4a6),
      (4,0x486),(4,0x466),(5,0x486),(24,0x4a6),(1,0x425),(2,0x304),(1,0x141),(1,0x52cb),(1,0xd69a),
      (8,0xdefc),(1,0xa535),(2,0x4b)],
     [(1,0x4b),(1,0x9cd3),(1,0xc659),(6,0xe73c),(2,0xdefc),(1,0x6b6d),(1,0x141),(2,0x304),(1,0x466),
      (24,0x4a6),(2,0x486),(2,0x466),(8,0x425),(2,0x466),(2,0x486),(24,0x4a6),(1,0x466),(2,0x304),
      (1,0x141),(1,0x6b6d),(8,0xdefc),(1,0xc659),(1,0x9cd3),(1,0x4b)],
     [(1,0x4b),(1,0x9cd3),(1,0xdefc),(7,0xe73c),(1,0xa535),(1,0x141),(1,0x2c3),(1,0x304),(1,0x466),
      (23,0x4a6),(2,0x486),(1,0x466),(2,0x425),(2,0x3c5),(6,0x364),(2,0x3c5),(2,0x425),(1,0x466),
      (2,0x486),(23,0x4a6),(1,0x466),(1,0x304),(1,0x2c3),(1,0x141),(1,0xa535),(7,0xe73c),(1,0xdefc),
      (1,0x9cd3),(1,0x4b)],
     [(1,0x4b),(1,0xb596),(7,0xe73c),(1,0xdedb),(1,0x3186),(1,0x283),(1,0x304),(1,0x425),(23,0x4a6),
      (1,0x486),(1,0x466),(2,0x425),(1,0x3c5),(1,0x364),(2,0x304),(1,0x2c3),(1,0x4369),(2,0x7c10),
      (1,0x4369),(1,0x2c3),(2,0x304),(1,0x364),(1,0x3c5),(2,0x425),(1,0x466),(1,0x486),(23,0x4a6),
      (1,0x425),(1,0x304),(1,0x283),(1,0x3186),(1,0xd6bb),(7,0xe73c),(1,0xb596),(1,0x4b)],
     [(1,0x4b),(1,0xc659),(7,0xef5d),(1,0x9cd3),(1,0x141),(1,0x304),(1,0x364),(22,0x4a6),(2,0x486),
      (1,0x466),(1,0x425),(1,0x3c5),(1,0x364),(1,0x304),(1,0x4369),(1,0xad56),(1,0xdedb),(6,0xffff),
      (1,0xdedb),(1,0xad56),(1,0x4369),(1,0x304),(1,0x364),(1,0x3c5),(1,0x425),(1,0x466),(2,0x486),
      (22,0x4a6),(1,0x364),(1,0x304),(1,0x141),(1,0x9cd3),(7,0xe73c),(1,0xc659),(1,0x4b)],
     [(1,0x9cd3),(1,0xdedb),(6,0xef5d),(1,0xe73c),(1,0x3186),(1,0x283),(1,0x304),(1,0x486),(21,0x4a6),
      (2,0x486),(1,0x466),(1,0x425),(1,0x3c5),(1,0x364),(1,0x3b8a),(1,0xbdf8),(12,0xffff),(1,0xbdf8),
      (1,0x3b8a),(1,0x304),(1,0x3c5),(1,0x425),(1,0x466),(2,0x486),(21,0x4a6),(1,0x466),(1,0x304),
      (1,0x283),(1,0x31c7),(1,0xe73c),(6,0xef5d),(1,0xd6bb),(1,0x9cd3)],
     [(1,0x9cd3),(1,0xe73c),(6,0xef5d),(1,0xbdf8),(1,0x141),(1,0x304),(1,0x3c5),(22,0x4a6),(1,0x486),
      (1,0x466),(1,0x425),(1,0x364),(1,0x304),(1,0x7c10),(1,0xef5d),(14,0xffff),(1,0xef5d),(1,0x7c10),
      (1,0x304),(1,0x364),(1,0x425),(1,0x466),(1,0x486),(22,0x4a6),(1,0x3c5),(1,0x304),(1,0x141),
      (1,0xc618),(6,0xef5d),(1,0xe73c),(1,0x9cd3)],
     [(1,0x9cf4),(1,0xe73c),(1,0xef5d),(3,0xe73c),(2,0xef5d),(1,0x8c72),(1,0x222),(1,0x304),(1,0x466),
      (21,0x4a6),(1,0x486),(1,0x466),(1,0x425),(1,0x3c5),(1,0x304),(1,0x9493),(18,0xffff),(1,0x9493),
      (1,0x304),(1,0x3c5),(1,0x425),(1,0x466),(1,0x486),(21,0x4a6),(1,0x466),(1,0x304),(1,0x222),
      (1,0x9493),(7,0xef5d),(1,0x9cf4)],
     [(1,0xa535),(7,0xe73c),(1,0x632c),(1,0x283),(1,0x304),(21,0x4a6),(2,0x486),(1,0x425),(1,0x3c5),
      (1,0x304),(1,0x8471),(20,0xffff),(1,0x8471),(1,0x304),(1,0x3c5),(1,0x425),(2,0x486),(21,0x4a6),
      (1,0x304),(1,0x283),(1,0x632c),(4,0xe73c),(3,0xef5d),(1,0xa535)],
     [(1,0xa535),(7,0xdefc),(1,0x10a2),(1,0x2c3),(1,0x3c5),(21,0x4a6),(1,0x486),(1,0x466),(1,0x425),
      (1,0x364),(1,0x4369),(8,0xffff),(1,0xef5d),(1,0xc659),(2,0xb596),(1,0xc659),(1,0xef5d),(8,0xffff),
      (1,0x4369),(1,0x364),(1,0x3c5),(1,0x466),(1,0x486),(21,0x4a6),(1,0x3c5),(1,0x2c3),(1,0x10a2),
      (7,0xe73c),(1,0xad56)],
     [(1,0xa535),(6,0xdedb),(1,0xd6bb),(1,0x0),(1,0x304),(1,0x3c5),(20,0x4a6),(2,0x486),(1,0x425),
      (1,0x3c5),(1,0x304),(1,0xd69a),(6,0xffff),(1,0xef5d),(1,0x8471),(1,0x283),(4,0x2c3),(1,0x283),
      (1,0x8471),(1,0xef5d),(6,0xffff),(1,0xd69a),(1,0x2c3),(1,0x364),(1,0x425),(1,0x466),(1,0x486),
      (20,0x4a6),(1,0x3c5),(1,0x304),(1,0x0),(1,0xdedb),(6,0xdefc),(1,0xa535)],
     [(1,0xa535),(6,0xd6bb),(1,0xce7a),(1,0x141),(1,0x304),(1,0x425),(20,0x4a6),(1,0x486),(1,0x466),
      (1,0x3c5),(1,0x364),(1,0x7c10),(6,0xffff),(1,0xd69a),(1,0x4228),(1,0x2c3),(1,0x304),(1,0x364),
      (2,0x3c5),(2,0x364),(1,0x2c3),(1,0x4228),(1,0xd6bb),(6,0xffff),(1,0x7c10),(1,0x364),(1,0x3c5),
      (1,0x466),(1,0x486),(20,0x4a6),(1,0x425),(1,0x304),(1,0x141),(1,0xd69a),(6,0xdedb),(1,0xa535)],
     [(1,0xa535),(1,0xce7a),(5,0xd69a),(1,0xce59),(1,0x141),(1,0x304),(1,0x425),(20,0x4a6),(1,0x486),
      (1,0x466),(1,0x3c5),(1,0x304),(1,0xce7a),(5,0xffff),(1,0xdefc),(2,0x304),(1,0x364),(1,0x3c5),
      (4,0x425),(1,0x3c5),(1,0x364),(1,0x304),(1,0x31c7),(1,0xe73c),(5,0xffff),(1,0xce7a),(1,0x304),
      (1,0x3c5),(1,0x425),(1,0x486),(20,0x4a6),(1,0x425),(1,0x304),(1,0x141),(1,0xce7a),(6,0xd6bb),
      (1,0xa535)],
     [(1,0xa535),(6,0xce59),(1,0xc659),(1,0x141),(1,0x304),(1,0x425),(20,0x4a6),(1,0x466),(1,0x425),
      (1,0x364),(1,0x304),(6,0xffff),(1,0x6b6d),(1,0x304),(1,0x364),(1,0x425),(2,0x466),(2,0x486),
      (2,0x466),(1,0x425),(1,0x364),(1,0x304),(1,0x6b6d),(6,0xffff),(1,0x304),(1,0x364),(1,0x425),
      (1,0x466),(1,0x486),(19,0x4a6),(1,0x425),(1,0x304),(1,0x141),(1,0xce59),(6,0xd69a),(1,0xa535)],
     [(1,0xa515),(6,0xc659),(1,0xc618),(1,0x141),(1,0x304),(1,0x425),(19,0x4a6),(1,0x486),(1,0x466),
      (1,0x425),(1,0x364),(1,0x8471),(5,0xffff),(1,0xce7a),(1,0x283),(1,0x364),(1,0x3c5),(1,0x466),
      (2,0x486),(2,0x4a6),(2,0x486),(1,0x466),(1,0x425),(1,0x364),(1,0x2c3),(1,0xce7a),(5,0xffff),
      (1,0x7c10),(1,0x364),(1,0x425),(1,0x466),(1,0x486),(19,0x4a6),(1,0x425),(1,0x304),(1,0x141),
      (1,0xc659),(6,0xce59),(1,0xa535)],
     [(1,0xa515),(6,0xc618),(1,0xbdf8),(1,0x141),(1,0x304),(1,0x425),(19,0x4a6),(1,0x486),(1,0x466),
      (1,0x3c5),(1,0x364),(1,0xad56),(5,0xffff),(1,0x9cd3),(1,0x304),(1,0x3c5),(1,0x425),(2,0x486),
      (4,0x4a6),(2,0x486),(1,0x425),(1,0x3c5),(1,0x304),(1,0x9cd3),(5,0xffff),(1,0xad56),(1,0x364),
      (1,0x3c5),(1,0x466),(1,0x486),(19,0x4a6),(1,0x425),(1,0x304),(1,0x141),(1,0xc618),(6,0xc659),
      (1,0xa515)],
     [(1,0xa515),(6,0xbdf8),(1,0xb5d7),(1,0x141),(1,0x304),(1,0x425),(19,0x4a6),(1,0x486),(1,0x466),
      (1,0x3c5),(1,0x304),(1,0xbdf8),(5,0xffff),(1,0x6b6d),(1,0x304),(1,0x3c5),(1,0x466),(1,0x486),
      (6,0x4a6),(1,0x486),(1,0x466),(1,0x3c5),(1,0x364),(1,0x73cf),(5,0xffff),(1,0xb5d7),(1,0x304),
      (1,0x3c5),(1,0x466),(1,0x486),(19,0x4a6),(1,0x425),(1,0x304),(1,0x141),(1,0xbdf8),(6,0xc618),
      (1,0xa515)],
     [(1,0x9cf4),(1,0xb5d7),(5,0xbdf8),(1,0xb5d7),(1,0x141),(1,0x304),(1,0x425),(19,0x4a6),(1,0x486),
      (1,0x466),(1,0x3c5),(1,0x304),(1,0xc659),(5,0xffff),(1,0x3b8a),(1,0x364),(1,0x425),(1,0x466),
      (1,0x486),(6,0x4a6),(1,0x486),(1,0x466),(1,0x425),(1,0x364),(1,0x4369),(5,0xffff),(1,0xc659),
      (1,0x304),(1,0x3c5),(1,0x466),(1,0x486),(19,0x4a6),(1,0x425),(1,0x304),(1,0x141),(1,0xb5d7),
      (5,0xbdf8),(1,0xc618),(1,0xa515)],
     [(1,0x9cf4),(6,0xb5d7),(1,0xb596),(1,0x141),(1,0x304),(1,0x425),(19,0x4a6),(1,0x486),(1,0x466),
      (1,0x3c5),(1,0x304),(1,0xc659),(5,0xffff),(1,0x3b8a),(1,0x364),(1,0x425),(1,0x466),(1,0x486),
      (6,0x4a6),(1,0x486),(1,0x466),(1,0x425),(1,0x364),(1,0x4369),(5,0xffff),(1,0xc659),(1,0x304),
      (1,0x3c5),(1,0x466),(1,0x486),(19,0x4a6),(1,0x425),(1,0x304),(1,0x141),(1,0xb5d7),(6,0xbdf8),
      (1,0x9cf4)],
     [(1,0x9cf4),(6,0xb596),(1,0xad56),(1,0x141),(1,0x304),(1,0x425),(19,0x4a6),(1,0x486),(1,0x466),
      (1,0x3c5),(1,0x304),(1,0xc659),(5,0xffff),(1,0x3b8a),(1,0x364),(1,0x425),(1,0x466),(1,0x486),
      (7,0x4a6),(1,0x486),(1,0x425),(1,0x364),(1,0x4369),(5,0xffff),(1,0xc659),(1,0x304),(1,0x3c5),
      (1,0x466),(1,0x486),(19,0x4a6),(1,0x425),(1,0x304),(1,0x141),(1,0xb596),(6,0xb5d7),(1,0x9cf4)],
     [(1,0x9cf4),(3,0xad56),(2,0xb596),(2,0xad56),(1,0x141),(1,0x304),(1,0x425),(19,0x4a6),(1,0x486),
      (1,0x425),(1,0x3c5),(1,0x304),(1,0xc659),(5,0xffff),(1,0x3b8a),(1,0x364),(1,0x425),(1,0x466),
      (1,0x486),(7,0x4a6),(1,0x486),(1,0x425),(1,0x364),(1,0x4369),(5,0xffff),(1,0xc659),(1,0x304),
      (1,0x3c5),(1,0x466),(1,0x486),(19,0x4a6),(1,0x425),(1,0x304),(1,0x141),(1,0xad56),(6,0xb596),
      (1,0x9cf4)],
     [(1,0x9cd4),(6,0xad56),(1,0xa535),(1,0x141),(1,0x304),(1,0x425),(19,0x4a6),(1,0x486),(1,0x425),
      (1,0x3c5),(1,0x304),(1,0xc659),(5,0xffff),(1,0x3b8a),(1,0x364),(1,0x425),(1,0x466),(1,0x486),
      (7,0x4a6),(1,0x486),(1,0x425),(1,0x3c5),(1,0x4369),(5,0xffff),(1,0xc659),(1,0x364),(1,0x3c5),
      (1,0x466),(1,0x486),(19,0x4a6),(1,0x425),(1,0x304),(1,0x141),(4,0xad56),(3,0xb596),(1,0x9cf4)],
     [(1,0x9cd4),(6,0xa535),(1,0xa515),(1,0x141),(1,0x304),(1,0x425),(19,0x4a6),(1,0x486),(1,0x425),
      (1,0x3c5),(1,0x304),(1,0xc659),(5,0xffff),(1,0x3b8a),(1,0x364),(1,0x425),(1,0x466),(1,0x486),
      (7,0x4a6),(1,0x486),(1,0x466),(1,0x3c5),(1,0x4369),(5,0xffff),(1,0xc659),(1,0x364),(1,0x425),
      (1,0x466),(1,0x486),(19,0x4a6),(1,0x425),(1,0x304),(1,0x141),(1,0xa535),(6,0xad56),(1,0x9cd4)],
     [(1,0x9cd3),(6,0xa515),(1,0x9cf4),(1,0x141),(1,0x304),(1,0x425),(19,0x4a6),(1,0x486),(1,0x425),
      (1,0x3c5),(1,0x304),(1,0xc659),(5,0xffff),(1,0x3b8a),(1,0x364),(1,0x425),(1,0x466),(1,0x486),
      (7,0x4a6),(1,0x486),(1,0x466),(1,0x425),(1,0x3b8a),(5,0xa535),(1,0x8471),(1,0x3c5),(1,0x425),
      (2,0x486),(19,0x4a6),(1,0x425),(1,0x304),(1,0x141),(1,0xa515),(6,0xa535),(1,0x9cd4)],
     [(1,0x9cd3),(3,0x9cf4),(1,0x9cd4),(2,0x9cf4),(1,0x9cd4),(1,0x141),(1,0x304),(1,0x425),(19,0x4a6),
      (1,0x486),(1,0x425),(1,0x3c5),(1,0x304),(1,0xc659),(5,0xffff),(1,0x3b8a),(1,0x364),(1,0x425),
      (1,0x466),(1,0x486),(7,0x4a6),(2,0x486),(1,0x466),(1,0x425),(1,0x3c5),(4,0x364),(1,0x3c5),
      (1,0x425),(1,0x466),(1,0x486),(20,0x4a6),(1,0x425),(1,0x304),(1,0x141),(1,0x9cf4),(6,0xa515),
      (1,0x9cd3)],
     [(1,0x9cd3),(1,0x9cd4),(1,0x94b3),(4,0x9cd4),(1,0x94b3),(1,0x141),(1,0x304),(1,0x425),(19,0x4a6),
      (1,0x486),(1,0x425),(1,0x3c5),(1,0x2c3),(1,0xc659),(5,0xffff),(1,0x3b8a),(1,0x364),(1,0x425),
      (1,0x466),(2,0x486),(5,0x4a6),(3,0x486),(2,0x466),(6,0x425),(1,0x466),(2,0x486),(20,0x4a6),
      (1,0x425),(1,0x304),(1,0x141),(1,0x9cd4),(6,0x9cf4),(1,0x9cd3)],
     [(1,0x9cd3),(1,0x9493),(5,0x94b3),(1,0x9493),(1,0x141),(1,0x304),(1,0x425),(18,0x4a6),(2,0x486),
      (1,0x425),(1,0x3c5),(1,0x2c3),(1,0xc659),(5,0xffff),(1,0x3b8a),(1,0x364),(1,0x3c5),(2,0x466),
      (9,0x486),(4,0x466),(2,0x425),(3,0x466),(2,0x486),(20,0x4a6),(1,0x425),(1,0x304),(1,0x141),
      (2,0x94b3),(5,0x9cd4),(1,0x9cd3)],
     [(1,0x9cd3),(6,0x9493),(1,0x8c72),(1,0x141),(1,0x304),(1,0x425),(18,0x4a6),(1,0x486),(1,0x466),
      (1,0x425),(1,0x364),(1,0x2c3),(1,0xc659),(5,0xffff),(1,0x4228),(1,0x304),(2,0x3c5),(18,0x425),
      (3,0x466),(2,0x486),(18,0x4a6),(1,0x425),(1,0x304),(1,0x141),(1,0x9493),(6,0x94b3),(1,0x9cd3)],
     [(1,0x9cd3),(6,0x8c72),(1,0x8471),(1,0x141),(1,0x304),(1,0x425),(16,0x4a6),(2,0x486),(1,0x466),
      (1,0x425),(1,0x3c5),(1,0x304),(1,0x283),(1,0xc659),(5,0xffff),(1,0x4228),(1,0x283),(1,0x304),
      (2,0x364),(13,0x3c5),(1,0x364),(5,0x3c5),(1,0x425),(2,0x466),(2,0x486),(16,0x4a6),(1,0x425),
      (1,0x304),(1,0x141),(1,0x8c72),(6,0x9493),(1,0x9cd3)],
     [(1,0x9cd3),(6,0x8c72),(1,0x8471),(1,0x141),(1,0x304),(1,0x425),(15,0x4a6),(2,0x486),(1,0x466),
      (1,0x425),(1,0x3c5),(1,0x364),(1,0x2c3),(1,0x222),(1,0xc659),(5,0xffff),(1,0x39e7),(1,0x222),
      (1,0x283),(18,0x2c3),(2,0x304),(2,0x364),(1,0x3c5),(1,0x425),(1,0x466),(2,0x486),(15,0x4a6),
      (1,0x425),(1,0x304),(1,0x141),(1,0x8471),(6,0x8c72),(1,0x9cd3)],
     [(1,0x9cd3),(6,0x9493),(1,0x8c72),(1,0x141),(1,0x304),(1,0x425),(14,0x4a6),(2,0x486),(1,0x466),
      (1,0x425),(1,0x364),(2,0x304),(1,0x9cd3),(1,0xce59),(1,0xef5d),(5,0xffff),(21,0xef5d),(1,0xe73c),
      (1,0xce59),(1,0x9cd3),(2,0x304),(1,0x364),(1,0x3c5),(1,0x466),(2,0x486),(14,0x4a6),(1,0x425),
      (1,0x304),(1,0x141),(1,0x8471),(6,0x8c72),(1,0x9cd3)],
     [(1,0x9cd3),(6,0x9493),(1,0x8c72),(1,0x141),(1,0x304),(1,0x425),(13,0x4a6),(2,0x486),(1,0x466),
      (1,0x3c5),(1,0x364),(1,0x304),(1,0x9cd3),(1,0xef5d),(32,0xffff),(1,0xef5d),(1,0x9cd3),(1,0x304),
      (1,0x364),(1,0x3c5),(1,0x466),(2,0x486),(13,0x4a6),(1,0x425),(1,0x304),(1,0x141),(1,0x8c72),
      (6,0x9493),(1,0x9cd3)],
     [(1,0x9cd3),(6,0x94b3),(1,0x9493),(1,0x141),(1,0x304),(1,0x425),(13,0x4a6),(1,0x486),(1,0x466),
      (1,0x425),(1,0x364),(1,0x2c3),(1,0xc618),(36,0xffff),(1,0xbdf8),(1,0x2c3),(1,0x364),(1,0x425),
      (1,0x466),(1,0x486),(13,0x4a6),(1,0x425),(1,0x304),(1,0x141),(7,0x9493),(1,0x9cd3)],
     [(1,0x9cd3),(6,0x9cd4),(1,0x94b3),(1,0x141),(1,0x304),(1,0x425),(12,0x4a6),(2,0x486),(1,0x425),
      (1,0x3c5),(1,0x304),(1,0xb596),(38,0xffff),(1,0xb596),(1,0x304),(1,0x3c5),(1,0x425),(2,0x486),
      (12,0x4a6),(1,0x425),(1,0x304),(1,0x141),(1,0x9493),(6,0x94b3),(1,0x9cd3)],
     [(1,0x9cd3),(6,0x9cf4),(1,0x9cd4),(1,0x141),(1,0x304),(1,0x425),(12,0x4a6),(1,0x486),(1,0x466),
      (1,0x3c5),(1,0x364),(1,0x73cf),(40,0xffff),(1,0x73cf),(1,0x364),(1,0x3c5),(1,0x466),(1,0x486),
      (12,0x4a6),(1,0x425),(1,0x304),(1,0x141),(1,0x94b3),(6,0x9cd4),(1,0x9cd3)],
     [(1,0x9cd3),(6,0xa515),(1,0x9cf4),(1,0x141),(1,0x304),(1,0x425),(12,0x4a6),(1,0x486),(1,0x425),
      (1,0x3c5),(1,0x304),(1,0xd69a),(40,0xffff),(1,0xce7a),(1,0x304),(1,0x3c5),(1,0x425),(1,0x486),
      (12,0x4a6),(1,0x425),(1,0x304),(1,0x141),(1,0x9cd4),(6,0x9cf4),(1,0x9cd3)],
     [(1,0x9cd4),(6,0xa535),(1,0xa515),(1,0x141),(1,0x304),(1,0x425),(12,0x4a6),(1,0x486),(1,0x425),
      (1,0x364),(1,0x3b8a),(42,0xffff),(1,0x304),(1,0x364),(1,0x425),(2,0x486),(11,0x4a6),(1,0x425),
      (1,0x304),(1,0x141),(1,0x9cf4),(6,0xa515),(1,0x9cd3)],
     [(1,0x9cd4),(6,0xad56),(1,0xa535),(1,0x141),(1,0x304),(1,0x425),(11,0x4a6),(1,0x486),(1,0x466),
      (1,0x425),(1,0x364),(1,0x8471),(42,0xffff),(1,0x7c10),(1,0x364),(1,0x425),(1,0x466),(1,0x486),
      (11,0x4a6),(1,0x425),(1,0x304),(1,0x141),(1,0xa515),(6,0xa535),(1,0x9cd4)],
     [(1,0x9cf4),(6,0xad56),(1,0xa535),(1,0x141),(1,0x304),(1,0x425),(11,0x4a6),(1,0x486),(1,0x466),
      (1,0x425),(1,0x364),(1,0x9cd3),(42,0xffff),(1,0x9493),(1,0x364),(1,0x3c5),(1,0x466),(1,0x486),
      (11,0x4a6),(1,0x425),(1,0x304),(1,0x141),(1,0xa535),(6,0xad56),(1,0x9cd4)],
     [(1,0x9cf4),(6,0xb596),(1,0xad56),(1,0x141),(1,0x304),(1,0x425),(11,0x4a6),(1,0x486),(1,0x466),
      (1,0x3c5),(1,0x364),(1,0x9cd3),(42,0xffff),(1,0x9493),(1,0x304),(1,0x3c5),(1,0x466),(1,0x486),
      (11,0x4a6),(1,0x425),(1,0x304),(1,0x141),(1,0xa535),(6,0xad56),(1,0x9cf4)],
     [(1,0x9cf4),(7,0xb596),(1,0x141),(1,0x304),(1,0x425),(11,0x4a6),(1,0x486),(1,0x466),(1,0x3c5),
      (1,0x364),(1,0x9cd3),(42,0xffff),(1,0x9493),(1,0x304),(1,0x3c5),(1,0x466),(1,0x486),(11,0x4a6),
      (1,0x425),(1,0x304),(1,0x141),(1,0xad56),(6,0xb596),(1,0x9cf4)],
     [(1,0x9cf4),(6,0xb5d7),(1,0xb596),(1,0x141),(1,0x304),(1,0x425),(11,0x4a6),(1,0x486),(1,0x466),
      (1,0x3c5),(1,0x364),(1,0x9cd3),(19,0xffff),(1,0xc659),(2,0x8471),(1,0xc659),(19,0xffff),
      (1,0x8c72),(1,0x304),(1,0x3c5),(1,0x466),(1,0x486),(11,0x4a6),(1,0x425),(1,0x304),(1,0x141),
      (7,0xb596),(1,0x9cf4)],
     [(1,0x9cf4),(1,0xbdf8),(1,0xb5d7),(3,0xbdf8),(2,0xb5d7),(1,0x141),(1,0x304),(1,0x425),(11,0x4a6),
      (1,0x486),(1,0x466),(1,0x3c5),(1,0x304),(1,0x9cd3),(18,0xffff),(1,0x9cf4),(1,0x222),(2,0x283),
      (1,0x222),(1,0x9cf4),(18,0xffff),(1,0x8c72),(1,0x304),(1,0x3c5),(1,0x466),(1,0x486),(11,0x4a6),
      (1,0x425),(1,0x304),(1,0x141),(1,0xb596),(6,0xb5d7),(1,0x9cf4)],
     [(1,0xa515),(6,0xbdf8),(1,0xb5d7),(1,0x141),(1,0x304),(1,0x425),(11,0x4a6),(1,0x486),(1,0x466),
      (1,0x3c5),(1,0x304),(1,0x9cd3),(17,0xffff),(1,0xe73c),(1,0x222),(1,0x2c3),(2,0x304),(1,0x2c3),
      (1,0x222),(1,0xe73c),(17,0xffff),(1,0x8c72),(1,0x304),(1,0x3c5),(1,0x466),(1,0x486),(11,0x4a6),
      (1,0x425),(1,0x304),(1,0x141),(1,0xb5d7),(2,0xbdf8),(1,0xb5d7),(2,0xbdf8),(1,0xb5d7),(1,0x9cf4)],
     [(1,0xa515),(6,0xc618),(1,0xbdf8),(1,0x141),(1,0x304),(1,0x425),(11,0x4a6),(1,0x486),(1,0x466),
      (1,0x3c5),(1,0x364),(1,0x9cd3),(17,0xffff),(1,0xce59),(1,0x283),(1,0x304),(2,0x364),(1,0x304),
      (1,0x283),(1,0xce59),(17,0xffff),(1,0x8c72),(1,0x304),(1,0x3c5),(1,0x466),(1,0x486),(11,0x4a6),
      (1,0x425),(1,0x304),(1,0x141),(1,0xb5d7),(6,0xbdf8),(1,0x9cf4)],
     [(1,0xa515),(6,0xc659),(1,0xc618),(1,0x141),(1,0x304),(1,0x425),(11,0x4a6),(1,0x486),(1,0x466),
      (1,0x3c5),(1,0x304),(1,0x9cd3),(17,0xffff),(1,0xd6bb),(1,0x283),(1,0x304),(2,0x364),(1,0x304),
      (1,0x283),(1,0xdedb),(17,0xffff),(1,0x8c72),(1,0x304),(1,0x3c5),(1,0x466),(1,0x486),(11,0x4a6),
      (1,0x425),(1,0x304),(1,0x141),(1,0xbdf8),(6,0xc618),(1,0xa515)],
     [(1,0xa515),(1,0xc659),(3,0xce59),(2,0xc659),(1,0xc618),(1,0x141),(1,0x304),(1,0x425),(11,0x4a6),
      (1,0x486),(1,0x466),(1,0x3c5),(1,0x364),(1,0x9cd3),(18,0xffff),(1,0x73cf),(1,0x304),(2,0x364),
      (1,0x304),(1,0x73cf),(18,0xffff),(1,0x8c72),(1,0x304),(1,0x3c5),(1,0x466),(1,0x486),(11,0x4a6),
      (1,0x425),(1,0x304),(1,0x141),(1,0xc618),(2,0xc659),(4,0xc618),(1,0xa515)],
     [(1,0xa535),(6,0xce59),(1,0xc659),(1,0x141),(1,0x304),(1,0x425),(11,0x4a6),(1,0x486),(1,0x466),
      (1,0x3c5),(1,0x304),(1,0x9cd3),(18,0xffff),(1,0xef5d),(1,0x7c10),(2,0x304),(1,0x7c10),(1,0xef5d),
      (18,0xffff),(1,0x8c72),(1,0x304),(1,0x3c5),(1,0x466),(1,0x486),(11,0x4a6),(1,0x425),(1,0x304),
      (1,0x141),(1,0xc618),(1,0xce59),(5,0xc659),(1,0xa515)],
     [(1,0xa535),(6,0xce7a),(1,0xce59),(1,0x141),(1,0x304),(1,0x425),(11,0x4a6),(1,0x486),(1,0x466),
      (1,0x3c5),(1,0x364),(1,0x9cd3),(19,0xffff),(1,0x7c10),(2,0x304),(1,0x7c10),(19,0xffff),(1,0x8c72),
      (1,0x304),(1,0x3c5),(1,0x466),(1,0x486),(11,0x4a6),(1,0x425),(1,0x304),(1,0x141),(1,0xc659),
      (6,0xce59),(1,0xa535)],
     [(1,0xa535),(6,0xd69a),(1,0xce7a),(1,0x141),(1,0x304),(1,0x425),(11,0x4a6),(1,0x486),(1,0x466),
      (1,0x3c5),(1,0x304),(1,0x9cd3),(18,0xffff),(1,0xef5d),(1,0x2c3),(2,0x304),(1,0x2c3),(1,0xef5d),
      (18,0xffff),(1,0x8c72),(1,0x304),(1,0x3c5),(1,0x466),(1,0x486),(11,0x4a6),(1,0x425),(1,0x304),
      (1,0x141),(1,0xce59),(6,0xce7a),(1,0xa535)],
     [(1,0xa535),(6,0xd6bb),(1,0xd69a),(1,0x141),(1,0x304),(1,0x425),(11,0x4a6),(1,0x486),(1,0x466),
      (1,0x3c5),(1,0x364),(1,0x9cd3),(18,0xffff),(1,0xc618),(1,0x2c3),(2,0x364),(1,0x2c3),(1,0xc659),
      (18,0xffff),(1,0x8c72),(1,0x304),(1,0x3c5),(1,0x466),(1,0x486),(11,0x4a6),(1,0x425),(1,0x304),
      (1,0x141),(1,0xce7a),(6,0xd69a),(1,0xa535)],
     [(1,0xa535),(6,0xdedb),(1,0xd6bb),(1,0x141),(1,0x304),(1,0x425),(11,0x4a6),(1,0x486),(1,0x466),
      (1,0x3c5),(1,0x304),(1,0x9cd3),(18,0xffff),(1,0x8471),(1,0x304),(2,0x364),(1,0x304),(1,0x8471),
      (18,0xffff),(1,0x8c72),(1,0x304),(1,0x3c5),(1,0x466),(1,0x486),(11,0x4a6),(1,0x425),(1,0x304),
      (1,0x141),(1,0xd69a),(6,0xd6bb),(1,0xa535)],
     [(1,0xa535),(6,0xdedb),(1,0xd6bb),(1,0x141),(1,0x304),(1,0x425),(11,0x4a6),(1,0x486),(1,0x466),
      (1,0x3c5),(1,0x304),(1,0x9cd3),(17,0xffff),(1,0xef5d),(1,0x283),(1,0x304),(2,0x364),(1,0x304),
      (1,0x283),(18,0xffff),(1,0x8c72),(1,0x304),(1,0x3c5),(1,0x466),(1,0x486),(11,0x4a6),(1,0x425),
      (1,0x304),(1,0x141),(1,0xd6bb),(6,0xdedb),(1,0xa535)],
     [(1,0xa535),(6,0xd6bb),(1,0xd69a),(1,0x141),(1,0x304),(1,0x425),(11,0x4a6),(1,0x486),(1,0x466),
      (1,0x3c5),(1,0x304),(1,0x9cd3),(17,0xffff),(1,0xce59),(1,0x222),(1,0x2c3),(2,0x304),(1,0x2c3),
      (1,0x222),(1,0xce59),(17,0xffff),(1,0x8c72),(1,0x304),(1,0x3c5),(1,0x466),(1,0x486),(11,0x4a6),
      (1,0x425),(1,0x304),(1,0x141),(1,0xd6bb),(6,0xdedb),(1,0xa535)],
     [(1,0xa535),(6,0xd69a),(1,0xce59),(1,0x141),(1,0x304),(1,0x425),(11,0x4a6),(1,0x486),(1,0x466),
      (1,0x3c5),(1,0x304),(1,0x9cd3),(17,0xffff),(1,0x8c72),(2,0x222),(2,0x283),(2,0x222),(1,0x9493),
      (17,0xffff),(1,0x8c72),(1,0x304),(1,0x3c5),(1,0x466),(1,0x486),(11,0x4a6),(1,0x425),(1,0x304),
      (1,0x141),(1,0xd69a),(6,0xd6bb),(1,0xa535)],
     [(1,0xa515),(6,0xce59),(1,0xc659),(1,0x141),(1,0x304),(1,0x425),(11,0x4a6),(1,0x486),(1,0x466),
      (1,0x3c5),(1,0x364),(1,0x9cd3),(17,0xffff),(8,0xef5d),(17,0xffff),(1,0x9493),(1,0x304),(1,0x3c5),
      (1,0x466),(1,0x486),(11,0x4a6),(1,0x425),(1,0x304),(1,0x141),(1,0xce59),(6,0xd69a),(1,0xa535)],
     [(1,0xa515),(7,0xc618),(1,0x141),(1,0x304),(1,0x425),(11,0x4a6),(1,0x486),(1,0x466),(1,0x3c5),
      (1,0x364),(1,0x9cd3),(42,0xffff),(1,0x9493),(1,0x304),(1,0x3c5),(1,0x466),(1,0x486),(11,0x4a6),
      (1,0x425),(1,0x304),(1,0x141),(1,0xc659),(6,0xce59),(1,0xa515)],
     [(1,0xa515),(6,0xbdf8),(1,0xb5d7),(1,0x141),(1,0x304),(1,0x425),(11,0x4a6),(1,0x486),(1,0x466),
      (1,0x425),(1,0x364),(1,0x9cd3),(42,0xffff),(1,0x9493),(1,0x364),(1,0x3c5),(1,0x466),(1,0x486),
      (11,0x4a6),(1,0x425),(1,0x304),(1,0x141),(1,0xbdf8),(3,0xc618),(3,0xc659),(1,0xa515)],
     [(1,0x9cf4),(6,0xb5d7),(1,0xb596),(1,0x141),(1,0x304),(1,0x425),(11,0x4a6),(1,0x486),(1,0x466),
      (1,0x425),(1,0x364),(1,0x8471),(42,0xffff),(1,0x8471),(1,0x364),(1,0x3c5),(1,0x466),(1,0x486),
      (11,0x4a6),(1,0x425),(1,0x304),(1,0x141),(1,0xb5d7),(6,0xbdf8),(1,0xa515)],
     [(1,0x9cf4),(7,0xb596),(1,0x0),(1,0x304),(1,0x3c5),(12,0x4a6),(1,0x466),(1,0x425),(1,0x364),
      (1,0x632c),(42,0xffff),(1,0x4369),(1,0x364),(1,0x425),(1,0x466),(1,0x486),(11,0x4a6),(1,0x3c5),
      (1,0x304),(1,0x0),(1,0xb596),(6,0xb5d7),(1,0x9cf4)],
     [(1,0x9cf4),(7,0xad56),(1,0x10a2),(1,0x2c3),(1,0x3c5),(12,0x4a6),(1,0x486),(1,0x425),(1,0x3c5),
      (1,0x304),(1,0xef5d),(40,0xffff),(1,0xe73c),(1,0x2c3),(1,0x3c5),(1,0x425),(1,0x486),(12,0x4a6),
      (1,0x3c5),(1,0x2c3),(1,0x10a2),(7,0xb596),(1,0x9cf4)],
     [(1,0x9cd4),(7,0xa535),(1,0x4249),(1,0x283),(1,0x304),(12,0x4a6),(1,0x486),(1,0x466),(1,0x3c5),
      (1,0x364),(1,0xa535),(40,0xffff),(1,0xa535),(1,0x364),(1,0x3c5),(1,0x466),(1,0x486),(12,0x4a6),
      (1,0x304),(1,0x283),(1,0x4a69),(7,0xad56),(1,0x9cd4)],
     [(1,0x9cd3),(2,0xa515),(1,0x9cf4),(4,0xa515),(1,0x632c),(1,0x222),(1,0x304),(1,0x466),(11,0x4a6),
      (1,0x486),(1,0x466),(1,0x425),(1,0x364),(1,0x304),(1,0xdefc),(38,0xffff),(1,0xdefc),(1,0x304),
      (1,0x364),(1,0x425),(1,0x466),(1,0x486),(11,0x4a6),(1,0x466),(1,0x304),(1,0x222),(1,0x632c),
      (7,0xa535),(1,0x9cd3)],
     [(6,0x9cd3),(2,0x9cd4),(1,0x7c10),(1,0x141),(1,0x304),(1,0x3c5),(12,0x4a6),(1,0x486),(1,0x466),
      (1,0x3c5),(1,0x364),(1,0x4369),(1,0xef5d),(36,0xffff),(1,0xef5d),(1,0x4369),(1,0x364),(1,0x3c5),
      (1,0x466),(1,0x486),(12,0x4a6),(1,0x3c5),(1,0x304),(1,0x141),(1,0x7c10),(7,0xa515),(1,0x9cd3)],
     [(1,0x9cd3),(1,0x94b3),(1,0x9493),(3,0x94b3),(3,0x9493),(1,0x10a2),(1,0x283),(1,0x304),(1,0x486),
      (11,0x4a6),(1,0x486),(1,0x466),(1,0x425),(1,0x3c5),(1,0x364),(1,0x4369),(1,0xdefc),(34,0xffff),
      (1,0xdefc),(1,0x4369),(1,0x364),(1,0x3c5),(1,0x425),(2,0x486),(11,0x4a6),(1,0x486),(1,0x304),
      (1,0x283),(1,0x10a2),(2,0x9cd3),(1,0x9cd4),(1,0x9cd3),(3,0x9cd4),(2,0x9cd3)],
     [(1,0x4b),(1,0x9493),(7,0x8c72),(1,0x5aeb),(1,0x141),(1,0x304),(1,0x364),(12,0x4a6),(1,0x486),
      (1,0x466),(1,0x425),(1,0x3c5),(1,0x364),(1,0x304),(1,0x9cf4),(1,0xdefc),(30,0xffff),(1,0xdefc),
      (1,0x9cd3),(1,0x304),(1,0x364),(1,0x3c5),(1,0x425),(1,0x466),(1,0x486),(12,0x4a6),(1,0x364),
      (1,0x304),(1,0x141),(1,0x632c),(2,0x94b3),(4,0x9493),(1,0x94b3),(1,0x9cd3),(1,0x4b)],
     [(1,0x4b),(1,0x9493),(7,0x8471),(1,0x7c10),(1,0x10a2),(1,0x283),(1,0x304),(1,0x425),(12,0x4a6),
      (1,0x486),(1,0x466),(1,0x425),(2,0x3c5),(1,0x364),(1,0x304),(1,0x3b8a),(1,0x7c10),(26,0x8471),
      (1,0x7c10),(1,0x3b8a),(1,0x304),(2,0x364),(1,0x3c5),(1,0x425),(1,0x466),(1,0x486),(12,0x4a6),
      (1,0x425),(1,0x304),(1,0x283),(1,0x10a2),(1,0x8471),(7,0x8c72),(1,0x9cd3),(1,0x4b)],
     [(1,0x4b),(1,0x9cd3),(1,0x8471),(7,0x7c10),(1,0x5aeb),(1,0x141),(1,0x2c3),(1,0x304),(1,0x466),
      (12,0x4a6),(2,0x486),(1,0x466),(1,0x425),(2,0x3c5),(30,0x364),(2,0x3c5),(1,0x425),(1,0x466),
      (2,0x486),(12,0x4a6),(1,0x466),(1,0x304),(1,0x2c3),(1,0x141),(1,0x632c),(8,0x8471),(1,0x9cd3),
      (1,0x4b)],
     [(1,0x4b),(1,0x9cd3),(1,0x8471),(8,0x7c10),(1,0x39e7),(1,0x141),(2,0x304),(1,0x466),(12,0x4a6),
      (2,0x486),(2,0x466),(32,0x425),(2,0x466),(2,0x486),(12,0x4a6),(1,0x466),(2,0x304),(1,0x141),
      (1,0x39e7),(8,0x7c10),(1,0x8c72),(1,0x9cd3),(1,0x4b)],
     [(2,0x4b),(1,0x9493),(8,0x73cf),(1,0x6b6d),(1,0x3186),(1,0x222),(2,0x304),(1,0x425),(13,0x4a6),
      (4,0x486),(28,0x466),(4,0x486),(13,0x4a6),(1,0x425),(2,0x304),(1,0x222),(1,0x3186),(1,0x73cf),
      (8,0x7c10),(1,0x9493),(2,0x4b)],
     [(2,0x4b),(1,0x9cd3),(1,0x7c10),(2,0x73cf),(1,0x6b6d),(5,0x73cf),(1,0x6b6d),(1,0x10a2),(1,0x141),
      (1,0x2c3),(1,0x304),(1,0x364),(1,0x486),(13,0x4a6),(1,0x486),(1,0x4a6),(28,0x486),(15,0x4a6),
      (1,0x486),(1,0x364),(1,0x304),(1,0x2c3),(1,0x141),(1,0x3186),(1,0x6b6d),(8,0x73cf),(1,0x8471),
      (1,0x9cd3),(2,0x4b)],
     [(3,0x4b),(1,0x9493),(9,0x6b6d),(1,0x632c),(1,0x3186),(1,0x141),(1,0x283),(2,0x304),(1,0x3c5),
      (1,0x466),(54,0x4a6),(1,0x466),(1,0x3c5),(2,0x304),(1,0x283),(1,0x141),(1,0x3186),(7,0x6b6d),
      (3,0x73cf),(1,0x9493),(3,0x4b)],
     [(3,0x4b),(1,0x9cd3),(1,0x7c10),(10,0x632c),(1,0x4249),(1,0x10a2),(1,0x141),(1,0x2c3),(3,0x304),
      (1,0x3c5),(2,0x425),(46,0x466),(2,0x425),(1,0x3c5),(3,0x304),(1,0x2c3),(1,0x141),(1,0x10a2),
      (1,0x4a69),(10,0x6b6d),(1,0x8471),(1,0x9cd3),(3,0x4b)],
     [(4,0x4b),(1,0x9cd3),(1,0x6b6d),(1,0x5aeb),(1,0x632c),(1,0x5aeb),(1,0x632c),(1,0x5aeb),(5,0x632c),
      (1,0x52cb),(1,0x39e7),(1,0x10a2),(1,0x141),(1,0x222),(1,0x283),(52,0x304),(1,0x283),(1,0x222),
      (1,0x141),(1,0x10a2),(1,0x39e7),(1,0x5aeb),(10,0x632c),(1,0x73cf),(1,0x9cd3),(4,0x4b)],
     [(5,0x4b),(1,0x9493),(1,0x632c),(1,0x52cb),(10,0x5aeb),(1,0x52cb),(1,0x4249),(1,0x3186),
      (1,0x10a2),(1,0x0),(50,0x141),(1,0x0),(1,0x10a2),(1,0x31c7),(1,0x4249),(12,0x5aeb),(1,0x6b6d),
      (1,0x9493),(5,0x4b)],
     [(6,0x4b),(1,0x9493),(1,0x5aeb),(7,0x52aa),(8,0x52cb),(1,0x52aa),(39,0x4a69),(2,0x52aa),
      (5,0x4a69),(3,0x52aa),(12,0x52cb),(1,0x5aeb),(2,0x52cb),(1,0x632c),(1,0x9493),(6,0x4b)],
     [(7,0x4b),(1,0x8c72),(1,0x5aeb),(20,0x4a69),(58,0x52aa),(1,0x632c),(1,0x9493),(7,0x4b)],
     [(8,0x4b),(1,0x9493),(1,0x632c),(18,0x4249),(58,0x4a69),(1,0x632c),(1,0x9493),(8,0x4b)],
     [(9,0x4b),(1,0x9cd3),(1,0x73cf),(1,0x4249),(20,0x4228),(1,0x4249),(8,0x4228),(43,0x4249),
      (1,0x4a69),(1,0x73cf),(1,0x9cd3),(9,0x4b)],
     [(10,0x4b),(1,0x9cd3),(1,0x8c72),(1,0x632c),(43,0x39e7),(27,0x4228),(1,0x632c),(1,0x8c72),
      (1,0x9cd3),(10,0x4b)],
     [(12,0x4b),(1,0x9cd3),(1,0x8c72),(1,0x6b6d),(1,0x39e7),(15,0x31c7),(1,0x39e7),(2,0x31c7),
      (46,0x39e7),(1,0x4228),(1,0x6b6d),(1,0x8c72),(1,0x9cd3),(12,0x4b)],
     [(14,0x4b),(1,0x9cd3),(1,0x9493),(1,0x7c10),(1,0x6b6d),(1,0x52aa),(35,0x3186),(2,0x31c7),
      (1,0x3186),(1,0x31c7),(1,0x3186),(18,0x31c7),(1,0x52aa),(1,0x6b6d),(1,0x7c10),(1,0x94b3),
      (1,0x9cd3),(14,0x4b)],
     [(17,0x4b),(3,0x9cd3),(56,0x8c72),(3,0x9cd3),(17,0x4b)],
     [(9,0x0),(30,0xffff),(16,0x0),(34,0xffff),(7,0x0)],
     [(6,0x0),(36,0xffff),(11,0x0),(38,0xffff),(5,0x0)],
     [(4,0x0),(1,0xff00),(38,0xffff),(1,0xff),(8,0x0),(40,0xffff),(4,0x0)],
     [(3,0x0),(1,0xff00),(40,0xffff),(1,0xff),(6,0x0),(42,0xffff),(3,0x0)],
     [(2,0x0),(1,0xff00),(42,0xffff),(1,0xff),(4,0x0),(44,0xffff),(2,0x0)],
     [(1,0x0),(1,0xff00),(44,0xffff),(1,0xff),(2,0x0),(1,0xff00),(44,0xffff),(1,0xff),(1,0x0)],
     [(1,0x0),(46,0xffff),(2,0x0),(46,0xffff),(1,0x0)],
     [(1,0xff00),(46,0xffff),(1,0xff),(1,0xff00),(46,0xffff),(1,0xff)],
     [(1,0xff00),(46,0xffff),(1,0xff),(1,0xff00),(46,0xffff),(1,0xff)],
     [(96,0xffff)],
     [(96,0xffff)],
     [(96,0xffff)],
     [(96,0xffff)],
     [(96,0xffff)],
     [(96,0xffff)],
     [(96,0xffff)],
     [(96,0xffff)],
     [(96,0xffff)],
     [(96,0xffff)],
     [(96,0xffff)],
     [(96,0xffff)],
     [(96,0xffff)],
     [(96,0xffff)],
     [(96,0xffff)],
     [(96,0xffff)],
     [(96,0xffff)],
     [(96,0xffff)],
     [(96,0xffff)],
     [(96,0xffff)],
     [(96,0xffff)],
     [(96,0xffff)],
     [(96,0xffff)],
     [(96,0xffff)],
     [(96,0xffff)],
     [(96,0xffff)],
     [(96,0xffff)],
     [(96,0xffff)],
     [(96,0xffff)],
     [(96,0xffff)],
     [(1,0xff00),(46,0xffff),(1,0xff),(1,0xff00),(46,0xffff),(1,0xff)],
     [(1,0xff00),(46,0xffff),(1,0xff),(1,0xff00),(46,0xffff),(1,0xff)],
     [(1,0x0),(46,0xffff),(2,0x0),(46,0xffff),(1,0x0)],
     [(1,0x0),(1,0xff00),(44,0xffff),(1,0xff),(2,0x0),(1,0xff00),(44,0xffff),(1,0xff),(1,0x0)],
     [(2,0x0),(44,0xffff),(4,0x0),(1,0xff00),(42,0xffff),(1,0xff),(2,0x0)],
     [(3,0x0),(42,0xffff),(6,0x0),(1,0xff00),(40,0xffff),(1,0xff),(3,0x0)],
     [(4,0x0),(40,0xffff),(8,0x0),(1,0xff00),(38,0xffff),(1,0xff),(4,0x0)],
     [(5,0x0),(38,0xffff),(11,0x0),(36,0xffff),(6,0x0)],
     [(7,0x0),(34,0xffff),(15,0x0),(1,0xff00),(30,0xffff),(1,0xff),(8,0x0)]]"

definition screenbackground_rows_1 :: "runs list" where
  "screenbackground_rows_1 =
    [[(4,0xb8c),(12,0xb6c),(4,0xb4c),(2,0x34c),(5,0x34b),(13,0x32b),(27,0x30b),(31,0x32b),(16,0x34b),
      (5,0x34c),(11,0xb4c),(27,0xb6c),(1,0x36c),(1,0x234c),(1,0x3b4c),(1,0x2b4c),(1,0xb8c),(1,0x38c),
      (22,0xb8c),(17,0xb8d),(64,0xb8c),(54,0xb6c)],
     [(3,0xb8c),(11,0xb6c),(5,0xb4c),(2,0x34c),(5,0x34b),(12,0x32b),(26,0x30b),(33,0x32b),(16,0x34b),
      (4,0x34c),(12,0xb4c),(29,0xb6c),(3,0x36c),(23,0xb8c),(17,0xb8d),(63,0xb8c),(56,0xb6c)],
     [(2,0xb8c),(12,0xb6c),(4,0xb4c),(2,0x34c),(5,0x34b),(13,0x32b),(26,0x30b),(32,0x32b),(16,0x34b),
      (5,0x34c),(11,0xb4c),(31,0xb6c),(24,0xb8c),(16,0xb8d),(64,0xb8c),(57,0xb6c)],
     [(1,0xb8c),(11,0xb6c),(5,0xb4c),(2,0x34c),(5,0x34b),(12,0x32b),(27,0x30b),(31,0x32b),(17,0x34b),
      (5,0x34c),(11,0xb4c),(32,0xb6c),(23,0xb8c),(17,0xb8d),(63,0xb8c),(58,0xb6c)],
     [(11,0xb6c),(5,0xb4c),(2,0x34c),(5,0x34b),(12,0x32b),(26,0x30b),(32,0x32b),(17,0x34b),(3,0x34c),
      (13,0xb4c),(32,0xb6c),(23,0xb8c),(16,0xb8d),(64,0xb8c),(59,0xb6c)],
     [(10,0xb6c),(5,0xb4c),(2,0x34c),(5,0x34b),(12,0x32b),(27,0x30b),(31,0x32b),(17,0x34b),(4,0x34c),
      (11,0xb4c),(32,0xb6c),(24,0xb8c),(17,0xb8d),(63,0xb8c),(60,0xb6c)],
     [(9,0xb6c),(5,0xb4c),(2,0x34c),(5,0x34b),(12,0x32b),(26,0x30b),(32,0x32b),(17,0x34b),(3,0x34c),
      (12,0xb4c),(33,0xb6c),(23,0xb8c),(17,0xb8d),(63,0xb8c),(61,0xb6c)],
     [(9,0xb6c),(3,0xb4c),(3,0x34c),(5,0x34b),(12,0x32b),(27,0x30b),(32,0x32b),(16,0x34b),(4,0x34c),
      (11,0xb4c),(32,0xb6c),(24,0xb8c),(16,0xb8d),(64,0xb8c),(62,0xb6c)],
     [(7,0xb6c),(5,0xb4c),(2,0x34c),(5,0x34b),(12,0x32b),(27,0x30b),(31,0x32b),(17,0x34b),(4,0x34c),
      (11,0xb4c),(32,0xb6c),(24,0xb8c),(16,0xb8d),(64,0xb8c),(63,0xb6c)],
     [(6,0xb6c),(4,0xb4c),(2,0x34c),(6,0x34b),(12,0x32b),(26,0x30b),(32,0x32b),(16,0x34b),(4,0x34c),
      (12,0xb4c),(32,0xb6c),(24,0xb8c),(15,0xb8d),(65,0xb8c),(64,0xb6c)],
     [(5,0xb6c),(5,0xb4c),(2,0x34c),(5,0x34b),(12,0x32b),(27,0x30b),(31,0x32b),(16,0x34b),(5,0x34c),
      (11,0xb4c),(31,0xb6c),(24,0xb8c),(17,0xb8d),(64,0xb8c),(65,0xb6c)],
     [(4,0xb6c),(5,0xb4c),(1,0x34c),(6,0x34b),(12,0x32b),(26,0x30b),(32,0x32b),(16,0x34b),(4,0x34c),
      (12,0xb4c),(32,0xb6c),(23,0xb8c),(17,0xb8d),(64,0xb8c),(66,0xb6c)],
     [(3,0xb6c),(4,0xb4c),(3,0x34c),(4,0x34b),(13,0x32b),(26,0x30b),(33,0x32b),(15,0x34b),(5,0x34c),
      (11,0xb4c),(32,0xb6c),(23,0xb8c),(17,0xb8d),(64,0xb8c),(67,0xb6c)],
     [(2,0xb6c),(5,0xb4c),(2,0x34c),(4,0x34b),(13,0x32b),(26,0x30b),(32,0x32b),(16,0x34b),(4,0x34c),
      (12,0xb4c),(32,0xb6c),(23,0xb8c),(17,0xb8d),(64,0xb8c),(68,0xb6c)],
     [(1,0xb6c),(3,0xb4c),(3,0x34c),(5,0x34b),(12,0x32b),(27,0x30b),(32,0x32b),(16,0x34b),(4,0x34c),
      (12,0xb4c),(32,0xb6c),(23,0xb8c),(16,0xb8d),(65,0xb8c),(69,0xb6c)],
     [(4,0xb4c),(3,0x34c),(4,0x34b),(13,0x32b),(26,0x30b),(32,0x32b),(16,0x34b),(4,0x34c),(12,0xb4c),
      (31,0xb6c),(24,0xb8c),(17,0xb8d),(64,0xb8c),(70,0xb6c)],
     [(3,0xb4c),(1,0x34c),(6,0x34b),(12,0x32b),(27,0x30b),(32,0x32b),(16,0x34b),(4,0x34c),(12,0xb4c),
      (31,0xb6c),(24,0xb8c),(16,0xb8d),(65,0xb8c),(71,0xb6c)],
     [(2,0xb4c),(2,0x34c),(5,0x34b),(12,0x32b),(27,0x30b),(32,0x32b),(16,0x34b),(4,0x34c),(12,0xb4c),
      (31,0xb6c),(24,0xb8c),(16,0xb8d),(65,0xb8c),(72,0xb6c)],
     [(1,0xb4c),(2,0x34c),(5,0x34b),(12,0x32b),(27,0x30b),(32,0x32b),(15,0x34b),(5,0x34c),(12,0xb4c),
      (31,0xb6c),(24,0xb8c),(16,0xb8d),(65,0xb8c),(73,0xb6c)],
     [(1,0x34c),(6,0x34b),(12,0x32b),(27,0x30b),(32,0x32b),(15,0x34b),(5,0x34c),(12,0xb4c),(31,0xb6c),
      (24,0xb8c),(16,0xb8d),(65,0xb8c),(74,0xb6c)],
     [(1,0x34c),(5,0x34b),(13,0x32b),(26,0x30b),(32,0x32b),(15,0x34b),(5,0x34c),(12,0xb4c),(31,0xb6c),
      (24,0xb8c),(16,0xb8d),(64,0xb8c),(76,0xb6c)],
     [(4,0x34b),(13,0x32b),(26,0x30b),(33,0x32b),(15,0x34b),(5,0x34c),(12,0xb4c),(31,0xb6c),(24,0xb8c),
      (16,0xb8d),(64,0xb8c),(77,0xb6c)],
     [(4,0x34b),(12,0x32b),(26,0x30b),(32,0x32b),(16,0x34b),(5,0x34c),(12,0xb4c),(31,0xb6c),(24,0xb8c),
      (16,0xb8d),(64,0xb8c),(78,0xb6c)],
     [(3,0x34b),(11,0x32b),(28,0x30b),(31,0x32b),(16,0x34b),(5,0x34c),(12,0xb4c),(31,0xb6c),(24,0xb8c),
      (16,0xb8d),(64,0xb8c),(79,0xb6c)],
     [(1,0x34b),(12,0x32b),(27,0x30b),(32,0x32b),(16,0x34b),(4,0x34c),(12,0xb4c),(32,0xb6c),(24,0xb8c),
      (16,0xb8d),(64,0xb8c),(80,0xb6c)],
     [(1,0x34b),(12,0x32b),(27,0x30b),(31,0x32b),(16,0x34b),(5,0x34c),(11,0xb4c),(31,0xb6c),(25,0xb8c),
      (16,0xb8d),(64,0xb8c),(81,0xb6c)],
     [(11,0x32b),(27,0x30b),(32,0x32b),(16,0x34b),(4,0x34c),(12,0xb4c),(32,0xb6c),(24,0xb8c),
      (16,0xb8d),(64,0xb8c),(82,0xb6c)],
     [(11,0x32b),(26,0x30b),(32,0x32b),(16,0x34b),(5,0x34c),(11,0xb4c),(31,0xb6c),(25,0xb8c),
      (16,0xb8d),(64,0xb8c),(83,0xb6c)],
     [(9,0x32b),(28,0x30b),(31,0x32b),(16,0x34b),(5,0x34c),(11,0xb4c),(32,0xb6c),(24,0xb8c),(16,0xb8d),
      (64,0xb8c),(84,0xb6c)],
     [(8,0x32b),(27,0x30b),(32,0x32b),(16,0x34b),(4,0x34c),(12,0xb4c),(32,0xb6c),(23,0xb8c),(16,0xb8d),
      (65,0xb8c),(85,0xb6c)],
     [(8,0x32b),(26,0x30b),(32,0x32b),(16,0x34b),(5,0x34c),(11,0xb4c),(32,0xb6c),(23,0xb8c),(17,0xb8d),
      (64,0xb8c),(86,0xb6c)],
     [(6,0x32b),(27,0x30b),(31,0x32b),(17,0x34b),(5,0x34c),(11,0xb4c),(32,0xb6c),(23,0xb8c),(17,0xb8d),
      (64,0xb8c),(86,0xb6c),(1,0xb4c)],
     [(6,0x32b),(26,0x30b),(32,0x32b),(16,0x34b),(4,0x34c),(12,0xb4c),(31,0xb6c),(24,0xb8c),(17,0xb8d),
      (64,0xb8c),(86,0xb6c),(2,0xb4c)],
     [(4,0x32b),(27,0x30b),(32,0x32b),(16,0x34b),(4,0x34c),(11,0xb4c),(33,0xb6c),(23,0xb8c),(17,0xb8d),
      (64,0xb8c),(86,0xb6c),(3,0xb4c)],
     [(3,0x32b),(27,0x30b),(31,0x32b),(17,0x34b),(3,0x34c),(12,0xb4c),(33,0xb6c),(23,0xb8c),(16,0xb8d),
      (65,0xb8c),(86,0xb6c),(4,0xb4c)],
     [(2,0x32b),(27,0x30b),(31,0x32b),(17,0x34b),(4,0x34c),(11,0xb4c),(32,0xb6c),(24,0xb8c),(16,0xb8d),
      (65,0xb8c),(87,0xb6c),(4,0xb4c)],
     [(1,0x32b),(27,0x30b),(31,0x32b),(17,0x34b),(4,0x34c),(11,0xb4c),(32,0xb6c),(24,0xb8c),(16,0xb8d),
      (65,0xb8c),(86,0xb6c),(6,0xb4c)],
     [(27,0x30b),(32,0x32b),(15,0x34b),(5,0x34c),(11,0xb4c),(32,0xb6c),(24,0xb8c),(16,0xb8d),
      (65,0xb8c),(86,0xb6c),(7,0xb4c)],
     [(26,0x30b),(32,0x32b),(15,0x34b),(5,0x34c),(11,0xb4c),(32,0xb6c),(23,0xb8c),(17,0xb8d),
      (65,0xb8c),(86,0xb6c),(8,0xb4c)],
     [(24,0x30b),(32,0x32b),(16,0x34b),(4,0x34c),(12,0xb4c),(32,0xb6c),(23,0xb8c),(17,0xb8d),
      (64,0xb8c),(87,0xb6c),(9,0xb4c)],
     [(24,0x30b),(31,0x32b),(16,0x34b),(5,0x34c),(11,0xb4c),(32,0xb6c),(24,0xb8c),(16,0xb8d),
      (64,0xb8c),(87,0xb6c),(10,0xb4c)],
     [(22,0x30b),(32,0x32b),(16,0x34b),(4,0x34c),(12,0xb4c),(32,0xb6c),(23,0xb8c),(17,0xb8d),
      (64,0xb8c),(87,0xb6c),(11,0xb4c)],
     [(21,0x30b),(32,0x32b),(16,0x34b),(4,0x34c),(12,0xb4c),(32,0xb6c),(23,0xb8c),(17,0xb8d),
      (64,0xb8c),(87,0xb6c),(12,0xb4c)],
     [(21,0x30b),(31,0x32b),(16,0x34b),(4,0x34c),(12,0xb4c),(32,0xb6c),(23,0xb8c),(17,0xb8d),
      (64,0xb8c),(87,0xb6c),(13,0xb4c)],
     [(19,0x30b),(32,0x32b),(16,0x34b),(4,0x34c),(12,0xb4c),(32,0xb6c),(23,0xb8c),(16,0xb8d),
      (65,0xb8c),(87,0xb6c),(14,0xb4c)],
     [(19,0x30b),(31,0x32b),(16,0x34b),(5,0x34c),(11,0xb4c),(32,0xb6c),(24,0xb8c),(16,0xb8d),
      (64,0xb8c),(86,0xb6c),(16,0xb4c)],
     [(17,0x30b),(32,0x32b),(15,0x34b),(5,0x34c),(12,0xb4c),(32,0xb6c),(23,0xb8c),(17,0xb8d),
      (64,0xb8c),(86,0xb6c),(17,0xb4c)],
     [(16,0x30b),(32,0x32b),(16,0x34b),(4,0x34c),(12,0xb4c),(31,0xb6c),(24,0xb8c),(16,0xb8d),
      (65,0xb8c),(86,0xb6c),(18,0xb4c)],
     [(16,0x30b),(31,0x32b),(16,0x34b),(4,0x34c),(12,0xb4c),(32,0xb6c),(23,0xb8c),(17,0xb8d),
      (63,0xb8c),(87,0xb6c),(19,0xb4c)],
     [(13,0x30b),(33,0x32b),(15,0x34b),(5,0x34c),(12,0xb4c),(32,0xb6c),(23,0xb8c),(16,0xb8d),
      (64,0xb8c),(87,0xb6c),(20,0xb4c)],
     [(13,0x30b),(32,0x32b),(15,0x34b),(6,0x34c),(11,0xb4c),(32,0xb6c),(23,0xb8c),(17,0xb8d),
      (64,0xb8c),(86,0xb6c),(21,0xb4c)],
     [(11,0x30b),(32,0x32b),(16,0x34b),(5,0x34c),(12,0xb4c),(32,0xb6c),(23,0xb8c),(17,0xb8d),
      (63,0xb8c),(87,0xb6c),(22,0xb4c)],
     [(10,0x30b),(32,0x32b),(17,0x34b),(4,0x34c),(11,0xb4c),(33,0xb6c),(23,0xb8c),(16,0xb8d),
      (64,0xb8c),(87,0xb6c),(23,0xb4c)],
     [(10,0x30b),(31,0x32b),(17,0x34b),(4,0x34c),(11,0xb4c),(33,0xb6c),(23,0xb8c),(17,0xb8d),
      (63,0xb8c),(87,0xb6c),(24,0xb4c)],
     [(8,0x30b),(32,0x32b),(16,0x34b),(4,0x34c),(12,0xb4c),(32,0xb6c),(24,0xb8c),(15,0xb8d),(65,0xb8c),
      (87,0xb6c),(25,0xb4c)],
     [(8,0x30b),(32,0x32b),(15,0x34b),(5,0x34c),(11,0xb4c),(32,0xb6c),(24,0xb8c),(16,0xb8d),(65,0xb8c),
      (86,0xb6c),(26,0xb4c)],
     [(6,0x30b),(32,0x32b),(16,0x34b),(5,0x34c),(11,0xb4c),(32,0xb6c),(24,0xb8c),(16,0xb8d),(64,0xb8c),
      (87,0xb6c),(27,0xb4c)],
     [(6,0x30b),(32,0x32b),(15,0x34b),(5,0x34c),(11,0xb4c),(32,0xb6c),(23,0xb8c),(17,0xb8d),(65,0xb8c),
      (86,0xb6c),(28,0xb4c)],
     [(4,0x30b),(32,0x32b),(16,0x34b),(5,0x34c),(11,0xb4c),(32,0xb6c),(23,0xb8c),(17,0xb8d),(64,0xb8c),
      (87,0xb6c),(29,0xb4c)],
     [(3,0x30b),(32,0x32b),(16,0x34b),(4,0x34c),(12,0xb4c),(32,0xb6c),(23,0xb8c),(17,0xb8d),(64,0xb8c),
      (87,0xb6c),(30,0xb4c)],
     [(2,0x30b),(32,0x32b),(16,0x34b),(4,0x34c),(12,0xb4c),(32,0xb6c),(23,0xb8c),(17,0xb8d),(64,0xb8c),
      (87,0xb6c),(31,0xb4c)],
     [(1,0x30b),(32,0x32b),(16,0x34b),(4,0x34c),(11,0xb4c),(33,0xb6c),(23,0xb8c),(17,0xb8d),(64,0xb8c),
      (87,0xb6c),(31,0xb4c),(1,0x34c)],
     [(32,0x32b),(16,0x34b),(4,0x34c),(11,0xb4c),(33,0xb6c),(23,0xb8c),(17,0xb8d),(64,0xb8c),
      (87,0xb6c),(32,0xb4c),(1,0x34c)],
     [(31,0x32b),(16,0x34b),(4,0x34c),(12,0xb4c),(31,0xb6c),(24,0xb8c),(16,0xb8d),(65,0xb8c),
      (87,0xb6c),(32,0xb4c),(2,0x34c)],
     [(30,0x32b),(16,0x34b),(4,0x34c),(11,0xb4c),(32,0xb6c),(24,0xb8c),(16,0xb8d),(65,0xb8c),
      (86,0xb6c),(32,0xb4c),(4,0x34c)],
     [(29,0x32b),(15,0x34b),(5,0x34c),(11,0xb4c),(32,0xb6c),(24,0xb8c),(16,0xb8d),(65,0xb8c),
      (86,0xb6c),(33,0xb4c),(4,0x34c)],
     [(28,0x32b),(15,0x34b),(5,0x34c),(11,0xb4c),(32,0xb6c),(23,0xb8c),(17,0xb8d),(65,0xb8c),
      (86,0xb6c),(32,0xb4c),(6,0x34c)],
     [(27,0x32b),(15,0x34b),(5,0x34c),(11,0xb4c),(32,0xb6c),(23,0xb8c),(17,0xb8d),(64,0xb8c),
      (87,0xb6c),(32,0xb4c),(7,0x34c)],
     [(26,0x32b),(15,0x34b),(5,0x34c),(12,0xb4c),(31,0xb6c),(24,0xb8c),(16,0xb8d),(64,0xb8c),
      (87,0xb6c),(32,0xb4c),(8,0x34c)],
     [(24,0x32b),(16,0x34b),(4,0x34c),(12,0xb4c),(32,0xb6c),(23,0xb8c),(17,0xb8d),(64,0xb8c),
      (87,0xb6c),(32,0xb4c),(9,0x34c)],
     [(24,0x32b),(15,0x34b),(5,0x34c),(11,0xb4c),(32,0xb6c),(24,0xb8c),(16,0xb8d),(64,0xb8c),
      (87,0xb6c),(32,0xb4c),(10,0x34c)],
     [(22,0x32b),(16,0x34b),(5,0x34c),(11,0xb4c),(32,0xb6c),(23,0xb8c),(17,0xb8d),(64,0xb8c),
      (87,0xb6c),(32,0xb4c),(11,0x34c)],
     [(22,0x32b),(15,0x34b),(5,0x34c),(11,0xb4c),(32,0xb6c),(23,0xb8c),(17,0xb8d),(64,0xb8c),
      (87,0xb6c),(32,0xb4c),(12,0x34c)],
     [(20,0x32b),(16,0x34b),(5,0x34c),(11,0xb4c),(32,0xb6c),(24,0xb8c),(16,0xb8d),(64,0xb8c),
      (86,0xb6c),(33,0xb4c),(13,0x34c)],
     [(19,0x32b),(16,0x34b),(4,0x34c),(12,0xb4c),(32,0xb6c),(23,0xb8c),(17,0xb8d),(64,0xb8c),
      (86,0xb6c),(33,0xb4c),(13,0x34c),(1,0x34b)],
     [(19,0x32b),(15,0x34b),(5,0x34c),(11,0xb4c),(32,0xb6c),(24,0xb8c),(16,0xb8d),(64,0xb8c),
      (87,0xb6c),(32,0xb4c),(13,0x34c),(2,0x34b)],
     [(17,0x32b),(16,0x34b),(5,0x34c),(11,0xb4c),(32,0xb6c),(23,0xb8c),(17,0xb8d),(63,0xb8c),
      (87,0xb6c),(32,0xb4c),(13,0x34c),(4,0x34b)],
     [(17,0x32b),(15,0x34b),(5,0x34c),(11,0xb4c),(32,0xb6c),(23,0xb8c),(17,0xb8d),(64,0xb8c),
      (87,0xb6c),(32,0xb4c),(13,0x34c),(4,0x34b)],
     [(14,0x32b),(17,0x34b),(5,0x34c),(11,0xb4c),(32,0xb6c),(23,0xb8c),(17,0xb8d),(64,0xb8c),
      (86,0xb6c),(33,0xb4c),(12,0x34c),(6,0x34b)],
     [(13,0x32b),(17,0x34b),(3,0x34c),(13,0xb4c),(32,0xb6c),(23,0xb8c),(17,0xb8d),(63,0xb8c),
      (87,0xb6c),(32,0xb4c),(13,0x34c),(7,0x34b)],
     [(13,0x32b),(16,0x34b),(4,0x34c),(11,0xb4c),(33,0xb6c),(23,0xb8c),(17,0xb8d),(64,0xb8c),
      (87,0xb6c),(32,0xb4c),(12,0x34c),(8,0x34b)],
     [(11,0x32b),(17,0x34b),(4,0x34c),(11,0xb4c),(33,0xb6c),(23,0xb8c),(17,0xb8d),(64,0xb8c),
      (86,0xb6c),(33,0xb4c),(12,0x34c),(9,0x34b)],
     [(11,0x32b),(16,0x34b),(4,0x34c),(11,0xb4c),(32,0xb6c),(24,0xb8c),(16,0xb8d),(65,0xb8c),
      (87,0xb6c),(32,0xb4c),(12,0x34c),(10,0x34b)],
     [(9,0x32b),(17,0x34b),(4,0x34c),(11,0xb4c),(32,0xb6c),(24,0xb8c),(16,0xb8d),(65,0xb8c),(86,0xb6c),
      (33,0xb4c),(12,0x34c),(11,0x34b)],
     [(8,0x32b),(16,0x34b),(4,0x34c),(12,0xb4c),(32,0xb6c),(24,0xb8c),(16,0xb8d),(64,0xb8c),(87,0xb6c),
      (31,0xb4c),(14,0x34c),(12,0x34b)],
     [(8,0x32b),(15,0x34b),(5,0x34c),(11,0xb4c),(32,0xb6c),(23,0xb8c),(17,0xb8d),(65,0xb8c),(86,0xb6c),
      (32,0xb4c),(13,0x34c),(13,0x34b)],
     [(6,0x32b),(16,0x34b),(5,0x34c),(11,0xb4c),(32,0xb6c),(23,0xb8c),(17,0xb8d),(64,0xb8c),(87,0xb6c),
      (32,0xb4c),(13,0x34c),(14,0x34b)],
     [(6,0x32b),(16,0x34b),(4,0x34c),(11,0xb4c),(32,0xb6c),(23,0xb8c),(17,0xb8d),(64,0xb8c),(87,0xb6c),
      (32,0xb4c),(13,0x34c),(15,0x34b)],
     [(4,0x32b),(16,0x34b),(4,0x34c),(12,0xb4c),(32,0xb6c),(23,0xb8c),(17,0xb8d),(64,0xb8c),(87,0xb6c),
      (32,0xb4c),(13,0x34c),(16,0x34b)],
     [(3,0x32b),(16,0x34b),(4,0x34c),(12,0xb4c),(32,0xb6c),(23,0xb8c),(17,0xb8d),(64,0xb8c),(87,0xb6c),
      (31,0xb4c),(14,0x34c),(17,0x34b)],
     [(2,0x32b),(16,0x34b),(4,0x34c),(12,0xb4c),(32,0xb6c),(23,0xb8c),(17,0xb8d),(64,0xb8c),(87,0xb6c),
      (32,0xb4c),(13,0x34c),(18,0x34b)],
     [(1,0x32b),(16,0x34b),(4,0x34c),(12,0xb4c),(31,0xb6c),(24,0xb8c),(16,0xb8d),(65,0xb8c),(87,0xb6c),
      (32,0xb4c),(13,0x34c),(19,0x34b)],
     [(17,0x34b),(3,0x34c),(12,0xb4c),(31,0xb6c),(24,0xb8c),(17,0xb8d),(64,0xb8c),(86,0xb6c),
      (33,0xb4c),(13,0x34c),(20,0x34b)],
     [(14,0x34b),(5,0x34c),(12,0xb4c),(31,0xb6c),(24,0xb8c),(16,0xb8d),(65,0xb8c),(86,0xb6c),
      (33,0xb4c),(13,0x34c),(21,0x34b)],
     [(14,0x34b),(5,0x34c),(11,0xb4c),(31,0xb6c),(25,0xb8c),(16,0xb8d),(64,0xb8c),(86,0xb6c),
      (32,0xb4c),(14,0x34c),(22,0x34b)],
     [(12,0x34b),(5,0x34c),(12,0xb4c),(31,0xb6c),(24,0xb8c),(16,0xb8d),(64,0xb8c),(87,0xb6c),
      (33,0xb4c),(13,0x34c),(23,0x34b)],
     [(11,0x34b),(5,0x34c),(12,0xb4c),(31,0xb6c),(24,0xb8c),(16,0xb8d),(65,0xb8c),(86,0xb6c),
      (33,0xb4c),(13,0x34c),(24,0x34b)],
     [(11,0x34b),(4,0x34c),(12,0xb4c),(31,0xb6c),(24,0xb8c),(17,0xb8d),(64,0xb8c),(86,0xb6c),
      (33,0xb4c),(12,0x34c),(26,0x34b)],
     [(9,0x34b),(5,0x34c),(12,0xb4c),(31,0xb6c),(24,0xb8c),(16,0xb8d),(64,0xb8c),(87,0xb6c),(33,0xb4c),
      (12,0x34c),(27,0x34b)],
     [(9,0x34b),(4,0x34c),(12,0xb4c),(31,0xb6c),(24,0xb8c),(17,0xb8d),(64,0xb8c),(86,0xb6c),(33,0xb4c),
      (12,0x34c),(28,0x34b)],
     [(8,0x34b),(4,0x34c),(11,0xb4c),(32,0xb6c),(24,0xb8c),(16,0xb8d),(64,0xb8c),(87,0xb6c),(33,0xb4c),
      (12,0x34c),(29,0x34b)],
     [(6,0x34b),(5,0x34c),(11,0xb4c),(32,0xb6c),(24,0xb8c),(16,0xb8d),(65,0xb8c),(85,0xb6c),(34,0xb4c),
      (12,0x34c),(30,0x34b)],
     [(6,0x34b),(4,0x34c),(11,0xb4c),(32,0xb6c),(24,0xb8c),(16,0xb8d),(65,0xb8c),(86,0xb6c),(33,0xb4c),
      (12,0x34c),(31,0x34b)],
     [(4,0x34b),(5,0x34c),(11,0xb4c),(32,0xb6c),(24,0xb8c),(16,0xb8d),(64,0xb8c),(87,0xb6c),(33,0xb4c),
      (12,0x34c),(32,0x34b)],
     [(3,0x34b),(5,0x34c),(12,0xb4c),(31,0xb6c),(24,0xb8c),(16,0xb8d),(65,0xb8c),(85,0xb6c),(33,0xb4c),
      (13,0x34c),(33,0x34b)],
     [(2,0x34b),(5,0x34c),(11,0xb4c),(32,0xb6c),(23,0xb8c),(17,0xb8d),(64,0xb8c),(87,0xb6c),(32,0xb4c),
      (13,0x34c),(34,0x34b)],
     [(1,0x34b),(5,0x34c),(11,0xb4c),(32,0xb6c),(23,0xb8c),(17,0xb8d),(64,0xb8c),(86,0xb6c),(33,0xb4c),
      (12,0x34c),(36,0x34b)],
     [(4,0x34c),(12,0xb4c),(32,0xb6c),(23,0xb8c),(17,0xb8d),(64,0xb8c),(87,0xb6c),(32,0xb4c),
      (12,0x34c),(37,0x34b)],
     [(3,0x34c),(11,0xb4c),(33,0xb6c),(23,0xb8c),(17,0xb8d),(64,0xb8c),(87,0xb6c),(32,0xb4c),
      (12,0x34c),(38,0x34b)],
     [(3,0x34c),(11,0xb4c),(32,0xb6c),(24,0xb8c),(16,0xb8d),(64,0xb8c),(86,0xb6c),(33,0xb4c),
      (13,0x34c),(38,0x34b)],
     [(1,0x34c),(11,0xb4c),(32,0xb6c),(24,0xb8c),(16,0xb8d),(65,0xb8c),(87,0xb6c),(32,0xb4c),
      (12,0x34c),(40,0x34b)],
     [(11,0xb4c),(32,0xb6c),(24,0xb8c),(16,0xb8d),(65,0xb8c),(86,0xb6c),(33,0xb4c),(12,0x34c),
      (41,0x34b)],
     [(11,0xb4c),(31,0xb6c),(24,0xb8c),(17,0xb8d),(64,0xb8c),(86,0xb6c),(33,0xb4c),(12,0x34c),
      (42,0x34b)],
     [(9,0xb4c),(32,0xb6c),(23,0xb8c),(17,0xb8d),(65,0xb8c),(86,0xb6c),(32,0xb4c),(13,0x34c),
      (42,0x34b),(1,0x32b)],
     [(9,0xb4c),(31,0xb6c),(24,0xb8c),(17,0xb8d),(64,0xb8c),(86,0xb6c),(33,0xb4c),(13,0x34c),
      (42,0x34b),(1,0x32b)],
     [(7,0xb4c),(32,0xb6c),(24,0xb8c),(16,0xb8d),(64,0xb8c),(87,0xb6c),(32,0xb4c),(13,0x34c),
      (42,0x34b),(3,0x32b)],
     [(6,0xb4c),(32,0xb6c),(23,0xb8c),(17,0xb8d),(65,0xb8c),(86,0xb6c),(32,0xb4c),(13,0x34c),
      (42,0x34b),(4,0x32b)],
     [(6,0xb4c),(31,0xb6c),(24,0xb8c),(17,0xb8d),(63,0xb8c),(87,0xb6c),(32,0xb4c),(13,0x34c),
      (43,0x34b),(4,0x32b)],
     [(4,0xb4c),(32,0xb6c),(23,0xb8c),(17,0xb8d),(64,0xb8c),(87,0xb6c),(32,0xb4c),(13,0x34c),
      (42,0x34b),(6,0x32b)],
     [(3,0xb4c),(32,0xb6c),(24,0xb8c),(17,0xb8d),(64,0xb8c),(86,0xb6c),(33,0xb4c),(12,0x34c),
      (42,0x34b),(7,0x32b)]]"

definition screenbackground_rows_2 :: "runs list" where
  "screenbackground_rows_2 =
    [[(2,0xb4c),(32,0xb6c),(24,0xb8c),(16,0xb8d),(64,0xb8c),(86,0xb6c),(33,0xb4c),(13,0x34c),
      (42,0x34b),(8,0x32b)],
     [(1,0xb4c),(32,0xb6c),(23,0xb8c),(17,0xb8d),(65,0xb8c),(85,0xb6c),(33,0xb4c),(13,0x34c),
      (42,0x34b),(9,0x32b)],
     [(32,0xb6c),(24,0xb8c),(16,0xb8d),(65,0xb8c),(86,0xb6c),(32,0xb4c),(13,0x34c),(42,0x34b),
      (10,0x32b)],
     [(31,0xb6c),(23,0xb8c),(17,0xb8d),(63,0xb8c),(87,0xb6c),(33,0xb4c),(13,0x34c),(42,0x34b),
      (11,0x32b)],
     [(30,0xb6c),(23,0xb8c),(17,0xb8d),(64,0xb8c),(87,0xb6c),(32,0xb4c),(13,0x34c),(42,0x34b),
      (12,0x32b)],
     [(29,0xb6c),(23,0xb8c),(17,0xb8d),(64,0xb8c),(86,0xb6c),(33,0xb4c),(12,0x34c),(43,0x34b),
      (13,0x32b)],
     [(28,0xb6c),(23,0xb8c),(17,0xb8d),(64,0xb8c),(86,0xb6c),(33,0xb4c),(12,0x34c),(43,0x34b),
      (14,0x32b)],
     [(27,0xb6c),(23,0xb8c),(17,0xb8d),(64,0xb8c),(87,0xb6c),(32,0xb4c),(12,0x34c),(42,0x34b),
      (16,0x32b)],
     [(26,0xb6c),(23,0xb8c),(17,0xb8d),(63,0xb8c),(87,0xb6c),(33,0xb4c),(12,0x34c),(42,0x34b),
      (17,0x32b)],
     [(24,0xb6c),(24,0xb8c),(16,0xb8d),(65,0xb8c),(87,0xb6c),(32,0xb4c),(13,0x34c),(41,0x34b),
      (18,0x32b)],
     [(23,0xb6c),(24,0xb8c),(16,0xb8d),(65,0xb8c),(86,0xb6c),(33,0xb4c),(12,0x34c),(42,0x34b),
      (19,0x32b)],
     [(22,0xb6c),(24,0xb8c),(16,0xb8d),(65,0xb8c),(86,0xb6c),(33,0xb4c),(12,0x34c),(42,0x34b),
      (20,0x32b)],
     [(21,0xb6c),(23,0xb8c),(17,0xb8d),(65,0xb8c),(86,0xb6c),(32,0xb4c),(13,0x34c),(42,0x34b),
      (21,0x32b)],
     [(20,0xb6c),(23,0xb8c),(17,0xb8d),(64,0xb8c),(87,0xb6c),(32,0xb4c),(13,0x34c),(42,0x34b),
      (22,0x32b)],
     [(19,0xb6c),(24,0xb8c),(16,0xb8d),(64,0xb8c),(87,0xb6c),(32,0xb4c),(14,0x34c),(41,0x34b),
      (23,0x32b)],
     [(18,0xb6c),(23,0xb8c),(17,0xb8d),(64,0xb8c),(87,0xb6c),(32,0xb4c),(13,0x34c),(42,0x34b),
      (24,0x32b)],
     [(17,0xb6c),(24,0xb8c),(16,0xb8d),(64,0xb8c),(87,0xb6c),(33,0xb4c),(12,0x34c),(41,0x34b),
      (26,0x32b)],
     [(16,0xb6c),(23,0xb8c),(17,0xb8d),(64,0xb8c),(87,0xb6c),(32,0xb4c),(13,0x34c),(42,0x34b),
      (26,0x32b)],
     [(14,0xb6c),(24,0xb8c),(16,0xb8d),(65,0xb8c),(87,0xb6c),(32,0xb4c),(13,0x34c),(41,0x34b),
      (28,0x32b)],
     [(13,0xb6c),(25,0xb8c),(16,0xb8d),(64,0xb8c),(87,0xb6c),(5,0xb4c),(3,0xb6c),(24,0xb4c),(13,0x34c),
      (42,0x34b),(28,0x32b)],
     [(12,0xb6c),(24,0xb8c),(17,0xb8d),(64,0xb8c),(86,0xb6c),(6,0xb4c),(4,0xb6c),(23,0xb4c),(13,0x34c),
      (41,0x34b),(30,0x32b)],
     [(12,0xb6c),(24,0xb8c),(16,0xb8d),(64,0xb8c),(87,0xb6c),(6,0xb4c),(4,0xb6c),(23,0xb4c),(12,0x34c),
      (41,0x34b),(31,0x32b)],
     [(10,0xb6c),(24,0xb8c),(17,0xb8d),(64,0xb8c),(87,0xb6c),(7,0xb4c),(4,0xb6c),(20,0xb4c),(14,0x34c),
      (42,0x34b),(31,0x32b)],
     [(9,0xb6c),(24,0xb8c),(16,0xb8d),(64,0xb8c),(87,0xb6c),(9,0xb4c),(4,0xb6c),(19,0xb4c),(14,0x34c),
      (41,0x34b),(33,0x32b)],
     [(8,0xb6c),(24,0xb8c),(17,0xb8d),(64,0xb8c),(87,0xb6c),(10,0xb4c),(3,0xb6c),(19,0xb4c),(12,0x34c),
      (43,0x34b),(33,0x32b)],
     [(7,0xb6c),(24,0xb8c),(17,0xb8d),(63,0xb8c),(87,0xb6c),(32,0xb4c),(13,0x34c),(43,0x34b),
      (34,0x32b)],
     [(7,0xb6c),(23,0xb8c),(17,0xb8d),(64,0xb8c),(87,0xb6c),(32,0xb4c),(12,0x34c),(42,0x34b),
      (36,0x32b)],
     [(5,0xb6c),(24,0xb8c),(17,0xb8d),(64,0xb8c),(87,0xb6c),(31,0xb4c),(13,0x34c),(42,0x34b),
      (37,0x32b)],
     [(4,0xb6c),(24,0xb8c),(16,0xb8d),(64,0xb8c),(86,0xb6c),(33,0xb4c),(13,0x34c),(42,0x34b),
      (38,0x32b)],
     [(3,0xb6c),(24,0xb8c),(16,0xb8d),(65,0xb8c),(86,0xb6c),(33,0xb4c),(12,0x34c),(42,0x34b),
      (39,0x32b)],
     [(2,0xb6c),(24,0xb8c),(16,0xb8d),(64,0xb8c),(87,0xb6c),(32,0xb4c),(13,0x34c),(42,0x34b),
      (40,0x32b)],
     [(1,0xb6c),(23,0xb8c),(17,0xb8d),(65,0xb8c),(86,0xb6c),(32,0xb4c),(13,0x34c),(42,0x34b),
      (41,0x32b)],
     [(23,0xb8c),(17,0xb8d),(64,0xb8c),(87,0xb6c),(32,0xb4c),(13,0x34c),(42,0x34b),(42,0x32b)],
     [(22,0xb8c),(17,0xb8d),(64,0xb8c),(86,0xb6c),(33,0xb4c),(12,0x34c),(43,0x34b),(43,0x32b)],
     [(21,0xb8c),(17,0xb8d),(64,0xb8c),(87,0xb6c),(32,0xb4c),(13,0x34c),(42,0x34b),(44,0x32b)],
     [(20,0xb8c),(17,0xb8d),(64,0xb8c),(87,0xb6c),(32,0xb4c),(12,0x34c),(42,0x34b),(46,0x32b)],
     [(19,0xb8c),(17,0xb8d),(64,0xb8c),(87,0xb6c),(32,0xb4c),(13,0x34c),(41,0x34b),(47,0x32b)],
     [(18,0xb8c),(16,0xb8d),(65,0xb8c),(87,0xb6c),(32,0xb4c),(12,0x34c),(43,0x34b),(47,0x32b)],
     [(17,0xb8c),(16,0xb8d),(65,0xb8c),(86,0xb6c),(33,0xb4c),(12,0x34c),(42,0x34b),(49,0x32b)],
     [(16,0xb8c),(16,0xb8d),(65,0xb8c),(86,0xb6c),(33,0xb4c),(13,0x34c),(42,0x34b),(49,0x32b)],
     [(14,0xb8c),(17,0xb8d),(65,0xb8c),(86,0xb6c),(32,0xb4c),(13,0x34c),(42,0x34b),(51,0x32b)],
     [(14,0xb8c),(17,0xb8d),(63,0xb8c),(87,0xb6c),(33,0xb4c),(13,0x34c),(41,0x34b),(52,0x32b)],
     [(13,0xb8c),(16,0xb8d),(64,0xb8c),(87,0xb6c),(32,0xb4c),(14,0x34c),(42,0x34b),(52,0x32b)],
     [(11,0xb8c),(17,0xb8d),(64,0xb8c),(87,0xb6c),(32,0xb4c),(13,0x34c),(42,0x34b),(54,0x32b)],
     [(11,0xb8c),(16,0xb8d),(64,0xb8c),(87,0xb6c),(33,0xb4c),(12,0x34c),(43,0x34b),(54,0x32b)],
     [(9,0xb8c),(17,0xb8d),(64,0xb8c),(87,0xb6c),(32,0xb4c),(13,0x34c),(42,0x34b),(56,0x32b)],
     [(9,0xb8c),(17,0xb8d),(63,0xb8c),(87,0xb6c),(33,0xb4c),(12,0x34c),(42,0x34b),(57,0x32b)],
     [(8,0xb8c),(16,0xb8d),(64,0xb8c),(87,0xb6c),(32,0xb4c),(13,0x34c),(42,0x34b),(58,0x32b)],
     [(6,0xb8c),(16,0xb8d),(65,0xb8c),(86,0xb6c),(33,0xb4c),(13,0x34c),(42,0x34b),(59,0x32b)],
     [(6,0xb8c),(16,0xb8d),(64,0xb8c),(87,0xb6c),(33,0xb4c),(12,0x34c),(42,0x34b),(60,0x32b)],
     [(4,0xb8c),(17,0xb8d),(63,0xb8c),(87,0xb6c),(33,0xb4c),(13,0x34c),(42,0x34b),(61,0x32b)],
     [(3,0xb8c),(17,0xb8d),(64,0xb8c),(87,0xb6c),(32,0xb4c),(13,0x34c),(42,0x34b),(62,0x32b)],
     [(2,0xb8c),(17,0xb8d),(64,0xb8c),(87,0xb6c),(32,0xb4c),(12,0x34c),(43,0x34b),(63,0x32b)],
     [(1,0xb8c),(17,0xb8d),(64,0xb8c),(87,0xb6c),(32,0xb4c),(13,0x34c),(42,0x34b),(64,0x32b)],
     [(17,0xb8d),(64,0xb8c),(87,0xb6c),(32,0xb4c),(12,0x34c),(42,0x34b),(66,0x32b)],
     [(16,0xb8d),(63,0xb8c),(87,0xb6c),(33,0xb4c),(12,0x34c),(42,0x34b),(67,0x32b)],
     [(14,0xb8d),(65,0xb8c),(87,0xb6c),(32,0xb4c),(13,0x34c),(41,0x34b),(68,0x32b)],
     [(13,0xb8d),(65,0xb8c),(86,0xb6c),(33,0xb4c),(12,0x34c),(42,0x34b),(69,0x32b)],
     [(12,0xb8d),(65,0xb8c),(86,0xb6c),(33,0xb4c),(13,0x34c),(42,0x34b),(69,0x32b)],
     [(11,0xb8d),(65,0xb8c),(86,0xb6c),(32,0xb4c),(13,0x34c),(42,0x34b),(71,0x32b)],
     [(10,0xb8d),(64,0xb8c),(87,0xb6c),(32,0xb4c),(14,0x34c),(41,0x34b),(72,0x32b)],
     [(9,0xb8d),(64,0xb8c),(87,0xb6c),(32,0xb4c),(14,0x34c),(41,0x34b),(73,0x32b)],
     [(8,0xb8d),(64,0xb8c),(87,0xb6c),(32,0xb4c),(13,0x34c),(42,0x34b),(74,0x32b)],
     [(7,0xb8d),(64,0xb8c),(87,0xb6c),(33,0xb4c),(12,0x34c),(43,0x34b),(74,0x32b)],
     [(6,0xb8d),(64,0xb8c),(87,0xb6c),(32,0xb4c),(13,0x34c),(42,0x34b),(76,0x32b)],
     [(4,0xb8d),(65,0xb8c),(87,0xb6c),(32,0xb4c),(13,0x34c),(42,0x34b),(77,0x32b)],
     [(4,0xb8d),(64,0xb8c),(86,0xb6c),(33,0xb4c),(13,0x34c),(42,0x34b),(78,0x32b)],
     [(3,0xb8d),(64,0xb8c),(86,0xb6c),(33,0xb4c),(13,0x34c),(42,0x34b),(79,0x32b)],
     [(2,0xb8d),(64,0xb8c),(86,0xb6c),(34,0xb4c),(12,0x34c),(42,0x34b),(80,0x32b)],
     [(1,0xb8d),(64,0xb8c),(86,0xb6c),(33,0xb4c),(13,0x34c),(42,0x34b),(81,0x32b)],
     [(64,0xb8c),(86,0xb6c),(32,0xb4c),(14,0x34c),(42,0x34b),(82,0x32b)],
     [(63,0xb8c),(86,0xb6c),(33,0xb4c),(12,0x34c),(43,0x34b),(83,0x32b)],
     [(62,0xb8c),(86,0xb6c),(33,0xb4c),(12,0x34c),(43,0x34b),(84,0x32b)],
     [(61,0xb8c),(86,0xb6c),(33,0xb4c),(12,0x34c),(42,0x34b),(86,0x32b)],
     [(60,0xb8c),(86,0xb6c),(33,0xb4c),(12,0x34c),(42,0x34b),(87,0x32b)],
     [(59,0xb8c),(85,0xb6c),(33,0xb4c),(13,0x34c),(42,0x34b),(87,0x32b),(1,0x30b)],
     [(58,0xb8c),(86,0xb6c),(33,0xb4c),(12,0x34c),(42,0x34b),(87,0x32b),(2,0x30b)],
     [(57,0xb8c),(86,0xb6c),(33,0xb4c),(12,0x34c),(42,0x34b),(87,0x32b),(3,0x30b)],
     [(56,0xb8c),(86,0xb6c),(32,0xb4c),(13,0x34c),(42,0x34b),(87,0x32b),(4,0x30b)],
     [(54,0xb8c),(87,0xb6c),(32,0xb4c),(13,0x34c),(42,0x34b),(86,0x32b),(6,0x30b)],
     [(53,0xb8c),(86,0xb6c),(33,0xb4c),(13,0x34c),(42,0x34b),(86,0x32b),(7,0x30b)],
     [(52,0xb8c),(87,0xb6c),(32,0xb4c),(13,0x34c),(42,0x34b),(86,0x32b),(8,0x30b)],
     [(51,0xb8c),(87,0xb6c),(32,0xb4c),(13,0x34c),(41,0x34b),(87,0x32b),(9,0x30b)],
     [(51,0xb8c),(86,0xb6c),(32,0xb4c),(13,0x34c),(42,0x34b),(87,0x32b),(9,0x30b)],
     [(49,0xb8c),(87,0xb6c),(32,0xb4c),(13,0x34c),(42,0x34b),(86,0x32b),(11,0x30b)],
     [(48,0xb8c),(86,0xb6c),(33,0xb4c),(13,0x34c),(41,0x34b),(87,0x32b),(12,0x30b)],
     [(47,0xb8c),(86,0xb6c),(33,0xb4c),(13,0x34c),(42,0x34b),(87,0x32b),(12,0x30b)],
     [(46,0xb8c),(86,0xb6c),(32,0xb4c),(14,0x34c),(41,0x34b),(87,0x32b),(14,0x30b)],
     [(46,0xb8c),(85,0xb6c),(33,0xb4c),(13,0x34c),(42,0x34b),(87,0x32b),(14,0x30b)],
     [(43,0xb8c),(87,0xb6c),(32,0xb4c),(14,0x34c),(42,0x34b),(85,0x32b),(17,0x30b)],
     [(43,0xb8c),(86,0xb6c),(33,0xb4c),(12,0x34c),(43,0x34b),(86,0x32b),(17,0x30b)],
     [(41,0xb8c),(87,0xb6c),(33,0xb4c),(12,0x34c),(43,0x34b),(86,0x32b),(18,0x30b)],
     [(40,0xb8c),(87,0xb6c),(32,0xb4c),(13,0x34c),(42,0x34b),(86,0x32b),(20,0x30b)],
     [(40,0xb8c),(86,0xb6c),(33,0xb4c),(12,0x34c),(42,0x34b),(87,0x32b),(20,0x30b)],
     [(38,0xb8c),(87,0xb6c),(32,0xb4c),(13,0x34c),(42,0x34b),(86,0x32b),(22,0x30b)],
     [(38,0xb8c),(86,0xb6c),(33,0xb4c),(12,0x34c),(42,0x34b),(87,0x32b),(22,0x30b)],
     [(36,0xb8c),(87,0xb6c),(33,0xb4c),(12,0x34c),(42,0x34b),(87,0x32b),(23,0x30b)],
     [(35,0xb8c),(87,0xb6c),(32,0xb4c),(13,0x34c),(42,0x34b),(86,0x32b),(25,0x30b)],
     [(34,0xb8c),(87,0xb6c),(32,0xb4c),(13,0x34c),(42,0x34b),(86,0x32b),(26,0x30b)],
     [(33,0xb8c),(87,0xb6c),(32,0xb4c),(12,0x34c),(43,0x34b),(86,0x32b),(27,0x30b)],
     [(32,0xb8c),(87,0xb6c),(32,0xb4c),(13,0x34c),(42,0x34b),(86,0x32b),(28,0x30b)],
     [(31,0xb8c),(87,0xb6c),(32,0xb4c),(13,0x34c),(41,0x34b),(87,0x32b),(29,0x30b)],
     [(30,0xb8c),(87,0xb6c),(32,0xb4c),(12,0x34c),(42,0x34b),(87,0x32b),(30,0x30b)],
     [(29,0xb8c),(87,0xb6c),(32,0xb4c),(13,0x34c),(41,0x34b),(87,0x32b),(31,0x30b)],
     [(28,0xb8c),(86,0xb6c),(33,0xb4c),(12,0x34c),(42,0x34b),(87,0x32b),(32,0x30b)],
     [(27,0xb8c),(86,0xb6c),(33,0xb4c),(13,0x34c),(41,0x34b),(87,0x32b),(33,0x30b)],
     [(26,0xb8c),(86,0xb6c),(32,0xb4c),(14,0x34c),(41,0x34b),(87,0x32b),(34,0x30b)],
     [(24,0xb8c),(87,0xb6c),(32,0xb4c),(13,0x34c),(42,0x34b),(86,0x32b),(36,0x30b)],
     [(24,0xb8c),(87,0xb6c),(31,0xb4c),(14,0x34c),(41,0x34b),(87,0x32b),(36,0x30b)],
     [(22,0xb8c),(87,0xb6c),(32,0xb4c),(13,0x34c),(42,0x34b),(86,0x32b),(38,0x30b)],
     [(22,0xb8c),(86,0xb6c),(32,0xb4c),(13,0x34c),(42,0x34b),(87,0x32b),(38,0x30b)],
     [(20,0xb8c),(87,0xb6c),(32,0xb4c),(13,0x34c),(42,0x34b),(87,0x32b),(39,0x30b)],
     [(19,0xb8c),(87,0xb6c),(32,0xb4c),(13,0x34c),(42,0x34b),(86,0x32b),(41,0x30b)],
     [(19,0xb8c),(87,0xb6c),(31,0xb4c),(13,0x34c),(42,0x34b),(87,0x32b),(41,0x30b)],
     [(17,0xb8c),(86,0xb6c),(33,0xb4c),(13,0x34c),(42,0x34b),(86,0x32b),(43,0x30b)],
     [(17,0xb8c),(85,0xb6c),(33,0xb4c),(13,0x34c),(42,0x34b),(87,0x32b),(43,0x30b)],
     [(14,0xb8c),(87,0xb6c),(33,0xb4c),(13,0x34c),(42,0x34b),(87,0x32b),(44,0x30b)],
     [(13,0xb8c),(87,0xb6c),(32,0xb4c),(14,0x34c),(42,0x34b),(85,0x32b),(47,0x30b)],
     [(13,0xb8c),(87,0xb6c),(32,0xb4c),(12,0x34c),(43,0x34b),(86,0x32b),(47,0x30b)],
     [(11,0xb8c),(87,0xb6c),(33,0xb4c),(12,0x34c),(43,0x34b),(85,0x32b),(49,0x30b)]]"

end
