(* ===== verification/Images.thy ===== *)
theory Images
  imports ImageData
begin

text \<open>
  The images of \<open>lvgl_support/images\<close>: their descriptors, and the bytes that drawing a pixel
  reads. A header without a stride stands for rows without padding.
\<close>

section \<open>The pixels\<close>

lemma length_run_bytes [simp]: "length (run_bytes r) = 2 * fst r"
  by (simp add: run_bytes_def length_concat sum_list_replicate)

text \<open>All lines of an array have the same length.\<close>

definition row_lengths :: "nat \<Rightarrow> runs list \<Rightarrow> bool" where
  "row_lengths n rows \<longleftrightarrow> list_all (\<lambda>row. sum_list (map fst row) = n) rows"

lemma length_row: "length (concat (map run_bytes row)) = 2 * sum_list (map fst row)"
  by (induction row) simp_all

lemma row_lengths_bytes: "row_lengths n rows \<Longrightarrow> length (image_bytes rows) = 2 * n * length rows"
  by (induction rows) (simp_all add: row_lengths_def image_bytes_def length_row)

definition ifx_logo_map :: "byte list" where
  "ifx_logo_map = image_bytes ifx_logo_rows"

definition lock_icon_map :: "byte list" where
  "lock_icon_map = image_bytes lock_icon_rows"

definition unlock_icon_map :: "byte list" where
  "unlock_icon_map = image_bytes unlock_icon_rows"

definition screenbackground_map :: "byte list" where
  "screenbackground_map = image_bytes (screenbackground_rows_1 @ screenbackground_rows_2)"

lemma logo_rows: "row_lengths 320 ifx_logo_rows" "length ifx_logo_rows = 138"
  by (simp_all add: row_lengths_def ifx_logo_rows_def)

lemma lock_rows: "row_lengths 96 lock_icon_rows" "length lock_icon_rows = 144"
  by (simp_all add: row_lengths_def lock_icon_rows_def)

lemma unlock_rows: "row_lengths 96 unlock_icon_rows" "length unlock_icon_rows = 144"
  by (simp_all add: row_lengths_def unlock_icon_rows_def)

lemma background_rows_1: "row_lengths 320 screenbackground_rows_1" "length screenbackground_rows_1 = 120"
  by (simp_all add: row_lengths_def screenbackground_rows_1_def)

lemma background_rows_2: "row_lengths 320 screenbackground_rows_2" "length screenbackground_rows_2 = 120"
  by (simp_all add: row_lengths_def screenbackground_rows_2_def)

section \<open>The descriptors\<close>

datatype color_format = LV_COLOR_FORMAT_RGB565 | LV_COLOR_FORMAT_RGB565A8

record lv_image_dsc =
  header_cf :: color_format
  header_w :: nat
  header_h :: nat
  header_stride :: nat
  data_size :: nat
  image_data :: "byte list"

definition ifx_logo :: lv_image_dsc where
  "ifx_logo = \<lparr>header_cf = LV_COLOR_FORMAT_RGB565, header_w = 320, header_h = 138, header_stride = 0,
     data_size = 44160 * 2, image_data = ifx_logo_map\<rparr>"

definition lock_icon :: lv_image_dsc where
  "lock_icon = \<lparr>header_cf = LV_COLOR_FORMAT_RGB565A8, header_w = 96, header_h = 96, header_stride = 192,
     data_size = length lock_icon_map, image_data = lock_icon_map\<rparr>"

definition unlock_icon :: lv_image_dsc where
  "unlock_icon = \<lparr>header_cf = LV_COLOR_FORMAT_RGB565A8, header_w = 96, header_h = 96, header_stride = 192,
     data_size = length unlock_icon_map, image_data = unlock_icon_map\<rparr>"

definition screenbackground :: lv_image_dsc where
  "screenbackground = \<lparr>header_cf = LV_COLOR_FORMAT_RGB565, header_w = 320, header_h = 240,
     header_stride = 640, data_size = length screenbackground_map, image_data = screenbackground_map\<rparr>"

section \<open>Drawing\<close>

text \<open>
  A pixel has two bytes of colour; with opacity a plane of one byte a pixel follows, whose rows
  have half the stride.
\<close>

definition row_stride :: "lv_image_dsc \<Rightarrow> nat" where
  "row_stride d = (if header_stride d = 0 then 2 * header_w d else header_stride d)"

definition pixel_offsets :: "lv_image_dsc \<Rightarrow> nat \<Rightarrow> nat \<Rightarrow> nat list" where
  "pixel_offsets d x y =
     [row_stride d * y + 2 * x, row_stride d * y + 2 * x + 1] @
     (case header_cf d of
        LV_COLOR_FORMAT_RGB565 \<Rightarrow> []
      | LV_COLOR_FORMAT_RGB565A8 \<Rightarrow> [row_stride d * header_h d + row_stride d div 2 * y + x])"

text \<open>An image is well-formed when it has exactly the bytes its header speaks of.\<close>

definition image_ok :: "lv_image_dsc \<Rightarrow> bool" where
  "image_ok d \<longleftrightarrow> 2 * header_w d \<le> row_stride d \<and> data_size d = length (image_data d)
     \<and> length (image_data d) = row_stride d * header_h d +
         (case header_cf d of
            LV_COLOR_FORMAT_RGB565 \<Rightarrow> 0
          | LV_COLOR_FORMAT_RGB565A8 \<Rightarrow> row_stride d div 2 * header_h d)"

lemma background_rows:
  "row_lengths 320 (screenbackground_rows_1 @ screenbackground_rows_2)"
  using background_rows_1(1) background_rows_2(1) by (simp add: row_lengths_def)

lemma image_lengths [simp]:
  "length ifx_logo_map = 88320" "length lock_icon_map = 27648" "length unlock_icon_map = 27648"
  "length screenbackground_map = 153600"
  by (simp_all add: ifx_logo_map_def lock_icon_map_def unlock_icon_map_def screenbackground_map_def
      row_lengths_bytes [OF logo_rows(1)] row_lengths_bytes [OF lock_rows(1)]
      row_lengths_bytes [OF unlock_rows(1)] row_lengths_bytes [OF background_rows]
      logo_rows(2) lock_rows(2) unlock_rows(2) background_rows_1(2) background_rows_2(2))

lemma images_ok: "image_ok ifx_logo" "image_ok lock_icon" "image_ok unlock_icon" "image_ok screenbackground"
  by (simp_all add: image_ok_def row_stride_def ifx_logo_def lock_icon_def unlock_icon_def
      screenbackground_def)

lemma row_bound: "y < h \<Longrightarrow> a < s \<Longrightarrow> s * y + a < s * (h::nat)"
proof -
  assume "y < h" and "a < s"
  then have "s * y + a < s * Suc y" by simp
  also have "s * Suc y \<le> s * h" using \<open>y < h\<close> by (intro mult_le_mono2) simp
  finally show ?thesis .
qed

lemma pixel_offsets_in:
  assumes ok: "image_ok d" and x: "x < header_w d" and y: "y < header_h d"
  shows "\<forall>k \<in> set (pixel_offsets d x y). k < length (image_data d)"
proof -
  have s: "2 * x + 1 < row_stride d" "x < row_stride d div 2"
    using ok x by (auto simp: image_ok_def)
  note colour = row_bound [OF y s(1)] and opacity = row_bound [OF y s(2)]
  show ?thesis
  proof (cases "header_cf d")
    case LV_COLOR_FORMAT_RGB565
    then have "length (image_data d) = row_stride d * header_h d" using ok by (simp add: image_ok_def)
    with LV_COLOR_FORMAT_RGB565 colour show ?thesis by (simp add: pixel_offsets_def)
  next
    case LV_COLOR_FORMAT_RGB565A8
    then have "length (image_data d) = row_stride d * header_h d + row_stride d div 2 * header_h d"
      using ok by (simp add: image_ok_def)
    with LV_COLOR_FORMAT_RGB565A8 colour opacity show ?thesis by (simp add: pixel_offsets_def)
  qed
qed

text \<open>No byte belongs to two pixels.\<close>

lemma offset_unique:
  assumes "s * y + a = s * y' + a'" and "a < s" and "a' < (s::nat)"
  shows "y = y' \<and> a = a'"
proof -
  have div: "(s * c + b) div s = c" if "b < s" for b c using that by simp
  have "y = y'" using div [OF assms(2), of y] div [OF assms(3), of y'] assms(1) by simp
  with assms(1) show ?thesis by simp
qed

lemma pixel_offsets_cases:
  assumes ok: "image_ok d" and x: "x < header_w d" and y: "y < header_h d"
    and k: "k \<in> set (pixel_offsets d x y)"
  obtains c where "k = row_stride d * y + (2 * x + c)" and "c < 2" and "k < row_stride d * header_h d"
  | "header_cf d = LV_COLOR_FORMAT_RGB565A8" and "k = row_stride d * header_h d + (row_stride d div 2 * y + x)"
proof -
  have "2 * x + c < row_stride d" if "c < 2" for c
    using ok x that by (auto simp: image_ok_def)
  note bound = row_bound [OF y this]
  from k consider "k = row_stride d * y + (2 * x + 0)" | "k = row_stride d * y + (2 * x + 1)"
    | "header_cf d = LV_COLOR_FORMAT_RGB565A8" "k = row_stride d * header_h d + (row_stride d div 2 * y + x)"
    by (cases "header_cf d") (auto simp: pixel_offsets_def)
  then show thesis
  proof cases
    case 1
    with bound [of 0] show thesis by (intro that(1) [of 0]) simp_all
  next
    case 2
    with bound [of 1] show thesis by (intro that(1) [of 1]) simp_all
  next
    case 3
    then show thesis by (rule that(2))
  qed
qed

lemma pixels_disjoint:
  assumes ok: "image_ok d" and x: "x < header_w d" "x' < header_w d" and y: "y < header_h d" "y' < header_h d"
    and k: "k \<in> set (pixel_offsets d x y)" "k \<in> set (pixel_offsets d x' y')"
  shows "x = x' \<and> y = y'"
proof -
  have s: "2 * x + 1 < row_stride d" "2 * x' + 1 < row_stride d"
    "x < row_stride d div 2" "x' < row_stride d div 2"
    using ok x by (auto simp: image_ok_def)
  from pixel_offsets_cases [OF ok x(1) y(1) k(1)] show ?thesis
  proof cases
    case one: (1 c)
    from pixel_offsets_cases [OF ok x(2) y(2) k(2)] show ?thesis
    proof cases
      case (1 c')
      have eq: "row_stride d * y + (2 * x + c) = row_stride d * y' + (2 * x' + c')"
        using one(1) 1(1) by (rule trans [OF sym])
      have "2 * x + c < row_stride d" "2 * x' + c' < row_stride d"
        using s \<open>c < 2\<close> \<open>c' < 2\<close> by linarith+
      note offset_unique [OF eq this]
      moreover have "x = x'" if "2 * x + c = 2 * x' + c'"
        using that \<open>c < 2\<close> \<open>c' < 2\<close> by presburger
      ultimately show ?thesis by blast
    next
      case 2
      with one show ?thesis by simp
    qed
  next
    case one: 2
    from pixel_offsets_cases [OF ok x(2) y(2) k(2)] show ?thesis
    proof cases
      case (1 c')
      with one show ?thesis by simp
    next
      case 2
      have "row_stride d div 2 * y + x = row_stride d div 2 * y' + x'"
        using one(2) 2(2) by (simp only: add_left_cancel)
      from offset_unique [OF this s(3,4)] show ?thesis by blast
    qed
  qed
qed

end
