(* ===== verification/DisplayConfig.thy ===== *)
theory DisplayConfig
  imports LvConf Images Display
begin

text \<open>
  What the display needs of the configuration of LVGL and of the images: the options behind
  the widgets, fonts and colour formats that \<open>lvgl_support.c\<close> uses, and the area each image is
  drawn in.
\<close>

section \<open>The images that are drawn\<close>

fun image_dsc :: "image \<Rightarrow> lv_image_dsc" where
  "image_dsc Img_screenbackground = screenbackground"
| "image_dsc Img_lock_icon = lock_icon"
| "image_dsc Img_unlock_icon = unlock_icon"
| "image_dsc Img_ifx_logo = ifx_logo"

text \<open>The icons lie in the lock area; the panel is turned, so its height is the width of the screen.\<close>

fun image_area :: "image \<Rightarrow> int \<times> int" where
  "image_area Img_lock_icon = (LOCK_DISPLAY_AREA_WIDTH, LOCK_DISPLAY_AREA_HEIGHT)"
| "image_area Img_unlock_icon = (LOCK_DISPLAY_AREA_WIDTH, LOCK_DISPLAY_AREA_HEIGHT)"
| "image_area i = (int DISPLAY_VER_RES, int DISPLAY_HOR_RES)"

lemma image_dsc_ok: "image_ok (image_dsc i)"
  by (cases i) (simp_all add: images_ok)

lemma image_fits:
  "int (header_w (image_dsc i)) \<le> fst (image_area i)" "int (header_h (image_dsc i)) \<le> snd (image_area i)"
  by (cases i; simp add: screenbackground_def lock_icon_def unlock_icon_def ifx_logo_def
      LOCK_DISPLAY_AREA_WIDTH_def LOCK_DISPLAY_AREA_HEIGHT_def DISPLAY_VER_RES_def DISPLAY_HOR_RES_def)+

lemma image_length:
  "length (image_data (image_dsc i)) = header_w (image_dsc i) * header_h (image_dsc i) *
     (case header_cf (image_dsc i) of LV_COLOR_FORMAT_RGB565 \<Rightarrow> 2 | LV_COLOR_FORMAT_RGB565A8 \<Rightarrow> 3)"
  by (cases i) (simp_all add: screenbackground_def lock_icon_def unlock_icon_def ifx_logo_def)

section \<open>The options that are needed\<close>

fun widget_options :: "widget \<Rightarrow> string list" where
  "widget_options W_obj = []"
| "widget_options W_image = [''LV_USE_IMAGE'', ''LV_USE_LABEL'']"
| "widget_options W_label = [''LV_USE_LABEL'']"
| "widget_options W_button = [''LV_USE_BUTTON'']"
| "widget_options W_qrcode = [''LV_USE_QRCODE'', ''LV_USE_CANVAS'']"

fun format_option :: "color_format \<Rightarrow> string" where
  "format_option LV_COLOR_FORMAT_RGB565 = ''LV_DRAW_SW_SUPPORT_RGB565''"
| "format_option LV_COLOR_FORMAT_RGB565A8 = ''LV_DRAW_SW_SUPPORT_RGB565A8''"

fun call_options :: "lv_call \<Rightarrow> string list" where
  "call_options (lv_image_set_src i) = [''LV_USE_IMAGE'', format_option (header_cf (image_dsc i))]"
| "call_options lv_obj_set_style_text_font_16 = [''LV_FONT_MONTSERRAT_16'']"
| "call_options (lv_label_set_text t) = [''LV_USE_LABEL'', ''LV_FONT_MONTSERRAT_14'']"
| "call_options (lv_qrcode_set_size n) = [''LV_USE_QRCODE'']"
| "call_options (lv_qrcode_set_dark_color c) = [''LV_USE_QRCODE'']"
| "call_options (lv_qrcode_set_light_color c) = [''LV_USE_QRCODE'']"
| "call_options (lv_qrcode_update bs) = [''LV_USE_QRCODE'']"
| "call_options _ = []"

fun ui_options :: "ui_call \<Rightarrow> string list" where
  "ui_options (Ui_ili9341_create h v) = [''LV_USE_ILI9341'', ''LV_USE_GENERIC_MIPI'']"
| "ui_options _ = []"

definition option_on :: "macros \<Rightarrow> string \<Rightarrow> bool" where
  "option_on ms x \<longleftrightarrow> lookup ms x = Some (R_expr (E_num 1))"

text \<open>The requirements that the comments of the header name for the widgets it switches on.\<close>

definition widget_requirements :: "(string \<times> string) list" where
  "widget_requirements = [(''LV_USE_DROPDOWN'', ''LV_USE_LABEL''), (''LV_USE_IMAGE'', ''LV_USE_LABEL''),
     (''LV_USE_LOTTIE'', ''LV_USE_CANVAS''), (''LV_USE_ROLLER'', ''LV_USE_LABEL''),
     (''LV_USE_SLIDER'', ''LV_USE_BAR''), (''LV_USE_TEXTAREA'', ''LV_USE_LABEL'')]"

lemma widget_settings:
  "setting 5 ''LV_FONT_MONTSERRAT_14'' (R_expr (E_num 1))"
  "setting 5 ''LV_FONT_MONTSERRAT_16'' (R_expr (E_num 1))"
  "setting 6 ''LV_USE_IMAGE'' (R_expr (E_num 1))"
  "setting 6 ''LV_USE_LABEL'' (R_expr (E_num 1))"
  "setting 6 ''LV_USE_BUTTON'' (R_expr (E_num 1))"
  "setting 6 ''LV_USE_CANVAS'' (R_expr (E_num 1))"
  "setting 6 ''LV_USE_BAR'' (R_expr (E_num 1))"
  "setting 8 ''LV_USE_QRCODE'' (R_expr (E_num 1))"
  "setting 11 ''LV_USE_ILI9341'' (R_expr (E_num 1))"
  by code_simp+

lemma other_settings:
  "setting 0 ''LV_COLOR_DEPTH'' (R_expr (E_num 16))"
  "setting 1 ''LV_USE_OS'' (R_expr (E_name ''LV_OS_NONE''))"
  "setting 6 ''LV_FONT_DEFAULT'' (R_text ''&lv_font_montserrat_14'')"
  by code_simp+

lemma guard_kept: "\<not> list_ex (list_ex (sets_macro ''LV_CONF_H'')) lv_conf_parts"
  by code_simp

text \<open>The macros after the header.\<close>

definition configured :: "macros \<Rightarrow> bool" where
  "configured ms \<longleftrightarrow> (\<forall>x \<in> {''LV_FONT_MONTSERRAT_14'', ''LV_FONT_MONTSERRAT_16'', ''LV_USE_IMAGE'',
      ''LV_USE_LABEL'', ''LV_USE_BUTTON'', ''LV_USE_CANVAS'', ''LV_USE_BAR'', ''LV_USE_QRCODE'',
      ''LV_USE_ILI9341'', ''LV_USE_GENERIC_MIPI'', ''LV_DRAW_SW_SUPPORT_RGB565'',
      ''LV_DRAW_SW_SUPPORT_RGB565A8''}. option_on ms x)
    \<and> lookup ms ''LV_COLOR_DEPTH'' = Some (R_expr (E_num 16))
    \<and> lookup ms ''LV_USE_OS'' = Some (R_expr (E_name ''LV_OS_NONE''))
    \<and> lookup ms ''LV_FONT_DEFAULT'' = Some (R_text ''&lv_font_montserrat_14'')"

lemma lv_conf_configures:
  assumes "lookup t ''LV_CONF_H'' = None" and "plain_constants t"
  obtains ms where "preprocess lv_conf_h t = Inr ms" and "preprocess lv_conf_h ms = Inr ms"
    and "configured ms"
proof -
  obtain ms where ms: "preprocess lv_conf_h t = Inr ms"
    "plain_constants ((''LV_CONF_H'', Some (R_text [])) # t)"
    "pp_run (concat lv_conf_parts) \<lparr>macros = (''LV_CONF_H'', Some (R_text [])) # t, groups = open_guards\<rparr>
      = Inr \<lparr>macros = ms, groups = open_guards\<rparr>"
    by (rule lv_conf_included [OF assms])
  have "lookup ms ''LV_CONF_H'' = Some (R_text [])"
    using pp_run_other [OF ms(3), of "''LV_CONF_H''"] guard_kept by (simp add: list_ex_iff)
  note again = lv_conf_included_again [OF this]
  note found = setting_found [OF ms(3,2)]
  have "configured ms"
    using widget_settings [THEN found] other_settings [THEN found]
      lv_conf_formats [OF ms(3,2)] lv_conf_panel [OF ms(3,2)]
    by (simp add: configured_def option_on_def draws_formats_def)
  with ms(1) again show thesis by (rule that)
qed

lemma configured_options:
  assumes "configured ms"
  shows "list_all (option_on ms) (widget_options w)" and "list_all (option_on ms) (call_options c)"
    and "list_all (option_on ms) (ui_options u)"
proof -
  have f: "option_on ms (format_option f)" for f
    using assms by (cases f) (simp_all add: configured_def)
  show "list_all (option_on ms) (widget_options w)"
    using assms by (cases w) (simp_all add: configured_def)
  show "list_all (option_on ms) (call_options c)"
    using assms f by (cases c) (simp_all add: configured_def)
  show "list_all (option_on ms) (ui_options u)"
    using assms by (cases u) (simp_all add: configured_def)
qed

end
