(* ===== verification/DisplayClaims.thy ===== *)
theory DisplayClaims
  imports ScreenInv ScreenButton DisplayConfig
begin

text \<open>
  The properties of what the display shows in the long run, and of the configuration and the
  images it is built with.
\<close>

section \<open>The screen and the bolt\<close>

text \<open>
  C9: the screen tells the truth at rest. In every state the program reaches, the display,
  having drawn all that was asked of it since it came up, shows a lock screen at rest only for
  the end the bolt is at; during a movement it may still show the end the bolt has left. The
  runs are those in which the attribute that is read when commissioning completes says where
  the bolt rests.
\<close>

theorem screen_shows_lock:
  assumes reach: "reach (ui_init E) (truthful_step E) w" and L: "lv_ok L" and d: "display_ok L d"
    and start: "\<forall>locked. shown d \<noteq> Some (Lock_screen locked)"
    and drawn: "show_effects L (effects w) d = Done d'" and sh: "shown d' = Some (Lock_screen locked)"
    and rest: "at_rest (mState w)"
  shows "locked = (mState w = kState_LockCompleted)"
proof -
  have "screen_after (shown d) (effects w) = Some (Lock_screen locked)"
    using show_effects_ends [OF L d, of "effects w"] drawn sh by (simp add: ends_in_def)
  then have "screen_of w = Some (Lock_screen locked)"
    using start screen_after_from [of "shown d" "effects w"] by (auto simp: screen_of_def split: if_split_asm)
  then show ?thesis
    using screen.reach_inv [OF reach] rest by (simp add: screen_true_def)
qed

definition provisioned_boot :: boot where
  "provisioned_boot = demo_boot\<lparr>IsWiFiStationProvisioned := True\<rparr>"

definition provisioned_world :: world where
  "provisioned_world = (case lockMgr_Init ui_env provisioned_boot (static_world ui_env Map.empty) of
     Done w \<Rightarrow> w | _ \<Rightarrow> static_world ui_env Map.empty)"

lemma provisioned_world:
  "lockMgr_Init ui_env provisioned_boot (static_world ui_env Map.empty) = Done provisioned_world"
proof -
  have "params_ok (boot_params provisioned_boot)"
    using demo_params_ok by (simp add: provisioned_boot_def boot_params_def)
  then have "LockManager_Init ui_env (LockState_Get provisioned_boot) (boot_params provisioned_boot) w
      = Done (None, w\<lparr>LockParams := boot_params provisioned_boot, sLockTimer := None,
          mState := kState_LockCompleted\<rparr>)" for w
    by (simp add: LockManager_Init_eq provisioned_boot_def demo_boot_def)
  then show ?thesis
    by (simp add: provisioned_world_def lockMgr_Init_def Let_def)
qed

theorem screen_shows_lock_witness:
  "\<exists>d' locked. show_effects demo_lvgl (effects provisioned_world) (display_static ([], \<lambda>x. 0)) = Done d'
    \<and> shown d' = Some (Lock_screen locked) \<and> locked = (mState provisioned_world = kState_LockCompleted)"
proof -
  have reach: "reach (ui_init ui_env) (truthful_step ui_env) provisioned_world"
    using provisioned_world ui_env_platform
    by (auto intro!: reach_init simp: ui_init_def sys_init_def booted_def)
  have rest: "at_rest (mState provisioned_world)"
    by (rule lockMgr_Init_Done [OF provisioned_world]) (simp add: at_rest_def)
  let ?d = "display_static ([], \<lambda>x. 0)"
  have "screen_of provisioned_world = Some (Lock_screen True)"
    using lockMgr_Init_screen [OF provisioned_world] by (simp add: provisioned_boot_def demo_boot_def)
  then obtain d' where d': "show_effects demo_lvgl (effects provisioned_world) ?d = Done d'"
    "shown d' = Some (Lock_screen True)"
    using show_effects_ends [OF demo_lvgl_ok display_ok_static [where l = "([], \<lambda>x. 0)"], of "effects provisioned_world"]
      screen_after_from [of "shown ?d" "effects provisioned_world"]
    by (auto simp: screen_of_def ends_in_def)
  with screen_shows_lock [OF reach demo_lvgl_ok display_ok_static _ d' rest] show ?thesis
    by (auto simp: display_static_def)
qed

section \<open>The configuration and the images\<close>

text \<open>
  C30: the configuration of LVGL serves the display. Whatever macros are known before, as long as
  LVGL's own constants are numbers or not defined, the header is read to its end, and reading it
  again changes nothing. Every widget, font, colour format and panel driver that the display
  uses is then switched on, the colours have the 16 bits of the images, and LVGL is built
  without an operating system: its own locks do nothing. What a widget's comment requires is
  switched on with it.
\<close>

theorem lv_conf_serves_display:
  assumes "lookup t ''LV_CONF_H'' = None" and "plain_constants t"
  shows "\<exists>ms. preprocess lv_conf_h t = Inr ms \<and> preprocess lv_conf_h ms = Inr ms
    \<and> (\<forall>w c u. list_all (option_on ms) (widget_options w @ call_options c @ ui_options u))
    \<and> lookup ms ''LV_COLOR_DEPTH'' = Some (R_expr (E_num 16))
    \<and> lookup ms ''LV_USE_OS'' = Some (R_expr (E_name ''LV_OS_NONE''))
    \<and> list_all (\<lambda>(x, y). option_on ms x \<longrightarrow> option_on ms y) widget_requirements"
proof -
  obtain ms where ms: "preprocess lv_conf_h t = Inr ms" "preprocess lv_conf_h ms = Inr ms" "configured ms"
    by (rule lv_conf_configures [OF assms])
  have "list_all (\<lambda>(x, y). option_on ms x \<longrightarrow> option_on ms y) widget_requirements"
    using ms(3) by (simp add: configured_def widget_requirements_def)
  moreover have "list_all (option_on ms) (widget_options w @ call_options c @ ui_options u)" for w c u
    using configured_options [OF ms(3)] by simp
  ultimately show ?thesis using ms by (auto simp: configured_def)
qed

theorem lv_conf_serves_display_witness:
  "\<exists>ms. preprocess lv_conf_h [(''LV_OS_NONE'', Some (R_expr (E_num 0)))] = Inr ms
    \<and> lookup ms ''LV_COLOR_DEPTH'' = Some (R_expr (E_num 16))"
  using lv_conf_serves_display [of "[(''LV_OS_NONE'', Some (R_expr (E_num 0)))]"]
  by (auto simp: plain_constants_def plain_def lvgl_constants_def)

text \<open>
  C31: the images hold what their headers say. Each fits the area it is drawn in; drawing a pixel
  stays within the array, and no byte belongs to two pixels. With two bytes a pixel, three where
  there is an opacity, the pixels fill the array, whose length is the size in the descriptor.
\<close>

theorem images_in_bounds:
  assumes "d = image_dsc i" and "x < header_w d" and "y < header_h d"
  shows "(\<forall>k \<in> set (pixel_offsets d x y). k < length (image_data d)
      \<and> (\<forall>x' < header_w d. \<forall>y' < header_h d. k \<in> set (pixel_offsets d x' y') \<longrightarrow> x' = x \<and> y' = y))
    \<and> length (pixel_offsets d x y) * (header_w d * header_h d) = length (image_data d)
    \<and> data_size d = length (image_data d)
    \<and> int (header_w d) \<le> fst (image_area i) \<and> int (header_h d) \<le> snd (image_area i)"
proof -
  have ok: "image_ok d" using assms(1) image_dsc_ok by simp
  have "length (pixel_offsets d x y) * (header_w d * header_h d) = length (image_data d)"
    unfolding assms(1) image_length by (simp add: pixel_offsets_def split: color_format.split)
  moreover have "data_size d = length (image_data d)" using ok by (simp add: image_ok_def)
  ultimately show ?thesis
    using pixel_offsets_in [OF ok assms(2,3)] pixels_disjoint [OF ok _ assms(2) _ assms(3)]
      image_fits [of i] assms(1) by blast
qed

theorem images_in_bounds_witness:
  "length (pixel_offsets lock_icon 95 95) * (96 * 96) = length lock_icon_map
    \<and> data_size lock_icon = length (image_data lock_icon)"
  using images_in_bounds [of lock_icon Img_lock_icon 95 95] by (simp add: lock_icon_def)

end
