(* ===== verification/ProjectConfig.thy ===== *)
theory ProjectConfig
  imports Preprocessor EndpointConfig
begin

text \<open>
  The project's configuration of the Matter SDK, \<open>include/CHIPProjectConfig.h\<close>, and what the
  tables of the endpoints say of the same things.
\<close>

definition CHIPProjectConfig_h :: "directive list" where
  "CHIPProjectConfig_h =
    [Pragma ''once'',
     Ifndef ''CHIP_DEVICE_CONFIG_USE_TEST_SETUP_PIN_CODE'',
     Define ''CHIP_DEVICE_CONFIG_USE_TEST_SETUP_PIN_CODE'' (R_expr (E_num 20202021)),
     Endif,
     Define ''CHIP_DEVICE_CONFIG_USE_TEST_SETUP_DISCRIMINATOR'' (R_expr (E_num 3840)),
     Define ''CHIP_DEVICE_CONFIG_DEVICE_PRODUCT_ID'' (R_expr (E_num 32774)),
     Define ''CHIP_DEVICE_CONFIG_DEVICE_PRODUCT_NAME'' (R_text ''\"CYW955913 Lock\"''),
     Define ''CHIP_DEVICE_CONFIG_DEFAULT_DEVICE_HARDWARE_VERSION_STRING'' (R_text ''\"CYW955913\"''),
     Define ''CHIP_DEVICE_CONFIG_DEFAULT_DEVICE_HARDWARE_VERSION'' (R_expr (E_num 55900)),
     Ifndef ''CHIP_DEVICE_CONFIG_DEVICE_SOFTWARE_VERSION'',
     Define ''CHIP_DEVICE_CONFIG_DEVICE_SOFTWARE_VERSION'' (R_expr (E_num 1)),
     Endif,
     Define ''CHIP_DEVICE_CONFIG_DEVICE_TYPE'' (R_expr (E_num 10)),
     Define ''CHIP_CONFIG_SECURITY_TEST_MODE'' (R_expr (E_num 0)),
     Define ''CHIP_DEVICE_CONFIG_DEVICE_HARDWARE_VERSION'' (R_expr (E_num 55900)),
     Ifndef ''CHIP_DEVICE_CONFIG_DEVICE_SOFTWARE_VERSION_STRING'',
     Define ''CHIP_DEVICE_CONFIG_DEVICE_SOFTWARE_VERSION_STRING'' (R_text ''\"1.0\"''),
     Endif,
     Define ''CHIP_DEVICE_CONFIG_ENABLE_CHIPOBLE'' (R_expr (E_num 1)),
     Define ''CHIP_DEVICE_CONFIG_ENABLE_CHIP_TIME_SERVICE_TIME_SYNC'' (R_expr (E_num 0)),
     Define ''CHIP_DEVICE_CONFIG_TEST_SERIAL_NUMBER'' (R_text ''\"TEST_SN\"''),
     Define ''CHIP_DEVICE_CONFIG_EVENT_LOGGING_DEBUG_BUFFER_SIZE'' (R_expr (E_num 512)),
     If_expr (E_name ''CHIP_SYSTEM_CONFIG_USE_NETXDUO''),
     Define ''CHIP_SYSTEM_CONFIG_PACKETBUFFER_CAPACITY_MAX'' (R_expr (E_num 1540)),
     Endif,
     Define ''CHIP_CONFIG_SHA256_CONTEXT_SIZE'' (R_text ''(60 * sizeof(uint32_t))''),
     Define ''CHIP_CONFIG_ENABLE_ACL_EXTENSIONS'' (R_expr (E_num 1)),
     Define ''CHIP_DEVICE_CONFIG_WIFI_STATION_RECONNECT_INTERVAL'' (R_expr (E_num 30000))]"

text \<open>The size the endpoint tables give an attribute of a cluster of the root endpoint.\<close>

definition root_clusters :: "u32 \<Rightarrow> EmberAfCluster list" where
  "root_clusters c = filter (\<lambda>r. clusterId r = c) (type_clusters (GENERATED_ENDPOINT_TYPES ! 0))"

definition root_attribute_sizes :: "u32 \<Rightarrow> u32 \<Rightarrow> nat list" where
  "root_attribute_sizes c a = map attr_size
     (filter (\<lambda>m. attributeId m = a) (concat (map cluster_attributes (root_clusters c))))"

text \<open>The characters of a string literal, without the quotes.\<close>

definition literal_length :: "replacement \<Rightarrow> nat" where
  "literal_length r = (case r of R_text s \<Rightarrow> length s - 2 | _ \<Rightarrow> 0)"

text \<open>\<open>CHIP_SYSTEM_CONFIG_USE_NETXDUO\<close> comes from the platform: a number, or not defined.\<close>

definition plain_platform :: "macros \<Rightarrow> bool" where
  "plain_platform t \<longleftrightarrow> lookup t ''CHIP_SYSTEM_CONFIG_USE_NETXDUO'' = None
     \<or> (\<exists>n. lookup t ''CHIP_SYSTEM_CONFIG_USE_NETXDUO'' = Some (R_expr (E_num n)))"

definition default_of :: "macros \<Rightarrow> string \<Rightarrow> replacement \<Rightarrow> replacement option" where
  "default_of t x r = (case lookup t x of None \<Rightarrow> Some r | Some r' \<Rightarrow> Some r')"

lemma lookup_default:
  "pp_active s \<Longrightarrow> lookup (macros (set_default x r s)) x = default_of (macros s) x r"
  by (simp add: default_of_def split: option.split)

text \<open>What the macros \<open>ms\<close> say after the header, and what they keep of those before, \<open>t\<close>.\<close>

definition project_settings :: "macros \<Rightarrow> macros \<Rightarrow> bool" where
  "project_settings t ms \<longleftrightarrow>
     lookup ms ''CHIP_DEVICE_CONFIG_DEVICE_TYPE'' = Some (R_expr (E_num 10))
   \<and> lookup ms ''CHIP_CONFIG_SECURITY_TEST_MODE'' = Some (R_expr (E_num 0))
   \<and> lookup ms ''CHIP_DEVICE_CONFIG_DEVICE_PRODUCT_ID'' = Some (R_expr (E_num 32774))
   \<and> lookup ms ''CHIP_DEVICE_CONFIG_DEVICE_PRODUCT_NAME'' = Some (R_text ''\"CYW955913 Lock\"'')
   \<and> lookup ms ''CHIP_DEVICE_CONFIG_DEFAULT_DEVICE_HARDWARE_VERSION_STRING'' = Some (R_text ''\"CYW955913\"'')
   \<and> lookup ms ''CHIP_DEVICE_CONFIG_DEFAULT_DEVICE_HARDWARE_VERSION'' = Some (R_expr (E_num 55900))
   \<and> lookup ms ''CHIP_DEVICE_CONFIG_DEVICE_HARDWARE_VERSION'' = Some (R_expr (E_num 55900))
   \<and> lookup ms ''CHIP_DEVICE_CONFIG_TEST_SERIAL_NUMBER'' = Some (R_text ''\"TEST_SN\"'')
   \<and> lookup ms ''CHIP_DEVICE_CONFIG_USE_TEST_SETUP_DISCRIMINATOR'' = Some (R_expr (E_num 3840))
   \<and> lookup ms ''CHIP_DEVICE_CONFIG_USE_TEST_SETUP_PIN_CODE''
       = default_of t ''CHIP_DEVICE_CONFIG_USE_TEST_SETUP_PIN_CODE'' (R_expr (E_num 20202021))
   \<and> lookup ms ''CHIP_DEVICE_CONFIG_DEVICE_SOFTWARE_VERSION''
       = default_of t ''CHIP_DEVICE_CONFIG_DEVICE_SOFTWARE_VERSION'' (R_expr (E_num 1))
   \<and> lookup ms ''CHIP_DEVICE_CONFIG_DEVICE_SOFTWARE_VERSION_STRING''
       = default_of t ''CHIP_DEVICE_CONFIG_DEVICE_SOFTWARE_VERSION_STRING'' (R_text ''\"1.0\"'')"

text \<open>The header up to its only condition, that condition, and the rest.\<close>

lemma project_config_split: "CHIPProjectConfig_h = take 22 CHIPProjectConfig_h
   @ [If_expr (E_name ''CHIP_SYSTEM_CONFIG_USE_NETXDUO''),
      Define ''CHIP_SYSTEM_CONFIG_PACKETBUFFER_CAPACITY_MAX'' (R_expr (E_num 1540)), Endif]
   @ drop 25 CHIPProjectConfig_h"
  by (simp add: CHIPProjectConfig_h_def)

lemma project_config_start:
  "pp_active s \<Longrightarrow> \<exists>s'. pp_run (take 22 CHIPProjectConfig_h) s = Inr s' \<and> groups s' = groups s
    \<and> lookup (macros s') ''CHIP_SYSTEM_CONFIG_USE_NETXDUO''
      = lookup (macros s) ''CHIP_SYSTEM_CONFIG_USE_NETXDUO''
    \<and> project_settings (macros s) (macros s')"
  by (simp add: CHIPProjectConfig_h_def pp_run_default pp_run_define default_of_def project_settings_def
      split: option.split del: pp_run.simps(2))

lemma project_config_condition:
  assumes "groups s = []" and "plain_platform (macros s)"
  shows "\<exists>s'. pp_run [If_expr (E_name ''CHIP_SYSTEM_CONFIG_USE_NETXDUO''),
      Define ''CHIP_SYSTEM_CONFIG_PACKETBUFFER_CAPACITY_MAX'' (R_expr (E_num 1540)), Endif] s = Inr s'
    \<and> groups s' = [] \<and> (project_settings t (macros s) \<longrightarrow> project_settings t (macros s'))"
  using assms
  by (cases s) (auto simp: plain_platform_def pp_active_def open_group_def set_macro_def project_settings_def)

lemma project_config_end:
  "groups s = [] \<Longrightarrow> \<exists>s'. pp_run (drop 25 CHIPProjectConfig_h) s = Inr s' \<and> groups s' = []
    \<and> lookup (macros s') ''CHIP_CONFIG_ENABLE_ACL_EXTENSIONS'' = Some (R_expr (E_num 1))
    \<and> (project_settings t (macros s) \<longrightarrow> project_settings t (macros s'))"
  by (simp add: CHIPProjectConfig_h_def pp_active_def set_macro_def project_settings_def)

lemma project_config_done:
  assumes "plain_platform t"
  obtains ms where "preprocess CHIPProjectConfig_h t = Inr ms" and "project_settings t ms"
    and "lookup ms ''CHIP_CONFIG_ENABLE_ACL_EXTENSIONS'' = Some (R_expr (E_num 1))"
proof -
  let ?s = "\<lparr>macros = t, groups = []\<rparr>"
  obtain u where u: "pp_run (take 22 CHIPProjectConfig_h) ?s = Inr u" "groups u = []"
    "plain_platform (macros u)" "project_settings t (macros u)"
    using project_config_start [of ?s] assms by (auto simp: pp_active_def plain_platform_def)
  from project_config_condition [OF u(2,3), of t] u(4) obtain v where
    v: "pp_run [If_expr (E_name ''CHIP_SYSTEM_CONFIG_USE_NETXDUO''),
      Define ''CHIP_SYSTEM_CONFIG_PACKETBUFFER_CAPACITY_MAX'' (R_expr (E_num 1540)), Endif] u = Inr v"
    "groups v = []" "project_settings t (macros v)"
    by auto
  from project_config_end [OF v(2), of t] v(3) obtain w where
    w: "pp_run (drop 25 CHIPProjectConfig_h) v = Inr w" "groups w = []"
    "lookup (macros w) ''CHIP_CONFIG_ENABLE_ACL_EXTENSIONS'' = Some (R_expr (E_num 1))"
    "project_settings t (macros w)"
    by auto
  have "pp_run CHIPProjectConfig_h ?s = Inr w"
    by (subst project_config_split) (simp only: pp_run_append u v w sum.case)
  then show thesis using w by (intro that [of "macros w"]) (simp_all add: preprocess_def)
qed

section \<open>Against the endpoint tables\<close>

text \<open>
  A string attribute keeps one byte for the length of the string, a number has the size of its
  type.
\<close>

definition string_fits :: "macros \<Rightarrow> string \<Rightarrow> u32 \<Rightarrow> bool" where
  "string_fits ms x a \<longleftrightarrow> (case (lookup ms x, root_attribute_sizes 0x28 a) of
     (Some r, [n]) \<Rightarrow> (case r of R_text s \<Rightarrow> Suc (literal_length r) \<le> n | _ \<Rightarrow> False)
   | _ \<Rightarrow> False)"

definition number_fits :: "macros \<Rightarrow> string \<Rightarrow> u32 \<Rightarrow> bool" where
  "number_fits ms x a \<longleftrightarrow> (case (lookup ms x, root_attribute_sizes 0x28 a) of
     (Some (R_expr (E_num k)), [n]) \<Rightarrow> 0 \<le> k \<and> k < 256 ^ n
   | _ \<Rightarrow> False)"

lemma root_sizes:
  "root_attribute_sizes 0x28 0x3 = [33]" "root_attribute_sizes 0x28 0x4 = [2]"
  "root_attribute_sizes 0x28 0x7 = [2]" "root_attribute_sizes 0x28 0x8 = [65]"
  "root_attribute_sizes 0x28 0x9 = [4]" "root_attribute_sizes 0x28 0xA = [65]"
  "root_attribute_sizes 0x1F 0x1 = [0]"
  by code_simp+

text \<open>
  C40: the project's configuration agrees with the endpoint tables. Whatever was defined before,
  the header is read to its end. The device type it advertises is that of the lock's endpoint,
  the extensions of the access control list are built in exactly when the root endpoint has
  their attribute, the test mode without security is off, and the names and numbers of the
  device fit the attributes of Basic Information that show them. The test passcode and the
  software version are defaults that an earlier definition overrides.
\<close>

theorem project_configuration:
  assumes "plain_platform t"
  shows "\<exists>ms. preprocess CHIPProjectConfig_h t = Inr ms
    \<and> lookup ms ''CHIP_DEVICE_CONFIG_DEVICE_TYPE''
        = Some (R_expr (E_num (uint (fst (FIXED_DEVICE_TYPES ! (FIXED_DEVICE_TYPE_OFFSETS ! 1))))))
    \<and> (lookup ms ''CHIP_CONFIG_ENABLE_ACL_EXTENSIONS'' = Some (R_expr (E_num 1))
        \<longleftrightarrow> root_attribute_sizes 0x1F 0x1 \<noteq> [])
    \<and> lookup ms ''CHIP_CONFIG_SECURITY_TEST_MODE'' = Some (R_expr (E_num 0))
    \<and> string_fits ms ''CHIP_DEVICE_CONFIG_DEVICE_PRODUCT_NAME'' 0x3
    \<and> number_fits ms ''CHIP_DEVICE_CONFIG_DEVICE_PRODUCT_ID'' 0x4
    \<and> number_fits ms ''CHIP_DEVICE_CONFIG_DEFAULT_DEVICE_HARDWARE_VERSION'' 0x7
    \<and> string_fits ms ''CHIP_DEVICE_CONFIG_DEFAULT_DEVICE_HARDWARE_VERSION_STRING'' 0x8
    \<and> lookup ms ''CHIP_DEVICE_CONFIG_USE_TEST_SETUP_PIN_CODE''
        = default_of t ''CHIP_DEVICE_CONFIG_USE_TEST_SETUP_PIN_CODE'' (R_expr (E_num 20202021))
    \<and> (case lookup t ''CHIP_DEVICE_CONFIG_DEVICE_SOFTWARE_VERSION'' of
         None \<Rightarrow> number_fits ms ''CHIP_DEVICE_CONFIG_DEVICE_SOFTWARE_VERSION'' 0x9
       | Some r \<Rightarrow> lookup ms ''CHIP_DEVICE_CONFIG_DEVICE_SOFTWARE_VERSION'' = Some r)
    \<and> (case lookup t ''CHIP_DEVICE_CONFIG_DEVICE_SOFTWARE_VERSION_STRING'' of
         None \<Rightarrow> string_fits ms ''CHIP_DEVICE_CONFIG_DEVICE_SOFTWARE_VERSION_STRING'' 0xA
       | Some r \<Rightarrow> lookup ms ''CHIP_DEVICE_CONFIG_DEVICE_SOFTWARE_VERSION_STRING'' = Some r)"
proof -
  obtain ms where ms: "preprocess CHIPProjectConfig_h t = Inr ms" "project_settings t ms"
    "lookup ms ''CHIP_CONFIG_ENABLE_ACL_EXTENSIONS'' = Some (R_expr (E_num 1))"
    by (rule project_config_done [OF assms])
  have "uint (fst (FIXED_DEVICE_TYPES ! (FIXED_DEVICE_TYPE_OFFSETS ! 1))) = 10"
    by (simp add: FIXED_DEVICE_TYPES_def FIXED_DEVICE_TYPE_OFFSETS_def)
  then show ?thesis
    using ms
    by (intro exI [of _ ms])
       (simp add: project_settings_def string_fits_def number_fits_def root_sizes literal_length_def
         default_of_def split: option.split)
qed

theorem project_configuration_witness:
  "\<exists>ms. preprocess CHIPProjectConfig_h [(''CHIP_SYSTEM_CONFIG_USE_NETXDUO'', Some (R_expr (E_num 1)))] = Inr ms
    \<and> lookup ms ''CHIP_CONFIG_SECURITY_TEST_MODE'' = Some (R_expr (E_num 0))"
  using project_configuration [of "[(''CHIP_SYSTEM_CONFIG_USE_NETXDUO'', Some (R_expr (E_num 1)))]"]
  by (auto simp: plain_platform_def)

end
