(* ===== verification/Spec2Isabelle.thy ===== *)
theory Spec2Isabelle
  imports LockProps SystemClaims DataModelProps ProviderClaims PeripheralClaims DisplayClaims ProjectConfig
begin

text \<open>
  A model of the firmware of a Matter door lock for the CYW955913 board, and what makes it
  correct. The program is under \<open>src/\<close> (\<open>src/*.cpp\<close>, \<open>include/*.h\<close>, \<open>lvgl_support/*\<close> and
  the generated \<open>zap-generated\<close> and \<open>static-cluster-config\<close>). Definitions have the names of
  the functions they model; where two classes share a name the class is a prefix
  (\<open>LockManager_Init\<close>, \<open>AppTask_Init\<close>, \<open>Led_Set\<close>, \<open>AllClusters_SetUserLabelAt\<close>).

  \<^bold>\<open>The program.\<close> \<open>main\<close> starts the watchdog and, with a display, the display task, and creates
  the thread of \<open>main_task\<close>, which brings up the Matter stack and starts the application
  task. That task (\<open>AppTask.cpp\<close>) initialises the lock manager (\<open>LockManager.cpp\<close>), the LED and
  the button, and then takes events from a queue of ten: timers, the button and the
  screen post them. The lock manager keeps users, credentials and schedules in arrays that
  it writes to non-volatile storage, and simulates the bolt by a timer of two seconds. The
  Matter server calls \<open>ZclCallbacks.cpp\<close> in its own task for lock commands and for the
  databases; the LockState attribute is set from there and from work that the application
  task schedules. The generated files describe the data model: endpoints, clusters,
  attributes, commands, privileges, and the dispatch of commands.

  \<^bold>\<open>How it is modelled.\<close> A call is a function from the state to an \<open>outcome\<close>: it returns, it ends
  in the endless loop of \<open>appError\<close>, or it is undefined behaviour (a null or dangling
  pointer, a read or copy outside its array, a read of the wrong union member). Integers have
  the width of the source and wrap around. Memory that is shared through spans is explicit: a
  \<open>ByteSpan\<close> into an array is the array's name, an offset and a length. What is not under
  \<open>src/\<close> (Matter SDK, RTOS abstraction, LVGL, hardware layer) is a parameter: the fields of
  \<open>env\<close>, \<open>sdk\<close>, \<open>label_sdk\<close>, \<open>touch_hal\<close> and \<open>lvgl\<close>, or the arguments that say what it answers.

  \<^bold>\<open>Theories and code.\<close>
  \<^item> Shared: \<open>Prelude\<close> (integers, outcomes, memory), \<open>Platform\<close> (the environment and
    \<open>include/AppEvent.h\<close>), \<open>World\<close> (the globals of the program). Interfaces, each a locale with the
    client's facts: \<open>SlotStore\<close> (tables written slot by slot, interpreted by the five
    databases), \<open>Iteration\<close> (iterators, interpreted by those of the two providers) and
    \<open>TransitionSystem\<close> (invariants and simulations, interpreted by the running program).
  \<^item> \<open>LockManager.h\<close>, \<open>LockManager.cpp\<close>: \<open>LockTypes\<close>, \<open>LockUsers\<close>, \<open>LockCredentials\<close>,
    \<open>LockSchedules\<close> (the databases), \<open>Actuator\<close> (the movement), \<open>LockAccess\<close> (start-up and PIN),
    \<open>LockFlash\<close> (persistence; \<open>FlashCodec\<close> is one concrete representation).
  \<^item> \<open>AppTask.cpp\<close>: \<open>AppTask\<close> (events, factory reset, LED, attribute), \<open>Startup\<close>. \<open>LedWidget\<close>
    is \<open>platform/LEDWidget.cpp\<close>, \<open>Buttons\<close> is \<open>ButtonHandler.cpp\<close>, \<open>ZclCallbacks\<close> is
    \<open>ZclCallbacks.cpp\<close>, \<open>MainTask\<close> is \<open>main.cpp\<close>, \<open>main_task.cpp\<close>, \<open>mbedtls_helpers.cpp\<close> and
    \<open>platform/init_cyw955913Platform.cpp\<close>.
  \<^item> \<open>lvgl_support\<close>: \<open>Touch\<close> is \<open>ft6206.c\<close> and \<open>lv_port_indev_ft6206.c\<close>, \<open>Display\<close> is
    \<open>lvgl_support.c\<close> (\<open>ObjectTree\<close> is an object tree with the laws asked of LVGL), \<open>LvConf\<close> is
    \<open>lv_conf.h\<close>, \<open>ImageData\<close> and \<open>Images\<close> are \<open>images/*.c\<close>, \<open>DisplayConfig\<close> says what the display
    needs of both.
  \<^item> Configuration: \<open>Preprocessor\<close> (directives, conditions and macros of C, which \<open>LvConf\<close> and
    \<open>ProjectConfig\<close> share; what a header leaves can be read off without running it),
    \<open>ProjectConfig\<close> (\<open>CHIPProjectConfig.h\<close>).
  \<^item> \<open>providers\<close>: \<open>DeviceInfo\<close> and \<open>DeviceInfoExample\<close>; \<open>LabelStore\<close> has the laws of the storage
    and of TLV and what they give.
  \<^item> Data model: \<open>EndpointConfig\<close> (\<open>endpoint_config.h\<close>), \<open>AccessTables\<close> (\<open>access.h\<close>), \<open>StaticConfig\<close>
    (\<open>static-cluster-config\<close>), \<open>CommandDispatch\<close> (\<open>IMClusterCommandHandler.cpp\<close>), \<open>GenConfig\<close>
    (\<open>gen_config.h\<close>), \<open>ClusterCallbacks\<close> (\<open>cluster-callbacks.cpp\<close>, \<open>callback-stub.cpp\<close>,
    \<open>PluginApplicationCallbacks.h\<close>), \<open>DataModel\<close> (the documented numbers).
  \<^item> The running program: \<open>System\<close> (its steps: the application task, timers, the button
    interrupt, the screen, the Matter task, in any order), \<open>SystemInv\<close>, \<open>SystemSafe\<close>, \<open>SystemCore\<close>,
    \<open>SystemProps\<close> (invariants, definedness, the seven kinds of moves), \<open>Witness\<close> (concrete
    inputs), \<open>ScreenButton\<close> and \<open>ScreenInv\<close> (the screen together with the lock), \<open>PowerOn\<close> (from
    \<open>main_task\<close> to the first state of the running program).

  \<^bold>\<open>What is shown.\<close> \<open>SystemClaims\<close>: along every run a call is undefined in one case
  only (a null attribute when commissioning completes), the actuator's protocol, the databases' invariants and the LED's hold, the bolt only moves around its
  cycle; when the attribute agrees with the bolt, and the two races and the full queue in
  which the program goes wrong; what a factory reset needs. \<open>LockProps\<close>: the databases refine
  finite maps for any history of calls, which PIN opens, what a restart gives back and what it
  loses, names and credentials that do not fit. \<open>DataModelProps\<close> and \<open>ProviderClaims\<close>: the
  generated descriptions agree with each other (lemmas: their tables are well formed), commands reach their own
  callback, labels round-trip and iterators end. \<open>PeripheralClaims\<close>: what touches are reported,
  that the display keeps no dangling pointer, that a click moves the bolt, start-up errors
  and its end in an initial state of the running program, memory and watchdog.
  \<open>DisplayClaims\<close> and \<open>ProjectConfig\<close>: at rest the screen shows the end the bolt is at, LVGL is
  configured for what the display uses, drawing stays within the images, and the project's
  settings agree with the endpoint tables.

  \<^bold>\<open>Hypotheses.\<close> \<open>timer_ok\<close>, \<open>queue_ok\<close>: a timer that was started is running, a queue of ten takes
  an event unless it is full. \<open>flash_ok\<close> and the representation predicates: a blob written
  is read back, and object representations have their size and decode to what was encoded.
  \<open>copy_string_ok\<close> and \<open>label_copy_ok\<close>: \<open>CopyString\<close> truncates and terminates. \<open>platform_ok\<close>
  collects them. \<open>idents_ok\<close>, \<open>sdk_numbers_ok\<close>: the SDK's identifiers are the documented numbers.
  \<open>label_sdk_ok\<close>: storage, keys and TLV of the labels. \<open>lv_ok\<close>: the laws of LVGL's object tree.
  \<open>plain_constants\<close>, \<open>plain_platform\<close>: the macros of the libraries that conditions read are numbers
  or not defined. \<open>truthful\<close>: the attribute read when commissioning completes tells where the bolt
  rests. \<open>server_owes\<close>: the door lock server passes credential data that fit a slot and as many
  credentials of a user as it announces; the calls of a run (\<open>goes\<close>) are such calls, while the
  step relation itself has every call. \<open>periodic_ok\<close>, \<open>watchdog_ok\<close>: a periodic timer is never early
  and late by a bounded time, and the watchdog resets the device when a configuration runs out.
  Each is shown to hold for a concrete instance that the witnesses use.

  \<^bold>\<open>Bounds.\<close> The queue holds ten events; there are ten users, ten week-day and year-day
  schedules per user and ten holidays; of each of the six types of credentials there are 100
  slots of twenty bytes, of which the indices below ten are in use, as in \<open>LockManager.h\<close>. No recursion uses fuel: the loops run over lists of that size,
  the client's loop over an iterator is a partial function shown to end, and the endless
  loops of the application and display tasks are their rounds.

  \<^bold>\<open>Not modelled.\<close> The SDK, the RTOS and LVGL themselves. Calls are atomic: the display task and
  the application task call LVGL without a lock, which the model does not interleave, nor does
  it the interrupt with a poll of the touch counter. Setting the LockState attribute is taken
  to succeed. Log lines and \<open>print_max_sram_heap_usage\<close>, which only print; \<open>Release\<close> of an
  iterator, which deletes it, and the unused default instances of the providers; the choice of
  the header of LVGL in \<open>images/*.c\<close>. Commands and screen clicks that come before \<open>lockMgr_Init\<close>
  has run are outside the transition system, which starts after it.
\<close>

end
